(* ===== verification/Prelude.thy ===== *)
theory Prelude
  imports Main "HOL-Library.AList" "HOL-Library.Word"
begin

text \<open>
  Shared vocabulary of the lib3h development: the outcome type of a stateful Rust function
  (a value, an error return or a panic), machine integers with Rust's overflow behaviour,
  hash maps as association lists, the generic lemmas on them, and two interfaces that
  several components implement (a keyed table, a machine with an invariant).
\<close>

section \<open>Outcomes of Rust functions\<close>

text \<open>
  A Rust function that mutates a state \<open>'s\<close> and returns \<open>Result<'a, 'e>\<close> has three ways
  to end. An error return (the \<open>?\<close> operator included) keeps every mutation made before
  it, so \<open>Err\<close> carries the state too. A panic unwinds; what is left of the state is not
  observable, and the string names the panic site.
\<close>

datatype ('s, 'e, 'a) outcome = Ok 'a 's | Err 'e 's | Panic string

text \<open>Sequencing: the \<open>?\<close> operator on the first part.\<close>

fun bind_ok :: "('s, 'e, 'a) outcome \<Rightarrow> ('a \<Rightarrow> 's \<Rightarrow> ('s, 'e, 'b) outcome) \<Rightarrow> ('s, 'e, 'b) outcome" where
  "bind_ok (Ok v s) f = f v s"
| "bind_ok (Err e s) f = Err e s"
| "bind_ok (Panic m) f = Panic m"

text \<open>The error conversion \<open>From\<close> that \<open>?\<close> applies.\<close>

fun map_err :: "('e \<Rightarrow> 'f) \<Rightarrow> ('s, 'e, 'a) outcome \<Rightarrow> ('s, 'f, 'a) outcome" where
  "map_err f (Ok v s) = Ok v s"
| "map_err f (Err e s) = Err (f e) s"
| "map_err f (Panic m) = Panic m"

text \<open>\<open>expect\<close> and \<open>unwrap\<close>: an error return becomes a panic.\<close>

fun expect :: "string \<Rightarrow> ('s, 'e, 'a) outcome \<Rightarrow> ('s, 'f, 'a) outcome" where
  "expect m (Ok v s) = Ok v s"
| "expect m (Err e s) = Panic m"
| "expect m (Panic m') = Panic m'"

text \<open>Running part of a larger state: \<open>put\<close> writes the changed part back.\<close>

fun lift_state :: "('s \<Rightarrow> 't) \<Rightarrow> ('s, 'e, 'a) outcome \<Rightarrow> ('t, 'e, 'a) outcome" where
  "lift_state put (Ok v s) = Ok v (put s)"
| "lift_state put (Err e s) = Err e (put s)"
| "lift_state put (Panic m) = Panic m"

text \<open>A \<open>for\<close> loop whose body may return early with an error.\<close>

fun for_each :: "('x \<Rightarrow> 's \<Rightarrow> ('s, 'e, unit) outcome) \<Rightarrow> 'x list \<Rightarrow> 's \<Rightarrow> ('s, 'e, unit) outcome" where
  "for_each body [] s = Ok () s"
| "for_each body (x # xs) s = bind_ok (body x s) (\<lambda>_. for_each body xs)"

fun is_panic :: "('s, 'e, 'a) outcome \<Rightarrow> bool" where
  "is_panic (Panic _) = True"
| "is_panic _ = False"

text \<open>The state an outcome leaves behind, when it leaves one.\<close>

fun final_state :: "('s, 'e, 'a) outcome \<Rightarrow> 's option" where
  "final_state (Ok v s) = Some s"
| "final_state (Err e s) = Some s"
| "final_state (Panic m) = None"

text \<open>The \<open>?\<close> operator in a function without state.\<close>

fun and_then :: "'e + 'a \<Rightarrow> ('a \<Rightarrow> 'e + 'b) \<Rightarrow> 'e + 'b" where
  "and_then (Inl e) f = Inl e"
| "and_then (Inr v) f = f v"

named_theorems outcome_simps \<open>rewriting of outcome combinators\<close>

lemma bind_ok_eq_Ok [outcome_simps]:
  "bind_ok r f = Ok v s \<longleftrightarrow> (\<exists>v' s'. r = Ok v' s' \<and> f v' s' = Ok v s)"
  by (cases r) auto

lemma bind_ok_eq_Panic [outcome_simps]:
  "bind_ok r f = Panic m \<longleftrightarrow> r = Panic m \<or> (\<exists>v' s'. r = Ok v' s' \<and> f v' s' = Panic m)"
  by (cases r) auto

lemma bind_ok_cong [fundef_cong]:
  "r = r' \<Longrightarrow> (\<And>v s. r' = Ok v s \<Longrightarrow> f v s = g v s) \<Longrightarrow> bind_ok r f = bind_ok r' g"
  by (cases r) auto

lemma bind_ok_assoc: "bind_ok (bind_ok r f) g = bind_ok r (\<lambda>v s. bind_ok (f v s) g)"
  by (cases r) auto

lemma lift_state_eq_Ok [outcome_simps]:
  "lift_state put r = Ok v t \<longleftrightarrow> (\<exists>s. r = Ok v s \<and> t = put s)"
  by (cases r) auto

lemma final_state_bind_ok:
  "final_state (bind_ok r f) =
     (case r of Ok v s \<Rightarrow> final_state (f v s) | Err e s \<Rightarrow> Some s | Panic m \<Rightarrow> None)"
  by (cases r) auto

lemma final_state_lift_state: "final_state (lift_state put r) = map_option put (final_state r)"
  by (cases r) auto

lemma final_state_map_err [simp]: "final_state (map_err f r) = final_state r"
  by (cases r) auto

lemma final_state_expect:
  "final_state (expect m r) = Some s \<Longrightarrow> final_state r = Some s"
  by (cases r) auto

lemma for_each_append:
  "for_each body (xs @ ys) s = bind_ok (for_each body xs s) (\<lambda>_. for_each body ys)"
  by (induction xs arbitrary: s) (auto simp: bind_ok_assoc fun_eq_iff intro!: arg_cong2[where f = bind_ok])

text \<open>
  A loop invariant carries over a \<open>for\<close> loop, early returns included.
\<close>

lemma for_each_invariant:
  assumes "\<And>x s s'. x \<in> set xs \<Longrightarrow> P s \<Longrightarrow> final_state (body x s) = Some s' \<Longrightarrow> P s'"
    and "P s" and "final_state (for_each body xs s) = Some s'"
  shows "P s'"
  using assms
proof (induction xs arbitrary: s)
  case Nil
  then show ?case by simp
next
  case (Cons x xs)
  show ?case
  proof (cases "body x s")
    case (Ok v s1)
    then have "P s1" using Cons.prems(1)[of x s s1] Cons.prems(2) by simp
    moreover have "final_state (for_each body xs s1) = Some s'"
      using Cons.prems(3) Ok by simp
    moreover have "P t'" if "y \<in> set xs" "P t" "final_state (body y t) = Some t'" for y t t'
      using Cons.prems(1)[of y t t'] that by simp
    ultimately show ?thesis using Cons.IH[of s1] by blast
  next
    case (Err e s1)
    then show ?thesis using Cons.prems(1)[of x s s1] Cons.prems(2,3) by simp
  next
    case (Panic m)
    then show ?thesis using Cons.prems by simp
  qed
qed

section \<open>Machine integers\<close>

type_synonym u8 = "8 word"
type_synonym u16 = "16 word"
type_synonym u32 = "32 word"
type_synonym u64 = "64 word"

text \<open>Byte strings: \<open>Vec<u8>\<close>, and a Rust \<open>String\<close> is its UTF-8 bytes.\<close>

type_synonym bytes = "u8 list"

text \<open>\<open>as_bytes\<close> of a string.\<close>

definition string_bytes :: "string \<Rightarrow> bytes" where
  "string_bytes s = map of_char s"

text \<open>Decimal rendering of a number, as \<open>format!\<close> does it.\<close>

fun string_of_nat :: "nat \<Rightarrow> string" where
  "string_of_nat n =
     (if n < 10 then [char_of (48 + n)]
      else string_of_nat (n div 10) @ [char_of (48 + n mod 10)])"

declare string_of_nat.simps [simp del]

text \<open>
  Rust's \<open>-\<close> on \<open>u64\<close>: with overflow checks (debug builds) it panics below zero (\<open>None\<close>),
  without them (release builds) it wraps. \<open>checks\<close> says how the crate was built.
\<close>

definition sub_u64 :: "bool \<Rightarrow> u64 \<Rightarrow> u64 \<Rightarrow> u64 option" where
  "sub_u64 checks a b = (if checks \<and> a < b then None else Some (a - b))"

definition add_u64 :: "bool \<Rightarrow> u64 \<Rightarrow> u64 \<Rightarrow> u64 option" where
  "add_u64 checks a b = (if checks \<and> a + b < a then None else Some (a + b))"

lemma sub_u64_no_wrap: "b \<le> a \<Longrightarrow> sub_u64 checks a b = Some (a - b)"
  by (auto simp: sub_u64_def)

text \<open>
  Wall-clock time (\<open>SystemTime\<close>, \<open>Instant\<close>) is counted in milliseconds. \<open>checked_add\<close>
  fails above the largest representable time (a signed 64-bit count of seconds).
\<close>

type_synonym time = nat

definition TIME_MAX :: time where
  "TIME_MAX = (2 ^ 63 - 1) * 1000 + 999"

definition checked_add_time :: "time \<Rightarrow> nat \<Rightarrow> time option" where
  "checked_add_time t d = (if t + d \<le> TIME_MAX then Some (t + d) else None)"

section \<open>Hash maps\<close>

text \<open>
  A \<open>HashMap\<close> is an association list with distinct keys: the list order stands for the
  (unspecified) iteration order, and theorems hold for every such list. \<open>insert\<close>,
  \<open>remove\<close> and \<open>get\<close> are \<^const>\<open>AList.update\<close>, \<^const>\<open>AList.delete\<close> and \<^const>\<open>map_of\<close>.
\<close>

type_synonym ('k, 'v) hashmap = "('k \<times> 'v) list"

abbreviation keys :: "('k, 'v) hashmap \<Rightarrow> 'k list" where
  "keys m \<equiv> map fst m"

abbreviation wf_map :: "('k, 'v) hashmap \<Rightarrow> bool" where
  "wf_map m \<equiv> distinct (keys m)"

lemmas hashmap_simps = update_conv' delete_conv'

text \<open>
  A key that is new goes to the end.
\<close>

lemma update_new: "map_of m k = None \<Longrightarrow> AList.update k v m = m @ [(k, v)]"
  by (induction m) (auto split: if_splits)

lemma wf_map_update [simp, intro]: "wf_map m \<Longrightarrow> wf_map (AList.update k v m)"
  by (rule distinct_update)

lemma wf_map_delete [simp, intro]: "wf_map m \<Longrightarrow> wf_map (AList.delete k m)"
  by (rule distinct_delete)

lemma keys_update_set: "set (keys (AList.update k v m)) = insert k (set (keys m))"
  by (metis dom_map_of_conv_image_fst dom_fun_upd dom_map_of_conv_image_fst
        image_set option.distinct(1) update_conv')

lemma keys_delete_set: "set (keys (AList.delete k m)) = set (keys m) - {k}"
  by (simp add: delete_keys)

lemma map_of_in_keys: "map_of m k = Some v \<Longrightarrow> k \<in> set (keys m)"
  by (metis dom_map_of_conv_image_fst domI image_set)

lemma in_keys_map_of: "k \<in> set (keys m) \<Longrightarrow> \<exists>v. map_of m k = Some v"
  by (metis domD dom_map_of_conv_image_fst image_set)

lemma keys_map_of_None: "map_of m k = None \<longleftrightarrow> k \<notin> set (keys m)"
  by (simp add: map_of_eq_None_iff)

lemma delete_notin: "k \<notin> set (keys m) \<Longrightarrow> AList.delete k m = m"
  by (simp add: delete_idem)

lemma delete_filter: "AList.delete k m = filter (\<lambda>(k', _). k \<noteq> k') m"
  by (simp add: AList.delete_eq)

section \<open>Interfaces shared by the components\<close>

text \<open>
  A keyed table: what the request trackers promise their clients. \<open>put k v t\<close> starts to
  track \<open>k\<close>, \<open>take k t\<close> stops tracking it.
\<close>

locale keyed_table =
  fixes lookup :: "'t \<Rightarrow> 'k \<Rightarrow> 'v option"
    and put :: "'k \<Rightarrow> 'v \<Rightarrow> 't \<Rightarrow> 't"
    and take_key :: "'k \<Rightarrow> 't \<Rightarrow> 't"
    and invar :: "'t \<Rightarrow> bool"
  assumes lookup_put: "invar t \<Longrightarrow> lookup (put k v t) = (lookup t)(k \<mapsto> v)"
    and lookup_take: "invar t \<Longrightarrow> lookup (take_key k t) = (lookup t)(k := None)"
    and invar_put: "invar t \<Longrightarrow> invar (put k v t)"
    and invar_take: "invar t \<Longrightarrow> invar (take_key k t)"
begin

lemma put_then_take:
  assumes "invar t" and "lookup t k = None"
  shows "lookup (take_key k (put k v t)) = lookup t"
  using assms by (auto simp: lookup_take lookup_put invar_put fun_eq_iff)

lemma take_twice: "invar t \<Longrightarrow> lookup (take_key k (take_key k t)) k = None"
  by (simp add: lookup_take invar_take)

lemma take_list_invar: "invar t \<Longrightarrow> invar (fold take_key ks t)"
  by (induction ks arbitrary: t) (auto simp: invar_take)

lemma take_list:
  "invar t \<Longrightarrow> lookup (fold take_key ks t) k = (if k \<in> set ks then None else lookup t k)"
  by (induction ks arbitrary: t) (auto simp: lookup_take invar_take)

end

text \<open>Running a list of inputs, stopping where a step does not end in a state (a panic).\<close>

fun run_steps :: "('i \<Rightarrow> 's \<Rightarrow> 's option) \<Rightarrow> 'i list \<Rightarrow> 's \<Rightarrow> 's option" where
  "run_steps step [] s = Some s"
| "run_steps step (i # is) s = Option.bind (step i s) (run_steps step is)"

text \<open>
  A machine with an invariant: a step (total, partial or failing) that keeps a predicate
  and moves along a preorder keeps both over every run.
\<close>

locale invariant_machine =
  fixes step :: "'i \<Rightarrow> 's \<Rightarrow> 's option"
    and inv :: "'s \<Rightarrow> bool"
    and grows :: "'s \<Rightarrow> 's \<Rightarrow> bool"
  assumes step_inv: "inv s \<Longrightarrow> step i s = Some s' \<Longrightarrow> inv s'"
    and step_grows: "inv s \<Longrightarrow> step i s = Some s' \<Longrightarrow> grows s s'"
    and grows_refl: "grows s s"
    and grows_trans: "grows s t \<Longrightarrow> grows t u \<Longrightarrow> grows s u"
begin

lemma run_inv: "inv s \<Longrightarrow> run_steps step is s = Some s' \<Longrightarrow> inv s'"
  by (induction "is" arbitrary: s) (auto simp: bind_eq_Some_conv intro: step_inv)

lemma run_grows: "inv s \<Longrightarrow> run_steps step is s = Some s' \<Longrightarrow> grows s s'"
proof (induction "is" arbitrary: s)
  case Nil
  then show ?case by (simp add: grows_refl)
next
  case (Cons i "is")
  then obtain t where "step i s = Some t" and "run_steps step is t = Some s'"
    by (auto simp: bind_eq_Some_conv)
  with Cons show ?case by (meson grows_trans step_grows step_inv)
qed

end

end
