(* ===== verification/Ghost_Tracker.thy ===== *)
theory Ghost_Tracker
  imports Prelude
begin

text \<open>
  The request tracker of the actor framework (\<open>crates/zombie_actor/src/ghost_tracker.rs\<close>), with
  \<open>GhostError\<close>, \<open>RequestId\<close>, \<open>WorkWasDone\<close> and \<open>Backtwrap\<close> of the same crate. A tracker keeps
  one callback per pending request id; a callback is consumed when a response arrives
  (\<open>handle\<close>) or when its timeout passes (\<open>process\<close>).

  Callbacks are Rust closures of type \<open>FnOnce(&mut UserData, GhostCallbackData) -> GhostResult<()>\<close>.
  The model keeps them in the tracker as values of a type \<open>'cb\<close> (a closure's code and captured
  variables) and takes the function \<open>call\<close> that runs one; each actor supplies its own.
  \<open>SystemTime::now()\<close>, the random part of a request id (the \<open>nanoid\<close> package) and the captured
  backtrace are arguments.
\<close>

section \<open>Errors, ids, backtraces\<close>

datatype GhostError =
    Multiple "GhostError list"
  | RequestIdNotFound string
  | Other string
  | EndpointDisconnected
  | Nonexhaustive

text \<open>
  \<open>Display\<close> for \<open>GhostError\<close>: \<open>None\<close> is the \<open>unreachable!()\<close> panic; \<open>dbg\<close> is \<open>{:?}\<close> of the
  wrapped value.
\<close>

definition GhostError_display ::
  "(GhostError list \<Rightarrow> string) \<Rightarrow> (string \<Rightarrow> string) \<Rightarrow> GhostError \<Rightarrow> string option" where
  "GhostError_display dbg_list dbg e =
     (case e of
        Multiple s \<Rightarrow> Some (''Multiple {'' @ dbg_list s @ ''}'')
      | RequestIdNotFound s \<Rightarrow> Some (''RequestIdNotFound {'' @ dbg s @ ''}'')
      | Other s \<Rightarrow> Some (''Unknown error encountered: '' @ [CHR 0x27] @ s @ [CHR 0x27] @ ''.'')
      | _ \<Rightarrow> None)"

type_synonym RequestId = string
type_synonym WorkWasDone = bool

definition WorkWasDone_or :: "WorkWasDone \<Rightarrow> WorkWasDone \<Rightarrow> WorkWasDone" where
  "WorkWasDone_or self w = (w \<or> self)"

definition RequestId_with_prefix :: "string \<Rightarrow> string \<Rightarrow> RequestId" where
  "RequestId_with_prefix prefix nanoid = prefix @ nanoid"

datatype BacktwrapCaptureStrategy = DoNotCapture | CaptureUnresolved | CaptureResolved

text \<open>
  A backtrace is only ever observed through its \<open>{:?}\<close> rendering (equality and hashing of
  \<open>Backtwrap\<close> are defined by it), so it is that string.
\<close>

datatype Backtwrap = Backtwrap "string option"

definition capture_strategy_from_env :: "string option \<Rightarrow> BacktwrapCaptureStrategy" where
  "capture_strategy_from_env var =
     (case var of
        Some s \<Rightarrow> if s = ''CAPTURE_RESOLVED'' then CaptureResolved
                   else if s = ''CAPTURE_UNRESOLVED'' then CaptureUnresolved
                   else DoNotCapture
      | None \<Rightarrow> DoNotCapture)"

definition Backtwrap_new :: "BacktwrapCaptureStrategy \<Rightarrow> string \<Rightarrow> string \<Rightarrow> Backtwrap" where
  "Backtwrap_new strategy resolved unresolved = Backtwrap
     (case strategy of
        CaptureResolved \<Rightarrow> Some resolved
      | CaptureUnresolved \<Rightarrow> Some unresolved
      | DoNotCapture \<Rightarrow> None)"

section \<open>The tracker\<close>

definition DEFAULT_TIMEOUT :: nat where
  "DEFAULT_TIMEOUT = 20000"

text \<open>\<open>Result<CbData, E>\<close> is a sum with the error on the left.\<close>

datatype ('d, 'e) GhostCallbackData = CbResponse "'e + 'd" | CbTimeout Backtwrap

record 'cb GhostTrackerEntry =
  gte_backtrace :: Backtwrap
  gte_expires :: time
  gte_cb :: 'cb

record GhostTrackerBuilder =
  gtb_request_id_prefix :: string
  gtb_default_timeout :: nat

record 'cb GhostTracker =
  gt_request_id_prefix :: string
  gt_default_timeout :: nat
  gt_pending :: "(RequestId, 'cb GhostTrackerEntry) hashmap"

record GhostTrackerBookmarkOptions =
  gbo_timeout :: "nat option"

definition GhostTrackerBuilder_default :: GhostTrackerBuilder where
  "GhostTrackerBuilder_default =
     \<lparr>gtb_request_id_prefix = '''', gtb_default_timeout = DEFAULT_TIMEOUT\<rparr>"

definition GhostTrackerBuilder_build :: "GhostTrackerBuilder \<Rightarrow> 'cb GhostTracker" where
  "GhostTrackerBuilder_build b =
     \<lparr>gt_request_id_prefix = gtb_request_id_prefix b,
      gt_default_timeout = gtb_default_timeout b,
      gt_pending = []\<rparr>"

definition GhostTrackerBuilder_request_id_prefix ::
  "string \<Rightarrow> GhostTrackerBuilder \<Rightarrow> GhostTrackerBuilder" where
  "GhostTrackerBuilder_request_id_prefix p b = b\<lparr>gtb_request_id_prefix := p\<rparr>"

definition GhostTrackerBuilder_default_timeout ::
  "nat \<Rightarrow> GhostTrackerBuilder \<Rightarrow> GhostTrackerBuilder" where
  "GhostTrackerBuilder_default_timeout t b = b\<lparr>gtb_default_timeout := t\<rparr>"

definition GhostTrackerBookmarkOptions_default :: GhostTrackerBookmarkOptions where
  "GhostTrackerBookmarkOptions_default = \<lparr>gbo_timeout = None\<rparr>"

definition GhostTrackerBookmarkOptions_timeout ::
  "nat \<Rightarrow> GhostTrackerBookmarkOptions \<Rightarrow> GhostTrackerBookmarkOptions" where
  "GhostTrackerBookmarkOptions_timeout t opts = opts\<lparr>gbo_timeout := Some t\<rparr>"

definition gt_remove :: "RequestId \<Rightarrow> 'cb GhostTracker \<Rightarrow> 'cb GhostTracker" where
  "gt_remove rid t = t\<lparr>gt_pending := AList.delete rid (gt_pending t)\<rparr>"

definition gt_insert ::
  "RequestId \<Rightarrow> 'cb GhostTrackerEntry \<Rightarrow> 'cb GhostTracker \<Rightarrow> 'cb GhostTracker" where
  "gt_insert rid en t = t\<lparr>gt_pending := AList.update rid en (gt_pending t)\<rparr>"

abbreviation gt_lookup :: "'cb GhostTracker \<Rightarrow> RequestId \<Rightarrow> 'cb GhostTrackerEntry option" where
  "gt_lookup t \<equiv> map_of (gt_pending t)"

text \<open>The type of the function that runs a callback.\<close>

type_synonym ('cb, 'ud, 'd, 'e) call = "'cb \<Rightarrow> ('d, 'e) GhostCallbackData \<Rightarrow> 'ud \<Rightarrow> ('ud, GhostError, unit) outcome"

text \<open>The loop of \<open>process\<close> over the ids found expired.\<close>

fun gt_expire :: "('cb, 'ud, 'd, 'e) call \<Rightarrow> RequestId list \<Rightarrow> 'cb GhostTracker \<Rightarrow> 'ud \<Rightarrow>
    ('cb GhostTracker \<times> 'ud, GhostError, unit) outcome" where
  "gt_expire call [] t ga = Ok () (t, ga)"
| "gt_expire call (rid # rids) t ga =
     (case gt_lookup t rid of
        None \<Rightarrow> gt_expire call rids t ga
      | Some entry \<Rightarrow>
          bind_ok (lift_state (Pair (gt_remove rid t))
                     (call (gte_cb entry) (CbTimeout (gte_backtrace entry)) ga))
            (\<lambda>_ (t', ga'). gt_expire call rids t' ga'))"

definition gt_expired :: "time \<Rightarrow> 'cb GhostTracker \<Rightarrow> RequestId list" where
  "gt_expired now t = [rid. (rid, entry) \<leftarrow> gt_pending t, now > gte_expires entry]"

definition GhostTracker_process :: "('cb, 'ud, 'd, 'e) call \<Rightarrow> time \<Rightarrow> 'cb GhostTracker \<Rightarrow> 'ud \<Rightarrow>
    ('cb GhostTracker \<times> 'ud, GhostError, WorkWasDone) outcome" where
  "GhostTracker_process call now t ga =
     (let did_work = gt_pending t \<noteq> []
      in bind_ok (gt_expire call (gt_expired now t) t ga) (\<lambda>_. Ok did_work))"

definition bookmark_options ::
  "string \<Rightarrow> Backtwrap \<Rightarrow> time \<Rightarrow> 'cb \<Rightarrow> GhostTrackerBookmarkOptions \<Rightarrow> 'cb GhostTracker \<Rightarrow>
    ('cb GhostTracker, 'e, RequestId) outcome" where
  "bookmark_options nanoid bt now cb opts t =
     (let request_id = RequestId_with_prefix (gt_request_id_prefix t) nanoid;
          timeout = (case gbo_timeout opts of None \<Rightarrow> gt_default_timeout t | Some to \<Rightarrow> to)
      in case checked_add_time now timeout of
           None \<Rightarrow> Panic ''can add timeout to SystemTime::now()''
         | Some expires \<Rightarrow>
             Ok request_id
               (gt_insert request_id \<lparr>gte_backtrace = bt, gte_expires = expires, gte_cb = cb\<rparr> t))"

definition bookmark ::
  "string \<Rightarrow> Backtwrap \<Rightarrow> time \<Rightarrow> 'cb \<Rightarrow> 'cb GhostTracker \<Rightarrow> ('cb GhostTracker, 'e, RequestId) outcome" where
  "bookmark nanoid bt now cb t =
     bookmark_options nanoid bt now cb GhostTrackerBookmarkOptions_default t"

text \<open>
  The error message of \<open>handle\<close> prints the id and the pending ids with \<open>{:?}\<close>; \<open>rid_msg\<close> is
  that formatting.
\<close>

definition GhostTracker_handle ::
  "(RequestId \<Rightarrow> RequestId list \<Rightarrow> string) \<Rightarrow> ('cb, 'ud, 'd, 'e) call \<Rightarrow> RequestId \<Rightarrow> ('e + 'd) \<Rightarrow>
    'cb GhostTracker \<Rightarrow> 'ud \<Rightarrow> ('cb GhostTracker \<times> 'ud, GhostError, unit) outcome" where
  "GhostTracker_handle rid_msg call rid data t owner =
     (case gt_lookup t rid of
        None \<Rightarrow> Err (RequestIdNotFound (rid_msg rid (keys (gt_pending t)))) (t, owner)
      | Some entry \<Rightarrow>
          lift_state (Pair (gt_remove rid t)) (call (gte_cb entry) (CbResponse data) owner))"

section \<open>The tracker as a keyed table\<close>

abbreviation wf_tracker :: "'cb GhostTracker \<Rightarrow> bool" where
  "wf_tracker t \<equiv> wf_map (gt_pending t)"

interpretation gtt: keyed_table gt_lookup gt_insert gt_remove wf_tracker
  by unfold_locales (auto simp: gt_insert_def gt_remove_def hashmap_simps)

lemma gt_lookup_remove [simp]: "gt_lookup (gt_remove rid t) = (gt_lookup t)(rid := None)"
  by (simp add: gt_remove_def hashmap_simps)

lemma gt_lookup_insert [simp]: "gt_lookup (gt_insert rid en t) = (gt_lookup t)(rid \<mapsto> en)"
  by (simp add: gt_insert_def hashmap_simps)

lemma gt_expired_iff:
  assumes "wf_tracker t"
  shows "rid \<in> set (gt_expired now t) \<longleftrightarrow> (\<exists>en. gt_lookup t rid = Some en \<and> now > gte_expires en)"
proof -
  have "rid \<in> set (gt_expired now t) \<longleftrightarrow> (\<exists>en. (rid, en) \<in> set (gt_pending t) \<and> now > gte_expires en)"
    by (force simp: gt_expired_def split: if_splits)
  then show ?thesis using assms by (simp add: map_of_eq_Some_iff)
qed

lemma gt_expired_empty: "gt_pending t = [] \<Longrightarrow> gt_expired now t = []"
  by (simp add: gt_expired_def)

text \<open>
  The expiry loop only removes entries, and only the ones it was given.
\<close>

lemma gt_expire_fold:
  assumes "gt_expire call rids t ga = Ok () (t', ga')" and "wf_tracker t"
  shows "gt_lookup t' = gt_lookup (fold gt_remove rids t)"
  using assms
proof (induction rids arbitrary: t ga)
  case Nil
  then show ?case by simp
next
  case (Cons rid rids)
  show ?case
  proof (cases "gt_lookup t rid")
    case None
    then have same: "gt_remove rid t = t"
      by (simp add: gt_remove_def keys_map_of_None delete_notin)
    with None Cons show ?thesis by simp
  next
    case (Some entry)
    with Cons.prems obtain ga1 where "gt_expire call rids (gt_remove rid t) ga1 = Ok () (t', ga')"
      by (auto simp: outcome_simps)
    then show ?thesis
      using Cons.IH[of "gt_remove rid t" ga1] Cons.prems(2) by (simp add: gtt.invar_take)
  qed
qed

lemma gt_expire_sublist:
  assumes "final_state (gt_expire call rids t ga) = Some (t', ga')" and "wf_tracker t"
  shows "gt_lookup t' rid = gt_lookup t rid \<or> gt_lookup t' rid = None \<and> rid \<in> set rids"
  using assms
proof (induction rids arbitrary: t ga)
  case Nil
  then show ?case by simp
next
  case (Cons r rids)
  show ?case
  proof (cases "gt_lookup t r")
    case None
    then show ?thesis using Cons by auto
  next
    case (Some entry)
    show ?thesis
    proof (cases "call (gte_cb entry) (CbTimeout (gte_backtrace entry)) ga")
      case (Ok v ga1)
      then have "final_state (gt_expire call rids (gt_remove r t) ga1) = Some (t', ga')"
        using Cons.prems(1) Some by (cases v) simp
      then show ?thesis
        using Cons.IH[of "gt_remove r t" ga1] Cons.prems(2) by (auto simp: gtt.invar_take split: if_splits)
    qed (use Cons.prems(1) Some in \<open>auto split: if_splits\<close>)
  qed
qed

section \<open>Properties\<close>

text \<open>
  C23: a response is delivered to the callback bookmarked under its request id, with the
  response data and exactly once: the entry is gone afterwards, every other entry is kept, and
  a second response for the same id is the error \<open>RequestIdNotFound\<close>, runs no callback and
  changes nothing.
\<close>

theorem handle_delivers_once:
  assumes "gt_lookup t rid = Some entry"
    and "call (gte_cb entry) (CbResponse data) owner = Ok () owner'"
  shows "\<exists>t'. GhostTracker_handle rid_msg call rid data t owner = Ok () (t', owner') \<and>
      gt_lookup t' = (gt_lookup t)(rid := None) \<and>
      GhostTracker_handle rid_msg call rid data' t' owner' =
        Err (RequestIdNotFound (rid_msg rid (keys (gt_pending t')))) (t', owner')"
  using assms by (auto simp: GhostTracker_handle_def)

text \<open>
  \<open>process\<close> at time \<open>now\<close> removes exactly the entries whose expiry lies strictly before
  \<open>now\<close> when the callbacks return \<open>Ok\<close>, and reports work iff anything was pending.
\<close>

theorem process_expires_exactly:
  assumes "wf_tracker t"
    and "GhostTracker_process call now t ga = Ok did_work (t', ga')"
  shows "gt_lookup t' rid =
      (case gt_lookup t rid of
         Some en \<Rightarrow> if now > gte_expires en then None else Some en
       | None \<Rightarrow> None)
    \<and> did_work = (gt_pending t \<noteq> [])"
proof -
  from assms(2) have run: "gt_expire call (gt_expired now t) t ga = Ok () (t', ga')"
    and did: "did_work = (gt_pending t \<noteq> [])"
    by (auto simp: GhostTracker_process_def Let_def outcome_simps)
  have "gt_lookup t' rid = (if rid \<in> set (gt_expired now t) then None else gt_lookup t rid)"
    using gt_expire_fold[OF run assms(1)] gtt.take_list[OF assms(1)] by simp
  then show ?thesis
    using gt_expired_iff[OF assms(1)] did by (auto split: option.splits)
qed

text \<open>
  a callback that fails stops \<open>process\<close> early, but nothing is lost or fired twice: an
  entry the tracker no longer holds had expired, every other entry is unchanged.
\<close>

theorem process_error_keeps_rest:
  assumes "wf_tracker t"
    and "final_state (GhostTracker_process call now t ga) = Some (t', ga')"
  shows "gt_lookup t' rid = gt_lookup t rid \<or>
    (gt_lookup t' rid = None \<and> (\<exists>en. gt_lookup t rid = Some en \<and> now > gte_expires en))"
proof -
  from assms(2) have "final_state (gt_expire call (gt_expired now t) t ga) = Some (t', ga')"
    by (cases "gt_expire call (gt_expired now t) t ga")
      (auto simp: GhostTracker_process_def Let_def)
  then show ?thesis
    using gt_expire_sublist[of call _ t ga t' ga' rid] assms(1) gt_expired_iff[OF assms(1)]
    by blast
qed

text \<open>
  \<open>bookmark\<close> returns the prefixed id and registers the callback under it with the
  default timeout, leaving every other request alone, unless the expiry is not representable.
\<close>

theorem bookmark_registers:
  assumes "now + gt_default_timeout t \<le> TIME_MAX"
  shows "\<exists>t'. bookmark nanoid bt now cb t = Ok (gt_request_id_prefix t @ nanoid) t' \<and>
      gt_lookup t' = (gt_lookup t)(gt_request_id_prefix t @ nanoid \<mapsto>
        \<lparr>gte_backtrace = bt, gte_expires = now + gt_default_timeout t, gte_cb = cb\<rparr>) \<and>
      gt_request_id_prefix t' = gt_request_id_prefix t \<and>
      gt_default_timeout t' = gt_default_timeout t"
  using assms
  by (simp add: bookmark_def bookmark_options_def GhostTrackerBookmarkOptions_default_def
      RequestId_with_prefix_def checked_add_time_def gt_insert_def hashmap_simps Let_def)

section \<open>Witnesses\<close>

text \<open>A user that logs the callbacks it runs, and a tracker with two pending requests.\<close>

definition log_call :: "(nat, nat list, bool, bool) call" where
  "log_call cb data log = Ok () (log @ [cb])"

definition demo_tracker :: "nat GhostTracker" where
  "demo_tracker = \<lparr>gt_request_id_prefix = ''p_'', gt_default_timeout = 20,
     gt_pending = [(''p_1'', \<lparr>gte_backtrace = Backtwrap None, gte_expires = 30, gte_cb = 7\<rparr>),
                   (''p_2'', \<lparr>gte_backtrace = Backtwrap None, gte_expires = 50, gte_cb = 8\<rparr>)]\<rparr>"

lemmas demo_simps = demo_tracker_def log_call_def

theorem handle_delivers_once_witness:
  "\<exists>t'. GhostTracker_handle (\<lambda>_ _. '''') log_call ''p_1'' (Inr True) demo_tracker [] = Ok () (t', [7]) \<and>
    gt_lookup t' = (gt_lookup demo_tracker)(''p_1'' := None) \<and>
    GhostTracker_handle (\<lambda>_ _. '''') log_call ''p_1'' (Inr True) t' [7] =
      Err (RequestIdNotFound '''') (t', [7])"
  using handle_delivers_once [of demo_tracker "''p_1''" _ log_call "Inr True" "[]" "[7]"
      "\<lambda>_ _. ''''" "Inr True"]
  by (simp add: demo_simps)

theorem process_expires_exactly_witness:
  "\<exists>t'. GhostTracker_process log_call 40 demo_tracker [] = Ok True (t', [7]) \<and>
     gt_lookup t' ''p_1'' = None \<and> gt_lookup t' ''p_2'' = gt_lookup demo_tracker ''p_2''"
proof -
  let ?t' = "gt_remove ''p_1'' demo_tracker"
  have run: "GhostTracker_process log_call 40 demo_tracker [] = Ok True (?t', [7])"
    by (simp add: demo_simps GhostTracker_process_def gt_expired_def Let_def)
  have wf: "wf_tracker demo_tracker" by (simp add: demo_simps)
  show ?thesis
    using process_expires_exactly [OF wf run, of "''p_1''"] process_expires_exactly [OF wf run, of "''p_2''"] run
    by (auto simp: demo_simps)
qed

theorem process_error_keeps_rest_witness:
  "\<exists>t'. GhostTracker_process (\<lambda>_ _ ud. Err EndpointDisconnected ud) 40 demo_tracker () =
      Err EndpointDisconnected (t', ()) \<and> gt_lookup t' ''p_2'' = gt_lookup demo_tracker ''p_2''"
proof -
  let ?t' = "gt_remove ''p_1'' demo_tracker"
  let ?call = "\<lambda>_ _ ud. Err EndpointDisconnected ud"
  have run: "GhostTracker_process ?call 40 demo_tracker () = Err EndpointDisconnected (?t', ())"
    by (simp add: demo_simps GhostTracker_process_def gt_expired_def Let_def)
  have "wf_tracker demo_tracker" by (simp add: demo_simps)
  from process_error_keeps_rest [OF this, of ?call 40 "()" ?t' "()" "''p_2''"] run
  show ?thesis by (auto simp: demo_simps)
qed

theorem bookmark_registers_witness:
  "\<exists>t'. bookmark ''x'' (Backtwrap None) 100 9 demo_tracker = Ok ''p_x'' t' \<and>
     gt_lookup t' ''p_x'' = Some \<lparr>gte_backtrace = Backtwrap None, gte_expires = 120, gte_cb = 9\<rparr>"
  using bookmark_registers [of 100 demo_tracker "''x''" "Backtwrap None" 9]
  by (auto simp: demo_simps TIME_MAX_def)

end
