(* ===== verification/Detach.thy ===== *)
theory Detach
  imports Prelude
begin

text \<open>
  The \<open>detach\<close> crate (\<open>crates/detach/src/lib.rs\<close>): a cell whose content can be taken out and
  put back, so that a member can be handed a mutable reference to its owner. Reading an
  empty cell panics. \<open>detach_run\<close> is the macro \<open>detach_run!\<close>.
\<close>

section \<open>Model\<close>

datatype 'a Detach = Detach "'a option"

definition Detach_new :: "'a \<Rightarrow> 'a Detach" where
  "Detach_new inner = Detach (Some inner)"

fun to_inner :: "'a Detach \<Rightarrow> (unit, 'e, 'a) outcome" where
  "to_inner (Detach (Some t)) = Ok t ()"
| "to_inner (Detach None) = Panic ''detach exists-to_inner''"

fun is_attached :: "'a Detach \<Rightarrow> bool" where
  "is_attached (Detach x) = (x \<noteq> None)"

fun detach_take :: "'a Detach \<Rightarrow> ('a Detach, 'e, 'a) outcome" where
  "detach_take (Detach (Some t)) = Ok t (Detach None)"
| "detach_take (Detach None) = Panic ''detach exists-take''"

definition detach_put :: "'a \<Rightarrow> 'a Detach \<Rightarrow> 'a Detach" where
  "detach_put t d = Detach (Some t)"

text \<open>\<open>deref\<close>, \<open>borrow\<close>, \<open>as_ref\<close> and \<open>as_mut\<close>: one read of the content, panicking when empty.\<close>

fun detach_as_ref :: "'a Detach \<Rightarrow> (unit, 'e, 'a) outcome" where
  "detach_as_ref (Detach (Some t)) = Ok t ()"
| "detach_as_ref (Detach None) = Panic ''detach exists-as-ref''"

text \<open>
  \<open>deref_mut\<close>: running a method of the content through a mutable reference, which panics
  when the cell is empty.
\<close>

definition detach_deref_mut ::
  "('s \<Rightarrow> 'a Detach) \<Rightarrow> ('a Detach \<Rightarrow> 's \<Rightarrow> 's) \<Rightarrow> ('a \<Rightarrow> ('a, 'e, 'b) outcome) \<Rightarrow> 's \<Rightarrow>
    ('s, 'e, 'b) outcome" where
  "detach_deref_mut get put code s =
     (case get s of
        Detach (Some t) \<Rightarrow> lift_state (\<lambda>t'. put (Detach (Some t')) s) (code t)
      | Detach None \<Rightarrow> Panic ''detach exists-deref-mut'')"

text \<open>
  \<open>detach_run!(item, |id| code)\<close>: take the content out of the field \<open>item\<close> of the owner
  (\<open>get\<close> reads the field, \<open>put\<close> writes it), run the code on content and owner, put the
  content back, return the code's result. The code's result may itself be an error; the
  content is put back all the same. A panic in the code leaves the cell empty.
\<close>

definition detach_run ::
  "('s \<Rightarrow> 'a Detach) \<Rightarrow> ('a Detach \<Rightarrow> 's \<Rightarrow> 's) \<Rightarrow>
   ('a \<times> 's \<Rightarrow> ('a \<times> 's, 'e, 'b) outcome) \<Rightarrow> 's \<Rightarrow> ('s, 'e, 'b) outcome" where
  "detach_run get put code s =
     (case detach_take (get s) of
        Ok t d \<Rightarrow>
          lift_state (\<lambda>(t', s'). put (detach_put t' (get s')) s') (code (t, put d s))
      | Err e d \<Rightarrow> Err e (put d s)
      | Panic m \<Rightarrow> Panic m)"

section \<open>Properties\<close>

lemma is_attached_iff: "is_attached d \<longleftrightarrow> (\<exists>t. d = Detach (Some t))"
  by (cases d) auto

lemma detach_take_put: "detach_take (detach_put t d) = Ok t (Detach None)"
  by (simp add: detach_put_def)

lemma is_attached_put [simp]: "is_attached (detach_put t d)"
  by (simp add: detach_put_def)

lemma detach_run_attached:
  assumes "get s = Detach (Some t)"
  shows "detach_run get put code s =
    lift_state (\<lambda>(t', s'). put (Detach (Some t')) s') (code (t, put (Detach None) s))"
  using assms by (simp add: detach_run_def detach_put_def)

text \<open>
  C35: Whatever result the code returns, the member is attached again after \<open>detach_run!\<close>; and a
  member that is already detached (a nested \<open>detach_run!\<close> on it) panics without running the
  code.
\<close>

theorem detach_run_reattaches:
  assumes get_put: "\<And>d s. get (put d s) = d"
  shows "(\<forall>s'. final_state (detach_run get put code s) = Some s' \<longrightarrow> is_attached (get s')) \<and>
    (\<not> is_attached (get s) \<longrightarrow> detach_run get put code s = Panic ''detach exists-take'')"
proof (cases "get s")
  case (Detach x)
  then show ?thesis
    by (cases x) (auto simp: detach_run_def detach_put_def final_state_lift_state get_put)
qed

theorem detach_run_reattaches_witness:
  "detach_run fst (\<lambda>d s. (d, snd s)) (\<lambda>(t, s). Err ''e'' (t + 1, s)) (Detach (Some (1::nat)), ())
     = (Err ''e'' (Detach (Some 2), ()) :: (nat Detach \<times> unit, string, unit) outcome) \<and>
   is_attached (Detach (Some (2::nat))) \<and>
   detach_run fst (\<lambda>d s. (d, snd s)) (\<lambda>(t, s). Err ''e'' (t + 1, s)) (Detach (None :: nat option), ())
     = (Panic ''detach exists-take'' :: (nat Detach \<times> unit, string, unit) outcome)"
  using detach_run_reattaches [of fst "\<lambda>d s. (d, snd s)"
      "\<lambda>(t, s). Err ''e'' (t + 1, s) :: (nat \<times> nat Detach \<times> unit, string, unit) outcome"
      "(Detach (None :: nat option), ())"]
  by (simp add: detach_run_def detach_put_def numeral_2_eq_2)

end
