(* ===== verification/Ghost_Channel.thy ===== *)
theory Ghost_Channel
  imports Ghost_Tracker Detach
begin

text \<open>
  Endpoints and messages of the actor framework (\<open>crates/zombie_actor/src/ghost_channel.rs\<close>) and
  the wrapper that joins a child actor with the parent's endpoint (\<open>ghost_actor.rs\<close>).

  The two queues between a parent and a child come from the \<open>crossbeam_channel\<close> package. The
  model does not define that package: a \<open>Sender\<close> is the log of what was sent on it together
  with what \<open>send\<close> answers (\<open>None\<close>: accepted; \<open>Some d\<close>: the error whose \<open>{:?}\<close> rendering is
  \<open>d\<close>), and a \<open>Receiver\<close> is what its successive \<open>try_recv\<close> calls yield, in order, before they
  answer \<open>Empty\<close> or \<open>Disconnected\<close>. Every clone of an endpoint's sender, in particular the one
  inside each \<open>GhostMessage\<close> it hands out, is the same queue; so \<open>respond\<close> appends to the
  endpoint's sender, and a callback runs on its user data together with the sender of the
  endpoint that is being processed. Tracing spans and log output are left out: no branch of
  the code depends on them.
\<close>

section \<open>Model\<close>

datatype ('req, 'resp, 'err) GhostEndpointMessage =
    Request Backtwrap "RequestId option" 'req
  | Response Backtwrap RequestId "'err + 'resp"

record 'm Sender =
  snd_sent :: "'m list"
  snd_error :: "string option"

record 'm Receiver =
  rcv_incoming :: "'m list"
  rcv_disconnected :: bool

definition chan_send :: "'m \<Rightarrow> 'm Sender \<Rightarrow> ('m Sender, GhostError, unit) outcome" where
  "chan_send m s =
     (case snd_error s of
        None \<Rightarrow> Ok () (s\<lparr>snd_sent := snd_sent s @ [m]\<rparr>)
      | Some d \<Rightarrow> Err (Other d) s)"

subsection \<open>GhostMessage\<close>

record 'self GhostMessage =
  gm_requester_bt :: Backtwrap
  gm_request_id :: "RequestId option"
  gm_message :: "'self option"

definition GhostMessage_new ::
  "Backtwrap \<Rightarrow> RequestId option \<Rightarrow> 'self \<Rightarrow> 'self GhostMessage" where
  "GhostMessage_new bt rid message =
     \<lparr>gm_requester_bt = bt, gm_request_id = rid, gm_message = Some message\<rparr>"

definition GhostMessage_new_request :: "Backtwrap \<Rightarrow> RequestId \<Rightarrow> 'self \<Rightarrow> 'self GhostMessage" where
  "GhostMessage_new_request bt rid message = GhostMessage_new bt (Some rid) message"

definition GhostMessage_new_event :: "Backtwrap \<Rightarrow> 'self \<Rightarrow> 'self GhostMessage" where
  "GhostMessage_new_event bt message = GhostMessage_new bt None message"

definition take_message :: "'self GhostMessage \<Rightarrow> 'self option \<times> 'self GhostMessage" where
  "take_message msg = (gm_message msg, msg\<lparr>gm_message := None\<rparr>)"

definition put_message :: "'self \<Rightarrow> 'self GhostMessage \<Rightarrow> 'self GhostMessage" where
  "put_message m msg = msg\<lparr>gm_message := Some m\<rparr>"

definition is_request :: "'self GhostMessage \<Rightarrow> bool" where
  "is_request msg \<longleftrightarrow> gm_request_id msg \<noteq> None"

text \<open>\<open>respond\<close>: \<open>bt\<close> is the responder's backtrace, \<open>s\<close> the sender the message came with.\<close>

definition GhostMessage_respond ::
  "Backtwrap \<Rightarrow> 'self GhostMessage \<Rightarrow> ('err + 'resp) \<Rightarrow>
    ('req, 'resp, 'err) GhostEndpointMessage Sender \<Rightarrow>
    (('req, 'resp, 'err) GhostEndpointMessage Sender, GhostError, unit) outcome" where
  "GhostMessage_respond bt msg payload s =
     (case gm_request_id msg of
        Some request_id \<Rightarrow> chan_send (Response bt request_id payload) s
      | None \<Rightarrow>
          (case payload of
             Inl e \<Rightarrow> Panic ''Unhandled publish error''
           | Inr _ \<Rightarrow> Ok () s))"

subsection \<open>GhostEndpoint and its builder\<close>

text \<open>
  \<open>'ro\<close>/\<open>'ror\<close>: requests to the other side and their responses; \<open>'rs\<close>/\<open>'rsr\<close>: requests to this
  side and the responses sent to them; \<open>'err\<close>: the error type.
\<close>

record ('ro, 'ror, 'rs, 'rsr, 'err) GhostEndpoint =
  ge_sender :: "('ro, 'rsr, 'err) GhostEndpointMessage Sender"
  ge_receiver :: "('rs, 'ror, 'err) GhostEndpointMessage Receiver"

record ('ro, 'ror, 'rs, 'rsr, 'err) GhostContextEndpointBuilder =
  geb_sender :: "('ro, 'rsr, 'err) GhostEndpointMessage Sender"
  geb_receiver :: "('rs, 'ror, 'err) GhostEndpointMessage Receiver"
  geb_tracker_builder :: GhostTrackerBuilder

record ('cb, 'ro, 'ror, 'rs, 'rsr, 'err) GhostContextEndpoint =
  gce_sender :: "('ro, 'rsr, 'err) GhostEndpointMessage Sender"
  gce_receiver :: "('rs, 'ror, 'err) GhostEndpointMessage Receiver"
  gce_tracker :: "'cb GhostTracker"
  gce_outbox :: "'rs GhostMessage list"

definition GhostEndpoint_new ::
  "('ro, 'rsr, 'err) GhostEndpointMessage Sender \<Rightarrow> ('rs, 'ror, 'err) GhostEndpointMessage Receiver \<Rightarrow>
   ('ro, 'ror, 'rs, 'rsr, 'err) GhostEndpoint" where
  "GhostEndpoint_new s r = \<lparr>ge_sender = s, ge_receiver = r\<rparr>"

definition as_context_endpoint_builder ::
  "('ro, 'ror, 'rs, 'rsr, 'err) GhostEndpoint \<Rightarrow>
   ('ro, 'ror, 'rs, 'rsr, 'err) GhostContextEndpointBuilder" where
  "as_context_endpoint_builder ge =
     \<lparr>geb_sender = ge_sender ge, geb_receiver = ge_receiver ge,
      geb_tracker_builder = GhostTrackerBuilder_default\<rparr>"

definition GhostContextEndpointBuilder_build ::
  "('ro, 'ror, 'rs, 'rsr, 'err) GhostContextEndpointBuilder \<Rightarrow>
   ('cb, 'ro, 'ror, 'rs, 'rsr, 'err) GhostContextEndpoint" where
  "GhostContextEndpointBuilder_build b =
     \<lparr>gce_sender = geb_sender b, gce_receiver = geb_receiver b,
      gce_tracker = GhostTrackerBuilder_build (geb_tracker_builder b),
      gce_outbox = []\<rparr>"

definition GhostContextEndpointBuilder_request_id_prefix ::
  "string \<Rightarrow> ('ro, 'ror, 'rs, 'rsr, 'err) GhostContextEndpointBuilder \<Rightarrow>
   ('ro, 'ror, 'rs, 'rsr, 'err) GhostContextEndpointBuilder" where
  "GhostContextEndpointBuilder_request_id_prefix p b =
     b\<lparr>geb_tracker_builder := GhostTrackerBuilder_request_id_prefix p (geb_tracker_builder b)\<rparr>"

definition GhostContextEndpointBuilder_default_timeout ::
  "nat \<Rightarrow> ('ro, 'ror, 'rs, 'rsr, 'err) GhostContextEndpointBuilder \<Rightarrow>
   ('ro, 'ror, 'rs, 'rsr, 'err) GhostContextEndpointBuilder" where
  "GhostContextEndpointBuilder_default_timeout t b =
     b\<lparr>geb_tracker_builder := GhostTrackerBuilder_default_timeout t (geb_tracker_builder b)\<rparr>"

text \<open>
  \<open>create_ghost_channel\<close>: two fresh queues, nothing sent and nothing to receive on either; the
  parent side first.
\<close>

definition fresh_sender :: "'m Sender" where
  "fresh_sender = \<lparr>snd_sent = [], snd_error = None\<rparr>"

definition fresh_receiver :: "'m Receiver" where
  "fresh_receiver = \<lparr>rcv_incoming = [], rcv_disconnected = False\<rparr>"

definition create_ghost_channel ::
  "('rc, 'rcr, 'rp, 'rpr, 'err) GhostEndpoint \<times> ('rp, 'rpr, 'rc, 'rcr, 'err) GhostEndpoint" where
  "create_ghost_channel =
     (GhostEndpoint_new fresh_sender fresh_receiver, GhostEndpoint_new fresh_sender fresh_receiver)"

subsection \<open>GhostContextEndpoint\<close>

record GhostTrackRequestOptions =
  gro_timeout :: "nat option"

definition GhostTrackRequestOptions_default :: GhostTrackRequestOptions where
  "GhostTrackRequestOptions_default = \<lparr>gro_timeout = None\<rparr>"

definition GhostTrackRequestOptions_timeout ::
  "nat \<Rightarrow> GhostTrackRequestOptions \<Rightarrow> GhostTrackRequestOptions" where
  "GhostTrackRequestOptions_timeout t opts = opts\<lparr>gro_timeout := Some t\<rparr>"

text \<open>
  What the environment supplies to a call that makes a request: the random id, the current
  time, the captured backtrace.
\<close>

record req_env =
  re_nanoid :: string
  re_now :: time
  re_bt :: Backtwrap

definition send_on :: "('ro, 'rsr, 'err) GhostEndpointMessage \<Rightarrow>
    ('cb, 'ro, 'ror, 'rs, 'rsr, 'err) GhostContextEndpoint \<Rightarrow>
    (('cb, 'ro, 'ror, 'rs, 'rsr, 'err) GhostContextEndpoint, GhostError, unit) outcome" where
  "send_on m ep = lift_state (\<lambda>s. ep\<lparr>gce_sender := s\<rparr>) (chan_send m (gce_sender ep))"

definition priv_request ::
  "req_env \<Rightarrow> 'ro \<Rightarrow> 'cb \<Rightarrow> GhostTrackRequestOptions \<Rightarrow>
    ('cb, 'ro, 'ror, 'rs, 'rsr, 'err) GhostContextEndpoint \<Rightarrow>
    (('cb, 'ro, 'ror, 'rs, 'rsr, 'err) GhostContextEndpoint, GhostError, unit) outcome" where
  "priv_request env payload cb opts ep =
     bind_ok
       (lift_state (\<lambda>t. ep\<lparr>gce_tracker := t\<rparr>)
          (case gro_timeout opts of
             None \<Rightarrow> bookmark (re_nanoid env) (re_bt env) (re_now env) cb (gce_tracker ep)
           | Some timeout \<Rightarrow>
               bookmark_options (re_nanoid env) (re_bt env) (re_now env) cb
                 (GhostTrackerBookmarkOptions_timeout timeout GhostTrackerBookmarkOptions_default)
                 (gce_tracker ep)))
       (\<lambda>request_id ep. send_on (Request (re_bt env) (Some request_id) payload) ep)"

definition publish ::
  "Backtwrap \<Rightarrow> 'ro \<Rightarrow> ('cb, 'ro, 'ror, 'rs, 'rsr, 'err) GhostContextEndpoint \<Rightarrow>
    (('cb, 'ro, 'ror, 'rs, 'rsr, 'err) GhostContextEndpoint, GhostError, unit) outcome" where
  "publish bt payload ep = send_on (Request bt None payload) ep"

definition request ::
  "req_env \<Rightarrow> 'ro \<Rightarrow> 'cb \<Rightarrow> ('cb, 'ro, 'ror, 'rs, 'rsr, 'err) GhostContextEndpoint \<Rightarrow>
    (('cb, 'ro, 'ror, 'rs, 'rsr, 'err) GhostContextEndpoint, GhostError, unit) outcome" where
  "request env payload cb ep = priv_request env payload cb GhostTrackRequestOptions_default ep"

definition request_options ::
  "req_env \<Rightarrow> 'ro \<Rightarrow> 'cb \<Rightarrow> GhostTrackRequestOptions \<Rightarrow>
    ('cb, 'ro, 'ror, 'rs, 'rsr, 'err) GhostContextEndpoint \<Rightarrow>
    (('cb, 'ro, 'ror, 'rs, 'rsr, 'err) GhostContextEndpoint, GhostError, unit) outcome" where
  "request_options env payload cb opts ep = priv_request env payload cb opts ep"

definition drain_messages ::
  "('cb, 'ro, 'ror, 'rs, 'rsr, 'err) GhostContextEndpoint \<Rightarrow>
    'rs GhostMessage list \<times> ('cb, 'ro, 'ror, 'rs, 'rsr, 'err) GhostContextEndpoint" where
  "drain_messages ep = (gce_outbox ep, ep\<lparr>gce_outbox := []\<rparr>)"

text \<open>
  A tracker operation on the endpoint: the callback's user data is the actor together with the
  endpoint's sender.
\<close>

definition with_tracker ::
  "('cb GhostTracker \<Rightarrow> 'ud \<times> ('ro, 'rsr, 'err) GhostEndpointMessage Sender \<Rightarrow>
      ('cb GhostTracker \<times> 'ud \<times> ('ro, 'rsr, 'err) GhostEndpointMessage Sender, GhostError, 'a) outcome) \<Rightarrow>
    ('cb, 'ro, 'ror, 'rs, 'rsr, 'err) GhostContextEndpoint \<times> 'ud \<Rightarrow>
    (('cb, 'ro, 'ror, 'rs, 'rsr, 'err) GhostContextEndpoint \<times> 'ud, GhostError, 'a) outcome" where
  "with_tracker f st =
     (case st of (ep, ud) \<Rightarrow>
        lift_state (\<lambda>(t, ud', s). (ep\<lparr>gce_tracker := t, gce_sender := s\<rparr>, ud'))
          (f (gce_tracker ep) (ud, gce_sender ep)))"

text \<open>The body of the receive loop: what one received message does.\<close>

definition process_message ::
  "(RequestId \<Rightarrow> RequestId list \<Rightarrow> string) \<Rightarrow>
   ('cb, 'ud \<times> ('ro, 'rsr, 'err) GhostEndpointMessage Sender, 'ror, 'err) call \<Rightarrow>
   ('rs, 'ror, 'err) GhostEndpointMessage \<Rightarrow>
    ('cb, 'ro, 'ror, 'rs, 'rsr, 'err) GhostContextEndpoint \<times> 'ud \<Rightarrow>
    (('cb, 'ro, 'ror, 'rs, 'rsr, 'err) GhostContextEndpoint \<times> 'ud, GhostError, unit) outcome" where
  "process_message rid_msg call m st =
     (case m of
        Request bt request_id payload \<Rightarrow>
          (case st of (ep, ud) \<Rightarrow>
             Ok () (ep\<lparr>gce_outbox := gce_outbox ep @ [GhostMessage_new bt request_id payload]\<rparr>, ud))
      | Response _ request_id payload \<Rightarrow>
          with_tracker (GhostTracker_handle rid_msg call request_id payload) st)"

text \<open>
  The loop over \<open>try_recv\<close>: \<open>incoming\<close> is what the calls still yield. A message is taken off
  the queue before it is handled, so an error leaves the rest for the next \<open>process\<close>.
\<close>

fun process_loop ::
  "(RequestId \<Rightarrow> RequestId list \<Rightarrow> string) \<Rightarrow>
   ('cb, 'ud \<times> ('ro, 'rsr, 'err) GhostEndpointMessage Sender, 'ror, 'err) call \<Rightarrow>
   ('rs, 'ror, 'err) GhostEndpointMessage list \<Rightarrow> WorkWasDone \<Rightarrow>
    ('cb, 'ro, 'ror, 'rs, 'rsr, 'err) GhostContextEndpoint \<times> 'ud \<Rightarrow>
    (('cb, 'ro, 'ror, 'rs, 'rsr, 'err) GhostContextEndpoint \<times> 'ud, GhostError, WorkWasDone) outcome" where
  "process_loop rid_msg call [] work_was_done (ep, ud) =
     (if rcv_disconnected (gce_receiver ep) then Err EndpointDisconnected (ep, ud)
      else Ok work_was_done (ep, ud))"
| "process_loop rid_msg call (m # ms) work_was_done (ep, ud) =
     bind_ok
       (process_message rid_msg call m
          (ep\<lparr>gce_receiver := (gce_receiver ep)\<lparr>rcv_incoming := ms\<rparr>\<rparr>, ud))
       (\<lambda>_. process_loop rid_msg call ms True)"

definition endpoint_process ::
  "(RequestId \<Rightarrow> RequestId list \<Rightarrow> string) \<Rightarrow>
   ('cb, 'ud \<times> ('ro, 'rsr, 'err) GhostEndpointMessage Sender, 'ror, 'err) call \<Rightarrow> time \<Rightarrow>
    ('cb, 'ro, 'ror, 'rs, 'rsr, 'err) GhostContextEndpoint \<times> 'ud \<Rightarrow>
    (('cb, 'ro, 'ror, 'rs, 'rsr, 'err) GhostContextEndpoint \<times> 'ud, GhostError, WorkWasDone) outcome" where
  "endpoint_process rid_msg call now st =
     bind_ok (with_tracker (GhostTracker_process call now) st)
       (\<lambda>work_was_done (ep, ud).
          process_loop rid_msg call (rcv_incoming (gce_receiver ep)) work_was_done (ep, ud))"

section \<open>Frame facts\<close>

lemma chan_send_Ok [simp]:
  "chan_send m s = Ok v s' \<longleftrightarrow> snd_error s = None \<and> s' = s\<lparr>snd_sent := snd_sent s @ [m]\<rparr>"
  by (cases v) (auto simp: chan_send_def split: option.splits)

lemma chan_send_not_Panic [simp]: "chan_send m s \<noteq> Panic p"
  by (simp add: chan_send_def split: option.splits)

lemma send_on_Ok:
  "send_on m ep = Ok v ep' \<longleftrightarrow> snd_error (gce_sender ep) = None \<and>
     ep' = ep\<lparr>gce_sender := (gce_sender ep)\<lparr>snd_sent := snd_sent (gce_sender ep) @ [m]\<rparr>\<rparr>"
  by (auto simp: send_on_def outcome_simps)

text \<open>The messages an endpoint hands out for a sequence of received messages, in order.\<close>

fun requests_of :: "('rs, 'ror, 'err) GhostEndpointMessage list \<Rightarrow> 'rs GhostMessage list" where
  "requests_of [] = []"
| "requests_of (Request bt rid p # ms) = GhostMessage_new bt rid p # requests_of ms"
| "requests_of (Response bt rid p # ms) = requests_of ms"

lemma with_tracker_frame:
  assumes "final_state (with_tracker f (ep, ud)) = Some (ep', ud')"
  shows "gce_receiver ep' = gce_receiver ep \<and> gce_outbox ep' = gce_outbox ep"
proof -
  from assms obtain t s where
    "ep' = ep\<lparr>gce_tracker := t, gce_sender := s\<rparr>"
    by (auto simp: with_tracker_def final_state_lift_state)
  then show ?thesis by simp
qed

lemma with_tracker_frame_Ok:
  "with_tracker f (ep, ud) = Ok v (ep', ud') \<Longrightarrow>
     gce_receiver ep' = gce_receiver ep \<and> gce_outbox ep' = gce_outbox ep"
  using with_tracker_frame[of f ep ud ep' ud'] by simp

lemma process_message_frame:
  assumes "process_message rid_msg call m (ep, ud) = Ok () (ep', ud')"
  shows "gce_receiver ep' = gce_receiver ep \<and> gce_outbox ep' = gce_outbox ep @ requests_of [m]"
  using assms with_tracker_frame_Ok
  by (cases m) (fastforce simp: process_message_def)+

lemma process_loop_frame:
  assumes "process_loop rid_msg call ms w (ep, ud) = Ok w' (ep', ud')"
    and "ms = rcv_incoming (gce_receiver ep)"
  shows "gce_outbox ep' = gce_outbox ep @ requests_of ms \<and>
    rcv_incoming (gce_receiver ep') = [] \<and> \<not> rcv_disconnected (gce_receiver ep') \<and>
    w' = (w \<or> ms \<noteq> [])"
  using assms
proof (induction ms arbitrary: ep ud w)
  case Nil
  then show ?case by (auto split: if_splits)
next
  case (Cons m ms)
  let ?ep = "ep\<lparr>gce_receiver := (gce_receiver ep)\<lparr>rcv_incoming := ms\<rparr>\<rparr>"
  from Cons.prems(1) obtain ep1 ud1 where
    step: "process_message rid_msg call m (?ep, ud) = Ok () (ep1, ud1)" and
    rest: "process_loop rid_msg call ms True (ep1, ud1) = Ok w' (ep', ud')"
    by (auto simp: outcome_simps)
  from process_message_frame[OF step]
  have "gce_receiver ep1 = (gce_receiver ep)\<lparr>rcv_incoming := ms\<rparr>"
    and "gce_outbox ep1 = gce_outbox ep @ requests_of [m]" by auto
  moreover have "requests_of (m # ms) = requests_of [m] @ requests_of ms"
    by (cases m) auto
  ultimately show ?case using Cons.IH[OF rest] by simp
qed

text \<open>
  With no expired entry, the tracker pass of \<open>process\<close> is the identity.
\<close>

lemma with_tracker_process_idle:
  assumes "gt_expired now (gce_tracker ep) = []"
  shows "with_tracker (GhostTracker_process call now) (ep, ud) =
    Ok (gt_pending (gce_tracker ep) \<noteq> []) (ep, ud)"
  using assms by (simp add: with_tracker_def GhostTracker_process_def Let_def)

lemma process_message_Response:
  assumes "gt_lookup (gce_tracker ep) rid = Some entry"
    and "call (gte_cb entry) (CbResponse p) (ud, gce_sender ep) = Ok () (ud', s')"
  shows "process_message rid_msg call (Response bt rid p) (ep, ud) =
    Ok () (ep\<lparr>gce_tracker := gt_remove rid (gce_tracker ep), gce_sender := s'\<rparr>, ud')"
  using assms by (simp add: process_message_def with_tracker_def GhostTracker_handle_def)

lemma process_message_unknown:
  assumes "gt_lookup (gce_tracker ep) rid = None"
  shows "process_message rid_msg call (Response bt rid p) (ep, ud) =
    Err (RequestIdNotFound (rid_msg rid (keys (gt_pending (gce_tracker ep))))) (ep, ud)"
  using assms by (simp add: process_message_def with_tracker_def GhostTracker_handle_def)

section \<open>Endpoints at rest and endpoints with requests only\<close>

definition idle_endpoint :: "time \<Rightarrow> ('cb, 'ro, 'ror, 'rs, 'rsr, 'err) GhostContextEndpoint \<Rightarrow> bool" where
  "idle_endpoint now ep \<longleftrightarrow> gt_expired now (gce_tracker ep) = [] \<and> gce_outbox ep = []
     \<and> \<not> rcv_disconnected (gce_receiver ep) \<and> rcv_incoming (gce_receiver ep) = []"

definition append_sent ::
  "('ro, 'rsr, 'err) GhostEndpointMessage list \<Rightarrow> ('cb, 'ro, 'ror, 'rs, 'rsr, 'err) GhostContextEndpoint \<Rightarrow>
    ('cb, 'ro, 'ror, 'rs, 'rsr, 'err) GhostContextEndpoint" where
  "append_sent ms ep = ep\<lparr>gce_sender := (gce_sender ep)\<lparr>snd_sent := snd_sent (gce_sender ep) @ ms\<rparr>\<rparr>"

lemma append_sent_simps [simp]:
  "gce_receiver (append_sent ms ep) = gce_receiver ep" "gce_tracker (append_sent ms ep) = gce_tracker ep"
  "gce_outbox (append_sent ms ep) = gce_outbox ep" "snd_error (gce_sender (append_sent ms ep)) = snd_error (gce_sender ep)"
  "append_sent [] ep = ep" "append_sent ns (append_sent ms ep) = append_sent (ms @ ns) ep"
  by (simp_all add: append_sent_def)

lemma publish_open: "snd_error (gce_sender ep) = None \<Longrightarrow> publish bt p ep = Ok () (append_sent [Request bt None p] ep)"
  by (simp add: publish_def send_on_def chan_send_def append_sent_def)

lemma endpoint_process_idle:
  assumes "idle_endpoint now ep"
  shows "endpoint_process rid_msg call now (ep, ud) = Ok (gt_pending (gce_tracker ep) \<noteq> []) (ep, ud)"
  using assms by (simp add: idle_endpoint_def endpoint_process_def with_tracker_process_idle)

text \<open>
  With requests only on its queue, an endpoint hands them all over.
\<close>

lemma process_loop_requests:
  "rcv_incoming (gce_receiver ep) = map (\<lambda>(rid, p). Request bt rid p) ms \<Longrightarrow>
   \<not> rcv_disconnected (gce_receiver ep) \<Longrightarrow>
   process_loop rid_msg call (map (\<lambda>(rid, p). Request bt rid p) ms) w (ep, ud) = Ok (w \<or> ms \<noteq> [])
     (ep\<lparr>gce_receiver := (gce_receiver ep)\<lparr>rcv_incoming := []\<rparr>,
         gce_outbox := gce_outbox ep @ map (\<lambda>(rid, p). GhostMessage_new bt rid p) ms\<rparr>, ud)"
proof (induction ms arbitrary: ep w)
  case (Cons m ms)
  obtain rid p where m: "m = (rid, p)" by (cases m)
  let ?ep = "ep\<lparr>gce_receiver := (gce_receiver ep)\<lparr>rcv_incoming := map (\<lambda>(rid, p). Request bt rid p) ms\<rparr>,
      gce_outbox := gce_outbox ep @ [GhostMessage_new bt rid p]\<rparr>"
  show ?case using Cons.IH[of ?ep True] Cons.prems by (simp add: m process_message_def)
qed simp

lemma endpoint_process_requests:
  assumes "gt_expired now (gce_tracker ep) = []" and "\<not> rcv_disconnected (gce_receiver ep)"
    and "rcv_incoming (gce_receiver ep) = map (\<lambda>(rid, p). Request bt rid p) ms"
  shows "endpoint_process rid_msg call now (ep, ud) = Ok (gt_pending (gce_tracker ep) \<noteq> [] \<or> ms \<noteq> [])
     (ep\<lparr>gce_receiver := (gce_receiver ep)\<lparr>rcv_incoming := []\<rparr>,
         gce_outbox := gce_outbox ep @ map (\<lambda>(rid, p). GhostMessage_new bt rid p) ms\<rparr>, ud)"
  using assms by (simp add: endpoint_process_def with_tracker_process_idle process_loop_requests)

section \<open>What an actor's callbacks keep, processing keeps\<close>

text \<open>
  The contract between an actor and its endpoint: a predicate on the actor and the endpoint's
  sender that every callback of the actor keeps. Then \<open>process\<close> keeps it, however many timeouts
  and responses it delivers and whether or not it returns an error.
\<close>

locale callback_contract =
  fixes call :: "('cb, 'ud \<times> ('ro, 'rsr, 'err) GhostEndpointMessage Sender, 'ror, 'err) call"
    and keeps :: "'ud \<times> ('ro, 'rsr, 'err) GhostEndpointMessage Sender \<Rightarrow> bool"
  assumes call_keeps: "keeps u \<Longrightarrow> final_state (call cb data u) = Some u' \<Longrightarrow> keeps u'"
begin

lemma expire_keeps:
  "keeps u \<Longrightarrow> final_state (gt_expire call rids t u) = Some (t', u') \<Longrightarrow> keeps u'"
proof (induction rids arbitrary: t u)
  case (Cons rid rids)
  show ?case
  proof (cases "gt_lookup t rid")
    case None
    then show ?thesis using Cons by simp
  next
    case (Some entry)
    show ?thesis
    proof (cases "call (gte_cb entry) (CbTimeout (gte_backtrace entry)) u")
      case (Ok v u1)
      then have "keeps u1" using call_keeps[OF Cons.prems(1)] by (metis final_state.simps(1,2))
      then show ?thesis using Cons.IH Cons.prems(2) Some Ok by simp
    next
      case (Err e u1)
      then have "keeps u1" using call_keeps[OF Cons.prems(1)] by (metis final_state.simps(1,2))
      then show ?thesis using Cons.prems(2) Some Err by simp
    next
      case (Panic m)
      then show ?thesis using Cons.prems(2) Some by simp
    qed
  qed
qed simp

lemma tracker_process_keeps:
  assumes "keeps u" and "final_state (GhostTracker_process call now t u) = Some (t', u')"
  shows "keeps u'"
proof -
  from assms(2) have "final_state (gt_expire call (gt_expired now t) t u) = Some (t', u')"
    by (auto simp: GhostTracker_process_def final_state_bind_ok split: outcome.splits)
  with assms(1) show ?thesis by (rule expire_keeps)
qed

lemma handle_keeps:
  "keeps u \<Longrightarrow> final_state (GhostTracker_handle rid_msg call rid data t u) = Some (t', u') \<Longrightarrow> keeps u'"
  by (auto simp: GhostTracker_handle_def final_state_lift_state intro: call_keeps split: option.splits)

lemma process_message_keeps:
  assumes "keeps (ud, gce_sender ep)"
    and "final_state (process_message rid_msg call m (ep, ud)) = Some (ep', ud')"
  shows "keeps (ud', gce_sender ep')"
  using assms
  by (auto simp: process_message_def with_tracker_def final_state_lift_state
      split: GhostEndpointMessage.splits intro: handle_keeps)

lemma process_loop_keeps:
  assumes "keeps (ud, gce_sender ep)"
    and "final_state (process_loop rid_msg call ms w (ep, ud)) = Some (ep', ud')"
  shows "keeps (ud', gce_sender ep')"
  using assms
proof (induction ms arbitrary: w ep ud)
  case Nil
  then show ?case by (auto split: if_splits)
next
  case (Cons m ms)
  let ?ep = "ep\<lparr>gce_receiver := (gce_receiver ep)\<lparr>rcv_incoming := ms\<rparr>\<rparr>"
  have k: "keeps (ud, gce_sender ?ep)" using Cons.prems(1) by simp
  show ?case
  proof (cases "process_message rid_msg call m (?ep, ud)")
    case (Ok v st)
    obtain ep1 ud1 where st: "st = (ep1, ud1)" by (cases st)
    have "keeps (ud1, gce_sender ep1)"
      using process_message_keeps[OF k, of rid_msg m ep1 ud1] Ok st by simp
    then show ?thesis using Cons.IH[of ud1 ep1 True] Cons.prems(2) Ok st by simp
  next
    case (Err e st)
    then show ?thesis using process_message_keeps[OF k, of rid_msg m ep' ud'] Cons.prems(2) by simp
  next
    case (Panic p)
    then show ?thesis using Cons.prems(2) by simp
  qed
qed

lemma endpoint_process_keeps:
  assumes "keeps (ud, gce_sender ep)"
    and "final_state (endpoint_process rid_msg call now (ep, ud)) = Some (ep', ud')"
  shows "keeps (ud', gce_sender ep')"
proof -
  have wt: "keeps (ud1, gce_sender ep1)"
    if "final_state (with_tracker (GhostTracker_process call now) (ep, ud)) = Some (ep1, ud1)" for ep1 ud1
    using that assms(1) by (auto simp: with_tracker_def final_state_lift_state intro: tracker_process_keeps)
  show ?thesis
  proof (cases "with_tracker (GhostTracker_process call now) (ep, ud)")
    case (Ok v st)
    then show ?thesis using wt[of "fst st" "snd st"] assms(2)
      by (cases st) (auto simp: endpoint_process_def intro: process_loop_keeps)
  qed (use wt assms(2) in \<open>auto simp: endpoint_process_def\<close>)
qed

end

section \<open>Properties\<close>

text \<open>
  C19: a successful \<open>process\<close> hands every request and event received since the last one to
  \<open>drain_messages\<close>, once and in the order in which they were sent, behind the messages not yet
  drained, whatever the callbacks for the responses in between do; the queue is then empty and
  connected.
\<close>

theorem endpoint_process_fifo:
  assumes "endpoint_process rid_msg call now (ep, ud) = Ok w (ep', ud')"
  shows "fst (drain_messages ep') =
      fst (drain_messages ep) @ requests_of (rcv_incoming (gce_receiver ep)) \<and>
    rcv_incoming (gce_receiver ep') = [] \<and> \<not> rcv_disconnected (gce_receiver ep')"
proof -
  from assms obtain w1 ep1 ud1 where
    t: "with_tracker (GhostTracker_process call now) (ep, ud) = Ok w1 (ep1, ud1)" and
    l: "process_loop rid_msg call (rcv_incoming (gce_receiver ep1)) w1 (ep1, ud1) = Ok w (ep', ud')"
    by (auto simp: endpoint_process_def outcome_simps)
  from with_tracker_frame_Ok[OF t] process_loop_frame[OF l refl] show ?thesis
    by (simp add: drain_messages_def)
qed

text \<open>
  What an endpoint sent between two states, and the other side receiving it: this is where the
  two endpoints of \<open>create_ghost_channel\<close> are joined.
\<close>

definition sent_since ::
  "('cb, 'ro, 'ror, 'rs, 'rsr, 'err) GhostContextEndpoint \<Rightarrow>
   ('cb, 'ro, 'ror, 'rs, 'rsr, 'err) GhostContextEndpoint \<Rightarrow>
   ('ro, 'rsr, 'err) GhostEndpointMessage list" where
  "sent_since ep ep' = drop (length (snd_sent (gce_sender ep))) (snd_sent (gce_sender ep'))"

definition deliver ::
  "('rs, 'ror, 'err) GhostEndpointMessage list \<Rightarrow>
   ('cb, 'ro, 'ror, 'rs, 'rsr, 'err) GhostContextEndpoint \<Rightarrow>
   ('cb, 'ro, 'ror, 'rs, 'rsr, 'err) GhostContextEndpoint" where
  "deliver ms ep = ep\<lparr>gce_receiver := (gce_receiver ep)
     \<lparr>rcv_incoming := rcv_incoming (gce_receiver ep) @ ms\<rparr>\<rparr>"

lemma request_Ok:
  assumes "request env payload cb A = Ok () A1"
  defines "rid \<equiv> gt_request_id_prefix (gce_tracker A) @ re_nanoid env"
  shows "sent_since A A1 = [Request (re_bt env) (Some rid) payload] \<and>
    gce_receiver A1 = gce_receiver A \<and> gce_outbox A1 = gce_outbox A \<and>
    gce_tracker A1 = gt_insert rid
      \<lparr>gte_backtrace = re_bt env,
       gte_expires = re_now env + gt_default_timeout (gce_tracker A), gte_cb = cb\<rparr> (gce_tracker A)"
  using assms(1)
  by (auto simp: request_def priv_request_def GhostTrackRequestOptions_default_def bookmark_def
      bookmark_options_def GhostTrackerBookmarkOptions_default_def RequestId_with_prefix_def
      checked_add_time_def rid_def Let_def outcome_simps send_on_Ok sent_since_def
      split: if_splits)

text \<open>
  C1: request and response are paired end to end. A request made on one endpoint reaches the
  other side as one message; the answer given to that message with \<open>respond\<close> runs, on the
  requesting side, the callback of that very request with that very answer, exactly once, and
  the tracker then holds what it held before the request.
\<close>

theorem request_response_round_trip:
  assumes req: "request env payload cb A = Ok () A1"
    and fresh: "gt_lookup (gce_tracker A) (gt_request_id_prefix (gce_tracker A) @ re_nanoid env) = None"
    and idleA: "rcv_incoming (gce_receiver A) = []" "\<not> rcv_disconnected (gce_receiver A)"
    and idleB: "rcv_incoming (gce_receiver B) = []" "\<not> rcv_disconnected (gce_receiver B)"
      "gce_outbox B = []" "gt_expired nowB (gce_tracker B) = []" "snd_error (gce_sender B) = None"
    and in_time: "gt_expired nowA (gce_tracker A1) = []"
    and call: "callA cb (CbResponse answer) (udA, gce_sender A1) = Ok () (udA', s')"
  shows "\<exists>B1 msg B2 sB A2.
      endpoint_process rid_msg callB nowB (deliver (sent_since A A1) B, udB) = Ok True (B1, udB) \<and>
      drain_messages B1 = ([msg], B2) \<and> gm_message msg = Some payload \<and>
      GhostMessage_respond bt msg answer (gce_sender B2) = Ok () sB \<and>
      endpoint_process rid_msg callA nowA
        (deliver (sent_since B2 (B2\<lparr>gce_sender := sB\<rparr>)) A1, udA) = Ok True (A2, udA') \<and>
      gt_lookup (gce_tracker A2) = gt_lookup (gce_tracker A) \<and> gce_sender A2 = s'"
proof -
  let ?rid = "gt_request_id_prefix (gce_tracker A) @ re_nanoid env"
  let ?msg = "GhostMessage_new (re_bt env) (Some ?rid) payload"
  let ?B1 = "B\<lparr>gce_receiver := (gce_receiver B)\<lparr>rcv_incoming := []\<rparr>, gce_outbox := [?msg]\<rparr>"
  let ?resp = "Response bt ?rid answer"
  let ?sB = "(gce_sender B)\<lparr>snd_sent := snd_sent (gce_sender B) @ [?resp]\<rparr>"
  note A1 = request_Ok[OF req]
  have B: "endpoint_process rid_msg callB nowB (deliver (sent_since A A1) B, udB) = Ok True (?B1, udB)"
    using idleB A1 by (simp add: endpoint_process_def deliver_def with_tracker_process_idle
        process_message_def)
  have answer: "GhostMessage_respond bt ?msg answer (gce_sender B) = Ok () ?sB"
    using idleB by (simp add: GhostMessage_respond_def GhostMessage_new_def)
  have sent: "sent_since (?B1\<lparr>gce_outbox := []\<rparr>) (?B1\<lparr>gce_outbox := [], gce_sender := ?sB\<rparr>) = [?resp]"
    by (simp add: sent_since_def)
  let ?A2 = "A1\<lparr>gce_receiver := (gce_receiver A1)\<lparr>rcv_incoming := []\<rparr>,
      gce_tracker := gt_remove ?rid (gce_tracker A1), gce_sender := s'\<rparr>"
  have A: "endpoint_process rid_msg callA nowA (deliver [?resp] A1, udA) = Ok True (?A2, udA')"
    using A1 idleA in_time call
    by (simp add: endpoint_process_def deliver_def with_tracker_process_idle process_message_Response)
  have "gt_lookup (gce_tracker ?A2) = gt_lookup (gce_tracker A)"
    using A1 fresh by (simp add: fun_eq_iff)
  then show ?thesis
    using B answer A sent
    by (intro exI[of _ ?B1] exI[of _ ?msg] exI[of _ "?B1\<lparr>gce_outbox := []\<rparr>"] exI[of _ ?sB] exI[of _ ?A2])
      (simp add: drain_messages_def GhostMessage_new_def)
qed

text \<open>
  a response that arrives after its request timed out makes \<open>process\<close> fail with
  \<open>RequestIdNotFound\<close>: no callback runs, and the messages behind it stay queued for the next
  \<open>process\<close>.
\<close>

theorem late_response_fails_process:
  assumes "gt_lookup (gce_tracker ep) rid = None"
    and "gt_expired now (gce_tracker ep) = []"
    and "rcv_incoming (gce_receiver ep) = Response bt rid p # ms"
  shows "endpoint_process rid_msg call now (ep, ud) =
    Err (RequestIdNotFound (rid_msg rid (keys (gt_pending (gce_tracker ep)))))
      (ep\<lparr>gce_receiver := (gce_receiver ep)\<lparr>rcv_incoming := ms\<rparr>\<rparr>, ud)"
  using assms
  by (simp add: endpoint_process_def with_tracker_process_idle process_message_unknown)

text \<open>
  answering an event (a message without request id) sends nothing; answering it with an
  error panics. Answering a request sends exactly one response with its id.
\<close>

theorem respond_cases:
  "GhostMessage_respond bt msg payload s =
     (if is_request msg then chan_send (Response bt (the (gm_request_id msg)) payload) s
      else if isl payload then Panic ''Unhandled publish error'' else Ok () s)"
  by (cases payload) (auto simp: GhostMessage_respond_def is_request_def)

section \<open>Witnesses\<close>

type_synonym demo_endpoint = "(nat, nat, nat, nat, nat, nat) GhostContextEndpoint"

definition demo_endpoint :: demo_endpoint where
  "demo_endpoint = GhostContextEndpointBuilder_build
     (GhostContextEndpointBuilder_request_id_prefix ''p_''
        (as_context_endpoint_builder (fst create_ghost_channel)))"

definition demo_env :: req_env where
  "demo_env = \<lparr>re_nanoid = ''1'', re_now = 100, re_bt = Backtwrap None\<rparr>"

text \<open>A user whose callbacks log the request they belong to.\<close>

definition log_cb :: "(nat, nat list \<times> (nat, nat, nat) GhostEndpointMessage Sender, nat, nat) call" where
  "log_cb cb data st = (case st of (log, s) \<Rightarrow> Ok () (log @ [cb], s))"

lemmas demo_endpoint_simps = demo_endpoint_def GhostContextEndpointBuilder_build_def
  GhostContextEndpointBuilder_request_id_prefix_def as_context_endpoint_builder_def
  create_ghost_channel_def GhostEndpoint_new_def fresh_sender_def fresh_receiver_def
  GhostTrackerBuilder_build_def GhostTrackerBuilder_default_def
  GhostTrackerBuilder_request_id_prefix_def DEFAULT_TIMEOUT_def demo_env_def log_cb_def

theorem endpoint_process_fifo_witness:
  "\<exists>ep'. endpoint_process (\<lambda>_ _. '''') log_cb 0
      (deliver [Request (Backtwrap None) None 4, Request (Backtwrap None) (Some ''q'') 5] demo_endpoint, [])
      = Ok True (ep', []) \<and>
    fst (drain_messages ep') =
      [GhostMessage_new (Backtwrap None) None 4, GhostMessage_new (Backtwrap None) (Some ''q'') 5]"
proof -
  let ?ms = "[Request (Backtwrap None) None 4, Request (Backtwrap None) (Some ''q'') 5]"
  let ?r = "endpoint_process (\<lambda>_ _. '''') log_cb 0 (deliver ?ms demo_endpoint, [])"
  have "\<exists>ep'. ?r = Ok True (ep', [])"
    by (simp add: endpoint_process_def deliver_def with_tracker_process_idle gt_expired_def
        process_message_def demo_endpoint_simps)
  then obtain ep' where run: "?r = Ok True (ep', [])" by blast
  with endpoint_process_fifo [OF run] show ?thesis
    by (simp add: drain_messages_def deliver_def demo_endpoint_simps)
qed

theorem request_response_round_trip_witness:
  "\<exists>A1 B1 msg B2 sB A2.
     request demo_env 42 7 demo_endpoint = Ok () A1 \<and>
     endpoint_process (\<lambda>_ _. '''') log_cb 100 (deliver (sent_since demo_endpoint A1) demo_endpoint, [])
       = Ok True (B1, []) \<and>
     drain_messages B1 = ([msg], B2) \<and> gm_message msg = Some 42 \<and>
     GhostMessage_respond (Backtwrap None) msg (Inr 43) (gce_sender B2) = Ok () sB \<and>
     endpoint_process (\<lambda>_ _. '''') log_cb 200
        (deliver (sent_since B2 (B2\<lparr>gce_sender := sB\<rparr>)) A1, []) = Ok True (A2, [7]) \<and>
     gt_lookup (gce_tracker A2) = gt_lookup (gce_tracker demo_endpoint)"
proof -
  have "\<exists>A1. request demo_env 42 7 demo_endpoint = Ok () A1 \<and>
      gt_expired 200 (gce_tracker A1) = []"
    by (simp add: request_def priv_request_def GhostTrackRequestOptions_default_def bookmark_def
        bookmark_options_def GhostTrackerBookmarkOptions_default_def RequestId_with_prefix_def
        checked_add_time_def TIME_MAX_def send_on_def chan_send_def gt_expired_def gt_insert_def Let_def
        demo_endpoint_simps)
  then obtain A1 where req: "request demo_env 42 7 demo_endpoint = Ok () A1"
    and t: "gt_expired 200 (gce_tracker A1) = []" by blast
  have "\<exists>B1 msg B2 sB A2.
      endpoint_process (\<lambda>_ _. '''') log_cb 100 (deliver (sent_since demo_endpoint A1) demo_endpoint, [])
        = Ok True (B1, []) \<and>
      drain_messages B1 = ([msg], B2) \<and> gm_message msg = Some 42 \<and>
      GhostMessage_respond (Backtwrap None) msg (Inr 43) (gce_sender B2) = Ok () sB \<and>
      endpoint_process (\<lambda>_ _. '''') log_cb 200
        (deliver (sent_since B2 (B2\<lparr>gce_sender := sB\<rparr>)) A1, []) = Ok True (A2, [7]) \<and>
      gt_lookup (gce_tracker A2) = gt_lookup (gce_tracker demo_endpoint) \<and>
      gce_sender A2 = gce_sender A1"
    by (rule request_response_round_trip [OF req])
      (simp_all add: t gt_expired_empty demo_endpoint_simps)
  then show ?thesis using req by (elim exE conjE) (intro exI conjI)
qed

theorem late_response_fails_process_witness:
  "endpoint_process (\<lambda>_ _. ''late'') log_cb 0
      (deliver [Response (Backtwrap None) ''p_1'' (Inr 3), Request (Backtwrap None) None 4] demo_endpoint, [])
    = Err (RequestIdNotFound ''late'') (deliver [Request (Backtwrap None) None 4] demo_endpoint, [])"
  using late_response_fails_process [of "deliver [Response (Backtwrap None) ''p_1'' (Inr 3),
        Request (Backtwrap None) None 4] demo_endpoint" "''p_1''" 0 "Backtwrap None" "Inr 3"
        "[Request (Backtwrap None) None 4]" "\<lambda>_ _. ''late''" log_cb "[]"]
  by (simp add: deliver_def gt_expired_def demo_endpoint_simps)

end
