(* ===== verification/Ghost_Actor.thy ===== *)
theory Ghost_Actor
  imports Ghost_Channel
begin

text \<open>
  The parent's side of an actor (\<open>crates/zombie_actor/src/ghost_actor.rs\<close>): \<open>GhostParentWrapper\<close>
  joins a child actor with the parent's endpoint to it, \<open>GhostParentWrapperDyn\<close> does the same for
  a boxed trait object. The child is any type \<open>'actor\<close> with the two methods of the trait
  \<open>GhostActor\<close>, passed as arguments: \<open>take_parent_endpoint\<close> and \<open>process\<close>.
\<close>

section \<open>Model\<close>

text \<open>The default methods of the trait.\<close>

definition GhostActor_process_concrete_default :: "'actor \<Rightarrow> ('actor, GhostError, WorkWasDone) outcome" where
  "GhostActor_process_concrete_default actor = Ok False actor"

definition GhostActor_process ::
  "('actor \<Rightarrow> ('actor, GhostError, WorkWasDone) outcome) \<Rightarrow> 'actor \<Rightarrow> ('actor, GhostError, WorkWasDone) outcome" where
  "GhostActor_process process_concrete actor = process_concrete actor"

record ('actor, 'cb, 'rp, 'rpr, 'rc, 'rcr, 'err) GhostParentWrapper =
  gpw_actor :: 'actor
  gpw_endpoint :: "('cb, 'rc, 'rcr, 'rp, 'rpr, 'err) GhostContextEndpoint"

definition GhostParentWrapper_new ::
  "('actor \<Rightarrow> ('rc, 'rcr, 'rp, 'rpr, 'err) GhostEndpoint option \<times> 'actor) \<Rightarrow> 'actor \<Rightarrow> string \<Rightarrow>
   (unit, GhostError, ('actor, 'cb, 'rp, 'rpr, 'rc, 'rcr, 'err) GhostParentWrapper) outcome" where
  "GhostParentWrapper_new take_parent_endpoint actor request_id_prefix =
     (case take_parent_endpoint actor of
        (None, _) \<Rightarrow> Panic ''exists''
      | (Some ge, actor') \<Rightarrow>
          Ok \<lparr>gpw_actor = actor',
              gpw_endpoint = GhostContextEndpointBuilder_build
                (GhostContextEndpointBuilder_request_id_prefix request_id_prefix
                   (as_context_endpoint_builder ge))\<rparr> ())"

definition on_endpoint ::
  "(('cb, 'rc, 'rcr, 'rp, 'rpr, 'err) GhostContextEndpoint \<Rightarrow>
      (('cb, 'rc, 'rcr, 'rp, 'rpr, 'err) GhostContextEndpoint, GhostError, 'a) outcome) \<Rightarrow>
   ('actor, 'cb, 'rp, 'rpr, 'rc, 'rcr, 'err) GhostParentWrapper \<Rightarrow>
   (('actor, 'cb, 'rp, 'rpr, 'rc, 'rcr, 'err) GhostParentWrapper, GhostError, 'a) outcome" where
  "on_endpoint f w = lift_state (\<lambda>ep. w\<lparr>gpw_endpoint := ep\<rparr>) (f (gpw_endpoint w))"

definition wrapper_publish ::
  "Backtwrap \<Rightarrow> 'rc \<Rightarrow> ('actor, 'cb, 'rp, 'rpr, 'rc, 'rcr, 'err) GhostParentWrapper \<Rightarrow>
   (('actor, 'cb, 'rp, 'rpr, 'rc, 'rcr, 'err) GhostParentWrapper, GhostError, unit) outcome" where
  "wrapper_publish bt payload w = on_endpoint (publish bt payload) w"

definition wrapper_request ::
  "req_env \<Rightarrow> 'rc \<Rightarrow> 'cb \<Rightarrow> ('actor, 'cb, 'rp, 'rpr, 'rc, 'rcr, 'err) GhostParentWrapper \<Rightarrow>
   (('actor, 'cb, 'rp, 'rpr, 'rc, 'rcr, 'err) GhostParentWrapper, GhostError, unit) outcome" where
  "wrapper_request env payload cb w = on_endpoint (request env payload cb) w"

definition wrapper_request_options ::
  "req_env \<Rightarrow> 'rc \<Rightarrow> 'cb \<Rightarrow> GhostTrackRequestOptions \<Rightarrow>
   ('actor, 'cb, 'rp, 'rpr, 'rc, 'rcr, 'err) GhostParentWrapper \<Rightarrow>
   (('actor, 'cb, 'rp, 'rpr, 'rc, 'rcr, 'err) GhostParentWrapper, GhostError, unit) outcome" where
  "wrapper_request_options env payload cb opts w = on_endpoint (request_options env payload cb opts) w"

definition wrapper_drain_messages ::
  "('actor, 'cb, 'rp, 'rpr, 'rc, 'rcr, 'err) GhostParentWrapper \<Rightarrow>
   'rp GhostMessage list \<times> ('actor, 'cb, 'rp, 'rpr, 'rc, 'rcr, 'err) GhostParentWrapper" where
  "wrapper_drain_messages w =
     (case drain_messages (gpw_endpoint w) of (msgs, ep) \<Rightarrow> (msgs, w\<lparr>gpw_endpoint := ep\<rparr>))"

text \<open>
  \<open>GhostParentWrapperDyn\<close> has the same two fields; its methods up to \<open>process\<close> are the following.
\<close>

definition wrapper_dyn_new ::
  "('actor \<Rightarrow> ('rc, 'rcr, 'rp, 'rpr, 'err) GhostEndpoint option \<times> 'actor) \<Rightarrow> 'actor \<Rightarrow> string \<Rightarrow>
   (unit, GhostError, ('actor, 'cb, 'rp, 'rpr, 'rc, 'rcr, 'err) GhostParentWrapper) outcome" where
  "wrapper_dyn_new take_parent_endpoint actor request_id_prefix =
     (case take_parent_endpoint actor of
        (None, _) \<Rightarrow> Panic ''exists''
      | (Some ge, actor') \<Rightarrow>
          Ok \<lparr>gpw_actor = actor',
              gpw_endpoint = GhostContextEndpointBuilder_build
                (GhostContextEndpointBuilder_request_id_prefix request_id_prefix
                   (as_context_endpoint_builder ge))\<rparr> ())"

definition wrapper_dyn_publish ::
  "Backtwrap \<Rightarrow> 'rc \<Rightarrow> ('actor, 'cb, 'rp, 'rpr, 'rc, 'rcr, 'err) GhostParentWrapper \<Rightarrow>
   (('actor, 'cb, 'rp, 'rpr, 'rc, 'rcr, 'err) GhostParentWrapper, GhostError, unit) outcome" where
  "wrapper_dyn_publish bt payload w = on_endpoint (publish bt payload) w"

definition wrapper_dyn_request ::
  "req_env \<Rightarrow> 'rc \<Rightarrow> 'cb \<Rightarrow> ('actor, 'cb, 'rp, 'rpr, 'rc, 'rcr, 'err) GhostParentWrapper \<Rightarrow>
   (('actor, 'cb, 'rp, 'rpr, 'rc, 'rcr, 'err) GhostParentWrapper, GhostError, unit) outcome" where
  "wrapper_dyn_request env payload cb w = on_endpoint (request env payload cb) w"

definition wrapper_dyn_request_options ::
  "req_env \<Rightarrow> 'rc \<Rightarrow> 'cb \<Rightarrow> GhostTrackRequestOptions \<Rightarrow> ('actor, 'cb, 'rp, 'rpr, 'rc, 'rcr, 'err) GhostParentWrapper \<Rightarrow>
   (('actor, 'cb, 'rp, 'rpr, 'rc, 'rcr, 'err) GhostParentWrapper, GhostError, unit) outcome" where
  "wrapper_dyn_request_options env payload cb opts w = on_endpoint (request_options env payload cb opts) w"

definition wrapper_dyn_drain_messages ::
  "('actor, 'cb, 'rp, 'rpr, 'rc, 'rcr, 'err) GhostParentWrapper \<Rightarrow>
   'rp GhostMessage list \<times> ('actor, 'cb, 'rp, 'rpr, 'rc, 'rcr, 'err) GhostParentWrapper" where
  "wrapper_dyn_drain_messages w =
     (case drain_messages (gpw_endpoint w) of (msgs, ep) \<Rightarrow> (msgs, w\<lparr>gpw_endpoint := ep\<rparr>))"

text \<open>
  \<open>process\<close> of the wrapper: first the child, then the parent's endpoint with the parent's user
  data. \<open>transfer\<close> stands for the queues between the two: what the endpoint receives after the
  child has run.
\<close>

definition wrapper_step ::
  "(WorkWasDone \<Rightarrow> WorkWasDone \<Rightarrow> WorkWasDone) \<Rightarrow>
   ('actor \<Rightarrow> ('actor, GhostError, WorkWasDone) outcome) \<Rightarrow>
   ('actor \<Rightarrow> ('cb, 'rc, 'rcr, 'rp, 'rpr, 'err) GhostContextEndpoint \<Rightarrow>
      ('cb, 'rc, 'rcr, 'rp, 'rpr, 'err) GhostContextEndpoint) \<Rightarrow>
   (RequestId \<Rightarrow> RequestId list \<Rightarrow> string) \<Rightarrow>
   ('cb, 'ud \<times> ('rc, 'rpr, 'err) GhostEndpointMessage Sender, 'rcr, 'err) call \<Rightarrow> time \<Rightarrow>
   ('actor, 'cb, 'rp, 'rpr, 'rc, 'rcr, 'err) GhostParentWrapper \<times> 'ud \<Rightarrow>
   (('actor, 'cb, 'rp, 'rpr, 'rc, 'rcr, 'err) GhostParentWrapper \<times> 'ud, GhostError, WorkWasDone) outcome" where
  "wrapper_step combine actor_process transfer rid_msg call now st =
     (case st of (w, ud) \<Rightarrow>
        bind_ok (lift_state (\<lambda>a. (w\<lparr>gpw_actor := a, gpw_endpoint := transfer a (gpw_endpoint w)\<rparr>, ud))
                   (actor_process (gpw_actor w)))
          (\<lambda>work_was_done (w, ud).
             bind_ok (lift_state (\<lambda>(ep, ud'). (w\<lparr>gpw_endpoint := ep\<rparr>, ud'))
                        (endpoint_process rid_msg call now (gpw_endpoint w, ud)))
               (\<lambda>endpoint_did_work. Ok (combine work_was_done endpoint_did_work))))"

definition wrapper_process where
  "wrapper_process = wrapper_step (\<lambda>work_was_done endpoint_did_work. work_was_done)"

definition wrapper_dyn_process where
  "wrapper_dyn_process = wrapper_step WorkWasDone_or"

section \<open>Properties\<close>


text \<open>
  The difference is real: a child that does nothing, and one response for the parent.
\<close>

lemma wrappers_report_differently:
  assumes "ap (gpw_actor w) = Ok False a"
    and "endpoint_process rm call now (tr a (gpw_endpoint w), ud) = Ok True (ep', ud')"
  shows "wrapper_process ap tr rm call now (w, ud) =
      Ok False (w\<lparr>gpw_actor := a, gpw_endpoint := ep'\<rparr>, ud') \<and>
    wrapper_dyn_process ap tr rm call now (w, ud) =
      Ok True (w\<lparr>gpw_actor := a, gpw_endpoint := ep'\<rparr>, ud')"
  using assms by (simp add: wrapper_process_def wrapper_dyn_process_def wrapper_step_def WorkWasDone_or_def)


end
