(* ===== verification/Track.thy ===== *)
theory Track
  imports Prelude
begin

text \<open>
  The engine's own request tracker (\<open>crates/lib3h/src/track.rs\<close>, with \<open>time.rs\<close>): a table from
  request ids to optional user data, each with the millisecond at which it expires. Unlike the
  actor framework's tracker it runs no callbacks; the caller collects what has expired.
  The clock (\<open>since_epoch_ms\<close>) and the random part of an id (the \<open>nanoid\<close> package) are arguments,
  and so is \<open>checks\<close>, whether the build traps integer overflow.
\<close>

section \<open>Data and operations\<close>

type_synonym TrackId = string

record 'a TrackItem =
  ti_value :: "'a option"
  ti_expires_ms :: u64

record 'a Tracker =
  tr_id_prefix :: string
  tr_timeout_ms :: u64
  tr_map :: "(TrackId, 'a TrackItem) hashmap"

definition Tracker_new :: "string \<Rightarrow> u64 \<Rightarrow> 'a Tracker" where
  "Tracker_new prefix timeout_ms =
     \<lparr>tr_id_prefix = prefix, tr_timeout_ms = timeout_ms, tr_map = []\<rparr>"

definition Tracker_has :: "'a Tracker \<Rightarrow> TrackId \<Rightarrow> bool" where
  "Tracker_has t i = (i \<in> set (keys (tr_map t)))"

definition Tracker_get :: "'a Tracker \<Rightarrow> TrackId \<Rightarrow> 'a option" where
  "Tracker_get t i =
     (case map_of (tr_map t) i of
        Some item \<Rightarrow> ti_value item
      | None \<Rightarrow> None)"

definition gen_id :: "string \<Rightarrow> 'a Tracker \<Rightarrow> TrackId" where
  "gen_id nanoid t = tr_id_prefix t @ nanoid"

text \<open>\<open>None\<close> is the overflow panic of \<open>since_epoch_ms() + self.timeout_ms\<close>.\<close>

definition priv_new_track_item :: "bool \<Rightarrow> u64 \<Rightarrow> 'a option \<Rightarrow> 'a Tracker \<Rightarrow> 'a TrackItem option" where
  "priv_new_track_item checks now value t =
     map_option (\<lambda>e. \<lparr>ti_value = value, ti_expires_ms = e\<rparr>) (add_u64 checks now (tr_timeout_ms t))"

definition tr_insert :: "TrackId \<Rightarrow> 'a TrackItem \<Rightarrow> 'a Tracker \<Rightarrow> 'a Tracker" where
  "tr_insert i item t = t\<lparr>tr_map := AList.update i item (tr_map t)\<rparr>"

definition tr_delete :: "TrackId \<Rightarrow> 'a Tracker \<Rightarrow> 'a Tracker" where
  "tr_delete i t = t\<lparr>tr_map := AList.delete i (tr_map t)\<rparr>"

definition Tracker_reserve ::
  "bool \<Rightarrow> string \<Rightarrow> u64 \<Rightarrow> 'a Tracker \<Rightarrow> ('a Tracker, unit, TrackId) outcome" where
  "Tracker_reserve checks nanoid now t =
     (let i = gen_id nanoid t in
      case priv_new_track_item checks now None t of
        None \<Rightarrow> Panic ''attempt to add with overflow''
      | Some item \<Rightarrow> Ok i (tr_insert i item t))"

definition Tracker_set ::
  "bool \<Rightarrow> u64 \<Rightarrow> TrackId \<Rightarrow> 'a option \<Rightarrow> 'a Tracker \<Rightarrow> ('a Tracker, unit, 'a option) outcome" where
  "Tracker_set checks now i value t =
     (case map_of (tr_map t) i of
        Some item \<Rightarrow> Ok (ti_value item) (tr_insert i (item\<lparr>ti_value := value\<rparr>) t)
      | None \<Rightarrow>
          (case priv_new_track_item checks now value t of
             None \<Rightarrow> Panic ''attempt to add with overflow''
           | Some item \<Rightarrow> Ok None (tr_insert i item t)))"

definition Tracker_remove :: "TrackId \<Rightarrow> 'a Tracker \<Rightarrow> 'a option \<times> 'a Tracker" where
  "Tracker_remove i t =
     (case map_of (tr_map t) i of
        Some s \<Rightarrow> ti_value s
      | None \<Rightarrow> None, tr_delete i t)"

definition tr_expire_list :: "u64 \<Rightarrow> 'a Tracker \<Rightarrow> TrackId list" where
  "tr_expire_list now t =
     map fst (filter (\<lambda>(k, v). \<not> ti_expires_ms v > now) (tr_map t))"

text \<open>The loop over the expired ids, with its output vector.\<close>

fun tr_remove_each :: "TrackId list \<Rightarrow> (TrackId \<times> 'a option) list \<Rightarrow> 'a Tracker \<Rightarrow>
    (TrackId \<times> 'a option) list \<times> 'a Tracker" where
  "tr_remove_each [] out t = (out, t)"
| "tr_remove_each (i # ids) out t =
     (let (value, t') = Tracker_remove i t in tr_remove_each ids (out @ [(i, value)]) t')"

definition Tracker_process_timeouts ::
  "u64 \<Rightarrow> 'a Tracker \<Rightarrow> (TrackId \<times> 'a option) list \<times> 'a Tracker" where
  "Tracker_process_timeouts now t = tr_remove_each (tr_expire_list now t) [] t"

section \<open>The tracker as a keyed table\<close>

definition wf_track :: "'a Tracker \<Rightarrow> bool" where
  "wf_track t = wf_map (tr_map t)"

abbreviation tr_lookup :: "'a Tracker \<Rightarrow> TrackId \<Rightarrow> 'a TrackItem option" where
  "tr_lookup t \<equiv> map_of (tr_map t)"

interpretation trk: keyed_table tr_lookup tr_insert tr_delete wf_track
  by unfold_locales (auto simp: tr_insert_def tr_delete_def wf_track_def hashmap_simps)

lemma tr_insert_timeout [simp]: "tr_timeout_ms (tr_insert i item t) = tr_timeout_ms t"
  by (simp add: tr_insert_def)

lemma wf_track_new [simp]: "wf_track (Tracker_new p ms)"
  by (simp add: Tracker_new_def wf_track_def)

lemma wf_track_ops:
  assumes "wf_track t"
  shows "Tracker_reserve checks nanoid now t = Ok j t' \<Longrightarrow> wf_track t'"
    and "Tracker_set checks now i value t = Ok v t' \<Longrightarrow> wf_track t'"
    and "wf_track (snd (Tracker_remove i t))"
  using assms
  by (auto simp: Tracker_reserve_def Tracker_set_def Tracker_remove_def Let_def trk.invar_put
        trk.invar_take split: option.splits)

lemma tr_remove_each_spec:
  assumes "wf_track t" and "distinct ids"
  shows "tr_remove_each ids out t =
    (out @ map (\<lambda>i. (i, Tracker_get t i)) ids, fold tr_delete ids t)"
  using assms
proof (induction ids arbitrary: out t)
  case (Cons i ids)
  have "Tracker_get (tr_delete i t) j = Tracker_get t j" if "j \<in> set ids" for j
  proof -
    have "j \<noteq> i" using Cons.prems(2) that by auto
    then show ?thesis by (simp add: Tracker_get_def trk.lookup_take[OF Cons.prems(1)])
  qed
  then have "map (\<lambda>j. (j, Tracker_get (tr_delete i t) j)) ids = map (\<lambda>j. (j, Tracker_get t j)) ids"
    by simp
  with Cons.IH[of "tr_delete i t"] Cons.prems show ?case
    by (simp add: Tracker_remove_def Tracker_get_def trk.invar_take)
qed simp

lemma tr_expire_list_distinct: "wf_track t \<Longrightarrow> distinct (tr_expire_list now t)"
  by (simp add: tr_expire_list_def wf_track_def distinct_map_filter)

lemma tr_expire_list_set:
  "wf_track t \<Longrightarrow>
   i \<in> set (tr_expire_list now t) \<longleftrightarrow> (\<exists>item. tr_lookup t i = Some item \<and> ti_expires_ms item \<le> now)"
  by (auto simp: tr_expire_list_def wf_track_def image_iff not_less split: prod.splits)

lemma process_timeouts_eq:
  assumes "wf_track t"
  shows "Tracker_process_timeouts now t =
    (map (\<lambda>i. (i, Tracker_get t i)) (tr_expire_list now t), fold tr_delete (tr_expire_list now t) t)"
  by (simp add: Tracker_process_timeouts_def tr_remove_each_spec[OF assms tr_expire_list_distinct[OF assms]])

section \<open>Properties\<close>

text \<open>
  \<open>process_timeouts\<close> returns every id whose expiry has been reached, once, with the user data it
  had, and afterwards exactly the ids that have not expired are tracked, with their data and
  expiry unchanged.
\<close>

theorem process_timeouts_exact:
  assumes "wf_track t" and "Tracker_process_timeouts now t = (out, t')"
  shows "distinct (map fst out)
    \<and> (\<forall>i v. (i, v) \<in> set out \<longleftrightarrow>
         (\<exists>item. tr_lookup t i = Some item \<and> ti_expires_ms item \<le> now \<and> ti_value item = v))
    \<and> tr_lookup t' = (\<lambda>i. case tr_lookup t i of
         Some item \<Rightarrow> if ti_expires_ms item \<le> now then None else Some item
       | None \<Rightarrow> None)"
proof (intro conjI allI)
  have out: "out = map (\<lambda>i. (i, Tracker_get t i)) (tr_expire_list now t)"
    and t': "t' = fold tr_delete (tr_expire_list now t) t"
    using assms(2) process_timeouts_eq[OF assms(1), of now] by simp_all
  show "distinct (map fst out)"
    by (simp add: out comp_def tr_expire_list_distinct[OF assms(1)])
  show "(i, v) \<in> set out \<longleftrightarrow>
      (\<exists>item. tr_lookup t i = Some item \<and> ti_expires_ms item \<le> now \<and> ti_value item = v)" for i v
    by (auto simp: out tr_expire_list_set[OF assms(1)] Tracker_get_def image_iff)
  show "tr_lookup t' = (\<lambda>i. case tr_lookup t i of
         Some item \<Rightarrow> if ti_expires_ms item \<le> now then None else Some item
       | None \<Rightarrow> None)"
    by (auto simp: t' fun_eq_iff trk.take_list[OF assms(1)] tr_expire_list_set[OF assms(1)]
          split: option.splits)
qed

definition demo_tracker :: "nat Tracker" where
  "demo_tracker = \<lparr>tr_id_prefix = ''r'', tr_timeout_ms = 10,
     tr_map = [(''a'', \<lparr>ti_value = Some 7, ti_expires_ms = 5\<rparr>),
               (''b'', \<lparr>ti_value = None, ti_expires_ms = 6\<rparr>)]\<rparr>"

theorem process_timeouts_exact_witness:
  "\<exists>out t'. Tracker_process_timeouts 5 demo_tracker = (out, t') \<and> (''a'', Some 7) \<in> set out
     \<and> tr_lookup t' ''a'' = None \<and> tr_lookup t' ''b'' = Some \<lparr>ti_value = None, ti_expires_ms = 6\<rparr>"
proof -
  obtain out t' where *: "Tracker_process_timeouts 5 demo_tracker = (out, t')"
    by (cases "Tracker_process_timeouts 5 demo_tracker")
  have "wf_track demo_tracker" by (simp add: wf_track_def demo_tracker_def)
  from process_timeouts_exact[OF this *] have
    "(''a'', Some 7) \<in> set out \<and> tr_lookup t' ''a'' = None
     \<and> tr_lookup t' ''b'' = Some \<lparr>ti_value = None, ti_expires_ms = 6\<rparr>"
    by (simp add: demo_tracker_def)
  with * show ?thesis by blast
qed

text \<open>
  The life of a request id: after \<open>reserve\<close> at time \<open>t0\<close> and \<open>set\<close> of its user data at any later
  time, the id is still tracked with that data, \<open>set\<close> has not moved its expiry, and
  \<open>process_timeouts\<close> at \<open>now\<close> reports it exactly when \<open>t0 + timeout_ms \<le> now\<close>, with the data last set.
\<close>

theorem reserve_set_timeout:
  assumes "wf_track t"
    and "Tracker_reserve checks nanoid t0 t = Ok i t1"
    and "Tracker_set checks t1ms i (Some v) t1 = Ok old t2"
  shows "i = tr_id_prefix t @ nanoid \<and> old = None \<and> Tracker_get t2 i = Some v
    \<and> (i \<in> set (map fst (fst (Tracker_process_timeouts now t2))) \<longleftrightarrow> t0 + tr_timeout_ms t \<le> now)
    \<and> (t0 + tr_timeout_ms t \<le> now \<longrightarrow> (i, Some v) \<in> set (fst (Tracker_process_timeouts now t2)))"
proof -
  define it where "it = \<lparr>ti_value = Some v, ti_expires_ms = t0 + tr_timeout_ms t\<rparr>"
  have i: "i = tr_id_prefix t @ nanoid"
    and t1: "t1 = tr_insert i \<lparr>ti_value = None, ti_expires_ms = t0 + tr_timeout_ms t\<rparr> t"
    using assms(2)
    by (auto simp: Tracker_reserve_def priv_new_track_item_def add_u64_def gen_id_def Let_def
          split: option.splits if_splits)
  have old: "old = None" and t2: "t2 = tr_insert i it t1"
    using assms(1,3) by (auto simp: Tracker_set_def t1 trk.lookup_put it_def)
  have wf: "wf_track t2" using assms(1) by (simp add: t2 t1 trk.invar_put)
  have look: "tr_lookup t2 i = Some it"
    using assms(1) by (simp add: t2 t1 trk.lookup_put trk.invar_put)
  have "Tracker_get t2 i = Some v" by (simp add: Tracker_get_def look it_def)
  moreover have "i \<in> set (tr_expire_list now t2) \<longleftrightarrow> t0 + tr_timeout_ms t \<le> now"
    by (simp add: tr_expire_list_set[OF wf] look it_def)
  ultimately show ?thesis
    by (auto simp: i[symmetric] old process_timeouts_eq[OF wf] comp_def image_iff)
qed

theorem reserve_set_timeout_witness:
  "\<exists>t1 t2. Tracker_reserve True ''x'' 3 demo_tracker = Ok ''rx'' t1
     \<and> Tracker_set True 9 ''rx'' (Some 1) t1 = Ok None t2
     \<and> (''rx'', Some 1) \<in> set (fst (Tracker_process_timeouts 13 t2))
     \<and> ''rx'' \<notin> set (map fst (fst (Tracker_process_timeouts 12 t2)))"
proof -
  have wf: "wf_track demo_tracker" by (simp add: wf_track_def demo_tracker_def)
  obtain t1 where r: "Tracker_reserve True ''x'' 3 demo_tracker = Ok ''rx'' t1"
    by (simp add: Tracker_reserve_def priv_new_track_item_def add_u64_def gen_id_def demo_tracker_def Let_def)
  obtain t2 where s: "Tracker_set True 9 ''rx'' (Some 1) t1 = Ok None t2"
    using r by (auto simp: Tracker_set_def Tracker_reserve_def priv_new_track_item_def add_u64_def
        gen_id_def demo_tracker_def tr_insert_def Let_def)
  have ms: "tr_timeout_ms demo_tracker = 10" by (simp add: demo_tracker_def)
  have "(''rx'', Some 1) \<in> set (fst (Tracker_process_timeouts 13 t2))"
    using reserve_set_timeout[OF wf r s, of 13] by (simp add: ms)
  moreover have "''rx'' \<notin> set (map fst (fst (Tracker_process_timeouts 12 t2)))"
    using reserve_set_timeout[OF wf r s, of 12] by (simp add: ms)
  ultimately show ?thesis using r s by blast
qed

end
