(* ===== verification/Wall_Clock.thy ===== *)
theory Wall_Clock
  imports Prelude
begin

text \<open>
  Reading the wall clock: \<open>since_epoch_ms\<close> of \<open>lib3h/src/time.rs\<close>, which supplies the times of the engine, its DHTs and trackers, and
  \<open>now_ms\<close> of \<open>p2p_protocol/src/p2p.rs\<close>, which supplies those of pings. The standard library's \<open>duration_since(UNIX_EPOCH)\<close> is
  an argument, in seconds and nanoseconds below a second; \<open>None\<close> is a clock before the epoch. \<open>checks\<close> says whether
  overflow panics.
\<close>

definition millis :: "bool \<Rightarrow> u64 \<Rightarrow> u32 \<Rightarrow> (unit, 'e, u64) outcome" where
  "millis checks secs nanos =
     (if checks \<and> 2 ^ 64 \<le> unat secs * 1000 then Panic ''attempt to multiply with overflow''
      else case add_u64 checks (secs * 1000) (ucast nanos div 1000000) of
          Some t \<Rightarrow> Ok t ()
        | None \<Rightarrow> Panic ''attempt to add with overflow'')"

definition since_epoch_ms :: "bool \<Rightarrow> (u64 \<times> u32) option \<Rightarrow> (unit, 'e, u64) outcome" where
  "since_epoch_ms checks since_the_epoch =
     (case since_the_epoch of None \<Rightarrow> Panic ''Time went backwards'' | Some (secs, nanos) \<Rightarrow> millis checks secs nanos)"

definition now_ms :: "bool \<Rightarrow> (u64 \<times> u32) option \<Rightarrow> (unit, 'e, u64) outcome" where
  "now_ms checks out =
     (case out of None \<Rightarrow> Panic ''duration since unix epoch'' | Some (secs, nanos) \<Rightarrow> millis checks secs nanos)"

text \<open>
  As long as a \<open>u64\<close> holds the milliseconds, no overflow happens, with or without checks, and the result is the number of
  whole milliseconds since the epoch.
\<close>

lemma millis_counts:
  assumes "unat nanos < 10 ^ 9" and "(unat secs + 1) * 1000 \<le> 2 ^ 64"
  shows "\<exists>t. millis checks secs nanos = (Ok t () :: (unit, 'e, u64) outcome) \<and> unat t = (unat secs * 10 ^ 9 + unat nanos) div 10 ^ 6"
proof -
  define sub where "sub = (ucast nanos div 1000000 :: u64)"
  have nanos: "unat (ucast nanos :: u64) = unat nanos"
    using assms(1) by (simp add: unsigned_ucast_eq take_bit_nat_eq_self_iff)
  have sub: "unat sub = unat nanos div 10 ^ 6" by (simp add: sub_def unat_div nanos)
  have below: "unat sub < 1000" using assms(1) sub by simp
  have mult: "unat (secs * 1000) = unat secs * 1000"
    using assms(2) by (simp add: unat_word_ariths)
  have sum: "unat (secs * 1000 + sub) = unat secs * 1000 + unat sub"
    using assms(2) below by (simp add: unat_word_ariths(1) mult)
  have "\<not> secs * 1000 + sub < secs * 1000" by (simp add: word_less_nat_alt sum mult)
  then have "millis checks secs nanos = (Ok (secs * 1000 + sub) () :: (unit, 'e, u64) outcome)"
    using assms(2) by (simp add: millis_def add_u64_def sub_def[symmetric])
  moreover have "unat (secs * 1000 + sub) = (unat secs * 10 ^ 9 + unat nanos) div 10 ^ 6"
    using sum sub by simp
  ultimately show ?thesis by blast
qed

text \<open>
  A later reading is not smaller, so times of one clock that does not go back are ordered.
\<close>

lemma millis_mono:
  assumes "unat n1 < 10 ^ 9" and "unat n2 < 10 ^ 9" and "(unat s2 + 1) * 1000 \<le> 2 ^ 64"
    and "unat s1 * 10 ^ 9 + unat n1 \<le> unat s2 * 10 ^ 9 + unat n2"
    and "millis c1 s1 n1 = (Ok t1 () :: (unit, 'e, u64) outcome)" and "millis c2 s2 n2 = (Ok t2 () :: (unit, 'e, u64) outcome)"
  shows "t1 \<le> t2"
proof -
  have "unat s1 \<le> unat s2" using assms(1,2,4) by simp
  then have "(unat s1 + 1) * 1000 \<le> 2 ^ 64" using assms(3) by simp
  note counts = millis_counts[where 'e = 'e, OF assms(1) this, of c1] millis_counts[where 'e = 'e, OF assms(2,3), of c2]
  have "unat t1 = (unat s1 * 10 ^ 9 + unat n1) div 10 ^ 6" using counts(1) unfolding assms(5) by auto
  moreover have "unat t2 = (unat s2 * 10 ^ 9 + unat n2) div 10 ^ 6" using counts(2) unfolding assms(6) by auto
  ultimately show ?thesis using assms(4) by (simp add: word_le_nat_alt div_le_mono)
qed

end
