(* ===== verification/Lib3h_Types.thy ===== *)
theory Lib3h_Types
  imports Ghost_Channel
begin

text \<open>
  The values the engine's components exchange: error kinds and their conversions
  (\<open>lib3h/src/error.rs\<close>, \<open>lib3h/src/transport/error.rs\<close>, \<open>lib3h_protocol/src/error.rs\<close>), uris
  (\<open>lib3h_protocol/src/uri.rs\<close>), entries and aspects (\<open>lib3h_protocol/src/data_types.rs\<close>) and
  hashes (\<open>types.rs\<close>).

  A \<open>Url\<close> of the \<open>url\<close> package is represented by its serialization (\<open>as_str\<close>), on which that
  package defines its equality, order and hash; the package's parser and accessors are the
  fields of a record that the operations take. Errors of foreign packages (\<open>io\<close>, \<open>rmp_serde\<close>,
  \<open>hcid\<close>, the crypto api, url parsing) are their \<open>{:?}\<close> rendering, and the rendering of the
  program's own errors is an argument \<open>dbg\<close>.
\<close>

section \<open>Errors\<close>

datatype TransportError = Unbind | Ignore string | TransportOther string | TransportNonexhaustive

definition TransportError_new :: "string \<Rightarrow> TransportError" where
  "TransportError_new e = TransportOther e"

definition is_ignorable :: "TransportError \<Rightarrow> bool" where
  "is_ignorable e = (case e of Ignore _ \<Rightarrow> True | _ \<Rightarrow> False)"

text \<open>\<open>Display\<close>: \<open>None\<close> is the \<open>unreachable!()\<close> panic.\<close>

definition TransportError_display :: "TransportError \<Rightarrow> string option" where
  "TransportError_display e =
     (case e of
        Unbind \<Rightarrow> Some ''Unbind''
      | TransportOther s \<Rightarrow> Some s
      | _ \<Rightarrow> None)"

text \<open>The conversions of foreign errors into \<open>TransportError\<close> all keep the \<open>{:?}\<close> rendering.\<close>

definition TransportError_from :: "('x \<Rightarrow> string) \<Rightarrow> 'x \<Rightarrow> TransportError" where
  "TransportError_from dbg error = TransportError_new (dbg error)"

datatype Lib3hProtocolError =
    ProtocolIo string
  | ProtocolTransportError string
  | ProtocolDeserializeError string
  | ProtocolLib3hError string Backtwrap
  | ProtocolUrlError string
  | ProtocolOther string
  | ProtocolNonexhaustive

definition quoted :: "string \<Rightarrow> string" where
  "quoted s = [CHR 0x27] @ s @ [CHR 0x27]"

definition Lib3hProtocolError_display :: "Lib3hProtocolError \<Rightarrow> string option" where
  "Lib3hProtocolError_display e =
     (case e of
        ProtocolIo err \<Rightarrow> Some err
      | ProtocolTransportError s \<Rightarrow> Some (''TransportError: '' @ quoted s @ ''.'')
      | ProtocolDeserializeError err \<Rightarrow> Some err
      | ProtocolLib3hError s _ \<Rightarrow> Some (''Li3hError encountered: '' @ quoted s @ ''.'')
      | ProtocolUrlError s \<Rightarrow> Some (''Url ParseError: '' @ quoted s @ ''.'')
      | ProtocolOther s \<Rightarrow> Some (''Unknown error encountered: '' @ quoted s @ ''.'')
      | ProtocolNonexhaustive \<Rightarrow> None)"

definition TransportError_to_protocol :: "(TransportError \<Rightarrow> string) \<Rightarrow> TransportError \<Rightarrow> Lib3hProtocolError" where
  "TransportError_to_protocol dbg err = ProtocolTransportError (dbg err)"

datatype Lib3hError =
    Lib3hGhostError GhostError
  | Lib3hIo string
  | Lib3hTransportError TransportError
  | Lib3hProtocolErr Lib3hProtocolError
  | Lib3hHcId string
  | Lib3hRmpSerdeDecodeError string
  | Lib3hCryptoApiError string
  | Lib3hKeyNotFound string
  | Lib3hOther string
  | Lib3hNonexhaustive

definition new_other :: "string \<Rightarrow> Lib3hError" where
  "new_other s = Lib3hOther s"

definition new_key_not_found :: "string \<Rightarrow> Lib3hError" where
  "new_key_not_found s = Lib3hKeyNotFound s"

definition Lib3hError_display ::
  "(GhostError list \<Rightarrow> string) \<Rightarrow> (string \<Rightarrow> string) \<Rightarrow> Lib3hError \<Rightarrow> string option" where
  "Lib3hError_display dbg_list dbg e =
     (case e of
        Lib3hGhostError err \<Rightarrow> GhostError_display dbg_list dbg err
      | Lib3hIo err \<Rightarrow> Some err
      | Lib3hTransportError err \<Rightarrow> TransportError_display err
      | Lib3hProtocolErr err \<Rightarrow> Lib3hProtocolError_display err
      | Lib3hHcId err \<Rightarrow> Some err
      | Lib3hRmpSerdeDecodeError err \<Rightarrow> Some err
      | Lib3hCryptoApiError err \<Rightarrow> Some err
      | Lib3hKeyNotFound s \<Rightarrow> Some (''Key: '' @ quoted s @ '' not found'')
      | Lib3hOther s \<Rightarrow> Some (''Unknown error encountered: '' @ quoted s @ ''.'')
      | Lib3hNonexhaustive \<Rightarrow> None)"

definition Lib3hError_to_GhostError :: "(Lib3hError \<Rightarrow> string) \<Rightarrow> Lib3hError \<Rightarrow> GhostError" where
  "Lib3hError_to_GhostError dbg err = Other (dbg err)"

definition Lib3hError_to_TransportError :: "(Lib3hError \<Rightarrow> string) \<Rightarrow> Lib3hError \<Rightarrow> TransportError" where
  "Lib3hError_to_TransportError dbg err = TransportOther (dbg err)"

definition Lib3hError_to_protocol :: "(Lib3hError \<Rightarrow> string) \<Rightarrow> Backtwrap \<Rightarrow> Lib3hError \<Rightarrow> Lib3hProtocolError" where
  "Lib3hError_to_protocol dbg bt err = ProtocolLib3hError (''lib3h internal: '' @ dbg err) bt"

section \<open>Uris\<close>

type_synonym Address = string
type_synonym SpaceHash = string
type_synonym EntryHash = string
type_synonym AspectHash = string
type_synonym Url = string
type_synonym Lib3hUri = Url

datatype UriScheme = Agent | Transport | Memory | Undefined | OtherScheme string

definition AGENT_SCHEME :: string where
  "AGENT_SCHEME = ''agentid''"

definition TRANSPORT_SCHEME :: string where
  "TRANSPORT_SCHEME = ''transportid''"

definition MEMORY_SCHEME :: string where
  "MEMORY_SCHEME = ''mem''"

definition UNDEFINED_SCHEME :: string where
  "UNDEFINED_SCHEME = ''none''"

definition UriScheme_to_str :: "UriScheme \<Rightarrow> string" where
  "UriScheme_to_str s =
     (case s of
        Agent \<Rightarrow> AGENT_SCHEME
      | Transport \<Rightarrow> TRANSPORT_SCHEME
      | Memory \<Rightarrow> MEMORY_SCHEME
      | Undefined \<Rightarrow> UNDEFINED_SCHEME
      | OtherScheme _ \<Rightarrow> '''')"

definition UriScheme_to_String :: "UriScheme \<Rightarrow> string" where
  "UriScheme_to_String s =
     (case s of
        Agent \<Rightarrow> AGENT_SCHEME
      | Transport \<Rightarrow> TRANSPORT_SCHEME
      | Memory \<Rightarrow> MEMORY_SCHEME
      | Undefined \<Rightarrow> UNDEFINED_SCHEME
      | OtherScheme t \<Rightarrow> t)"

text \<open>
  The \<open>url\<close> package: \<open>Url::parse\<close> (an error is its rendering), the accessors \<open>scheme\<close>, \<open>path\<close>,
  \<open>query_pairs\<close>, and the setters, whose \<open>None\<close> is their error return. \<open>ul_set_query\<close> covers
  \<open>set_query(None)\<close> and \<open>query_pairs_mut().clear().append_pair\<close>.
\<close>

record url_lib =
  ul_parse :: "string \<Rightarrow> string + Url"
  ul_scheme :: "Url \<Rightarrow> string"
  ul_path :: "Url \<Rightarrow> string"
  ul_query_pairs :: "Url \<Rightarrow> (string \<times> string) list"
  ul_clear_query :: "Url \<Rightarrow> Url"
  ul_one_pair :: "string \<times> string \<Rightarrow> Url \<Rightarrow> Url"
  ul_port :: "Url \<Rightarrow> u16 option"
  ul_set_port :: "u16 \<Rightarrow> Url \<Rightarrow> Url option"
  ul_set_host :: "string \<Rightarrow> Url \<Rightarrow> Url option"
  ul_set_scheme :: "string \<Rightarrow> Url \<Rightarrow> Url option"

definition Lib3hUri_parse :: "url_lib \<Rightarrow> string \<Rightarrow> (unit, 'e, Url) outcome" where
  "Lib3hUri_parse L url_str =
     (case ul_parse L url_str of
        Inr u \<Rightarrow> Ok u ()
      | Inl _ \<Rightarrow> Panic (''Invalid url format: '' @ quoted url_str))"

definition with_transport_and_agent_id :: "url_lib \<Rightarrow> Address \<Rightarrow> Address \<Rightarrow> (unit, 'e, Lib3hUri) outcome" where
  "with_transport_and_agent_id L transport_id agent_id =
     Lib3hUri_parse L (TRANSPORT_SCHEME @ '':'' @ transport_id @ ''?a='' @ agent_id)"

definition with_transport_id :: "url_lib \<Rightarrow> Address \<Rightarrow> (unit, 'e, Lib3hUri) outcome" where
  "with_transport_id L transport_id = Lib3hUri_parse L (TRANSPORT_SCHEME @ '':'' @ transport_id)"

definition with_agent_id :: "url_lib \<Rightarrow> Address \<Rightarrow> (unit, 'e, Lib3hUri) outcome" where
  "with_agent_id L agent_id = Lib3hUri_parse L (AGENT_SCHEME @ '':'' @ agent_id)"

definition with_undefined :: "url_lib \<Rightarrow> (unit, 'e, Lib3hUri) outcome" where
  "with_undefined L = Lib3hUri_parse L (UNDEFINED_SCHEME @ '':'')"

definition with_memory :: "url_lib \<Rightarrow> string \<Rightarrow> (unit, 'e, Lib3hUri) outcome" where
  "with_memory L other = Lib3hUri_parse L (MEMORY_SCHEME @ ''://'' @ other)"

definition is_scheme :: "url_lib \<Rightarrow> Lib3hUri \<Rightarrow> UriScheme \<Rightarrow> bool" where
  "is_scheme L u scheme = (ul_scheme L u = UriScheme_to_String scheme)"

definition set_agent_id :: "url_lib \<Rightarrow> Address \<Rightarrow> Lib3hUri \<Rightarrow> Lib3hUri" where
  "set_agent_id L agent_id u = ul_one_pair L (''a'', agent_id) u"

definition clear_agent_id :: "url_lib \<Rightarrow> Lib3hUri \<Rightarrow> Lib3hUri" where
  "clear_agent_id L u = ul_clear_query L u"

text \<open>The \<open>for\<close> loop of \<open>agent_id\<close> returns at the first pair whose name is \<open>a\<close>.\<close>

fun first_agent_pair :: "(string \<times> string) list \<Rightarrow> Address option" where
  "first_agent_pair [] = None"
| "first_agent_pair ((n, v) # ps) = (if n = ''a'' then Some v else first_agent_pair ps)"

definition agent_id :: "url_lib \<Rightarrow> Lib3hUri \<Rightarrow> Address option" where
  "agent_id L u = first_agent_pair (ul_query_pairs L u)"

definition lower_address :: "url_lib \<Rightarrow> Lib3hUri \<Rightarrow> Address" where
  "lower_address L u = ul_path L u"

definition Address_from_uri :: "url_lib \<Rightarrow> Lib3hUri \<Rightarrow> (unit, 'e, Address) outcome" where
  "Address_from_uri L u =
     (if \<not> (is_scheme L u Agent \<or> is_scheme L u Transport)
      then Panic ''Can't convert a non *Id Lib3hUri into an address''
      else Ok (ul_path L u) ())"

definition Lib3hUri_try_from :: "url_lib \<Rightarrow> string \<Rightarrow> (unit, Lib3hProtocolError, Lib3hUri) outcome" where
  "Lib3hUri_try_from L s =
     (case ul_parse L s of
        Inr u \<Rightarrow> Ok u ()
      | Inl e \<Rightarrow> Err (ProtocolUrlError e) ())"

text \<open>The builder: each setter panics when the package refuses the value.\<close>

definition Builder_new :: "url_lib \<Rightarrow> (unit, 'e, Url) outcome" where
  "Builder_new L = with_undefined L"

definition Builder_with_host :: "url_lib \<Rightarrow> string \<Rightarrow> Url \<Rightarrow> (Url, 'e, unit) outcome" where
  "Builder_with_host L host u =
     (case ul_set_host L host u of Some u' \<Rightarrow> Ok () u' | None \<Rightarrow> Panic ''Error setting host'')"

definition Builder_with_scheme :: "url_lib \<Rightarrow> string \<Rightarrow> Url \<Rightarrow> (Url, 'e, unit) outcome" where
  "Builder_with_scheme L scheme u =
     (case ul_set_scheme L scheme u of Some u' \<Rightarrow> Ok () u' | None \<Rightarrow> Panic ''Error setting scheme'')"

definition Builder_with_port :: "url_lib \<Rightarrow> u16 \<Rightarrow> Url \<Rightarrow> (Url, 'e, unit) outcome" where
  "Builder_with_port L port u =
     (case ul_set_port L port u of Some u' \<Rightarrow> Ok () u' | None \<Rightarrow> Panic ''Error setting port'')"

definition with_port :: "url_lib \<Rightarrow> u16 \<Rightarrow> Lib3hUri \<Rightarrow> (unit, 'e, Lib3hUri) outcome" where
  "with_port L port u =
     (case Builder_with_port L port u of Ok _ u' \<Rightarrow> Ok u' () | Err e _ \<Rightarrow> Err e () | Panic m \<Rightarrow> Panic m)"

section \<open>Entries and aspects\<close>

type_synonym Opaque = bytes

record EntryAspectData =
  aspect_address :: AspectHash
  type_hint :: string
  aspect :: Opaque
  publish_ts :: u64

record EntryData =
  entry_address :: EntryHash
  aspect_list :: "EntryAspectData list"

definition EntryData_new :: "EntryHash \<Rightarrow> EntryData" where
  "EntryData_new address = \<lparr>entry_address = address, aspect_list = []\<rparr>"

fun find_aspect :: "AspectHash \<Rightarrow> EntryAspectData list \<Rightarrow> EntryAspectData option" where
  "find_aspect a [] = None"
| "find_aspect a (x # xs) = (if aspect_address x = a then Some x else find_aspect a xs)"

definition EntryData_get :: "EntryData \<Rightarrow> AspectHash \<Rightarrow> EntryAspectData option" where
  "EntryData_get e a = find_aspect a (aspect_list e)"

definition EntryData_merge :: "EntryData \<Rightarrow> EntryData \<Rightarrow> bool \<times> EntryData" where
  "EntryData_merge self other =
     (if entry_address self \<noteq> entry_address other then (False, self)
      else
        let to_append = filter (\<lambda>aspect. \<not> list_ex (\<lambda>a. aspect_address a = aspect_address aspect)
                                            (aspect_list self)) (aspect_list other)
        in if length to_append = 0 then (False, self)
           else (True, self\<lparr>aspect_list := aspect_list self @ to_append\<rparr>))"

definition aspect_addresses :: "EntryData \<Rightarrow> AspectHash set" where
  "aspect_addresses e = aspect_address ` set (aspect_list e)"

lemma has_aspect_iff:
  "list_ex (\<lambda>a. aspect_address a = h) (aspect_list e) \<longleftrightarrow> h \<in> aspect_addresses e"
  by (auto simp: list_ex_iff aspect_addresses_def)

lemma find_aspect_append:
  "find_aspect a (xs @ ys) = (case find_aspect a xs of Some x \<Rightarrow> Some x | None \<Rightarrow> find_aspect a ys)"
  by (induction xs) auto

lemma find_aspect_None: "find_aspect a xs = None \<longleftrightarrow> a \<notin> aspect_address ` set xs"
  by (induction xs) auto

lemma find_aspect_filter:
  "(\<And>x. aspect_address x = a \<Longrightarrow> P x) \<Longrightarrow> find_aspect a (filter P xs) = find_aspect a xs"
  by (induction xs) auto

text \<open>
  Merging two versions of an entry: with equal addresses, every aspect held before is kept
  as it was, every aspect address of the other version is held afterwards (with the other
  version's content when it is new), and the answer says whether an address was added. A second
  merge of the same version changes nothing. With different addresses nothing happens.
\<close>

theorem merge_is_union:
  assumes "EntryData_merge self other = (changed, self')"
  shows "(entry_address self \<noteq> entry_address other \<longrightarrow> \<not> changed \<and> self' = self)
    \<and> (entry_address self = entry_address other \<longrightarrow>
         aspect_addresses self' = aspect_addresses self \<union> aspect_addresses other
       \<and> (changed \<longleftrightarrow> \<not> aspect_addresses other \<subseteq> aspect_addresses self)
       \<and> (\<forall>a. EntryData_get self' a =
             (case EntryData_get self a of Some x \<Rightarrow> Some x | None \<Rightarrow> EntryData_get other a))
       \<and> EntryData_merge self' other = (False, self'))"
proof -
  define new where "new = filter (\<lambda>x. aspect_address x \<notin> aspect_addresses self) (aspect_list other)"
  have new_eq: "new = filter (\<lambda>x. \<not> list_ex (\<lambda>a. aspect_address a = aspect_address x) (aspect_list self))
      (aspect_list other)"
    by (simp add: new_def has_aspect_iff)
  show ?thesis
  proof (cases "entry_address self = entry_address other")
    case False
    then show ?thesis using assms by (simp add: EntryData_merge_def)
  next
    case True
    then have ch: "changed \<longleftrightarrow> new \<noteq> []" and s': "self' = self\<lparr>aspect_list := aspect_list self @ new\<rparr>"
      using assms by (auto simp: EntryData_merge_def Let_def new_eq[symmetric] split: if_splits)
    have addrs: "aspect_addresses self' = aspect_addresses self \<union> aspect_addresses other"
      by (auto simp: aspect_addresses_def s' new_def)
    have "EntryData_get self' a =
        (case EntryData_get self a of Some x \<Rightarrow> Some x | None \<Rightarrow> EntryData_get other a)" for a
    proof (cases "EntryData_get self a")
      case None
      then have "a \<notin> aspect_addresses self" by (simp add: EntryData_get_def find_aspect_None aspect_addresses_def)
      then have "find_aspect a new = find_aspect a (aspect_list other)"
        unfolding new_def by (intro find_aspect_filter) auto
      with None show ?thesis by (simp add: EntryData_get_def s' find_aspect_append)
    qed (simp add: EntryData_get_def s' find_aspect_append)
    moreover have "changed \<longleftrightarrow> \<not> aspect_addresses other \<subseteq> aspect_addresses self"
      by (auto simp: ch new_def filter_empty_conv aspect_addresses_def)
    moreover have "EntryData_merge self' other = (False, self')"
    proof -
      have "filter (\<lambda>x. \<not> list_ex (\<lambda>a. aspect_address a = aspect_address x) (aspect_list self'))
          (aspect_list other) = []"
        using addrs by (auto simp: filter_empty_conv has_aspect_iff) (simp add: aspect_addresses_def)
      then show ?thesis using True by (simp add: EntryData_merge_def s')
    qed
    ultimately show ?thesis using True addrs by simp
  qed
qed

theorem merge_is_union_witness:
  "let a = (\<lambda>h c. \<lparr>aspect_address = h, type_hint = [], aspect = c, publish_ts = 0\<rparr>);
       e1 = \<lparr>entry_address = ''e'', aspect_list = [a ''x'' [1]]\<rparr>;
       e2 = \<lparr>entry_address = ''e'', aspect_list = [a ''x'' [2], a ''y'' [3]]\<rparr>;
       e = \<lparr>entry_address = ''e'', aspect_list = [a ''x'' [1], a ''y'' [3]]\<rparr>
   in EntryData_merge e1 e2 = (True, e) \<and> EntryData_merge e e2 = (False, e)"
proof -
  define a where "a = (\<lambda>h c. \<lparr>aspect_address = h, type_hint = [], aspect = c, publish_ts = 0\<rparr>)"
  define e1 where "e1 = \<lparr>entry_address = ''e'', aspect_list = [a ''x'' [1]]\<rparr>"
  define e2 where "e2 = \<lparr>entry_address = ''e'', aspect_list = [a ''x'' [2], a ''y'' [3]]\<rparr>"
  define e where "e = \<lparr>entry_address = ''e'', aspect_list = [a ''x'' [1], a ''y'' [3]]\<rparr>"
  have m: "EntryData_merge e1 e2 = (True, e)"
    by (simp add: EntryData_merge_def e1_def e2_def e_def a_def)
  from merge_is_union[OF this] have "EntryData_merge e e2 = (False, e)"
    by (simp add: e1_def e2_def)
  with m show ?thesis unfolding Let_def a_def e1_def e2_def e_def by blast
qed

end
