(* ===== verification/Lib3h_Values.thy ===== *)
theory Lib3h_Values
  imports Lib3h_Types
begin

text \<open>
  The rest of the values of \<open>lib3h_protocol/src\<close>: the accessors and the builder of \<open>uri.rs\<close> that read hosts and ports,
  \<open>Opaque\<close> and the order of aspects in \<open>data_types.rs\<close>, and what uris keep of what is set in them. The hash newtypes of
  \<open>types.rs\<close> are strings, their conversions the identity.
\<close>

section \<open>Uris\<close>

text \<open>
  Hosts are values of the \<open>url\<close> package; \<open>uh_display\<close> is their \<open>Display\<close>.
\<close>

record 'host url_hosts = url_lib +
  uh_host :: "Url \<Rightarrow> 'host option"
  uh_display :: "'host \<Rightarrow> string"

definition Lib3hUri_port :: "url_lib \<Rightarrow> Lib3hUri \<Rightarrow> u16 option" where
  "Lib3hUri_port L u = ul_port L u"

definition Lib3hUri_host :: "'host url_hosts \<Rightarrow> Lib3hUri \<Rightarrow> 'host option" where
  "Lib3hUri_host L u = uh_host L u"

definition Lib3hUri_raw_scheme :: "url_lib \<Rightarrow> Lib3hUri \<Rightarrow> string" where
  "Lib3hUri_raw_scheme L u = ul_scheme L u"

definition Lib3hUri_hostname :: "'host url_hosts \<Rightarrow> Lib3hUri \<Rightarrow> string option" where
  "Lib3hUri_hostname L u = map_option (uh_display L) (Lib3hUri_host L u)"

definition Builder_with_url :: "Lib3hUri \<Rightarrow> Url" where
  "Builder_with_url u = u"

definition Builder_with_raw_url :: "url_lib \<Rightarrow> string \<Rightarrow> (unit, Lib3hProtocolError, Url) outcome" where
  "Builder_with_raw_url L s = Lib3hUri_try_from L s"

definition Builder_build :: "Url \<Rightarrow> Lib3hUri" where
  "Builder_build u = u"

text \<open>
  The package as documented: the setters of the query leave scheme, path and port alone, \<open>append_pair\<close> after \<open>clear\<close> leaves one
  pair that is read back decoded, and \<open>scheme:path\<close> with a path free of delimiters parses into these two.
\<close>

definition plain_path :: "string \<Rightarrow> bool" where
  "plain_path s \<longleftrightarrow> s \<noteq> [] \<and> (\<forall>c \<in> set s. c \<notin> set '' /?#%'' \<and> of_char c > (32 :: nat) \<and> of_char c < (127 :: nat))"

definition url_laws :: "url_lib \<Rightarrow> bool" where
  "url_laws L \<longleftrightarrow>
     (\<forall>p u. ul_query_pairs L (ul_one_pair L p u) = [p] \<and> ul_path L (ul_one_pair L p u) = ul_path L u
          \<and> ul_scheme L (ul_one_pair L p u) = ul_scheme L u \<and> ul_port L (ul_one_pair L p u) = ul_port L u)
   \<and> (\<forall>u. ul_query_pairs L (ul_clear_query L u) = [] \<and> ul_path L (ul_clear_query L u) = ul_path L u
          \<and> ul_scheme L (ul_clear_query L u) = ul_scheme L u \<and> ul_port L (ul_clear_query L u) = ul_port L u)
   \<and> (\<forall>s \<in> {AGENT_SCHEME, TRANSPORT_SCHEME}. \<forall>p. plain_path p \<longrightarrow>
        (\<exists>u. ul_parse L (s @ '':'' @ p) = Inr u \<and> ul_scheme L u = s \<and> ul_path L u = p \<and> ul_query_pairs L u = []))"

lemma url_laws_pair:
  "url_laws L \<Longrightarrow> ul_query_pairs L (ul_one_pair L p u) = [p]"
  "url_laws L \<Longrightarrow> ul_path L (ul_one_pair L p u) = ul_path L u"
  "url_laws L \<Longrightarrow> ul_scheme L (ul_one_pair L p u) = ul_scheme L u"
  unfolding url_laws_def by blast+

lemma url_laws_clear:
  "url_laws L \<Longrightarrow> ul_query_pairs L (ul_clear_query L u) = []"
  "url_laws L \<Longrightarrow> ul_path L (ul_clear_query L u) = ul_path L u"
  "url_laws L \<Longrightarrow> ul_scheme L (ul_clear_query L u) = ul_scheme L u"
  unfolding url_laws_def by blast+

text \<open>
  A high-level uri: the id of a transport that carries the id of an agent. Setting the agent id and reading it back gives the
  same id, the lower address and the scheme stay, a second id replaces the first, and clearing removes it.
\<close>

lemma agent_id_kept:
  assumes "url_laws L"
  shows "agent_id L (set_agent_id L a u) = Some a"
    and "agent_id L (set_agent_id L b (set_agent_id L a u)) = Some b"
    and "lower_address L (set_agent_id L a u) = lower_address L u"
    and "is_scheme L (set_agent_id L a u) s = is_scheme L u s"
    and "agent_id L (clear_agent_id L (set_agent_id L a u)) = None"
  using assms
  by (simp_all add: agent_id_def set_agent_id_def clear_agent_id_def lower_address_def is_scheme_def url_laws_pair url_laws_clear)

text \<open>
  An id of a transport or an agent becomes a uri and comes back from it. Of a uri of another scheme no address can be taken.
\<close>

lemma id_uri_round_trip:
  assumes laws: "url_laws L" and plain: "plain_path a"
  shows "\<exists>u. with_transport_id L a = Ok u () \<and> Address_from_uri L u = Ok a () \<and> lower_address L u = a \<and> agent_id L u = None"
    and "\<exists>u. with_agent_id L a = Ok u () \<and> Address_from_uri L u = Ok a () \<and> lower_address L u = a \<and> agent_id L u = None"
proof -
  have parsed: "\<exists>u. ul_parse L (s @ '':'' @ a) = Inr u \<and> ul_scheme L u = s \<and> ul_path L u = a \<and> ul_query_pairs L u = []"
    if "s \<in> {AGENT_SCHEME, TRANSPORT_SCHEME}" for s
    using laws plain that unfolding url_laws_def by blast
  note defs = Lib3hUri_parse_def Address_from_uri_def is_scheme_def UriScheme_to_String_def lower_address_def agent_id_def
  show "\<exists>u. with_transport_id L a = Ok u () \<and> Address_from_uri L u = Ok a () \<and> lower_address L u = a \<and> agent_id L u = None"
    using parsed[of TRANSPORT_SCHEME] by (force simp: with_transport_id_def defs)
  show "\<exists>u. with_agent_id L a = Ok u () \<and> Address_from_uri L u = Ok a () \<and> lower_address L u = a \<and> agent_id L u = None"
    using parsed[of AGENT_SCHEME] by (force simp: with_agent_id_def defs)
qed

lemma Address_from_other_scheme_panics:
  "ul_scheme L u \<noteq> AGENT_SCHEME \<Longrightarrow> ul_scheme L u \<noteq> TRANSPORT_SCHEME \<Longrightarrow>
   Address_from_uri L u = Panic ''Can't convert a non *Id Lib3hUri into an address''"
  by (simp add: Address_from_uri_def is_scheme_def UriScheme_to_String_def)

text \<open>
  \<open>with_port\<close> is the builder's.
\<close>

lemma with_port_builder:
  "with_port L p u =
     (case Builder_with_port L p (Builder_with_url u) of
        Ok _ u' \<Rightarrow> Ok (Builder_build u') () | Err e _ \<Rightarrow> Err e () | Panic m \<Rightarrow> Panic m)"
  by (simp add: with_port_def Builder_with_url_def Builder_build_def split: outcome.splits)

section \<open>Opaque data and the order of aspects\<close>

definition Opaque_new :: Opaque where
  "Opaque_new = []"

definition Opaque_as_bytes :: "Opaque \<Rightarrow> bytes" where
  "Opaque_as_bytes self = self"

definition Opaque_from_str :: "string \<Rightarrow> Opaque" where
  "Opaque_from_str s = string_bytes s"

lemma Opaque_from_str_inj: "Opaque_from_str s = Opaque_from_str t \<Longrightarrow> s = t"
proof -
  have "inj (of_char :: char \<Rightarrow> u8)"
  proof (rule injI)
    fix a b :: char
    assume "(of_char a :: u8) = of_char b"
    then have "unat (of_nat (of_char a :: nat) :: u8) = unat (of_nat (of_char b :: nat) :: u8)" by (simp only: of_nat_of_char)
    moreover have "unat (of_nat (of_char c :: nat) :: u8) = of_char c" for c :: char
      by (simp add: unat_of_nat)
    ultimately show "a = b" by (metis char_of_char)
  qed
  then show "Opaque_from_str s = Opaque_from_str t \<Longrightarrow> s = t"
    by (simp add: Opaque_from_str_def string_bytes_def)
qed

datatype Ordering = Less | Equal | Greater

text \<open>The order of \<open>AspectHash\<close>es is the one of the persistence package: a parameter.\<close>

definition EntryAspectData_cmp :: "(AspectHash \<Rightarrow> AspectHash \<Rightarrow> Ordering) \<Rightarrow> EntryAspectData \<Rightarrow> EntryAspectData \<Rightarrow> Ordering" where
  "EntryAspectData_cmp hash_cmp self other = hash_cmp (aspect_address self) (aspect_address other)"

definition EntryAspectData_partial_cmp ::
  "(AspectHash \<Rightarrow> AspectHash \<Rightarrow> Ordering) \<Rightarrow> EntryAspectData \<Rightarrow> EntryAspectData \<Rightarrow> Ordering option" where
  "EntryAspectData_partial_cmp hash_cmp self other = Some (EntryAspectData_cmp hash_cmp self other)"

text \<open>
  The derived equality compares all fields, the order only addresses: aspects with one address and different contents
  compare as equal and are not.
\<close>

lemma aspects_equal_in_order_only:
  assumes "\<And>h. hash_cmp h h = Equal"
  shows "\<exists>a b. EntryAspectData_cmp hash_cmp a b = Equal \<and> a \<noteq> b"
proof (intro exI conjI)
  let ?a = "\<lambda>ts. \<lparr>aspect_address = ''h'', type_hint = [], aspect = [], publish_ts = ts\<rparr>"
  show "EntryAspectData_cmp hash_cmp (?a 0) (?a 1) = Equal" by (simp add: EntryAspectData_cmp_def assms)
  show "?a 0 \<noteq> ?a 1" by simp
qed

end
