(* ===== verification/Mirror_Dht.thy ===== *)
theory Mirror_Dht
  imports Lib3h_Types
begin

text \<open>
  The full-sync DHT (\<open>lib3h/src/dht/mirror_dht.rs\<close>) with its protocol (\<open>dht_protocol.rs\<close>) and
  configuration (\<open>dht_config.rs\<close>): the actor that keeps the known peers and the aspects held of
  each entry, answers its owner's requests, and tells its owner what to gossip and which peers
  have timed out.

  \<open>HashMap\<close>s and the \<open>HashSet\<close> of aspects are lists without duplicates whose order stands for the
  iteration order. \<open>rmp_serde\<close> is the pair \<open>ev_ser\<close>, \<open>ev_de\<close> of the environment. Each call that
  reads the clock, makes a request id or captures a backtrace takes them from its own \<open>dht_env\<close>.
\<close>

section \<open>Protocol data\<close>

record RemoteGossipBundleData =
  rgb_from_peer_name :: Lib3hUri
  rgb_bundle :: Opaque

record GossipToData =
  peer_name_list :: "Lib3hUri list"
  gtd_bundle :: Opaque

record PeerData =
  peer_name :: Lib3hUri
  peer_location :: Lib3hUri
  timestamp :: u64

datatype DhtRequestToChild =
    HandleGossip RemoteGossipBundleData
  | HoldPeer PeerData
  | HoldEntryAspectAddress EntryData
  | BroadcastEntry EntryData
  | DropEntryAddress EntryHash
  | UpdateAdvertise Lib3hUri
  | RequestPeer Lib3hUri
  | RequestPeerList
  | RequestThisPeer
  | RequestEntryAddressList
  | RequestAspectsOf EntryHash
  | RequestEntry EntryHash

datatype DhtRequestToChildResponse =
    PeerResponse "PeerData option"
  | PeerListResponse "PeerData list"
  | ThisPeerResponse PeerData
  | EntryAddressListResponse "EntryHash list"
  | AspectsOfResponse "AspectHash list option"
  | EntryResponse EntryData

datatype DhtRequestToParent =
    GossipTo GossipToData
  | GossipUnreliablyTo GossipToData
  | HoldPeerRequested PeerData
  | PeerTimedOut Lib3hUri
  | HoldEntryRequested Lib3hUri EntryData
  | EntryPruned EntryHash
  | RequestEntryOfParent EntryHash

datatype DhtRequestToParentResponse = RequestEntryResponse EntryData

definition DEFAULT_GOSSIP_INTERVAL_MS :: u64 where
  "DEFAULT_GOSSIP_INTERVAL_MS = 2000"

definition DEFAULT_TIMEOUT_THRESHOLD_MS :: u64 where
  "DEFAULT_TIMEOUT_THRESHOLD_MS = 60000"

record DhtConfig =
  cfg_this_peer_name :: Lib3hUri
  cfg_custom :: bytes
  gossip_interval :: u64
  timeout_threshold :: u64

definition DhtConfig_new :: "Lib3hUri \<Rightarrow> DhtConfig" where
  "DhtConfig_new name =
     \<lparr>cfg_this_peer_name = name, cfg_custom = [],
      gossip_interval = DEFAULT_GOSSIP_INTERVAL_MS,
      timeout_threshold = DEFAULT_TIMEOUT_THRESHOLD_MS\<rparr>"

section \<open>The actor\<close>

datatype MirrorGossip = GossipEntry EntryData | GossipPeer PeerData

text \<open>The one kind of callback the actor creates; it captures the request to be answered.\<close>

datatype DhtCallback = RespondWithEntry "DhtRequestToChild GhostMessage"

type_synonym DhtEndpoint =
  "(DhtRequestToChild, DhtRequestToChildResponse, DhtRequestToParent, DhtRequestToParentResponse, Lib3hError)
     GhostEndpoint"

type_synonym DhtEndpointWithContext =
  "(DhtCallback, DhtRequestToParent, DhtRequestToParentResponse, DhtRequestToChild,
    DhtRequestToChildResponse, Lib3hError) GhostContextEndpoint"

record MirrorDht =
  entry_list :: "(EntryHash, AspectHash list) hashmap"
  peer_map :: "(Lib3hUri, PeerData) hashmap"
  timed_out_map :: "(Lib3hUri, bool) hashmap"
  this_peer :: PeerData
  last_gossip_of_self :: u64
  config :: DhtConfig
  endpoint_parent :: "DhtEndpoint option"
  endpoint_self :: "DhtEndpointWithContext Detach"

record dht_env =
  ev_checks :: bool
  ev_ser :: "MirrorGossip \<Rightarrow> bytes option"
  ev_de :: "bytes \<Rightarrow> string + MirrorGossip"
  ev_now :: u64
  ev_req :: req_env

type_synonym 'a dht_outcome = "(MirrorDht, Lib3hError, 'a) outcome"

subsection \<open>Constructors\<close>

definition MirrorDht_new_with_config ::
  "url_lib \<Rightarrow> u64 \<Rightarrow> DhtConfig \<Rightarrow> PeerData option \<Rightarrow> (unit, Lib3hError, MirrorDht) outcome" where
  "MirrorDht_new_with_config L ts cfg maybe_this_peer =
     (case create_ghost_channel of (ep_parent, ep_self) \<Rightarrow>
      bind_ok
        (case maybe_this_peer of
           None \<Rightarrow>
             bind_ok (with_undefined L)
               (\<lambda>loc _. Ok \<lparr>peer_name = cfg_this_peer_name cfg, peer_location = loc, timestamp = ts\<rparr> ())
         | Some p \<Rightarrow> Ok p ())
        (\<lambda>this _. Ok
          \<lparr>entry_list = [], peer_map = [], timed_out_map = [], this_peer = this,
           last_gossip_of_self = ts, config = cfg, endpoint_parent = Some ep_parent,
           endpoint_self = Detach_new
             (GhostContextEndpointBuilder_build
                (GhostContextEndpointBuilder_request_id_prefix ''dht_to_parent_''
                   (as_context_endpoint_builder ep_self)))\<rparr> ()))"

definition MirrorDht_with_this_peer :: "url_lib \<Rightarrow> u64 \<Rightarrow> PeerData \<Rightarrow> (unit, Lib3hError, MirrorDht) outcome" where
  "MirrorDht_with_this_peer L ts p =
     expect ''Failed creating default MirrorDht''
       (MirrorDht_new_with_config L ts (DhtConfig_new (peer_name p)) (Some p))"

definition MirrorDht_new :: "url_lib \<Rightarrow> u64 \<Rightarrow> Lib3hUri \<Rightarrow> (unit, Lib3hError, MirrorDht) outcome" where
  "MirrorDht_new L ts name =
     expect ''Failed creating default MirrorDht''
       (MirrorDht_new_with_config L ts (DhtConfig_new name) None)"

subsection \<open>Peers and entries\<close>

definition get_peer_list :: "MirrorDht \<Rightarrow> PeerData list" where
  "get_peer_list d = map snd (peer_map d)"

definition get_peer :: "MirrorDht \<Rightarrow> Lib3hUri \<Rightarrow> PeerData option" where
  "get_peer d name =
     (if name = peer_name (this_peer d) then Some (this_peer d) else map_of (peer_map d) name)"

definition get_entry_address_list :: "MirrorDht \<Rightarrow> EntryHash list" where
  "get_entry_address_list d = keys (entry_list d)"

definition get_aspects_of :: "MirrorDht \<Rightarrow> EntryHash \<Rightarrow> AspectHash list option" where
  "get_aspects_of d a = map_of (entry_list d) a"

definition get_other_peer_list :: "MirrorDht \<Rightarrow> Lib3hUri list" where
  "get_other_peer_list d = map fst (filter (\<lambda>(address, _). address \<noteq> peer_name (this_peer d)) (peer_map d))"

text \<open>Serialization is unwrapped: \<open>None\<close> is the panic.\<close>

definition gossip_self :: "dht_env \<Rightarrow> Lib3hUri list \<Rightarrow> MirrorDht \<Rightarrow> GossipToData dht_outcome" where
  "gossip_self env names d =
     (case ev_ser env (GossipPeer (this_peer d)) of
        None \<Rightarrow> Panic ''serialize''
      | Some buf \<Rightarrow> Ok \<lparr>peer_name_list = names, gtd_bundle = buf\<rparr> d)"

definition gossip_entry :: "dht_env \<Rightarrow> EntryData \<Rightarrow> MirrorDht \<Rightarrow> DhtRequestToParent dht_outcome" where
  "gossip_entry env entry d =
     (case ev_ser env (GossipEntry entry) of
        None \<Rightarrow> Panic ''serialize''
      | Some buf \<Rightarrow> Ok (GossipTo \<lparr>peer_name_list = get_other_peer_list d, gtd_bundle = buf\<rparr>) d)"

definition add_peer :: "dht_env \<Rightarrow> PeerData \<Rightarrow> MirrorDht \<Rightarrow> bool dht_outcome" where
  "add_peer env peer_info d =
     (let name = peer_name peer_info in
      case map_of (peer_map d) name of
        None \<Rightarrow>
          Ok True (d\<lparr>peer_map := AList.update name peer_info (peer_map d),
                     timed_out_map := AList.update name False (timed_out_map d)\<rparr>)
      | Some peer \<Rightarrow>
          if timestamp peer_info \<le> timestamp peer then Ok False d
          else
            let d1 = d\<lparr>peer_map := AList.update name (peer\<lparr>timestamp := timestamp peer_info\<rparr>) (peer_map d)\<rparr> in
            case sub_u64 (ev_checks env) (ev_now env) (timestamp peer_info) of
              None \<Rightarrow> Panic ''attempt to subtract with overflow''
            | Some age \<Rightarrow>
                Ok True (if age < timeout_threshold (config d)
                         then d1\<lparr>timed_out_map := AList.update name False (timed_out_map d1)\<rparr>
                         else d1))"

definition diff_aspects :: "MirrorDht \<Rightarrow> EntryData \<Rightarrow> AspectHash list" where
  "diff_aspects d entry =
     (let aspect_address_set = remdups (map aspect_address (aspect_list entry)) in
      case map_of (entry_list d) (entry_address entry) of
        None \<Rightarrow> aspect_address_set
      | Some held_aspects \<Rightarrow> filter (\<lambda>a. a \<notin> set held_aspects) aspect_address_set)"

definition add_entry_aspects :: "EntryData \<Rightarrow> MirrorDht \<Rightarrow> bool \<times> MirrorDht" where
  "add_entry_aspects entry d =
     (let diff = diff_aspects d entry in
      if length diff = 0 then (False, d)
      else
        let new_aspects = (case map_of (entry_list d) (entry_address entry) of
                             None \<Rightarrow> diff
                           | Some known_aspects \<Rightarrow> List.union known_aspects diff)
        in (True, d\<lparr>entry_list := AList.update (entry_address entry) new_aspects (entry_list d)\<rparr>))"

subsection \<open>Periodic work\<close>

text \<open>The loop over the peers: the names that have newly timed out, or a panic.\<close>

fun check_timed_out :: "dht_env \<Rightarrow> MirrorDht \<Rightarrow> (Lib3hUri \<times> PeerData) list \<Rightarrow> Lib3hUri list \<Rightarrow>
    Lib3hUri list dht_outcome" where
  "check_timed_out env d [] timed_out_list = Ok timed_out_list d"
| "check_timed_out env d ((name, peer) # rest) timed_out_list =
     (if name = peer_name (this_peer d) then check_timed_out env d rest timed_out_list
      else case map_of (timed_out_map d) name of
          None \<Rightarrow> Panic ''Should always have time_out value for a peer''
        | Some has_timed_out \<Rightarrow>
            if has_timed_out then check_timed_out env d rest timed_out_list
            else case sub_u64 (ev_checks env) (ev_now env) (timestamp peer) of
                None \<Rightarrow> Panic ''attempt to subtract with overflow''
              | Some age \<Rightarrow>
                  if age > timeout_threshold (config d)
                  then check_timed_out env d rest (timed_out_list @ [name])
                  else check_timed_out env d rest timed_out_list)"

definition internal_process :: "dht_env \<Rightarrow> MirrorDht \<Rightarrow> (bool \<times> DhtRequestToParent list) dht_outcome" where
  "internal_process env d =
     bind_ok (check_timed_out env d (peer_map d) [])
       (\<lambda>timed_out_list d.
          let outbox = map PeerTimedOut timed_out_list;
              did_work = (timed_out_list \<noteq> []);
              d1 = d\<lparr>timed_out_map := fold (\<lambda>name. AList.update name True) timed_out_list (timed_out_map d)\<rparr>
          in case sub_u64 (ev_checks env) (ev_now env) (last_gossip_of_self d1) of
               None \<Rightarrow> Panic ''attempt to subtract with overflow''
             | Some since \<Rightarrow>
                 if since > gossip_interval (config d1)
                 then
                   (let d2 = d1\<lparr>last_gossip_of_self := ev_now env\<rparr> in
                    bind_ok (gossip_self env (get_other_peer_list d2) d2)
                      (\<lambda>gossip_data d3.
                         if length (peer_name_list gossip_data) > 0
                         then Ok (True, outbox @ [GossipTo gossip_data]) d3
                         else Ok (did_work, outbox) d3))
                 else Ok (did_work, outbox) d1)"

subsection \<open>Requests of the owner\<close>

text \<open>\<open>self.endpoint_self.publish(..)?\<close> and \<open>request.respond(..)?\<close> on the actor's endpoint.\<close>

definition on_endpoint ::
  "(DhtEndpointWithContext \<Rightarrow> (DhtEndpointWithContext, GhostError, 'a) outcome) \<Rightarrow> MirrorDht \<Rightarrow>
    (MirrorDht, GhostError, 'a) outcome" where
  "on_endpoint = detach_deref_mut endpoint_self (\<lambda>ep d. d\<lparr>endpoint_self := ep\<rparr>)"

definition dht_publish :: "dht_env \<Rightarrow> DhtRequestToParent \<Rightarrow> MirrorDht \<Rightarrow> unit dht_outcome" where
  "dht_publish env payload d =
     map_err Lib3hGhostError (on_endpoint (publish (re_bt (ev_req env)) payload) d)"

definition dht_respond ::
  "dht_env \<Rightarrow> DhtRequestToChild GhostMessage \<Rightarrow> DhtRequestToChildResponse \<Rightarrow> MirrorDht \<Rightarrow> unit dht_outcome" where
  "dht_respond env req payload d =
     map_err Lib3hGhostError
       (on_endpoint
          (\<lambda>ep. lift_state (\<lambda>s. ep\<lparr>gce_sender := s\<rparr>)
                  (GhostMessage_respond (re_bt (ev_req env)) req (Inr payload) (gce_sender ep))) d)"

definition handle_gossip :: "dht_env \<Rightarrow> RemoteGossipBundleData \<Rightarrow> MirrorDht \<Rightarrow> unit dht_outcome" where
  "handle_gossip env msg d =
     (case ev_de env (rgb_bundle msg) of
        Inl e \<Rightarrow> Err (Lib3hRmpSerdeDecodeError e) d
      | Inr (GossipEntry entry) \<Rightarrow>
          if length (diff_aspects d entry) > 0
          then dht_publish env (HoldEntryRequested (peer_name (this_peer d)) entry) d
          else Ok () d
      | Inr (GossipPeer gossiped_peer) \<Rightarrow>
          (case get_peer d (peer_name gossiped_peer) of
             None \<Rightarrow> dht_publish env (HoldPeerRequested gossiped_peer) d
           | Some known_peer \<Rightarrow>
               if timestamp gossiped_peer > timestamp known_peer
               then bind_ok (add_peer env gossiped_peer d) (\<lambda>_. Ok ())
               else Ok () d))"

definition hold_peer :: "dht_env \<Rightarrow> PeerData \<Rightarrow> MirrorDht \<Rightarrow> unit dht_outcome" where
  "hold_peer env new_peer_data d =
     (let others_list = get_other_peer_list d in
      bind_ok (add_peer env new_peer_data d)
        (\<lambda>received_new_content d1.
           if \<not> received_new_content then Ok () d1
           else case map_of (peer_map d1) (peer_name new_peer_data) of
               None \<Rightarrow> Panic ''Should have peer by now''
             | Some peer \<Rightarrow>
                 (case ev_ser env (GossipPeer peer) of
                    None \<Rightarrow> Panic ''serialize''
                  | Some buf \<Rightarrow>
                      bind_ok (dht_publish env (GossipTo \<lparr>peer_name_list = others_list, gtd_bundle = buf\<rparr>) d1)
                        (\<lambda>_ d2.
                           if peer_name new_peer_data \<noteq> peer_name (this_peer d2)
                           then bind_ok (gossip_self env [peer_name new_peer_data] d2)
                                  (\<lambda>gossip_data d3.
                                     if length (peer_name_list gossip_data) > 0
                                     then dht_publish env (GossipTo gossip_data) d3
                                     else Ok () d3)
                           else Ok () d2))))"

text \<open>\<open>add_entry_aspects\<close>, then gossip when something was new: common to two requests.\<close>

definition store_and_gossip :: "dht_env \<Rightarrow> EntryData \<Rightarrow> MirrorDht \<Rightarrow> unit dht_outcome" where
  "store_and_gossip env entry d =
     (case add_entry_aspects entry d of (received_new_content, d1) \<Rightarrow>
        if \<not> received_new_content then Ok () d1
        else bind_ok (gossip_entry env entry d1) (dht_publish env))"

definition hold_entry_aspect_address :: "dht_env \<Rightarrow> EntryData \<Rightarrow> MirrorDht \<Rightarrow> unit dht_outcome" where
  "hold_entry_aspect_address env entry d =
     (case aspect_list entry of
        a # _ \<Rightarrow>
          if length (aspect a) = 0
          then dht_publish env (RequestEntryOfParent (entry_address entry)) d
          else store_and_gossip env entry d
      | [] \<Rightarrow> store_and_gossip env entry d)"

definition dht_request_entry ::
  "dht_env \<Rightarrow> DhtRequestToChild GhostMessage \<Rightarrow> EntryHash \<Rightarrow> MirrorDht \<Rightarrow> unit dht_outcome" where
  "dht_request_entry env req a d =
     map_err Lib3hGhostError
       (on_endpoint (request (ev_req env) (RequestEntryOfParent a) (RespondWithEntry req)) d)"

definition handle_request_from_parent ::
  "dht_env \<Rightarrow> DhtRequestToChild GhostMessage \<Rightarrow> MirrorDht \<Rightarrow> unit dht_outcome" where
  "handle_request_from_parent env req0 d =
     (case take_message req0 of
        (None, _) \<Rightarrow> Panic ''exists''
      | (Some msg, req) \<Rightarrow>
          (case msg of
             HandleGossip m \<Rightarrow> handle_gossip env m d
           | HoldPeer new_peer_data \<Rightarrow> hold_peer env new_peer_data d
           | HoldEntryAspectAddress entry \<Rightarrow> hold_entry_aspect_address env entry d
           | BroadcastEntry entry \<Rightarrow> store_and_gossip env entry d
           | DropEntryAddress _ \<Rightarrow> Ok () d
           | UpdateAdvertise loc \<Rightarrow> Ok () (d\<lparr>this_peer := (this_peer d)\<lparr>peer_location := loc\<rparr>\<rparr>)
           | RequestPeer name \<Rightarrow> dht_respond env req (PeerResponse (get_peer d name)) d
           | RequestPeerList \<Rightarrow> dht_respond env req (PeerListResponse (get_peer_list d)) d
           | RequestThisPeer \<Rightarrow> dht_respond env req (ThisPeerResponse (this_peer d)) d
           | RequestEntryAddressList \<Rightarrow>
               dht_respond env req (EntryAddressListResponse (get_entry_address_list d)) d
           | RequestAspectsOf a \<Rightarrow> dht_respond env req (AspectsOfResponse (get_aspects_of d a)) d
           | RequestEntry a \<Rightarrow> dht_request_entry env req a d))"

text \<open>The closure of \<open>RequestEntry\<close>.\<close>

definition dht_callback ::
  "Backtwrap \<Rightarrow> (DhtCallback, MirrorDht \<times> (DhtRequestToParent, DhtRequestToChildResponse, Lib3hError)
     GhostEndpointMessage Sender, DhtRequestToParentResponse, Lib3hError) call" where
  "dht_callback bt cb response st =
     (case (cb, st) of (RespondWithEntry req, (me, s)) \<Rightarrow>
        (case response of
           CbTimeout _ \<Rightarrow> Panic ''timeout''
         | CbResponse (Inl e) \<Rightarrow> Panic ''error response''
         | CbResponse (Inr (RequestEntryResponse entry)) \<Rightarrow>
             lift_state (Pair me) (GhostMessage_respond bt req (Inr (EntryResponse entry)) s)))"

subsection \<open>The actor's process step\<close>

fun dht_serve :: "(nat \<Rightarrow> dht_env) \<Rightarrow> nat \<Rightarrow> DhtRequestToChild GhostMessage list \<Rightarrow> MirrorDht \<Rightarrow>
    (MirrorDht, GhostError, unit) outcome" where
  "dht_serve envs n [] d = Ok () d"
| "dht_serve envs n (req # reqs) d =
     bind_ok (expect ''no ghost errors'' (handle_request_from_parent (envs n) req d))
       (\<lambda>_. dht_serve envs (Suc n) reqs)"

definition take_parent_endpoint :: "MirrorDht \<Rightarrow> DhtEndpoint option \<times> MirrorDht" where
  "take_parent_endpoint d = (endpoint_parent d, d\<lparr>endpoint_parent := None\<rparr>)"

text \<open>
  \<open>process_concrete\<close>: \<open>now\<close> is the clock of the endpoint's tracker pass, the \<open>n\<close>-th request
  served runs in \<open>envs n\<close>, and \<open>envp\<close> is the environment of the periodic work and of the
  backtraces.
\<close>

definition dht_process_concrete ::
  "(RequestId \<Rightarrow> RequestId list \<Rightarrow> string) \<Rightarrow> time \<Rightarrow> (nat \<Rightarrow> dht_env) \<Rightarrow> dht_env \<Rightarrow> MirrorDht \<Rightarrow>
    (MirrorDht, GhostError, WorkWasDone) outcome" where
  "dht_process_concrete rid_msg now envs envp d =
     bind_ok
       (detach_run endpoint_self (\<lambda>ep d. d\<lparr>endpoint_self := ep\<rparr>)
          (endpoint_process rid_msg (dht_callback (re_bt (ev_req envp))) now) d)
       (\<lambda>_ d. bind_ok (on_endpoint (\<lambda>ep. case drain_messages ep of (ms, ep') \<Rightarrow> Ok ms ep') d)
       (\<lambda>reqs d. bind_ok (dht_serve envs 0 reqs d)
       (\<lambda>_ d. bind_ok (expect ''internal_process'' (internal_process envp d))
       (\<lambda>(did_work, command_list) d.
          bind_ok (for_each (\<lambda>c. on_endpoint (publish (re_bt (ev_req envp)) c)) command_list d)
       (\<lambda>_ d. Ok did_work d)))))"

section \<open>Invariant and growth\<close>

text \<open>
  The invariant of the actor's state: its maps have distinct keys, every known peer has a
  timed-out flag and is filed under its own name, aspects are held once, and the endpoint is in
  its cell between calls.
\<close>

definition dht_inv :: "MirrorDht \<Rightarrow> bool" where
  "dht_inv d \<longleftrightarrow> is_attached (endpoint_self d)
     \<and> wf_map (entry_list d) \<and> wf_map (peer_map d) \<and> wf_map (timed_out_map d)
     \<and> set (keys (timed_out_map d)) = set (keys (peer_map d))
     \<and> (\<forall>n p. map_of (peer_map d) n = Some p \<longrightarrow> peer_name p = n)
     \<and> (\<forall>e as. map_of (entry_list d) e = Some as \<longrightarrow> distinct as)"

text \<open>
  \<open>dht_le d d'\<close>: everything \<open>d\<close> holds is still held by \<open>d'\<close>. A peer keeps its data and only its
  timestamp may grow.
\<close>

definition dht_le :: "MirrorDht \<Rightarrow> MirrorDht \<Rightarrow> bool" where
  "dht_le d d' \<longleftrightarrow>
     (\<forall>e as. map_of (entry_list d) e = Some as \<longrightarrow>
        (\<exists>as'. map_of (entry_list d') e = Some as' \<and> set as \<subseteq> set as'))
     \<and> (\<forall>n p. map_of (peer_map d) n = Some p \<longrightarrow>
        (\<exists>t. map_of (peer_map d') n = Some (p\<lparr>timestamp := t\<rparr>) \<and> timestamp p \<le> t))
     \<and> peer_name (this_peer d') = peer_name (this_peer d) \<and> config d' = config d"

lemma dht_le_entriesI:
  assumes "\<And>e as. map_of (entry_list d) e = Some as \<Longrightarrow>
      \<exists>as'. map_of (entry_list d') e = Some as' \<and> set as \<subseteq> set as'"
    and "peer_map d' = peer_map d"
    and "peer_name (this_peer d') = peer_name (this_peer d)" and "config d' = config d"
  shows "dht_le d d'"
proof -
  have "\<exists>t. Some p = Some (p\<lparr>timestamp := t\<rparr>) \<and> timestamp p \<le> t" for p :: PeerData
    by (intro exI[of _ "timestamp p"]) simp
  then show ?thesis using assms by (auto simp: dht_le_def)
qed

lemma dht_le_same:
  assumes "entry_list d' = entry_list d" and "peer_map d' = peer_map d"
    and "peer_name (this_peer d') = peer_name (this_peer d)" and "config d' = config d"
  shows "dht_le d d'"
  using assms by (intro dht_le_entriesI) simp_all

lemma dht_le_refl [simp, intro]: "dht_le d d"
  by (rule dht_le_same) simp_all

lemma dht_le_trans: 
  assumes "dht_le d1 d2" and "dht_le d2 d3"
  shows "dht_le d1 d3"
  unfolding dht_le_def
proof (intro conjI allI impI)
  fix e as
  assume "map_of (entry_list d1) e = Some as"
  then show "\<exists>as'. map_of (entry_list d3) e = Some as' \<and> set as \<subseteq> set as'"
    using assms unfolding dht_le_def by (meson order_trans)
next
  fix n p
  assume "map_of (peer_map d1) n = Some p"
  then obtain t where t: "map_of (peer_map d2) n = Some (p\<lparr>timestamp := t\<rparr>)" "timestamp p \<le> t"
    using assms(1) unfolding dht_le_def by blast
  then obtain t' where "map_of (peer_map d3) n = Some (p\<lparr>timestamp := t, timestamp := t'\<rparr>)" "t \<le> t'"
    using assms(2) unfolding dht_le_def by fastforce
  with t show "\<exists>t. map_of (peer_map d3) n = Some (p\<lparr>timestamp := t\<rparr>) \<and> timestamp p \<le> t"
    by (intro exI[of _ t']) (auto intro: order_trans)
qed (use assms in \<open>auto simp: dht_le_def\<close>)

text \<open>\<open>dht_keeps d r\<close>: whatever state \<open>r\<close> leaves satisfies the invariant and is above \<open>d\<close>.\<close>

definition dht_keeps :: "MirrorDht \<Rightarrow> (MirrorDht, 'e, 'a) outcome \<Rightarrow> bool" where
  "dht_keeps d r \<longleftrightarrow> (\<forall>d'. final_state r = Some d' \<longrightarrow> dht_inv d' \<and> dht_le d d')"

named_theorems dht_keeps_intros \<open>rules that push the invariant through the handlers\<close>

lemma dht_keeps_simps [simp]:
  "dht_keeps d (Ok v d') \<longleftrightarrow> dht_inv d' \<and> dht_le d d'"
  "dht_keeps d (Err e d') \<longleftrightarrow> dht_inv d' \<and> dht_le d d'"
  "dht_keeps d (Panic m)"
  by (auto simp: dht_keeps_def)

lemma dht_keeps_bind [dht_keeps_intros]:
  assumes "dht_keeps d r" and "\<And>v d1. r = Ok v d1 \<Longrightarrow> dht_inv d1 \<Longrightarrow> dht_keeps d1 (f v d1)"
  shows "dht_keeps d (bind_ok r f)"
proof (cases r)
  case (Ok v d1)
  then have "dht_inv d1" and "dht_le d d1" using assms(1) by auto
  with assms(2)[OF Ok] show ?thesis
    unfolding dht_keeps_def Ok by (auto intro: dht_le_trans)
qed (use assms(1) in auto)

lemma dht_keeps_map_err [simp]: "dht_keeps d (map_err f r) = dht_keeps d r"
  by (simp add: dht_keeps_def)

lemma dht_keeps_expect [dht_keeps_intros]: "dht_keeps d r \<Longrightarrow> dht_keeps d (expect m r)"
  by (auto simp: dht_keeps_def dest: final_state_expect)

lemma on_endpoint_frame:
  assumes "final_state (on_endpoint f d) = Some d'"
  shows "\<exists>ep. d' = d\<lparr>endpoint_self := Detach (Some ep)\<rparr>"
  using assms unfolding on_endpoint_def detach_deref_mut_def
  by (auto simp: final_state_lift_state split: Detach.splits option.splits)

lemma dht_inv_endpoint: "dht_inv d \<Longrightarrow> dht_inv (d\<lparr>endpoint_self := Detach (Some ep)\<rparr>)"
  by (simp add: dht_inv_def)

lemma dht_keeps_on_endpoint [dht_keeps_intros]: "dht_inv d \<Longrightarrow> dht_keeps d (on_endpoint f d)"
  unfolding dht_keeps_def
  by (auto dest!: on_endpoint_frame intro: dht_inv_endpoint dht_le_same)

lemma dht_keeps_publish [dht_keeps_intros]: "dht_inv d \<Longrightarrow> dht_keeps d (dht_publish env c d)"
  by (simp add: dht_publish_def dht_keeps_on_endpoint)

lemma dht_keeps_respond [dht_keeps_intros]: "dht_inv d \<Longrightarrow> dht_keeps d (dht_respond env req p d)"
  by (simp add: dht_respond_def dht_keeps_on_endpoint)

lemma dht_inv_same_data:
  assumes "dht_inv d"
  shows "dht_inv (d\<lparr>last_gossip_of_self := t\<rparr>)" "dht_inv (d\<lparr>this_peer := p\<rparr>)"
  using assms by (simp_all add: dht_inv_def)

text \<open>
  Filing a peer under its name, and setting flags of known peers, keep the invariant.
\<close>

lemma dht_update_peer:
  assumes inv: "dht_inv d" and name: "peer_name p = n"
    and old: "\<And>q. map_of (peer_map d) n = Some q \<Longrightarrow> p = q\<lparr>timestamp := timestamp p\<rparr> \<and> timestamp q \<le> timestamp p"
    and tm: "wf_map tm" "set (keys tm) = insert n (set (keys (timed_out_map d)))"
    and d': "d' = d\<lparr>peer_map := AList.update n p (peer_map d), timed_out_map := tm\<rparr>"
  shows "dht_inv d' \<and> dht_le d d'"
proof
  have "set (keys tm) = set (keys (AList.update n p (peer_map d)))"
    using inv tm(2) by (simp only: dht_inv_def keys_update_set)
  moreover have "peer_name q = m" if "map_of (AList.update n p (peer_map d)) m = Some q" for m q
    using that inv name unfolding dht_inv_def by (cases "m = n") (simp_all add: hashmap_simps)
  ultimately show "dht_inv d'"
    using inv tm(1) unfolding dht_inv_def d' by simp
  have "\<exists>t. map_of (peer_map d') m = Some (q\<lparr>timestamp := t\<rparr>) \<and> timestamp q \<le> t"
    if "map_of (peer_map d) m = Some q" for m q
  proof (cases "m = n")
    case True
    with old[of q] that show ?thesis
      by (intro exI[of _ "timestamp p"]) (auto simp: d' hashmap_simps)
  next
    case False
    with that show ?thesis by (intro exI[of _ "timestamp q"]) (simp add: d' hashmap_simps)
  qed
  then show "dht_le d d'" by (auto simp: dht_le_def d')
qed

lemma dht_keeps_add_peer [dht_keeps_intros]:
  assumes "dht_inv d"
  shows "dht_keeps d (add_peer env p d)"
proof (cases "map_of (peer_map d) (peer_name p)")
  case None
  let ?tm = "AList.update (peer_name p) False (timed_out_map d)"
  have "wf_map ?tm" "set (keys ?tm) = insert (peer_name p) (set (keys (timed_out_map d)))"
    using assms by (simp_all only: dht_inv_def wf_map_update keys_update_set)
  from dht_update_peer[OF assms refl _ this refl] None show ?thesis
    by (simp add: add_peer_def Let_def)
next
  case (Some q)
  let ?n = "peer_name p" and ?q = "q\<lparr>timestamp := timestamp p\<rparr>"
  have n: "?n \<in> set (keys (timed_out_map d))" and wf: "wf_map (timed_out_map d)"
    and qn: "peer_name ?q = ?n"
    using assms map_of_in_keys[OF Some] Some unfolding dht_inv_def by auto
  have keep: "dht_inv d' \<and> dht_le d d'"
    if "timestamp q < timestamp p" and "wf_map tm" and "set (keys tm) = set (keys (timed_out_map d))"
      and "d' = d\<lparr>peer_map := AList.update ?n ?q (peer_map d), timed_out_map := tm\<rparr>" for tm d'
    using dht_update_peer[OF assms qn _ that(2) _ that(4)] that(1,3) Some n by (auto simp: insert_absorb)
  let ?tm = "AList.update ?n False (timed_out_map d)"
  have "wf_map ?tm" "set (keys ?tm) = set (keys (timed_out_map d))"
    using wf n by (simp_all only: wf_map_update keys_update_set insert_absorb)
  then show ?thesis
    using Some assms keep[OF _ wf refl] keep[of ?tm]
    by (auto simp: add_peer_def Let_def split: option.splits)
qed

lemma diff_aspects_set:
  "set (diff_aspects d entry) = aspect_addresses entry -
     (case map_of (entry_list d) (entry_address entry) of None \<Rightarrow> {} | Some as \<Rightarrow> set as)"
  by (auto simp: diff_aspects_def aspect_addresses_def Let_def split: option.splits)

lemma diff_aspects_distinct: "distinct (diff_aspects d entry)"
  by (auto simp: diff_aspects_def Let_def split: option.splits)

text \<open>\<open>add_entry_aspects\<close> is set union on the aspects of the entry.\<close>

definition held :: "MirrorDht \<Rightarrow> EntryHash \<Rightarrow> AspectHash set" where
  "held d e = (case map_of (entry_list d) e of None \<Rightarrow> {} | Some as \<Rightarrow> set as)"

lemma diff_aspects_held: "set (diff_aspects d entry) = aspect_addresses entry - held d (entry_address entry)"
  by (simp add: diff_aspects_set held_def)

lemma add_entry_aspects_held:
  assumes "add_entry_aspects entry d = (changed, d')"
  shows "held d' = (held d)(entry_address entry := held d (entry_address entry) \<union> aspect_addresses entry)"
    and "changed \<longleftrightarrow> \<not> aspect_addresses entry \<subseteq> held d (entry_address entry)"
    and "\<not> changed \<Longrightarrow> d' = d"
    and "\<exists>el. d' = d\<lparr>entry_list := el\<rparr>"
proof -
  have e: "diff_aspects d entry = [] \<longleftrightarrow> aspect_addresses entry \<subseteq> held d (entry_address entry)"
    using diff_aspects_held[of d entry] by (metis Diff_eq_empty_iff set_empty)
  show "changed \<longleftrightarrow> \<not> aspect_addresses entry \<subseteq> held d (entry_address entry)"
    using assms e by (auto simp: add_entry_aspects_def Let_def split: if_splits)
  show "\<not> changed \<Longrightarrow> d' = d"
    using assms by (auto simp: add_entry_aspects_def Let_def split: if_splits)
  have "d = d\<lparr>entry_list := entry_list d\<rparr>" by simp
  then show "\<exists>el. d' = d\<lparr>entry_list := el\<rparr>"
    using assms unfolding add_entry_aspects_def Let_def by (metis prod.inject)
  show "held d' = (held d)(entry_address entry := held d (entry_address entry) \<union> aspect_addresses entry)"
  proof (cases "diff_aspects d entry = []")
    case True
    then show ?thesis using assms e by (auto simp: add_entry_aspects_def fun_eq_iff)
  next
    case False
    then have "d' = d\<lparr>entry_list := AList.update (entry_address entry)
        (case map_of (entry_list d) (entry_address entry) of None \<Rightarrow> diff_aspects d entry
         | Some as \<Rightarrow> List.union as (diff_aspects d entry)) (entry_list d)\<rparr>"
      using assms by (simp add: add_entry_aspects_def Let_def)
    then show ?thesis
      by (auto simp: fun_eq_iff held_def hashmap_simps diff_aspects_set split: option.splits)
  qed
qed

lemma dht_keeps_add_entry_aspects:
  assumes "dht_inv d" and "add_entry_aspects entry d = (changed, d')"
  shows "dht_inv d' \<and> dht_le d d'"
proof (cases "diff_aspects d entry = []")
  case True
  then show ?thesis using assms by (simp add: add_entry_aspects_def)
next
  case False
  define as where "as = (case map_of (entry_list d) (entry_address entry) of None \<Rightarrow> diff_aspects d entry
         | Some as \<Rightarrow> List.union as (diff_aspects d entry))"
  have d': "d' = d\<lparr>entry_list := AList.update (entry_address entry) as (entry_list d)\<rparr>"
    using assms False by (simp add: add_entry_aspects_def Let_def as_def)
  have "distinct as" using assms(1) diff_aspects_distinct
    by (auto simp: as_def dht_inv_def split: option.splits)
  then have "dht_inv d'" using assms(1) by (auto simp: d' dht_inv_def hashmap_simps)
  moreover have "\<exists>as'. map_of (entry_list d') e = Some as' \<and> set bs \<subseteq> set as'"
    if "map_of (entry_list d) e = Some bs" for e bs
    using that by (auto simp: d' hashmap_simps as_def)
  ultimately show ?thesis by (intro conjI dht_le_entriesI) (simp_all add: d')
qed


text \<open>The periodic work.\<close>

definition newly_timed_out :: "dht_env \<Rightarrow> MirrorDht \<Rightarrow> Lib3hUri \<times> PeerData \<Rightarrow> bool" where
  "newly_timed_out env d = (\<lambda>(n, p). n \<noteq> peer_name (this_peer d)
     \<and> map_of (timed_out_map d) n = Some False \<and> ev_now env - timestamp p > timeout_threshold (config d))"

lemma check_timed_out_Ok:
  "check_timed_out env d ps acc = Ok l d' \<Longrightarrow>
     d' = d \<and> l = acc @ map fst (filter (newly_timed_out env d) ps)"
proof (induction ps arbitrary: acc)
  case (Cons np ps)
  obtain n p where np: "np = (n, p)" by (cases np)
  show ?case
  proof (cases "newly_timed_out env d np")
    case True
    with Cons.prems have "check_timed_out env d ps (acc @ [n]) = Ok l d'"
      by (auto simp: np newly_timed_out_def sub_u64_def split: if_splits)
    from Cons.IH[OF this] True show ?thesis by (simp add: np)
  next
    case False
    with Cons.prems have "check_timed_out env d ps acc = Ok l d'"
      by (auto simp: np newly_timed_out_def sub_u64_def split: if_splits option.splits)
    with Cons.IH False show ?thesis by simp
  qed
qed simp

lemma check_timed_out_no_Err: "check_timed_out env d ps acc \<noteq> Err e d'"
  by (induction ps arbitrary: acc) (auto split: if_splits option.splits)

lemma flags_fold:
  "wf_map m \<Longrightarrow> wf_map (fold (\<lambda>n. AList.update n v) ns m)
   \<and> set (keys (fold (\<lambda>n. AList.update n v) ns m)) = set ns \<union> set (keys m)
   \<and> map_of (fold (\<lambda>n. AList.update n v) ns m) = (\<lambda>k. if k \<in> set ns then Some v else map_of m k)"
proof (induction ns arbitrary: m)
  case (Cons n ns)
  have "wf_map (AList.update n v m)" using Cons.prems by (rule wf_map_update)
  from Cons.IH[OF this] show ?case
    using keys_update_set[of n v m] by (auto simp: fun_eq_iff hashmap_simps)
qed simp

lemma dht_inv_mark:
  assumes "dht_inv d" and "set l \<subseteq> set (keys (peer_map d))"
  shows "dht_inv (d\<lparr>timed_out_map := fold (\<lambda>n. AList.update n True) l (timed_out_map d)\<rparr>)"
  using assms flags_fold[of "timed_out_map d" True l] unfolding dht_inv_def by auto

lemma gossip_self_cases:
  "gossip_self env ns d = Panic ''serialize'' \<or> (\<exists>b. gossip_self env ns d = Ok \<lparr>peer_name_list = ns, gtd_bundle = b\<rparr> d)"
  by (auto simp: gossip_self_def split: option.splits)

lemma dht_keeps_gossip_self [dht_keeps_intros]: "dht_inv d \<Longrightarrow> dht_keeps d (gossip_self env ns d)"
  by (simp add: gossip_self_def split: option.splits)

lemma dht_keeps_internal_process [dht_keeps_intros]:
  assumes "dht_inv d"
  shows "dht_keeps d (internal_process env d)"
proof (cases "check_timed_out env d (peer_map d) []")
  case (Ok l d')
  let ?d1 = "d\<lparr>timed_out_map := fold (\<lambda>n. AList.update n True) l (timed_out_map d)\<rparr>"
  have d': "d' = d" and l: "set l \<subseteq> set (keys (peer_map d))"
    using check_timed_out_Ok[OF Ok] by auto
  have inv: "dht_inv ?d1"
    using assms l by (rule dht_inv_mark)
  have inv2: "dht_inv (?d1\<lparr>last_gossip_of_self := t\<rparr>)" for t
    using inv by (rule dht_inv_same_data)
  have le: "dht_le d ?d1" "dht_le d (?d1\<lparr>last_gossip_of_self := t\<rparr>)" for t
    by (rule dht_le_same; simp)+
  have gs: "dht_keeps d (bind_ok (gossip_self env ns d2) f)"
    if "d2 = ?d1\<lparr>last_gossip_of_self := t\<rparr>" and "\<And>g. dht_keeps d (f g d2)" for ns f t d2
    using that gossip_self_cases[of env ns d2] by auto
  then show ?thesis
    using inv le inv2
    by (auto simp: internal_process_def Ok d' Let_def intro!: gs[OF refl] split: option.splits)
qed (use assms check_timed_out_no_Err in \<open>auto simp: internal_process_def\<close>)


text \<open>
  The requests of the owner.
\<close>

lemma dht_keeps_handle_gossip [dht_keeps_intros]:
  assumes "dht_inv d"
  shows "dht_keeps d (handle_gossip env m d)"
proof -
  have "dht_keeps d (bind_ok (add_peer env p d) (\<lambda>_. Ok ()))" for p
    by (rule dht_keeps_bind) (auto intro: dht_keeps_add_peer assms)
  then show ?thesis
    using assms by (auto simp: handle_gossip_def dht_keeps_publish
        split: sum.splits MirrorGossip.splits option.splits)
qed

lemma dht_keeps_hold_peer [dht_keeps_intros]:
  assumes "dht_inv d"
  shows "dht_keeps d (hold_peer env p d)"
  unfolding hold_peer_def Let_def
proof (rule dht_keeps_bind)
  show "dht_keeps d (add_peer env p d)" using assms by (rule dht_keeps_add_peer)
  fix b d1
  assume inv: "dht_inv d1"
  have reply: "dht_keeps d2 (if peer_name p \<noteq> peer_name (this_peer d2)
      then bind_ok (gossip_self env [peer_name p] d2)
        (\<lambda>g d3. if length (peer_name_list g) > 0 then dht_publish env (GossipTo g) d3 else Ok () d3)
      else Ok () d2)" if "dht_inv d2" for d2
    using that by (auto intro!: dht_keeps_bind dht_keeps_gossip_self dht_keeps_publish)
  show "dht_keeps d1 (if \<not> b then Ok () d1
      else case map_of (peer_map d1) (peer_name p) of None \<Rightarrow> Panic ''Should have peer by now''
        | Some peer \<Rightarrow>
            (case ev_ser env (GossipPeer peer) of None \<Rightarrow> Panic ''serialize''
             | Some buf \<Rightarrow> bind_ok
                 (dht_publish env (GossipTo \<lparr>peer_name_list = get_other_peer_list d, gtd_bundle = buf\<rparr>) d1)
                 (\<lambda>_ d2. if peer_name p \<noteq> peer_name (this_peer d2)
                    then bind_ok (gossip_self env [peer_name p] d2)
                      (\<lambda>g d3. if length (peer_name_list g) > 0 then dht_publish env (GossipTo g) d3
                              else Ok () d3)
                    else Ok () d2)))"
    using inv by (auto split: option.splits intro!: dht_keeps_bind dht_keeps_publish dest: reply)
qed

lemma dht_keeps_store_and_gossip [dht_keeps_intros]:
  assumes "dht_inv d"
  shows "dht_keeps d (store_and_gossip env entry d)"
proof -
  obtain b d1 where e: "add_entry_aspects entry d = (b, d1)" by fastforce
  from dht_keeps_add_entry_aspects[OF assms e]
  have inv: "dht_inv d1" and le: "dht_le d d1" by auto
  have "dht_keeps d1 (bind_ok (gossip_entry env entry d1) (dht_publish env))"
    using inv by (auto simp: gossip_entry_def dht_keeps_publish split: option.splits)
  with inv le show ?thesis
    by (auto simp: store_and_gossip_def e dht_keeps_def intro: dht_le_trans)
qed

lemma dht_keeps_hold_entry [dht_keeps_intros]:
  "dht_inv d \<Longrightarrow> dht_keeps d (hold_entry_aspect_address env entry d)"
  by (auto simp: hold_entry_aspect_address_def dht_keeps_publish dht_keeps_store_and_gossip split: list.splits)

lemma dht_keeps_request_entry [dht_keeps_intros]:
  "dht_inv d \<Longrightarrow> dht_keeps d (dht_request_entry env req a d)"
  by (simp add: dht_request_entry_def dht_keeps_on_endpoint)

lemma dht_keeps_handle_request [dht_keeps_intros]:
  assumes "dht_inv d"
  shows "dht_keeps d (handle_request_from_parent env req d)"
proof (cases "gm_message req")
  case (Some msg)
  have "dht_le d (d\<lparr>this_peer := (this_peer d)\<lparr>peer_location := loc\<rparr>\<rparr>)" for loc
    by (rule dht_le_same) simp_all
  then show ?thesis using assms Some
    by (cases msg) (simp_all add: handle_request_from_parent_def take_message_def dht_inv_same_data
        dht_keeps_handle_gossip dht_keeps_hold_peer dht_keeps_hold_entry dht_keeps_store_and_gossip
        dht_keeps_respond dht_keeps_request_entry)
qed (simp add: handle_request_from_parent_def take_message_def)

lemma dht_keeps_serve [dht_keeps_intros]:
  "dht_inv d \<Longrightarrow> dht_keeps d (dht_serve envs n reqs d)"
  by (induction envs n reqs d rule: dht_serve.induct)
    (auto intro!: dht_keeps_bind dht_keeps_expect dht_keeps_handle_request)

lemma dht_keeps_publish_all [dht_keeps_intros]:
  "dht_inv d \<Longrightarrow> dht_keeps d (for_each (\<lambda>c. on_endpoint (publish bt c)) cs d)"
  by (induction cs arbitrary: d) (auto intro!: dht_keeps_bind dht_keeps_on_endpoint)

interpretation dht_cb: callback_contract "dht_callback bt" "\<lambda>u. fst u = d" for bt d
  by unfold_locales
    (auto simp: dht_callback_def final_state_lift_state
      split: prod.splits DhtCallback.splits GhostCallbackData.splits sum.splits
        DhtRequestToParentResponse.splits)

lemma dht_keeps_endpoint_pass [dht_keeps_intros]:
  assumes "dht_inv d"
  shows "dht_keeps d (detach_run endpoint_self (\<lambda>ep d. d\<lparr>endpoint_self := ep\<rparr>)
    (endpoint_process rid_msg (dht_callback bt) now) d)"
  unfolding dht_keeps_def
proof (intro allI impI)
  fix d'
  assume run: "final_state (detach_run endpoint_self (\<lambda>ep d. d\<lparr>endpoint_self := ep\<rparr>)
    (endpoint_process rid_msg (dht_callback bt) now) d) = Some d'"
  from assms obtain ep where ep: "endpoint_self d = Detach (Some ep)"
    by (auto simp: dht_inv_def is_attached_iff)
  let ?d0 = "d\<lparr>endpoint_self := Detach None\<rparr>"
  from run obtain ep' d1 where
    fs: "final_state (endpoint_process rid_msg (dht_callback bt) now (ep, ?d0)) = Some (ep', d1)"
    and d': "d' = d1\<lparr>endpoint_self := Detach (Some ep')\<rparr>"
    by (auto simp: detach_run_attached[where get = endpoint_self, OF ep] final_state_lift_state)
  have "d1 = ?d0" using dht_cb.endpoint_process_keeps[OF _ fs, of ?d0] by simp
  then have "d' = d\<lparr>endpoint_self := Detach (Some ep')\<rparr>" using d' by simp
  then show "dht_inv d' \<and> dht_le d d'"
    using assms by (auto intro: dht_inv_endpoint dht_le_same)
qed

lemma dht_keeps_process_concrete:
  "dht_inv d \<Longrightarrow> dht_keeps d (dht_process_concrete rid_msg now envs envp d)"
  unfolding dht_process_concrete_def
  by (intro dht_keeps_bind; (simp split: prod.splits)?;
      (intro dht_keeps_intros impI allI; simp?)+)

subsection \<open>Whole runs of the actor\<close>

text \<open>
  One cycle of the actor: the owner's endpoint has put \<open>in_msgs\<close> on the queue, then \<open>process\<close>
  runs. A cycle that panics has no successor state.
\<close>

record dht_input =
  in_msgs :: "(DhtRequestToChild, DhtRequestToParentResponse, Lib3hError) GhostEndpointMessage list"
  in_rid_msg :: "RequestId \<Rightarrow> RequestId list \<Rightarrow> string"
  in_now :: time
  in_envs :: "nat \<Rightarrow> dht_env"
  in_envp :: dht_env

definition dht_receive ::
  "(DhtRequestToChild, DhtRequestToParentResponse, Lib3hError) GhostEndpointMessage list \<Rightarrow> MirrorDht \<Rightarrow> MirrorDht" where
  "dht_receive ms d =
     (case endpoint_self d of
        Detach (Some ep) \<Rightarrow> d\<lparr>endpoint_self := Detach (Some (deliver ms ep))\<rparr>
      | Detach None \<Rightarrow> d)"

definition dht_cycle :: "dht_input \<Rightarrow> MirrorDht \<Rightarrow> MirrorDht option" where
  "dht_cycle i d = final_state
     (dht_process_concrete (in_rid_msg i) (in_now i) (in_envs i) (in_envp i) (dht_receive (in_msgs i) d))"

lemma dht_receive_keeps: "dht_inv d \<Longrightarrow> dht_inv (dht_receive ms d) \<and> dht_le d (dht_receive ms d)"
  by (auto simp: dht_receive_def intro: dht_inv_endpoint dht_le_same split: Detach.splits option.splits)

lemma dht_cycle_keeps:
  assumes "dht_inv d" and "dht_cycle i d = Some d'"
  shows "dht_inv d' \<and> dht_le d d'"
  using dht_receive_keeps[OF assms(1), of "in_msgs i"] assms(2)
    dht_keeps_process_concrete[of "dht_receive (in_msgs i) d" "in_rid_msg i" "in_now i" "in_envs i" "in_envp i"]
  unfolding dht_cycle_def dht_keeps_def by (blast intro: dht_le_trans)

interpretation dht: invariant_machine dht_cycle dht_inv dht_le
  by unfold_locales (auto dest: dht_cycle_keeps intro: dht_le_trans)

text \<open>What has been sent to the owner, and an endpoint on which sending works.\<close>

definition dht_outbox ::
  "MirrorDht \<Rightarrow> (DhtRequestToParent, DhtRequestToChildResponse, Lib3hError) GhostEndpointMessage list" where
  "dht_outbox d = (case endpoint_self d of Detach (Some ep) \<Rightarrow> snd_sent (gce_sender ep) | Detach None \<Rightarrow> [])"

definition dht_open :: "MirrorDht \<Rightarrow> bool" where
  "dht_open d = (case endpoint_self d of Detach (Some ep) \<Rightarrow> snd_error (gce_sender ep) = None | Detach None \<Rightarrow> False)"

lemma dht_publish_open:
  assumes "dht_open d"
  obtains ep where "dht_publish env c d = Ok () (d\<lparr>endpoint_self := Detach (Some ep)\<rparr>)"
    and "dht_outbox (d\<lparr>endpoint_self := Detach (Some ep)\<rparr>) = dht_outbox d @ [Request (re_bt (ev_req env)) None c]"
    and "dht_open (d\<lparr>endpoint_self := Detach (Some ep)\<rparr>)"
  using assms that
  by (fastforce simp: dht_open_def dht_publish_def on_endpoint_def detach_deref_mut_def publish_def send_on_def
      chan_send_def dht_outbox_def split: Detach.splits option.splits)

text \<open>\<open>no_underflow\<close>: the subtractions of the periodic work do not go below zero.\<close>

definition no_underflow :: "dht_env \<Rightarrow> MirrorDht \<Rightarrow> bool" where
  "no_underflow env d \<longleftrightarrow> list_all (\<lambda>(n, p). timestamp p \<le> ev_now env) (peer_map d)
     \<and> last_gossip_of_self d \<le> ev_now env"

lemma sub_u64_ok: "\<not> checks \<or> b \<le> a \<Longrightarrow> sub_u64 checks a b = Some (a - b)"
  by (auto simp: sub_u64_def)

lemma check_timed_out_total:
  assumes "\<not> ev_checks env \<or> list_all (\<lambda>(n, p). timestamp p \<le> ev_now env) ps"
    and "set (keys ps) \<subseteq> set (keys (timed_out_map d))"
  shows "check_timed_out env d ps acc = Ok (acc @ map fst (filter (newly_timed_out env d) ps)) d"
  using assms
proof (induction ps arbitrary: acc)
  case (Cons np ps)
  obtain n p where np: "np = (n, p)" by (cases np)
  have sub: "sub_u64 (ev_checks env) (ev_now env) (timestamp p) = Some (ev_now env - timestamp p)"
    using Cons.prems(1) by (intro sub_u64_ok) (auto simp: np)
  have "n \<in> set (keys (timed_out_map d))" using Cons.prems(2) by (simp add: np)
  from in_keys_map_of[OF this] obtain b where b: "map_of (timed_out_map d) n = Some b" by blast
  have IH: "check_timed_out env d ps acc' = Ok (acc' @ map fst (filter (newly_timed_out env d) ps)) d" for acc'
    using Cons by auto
  show ?case by (simp add: np sub b IH newly_timed_out_def)
qed simp

text \<open>The names \<open>internal_process\<close> reports, and the gossip of this peer that it sends.\<close>

definition newly_timed_out_names :: "dht_env \<Rightarrow> MirrorDht \<Rightarrow> Lib3hUri list" where
  "newly_timed_out_names env d = map fst (filter (newly_timed_out env d) (peer_map d))"

definition self_gossip :: "dht_env \<Rightarrow> MirrorDht \<Rightarrow> DhtRequestToParent list" where
  "self_gossip env d =
     (if ev_now env - last_gossip_of_self d > gossip_interval (config d) \<and> get_other_peer_list d \<noteq> []
      then [GossipTo \<lparr>peer_name_list = get_other_peer_list d,
                      gtd_bundle = the (ev_ser env (GossipPeer (this_peer d)))\<rparr>]
      else [])"

definition dht_after_tick :: "dht_env \<Rightarrow> MirrorDht \<Rightarrow> MirrorDht" where
  "dht_after_tick env d = d
     \<lparr>timed_out_map := fold (\<lambda>n. AList.update n True) (newly_timed_out_names env d) (timed_out_map d),
      last_gossip_of_self := (if ev_now env - last_gossip_of_self d > gossip_interval (config d)
                              then ev_now env else last_gossip_of_self d)\<rparr>"

lemma internal_process_eq:
  assumes "dht_inv d" and "\<not> ev_checks env \<or> no_underflow env d"
    and "ev_ser env (GossipPeer (this_peer d)) \<noteq> None"
  shows "internal_process env d =
    Ok (newly_timed_out_names env d \<noteq> [] \<or> self_gossip env d \<noteq> [],
        map PeerTimedOut (newly_timed_out_names env d) @ self_gossip env d) (dht_after_tick env d)"
proof -
  have c: "check_timed_out env d (peer_map d) [] = Ok (newly_timed_out_names env d) d"
    using check_timed_out_total[of env "peer_map d" d "[]"] assms(1,2)
    by (auto simp: newly_timed_out_names_def no_underflow_def dht_inv_def)
  have s: "sub_u64 (ev_checks env) (ev_now env) (last_gossip_of_self d) = Some (ev_now env - last_gossip_of_self d)"
    using assms(2) by (intro sub_u64_ok) (auto simp: no_underflow_def)
  show ?thesis using assms(3)
    by (auto simp: internal_process_def c s Let_def gossip_self_def self_gossip_def dht_after_tick_def
        get_other_peer_list_def)
qed

lemma internal_process_reports:
  assumes "internal_process env d = Ok (w, cmds) d'" and "PeerTimedOut n \<in> set cmds"
  shows "n \<in> set (newly_timed_out_names env d)"
proof -
  from assms(1) obtain l dx where c: "check_timed_out env d (peer_map d) [] = Ok l dx"
    by (auto simp: internal_process_def outcome_simps)
  have l: "l = newly_timed_out_names env d"
    using check_timed_out_Ok[OF c] by (simp add: newly_timed_out_names_def)
  from assms(1) c obtain gs where "cmds = map PeerTimedOut l @ gs" and "\<forall>g\<in>set gs. \<exists>x. g = GossipTo x"
    by (auto simp: internal_process_def Let_def outcome_simps split: option.splits if_splits)
  with assms(2) show ?thesis by (auto simp: l)
qed

lemma newly_timed_out_names_set:
  assumes "dht_inv d"
  shows "n \<in> set (newly_timed_out_names env d) \<longleftrightarrow>
    (\<exists>p. map_of (peer_map d) n = Some p \<and> n \<noteq> peer_name (this_peer d)
       \<and> map_of (timed_out_map d) n = Some False \<and> ev_now env - timestamp p > timeout_threshold (config d))"
proof -
  have "wf_map (peer_map d)" using assms by (simp add: dht_inv_def)
  note iff = map_of_eq_Some_iff[OF this]
  have "n \<in> set (newly_timed_out_names env d) \<longleftrightarrow> (\<exists>p. (n, p) \<in> set (peer_map d) \<and> newly_timed_out env d (n, p))"
    by (auto simp: newly_timed_out_names_def image_iff)
  then show ?thesis by (simp add: newly_timed_out_def iff)
qed

lemma flags_after_tick:
  assumes "dht_inv d"
  shows "map_of (timed_out_map (dht_after_tick env d)) n =
    (if n \<in> set (newly_timed_out_names env d) then Some True else map_of (timed_out_map d) n)"
  using flags_fold[of "timed_out_map d" True "newly_timed_out_names env d"] assms
  by (simp add: dht_after_tick_def dht_inv_def)

section \<open>Properties\<close>

text \<open>
  C13: The mirror DHT is monotonic. Over any number of cycles of the actor, with any messages from its
  owner (gossip from remote peers included), any clock readings and any results of the
  serializer, the invariant is kept, no held aspect is ever forgotten, and every known peer stays
  known, with its location unchanged and its timestamp never going back.
\<close>

theorem dht_monotone:
  assumes "dht_inv d" and "run_steps dht_cycle ins d = Some d'"
  shows "dht_inv d' \<and> dht_le d d'"
  using dht.run_inv[OF assms] dht.run_grows[OF assms] by blast


text \<open>
  \<open>add_peer\<close> answers true exactly for a new peer or a strictly newer timestamp. A new peer is
  stored as given; of a known peer only the timestamp changes (its location stays the one first
  seen). The timed-out flag is cleared for a new peer, and for a known one when the new timestamp
  is within the threshold.
\<close>

theorem add_peer_spec:
  assumes "add_peer env p d = Ok changed d'"
  shows "(changed \<longleftrightarrow> (\<forall>q. map_of (peer_map d) (peer_name p) = Some q \<longrightarrow> timestamp q < timestamp p))
    \<and> map_of (peer_map d') =
        (if changed
         then (map_of (peer_map d))(peer_name p \<mapsto>
                (case map_of (peer_map d) (peer_name p) of
                   None \<Rightarrow> p | Some q \<Rightarrow> q\<lparr>timestamp := timestamp p\<rparr>))
         else map_of (peer_map d))
    \<and> map_of (timed_out_map d') =
        (if changed \<and> (map_of (peer_map d) (peer_name p) = None
                        \<or> ev_now env - timestamp p < timeout_threshold (config d))
         then (map_of (timed_out_map d))(peer_name p \<mapsto> False)
         else map_of (timed_out_map d))
    \<and> entry_list d' = entry_list d"
proof (cases "map_of (peer_map d) (peer_name p)")
  case None
  with assms show ?thesis by (auto simp: add_peer_def Let_def hashmap_simps)
next
  case (Some q)
  show ?thesis
  proof (cases "timestamp p \<le> timestamp q")
    case True
    with assms Some show ?thesis by (auto simp: add_peer_def Let_def)
  next
    case False
    with assms Some have "sub_u64 (ev_checks env) (ev_now env) (timestamp p) = Some (ev_now env - timestamp p)"
      by (auto simp: add_peer_def Let_def sub_u64_def split: if_splits)
    with assms Some False show ?thesis
      by (auto simp: add_peer_def Let_def hashmap_simps not_le)
  qed
qed

text \<open>
  Storing an entry with something new, on an endpoint that accepts messages.
\<close>

lemma store_and_gossip_new:
  assumes "dht_open d" and "ev_ser env (GossipEntry entry) = Some b"
    and "\<not> aspect_addresses entry \<subseteq> held d (entry_address entry)"
  shows "\<exists>d'. store_and_gossip env entry d = Ok () d' \<and> dht_open d' \<and> this_peer d' = this_peer d
    \<and> held d' = (held d)(entry_address entry := held d (entry_address entry) \<union> aspect_addresses entry)
    \<and> dht_outbox d' = dht_outbox d @ [Request (re_bt (ev_req env)) None
         (GossipTo \<lparr>peer_name_list = get_other_peer_list d, gtd_bundle = b\<rparr>)]"
proof -
  obtain c d1 where add: "add_entry_aspects entry d = (c, d1)" by fastforce
  note h = add_entry_aspects_held[OF add]
  from h(4) obtain el where d1: "d1 = d\<lparr>entry_list := el\<rparr>" by blast
  have others: "get_other_peer_list d1 = get_other_peer_list d"
    and op: "dht_open d1" and out: "dht_outbox d1 = dht_outbox d"
    using assms(1) by (simp_all add: d1 get_other_peer_list_def dht_open_def dht_outbox_def)
  from dht_publish_open[OF op] obtain ep where
    pub: "dht_publish env (GossipTo \<lparr>peer_name_list = get_other_peer_list d, gtd_bundle = b\<rparr>) d1
      = Ok () (d1\<lparr>endpoint_self := Detach (Some ep)\<rparr>)"
    and "dht_outbox (d1\<lparr>endpoint_self := Detach (Some ep)\<rparr>) = dht_outbox d1 @ [Request (re_bt (ev_req env)) None
         (GossipTo \<lparr>peer_name_list = get_other_peer_list d, gtd_bundle = b\<rparr>)]"
    and "dht_open (d1\<lparr>endpoint_self := Detach (Some ep)\<rparr>)" .
  moreover have "held (d1\<lparr>endpoint_self := Detach (Some ep)\<rparr>) = held d1" by (simp add: held_def fun_eq_iff)
  moreover have "this_peer (d1\<lparr>endpoint_self := Detach (Some ep)\<rparr>) = this_peer d" by (simp add: d1)
  moreover have "store_and_gossip env entry d = Ok () (d1\<lparr>endpoint_self := Detach (Some ep)\<rparr>)"
    using assms(2,3) h(2) pub by (simp add: store_and_gossip_def add gossip_entry_def others)
  ultimately show ?thesis unfolding out h(1) by blast
qed

lemma store_and_gossip_known:
  assumes "aspect_addresses entry \<subseteq> held d (entry_address entry)"
  shows "store_and_gossip env entry d = Ok () d"
proof -
  obtain c d1 where add: "add_entry_aspects entry d = (c, d1)" by fastforce
  with add_entry_aspects_held(2,3)[OF add] assms show ?thesis by (simp add: store_and_gossip_def)
qed

lemma handle_gossip_known:
  assumes "ev_de env (rgb_bundle m) = Inr (GossipEntry entry)"
    and "aspect_addresses entry \<subseteq> held d (entry_address entry)"
  shows "handle_gossip env m d = Ok () d"
proof -
  have "diff_aspects d entry = []" using assms(2) diff_aspects_held[of d entry] by (metis Diff_eq_empty_iff set_empty)
  then show ?thesis using assms(1) by (simp add: handle_gossip_def)
qed

lemma handle_gossip_new:
  assumes "ev_de env (rgb_bundle m) = Inr (GossipEntry entry)"
    and "\<not> aspect_addresses entry \<subseteq> held d (entry_address entry)" and "dht_open d"
  shows "\<exists>d'. handle_gossip env m d = Ok () d' \<and> dht_open d' \<and> held d' = held d
    \<and> dht_outbox d' = dht_outbox d @ [Request (re_bt (ev_req env)) None
         (HoldEntryRequested (peer_name (this_peer d)) entry)]"
proof -
  have "diff_aspects d entry \<noteq> []" using assms(2) diff_aspects_held[of d entry] by (metis Diff_eq_empty_iff set_empty)
  moreover have "held (d\<lparr>endpoint_self := x\<rparr>) = held d" for x by (simp add: held_def fun_eq_iff)
  ultimately show ?thesis using assms(1)
    by (auto simp: handle_gossip_def intro: dht_publish_open[OF assms(3)])
qed

text \<open>
  C15: Full sync of an entry. When the owner of node \<open>A\<close> broadcasts an entry of which \<open>A\<close> and \<open>B\<close> lack
  an aspect, \<open>A\<close> records its aspects and asks its owner to gossip one bundle to all its other peers;
  \<open>B\<close>, handed that bundle, asks its owner to hold exactly that entry; once its owner answers that it
  does, \<open>B\<close> holds every aspect of the entry and gossips it on; and handing the same bundle to
  \<open>A\<close> or \<open>B\<close> again changes nothing and sends nothing, so the gossip dies out.
\<close>

theorem gossip_convergence:
  assumes "dht_open A" and "dht_open B"
    and new: "\<not> aspect_addresses entry \<subseteq> held A (entry_address entry)"
      "\<not> aspect_addresses entry \<subseteq> held B (entry_address entry)"
    and content: "aspect (hd (aspect_list entry)) \<noteq> []"
    and ser: "ev_ser envA (GossipEntry entry) = Some b" "ev_ser envB (GossipEntry entry) = Some b'"
    and de: "\<And>env. env \<in> {envA, envB} \<Longrightarrow> ev_de env b = Inr (GossipEntry entry)"
  shows "\<exists>A' B1 B2.
      handle_request_from_parent envA (GhostMessage_new_event bt (BroadcastEntry entry)) A = Ok () A'
    \<and> aspect_addresses entry \<subseteq> held A' (entry_address entry)
    \<and> dht_outbox A' = dht_outbox A @ [Request (re_bt (ev_req envA)) None
         (GossipTo \<lparr>peer_name_list = get_other_peer_list A, gtd_bundle = b\<rparr>)]
    \<and> handle_request_from_parent envB (GhostMessage_new_event bt
         (HandleGossip \<lparr>rgb_from_peer_name = from, rgb_bundle = b\<rparr>)) B = Ok () B1
    \<and> dht_outbox B1 = dht_outbox B @ [Request (re_bt (ev_req envB)) None
         (HoldEntryRequested (peer_name (this_peer B)) entry)]
    \<and> handle_request_from_parent envB (GhostMessage_new_event bt (HoldEntryAspectAddress entry)) B1 = Ok () B2
    \<and> held B2 = (held B)(entry_address entry := held B (entry_address entry) \<union> aspect_addresses entry)
    \<and> length (dht_outbox B2) = length (dht_outbox B1) + 1
    \<and> (\<forall>(env, d) \<in> {(envA, A'), (envB, B2)}. handle_request_from_parent env (GhostMessage_new_event bt
         (HandleGossip \<lparr>rgb_from_peer_name = from, rgb_bundle = b\<rparr>)) d = Ok () d)"
proof -
  let ?m = "\<lparr>rgb_from_peer_name = from, rgb_bundle = b\<rparr>"
  note req = handle_request_from_parent_def GhostMessage_new_event_def GhostMessage_new_def take_message_def
  obtain A' where A: "store_and_gossip envA entry A = Ok () A'"
    "held A' = (held A)(entry_address entry := held A (entry_address entry) \<union> aspect_addresses entry)"
    "dht_outbox A' = dht_outbox A @ [Request (re_bt (ev_req envA)) None
         (GossipTo \<lparr>peer_name_list = get_other_peer_list A, gtd_bundle = b\<rparr>)]"
    using store_and_gossip_new[OF assms(1) ser(1) new(1)] by blast
  obtain B1 where B1: "handle_gossip envB ?m B = Ok () B1" "dht_open B1" "held B1 = held B"
    "dht_outbox B1 = dht_outbox B @ [Request (re_bt (ev_req envB)) None
         (HoldEntryRequested (peer_name (this_peer B)) entry)]"
    using handle_gossip_new[of envB ?m entry B] de[of envB] new(2) assms(2) by auto
  have "\<not> aspect_addresses entry \<subseteq> held B1 (entry_address entry)" using new(2) B1(3) by simp
  then obtain B2 where B2: "store_and_gossip envB entry B1 = Ok () B2"
    "held B2 = (held B)(entry_address entry := held B (entry_address entry) \<union> aspect_addresses entry)"
    "length (dht_outbox B2) = length (dht_outbox B1) + 1"
    using store_and_gossip_new[OF B1(2) ser(2)] B1(3) by fastforce
  have "aspect_list entry \<noteq> []" using new(1) by (auto simp: aspect_addresses_def)
  then have hold: "hold_entry_aspect_address envB entry B1 = Ok () B2"
    using content B2(1) by (auto simp: hold_entry_aspect_address_def neq_Nil_conv)
  have "handle_gossip envA ?m A' = Ok () A'" "handle_gossip envB ?m B2 = Ok () B2"
    using de A(2) B2(2) by (auto intro!: handle_gossip_known)
  then show ?thesis using A B1 B2 hold by (simp add: req)
qed

text \<open>
  Holding a new peer: it is stored as given, all other peers known so far are sent it, and it is
  sent this peer's own data in return (unless it is this peer).
\<close>

theorem hold_peer_introduces:
  assumes "dht_open d" and "map_of (peer_map d) (peer_name p) = None"
    and ser: "ev_ser env (GossipPeer p) = Some bp" "ev_ser env (GossipPeer (this_peer d)) = Some bt"
  shows "\<exists>d'. handle_request_from_parent env (GhostMessage_new_event tr (HoldPeer p)) d = Ok () d'
    \<and> map_of (peer_map d') = (map_of (peer_map d))(peer_name p \<mapsto> p)
    \<and> map_of (timed_out_map d') (peer_name p) = Some False
    \<and> dht_outbox d' = dht_outbox d @
        map (Request (re_bt (ev_req env)) None \<circ> GossipTo)
          (\<lparr>peer_name_list = get_other_peer_list d, gtd_bundle = bp\<rparr> #
           (if peer_name p \<noteq> peer_name (this_peer d)
            then [\<lparr>peer_name_list = [peer_name p], gtd_bundle = bt\<rparr>] else []))"
proof -
  define d1 where "d1 = d\<lparr>peer_map := AList.update (peer_name p) p (peer_map d),
      timed_out_map := AList.update (peer_name p) False (timed_out_map d)\<rparr>"
  have add: "add_peer env p d = Ok True d1" using assms(2) by (simp add: add_peer_def Let_def d1_def)
  have op: "dht_open d1" and out: "dht_outbox d1 = dht_outbox d"
    using assms(1) by (simp_all add: d1_def dht_open_def dht_outbox_def)
  let ?g1 = "GossipTo \<lparr>peer_name_list = get_other_peer_list d, gtd_bundle = bp\<rparr>"
  let ?g2 = "GossipTo \<lparr>peer_name_list = [peer_name p], gtd_bundle = bt\<rparr>"
  from dht_publish_open[OF op] obtain ep where
    p1: "dht_publish env ?g1 d1 = Ok () (d1\<lparr>endpoint_self := Detach (Some ep)\<rparr>)"
    and o1: "dht_outbox (d1\<lparr>endpoint_self := Detach (Some ep)\<rparr>) =
        dht_outbox d @ [Request (re_bt (ev_req env)) None ?g1]"
    and op1: "dht_open (d1\<lparr>endpoint_self := Detach (Some ep)\<rparr>)" unfolding out .
  from dht_publish_open[OF op1, where env = env and c = ?g2] obtain ep' where
    p2: "dht_publish env ?g2 (d1\<lparr>endpoint_self := Detach (Some ep)\<rparr>) =
        Ok () (d1\<lparr>endpoint_self := Detach (Some ep')\<rparr>)"
    and o2: "dht_outbox (d1\<lparr>endpoint_self := Detach (Some ep')\<rparr>) =
        dht_outbox d @ [Request (re_bt (ev_req env)) None ?g1, Request (re_bt (ev_req env)) None ?g2]"
    unfolding o1 by auto
  have look: "map_of (peer_map d1) (peer_name p) = Some p" "this_peer d1 = this_peer d"
    "map_of (peer_map d1) = (map_of (peer_map d))(peer_name p \<mapsto> p)"
    "map_of (timed_out_map d1) (peer_name p) = Some False"
    by (simp_all add: d1_def hashmap_simps)
  have run: "hold_peer env p d = Ok ()
      (if peer_name p \<noteq> peer_name (this_peer d) then d1\<lparr>endpoint_self := Detach (Some ep')\<rparr>
       else d1\<lparr>endpoint_self := Detach (Some ep)\<rparr>)"
    using ser p1 p2 by (simp add: hold_peer_def Let_def add look gossip_self_def)
  show ?thesis
    using look(4)
    by (auto simp: handle_request_from_parent_def GhostMessage_new_event_def GhostMessage_new_def
        take_message_def run look(2,3) o1 o2)
qed

text \<open>
  A remote peer can stop a node: a gossip bundle that does not decode is an error of
  \<open>handle_request_from_parent\<close>, and \<open>process_concrete\<close> turns that error into a panic.
\<close>

theorem undecodable_gossip_panics:
  assumes "endpoint_self d = Detach (Some ep)"
    and "gt_expired now (gce_tracker ep) = []" and "gce_outbox ep = []"
    and "\<not> rcv_disconnected (gce_receiver ep)"
    and "rcv_incoming (gce_receiver ep) = [Request bt rid (HandleGossip m)]"
    and "ev_de (envs 0) (rgb_bundle m) = Inl e"
  shows "dht_process_concrete rid_msg now envs envp d = Panic ''no ghost errors''"
proof -
  let ?ep = "ep\<lparr>gce_receiver := (gce_receiver ep)\<lparr>rcv_incoming := []\<rparr>,
                gce_outbox := [GhostMessage_new bt rid (HandleGossip m)]\<rparr>"
  have "detach_run endpoint_self (\<lambda>ep d. d\<lparr>endpoint_self := ep\<rparr>)
      (endpoint_process rid_msg (dht_callback (re_bt (ev_req envp))) now) d =
      Ok True (d\<lparr>endpoint_self := Detach (Some ?ep)\<rparr>)"
    using assms by (simp add: detach_run_attached[where get = endpoint_self, OF assms(1)]
        endpoint_process_def with_tracker_process_idle process_message_def)
  then show ?thesis using assms(6)
    by (simp add: dht_process_concrete_def on_endpoint_def detach_deref_mut_def drain_messages_def
        handle_request_from_parent_def take_message_def GhostMessage_new_def handle_gossip_def)
qed


section \<open>Witnesses\<close>

text \<open>
  A node \<open>a:\<close> that knows the peer \<open>b:\<close>, last seen at time 10, and holds nothing. The environment's
  serializer writes one byte; its deserializer yields \<open>g\<close>.
\<close>

definition demo_dht_endpoint :: DhtEndpointWithContext where
  "demo_dht_endpoint = GhostContextEndpointBuilder_build
     (GhostContextEndpointBuilder_request_id_prefix ''dht_to_parent_''
        (as_context_endpoint_builder (snd create_ghost_channel)))"

definition demo_dht :: MirrorDht where
  "demo_dht =
     \<lparr>entry_list = [], peer_map = [(''b:'', \<lparr>peer_name = ''b:'', peer_location = ''mem://b'', timestamp = 10\<rparr>)],
      timed_out_map = [(''b:'', False)],
      this_peer = \<lparr>peer_name = ''a:'', peer_location = ''mem://a'', timestamp = 5\<rparr>,
      last_gossip_of_self = 5, config = DhtConfig_new ''a:'', endpoint_parent = None,
      endpoint_self = Detach_new demo_dht_endpoint\<rparr>"

definition demo_dht_env :: "bool \<Rightarrow> u64 \<Rightarrow> string + MirrorGossip \<Rightarrow> dht_env" where
  "demo_dht_env checks now g =
     \<lparr>ev_checks = checks, ev_ser = (\<lambda>_. Some [1]), ev_de = (\<lambda>_. g), ev_now = now, ev_req = demo_env\<rparr>"

definition demo_entry :: EntryData where
  "demo_entry = \<lparr>entry_address = ''e'',
     aspect_list = [\<lparr>aspect_address = ''x'', type_hint = [], aspect = [7], publish_ts = 0\<rparr>]\<rparr>"

definition demo_peer :: PeerData where
  "demo_peer = \<lparr>peer_name = ''c:'', peer_location = ''mem://c'', timestamp = 12\<rparr>"

lemmas demo_dht_simps = demo_dht_def demo_dht_endpoint_def DhtConfig_new_def DEFAULT_GOSSIP_INTERVAL_MS_def
  DEFAULT_TIMEOUT_THRESHOLD_MS_def Detach_new_def GhostContextEndpointBuilder_build_def
  GhostContextEndpointBuilder_request_id_prefix_def as_context_endpoint_builder_def
  create_ghost_channel_def GhostEndpoint_new_def fresh_sender_def fresh_receiver_def
  GhostTrackerBuilder_build_def GhostTrackerBuilder_default_def
  GhostTrackerBuilder_request_id_prefix_def demo_dht_env_def demo_entry_def demo_peer_def

lemma demo_dht_inv: "dht_inv demo_dht"
  by (auto simp: dht_inv_def demo_dht_simps split: if_splits)

lemma demo_dht_open: "dht_open demo_dht"
  by (simp add: dht_open_def demo_dht_simps)

lemma demo_dht_lookups:
  "map_of (peer_map demo_dht) ''b:'' = Some \<lparr>peer_name = ''b:'', peer_location = ''mem://b'', timestamp = 10\<rparr>"
  "map_of (peer_map demo_dht) ''c:'' = None"
  "map_of (timed_out_map demo_dht) ''b:'' = Some False"
  "this_peer demo_dht = \<lparr>peer_name = ''a:'', peer_location = ''mem://a'', timestamp = 5\<rparr>"
  "timeout_threshold (config demo_dht) = 60000" "last_gossip_of_self demo_dht = 5"
  "held demo_dht e = {}"
  by (simp_all add: demo_dht_simps held_def)

text \<open>A cycle in which the owner announces the peer \<open>c:\<close>.\<close>

definition demo_input :: dht_input where
  "demo_input = \<lparr>in_msgs = [Request (Backtwrap None) None (HoldPeer demo_peer)], in_rid_msg = (\<lambda>_ _. []),
     in_now = 100, in_envs = (\<lambda>_. demo_dht_env True 20 (Inl [])), in_envp = demo_dht_env True 20 (Inl [])\<rparr>"

lemma demo_cycle_runs: "\<exists>d'. dht_cycle demo_input demo_dht = Some d'"
  by (simp add: dht_cycle_def demo_input_def demo_dht_simps dht_process_concrete_def dht_receive_def
      detach_run_def detach_put_def deliver_def endpoint_process_def with_tracker_def
      GhostTracker_process_def gt_expired_def process_message_def on_endpoint_def detach_deref_mut_def
      drain_messages_def handle_request_from_parent_def take_message_def GhostMessage_new_def
      hold_peer_def add_peer_def dht_publish_def publish_def send_on_def chan_send_def gossip_self_def
      internal_process_def sub_u64_def Let_def demo_env_def)

theorem dht_monotone_witness:
  "\<exists>d'. run_steps dht_cycle [demo_input] demo_dht = Some d' \<and> dht_inv d'
     \<and> (\<exists>t\<ge>10. map_of (peer_map d') ''b:'' =
          Some \<lparr>peer_name = ''b:'', peer_location = ''mem://b'', timestamp = t\<rparr>)"
proof -
  obtain d' where "dht_cycle demo_input demo_dht = Some d'" using demo_cycle_runs by blast
  then have run: "run_steps dht_cycle [demo_input] demo_dht = Some d'" by simp
  from dht_monotone[OF demo_dht_inv run] have "dht_inv d'" and "dht_le demo_dht d'" by auto
  with run show ?thesis unfolding dht_le_def using demo_dht_lookups(1) by fastforce
qed


theorem add_peer_spec_witness:
  "\<exists>d'. add_peer (demo_dht_env True 30 (Inl []))
      \<lparr>peer_name = ''b:'', peer_location = ''mem://elsewhere'', timestamp = 20\<rparr> demo_dht = Ok True d'
    \<and> map_of (peer_map d') ''b:'' = Some \<lparr>peer_name = ''b:'', peer_location = ''mem://b'', timestamp = 20\<rparr>"
proof -
  let ?p = "\<lparr>peer_name = ''b:'', peer_location = ''mem://elsewhere'', timestamp = 20\<rparr>"
  obtain d' where run: "add_peer (demo_dht_env True 30 (Inl [])) ?p demo_dht = Ok True d'"
    by (simp add: add_peer_def Let_def sub_u64_def demo_dht_simps)
  from add_peer_spec[OF run] show ?thesis using run by (simp add: demo_dht_lookups)
qed

theorem gossip_convergence_witness:
  "\<exists>A' B1. handle_request_from_parent (demo_dht_env True 20 (Inr (GossipEntry demo_entry)))
      (GhostMessage_new_event (Backtwrap None) (BroadcastEntry demo_entry)) demo_dht = Ok () A'
    \<and> ''x'' \<in> held A' ''e''
    \<and> handle_request_from_parent (demo_dht_env True 20 (Inr (GossipEntry demo_entry)))
      (GhostMessage_new_event (Backtwrap None) (HandleGossip \<lparr>rgb_from_peer_name = ''b:'', rgb_bundle = [1]\<rparr>))
      demo_dht = Ok () B1"
proof -
  let ?env = "demo_dht_env True 20 (Inr (GossipEntry demo_entry))"
  have addr: "aspect_addresses demo_entry = {''x''}" "entry_address demo_entry = ''e''"
    by (simp_all add: aspect_addresses_def demo_entry_def)
  have "\<not> aspect_addresses demo_entry \<subseteq> held demo_dht (entry_address demo_entry)"
    "aspect (hd (aspect_list demo_entry)) \<noteq> []" "ev_ser ?env (GossipEntry demo_entry) = Some [1]"
    by (simp_all add: addr demo_dht_lookups demo_dht_env_def) (simp add: demo_entry_def)
  moreover have "env \<in> {?env, ?env} \<Longrightarrow> ev_de env [1] = Inr (GossipEntry demo_entry)" for env
    by (simp add: demo_dht_env_def)
  ultimately show ?thesis
    using gossip_convergence[of demo_dht demo_dht demo_entry ?env "[1]" ?env "[1]" "Backtwrap None" "''b:''"]
      demo_dht_open unfolding addr by blast
qed

theorem hold_peer_introduces_witness:
  "\<exists>d'. handle_request_from_parent (demo_dht_env True 20 (Inl []))
      (GhostMessage_new_event (Backtwrap None) (HoldPeer demo_peer)) demo_dht = Ok () d'
    \<and> map_of (peer_map d') ''c:'' = Some demo_peer \<and> length (dht_outbox d') = length (dht_outbox demo_dht) + 2"
proof -
  let ?env = "demo_dht_env True 20 (Inl [])"
  have "map_of (peer_map demo_dht) (peer_name demo_peer) = None"
    by (simp add: demo_peer_def demo_dht_lookups)
  moreover have "ev_ser ?env g = Some [1]" for g by (simp add: demo_dht_env_def)
  ultimately obtain d' where
    "handle_request_from_parent ?env (GhostMessage_new_event (Backtwrap None) (HoldPeer demo_peer)) demo_dht = Ok () d'"
    "map_of (peer_map d') = (map_of (peer_map demo_dht))(peer_name demo_peer \<mapsto> demo_peer)"
    "dht_outbox d' = dht_outbox demo_dht @
        map (Request (re_bt (ev_req ?env)) None \<circ> GossipTo)
          (\<lparr>peer_name_list = get_other_peer_list demo_dht, gtd_bundle = [1]\<rparr> #
           (if peer_name demo_peer \<noteq> peer_name (this_peer demo_dht)
            then [\<lparr>peer_name_list = [peer_name demo_peer], gtd_bundle = [1]\<rparr>] else []))"
    using hold_peer_introduces[OF demo_dht_open, of demo_peer ?env "[1]" "[1]" "Backtwrap None"] by blast
  then show ?thesis by (simp add: demo_dht_lookups demo_peer_def)
qed

theorem undecodable_gossip_panics_witness:
  "dht_process_concrete (\<lambda>_ _. []) 0 (\<lambda>_. demo_dht_env False 20 (Inl ''bad'')) (demo_dht_env False 20 (Inl ''bad''))
     (dht_receive [Request (Backtwrap None) None (HandleGossip \<lparr>rgb_from_peer_name = ''b:'', rgb_bundle = [193]\<rparr>)]
        demo_dht) = Panic ''no ghost errors''"
  by (rule undecodable_gossip_panics[where bt = "Backtwrap None" and rid = None and
        m = "\<lparr>rgb_from_peer_name = ''b:'', rgb_bundle = [193]\<rparr>" and
        ep = "deliver [Request (Backtwrap None) None
          (HandleGossip \<lparr>rgb_from_peer_name = ''b:'', rgb_bundle = [193]\<rparr>)] demo_dht_endpoint"])
    (simp_all add: dht_receive_def demo_dht_simps deliver_def gt_expired_def)


end
