(* ===== verification/Memory_Server.thy ===== *)
theory Memory_Server
  imports Lib3h_Types
begin

text \<open>
  The in-memory network (\<open>lib3h/src/transport/memory_mock/memory_server.rs\<close>): servers with one
  inbox per connected peer, kept in a map from urls to servers, and the universe of named
  networks. The \<open>Mutex\<close>es around the maps serialize the operations, which the model takes as
  atomic; \<open>get_memory_verse\<close> only acquires such a lock. The messages inside errors are built
  with \<open>format!\<close> from the two uris.
\<close>

section \<open>Model\<close>

datatype MemoryEvent =
    EvIncomingConnectionEstablished Lib3hUri
  | EvReceivedData Lib3hUri Opaque
  | EvConnectionClosed Lib3hUri
  | EvUnbind Lib3hUri

datatype State = Running | Closing | Closed

record MemoryServer =
  this_uri :: Lib3hUri
  inbox_map :: "(Lib3hUri, bytes list) hashmap"
  connection_inbox :: "(Lib3hUri \<times> bool) list"
  ms_state :: State

definition MemoryServer_new :: "Lib3hUri \<Rightarrow> MemoryServer" where
  "MemoryServer_new uri =
     \<lparr>this_uri = uri, inbox_map = [], connection_inbox = [], ms_state = Running\<rparr>"

definition MemoryServer_close :: "MemoryServer \<Rightarrow> MemoryServer" where
  "MemoryServer_close s = s\<lparr>ms_state := Closing\<rparr>"

definition is_connected_to :: "MemoryServer \<Rightarrow> Lib3hUri \<Rightarrow> bool" where
  "is_connected_to s uri = (uri \<in> set (keys (inbox_map s)))"

type_synonym 'a server_outcome = "(MemoryServer, TransportError, 'a) outcome"

definition request_connect :: "Lib3hUri \<Rightarrow> MemoryServer \<Rightarrow> unit server_outcome" where
  "request_connect other_uri s =
     (if other_uri = this_uri s
      then Err (TransportError_new (''Server '' @ this_uri s @ '' cannot connect to self'')) s
      else if other_uri \<in> set (keys (inbox_map s))
      then Err (TransportError_new
             (''Server '' @ this_uri s @ '', is already connected to '' @ other_uri)) s
      else Ok () (s\<lparr>inbox_map := AList.update other_uri [] (inbox_map s),
                    connection_inbox := connection_inbox s @ [(other_uri, True)]\<rparr>))"

definition request_close :: "Lib3hUri \<Rightarrow> MemoryServer \<Rightarrow> unit server_outcome" where
  "request_close other_uri s =
     (case map_of (inbox_map s) other_uri of
        None \<Rightarrow> Err (TransportError_new
                  (''uri '' @ quoted other_uri @ '' unknown for server '' @ this_uri s)) s
      | Some _ \<Rightarrow> Ok () (s\<lparr>inbox_map := AList.delete other_uri (inbox_map s),
                          connection_inbox := connection_inbox s @ [(other_uri, False)]\<rparr>))"

definition post :: "Lib3hUri \<Rightarrow> bytes \<Rightarrow> MemoryServer \<Rightarrow> unit server_outcome" where
  "post from_uri payload s =
     (case map_of (inbox_map s) from_uri of
        None \<Rightarrow> Err (TransportError_new
                  (''(MemoryServer '' @ this_uri s @ '') Unknown from_uri '' @ from_uri)) s
      | Some inbox \<Rightarrow>
          Ok () (s\<lparr>inbox_map := AList.update from_uri (inbox @ [payload]) (inbox_map s)\<rparr>))"

definition connection_event :: "Lib3hUri \<times> bool \<Rightarrow> MemoryEvent" where
  "connection_event = (\<lambda>(in_uri, is_new).
     if is_new then EvIncomingConnectionEstablished in_uri else EvConnectionClosed in_uri)"

text \<open>The inner \<open>loop\<close> pops one inbox until it is empty.\<close>

fun pop_inbox :: "Lib3hUri \<Rightarrow> bytes list \<Rightarrow> MemoryEvent list" where
  "pop_inbox uri [] = []"
| "pop_inbox uri (payload # inbox) = EvReceivedData uri payload # pop_inbox uri inbox"

definition MemoryServer_process :: "MemoryServer \<Rightarrow> (bool \<times> MemoryEvent list) server_outcome" where
  "MemoryServer_process s =
     (if ms_state s = Closed then Ok (False, []) s
      else
        let conn = map connection_event (connection_inbox s);
            data = concat (map (\<lambda>(uri, inbox). pop_inbox uri inbox) (inbox_map s));
            s1 = s\<lparr>connection_inbox := [], inbox_map := map (\<lambda>(uri, _). (uri, [])) (inbox_map s)\<rparr>
        in if ms_state s = Closing
           then Ok (True, conn @ data @ [EvUnbind (this_uri s)]) (s1\<lparr>ms_state := Closed\<rparr>)
           else Ok (conn \<noteq> [] \<or> data \<noteq> [], conn @ data) s1)"

record MemoryNet =
  mn_name :: string
  server_map :: "(Lib3hUri, MemoryServer) hashmap"
  url_count :: u32
  advertised_machines :: "(Lib3hUri \<times> Address) list"

definition MemoryNet_new :: "string \<Rightarrow> MemoryNet" where
  "MemoryNet_new name = \<lparr>mn_name = name, server_map = [], url_count = 0, advertised_machines = []\<rparr>"

definition MemoryNet_advertise :: "Lib3hUri \<Rightarrow> Address \<Rightarrow> MemoryNet \<Rightarrow> MemoryNet" where
  "MemoryNet_advertise uri transport_id net =
     net\<lparr>advertised_machines := List.insert (uri, transport_id) (advertised_machines net)\<rparr>"

definition MemoryNet_discover :: "MemoryNet \<Rightarrow> (Lib3hUri \<times> Address) list" where
  "MemoryNet_discover net = advertised_machines net"

text \<open>\<open>new_url\<close>: the counter is a \<open>u32\<close>; \<open>checks\<close> says whether its overflow panics.\<close>

definition new_url :: "url_lib \<Rightarrow> bool \<Rightarrow> MemoryNet \<Rightarrow> (MemoryNet, 'e, Lib3hUri) outcome" where
  "new_url L checks net =
     (if checks \<and> url_count net + 1 < url_count net then Panic ''attempt to add with overflow''
      else
        let net1 = net\<lparr>url_count := url_count net + 1\<rparr> in
        case with_memory L (''addr_'' @ string_of_nat (unat (url_count net1))) of
          Ok u _ \<Rightarrow> Ok u net1
        | Err e _ \<Rightarrow> Err e net1
        | Panic m \<Rightarrow> Panic m)"

definition get_server :: "Lib3hUri \<Rightarrow> MemoryNet \<Rightarrow> MemoryServer option" where
  "get_server url net = map_of (server_map net) url"

definition put_server :: "Lib3hUri \<Rightarrow> MemoryServer \<Rightarrow> MemoryNet \<Rightarrow> MemoryNet" where
  "put_server url s net = net\<lparr>server_map := AList.update url s (server_map net)\<rparr>"

definition MemoryNet_bind :: "url_lib \<Rightarrow> bool \<Rightarrow> MemoryNet \<Rightarrow> (MemoryNet, 'e, Lib3hUri) outcome" where
  "MemoryNet_bind L checks net =
     bind_ok (new_url L checks net)
       (\<lambda>binding net1.
          Ok binding
            (case get_server binding net1 of
               None \<Rightarrow> put_server binding (MemoryServer_new binding) net1
             | Some _ \<Rightarrow> net1))"

definition MemoryNet_unbind :: "Lib3hUri \<Rightarrow> MemoryNet \<Rightarrow> bool \<times> MemoryNet" where
  "MemoryNet_unbind url net =
     (case get_server url net of
        Some server \<Rightarrow> (True, put_server url (MemoryServer_close server) net)
      | None \<Rightarrow> (False, net))"

text \<open>The universe of networks: \<open>get_network\<close> creates a network at its first use.\<close>

type_synonym MemoryVerse = "(string, MemoryNet) hashmap"

definition get_network :: "string \<Rightarrow> MemoryVerse \<Rightarrow> MemoryNet \<times> MemoryVerse" where
  "get_network name verse =
     (case map_of verse name of
        Some net \<Rightarrow> (net, verse)
      | None \<Rightarrow> (MemoryNet_new name, AList.update name (MemoryNet_new name) verse))"

section \<open>Lemmas\<close>

lemma pop_inbox_map: "pop_inbox uri inbox = map (EvReceivedData uri) inbox"
  by (induction inbox) auto

definition wf_server :: "MemoryServer \<Rightarrow> bool" where
  "wf_server s \<longleftrightarrow> wf_map (inbox_map s) \<and> map_of (inbox_map s) (this_uri s) = None"

text \<open>What of an event list a given peer sent, in order.\<close>

fun payloads_from :: "Lib3hUri \<Rightarrow> MemoryEvent list \<Rightarrow> bytes list" where
  "payloads_from uri [] = []"
| "payloads_from uri (EvReceivedData u p # es) = (if u = uri then p # payloads_from uri es else payloads_from uri es)"
| "payloads_from uri (e # es) = payloads_from uri es"

lemma payloads_from_append: "payloads_from u (xs @ ys) = payloads_from u xs @ payloads_from u ys"
  by (induction u xs rule: payloads_from.induct) auto

lemma payloads_from_conn: "payloads_from u (map connection_event cs) = []"
  by (induction cs) (auto simp: connection_event_def)

lemma payloads_from_pop: "payloads_from u (pop_inbox v inbox) = (if v = u then inbox else [])"
  by (induction inbox) auto

lemma payloads_from_data:
  "wf_map m \<Longrightarrow> payloads_from u (concat (map (\<lambda>(uri, inbox). pop_inbox uri inbox) m)) =
     (case map_of m u of None \<Rightarrow> [] | Some inbox \<Rightarrow> inbox)"
proof (induction m)
  case (Cons ui m)
  obtain v inbox where ui: "ui = (v, inbox)" by (cases ui)
  show ?case
  proof (cases "v = u")
    case True
    then have "map_of m u = None" using Cons.prems ui by (simp add: map_of_eq_None_iff)
    with Cons True show ?thesis by (simp add: ui payloads_from_append payloads_from_pop)
  qed (use Cons in \<open>simp add: ui payloads_from_append payloads_from_pop\<close>)
qed simp

lemma emptied_inboxes: "map_of (map (\<lambda>(uri, _). (uri, [])) m) u = map_option (\<lambda>_. []) (map_of m u)"
  by (induction m) auto

lemma emptied_keys: "map (fst \<circ> (\<lambda>(uri, _). (uri, []))) m = keys m"
  by (induction m) auto

lemma wf_server_ops:
  assumes "wf_server s"
  shows "final_state (request_connect u s) = Some s' \<Longrightarrow> wf_server s' \<and> this_uri s' = this_uri s"
    and "final_state (request_close u s) = Some s' \<Longrightarrow> wf_server s' \<and> this_uri s' = this_uri s"
    and "final_state (post u p s) = Some s' \<Longrightarrow> wf_server s' \<and> this_uri s' = this_uri s"
    and "final_state (MemoryServer_process s) = Some s' \<Longrightarrow> wf_server s' \<and> this_uri s' = this_uri s"
proof -
  show "final_state (request_connect u s) = Some s' \<Longrightarrow> wf_server s' \<and> this_uri s' = this_uri s"
    using assms by (auto simp: request_connect_def wf_server_def hashmap_simps split: if_splits)
  show "final_state (request_close u s) = Some s' \<Longrightarrow> wf_server s' \<and> this_uri s' = this_uri s"
    using assms by (auto simp: request_close_def wf_server_def hashmap_simps split: option.splits)
  show "final_state (post u p s) = Some s' \<Longrightarrow> wf_server s' \<and> this_uri s' = this_uri s"
    using assms by (auto simp: post_def wf_server_def hashmap_simps split: option.splits)
  show "final_state (MemoryServer_process s) = Some s' \<Longrightarrow> wf_server s' \<and> this_uri s' = this_uri s"
    using assms
    by (auto simp: MemoryServer_process_def wf_server_def Let_def emptied_keys emptied_inboxes split: if_splits)
qed

text \<open>The events of a server that has not closed, and the state it is left in.\<close>

definition server_events :: "MemoryServer \<Rightarrow> MemoryEvent list" where
  "server_events s = map connection_event (connection_inbox s)
     @ concat (map (\<lambda>(uri, inbox). pop_inbox uri inbox) (inbox_map s))
     @ (if ms_state s = Closing then [EvUnbind (this_uri s)] else [])"

definition server_drained :: "MemoryServer \<Rightarrow> MemoryServer" where
  "server_drained s = s\<lparr>connection_inbox := [], inbox_map := map (\<lambda>(uri, _). (uri, [])) (inbox_map s),
     ms_state := (if ms_state s = Closing then Closed else ms_state s)\<rparr>"

lemma MemoryServer_process_eq:
  "ms_state s \<noteq> Closed \<Longrightarrow> MemoryServer_process s = Ok (server_events s \<noteq> [], server_events s) (server_drained s)"
  by (cases "ms_state s") (simp_all add: MemoryServer_process_def server_events_def server_drained_def Let_def)

lemma payloads_from_server_events:
  assumes "wf_server s"
  shows "payloads_from u (server_events s) = (case map_of (inbox_map s) u of None \<Rightarrow> [] | Some inbox \<Rightarrow> inbox)"
  using assms by (simp add: server_events_def payloads_from_append payloads_from_conn payloads_from_data wf_server_def)

lemma server_drained_wf: "wf_server s \<Longrightarrow> wf_server (server_drained s)"
  by (simp add: wf_server_def server_drained_def emptied_keys emptied_inboxes)

section \<open>Properties\<close>

text \<open>
  A server that has not closed hands over everything it was sent: \<open>process\<close> succeeds, the payloads
  reported from each peer are exactly that peer's inbox in order, all inboxes are empty
  afterwards while the connections stay, and it answers that it did work exactly when there was
  an event.
\<close>

theorem server_process_delivers:
  assumes "wf_server s" and "ms_state s \<noteq> Closed"
  shows "\<exists>w evs s'. MemoryServer_process s = Ok (w, evs) s' \<and> (w \<longleftrightarrow> evs \<noteq> [])
    \<and> (\<forall>u. payloads_from u evs = (case map_of (inbox_map s) u of None \<Rightarrow> [] | Some inbox \<Rightarrow> inbox))
    \<and> (\<forall>u. map_of (inbox_map s') u = map_option (\<lambda>_. []) (map_of (inbox_map s) u))
    \<and> connection_inbox s' = [] \<and> wf_server s'"
  using MemoryServer_process_eq[OF assms(2)] payloads_from_server_events[OF assms(1)] server_drained_wf[OF assms(1)]
  by (simp add: server_drained_def emptied_inboxes)

text \<open>
  A payload posted by a connected peer arrives: the next \<open>process\<close> reports it last among that
  peer's payloads, and other peers' payloads are not affected. A peer that is not connected is
  refused and nothing changes.
\<close>

theorem post_then_process:
  assumes "wf_server s" and "ms_state s \<noteq> Closed"
  shows "(is_connected_to s u \<longrightarrow>
      (\<exists>s1 w evs s2. post u p s = Ok () s1 \<and> MemoryServer_process s1 = Ok (w, evs) s2 \<and> w
         \<and> payloads_from u evs = the (map_of (inbox_map s) u) @ [p]
         \<and> (\<forall>v. v \<noteq> u \<longrightarrow> payloads_from v evs = (case map_of (inbox_map s) v of None \<Rightarrow> [] | Some i \<Rightarrow> i))))
    \<and> (\<not> is_connected_to s u \<longrightarrow> (\<exists>e. post u p s = Err e s))"
proof (cases "map_of (inbox_map s) u")
  case None
  then have "\<not> is_connected_to s u" unfolding is_connected_to_def keys_map_of_None .
  with None show ?thesis by (simp add: post_def)
next
  case (Some inbox)
  define s1 where "s1 = s\<lparr>inbox_map := AList.update u (inbox @ [p]) (inbox_map s)\<rparr>"
  have run: "post u p s = Ok () s1" using Some by (simp add: post_def s1_def)
  have "wf_server s1" using wf_server_ops(3)[OF assms(1), of u p s1] run by simp
  moreover have "ms_state s1 \<noteq> Closed" using assms(2) by (simp add: s1_def)
  ultimately have proc: "MemoryServer_process s1 = Ok (server_events s1 \<noteq> [], server_events s1) (server_drained s1)"
    and pl: "\<And>v. payloads_from v (server_events s1) = (case map_of (inbox_map s1) v of None \<Rightarrow> [] | Some i \<Rightarrow> i)"
    using MemoryServer_process_eq payloads_from_server_events by blast+
  have u: "payloads_from u (server_events s1) = inbox @ [p]" using pl by (simp add: s1_def hashmap_simps)
  then have "server_events s1 \<noteq> []" by auto
  moreover have "payloads_from v (server_events s1) = (case map_of (inbox_map s) v of None \<Rightarrow> [] | Some i \<Rightarrow> i)"
    if "v \<noteq> u" for v using pl that by (simp add: s1_def hashmap_simps)
  moreover have "is_connected_to s u" using map_of_in_keys[OF Some] by (simp add: is_connected_to_def)
  ultimately show ?thesis using run proc u Some by (simp add: exI[of _ True])
qed

text \<open>
  Closing: after \<open>close\<close> the next \<open>process\<close> hands over what is left and ends with one \<open>Unbind\<close> event;
  every later one reports nothing and changes nothing, although \<open>post\<close> from a connected peer still
  answers \<open>Ok\<close>: such a payload is never delivered.
\<close>

theorem close_unbinds_once:
  assumes "wf_server s" and "is_connected_to s u"
  shows "\<exists>evs s1. MemoryServer_process (MemoryServer_close s) = Ok (True, evs @ [EvUnbind (this_uri s)]) s1
    \<and> (\<forall>v. EvUnbind v \<notin> set evs) \<and> MemoryServer_process s1 = Ok (False, []) s1
    \<and> (\<exists>s2. post u p s1 = Ok () s2 \<and> MemoryServer_process s2 = Ok (False, []) s2)"
proof -
  let ?conn = "map connection_event (connection_inbox s)"
  let ?data = "concat (map (\<lambda>(uri, inbox). pop_inbox uri inbox) (inbox_map s))"
  define s1 where "s1 = s\<lparr>connection_inbox := [], inbox_map := map (\<lambda>(uri, _). (uri, [])) (inbox_map s),
      ms_state := Closed\<rparr>"
  have run: "MemoryServer_process (MemoryServer_close s) =
      Ok (True, (?conn @ ?data) @ [EvUnbind (this_uri s)]) s1"
    by (simp add: MemoryServer_process_def MemoryServer_close_def Let_def s1_def)
  have none: "\<forall>v. EvUnbind v \<notin> set (?conn @ ?data)"
    by (auto simp: connection_event_def pop_inbox_map split: if_splits)
  have closed: "MemoryServer_process s1 = Ok (False, []) s1"
    by (simp add: MemoryServer_process_def s1_def)
  have "map_of (inbox_map s1) u = Some []"
    using in_keys_map_of[of u "inbox_map s"] assms(2) unfolding is_connected_to_def
    by (auto simp: s1_def emptied_inboxes)
  then obtain s2 where "post u p s1 = Ok () s2" and "ms_state s2 = Closed"
    by (simp add: post_def s1_def)
  then have "post u p s1 = Ok () s2 \<and> MemoryServer_process s2 = Ok (False, []) s2"
    by (simp add: MemoryServer_process_def)
  with run none closed show ?thesis by blast
qed

section \<open>Witnesses\<close>

definition demo_server :: MemoryServer where
  "demo_server = \<lparr>this_uri = ''mem://addr_1'', inbox_map = [(''mem://addr_2'', [[1], [2]])],
     connection_inbox = [(''mem://addr_2'', True)], ms_state = Running\<rparr>"

lemma demo_server_facts: "wf_server demo_server" "ms_state demo_server \<noteq> Closed"
  "is_connected_to demo_server ''mem://addr_2''" "\<not> is_connected_to demo_server ''mem://addr_3''"
  by (simp_all add: wf_server_def demo_server_def is_connected_to_def)

theorem server_process_delivers_witness:
  "\<exists>w evs s'. MemoryServer_process demo_server = Ok (w, evs) s'
     \<and> payloads_from ''mem://addr_2'' evs = [[1], [2]]"
proof -
  have "map_of (inbox_map demo_server) ''mem://addr_2'' = Some [[1], [2]]" by (simp add: demo_server_def)
  then show ?thesis using server_process_delivers[OF demo_server_facts(1,2)] by fastforce
qed

theorem post_then_process_witness:
  "(\<exists>s1 w evs s2. post ''mem://addr_2'' [3] demo_server = Ok () s1 \<and> MemoryServer_process s1 = Ok (w, evs) s2
      \<and> payloads_from ''mem://addr_2'' evs = [[1], [2], [3]])
   \<and> (\<exists>e. post ''mem://addr_3'' [3] demo_server = Err e demo_server)"
proof -
  have "the (map_of (inbox_map demo_server) ''mem://addr_2'') = [[1], [2]]" by (simp add: demo_server_def)
  then show ?thesis
    using post_then_process[OF demo_server_facts(1,2), of "''mem://addr_2''" "[3]"]
      post_then_process[OF demo_server_facts(1,2), of "''mem://addr_3''" "[3]"] demo_server_facts(3,4)
    by auto
qed

theorem close_unbinds_once_witness:
  "\<exists>evs s1. MemoryServer_process (MemoryServer_close demo_server) =
      Ok (True, evs @ [EvUnbind ''mem://addr_1'']) s1
     \<and> (\<exists>s2. post ''mem://addr_2'' [9] s1 = Ok () s2 \<and> MemoryServer_process s2 = Ok (False, []) s2)"
proof -
  have "this_uri demo_server = ''mem://addr_1''" by (simp add: demo_server_def)
  with close_unbinds_once[OF demo_server_facts(1,3), of "[9]"] show ?thesis by auto
qed

end
