(* ===== verification/Transport_Protocol.thy ===== *)
theory Transport_Protocol
  imports Lib3h_Types
begin

text \<open>
  The protocol every transport speaks (\<open>lib3h/src/transport/protocol.rs\<close>) and the adapter
  \<open>TransportEndpointAsActor\<close>, which wraps the parent end of a transport as an actor again by
  forwarding requests down and events up.
\<close>

section \<open>Messages\<close>

record BindResultData =
  bound_url :: Lib3hUri

datatype RequestToChild = Bind Lib3hUri | SendMessage Lib3hUri Opaque

definition create_send_message :: "Lib3hUri \<Rightarrow> Opaque \<Rightarrow> RequestToChild" where
  "create_send_message uri payload = SendMessage uri payload"

datatype RequestToChildResponse = BindResponse BindResultData | SendMessageSuccess

datatype RequestToParent =
    ErrorOccured Lib3hUri TransportError
  | IncomingConnection Lib3hUri
  | ReceivedData Lib3hUri Opaque

text \<open>
  \<open>RequestToParentResponse\<close> is an enum without variants: no such response exists. HOL types are
  inhabited, so the model uses the unit type and no definition builds a value of it.
\<close>

type_synonym RequestToParentResponse = unit

type_synonym ToChildMessage = "RequestToChild GhostMessage"

type_synonym TransportActorParentEndpoint =
  "(RequestToChild, RequestToChildResponse, RequestToParent, RequestToParentResponse, TransportError) GhostEndpoint"

type_synonym 'cb TransportActorSelfEndpoint =
  "('cb, RequestToParent, RequestToParentResponse, RequestToChild, RequestToChildResponse, TransportError)
     GhostContextEndpoint"

type_synonym 'cb TransportActorParentContextEndpoint =
  "('cb, RequestToChild, RequestToChildResponse, RequestToParent, RequestToParentResponse, TransportError)
     GhostContextEndpoint"

section \<open>TransportEndpointAsActor\<close>

text \<open>
  Two endpoints: \<open>endpoint_self\<close> towards the parent (no request is ever made on it, so its callback
  type is empty of use), \<open>endpoint_inner\<close> towards the wrapped transport, whose callbacks hold the
  parent's request.
\<close>

datatype AdapterCallback = RespondToParent ToChildMessage

record TransportEndpointAsActor =
  tea_endpoint_parent :: "TransportActorParentEndpoint option"
  tea_endpoint_self :: "unit TransportActorSelfEndpoint Detach"
  tea_endpoint_inner :: "AdapterCallback TransportActorParentContextEndpoint Detach"

definition TransportEndpointAsActor_new :: "TransportActorParentEndpoint \<Rightarrow> TransportEndpointAsActor" where
  "TransportEndpointAsActor_new inner =
     (case create_ghost_channel of (endpoint_parent, endpoint_self) \<Rightarrow>
        \<lparr>tea_endpoint_parent = Some endpoint_parent,
         tea_endpoint_self = Detach_new (GhostContextEndpointBuilder_build
           (GhostContextEndpointBuilder_request_id_prefix ''enc_to_parent_''
              (as_context_endpoint_builder endpoint_self))),
         tea_endpoint_inner = Detach_new (GhostContextEndpointBuilder_build
           (as_context_endpoint_builder inner))\<rparr>)"

definition tea_take_parent_endpoint ::
  "TransportEndpointAsActor \<Rightarrow> TransportActorParentEndpoint option \<times> TransportEndpointAsActor" where
  "tea_take_parent_endpoint a = (tea_endpoint_parent a, a\<lparr>tea_endpoint_parent := None\<rparr>)"

text \<open>What one call of \<open>process\<close> takes from outside: ids, clock, backtrace, formatting.\<close>

record tea_env =
  te_req :: "nat \<Rightarrow> req_env"
  te_now :: time
  te_bt :: Backtwrap
  te_rid_msg :: "RequestId \<Rightarrow> RequestId list \<Rightarrow> string"
  te_dbg_bt :: "Backtwrap \<Rightarrow> string"

definition tea_respond ::
  "Backtwrap \<Rightarrow> ToChildMessage \<Rightarrow> TransportError + RequestToChildResponse \<Rightarrow> TransportEndpointAsActor \<Rightarrow>
    (TransportEndpointAsActor, GhostError, unit) outcome" where
  "tea_respond bt msg payload =
     detach_deref_mut tea_endpoint_self (\<lambda>ep a. a\<lparr>tea_endpoint_self := ep\<rparr>)
       (\<lambda>ep. lift_state (\<lambda>s. ep\<lparr>gce_sender := s\<rparr>) (GhostMessage_respond bt msg payload (gce_sender ep)))"

definition tea_callback ::
  "tea_env \<Rightarrow> (AdapterCallback, TransportEndpointAsActor \<times>
      (RequestToChild, RequestToParentResponse, TransportError) GhostEndpointMessage Sender,
      RequestToChildResponse, TransportError) call" where
  "tea_callback env cb response st =
     (case (cb, st) of (RespondToParent msg, (me, s)) \<Rightarrow>
        lift_state (\<lambda>me'. (me', s))
          (tea_respond (te_bt env) msg
             (case response of
                CbTimeout bt \<Rightarrow> Inl (TransportError_new (''timeout: '' @ te_dbg_bt env bt))
              | CbResponse r \<Rightarrow> r) me))"

text \<open>No callback exists on \<open>endpoint_self\<close>, because the adapter makes no request on it.\<close>

definition tea_no_callback ::
  "(unit, TransportEndpointAsActor \<times> (RequestToParent, RequestToChildResponse, TransportError)
      GhostEndpointMessage Sender, RequestToParentResponse, TransportError) call" where
  "tea_no_callback cb response st = Ok () st"

fun tea_forward_down ::
  "tea_env \<Rightarrow> nat \<Rightarrow> ToChildMessage list \<Rightarrow> TransportEndpointAsActor \<Rightarrow>
    (TransportEndpointAsActor, GhostError, unit) outcome" where
  "tea_forward_down env n [] a = Ok () a"
| "tea_forward_down env n (msg0 # msgs) a =
     (case take_message msg0 of
        (None, _) \<Rightarrow> Panic ''exists''
      | (Some data, msg) \<Rightarrow>
          bind_ok
            (detach_deref_mut tea_endpoint_inner (\<lambda>ep a. a\<lparr>tea_endpoint_inner := ep\<rparr>)
               (request (te_req env n) data (RespondToParent msg)) a)
            (\<lambda>_. tea_forward_down env (Suc n) msgs))"

fun tea_forward_up ::
  "tea_env \<Rightarrow> RequestToParent GhostMessage list \<Rightarrow> TransportEndpointAsActor \<Rightarrow>
    (TransportEndpointAsActor, GhostError, unit) outcome" where
  "tea_forward_up env [] a = Ok () a"
| "tea_forward_up env (msg0 # msgs) a =
     (case take_message msg0 of
        (None, _) \<Rightarrow> Panic ''exists''
      | (Some data, _) \<Rightarrow>
          bind_ok
            (detach_deref_mut tea_endpoint_self (\<lambda>ep a. a\<lparr>tea_endpoint_self := ep\<rparr>)
               (publish (te_bt env) data) a)
            (\<lambda>_. tea_forward_up env msgs))"

definition tea_process_concrete ::
  "tea_env \<Rightarrow> TransportEndpointAsActor \<Rightarrow> (TransportEndpointAsActor, GhostError, WorkWasDone) outcome" where
  "tea_process_concrete env a =
     bind_ok (detach_run tea_endpoint_self (\<lambda>ep a. a\<lparr>tea_endpoint_self := ep\<rparr>)
                (endpoint_process (te_rid_msg env) tea_no_callback (te_now env)) a)
     (\<lambda>_ a. bind_ok (detach_deref_mut tea_endpoint_self (\<lambda>ep a. a\<lparr>tea_endpoint_self := ep\<rparr>)
                (\<lambda>ep. case drain_messages ep of (ms, ep') \<Rightarrow> Ok ms ep') a)
     (\<lambda>msgs a. bind_ok (tea_forward_down env 0 msgs a)
     (\<lambda>_ a. bind_ok (detach_run tea_endpoint_inner (\<lambda>ep a. a\<lparr>tea_endpoint_inner := ep\<rparr>)
                (endpoint_process (te_rid_msg env) (tea_callback env) (te_now env)) a)
     (\<lambda>_ a. bind_ok (detach_deref_mut tea_endpoint_inner (\<lambda>ep a. a\<lparr>tea_endpoint_inner := ep\<rparr>)
                (\<lambda>ep. case drain_messages ep of (ms, ep') \<Rightarrow> Ok ms ep') a)
     (\<lambda>msgs a. bind_ok (tea_forward_up env msgs a)
     (\<lambda>_. Ok False))))))"

section \<open>Lemmas\<close>

lemma tea_forward_up_eq:
  assumes "tea_endpoint_self a = Detach (Some ep)" and "snd_error (gce_sender ep) = None"
    and "list_all (\<lambda>m. gm_message m \<noteq> None) msgs"
  shows "tea_forward_up env msgs a = Ok () (a\<lparr>tea_endpoint_self :=
    Detach (Some (append_sent (map (\<lambda>m. Request (te_bt env) None (the (gm_message m))) msgs) ep))\<rparr>)"
  using assms
proof (induction msgs arbitrary: a ep)
  case (Cons m msgs)
  then obtain data where m: "gm_message m = Some data" by auto
  let ?ep = "append_sent [Request (te_bt env) None data] ep"
  have "tea_forward_up env msgs (a\<lparr>tea_endpoint_self := Detach (Some ?ep)\<rparr>) = Ok ()
      (a\<lparr>tea_endpoint_self := Detach (Some (append_sent
          (map (\<lambda>m. Request (te_bt env) None (the (gm_message m))) msgs) ?ep))\<rparr>)"
    using Cons.IH[of "a\<lparr>tea_endpoint_self := Detach (Some ?ep)\<rparr>" ?ep] Cons.prems by simp
  with Cons.prems show ?case
    by (simp add: m take_message_def detach_deref_mut_def publish_open)
qed simp

section \<open>Properties\<close>

text \<open>
  The adapter relays the events of the wrapped transport: one \<open>process\<close> publishes every event that
  transport has raised to the parent, once and in order.
\<close>

theorem adapter_relays_events:
  assumes self: "tea_endpoint_self a = Detach (Some s)" "idle_endpoint (te_now env) s" "snd_error (gce_sender s) = None"
    and inner: "tea_endpoint_inner a = Detach (Some i)" "gt_expired (te_now env) (gce_tracker i) = []"
      "gce_outbox i = []" "\<not> rcv_disconnected (gce_receiver i)"
      "rcv_incoming (gce_receiver i) = map (Request bt None) es"
  shows "\<exists>a' s' i'. tea_process_concrete env a = Ok False a'
    \<and> tea_endpoint_self a' = Detach (Some s') \<and> tea_endpoint_inner a' = Detach (Some i')
    \<and> snd_sent (gce_sender s') = snd_sent (gce_sender s) @ map (Request (te_bt env) None) es
    \<and> gce_sender i' = gce_sender i \<and> rcv_incoming (gce_receiver i') = [] \<and> gce_outbox i' = []"
proof -
  define i1 where "i1 = i\<lparr>gce_receiver := (gce_receiver i)\<lparr>rcv_incoming := []\<rparr>,
      gce_outbox := map (GhostMessage_new bt None) es\<rparr>"
  define i' where "i' = i1\<lparr>gce_outbox := []\<rparr>"
  define s' where "s' = append_sent (map (Request (te_bt env) None) es) s"
  have out: "gce_outbox s = []" using self(2) by (simp add: idle_endpoint_def)
  then have drain: "drain_messages s = ([], s)" by (simp add: drain_messages_def)
  have ms: "map (Request bt None) es = map (\<lambda>(rid, p). Request bt rid p) (map (Pair None) es)"
    "map (GhostMessage_new bt None) es = map (\<lambda>(rid, p). GhostMessage_new bt rid p) (map (Pair None) es)"
    by simp_all
  have run_i: "endpoint_process (te_rid_msg env) (tea_callback env) (te_now env) (i, ud) =
      Ok (gt_pending (gce_tracker i) \<noteq> [] \<or> es \<noteq> []) (i1, ud)" for ud
    using endpoint_process_requests[OF inner(2,4), of bt "map (Pair None) es" "te_rid_msg env" "tea_callback env" ud]
      inner(3,5)
    by (simp add: i1_def comp_def)
  have d: "drain_messages i1 = (map (GhostMessage_new bt None) es, i')"
    by (simp add: drain_messages_def i1_def i'_def)
  have all: "list_all (\<lambda>m. gm_message m \<noteq> None) (map (GhostMessage_new bt None) es)"
    by (simp add: list_all_iff GhostMessage_new_def)
  have up: "tea_forward_up env (map (GhostMessage_new bt None) es) x = Ok () (x\<lparr>tea_endpoint_self := Detach (Some s')\<rparr>)"
    if "tea_endpoint_self x = Detach (Some s)" for x
    using tea_forward_up_eq[OF that self(3) all] by (simp add: s'_def comp_def GhostMessage_new_def)
  have "tea_process_concrete env a =
      Ok False (a\<lparr>tea_endpoint_inner := Detach (Some i'), tea_endpoint_self := Detach (Some s')\<rparr>)"
    using self(1) inner(1)
    by (simp add: tea_process_concrete_def detach_run_def detach_put_def detach_deref_mut_def
        endpoint_process_idle[OF self(2)] run_i up d drain)
  then show ?thesis by (simp add: s'_def i'_def i1_def append_sent_def)
qed

text \<open>
  C20: The adapter relays requests and their answers. A parent's request is passed to the wrapped
  transport in the same \<open>process\<close>, under an id of its own; when the transport answers that id
  in time, the parent's request gets exactly that answer, and nothing stays pending.
\<close>

theorem adapter_relays_request:
  assumes self: "tea_endpoint_self a = Detach (Some s)" "gt_expired (te_now env) (gce_tracker s) = []" "gce_outbox s = []"
      "\<not> rcv_disconnected (gce_receiver s)" "rcv_incoming (gce_receiver s) = [Request b0 (Some rid) data]"
      "snd_error (gce_sender s) = None" "gt_expired (te_now env2) (gce_tracker s) = []"
    and inner: "tea_endpoint_inner a = Detach (Some i)" "gt_pending (gce_tracker i) = []" "idle_endpoint (te_now env) i"
      "snd_error (gce_sender i) = None"
    and time: "expires = re_now (te_req env 0) + gt_default_timeout (gce_tracker i)" "expires \<le> TIME_MAX"
      "te_now env \<le> expires" "te_now env2 \<le> expires"
    and rid': "rid' = gt_request_id_prefix (gce_tracker i) @ re_nanoid (te_req env 0)"
  shows "\<exists>a1 i1 a2 s2 i2. tea_process_concrete env a = Ok False a1 \<and> tea_endpoint_inner a1 = Detach (Some i1)
    \<and> sent_since i i1 = [Request (re_bt (te_req env 0)) (Some rid') data]
    \<and> tea_process_concrete env2 (a1\<lparr>tea_endpoint_inner := Detach (Some (deliver [Response b1 rid' r] i1))\<rparr>) = Ok False a2
    \<and> tea_endpoint_self a2 = Detach (Some s2) \<and> tea_endpoint_inner a2 = Detach (Some i2)
    \<and> snd_sent (gce_sender s2) = snd_sent (gce_sender s) @ [Response (te_bt env2) rid r]
    \<and> gt_pending (gce_tracker i2) = []"
proof -
  define msg where "msg = (GhostMessage_new b0 (Some rid) data)\<lparr>gm_message := None\<rparr>"
  define entry where "entry = \<lparr>gte_backtrace = re_bt (te_req env 0), gte_expires = expires, gte_cb = RespondToParent msg\<rparr>"
  define i1 where "i1 = append_sent [Request (re_bt (te_req env 0)) (Some rid') data]
      (i\<lparr>gce_tracker := (gce_tracker i)\<lparr>gt_pending := [(rid', entry)]\<rparr>\<rparr>)"
  define s1 where "s1 = s\<lparr>gce_receiver := (gce_receiver s)\<lparr>rcv_incoming := []\<rparr>\<rparr>"
  define a1 where "a1 = a\<lparr>tea_endpoint_self := Detach (Some s1), tea_endpoint_inner := Detach (Some i1)\<rparr>"
  note ii = inner(3)[unfolded idle_endpoint_def]
  have p1: "endpoint_process (te_rid_msg env) tea_no_callback (te_now env) (s, ud) =
      Ok (gt_pending (gce_tracker s) \<noteq> [] \<or> True)
        (s1\<lparr>gce_outbox := [GhostMessage_new b0 (Some rid) data]\<rparr>, ud)" for ud
    using endpoint_process_requests[OF self(2,4), of b0 "[(Some rid, data)]" "te_rid_msg env" tea_no_callback ud] self(3,5)
    by (simp add: s1_def)
  have req: "request (te_req env 0) data (RespondToParent msg) i = Ok () i1"
    using inner(2,4) time(1,2)
    by (simp add: request_def priv_request_def GhostTrackRequestOptions_default_def bookmark_def bookmark_options_def
        GhostTrackerBookmarkOptions_default_def RequestId_with_prefix_def checked_add_time_def Let_def send_on_def
        chan_send_def i1_def append_sent_def entry_def rid' gt_insert_def)
  have "idle_endpoint (te_now env) i1"
    using ii time(3) by (simp add: idle_endpoint_def i1_def gt_expired_def entry_def)
  note p2 = endpoint_process_idle[OF this]
  have take: "take_message (GhostMessage_new b0 (Some rid) data) = (Some data, msg)"
    by (simp add: take_message_def msg_def GhostMessage_new_def)
  have "s1\<lparr>gce_outbox := []\<rparr> = s1" "i1\<lparr>gce_outbox := []\<rparr> = i1"
    using self(3) ii by (simp_all add: s1_def i1_def append_sent_def)
  note d = drain_messages_def this
  have run1: "tea_process_concrete env a = Ok False a1"
    using self(1) inner(1) ii
    by (simp add: tea_process_concrete_def detach_run_def detach_put_def detach_deref_mut_def p1 d take req p2 a1_def)
      (simp add: i1_def)
  define i2 where "i2 = i1\<lparr>gce_tracker := (gce_tracker i)\<lparr>gt_pending := []\<rparr>\<rparr>"
  define s2 where "s2 = append_sent [Response (te_bt env2) rid r] s1"
  have "idle_endpoint (te_now env2) s1"
    using self(3,4,7) by (simp add: idle_endpoint_def s1_def)
  note q1 = endpoint_process_idle[OF this]
  have cb: "tea_callback env2 (RespondToParent msg) (CbResponse r) (x, t) =
      Ok () (x\<lparr>tea_endpoint_self := Detach (Some s2)\<rparr>, t)" if "tea_endpoint_self x = Detach (Some s1)" for x t
    using that self(6)
    by (simp add: tea_callback_def tea_respond_def detach_deref_mut_def GhostMessage_respond_def msg_def
        GhostMessage_new_def chan_send_def s2_def append_sent_def s1_def)
  have q2: "endpoint_process (te_rid_msg env2) (tea_callback env2) (te_now env2) (deliver [Response b1 rid' r] i1, x) =
      Ok True (i2, x\<lparr>tea_endpoint_self := Detach (Some s2)\<rparr>)" if "tea_endpoint_self x = Detach (Some s1)" for x
    using ii time(4) cb[OF that]
    by (simp add: endpoint_process_def deliver_def with_tracker_def GhostTracker_process_def gt_expired_def
        process_message_def GhostTracker_handle_def i1_def append_sent_def entry_def gt_remove_def i2_def)
  have "s1\<lparr>gce_outbox := []\<rparr> = s1" "i2\<lparr>gce_outbox := []\<rparr> = i2"
    using self(3) ii by (simp_all add: s1_def i1_def i2_def append_sent_def)
  note d2 = drain_messages_def this
  have "gce_outbox s1 = []" "gce_outbox i2 = []" using self(3) ii by (simp_all add: s1_def i1_def i2_def)
  then have "tea_process_concrete env2 (a1\<lparr>tea_endpoint_inner := Detach (Some (deliver [Response b1 rid' r] i1))\<rparr>) =
      Ok False (a1\<lparr>tea_endpoint_inner := Detach (Some i2), tea_endpoint_self := Detach (Some s2)\<rparr>)"
    by (simp add: tea_process_concrete_def detach_run_def detach_put_def detach_deref_mut_def q1 q2 d2 a1_def)
  with run1 show ?thesis
    by (simp add: a1_def) (simp add: i1_def i2_def s2_def s1_def sent_since_def append_sent_def)
qed

section \<open>Witnesses\<close>

definition demo_adapter :: TransportEndpointAsActor where
  "demo_adapter = TransportEndpointAsActor_new (fst create_ghost_channel)"

definition demo_adapter_self :: "unit TransportActorSelfEndpoint" where
  "demo_adapter_self = \<lparr>gce_sender = fresh_sender, gce_receiver = fresh_receiver,
     gce_tracker = \<lparr>gt_request_id_prefix = ''enc_to_parent_'', gt_default_timeout = 20000, gt_pending = []\<rparr>, gce_outbox = []\<rparr>"

definition demo_adapter_inner :: "AdapterCallback TransportActorParentContextEndpoint" where
  "demo_adapter_inner = \<lparr>gce_sender = fresh_sender, gce_receiver = fresh_receiver,
     gce_tracker = \<lparr>gt_request_id_prefix = [], gt_default_timeout = 20000, gt_pending = []\<rparr>, gce_outbox = []\<rparr>"

definition demo_tea_env :: tea_env where
  "demo_tea_env = \<lparr>te_req = (\<lambda>_. demo_env), te_now = 0, te_bt = Backtwrap None, te_rid_msg = (\<lambda>_ _. []), te_dbg_bt = (\<lambda>_. [])\<rparr>"

lemma demo_adapter_endpoints:
  "tea_endpoint_self demo_adapter = Detach (Some demo_adapter_self)"
  "tea_endpoint_inner demo_adapter = Detach (Some demo_adapter_inner)"
  by (simp_all add: demo_adapter_def TransportEndpointAsActor_new_def create_ghost_channel_def GhostEndpoint_new_def
      Detach_new_def GhostContextEndpointBuilder_build_def GhostContextEndpointBuilder_request_id_prefix_def
      as_context_endpoint_builder_def GhostTrackerBuilder_build_def GhostTrackerBuilder_default_def
      GhostTrackerBuilder_request_id_prefix_def DEFAULT_TIMEOUT_def demo_adapter_self_def demo_adapter_inner_def)

lemmas demo_adapter_simps = demo_adapter_self_def demo_adapter_inner_def deliver_def fresh_sender_def fresh_receiver_def
  gt_expired_def idle_endpoint_def demo_tea_env_def demo_env_def TIME_MAX_def

theorem adapter_relays_events_witness:
  "\<exists>a'. tea_process_concrete demo_tea_env (demo_adapter\<lparr>tea_endpoint_inner := Detach (Some
       (deliver [Request (Backtwrap None) None (ReceivedData ''mem://b'' [1]), Request (Backtwrap None) None (IncomingConnection ''mem://c'')]
          demo_adapter_inner))\<rparr>) = Ok False a'"
  using adapter_relays_events[of "demo_adapter\<lparr>tea_endpoint_inner := Detach (Some (deliver
       [Request (Backtwrap None) None (ReceivedData ''mem://b'' [1]), Request (Backtwrap None) None (IncomingConnection ''mem://c'')]
          demo_adapter_inner))\<rparr>" demo_adapter_self demo_tea_env
       "deliver [Request (Backtwrap None) None (ReceivedData ''mem://b'' [1]), Request (Backtwrap None) None (IncomingConnection ''mem://c'')]
          demo_adapter_inner" "Backtwrap None" "[ReceivedData ''mem://b'' [1], IncomingConnection ''mem://c'']"]
  by (auto simp: demo_adapter_endpoints demo_adapter_simps)

theorem adapter_relays_request_witness:
  "\<exists>a1 i1 a2 s2. tea_process_concrete demo_tea_env (demo_adapter\<lparr>tea_endpoint_self := Detach (Some
       (deliver [Request (Backtwrap None) (Some ''q'') (SendMessage ''mem://b'' [1])] demo_adapter_self))\<rparr>) = Ok False a1
    \<and> tea_endpoint_inner a1 = Detach (Some i1)
    \<and> tea_process_concrete demo_tea_env (a1\<lparr>tea_endpoint_inner := Detach (Some
         (deliver [Response (Backtwrap None) ''1'' (Inr SendMessageSuccess)] i1))\<rparr>) = Ok False a2
    \<and> tea_endpoint_self a2 = Detach (Some s2)
    \<and> snd_sent (gce_sender s2) = [Response (Backtwrap None) ''q'' (Inr SendMessageSuccess)]"
proof -
  let ?s = "deliver [Request (Backtwrap None) (Some ''q'') (SendMessage ''mem://b'' [1])] demo_adapter_self"
  let ?a = "demo_adapter\<lparr>tea_endpoint_self := Detach (Some ?s)\<rparr>"
  have "tea_endpoint_self ?a = Detach (Some ?s)" "gt_expired (te_now demo_tea_env) (gce_tracker ?s) = []" "gce_outbox ?s = []"
      "\<not> rcv_disconnected (gce_receiver ?s)" "snd_error (gce_sender ?s) = None"
      "rcv_incoming (gce_receiver ?s) = [Request (Backtwrap None) (Some ''q'') (SendMessage ''mem://b'' [1])]"
      "tea_endpoint_inner ?a = Detach (Some demo_adapter_inner)" "gt_pending (gce_tracker demo_adapter_inner) = []"
      "idle_endpoint (te_now demo_tea_env) demo_adapter_inner" "snd_error (gce_sender demo_adapter_inner) = None"
      "20100 = re_now (te_req demo_tea_env 0) + gt_default_timeout (gce_tracker demo_adapter_inner)"
      "20100 \<le> TIME_MAX" "te_now demo_tea_env \<le> 20100"
      "''1'' = gt_request_id_prefix (gce_tracker demo_adapter_inner) @ re_nanoid (te_req demo_tea_env 0)"
    by (simp_all add: demo_adapter_endpoints) (simp_all add: demo_adapter_simps)
  note h = this
  have e: "te_bt demo_tea_env = Backtwrap None" "snd_sent (gce_sender ?s) = []" by (simp_all add: demo_adapter_simps)
  show ?thesis
    using adapter_relays_request[OF h(1-4,6,5,2,7-12,13,13,14), of "Backtwrap None" "Inr SendMessageSuccess"]
    unfolding e by auto
qed

end
