(* ===== verification/Memory_Transport.thy ===== *)
theory Memory_Transport
  imports Memory_Server Transport_Protocol
begin

text \<open>
  The transport actor over the in-memory network
  (\<open>lib3h/src/transport/memory_mock/ghost_transport_memory.rs\<close>). The actor's own state is a record;
  the network it shares with the other transports (\<open>Arc<Mutex<MemoryNet>>\<close>) is passed next to it,
  so every operation works on the pair. The actor makes no requests of its parent, only
  publishes, so no callback is ever pending on its endpoint. \<open>tm_env\<close> holds what one call reads from
  outside: the clocks, the backtrace, the url package, whether overflow is checked.
\<close>

section \<open>Model\<close>

record GhostTransportMemory =
  transport_id :: Address
  tm_endpoint_parent :: "TransportActorParentEndpoint option"
  tm_endpoint_self :: "unit TransportActorSelfEndpoint Detach"
  maybe_my_address :: "Lib3hUri option"
  connections :: "Lib3hUri list"
  last_discover :: "time option"
  discover_interval_ms :: nat

type_synonym tm_state = "GhostTransportMemory \<times> MemoryNet"

record tm_env =
  tm_url :: url_lib
  tm_checks :: bool
  tm_bt :: Backtwrap
  tm_instant :: time
  tm_instant_end :: time
  tm_now :: time
  tm_rid_msg :: "RequestId \<Rightarrow> RequestId list \<Rightarrow> string"

definition DEFAULT_DISCOVERY_INTERVAL_MS :: nat where
  "DEFAULT_DISCOVERY_INTERVAL_MS = 30000"

text \<open>\<open>new\<close>, on the network \<open>get_network\<close> returned; \<open>checked_sub\<close> fails before the clock's origin.\<close>

definition GhostTransportMemory_new :: "time \<Rightarrow> Address \<Rightarrow> GhostTransportMemory" where
  "GhostTransportMemory_new instant tid =
     (case create_ghost_channel of (ep_parent, ep_self) \<Rightarrow>
        \<lparr>transport_id = tid,
         tm_endpoint_parent = Some ep_parent,
         tm_endpoint_self = Detach_new (GhostContextEndpointBuilder_build
           (GhostContextEndpointBuilder_request_id_prefix ''tmem_to_parent''
              (as_context_endpoint_builder ep_self))),
         maybe_my_address = None,
         connections = [],
         last_discover = (if DEFAULT_DISCOVERY_INTERVAL_MS + 1 \<le> instant
                          then Some (instant - (DEFAULT_DISCOVERY_INTERVAL_MS + 1)) else None),
         discover_interval_ms = DEFAULT_DISCOVERY_INTERVAL_MS\<rparr>)"

definition tm_take_parent_endpoint ::
  "GhostTransportMemory \<Rightarrow> TransportActorParentEndpoint option \<times> GhostTransportMemory" where
  "tm_take_parent_endpoint tm = (tm_endpoint_parent tm, tm\<lparr>tm_endpoint_parent := None\<rparr>)"

subsection \<open>Discovery\<close>

definition tm_advertise :: "tm_state \<Rightarrow> (tm_state, string, unit) outcome" where
  "tm_advertise st =
     (case st of (tm, net) \<Rightarrow>
        (case maybe_my_address tm of
           None \<Rightarrow> Err ''must bind before advertising'' st
         | Some uri \<Rightarrow> Ok () (tm, MemoryNet_advertise uri (transport_id tm) net)))"

definition tm_discover :: "tm_state \<Rightarrow> Lib3hUri list" where
  "tm_discover st = map fst (MemoryNet_discover (snd st))"

text \<open>\<open>Display\<close> of the discovery error.\<close>

definition DiscoveryError_display :: "string \<Rightarrow> string" where
  "DiscoveryError_display s = ''Unknown error encountered: '' @ quoted s @ ''.''"

definition tm_on_endpoint ::
  "(unit TransportActorSelfEndpoint \<Rightarrow> (unit TransportActorSelfEndpoint, GhostError, 'a) outcome) \<Rightarrow> tm_state \<Rightarrow>
    (tm_state, GhostError, 'a) outcome" where
  "tm_on_endpoint code = detach_deref_mut (\<lambda>(tm, net). tm_endpoint_self tm)
     (\<lambda>ep (tm, net). (tm\<lparr>tm_endpoint_self := ep\<rparr>, net)) code"

definition tm_publish :: "tm_env \<Rightarrow> RequestToParent \<Rightarrow> tm_state \<Rightarrow> (tm_state, GhostError, unit) outcome" where
  "tm_publish env payload = tm_on_endpoint (publish (tm_bt env) payload)"

definition tm_respond ::
  "tm_env \<Rightarrow> ToChildMessage \<Rightarrow> TransportError + RequestToChildResponse \<Rightarrow> tm_state \<Rightarrow>
    (tm_state, GhostError, unit) outcome" where
  "tm_respond env msg payload = tm_on_endpoint
     (\<lambda>ep. lift_state (\<lambda>s. ep\<lparr>gce_sender := s\<rparr>) (GhostMessage_respond (tm_bt env) msg payload (gce_sender ep)))"

text \<open>\<open>HashSet::insert\<close> on the connections.\<close>

definition add_connection :: "Lib3hUri \<Rightarrow> GhostTransportMemory \<Rightarrow> GhostTransportMemory" where
  "add_connection uri tm = tm\<lparr>connections := List.insert uri (connections tm)\<rparr>"

text \<open>
  The loop of \<open>try_discover\<close>; the answer says whether it ran to the end (\<open>False\<close>: the \<open>return\<close> for
  a uri without server, which skips the update of \<open>last_discover\<close> behind the loop).
\<close>

fun discover_loop :: "tm_env \<Rightarrow> Lib3hUri \<Rightarrow> Lib3hUri list \<Rightarrow> tm_state \<Rightarrow> (tm_state, GhostError, bool) outcome" where
  "discover_loop env my_addr [] st = Ok True st"
| "discover_loop env my_addr (found_uri # machines) (tm, net) =
     (if found_uri = my_addr \<or> found_uri \<in> set (connections tm)
      then discover_loop env my_addr machines (tm, net)
      else case get_server found_uri net of
          None \<Rightarrow> Ok False (tm, net)
        | Some remote_server \<Rightarrow>
            (case final_state (request_connect my_addr remote_server) of
               None \<Rightarrow> Panic ''unreachable''
             | Some remote' \<Rightarrow>
                 bind_ok
                   (expect ''should be able to publish''
                      (tm_publish env (IncomingConnection found_uri)
                         (add_connection found_uri tm, put_server found_uri remote' net)))
                   (\<lambda>_ (tm', net'). discover_loop env my_addr machines (tm'\<lparr>last_discover := None\<rparr>, net'))))"

definition try_discover :: "tm_env \<Rightarrow> tm_state \<Rightarrow> (tm_state, GhostError, unit) outcome" where
  "try_discover env st =
     (case st of (tm, net) \<Rightarrow>
        (case (last_discover tm, maybe_my_address tm) of
           (Some t, Some my_addr) \<Rightarrow>
             if tm_instant env - t > discover_interval_ms tm
             then bind_ok (discover_loop env my_addr (tm_discover st) st)
                    (\<lambda>finished (tm', net').
                       if finished then Ok () (tm'\<lparr>last_discover := Some (tm_instant_end env)\<rparr>, net')
                       else Ok () (tm', net'))
             else Ok () st
         | _ \<Rightarrow> Ok () st))"

subsection \<open>Events of the own server\<close>

text \<open>\<open>From<TransportError> for GhostError\<close>: the \<open>Display\<close> inside may panic.\<close>

definition ghost_error_of :: "TransportError \<Rightarrow> (tm_state, GhostError, 'a) outcome \<Rightarrow> tm_state \<Rightarrow>
    (tm_state, GhostError, 'a) outcome" where
  "ghost_error_of e dflt st =
     (case TransportError_display e of
        Some s \<Rightarrow> Err (Other (''TransportError: '' @ s)) st
      | None \<Rightarrow> dflt)"

fun split_events ::
  "tm_env \<Rightarrow> MemoryEvent list \<Rightarrow> Lib3hUri list \<Rightarrow> MemoryEvent list \<Rightarrow> tm_state \<Rightarrow>
    (tm_state, GhostError, Lib3hUri list \<times> MemoryEvent list) outcome" where
  "split_events env [] to_connect rest st = Ok (to_connect, rest) st"
| "split_events env (EvIncomingConnectionEstablished in_cid # evs) to_connect rest st =
     bind_ok (tm_publish env (IncomingConnection in_cid) st)
       (\<lambda>_. split_events env evs (to_connect @ [in_cid]) rest)"
| "split_events env (event # evs) to_connect rest st =
     split_events env evs to_connect (rest @ [event]) st"

fun connect_back :: "Lib3hUri \<Rightarrow> Lib3hUri list \<Rightarrow> tm_state \<Rightarrow> (tm_state, GhostError, unit) outcome" where
  "connect_back my_addr [] st = Ok () st"
| "connect_back my_addr (remote_addr # rest) (tm, net) =
     (if remote_addr \<in> set (connections tm) then connect_back my_addr rest (tm, net)
      else case get_server remote_addr net of
          None \<Rightarrow> Err (Other (''No Memory server at this url address: '' @ remote_addr)) (tm, net)
        | Some server \<Rightarrow>
            (case request_connect my_addr server of
               Ok _ server' \<Rightarrow>
                 connect_back my_addr rest (add_connection remote_addr tm, put_server remote_addr server' net)
             | Err e server' \<Rightarrow>
                 ghost_error_of e (Panic ''unreachable'') (tm, put_server remote_addr server' net)
             | Panic m \<Rightarrow> Panic m))"

fun other_events :: "tm_env \<Rightarrow> MemoryEvent list \<Rightarrow> tm_state \<Rightarrow> (tm_state, GhostError, unit) outcome" where
  "other_events env [] st = Ok () st"
| "other_events env (EvReceivedData from_addr payload # evs) st =
     bind_ok (tm_publish env (ReceivedData from_addr payload) st) (\<lambda>_. other_events env evs)"
| "other_events env (EvUnbind url # evs) st =
     bind_ok (tm_publish env (ErrorOccured url Unbind) st) (\<lambda>_. other_events env evs)"
| "other_events env (event # evs) st = Panic ''WHAT''"

definition server_pass :: "tm_env \<Rightarrow> tm_state \<Rightarrow> (tm_state, GhostError, unit) outcome" where
  "server_pass env st =
     (case st of (tm, net) \<Rightarrow>
        (case maybe_my_address tm of
           None \<Rightarrow> Ok () st
         | Some my_addr \<Rightarrow>
             (case get_server my_addr net of
                None \<Rightarrow> Err (Other (''No Memory server at this uri: '' @ my_addr)) st
              | Some server \<Rightarrow>
                  (case MemoryServer_process server of
                     Err e server' \<Rightarrow>
                       ghost_error_of e (Panic ''unreachable'') (tm, put_server my_addr server' net)
                   | Panic m \<Rightarrow> Panic m
                   | Ok (success, event_list) server' \<Rightarrow>
                       let st1 = (tm, put_server my_addr server' net) in
                       if success
                       then bind_ok (split_events env event_list [] [] st1)
                              (\<lambda>(to_connect_list, non_connect_events) st2.
                                 bind_ok (connect_back my_addr to_connect_list st2)
                                   (\<lambda>_. other_events env non_connect_events))
                       else Ok () st1))))"

subsection \<open>Requests of the parent\<close>

definition tm_bind :: "tm_env \<Rightarrow> ToChildMessage \<Rightarrow> tm_state \<Rightarrow> (tm_state, GhostError, unit) outcome" where
  "tm_bind env msg st =
     (case st of (tm, net) \<Rightarrow>
        (case (MemoryNet_bind (tm_url env) (tm_checks env) net :: (MemoryNet, GhostError, Lib3hUri) outcome) of
           Panic m \<Rightarrow> Panic m
         | Err e net' \<Rightarrow> Err e (tm, net')
         | Ok url net' \<Rightarrow>
             bind_ok
               (map_err (\<lambda>e. Other (DiscoveryError_display e))
                  (tm_advertise (tm\<lparr>maybe_my_address := Some url\<rparr>, net')))
               (\<lambda>_. tm_respond env msg (Inr (BindResponse \<lparr>bound_url = url\<rparr>)))))"

text \<open>
  The exchange with the destination's server, when it is another node: the payload is posted and
  the request answered, after a connection was made if there was none.
\<close>

definition post_and_respond ::
  "tm_env \<Rightarrow> ToChildMessage \<Rightarrow> Lib3hUri \<Rightarrow> Lib3hUri \<Rightarrow> Opaque \<Rightarrow> MemoryServer \<Rightarrow> tm_state \<Rightarrow>
    (tm_state, GhostError, unit) outcome" where
  "post_and_respond env msg my_addr uri payload server st =
     (case post my_addr payload server of
        Ok _ server' \<Rightarrow>
          tm_respond env msg (Inr SendMessageSuccess) (fst st, put_server uri server' (snd st))
      | _ \<Rightarrow> Panic ''post unwrap'')"

definition send_remote ::
  "tm_env \<Rightarrow> ToChildMessage \<Rightarrow> Lib3hUri \<Rightarrow> Lib3hUri \<Rightarrow> Opaque \<Rightarrow> MemoryServer \<Rightarrow> tm_state \<Rightarrow>
    (tm_state, GhostError, unit) outcome" where
  "send_remote env msg my_addr uri payload server st =
     (case st of (tm, net) \<Rightarrow>
        if uri \<in> set (connections tm) then post_and_respond env msg my_addr uri payload server (tm, net)
        else case request_connect my_addr server of
            Err err server' \<Rightarrow> tm_respond env msg (Inl err) (tm, put_server uri server' net)
          | Panic m \<Rightarrow> Panic m
          | Ok _ server' \<Rightarrow>
              post_and_respond env msg my_addr uri payload server' (add_connection uri tm, net))"

definition tm_send_message ::
  "tm_env \<Rightarrow> ToChildMessage \<Rightarrow> Lib3hUri \<Rightarrow> Opaque \<Rightarrow> tm_state \<Rightarrow> (tm_state, GhostError, unit) outcome" where
  "tm_send_message env msg uri payload st =
     (case st of (tm, net) \<Rightarrow>
        (case maybe_my_address tm of
           None \<Rightarrow> tm_respond env msg (Inl (TransportError_new ''Transport must be bound before sending'')) st
         | Some my_addr \<Rightarrow>
             (case get_server uri net of
                None \<Rightarrow> tm_respond env msg
                          (Inl (TransportError_new (''No Memory server at this uri: '' @ uri))) st
              | Some server \<Rightarrow>
                  if uri = my_addr
                  then bind_ok (tm_publish env (ReceivedData uri payload) st)
                         (\<lambda>_. tm_respond env msg (Inr SendMessageSuccess))
                  else send_remote env msg my_addr uri payload server st)))"

definition tm_handle_msg :: "tm_env \<Rightarrow> ToChildMessage \<Rightarrow> tm_state \<Rightarrow> (tm_state, GhostError, unit) outcome" where
  "tm_handle_msg env msg0 st =
     (case take_message msg0 of
        (None, _) \<Rightarrow> Panic ''exists''
      | (Some m, msg) \<Rightarrow>
          (case m of
             Bind spec \<Rightarrow> tm_bind env msg st
           | SendMessage uri payload \<Rightarrow> tm_send_message env msg uri payload st))"

definition tm_no_callback ::
  "(unit, tm_state \<times> (RequestToParent, RequestToChildResponse, TransportError) GhostEndpointMessage Sender,
     RequestToParentResponse, TransportError) call" where
  "tm_no_callback cb response st = Ok () st"

definition tm_process_concrete :: "tm_env \<Rightarrow> tm_state \<Rightarrow> (tm_state, GhostError, WorkWasDone) outcome" where
  "tm_process_concrete env st =
     bind_ok (try_discover env st)
     (\<lambda>_ st. bind_ok (server_pass env st)
     (\<lambda>_ st. bind_ok (detach_run (\<lambda>(tm, net). tm_endpoint_self tm)
                 (\<lambda>ep (tm, net). (tm\<lparr>tm_endpoint_self := ep\<rparr>, net))
                 (endpoint_process (tm_rid_msg env) tm_no_callback (tm_now env)) st)
     (\<lambda>_ st. bind_ok (tm_on_endpoint (\<lambda>ep. case drain_messages ep of (ms, ep') \<Rightarrow> Ok ms ep') st)
     (\<lambda>msgs st. bind_ok (for_each (tm_handle_msg env) msgs st)
     (\<lambda>_. Ok True)))))"

section \<open>Lemmas\<close>

definition tm_outbox ::
  "GhostTransportMemory \<Rightarrow> (RequestToParent, RequestToChildResponse, TransportError) GhostEndpointMessage list" where
  "tm_outbox tm = (case tm_endpoint_self tm of Detach (Some ep) \<Rightarrow> snd_sent (gce_sender ep) | Detach None \<Rightarrow> [])"

definition tm_open :: "GhostTransportMemory \<Rightarrow> bool" where
  "tm_open tm = (case tm_endpoint_self tm of Detach (Some ep) \<Rightarrow> snd_error (gce_sender ep) = None | Detach None \<Rightarrow> False)"

text \<open>The endpoint after one more message was sent on it.\<close>

definition tm_sent :: "(RequestToParent, RequestToChildResponse, TransportError) GhostEndpointMessage \<Rightarrow>
    GhostTransportMemory \<Rightarrow> GhostTransportMemory" where
  "tm_sent m tm = (case tm_endpoint_self tm of
       Detach (Some ep) \<Rightarrow> tm\<lparr>tm_endpoint_self := Detach (Some (ep\<lparr>gce_sender :=
          (gce_sender ep)\<lparr>snd_sent := snd_sent (gce_sender ep) @ [m]\<rparr>\<rparr>))\<rparr>
     | Detach None \<Rightarrow> tm)"

lemma tm_sent_simps [simp]:
  "maybe_my_address (tm_sent m tm) = maybe_my_address tm" "connections (tm_sent m tm) = connections tm"
  "last_discover (tm_sent m tm) = last_discover tm" "tm_open (tm_sent m tm) = tm_open tm"
  "transport_id (tm_sent m tm) = transport_id tm"
  by (auto simp: tm_sent_def tm_open_def split: Detach.splits option.splits)

lemma tm_outbox_sent [simp]: "tm_open tm \<Longrightarrow> tm_outbox (tm_sent m tm) = tm_outbox tm @ [m]"
  by (auto simp: tm_sent_def tm_outbox_def tm_open_def split: Detach.splits option.splits)

lemma tm_open_updates [simp]:
  "tm_open (tm\<lparr>maybe_my_address := x\<rparr>) = tm_open tm" "tm_open (tm\<lparr>last_discover := y\<rparr>) = tm_open tm"
  "tm_open (add_connection u tm) = tm_open tm" "tm_outbox (add_connection u tm) = tm_outbox tm"
  "tm_outbox (tm\<lparr>maybe_my_address := x\<rparr>) = tm_outbox tm"
  by (simp_all add: tm_open_def tm_outbox_def add_connection_def)

lemma add_connection_simps [simp]:
  "maybe_my_address (add_connection u tm) = maybe_my_address tm"
  "set (connections (add_connection u tm)) = insert u (set (connections tm))"
  by (simp_all add: add_connection_def)

lemma tm_publish_open:
  "tm_open tm \<Longrightarrow> tm_publish env p (tm, net) = Ok () (tm_sent (Request (tm_bt env) None p) tm, net)"
  by (auto simp: tm_publish_def tm_on_endpoint_def detach_deref_mut_def publish_def send_on_def chan_send_def
      tm_open_def tm_sent_def split: Detach.splits option.splits)

lemma tm_respond_open:
  assumes "tm_open tm" and "gm_request_id msg = Some rid"
  shows "tm_respond env msg p (tm, net) = Ok () (tm_sent (Response (tm_bt env) rid p) tm, net)"
  using assms
  by (auto simp: tm_respond_def tm_on_endpoint_def detach_deref_mut_def GhostMessage_respond_def chan_send_def
      tm_open_def tm_sent_def split: Detach.splits option.splits)

lemma get_put_server: "get_server v (put_server u s net) = (if v = u then Some s else get_server v net)"
  by (simp add: get_server_def put_server_def hashmap_simps)

lemma request_connect_new:
  assumes "u \<noteq> this_uri s" and "\<not> is_connected_to s u"
  shows "request_connect u s = Ok () (s\<lparr>inbox_map := AList.update u [] (inbox_map s),
    connection_inbox := connection_inbox s @ [(u, True)]\<rparr>)"
  using assms by (simp add: request_connect_def is_connected_to_def)

lemma is_connected_to_iff: "is_connected_to s u \<longleftrightarrow> map_of (inbox_map s) u \<noteq> None"
  unfolding is_connected_to_def keys_map_of_None by simp

lemma post_connected:
  assumes "is_connected_to s u"
  shows "\<exists>s'. post u p s = Ok () s' \<and> this_uri s' = this_uri s
    \<and> (\<forall>v. is_connected_to s' v = is_connected_to s v)"
  using assms by (auto simp: post_def is_connected_to_iff hashmap_simps)

lemma request_connect_connects:
  assumes "request_connect u s = Ok () s'"
  shows "is_connected_to s' u \<and> this_uri s' = this_uri s \<and> (\<forall>v. is_connected_to s v \<longrightarrow> is_connected_to s' v)"
  using assms by (auto simp: request_connect_def is_connected_to_iff hashmap_simps split: if_splits)

section \<open>Properties\<close>

text \<open>
  The state of a bound transport: its endpoint works, its own server exists, and every server it
  counts as connected has an inbox for its address.
\<close>

definition tm_inv :: "tm_state \<Rightarrow> bool" where
  "tm_inv = (\<lambda>(tm, net). tm_open tm \<and>
     (case maybe_my_address tm of
        None \<Rightarrow> connections tm = []
      | Some my \<Rightarrow> get_server my net \<noteq> None \<and>
          (\<forall>u \<in> set (connections tm). \<exists>s. get_server u net = Some s \<and> is_connected_to s my)))"

lemma tm_inv_put_server:
  assumes "tm_inv (tm, net)" and "get_server u net = Some s"
    and "\<And>v. is_connected_to s v \<Longrightarrow> is_connected_to s' v"
  shows "tm_inv (tm, put_server u s' net)"
  using assms by (fastforce simp: tm_inv_def get_put_server split: option.splits)

lemma tm_inv_sent: "tm_inv (tm, net) \<Longrightarrow> tm_inv (tm_sent m tm, net)"
  by (simp add: tm_inv_def split: option.splits)

lemma tm_inv_connect:
  assumes "tm_inv (tm, net)" and "maybe_my_address tm = Some my"
    and "get_server u net = Some s" and "is_connected_to s my"
  shows "tm_inv (add_connection u tm, net)"
  using assms by (auto simp: tm_inv_def)

lemma send_remote_safe:
  assumes inv: "tm_inv (tm, net)" and my: "maybe_my_address tm = Some my" and s: "get_server uri net = Some s"
    and id: "gm_request_id msg = Some rid"
  shows "\<exists>r st'. send_remote env msg my uri p s (tm, net) = Ok () st' \<and> tm_inv st'
    \<and> tm_outbox (fst st') = tm_outbox tm @ [Response (tm_bt env) rid r]"
proof -
  have op: "tm_open tm" using inv by (simp add: tm_inv_def)
  have deliver: "\<exists>r st'. post_and_respond env msg my uri p s' (tm', net) = Ok () st' \<and> tm_inv st'
      \<and> tm_outbox (fst st') = tm_outbox tm @ [Response (tm_bt env) rid r]"
    if conn: "is_connected_to s' my" and mono: "\<And>v. is_connected_to s v \<Longrightarrow> is_connected_to s' v"
      and tm': "tm' = tm \<or> tm' = add_connection uri tm" for s' tm'
  proof -
    obtain s'' where po: "post my p s' = Ok () s''" and same: "\<forall>v. is_connected_to s'' v = is_connected_to s' v"
      using post_connected[OF conn] by blast
    have "tm_inv (tm, put_server uri s'' net)"
      using tm_inv_put_server[OF inv s] mono same by blast
    then have "tm_inv (tm', put_server uri s'' net)"
      using tm' tm_inv_connect[of tm "put_server uri s'' net" my uri s''] my conn same
      by (auto simp: get_put_server)
    moreover have "tm_open tm'" "tm_outbox tm' = tm_outbox tm" using op tm' by auto
    ultimately show ?thesis using po id by (simp add: post_and_respond_def tm_respond_open tm_inv_sent)
  qed
  show ?thesis
  proof (cases "uri \<in> set (connections tm)")
    case True
    then have "is_connected_to s my" using inv my s by (auto simp: tm_inv_def)
    from deliver[OF this, of tm] True show ?thesis by (simp add: send_remote_def)
  next
    case False
    show ?thesis
    proof (cases "request_connect my s")
      case (Ok x s')
      then have "request_connect my s = Ok () s'" by simp
      from request_connect_connects[OF this] have "is_connected_to s' my"
        and "\<And>v. is_connected_to s v \<Longrightarrow> is_connected_to s' v" by auto
      from deliver[OF this, of "add_connection uri tm"] False Ok show ?thesis
        by (simp add: send_remote_def)
    next
      case (Err e s')
      then have "s' = s" by (auto simp: request_connect_def split: if_splits)
      then have "tm_inv (tm, put_server uri s' net)" using tm_inv_put_server[OF inv s] by simp
      with Err False op id show ?thesis by (simp add: send_remote_def tm_respond_open tm_inv_sent)
    qed (simp add: request_connect_def split: if_splits)
  qed
qed

text \<open>
  Sending never fails the actor: for a request to send, whatever its destination and whether or
  not the transport is bound or connected, handling it ends normally, sends exactly one
  response for that request (behind at most one event, the payload of a message to itself), and
  keeps the invariant. In particular the \<open>unwrap\<close> of \<open>post\<close> does not panic.
\<close>

theorem send_answers_once:
  assumes "tm_inv (tm, net)" and "gm_request_id msg = Some rid" and "gm_message msg = Some (SendMessage uri p)"
  shows "\<exists>r evs st'. tm_handle_msg env msg (tm, net) = Ok () st' \<and> tm_inv st'
    \<and> tm_outbox (fst st') = tm_outbox tm @ evs @ [Response (tm_bt env) rid r]
    \<and> evs = (if maybe_my_address tm = Some uri then [Request (tm_bt env) None (ReceivedData uri p)] else [])"
proof -
  define msg' where "msg' = msg\<lparr>gm_message := None\<rparr>"
  have id: "gm_request_id msg' = Some rid" using assms(2) by (simp add: msg'_def)
  have h: "tm_handle_msg env msg (tm, net) = tm_send_message env msg' uri p (tm, net)"
    using assms(3) by (simp add: tm_handle_msg_def take_message_def msg'_def)
  have op: "tm_open tm" using assms(1) by (simp add: tm_inv_def)
  show ?thesis
  proof (cases "maybe_my_address tm")
    case None
    then show ?thesis using op id assms(1) by (simp add: h tm_send_message_def tm_respond_open tm_inv_sent)
  next
    case (Some my)
    show ?thesis
    proof (cases "get_server uri net")
      case None
      then have "uri \<noteq> my" using assms(1) Some by (auto simp: tm_inv_def)
      then show ?thesis using Some None op id assms(1)
        by (auto simp: h tm_send_message_def tm_respond_open tm_inv_sent)
    next
      case (Some s)
      show ?thesis
      proof (cases "uri = my")
        case True
        then show ?thesis using \<open>maybe_my_address tm = Some my\<close> Some op id assms(1)
          by (simp add: h tm_send_message_def tm_publish_open tm_respond_open tm_inv_sent)
      next
        case False
        then show ?thesis
          using send_remote_safe[OF assms(1) \<open>maybe_my_address tm = Some my\<close> Some id]
            \<open>maybe_my_address tm = Some my\<close> Some
          by (auto simp: h tm_send_message_def)
      qed
    qed
  qed
qed

text \<open>
  C17: First contact of two bound nodes. A request on \<open>A\<close> to send to \<open>B\<close> is answered with success; when
  \<open>B\<close> next looks at its server, its parent learns of the connection from \<open>A\<close> and then receives the
  payload, each once; and \<open>B\<close> has connected back, so that \<open>A\<close>'s server has an inbox for it.
\<close>

theorem memory_first_contact:
  assumes A: "tm_open tmA" "maybe_my_address tmA = Some a" "b \<notin> set (connections tmA)"
    and B: "tm_open tmB" "maybe_my_address tmB = Some b" "a \<notin> set (connections tmB)"
    and net: "get_server a net = Some sa" "get_server b net = Some sb" "a \<noteq> b"
    and sa: "this_uri sa = a" "\<not> is_connected_to sa b"
    and sb: "sb = MemoryServer_new b"
    and msg: "gm_request_id msg = Some rid" "gm_message msg = Some (SendMessage b p)"
  shows "\<exists>tmA' net1 tmB' net2 sa'.
      tm_handle_msg envA msg (tmA, net) = Ok () (tmA', net1)
    \<and> tm_outbox tmA' = tm_outbox tmA @ [Response (tm_bt envA) rid (Inr SendMessageSuccess)]
    \<and> server_pass envB (tmB, net1) = Ok () (tmB', net2)
    \<and> tm_outbox tmB' = tm_outbox tmB @
        [Request (tm_bt envB) None (IncomingConnection a), Request (tm_bt envB) None (ReceivedData a p)]
    \<and> b \<in> set (connections tmA') \<and> a \<in> set (connections tmB')
    \<and> get_server a net2 = Some sa' \<and> is_connected_to sa' b"
proof -
  define sb1 where "sb1 = \<lparr>this_uri = b, inbox_map = [(a, [p])], connection_inbox = [(a, True)], ms_state = Running\<rparr>"
  define net1 where "net1 = put_server b sb1 net"
  define tmA' where "tmA' = tm_sent (Response (tm_bt envA) rid (Inr SendMessageSuccess)) (add_connection b tmA)"
  have conn: "request_connect a sb = Ok () (sb\<lparr>inbox_map := [(a, [])], connection_inbox := [(a, True)]\<rparr>)"
    using net(3) by (simp add: sb MemoryServer_new_def request_connect_def)
  have runA: "tm_handle_msg envA msg (tmA, net) = Ok () (tmA', net1)"
    using A net msg conn
    by (simp add: tm_handle_msg_def take_message_def tm_send_message_def send_remote_def post_and_respond_def
        post_def sb MemoryServer_new_def tm_respond_open tmA'_def net1_def sb1_def)
  define sb2 where "sb2 = sb1\<lparr>connection_inbox := [], inbox_map := [(a, [])]\<rparr>"
  define sa' where "sa' = sa\<lparr>inbox_map := AList.update b [] (inbox_map sa), connection_inbox := connection_inbox sa @ [(b, True)]\<rparr>"
  define net2 where "net2 = put_server a sa' (put_server b sb2 net1)"
  define tmB' where "tmB' = tm_sent (Request (tm_bt envB) None (ReceivedData a p))
    (add_connection a (tm_sent (Request (tm_bt envB) None (IncomingConnection a)) tmB))"
  have "request_connect b sa = Ok () sa'" using sa net(3) by (simp add: request_connect_new sa'_def)
  moreover have "MemoryServer_process sb1 =
      Ok (True, [EvIncomingConnectionEstablished a, EvReceivedData a p]) sb2"
    by (simp add: MemoryServer_process_def sb1_def sb2_def connection_event_def)
  ultimately have "server_pass envB (tmB, net1) = Ok () (tmB', net2)"
    using B net(1,3)
    by (simp add: server_pass_def net1_def get_put_server tm_publish_open tmB'_def net2_def)
  moreover have "is_connected_to sa' b" by (simp add: is_connected_to_iff sa'_def hashmap_simps)
  moreover have "get_server a net2 = Some sa'" by (simp add: net2_def get_put_server)
  ultimately show ?thesis using A(1) B(1) runA
    by (intro exI[of _ tmA'] exI[of _ net1] exI[of _ tmB'] exI[of _ net2] exI[of _ sa'])
      (simp add: tmA'_def tmB'_def)
qed

lemma MemoryNet_bind_other:
  assumes "MemoryNet_bind L checks net = Ok n net'" and "v \<noteq> n"
  shows "get_server v net' = get_server v net"
  using assms
  by (auto simp: MemoryNet_bind_def new_url_def Let_def outcome_simps get_put_server
      split: if_splits outcome.splits option.splits) (simp_all add: get_server_def)

text \<open>
  Binding again breaks that guarantee. The transport keeps its connections but changes its
  address, and the servers it is connected to have no inbox for the new one: the next message to
  one of them panics in the \<open>unwrap\<close> of \<open>post\<close>.
\<close>

theorem rebind_then_send_panics:
  assumes inv: "tm_inv (tm, net)"
    and bind: "(MemoryNet_bind (tm_url env) (tm_checks env) net :: (MemoryNet, GhostError, Lib3hUri) outcome) = Ok n net'"
    and u: "u \<in> set (connections tm)" "u \<noteq> n" "get_server u net = Some s" "\<not> is_connected_to s n"
    and m1: "gm_request_id msg1 = Some rid1" "gm_message msg1 = Some (Bind spec)"
    and m2: "gm_message msg2 = Some (SendMessage u p)"
  shows "\<exists>st1. tm_handle_msg env msg1 (tm, net) = Ok () st1
    \<and> tm_handle_msg env msg2 st1 = Panic ''post unwrap''"
proof -
  define tm1 where "tm1 = tm_sent (Response (tm_bt env) rid1 (Inr (BindResponse \<lparr>bound_url = n\<rparr>)))
    (tm\<lparr>maybe_my_address := Some n\<rparr>)"
  define net1 where "net1 = MemoryNet_advertise n (transport_id tm) net'"
  have op: "tm_open tm" using inv by (simp add: tm_inv_def)
  have run: "tm_handle_msg env msg1 (tm, net) = Ok () (tm1, net1)"
    using op m1 bind
    by (simp add: tm_handle_msg_def take_message_def tm_bind_def tm_advertise_def tm_respond_open tm1_def net1_def)
  have s: "get_server u net1 = Some s"
    using MemoryNet_bind_other[OF bind u(2)] u(3) by (simp add: net1_def MemoryNet_advertise_def get_server_def)
  have "\<exists>e. post n p s = Err e s" using u(4) by (simp add: post_def is_connected_to_iff)
  then have "tm_handle_msg env msg2 (tm1, net1) = Panic ''post unwrap''"
    using m2 u(1,2) s
    by (auto simp: tm_handle_msg_def take_message_def tm_send_message_def send_remote_def post_and_respond_def tm1_def)
  with run show ?thesis by blast
qed

section \<open>Witnesses\<close>

text \<open>A \<open>url\<close> package that accepts every string as it is.\<close>

definition demo_url_lib :: url_lib where
  "demo_url_lib = \<lparr>ul_parse = Inr, ul_scheme = id, ul_path = id, ul_query_pairs = (\<lambda>_. []),
     ul_clear_query = id, ul_one_pair = (\<lambda>_. id), ul_port = (\<lambda>_. None), ul_set_port = (\<lambda>_. Some),
     ul_set_host = (\<lambda>_. Some), ul_set_scheme = (\<lambda>_. Some)\<rparr>"

definition demo_tm_env :: tm_env where
  "demo_tm_env = \<lparr>tm_url = demo_url_lib, tm_checks = True, tm_bt = Backtwrap None, tm_instant = 0,
     tm_instant_end = 0, tm_now = 0, tm_rid_msg = (\<lambda>_ _. [])\<rparr>"

definition demo_tm :: "Lib3hUri \<Rightarrow> Lib3hUri list \<Rightarrow> GhostTransportMemory" where
  "demo_tm a cs = (GhostTransportMemory_new 0 ''id'')\<lparr>maybe_my_address := Some a, connections := cs\<rparr>"

text \<open>Two servers that have not been contacted, and the same two after they connected.\<close>

definition demo_net :: MemoryNet where
  "demo_net = \<lparr>mn_name = ''n'', server_map = [(''mem://a'', MemoryServer_new ''mem://a''),
     (''mem://b'', MemoryServer_new ''mem://b'')], url_count = 2, advertised_machines = []\<rparr>"

definition demo_net_ab :: MemoryNet where
  "demo_net_ab = demo_net\<lparr>server_map := [(''mem://a'', MemoryServer_new ''mem://a''),
     (''mem://b'', (MemoryServer_new ''mem://b'')\<lparr>inbox_map := [(''mem://a'', [])]\<rparr>)]\<rparr>"

definition demo_send :: "string \<Rightarrow> bytes \<Rightarrow> ToChildMessage" where
  "demo_send u p = GhostMessage_new_request (Backtwrap None) ''r1'' (SendMessage u p)"

lemmas demo_tm_simps = demo_tm_def GhostTransportMemory_new_def create_ghost_channel_def GhostEndpoint_new_def
  fresh_sender_def Detach_new_def GhostContextEndpointBuilder_build_def
  GhostContextEndpointBuilder_request_id_prefix_def as_context_endpoint_builder_def
  DEFAULT_DISCOVERY_INTERVAL_MS_def

lemma demo_tm_facts:
  "tm_open (demo_tm a cs)" "maybe_my_address (demo_tm a cs) = Some a" "connections (demo_tm a cs) = cs"
  by (simp_all add: tm_open_def demo_tm_simps)

lemma demo_net_facts:
  "get_server ''mem://a'' demo_net = Some (MemoryServer_new ''mem://a'')"
  "get_server ''mem://b'' demo_net = Some (MemoryServer_new ''mem://b'')"
  "get_server ''mem://a'' demo_net_ab = Some (MemoryServer_new ''mem://a'')"
  "get_server ''mem://b'' demo_net_ab = Some ((MemoryServer_new ''mem://b'')\<lparr>inbox_map := [(''mem://a'', [])]\<rparr>)"
  by (simp_all add: demo_net_def demo_net_ab_def get_server_def)

lemma demo_tm_inv: "tm_inv (demo_tm ''mem://a'' [''mem://b''], demo_net_ab)"
  by (simp add: tm_inv_def demo_tm_facts demo_net_facts is_connected_to_def)

theorem send_answers_once_witness:
  "\<exists>r st'. tm_handle_msg demo_tm_env (demo_send ''mem://b'' [7]) (demo_tm ''mem://a'' [''mem://b''], demo_net_ab) = Ok () st'
     \<and> tm_inv st' \<and> tm_outbox (fst st') = tm_outbox (demo_tm ''mem://a'' [''mem://b'']) @ [Response (Backtwrap None) ''r1'' r]"
proof -
  have "gm_request_id (demo_send ''mem://b'' [7]) = Some ''r1''"
    "gm_message (demo_send ''mem://b'' [7]) = Some (SendMessage ''mem://b'' [7])" "tm_bt demo_tm_env = Backtwrap None"
    by (simp_all add: demo_send_def GhostMessage_new_request_def GhostMessage_new_def demo_tm_env_def)
  with send_answers_once[OF demo_tm_inv this(1,2), of demo_tm_env] show ?thesis
    by (simp add: demo_tm_facts)
qed

theorem memory_first_contact_witness:
  "\<exists>tmA' net1 tmB' net2.
      tm_handle_msg demo_tm_env (demo_send ''mem://b'' [7]) (demo_tm ''mem://a'' [], demo_net) = Ok () (tmA', net1)
    \<and> server_pass demo_tm_env (demo_tm ''mem://b'' [], net1) = Ok () (tmB', net2)
    \<and> ''mem://a'' \<in> set (connections tmB')"
proof -
  have "gm_request_id (demo_send ''mem://b'' [7]) = Some ''r1''"
    "gm_message (demo_send ''mem://b'' [7]) = Some (SendMessage ''mem://b'' [7])"
    "\<not> is_connected_to (MemoryServer_new ''mem://a'') ''mem://b''" "this_uri (MemoryServer_new ''mem://a'') = ''mem://a''"
    by (simp_all add: demo_send_def GhostMessage_new_request_def GhostMessage_new_def MemoryServer_new_def is_connected_to_def)
  then show ?thesis
    using memory_first_contact[of "demo_tm ''mem://a'' []" "''mem://a''" "''mem://b''" "demo_tm ''mem://b'' []" demo_net
        "MemoryServer_new ''mem://a''" "MemoryServer_new ''mem://b''" "demo_send ''mem://b'' [7]" "''r1''" "[7]"
        demo_tm_env demo_tm_env]
    by (auto simp: demo_tm_facts demo_net_facts)
qed

theorem rebind_then_send_panics_witness:
  "\<exists>st1. tm_handle_msg demo_tm_env (GhostMessage_new_request (Backtwrap None) ''r0'' (Bind ''mem://x''))
        (demo_tm ''mem://a'' [''mem://b''], demo_net_ab) = Ok () st1
     \<and> tm_handle_msg demo_tm_env (demo_send ''mem://b'' [7]) st1 = Panic ''post unwrap''"
proof -
  have three: "string_of_nat 3 = ''3''" by code_simp
  obtain net' where b: "(MemoryNet_bind (tm_url demo_tm_env) (tm_checks demo_tm_env) demo_net_ab
      :: (MemoryNet, GhostError, Lib3hUri) outcome) = Ok ''mem://addr_3'' net'"
    by (simp add: MemoryNet_bind_def new_url_def with_memory_def Lib3hUri_parse_def demo_tm_env_def demo_url_lib_def
        demo_net_ab_def demo_net_def Let_def MEMORY_SCHEME_def three)
  let ?s = "(MemoryServer_new ''mem://b'')\<lparr>inbox_map := [(''mem://a'', [])]\<rparr>"
  have "\<not> is_connected_to ?s ''mem://addr_3''" by (simp add: is_connected_to_def)
  then show ?thesis
    using rebind_then_send_panics[OF demo_tm_inv b, of "''mem://b''" ?s
        "GhostMessage_new_request (Backtwrap None) ''r0'' (Bind ''mem://x'')" "''r0''" "''mem://x''"
        "demo_send ''mem://b'' [7]" "[7]"]
    by (simp add: demo_tm_facts demo_net_facts demo_send_def GhostMessage_new_request_def GhostMessage_new_def)
qed

end
