(* ===== verification/Message_Encoding.thy ===== *)
theory Message_Encoding
  imports Lib3h_Types
begin

text \<open>
  The wire-encoding actor (\<open>lib3h/src/message_encoding.rs\<close>): it wraps handshakes and payloads for the
  wire and unwraps what comes from it. \<open>serde_json\<close> is the pair \<open>json_ser\<close>, \<open>json_de\<close>. The actor
  makes no requests of its parent, so its endpoint never has callbacks pending.
\<close>

section \<open>Model\<close>

definition CURRENT_ENCODING_HEURISTIC_MAGIC :: u16 where
  "CURRENT_ENCODING_HEURISTIC_MAGIC = 0x1f6c"

datatype InterimEncodingProtocol = WireHandshake u16 string string | WirePayload Opaque

record encoding_env =
  json_ser :: "InterimEncodingProtocol \<Rightarrow> bytes option"
  json_de :: "bytes \<Rightarrow> string + InterimEncodingProtocol"
  enc_bt :: Backtwrap

definition to_opaque :: "encoding_env \<Rightarrow> InterimEncodingProtocol \<Rightarrow> (unit, 'e, Opaque) outcome" where
  "to_opaque env p = (case json_ser env p of Some b \<Rightarrow> Ok b () | None \<Rightarrow> Panic ''to_vec_pretty unwrap'')"

definition from_slice :: "encoding_env \<Rightarrow> bytes \<Rightarrow> (unit, 'e, InterimEncodingProtocol) outcome" where
  "from_slice env v = (case json_de env v of Inr s \<Rightarrow> Ok s () | Inl e \<Rightarrow> Panic ''failed to decode'')"

datatype EncodingRequestToChild =
    Decode Opaque
  | EncodeHandshake string string
  | EncodePayload Opaque

datatype DecodeData = Handshake string string | Payload Opaque

datatype EncodingRequestToChildResponse =
    DecodeResult DecodeData
  | EncodeHandshakeResult Opaque
  | EncodePayloadResult Opaque

text \<open>The requests to the parent and their responses are enums without variants; units stand for them.\<close>

type_synonym MessageEncodingParentEndpoint =
  "(EncodingRequestToChild, EncodingRequestToChildResponse, unit, unit, Lib3hError) GhostEndpoint"

type_synonym MessageEncodingSelfEndpoint =
  "(unit, unit, unit, EncodingRequestToChild, EncodingRequestToChildResponse, Lib3hError) GhostContextEndpoint"

record MessageEncoding =
  me_endpoint_parent :: "MessageEncodingParentEndpoint option"
  me_endpoint_self :: "MessageEncodingSelfEndpoint Detach"

definition MessageEncoding_new :: MessageEncoding where
  "MessageEncoding_new =
     (case create_ghost_channel of (endpoint_parent, endpoint_self) \<Rightarrow>
        \<lparr>me_endpoint_parent = Some endpoint_parent,
         me_endpoint_self = Detach_new (GhostContextEndpointBuilder_build
           (GhostContextEndpointBuilder_request_id_prefix ''encoding_to_parent_''
              (as_context_endpoint_builder endpoint_self)))\<rparr>)"

type_synonym enc_outcome = "(MessageEncoding, Lib3hError, unit) outcome"

definition enc_respond ::
  "encoding_env \<Rightarrow> EncodingRequestToChild GhostMessage \<Rightarrow> Lib3hError + EncodingRequestToChildResponse \<Rightarrow>
    MessageEncoding \<Rightarrow> enc_outcome" where
  "enc_respond env msg payload me =
     map_err Lib3hGhostError
       (detach_deref_mut me_endpoint_self (\<lambda>ep me. me\<lparr>me_endpoint_self := ep\<rparr>)
          (\<lambda>ep. lift_state (\<lambda>s. ep\<lparr>gce_sender := s\<rparr>) (GhostMessage_respond (enc_bt env) msg payload (gce_sender ep))) me)"

text \<open>Continue with the value of a part that does not touch the actor.\<close>

definition with_value :: "(unit, Lib3hError, 'a) outcome \<Rightarrow> ('a \<Rightarrow> MessageEncoding \<Rightarrow> enc_outcome) \<Rightarrow> MessageEncoding \<Rightarrow> enc_outcome" where
  "with_value r f me = (case r of Ok v _ \<Rightarrow> f v me | Err e _ \<Rightarrow> Err e me | Panic m \<Rightarrow> Panic m)"

definition handle_decode ::
  "encoding_env \<Rightarrow> EncodingRequestToChild GhostMessage \<Rightarrow> Opaque \<Rightarrow> MessageEncoding \<Rightarrow> enc_outcome" where
  "handle_decode env msg payload =
     with_value (from_slice env payload)
       (\<lambda>p. case p of
          WireHandshake magic network_id i \<Rightarrow>
            if magic \<noteq> CURRENT_ENCODING_HEURISTIC_MAGIC
            then enc_respond env msg (Inl (Lib3hOther
                   (''bad magic, cannot speak to remote peer '' @ network_id @ '' '' @ i)))
            else enc_respond env msg (Inr (DecodeResult (Handshake network_id i)))
        | WirePayload payload \<Rightarrow> enc_respond env msg (Inr (DecodeResult (Payload payload))))"

definition handle_encode_handshake ::
  "encoding_env \<Rightarrow> EncodingRequestToChild GhostMessage \<Rightarrow> string \<Rightarrow> string \<Rightarrow> MessageEncoding \<Rightarrow> enc_outcome" where
  "handle_encode_handshake env msg space_address i =
     with_value (to_opaque env (WireHandshake CURRENT_ENCODING_HEURISTIC_MAGIC space_address i))
       (\<lambda>payload. enc_respond env msg (Inr (EncodeHandshakeResult payload)))"

definition handle_encode_payload ::
  "encoding_env \<Rightarrow> EncodingRequestToChild GhostMessage \<Rightarrow> Opaque \<Rightarrow> MessageEncoding \<Rightarrow> enc_outcome" where
  "handle_encode_payload env msg payload =
     with_value (to_opaque env (WirePayload payload))
       (\<lambda>payload. enc_respond env msg (Inr (EncodePayloadResult payload)))"

definition handle_msg_from_parent ::
  "encoding_env \<Rightarrow> EncodingRequestToChild GhostMessage \<Rightarrow> MessageEncoding \<Rightarrow> enc_outcome" where
  "handle_msg_from_parent env msg0 =
     (case take_message msg0 of
        (None, _) \<Rightarrow> (\<lambda>_. Panic ''exists'')
      | (Some m, msg) \<Rightarrow>
          (case m of
             Decode payload \<Rightarrow> handle_decode env msg payload
           | EncodeHandshake space_address i \<Rightarrow> handle_encode_handshake env msg space_address i
           | EncodePayload payload \<Rightarrow> handle_encode_payload env msg payload))"

definition enc_take_parent_endpoint ::
  "MessageEncoding \<Rightarrow> MessageEncodingParentEndpoint option \<times> MessageEncoding" where
  "enc_take_parent_endpoint me = (me_endpoint_parent me, me\<lparr>me_endpoint_parent := None\<rparr>)"

definition enc_no_callback ::
  "(unit, MessageEncoding \<times> (unit, EncodingRequestToChildResponse, Lib3hError) GhostEndpointMessage Sender,
     unit, Lib3hError) call" where
  "enc_no_callback cb response st = Ok () st"

definition enc_process_concrete ::
  "(RequestId \<Rightarrow> RequestId list \<Rightarrow> string) \<Rightarrow> time \<Rightarrow> encoding_env \<Rightarrow> MessageEncoding \<Rightarrow>
    (MessageEncoding, GhostError, WorkWasDone) outcome" where
  "enc_process_concrete rid_msg now env me =
     bind_ok (detach_run me_endpoint_self (\<lambda>ep me. me\<lparr>me_endpoint_self := ep\<rparr>)
                (endpoint_process rid_msg enc_no_callback now) me)
     (\<lambda>did_work me. bind_ok (detach_deref_mut me_endpoint_self (\<lambda>ep me. me\<lparr>me_endpoint_self := ep\<rparr>)
                (\<lambda>ep. case drain_messages ep of (ms, ep') \<Rightarrow> Ok ms ep') me)
     (\<lambda>msgs me. bind_ok
        (for_each (\<lambda>msg me. expect ''no ghost errors'' (handle_msg_from_parent env msg me)) msgs me)
     (\<lambda>_. Ok (did_work \<or> msgs \<noteq> []))))"

section \<open>The codec behind the actor\<close>

text \<open>
  The answer to one request as a function (\<open>None\<close>: the actor panics), and the lemma that the
  handlers compute it.
\<close>

definition encoding_answer ::
  "encoding_env \<Rightarrow> EncodingRequestToChild \<Rightarrow> (Lib3hError + EncodingRequestToChildResponse) option" where
  "encoding_answer env m =
     (case m of
        Decode b \<Rightarrow>
          (case json_de env b of
             Inl _ \<Rightarrow> None
           | Inr (WireHandshake magic n i) \<Rightarrow>
               Some (if magic = CURRENT_ENCODING_HEURISTIC_MAGIC then Inr (DecodeResult (Handshake n i))
                     else Inl (Lib3hOther (''bad magic, cannot speak to remote peer '' @ n @ '' '' @ i)))
           | Inr (WirePayload p) \<Rightarrow> Some (Inr (DecodeResult (Payload p))))
      | EncodeHandshake n i \<Rightarrow>
          map_option (Inr \<circ> EncodeHandshakeResult) (json_ser env (WireHandshake CURRENT_ENCODING_HEURISTIC_MAGIC n i))
      | EncodePayload p \<Rightarrow> map_option (Inr \<circ> EncodePayloadResult) (json_ser env (WirePayload p)))"

lemma enc_respond_open:
  assumes "me_endpoint_self me = Detach (Some ep)" and "snd_error (gce_sender ep) = None"
    and "gm_request_id msg = Some rid"
  shows "enc_respond env msg p me = Ok () (me\<lparr>me_endpoint_self := Detach (Some (append_sent [Response (enc_bt env) rid p] ep))\<rparr>)"
  using assms by (simp add: enc_respond_def detach_deref_mut_def GhostMessage_respond_def chan_send_def append_sent_def)

lemma handle_msg_answer:
  assumes "me_endpoint_self me = Detach (Some ep)" and "snd_error (gce_sender ep) = None"
    and "gm_request_id msg = Some rid" and "gm_message msg = Some m"
  shows "encoding_answer env m = Some r \<Longrightarrow> handle_msg_from_parent env msg me =
      Ok () (me\<lparr>me_endpoint_self := Detach (Some (append_sent [Response (enc_bt env) rid r] ep))\<rparr>)"
    and "encoding_answer env m = None \<Longrightarrow> is_panic (handle_msg_from_parent env msg me)"
  using assms
  by (auto simp: handle_msg_from_parent_def take_message_def encoding_answer_def handle_decode_def
      handle_encode_handshake_def handle_encode_payload_def with_value_def from_slice_def to_opaque_def enc_respond_open
      split: EncodingRequestToChild.splits sum.splits InterimEncodingProtocol.splits if_splits option.splits)

lemma handle_all_answers:
  assumes "me_endpoint_self me = Detach (Some ep)" and "snd_error (gce_sender ep) = None"
    and "list_all (\<lambda>(rid, m). encoding_answer env m \<noteq> None) ms"
  shows "for_each (\<lambda>msg me. expect ''no ghost errors'' (handle_msg_from_parent env msg me))
      (map (\<lambda>(rid, m). GhostMessage_new bt (Some rid) m) ms) me =
    (Ok () (me\<lparr>me_endpoint_self := Detach (Some
      (append_sent (map (\<lambda>(rid, m). Response (enc_bt env) rid (the (encoding_answer env m))) ms) ep))\<rparr>)
      :: (MessageEncoding, GhostError, unit) outcome)"
  using assms
proof (induction ms arbitrary: me ep)
  case (Cons rm ms)
  obtain rid m where rm: "rm = (rid, m)" by (cases rm)
  from Cons.prems obtain r where r: "encoding_answer env m = Some r" by (auto simp: rm)
  let ?ep = "append_sent [Response (enc_bt env) rid r] ep"
  have "handle_msg_from_parent env (GhostMessage_new bt (Some rid) m) me = Ok () (me\<lparr>me_endpoint_self := Detach (Some ?ep)\<rparr>)"
    using handle_msg_answer(1)[OF Cons.prems(1,2) _ _ r, of "GhostMessage_new bt (Some rid) m" rid]
    by (simp add: GhostMessage_new_def)
  with Cons.IH[of "me\<lparr>me_endpoint_self := Detach (Some ?ep)\<rparr>" ?ep] Cons.prems show ?case
    by (simp add: rm r)
qed simp

section \<open>Properties\<close>

text \<open>
  Every request is answered once and in order: with a queue of requests none of which makes the
  codec panic, \<open>process\<close> succeeds, reports work, and sends for each request its answer under the
  request's own id.
\<close>

theorem encoding_answers_in_order:
  assumes "me_endpoint_self me = Detach (Some ep)" and "snd_error (gce_sender ep) = None"
    and "gt_expired now (gce_tracker ep) = []" and "gce_outbox ep = []" and "\<not> rcv_disconnected (gce_receiver ep)"
    and "rcv_incoming (gce_receiver ep) = map (\<lambda>(rid, m). Request bt (Some rid) m) ms"
    and "list_all (\<lambda>(rid, m). encoding_answer env m \<noteq> None) ms" and "ms \<noteq> []"
  shows "\<exists>me' ep'. enc_process_concrete rid_msg now env me = Ok True me' \<and> me_endpoint_self me' = Detach (Some ep')
    \<and> snd_sent (gce_sender ep') = snd_sent (gce_sender ep) @
        map (\<lambda>(rid, m). Response (enc_bt env) rid (the (encoding_answer env m))) ms
    \<and> rcv_incoming (gce_receiver ep') = []"
proof -
  let ?ms = "map (\<lambda>(rid, m). (Some rid, m)) ms"
  have maps: "map (\<lambda>(rid, m). Request bt (Some rid) m) ms = map (\<lambda>(rid, p). Request bt rid p) ?ms"
    "map (\<lambda>(rid, p). GhostMessage_new bt rid p) ?ms = map (\<lambda>(rid, m). GhostMessage_new bt (Some rid) m) ms"
    by (auto simp: comp_def split_def)
  define ep1 where "ep1 = ep\<lparr>gce_receiver := (gce_receiver ep)\<lparr>rcv_incoming := []\<rparr>\<rparr>"
  define ep' where "ep' = append_sent (map (\<lambda>(rid, m). Response (enc_bt env) rid (the (encoding_answer env m))) ms) ep1"
  have run: "endpoint_process rid_msg enc_no_callback now (ep, x) =
      Ok (gt_pending (gce_tracker ep) \<noteq> [] \<or> ms \<noteq> [])
        (ep1\<lparr>gce_outbox := map (\<lambda>(rid, m). GhostMessage_new bt (Some rid) m) ms\<rparr>, x)" for x
    using endpoint_process_requests[OF assms(3,5), of bt ?ms rid_msg enc_no_callback x] assms(4,6)
    by (simp only: maps ep1_def) simp
  have "ep1\<lparr>gce_outbox := []\<rparr> = ep1" using assms(4) by (simp add: ep1_def)
  moreover have "for_each (\<lambda>msg me. expect ''no ghost errors'' (handle_msg_from_parent env msg me))
      (map (\<lambda>(rid, m). GhostMessage_new bt (Some rid) m) ms) x =
    (Ok () (x\<lparr>me_endpoint_self := Detach (Some ep')\<rparr>) :: (MessageEncoding, GhostError, unit) outcome)"
    if "me_endpoint_self x = Detach (Some ep1)" for x
    unfolding ep'_def using assms(2,7) that by (intro handle_all_answers) (simp_all add: ep1_def)
  ultimately have "enc_process_concrete rid_msg now env me = Ok True (me\<lparr>me_endpoint_self := Detach (Some ep')\<rparr>)"
    using assms(1,8)
    by (simp add: enc_process_concrete_def detach_run_def detach_put_def detach_deref_mut_def run drain_messages_def)
  then show ?thesis by (simp add: ep'_def ep1_def append_sent_def)
qed

text \<open>
  Round trip over the wire: what one node's actor answers to an encoding request, another node's
  actor decodes to the data that was encoded (\<open>serde_json\<close> reads back what it wrote). The magic
  number sent is the magic number accepted.
\<close>

theorem encode_decode_roundtrip:
  assumes A: "me_endpoint_self A = Detach (Some epA)" "snd_error (gce_sender epA) = None"
      "gm_request_id msgA = Some ridA" "gm_message msgA = Some req"
    and B: "me_endpoint_self B = Detach (Some epB)" "snd_error (gce_sender epB) = None"
      "gm_request_id msgB = Some ridB"
    and req: "req = EncodeHandshake n i \<and> wire = WireHandshake CURRENT_ENCODING_HEURISTIC_MAGIC n i \<and>
        enc = EncodeHandshakeResult \<and> dec = Handshake n i
      \<or> req = EncodePayload p \<and> wire = WirePayload p \<and> enc = EncodePayloadResult \<and> dec = Payload p"
    and json: "json_ser envA wire = Some b" "json_de envB b = Inr wire"
  shows "handle_msg_from_parent envA msgA A =
      Ok () (A\<lparr>me_endpoint_self := Detach (Some (append_sent [Response (enc_bt envA) ridA (Inr (enc b))] epA))\<rparr>)
    \<and> handle_msg_from_parent envB (put_message (Decode b) msgB) B =
      Ok () (B\<lparr>me_endpoint_self := Detach (Some (append_sent [Response (enc_bt envB) ridB (Inr (DecodeResult dec))] epB))\<rparr>)"
proof
  have "encoding_answer envA req = Some (Inr (enc b))"
    using req json(1) by (auto simp: encoding_answer_def)
  then show "handle_msg_from_parent envA msgA A =
      Ok () (A\<lparr>me_endpoint_self := Detach (Some (append_sent [Response (enc_bt envA) ridA (Inr (enc b))] epA))\<rparr>)"
    by (rule handle_msg_answer(1)[OF A])
  have "encoding_answer envB (Decode b) = Some (Inr (DecodeResult dec))"
    using req json(2) by (auto simp: encoding_answer_def)
  then show "handle_msg_from_parent envB (put_message (Decode b) msgB) B =
      Ok () (B\<lparr>me_endpoint_self := Detach (Some (append_sent [Response (enc_bt envB) ridB (Inr (DecodeResult dec))] epB))\<rparr>)"
    using B by (intro handle_msg_answer(1)) (simp_all add: put_message_def)
qed

text \<open>
  Bytes from the wire that are not of the protocol panic the actor that is asked to decode
  them; a handshake with another magic number is answered with an error, and the actor goes on.
\<close>

theorem decode_failures:
  assumes "me_endpoint_self me = Detach (Some ep)" and "snd_error (gce_sender ep) = None"
    and "gm_request_id msg = Some rid" and "gm_message msg = Some (Decode b)"
  shows "(\<forall>e. json_de env b = Inl e \<longrightarrow> handle_msg_from_parent env msg me = Panic ''failed to decode'')
    \<and> (\<forall>magic n i. json_de env b = Inr (WireHandshake magic n i) \<and> magic \<noteq> CURRENT_ENCODING_HEURISTIC_MAGIC \<longrightarrow>
         handle_msg_from_parent env msg me = Ok () (me\<lparr>me_endpoint_self := Detach (Some (append_sent
           [Response (enc_bt env) rid (Inl (Lib3hOther (''bad magic, cannot speak to remote peer '' @ n @ '' '' @ i)))] ep))\<rparr>))"
  using assms
  by (auto simp: handle_msg_from_parent_def take_message_def handle_decode_def with_value_def from_slice_def enc_respond_open)

section \<open>Witnesses\<close>

definition demo_enc_env :: "InterimEncodingProtocol \<Rightarrow> encoding_env" where
  "demo_enc_env w = \<lparr>json_ser = (\<lambda>p. if p = w then Some [1] else None),
     json_de = (\<lambda>b. if b = [1] then Inr w else Inl ''bad''), enc_bt = Backtwrap None\<rparr>"

definition demo_enc_endpoint :: MessageEncodingSelfEndpoint where
  "demo_enc_endpoint = GhostContextEndpointBuilder_build
     (GhostContextEndpointBuilder_request_id_prefix ''encoding_to_parent_''
        (as_context_endpoint_builder (snd create_ghost_channel)))"

lemmas demo_enc_simps = demo_enc_endpoint_def GhostContextEndpointBuilder_build_def
  GhostContextEndpointBuilder_request_id_prefix_def as_context_endpoint_builder_def create_ghost_channel_def
  GhostEndpoint_new_def fresh_sender_def fresh_receiver_def GhostTrackerBuilder_build_def
  GhostTrackerBuilder_default_def GhostTrackerBuilder_request_id_prefix_def deliver_def gt_expired_def

lemma demo_enc_self: "me_endpoint_self MessageEncoding_new = Detach (Some demo_enc_endpoint)"
  by (simp add: MessageEncoding_new_def Detach_new_def demo_enc_simps)

theorem encoding_answers_in_order_witness:
  "\<exists>me'. enc_process_concrete (\<lambda>_ _. []) 0 (demo_enc_env (WirePayload [7]))
     (MessageEncoding_new\<lparr>me_endpoint_self := Detach (Some (deliver
        [Request (Backtwrap None) (Some ''r1'') (EncodePayload [7]), Request (Backtwrap None) (Some ''r2'') (Decode [1])]
        demo_enc_endpoint))\<rparr>) = Ok True me'"
  using encoding_answers_in_order[of "MessageEncoding_new\<lparr>me_endpoint_self := Detach (Some (deliver
        [Request (Backtwrap None) (Some ''r1'') (EncodePayload [7]), Request (Backtwrap None) (Some ''r2'') (Decode [1])]
        demo_enc_endpoint))\<rparr>" "deliver
        [Request (Backtwrap None) (Some ''r1'') (EncodePayload [7]), Request (Backtwrap None) (Some ''r2'') (Decode [1])]
        demo_enc_endpoint" 0 "Backtwrap None" "[(''r1'', EncodePayload [7]), (''r2'', Decode [1])]"
        "demo_enc_env (WirePayload [7])" "\<lambda>_ _. []"]
  by (auto simp: demo_enc_simps demo_enc_env_def encoding_answer_def)

lemma demo_enc_facts: "snd_error (gce_sender demo_enc_endpoint) = None"
  "gm_request_id (GhostMessage_new_request (Backtwrap None) ''r'' m) = Some ''r''"
  "gm_message (GhostMessage_new_request (Backtwrap None) ''r'' m) = Some m"
  by (simp_all add: demo_enc_simps GhostMessage_new_request_def GhostMessage_new_def)

theorem encode_decode_roundtrip_witness:
  "let env = demo_enc_env (WirePayload [7]);
       msg = GhostMessage_new_request (Backtwrap None) ''r'' (EncodePayload [7])
   in handle_msg_from_parent env msg MessageEncoding_new = Ok () (MessageEncoding_new\<lparr>me_endpoint_self := Detach (Some
         (append_sent [Response (Backtwrap None) ''r'' (Inr (EncodePayloadResult [1]))] demo_enc_endpoint))\<rparr>)
    \<and> handle_msg_from_parent env (put_message (Decode [1]) msg) MessageEncoding_new =
       Ok () (MessageEncoding_new\<lparr>me_endpoint_self := Detach (Some
         (append_sent [Response (Backtwrap None) ''r'' (Inr (DecodeResult (Payload [7])))] demo_enc_endpoint))\<rparr>)"
proof -
  let ?env = "demo_enc_env (WirePayload [7])"
  have "json_ser ?env (WirePayload [7]) = Some [1]" "json_de ?env [1] = Inr (WirePayload [7])" "enc_bt ?env = Backtwrap None"
    by (simp_all add: demo_enc_env_def)
  with encode_decode_roundtrip[OF demo_enc_self demo_enc_facts(1,2,3) demo_enc_self demo_enc_facts(1,2) _ this(1,2),
      where n = "[]" and i = "[]" and enc = EncodePayloadResult and dec = "Payload [7]" and p = "[7]"]
  show ?thesis by (simp add: Let_def)
qed

theorem decode_failures_witness:
  "handle_msg_from_parent (demo_enc_env (WirePayload [7]))
     (GhostMessage_new_request (Backtwrap None) ''r'' (Decode [2])) MessageEncoding_new = Panic ''failed to decode''"
  using decode_failures[OF demo_enc_self demo_enc_facts(1,2,3), of "demo_enc_env (WirePayload [7])"]
  by (simp add: demo_enc_env_def)

end
