(* ===== verification/Mdns_Dns.thy ===== *)
theory Mdns_Dns
  imports Prelude "HOL-Library.Sublist"
begin

text \<open>
  The packet format of the mDNS crate (\<open>crates/mdns/src/dns/mod.rs\<close>, \<open>question.rs\<close>, \<open>answer.rs\<close>): a
  header of six counters followed by length-prefixed questions and answers. A \<open>Cursor\<close> is the list
  of bytes not read yet. The big-endian readers and writers of the \<open>byteorder\<close> package are the
  record \<open>byteorder\<close>, and what the code relies on is \<open>byteorder_laws\<close>. \<open>str::from_utf8\<close> is modelled
  by \<open>valid_utf8\<close>; a Rust \<open>String\<close> is its bytes.
\<close>

section \<open>Strings\<close>

definition cont_byte :: "u8 \<Rightarrow> bool" where
  "cont_byte b \<longleftrightarrow> 0x80 \<le> b \<and> b \<le> 0xBF"

text \<open>Well-formed UTF-8: shortest forms only, no surrogates, nothing above U+10FFFF.\<close>

fun valid_utf8 :: "bytes \<Rightarrow> bool" where
  "valid_utf8 [] = True"
| "valid_utf8 (a # bs) =
     (if a \<le> 0x7F then valid_utf8 bs
      else case bs of
          [] \<Rightarrow> False
        | b # cs \<Rightarrow>
            if 0xC2 \<le> a \<and> a \<le> 0xDF then cont_byte b \<and> valid_utf8 cs
            else case cs of
                [] \<Rightarrow> False
              | c # ds \<Rightarrow>
                  if 0xE0 \<le> a \<and> a \<le> 0xEF
                  then cont_byte b \<and> cont_byte c \<and> (a = 0xE0 \<longrightarrow> 0xA0 \<le> b) \<and> (a = 0xED \<longrightarrow> b \<le> 0x9F) \<and> valid_utf8 ds
                  else case ds of
                      [] \<Rightarrow> False
                    | d # es \<Rightarrow>
                        0xF0 \<le> a \<and> a \<le> 0xF4 \<and> cont_byte b \<and> cont_byte c \<and> cont_byte d
                        \<and> (a = 0xF0 \<longrightarrow> 0x90 \<le> b) \<and> (a = 0xF4 \<longrightarrow> b \<le> 0x8F) \<and> valid_utf8 es)"

section \<open>Reading and writing\<close>

datatype MulticastDnsError =
    MdnsIo string
  | MdnsNoneError
  | MdnsAddrParseError string
  | ProbeError
  | NoAvailablePort
  | RegexError string
  | Utf8Error
  | MdnsDiscoveryError string
  | MdnsOther string
  | MdnsNonexhaustive

record byteorder =
  bo_read_u8 :: "bytes \<Rightarrow> (u8 \<times> bytes) option"
  bo_read_u16 :: "bytes \<Rightarrow> (u16 \<times> bytes) option"
  bo_read_u32 :: "bytes \<Rightarrow> (u32 \<times> bytes) option"
  bo_write_u8 :: "u8 \<Rightarrow> bytes"
  bo_write_u16 :: "u16 \<Rightarrow> bytes"
  bo_write_u32 :: "u32 \<Rightarrow> bytes"

text \<open>
  What the package documents: a value is written in as many bytes as it has, a read takes as many
  bytes and gives back the value written there, and a read with fewer bytes left fails.
\<close>

definition codec_law :: "nat \<Rightarrow> (bytes \<Rightarrow> ('a \<times> bytes) option) \<Rightarrow> ('a \<Rightarrow> bytes) \<Rightarrow> bool" where
  "codec_law n rd wr \<longleftrightarrow> (\<forall>x. length (wr x) = n) \<and> (\<forall>x rest. rd (wr x @ rest) = Some (x, rest))
     \<and> (\<forall>bs. length bs < n \<longrightarrow> rd bs = None)"

definition byteorder_laws :: "byteorder \<Rightarrow> bool" where
  "byteorder_laws bo \<longleftrightarrow> codec_law 1 (bo_read_u8 bo) (bo_write_u8 bo)
     \<and> codec_law 2 (bo_read_u16 bo) (bo_write_u16 bo) \<and> codec_law 4 (bo_read_u32 bo) (bo_write_u32 bo)"

type_synonym 'a parser = "bytes \<Rightarrow> MulticastDnsError + ('a \<times> bytes)"

definition eof :: MulticastDnsError where
  "eof = MdnsIo ''UnexpectedEof''"

definition p_read :: "(bytes \<Rightarrow> ('a \<times> bytes) option) \<Rightarrow> 'a parser" where
  "p_read rd bs = (case rd bs of None \<Rightarrow> Inl eof | Some r \<Rightarrow> Inr r)"

definition p_bind :: "'a parser \<Rightarrow> ('a \<Rightarrow> 'b parser) \<Rightarrow> 'b parser" where
  "p_bind p f bs = (case p bs of Inl e \<Rightarrow> Inl e | Inr (x, rest) \<Rightarrow> f x rest)"

definition p_return :: "'a \<Rightarrow> 'a parser" where
  "p_return x bs = Inr (x, bs)"

text \<open>\<open>String::from(std::str::from_utf8(..)?)\<close>\<close>

definition p_utf8 :: "bytes \<Rightarrow> bytes parser" where
  "p_utf8 s bs = (if valid_utf8 s then Inr (s, bs) else Inl Utf8Error)"

text \<open>The loops that read and write a string byte by byte.\<close>

fun read_bytes :: "byteorder \<Rightarrow> nat \<Rightarrow> bytes parser" where
  "read_bytes bo 0 = p_return []"
| "read_bytes bo (Suc n) = p_bind (p_read (bo_read_u8 bo)) (\<lambda>b. p_bind (read_bytes bo n) (\<lambda>bs. p_return (b # bs)))"

fun write_bytes :: "byteorder \<Rightarrow> bytes \<Rightarrow> bytes" where
  "write_bytes bo [] = []"
| "write_bytes bo (b # bs) = bo_write_u8 bo b @ write_bytes bo bs"

subsection \<open>Questions\<close>

record QuerySection =
  q_dn_len :: u16
  q_domain_name :: bytes
  query_type :: u16
  query_class :: u16

definition QuerySection_new :: "bytes \<Rightarrow> QuerySection" where
  "QuerySection_new name =
     \<lparr>q_dn_len = of_nat (length name), q_domain_name = name, query_type = 5, query_class = 1\<rparr>"

definition QuerySection_from_raw :: "byteorder \<Rightarrow> u16 \<Rightarrow> QuerySection parser" where
  "QuerySection_from_raw bo dn_len =
     p_bind (read_bytes bo (unat dn_len)) (\<lambda>domain_name.
     p_bind (p_utf8 domain_name) (\<lambda>name.
     p_bind (p_read (bo_read_u16 bo)) (\<lambda>qt.
     p_bind (p_read (bo_read_u16 bo)) (\<lambda>qc.
     p_return \<lparr>q_dn_len = dn_len, q_domain_name = name, query_type = qt, query_class = qc\<rparr>))))"

definition QuerySection_write :: "byteorder \<Rightarrow> QuerySection \<Rightarrow> bytes" where
  "QuerySection_write bo q =
     bo_write_u16 bo (q_dn_len q) @ write_bytes bo (q_domain_name q)
     @ bo_write_u16 bo (query_type q) @ bo_write_u16 bo (query_class q)"

subsection \<open>Answers\<close>

definition DEFAULT_TTL :: u32 where
  "DEFAULT_TTL = 255"

record Target =
  target_len :: u16
  target :: bytes

definition Target_new :: "bytes \<Rightarrow> Target" where
  "Target_new r = \<lparr>target_len = of_nat (length r), target = r\<rparr>"

definition Target_from_raw :: "byteorder \<Rightarrow> Target parser" where
  "Target_from_raw bo =
     p_bind (p_read (bo_read_u16 bo)) (\<lambda>len.
     p_bind (read_bytes bo (unat len)) (\<lambda>t.
     p_bind (p_utf8 t) (\<lambda>t. p_return \<lparr>target_len = len, target = t\<rparr>)))"

definition Target_write :: "byteorder \<Rightarrow> Target \<Rightarrow> bytes" where
  "Target_write bo t = bo_write_u16 bo (target_len t) @ write_bytes bo (target t)"

record AnswerSection =
  a_dn_len :: u16
  a_domain_name :: bytes
  answer_type :: u16
  answer_class :: u16
  a_ttl :: u32
  data_len :: u16
  a_data :: Target

definition AnswerSection_default :: AnswerSection where
  "AnswerSection_default =
     \<lparr>a_dn_len = 0, a_domain_name = [], answer_type = 5, answer_class = 1, a_ttl = DEFAULT_TTL,
      data_len = 0, a_data = Target_new []\<rparr>"

definition AnswerSection_new :: "bytes \<Rightarrow> Target \<Rightarrow> AnswerSection" where
  "AnswerSection_new name t = AnswerSection_default
     \<lparr>a_dn_len := of_nat (length name), a_domain_name := name, data_len := of_nat (length (target t)), a_data := t\<rparr>"

definition AnswerSection_new_with_ttl :: "bytes \<Rightarrow> Target \<Rightarrow> u32 \<Rightarrow> AnswerSection" where
  "AnswerSection_new_with_ttl name t ttl = AnswerSection_default
     \<lparr>a_dn_len := of_nat (length name), a_domain_name := name, a_ttl := ttl,
      data_len := of_nat (length (target t)), a_data := t\<rparr>"

definition AnswerSection_from_raw :: "byteorder \<Rightarrow> AnswerSection parser" where
  "AnswerSection_from_raw bo =
     p_bind (p_read (bo_read_u16 bo)) (\<lambda>len.
     p_bind (read_bytes bo (unat len)) (\<lambda>domain_name.
     p_bind (p_read (bo_read_u16 bo)) (\<lambda>at.
     p_bind (p_read (bo_read_u16 bo)) (\<lambda>ac.
     p_bind (p_read (bo_read_u32 bo)) (\<lambda>t.
     p_bind (p_read (bo_read_u16 bo)) (\<lambda>dl.
     p_bind (Target_from_raw bo) (\<lambda>d.
     p_bind (p_utf8 domain_name) (\<lambda>name.
     p_return \<lparr>a_dn_len = len, a_domain_name = name, answer_type = at, answer_class = ac, a_ttl = t,
               data_len = dl, a_data = d\<rparr>))))))))"

definition AnswerSection_write :: "byteorder \<Rightarrow> AnswerSection \<Rightarrow> bytes" where
  "AnswerSection_write bo a =
     bo_write_u16 bo (a_dn_len a) @ write_bytes bo (a_domain_name a)
     @ bo_write_u16 bo (answer_type a) @ bo_write_u16 bo (answer_class a) @ bo_write_u32 bo (a_ttl a)
     @ bo_write_u16 bo (data_len a) @ Target_write bo (a_data a)"

subsection \<open>Messages\<close>

record DnsMessage =
  trans_id :: u16
  parameters :: u16
  nb_questions :: u16
  nb_answers :: u16
  nb_authority :: u16
  nb_additional :: u16
  questions :: "QuerySection list"
  answers :: "AnswerSection list"

definition DnsMessage_default :: DnsMessage where
  "DnsMessage_default =
     \<lparr>trans_id = 0, parameters = 0, nb_questions = 0, nb_answers = 0, nb_authority = 0,
      nb_additional = 0, questions = [], answers = []\<rparr>"

text \<open>A \<open>for\<close> loop that reads \<open>n\<close> sections and pushes them.\<close>

fun read_sections :: "'a parser \<Rightarrow> nat \<Rightarrow> 'a list parser" where
  "read_sections p 0 = p_return []"
| "read_sections p (Suc n) = p_bind p (\<lambda>x. p_bind (read_sections p n) (\<lambda>xs. p_return (x # xs)))"

definition read_question :: "byteorder \<Rightarrow> QuerySection parser" where
  "read_question bo = p_bind (p_read (bo_read_u16 bo)) (QuerySection_from_raw bo)"

definition parse_message :: "byteorder \<Rightarrow> DnsMessage parser" where
  "parse_message bo =
     p_bind (p_read (bo_read_u16 bo)) (\<lambda>ti.
     p_bind (p_read (bo_read_u16 bo)) (\<lambda>pa.
     p_bind (p_read (bo_read_u16 bo)) (\<lambda>nq.
     p_bind (p_read (bo_read_u16 bo)) (\<lambda>na.
     p_bind (p_read (bo_read_u16 bo)) (\<lambda>nau.
     p_bind (p_read (bo_read_u16 bo)) (\<lambda>nad.
     p_bind (read_sections (read_question bo) (unat nq)) (\<lambda>qs.
     p_bind (read_sections (AnswerSection_from_raw bo) (unat na)) (\<lambda>as.
     p_return \<lparr>trans_id = ti, parameters = pa, nb_questions = nq, nb_answers = na, nb_authority = nau,
               nb_additional = nad, questions = qs, answers = as\<rparr>))))))))"

definition DnsMessage_from_raw :: "byteorder \<Rightarrow> bytes \<Rightarrow> MulticastDnsError + DnsMessage" where
  "DnsMessage_from_raw bo packet = map_sum id fst (parse_message bo packet)"

definition DnsMessage_to_raw :: "byteorder \<Rightarrow> DnsMessage \<Rightarrow> bytes" where
  "DnsMessage_to_raw bo m =
     bo_write_u16 bo (trans_id m) @ bo_write_u16 bo (parameters m) @ bo_write_u16 bo (nb_questions m)
     @ bo_write_u16 bo (nb_answers m) @ bo_write_u16 bo (nb_authority m) @ bo_write_u16 bo (nb_additional m)
     @ concat (map (QuerySection_write bo) (questions m)) @ concat (map (AnswerSection_write bo) (answers m))"

section \<open>Readers that invert a writer\<close>

text \<open>
  \<open>reads p w x\<close>: the parser \<open>p\<close> reads the bytes \<open>w\<close> as \<open>x\<close>, leaves what follows, and on a proper prefix
  of \<open>w\<close> reports the end of the input. Sequencing parsers concatenates what they read.
\<close>

definition reads :: "'a parser \<Rightarrow> bytes \<Rightarrow> 'a \<Rightarrow> bool" where
  "reads p w x \<longleftrightarrow> (\<forall>rest. p (w @ rest) = Inr (x, rest)) \<and> (\<forall>v. strict_prefix v w \<longrightarrow> p v = Inl eof)"

lemma strict_prefix_append_cases:
  "strict_prefix v (w @ w') \<longleftrightarrow> strict_prefix v w \<or> (\<exists>u. v = w @ u \<and> strict_prefix u w')"
proof (induction w arbitrary: v)
  case (Cons a w)
  then show ?case by (cases v) (auto simp: strict_prefix_simps)
qed auto

lemma reads_bind:
  assumes "reads p w x" and "reads (f x) w' y"
  shows "reads (p_bind p f) (w @ w') y"
  using assms unfolding reads_def by (auto simp: p_bind_def strict_prefix_append_cases)

lemma reads_return: "reads (p_return x) [] x"
  by (simp add: reads_def p_return_def)

lemma reads_bind_return: "reads p w x \<Longrightarrow> y = g x \<Longrightarrow> reads (p_bind p (\<lambda>x. p_return (g x))) w y"
  using reads_bind[of p w x "\<lambda>x. p_return (g x)" "[]" y] reads_return[of y] by simp

lemma reads_utf8: "valid_utf8 s \<Longrightarrow> reads (p_utf8 s) [] s"
  by (simp add: reads_def p_utf8_def)

lemma reads_codec:
  assumes "codec_law n rd wr"
  shows "reads (p_read rd) (wr x) x"
proof -
  have "length v < n" if "strict_prefix v (wr x)" for v
  proof -
    have "length (wr x) = n" using assms by (simp add: codec_law_def)
    then show ?thesis using prefix_length_less[OF that] by simp
  qed
  then show ?thesis using assms by (auto simp: reads_def p_read_def codec_law_def)
qed

lemma reads_prims:
  assumes "byteorder_laws bo"
  shows "reads (p_read (bo_read_u8 bo)) (bo_write_u8 bo b) b"
    and "reads (p_read (bo_read_u16 bo)) (bo_write_u16 bo v) v"
    and "reads (p_read (bo_read_u32 bo)) (bo_write_u32 bo w) w"
  using assms by (auto simp: byteorder_laws_def intro: reads_codec)

lemma reads_bytes:
  assumes "byteorder_laws bo" and "n = length s"
  shows "reads (read_bytes bo n) (write_bytes bo s) s"
  using assms(2)
proof (induction s arbitrary: n)
  case (Cons b s)
  have "reads (p_bind (read_bytes bo (length s)) (\<lambda>bs. p_return (b # bs))) (write_bytes bo s) (b # s)"
    using Cons.IH[OF refl] by (rule reads_bind_return) simp
  then show ?case using Cons.prems reads_prims(1)[OF assms(1), of b] by (auto intro: reads_bind)
qed (simp add: reads_return)

text \<open>A reader and a writer of sections that fit together, and what follows for lists of sections.\<close>

locale section_codec =
  fixes rd :: "'a parser"
    and wr :: "'a \<Rightarrow> bytes"
    and wf :: "'a \<Rightarrow> bool"
  assumes reads_section: "wf x \<Longrightarrow> reads rd (wr x) x"
begin

lemma reads_sections:
  "list_all wf xs \<Longrightarrow> n = length xs \<Longrightarrow> reads (read_sections rd n) (concat (map wr xs)) xs"
proof (induction xs arbitrary: n)
  case (Cons x xs)
  have "reads (p_bind (read_sections rd (length xs)) (\<lambda>xs. p_return (x # xs))) (concat (map wr xs)) (x # xs)"
    using Cons.IH[OF _ refl] Cons.prems(1) by (intro reads_bind_return) auto
  then show ?case using Cons.prems reads_section[of x] by (auto intro: reads_bind)
qed (simp add: reads_return)

end

text \<open>
  The values whose stored lengths say what is written: the only ones the constructors make from
  strings shorter than 65536 bytes.
\<close>

definition wf_query :: "QuerySection \<Rightarrow> bool" where
  "wf_query q \<longleftrightarrow> unat (q_dn_len q) = length (q_domain_name q) \<and> valid_utf8 (q_domain_name q)"

definition wf_target :: "Target \<Rightarrow> bool" where
  "wf_target t \<longleftrightarrow> unat (target_len t) = length (target t) \<and> valid_utf8 (target t)"

definition wf_answer :: "AnswerSection \<Rightarrow> bool" where
  "wf_answer a \<longleftrightarrow> unat (a_dn_len a) = length (a_domain_name a) \<and> valid_utf8 (a_domain_name a) \<and> wf_target (a_data a)"

definition wf_message :: "DnsMessage \<Rightarrow> bool" where
  "wf_message m \<longleftrightarrow> unat (nb_questions m) = length (questions m) \<and> unat (nb_answers m) = length (answers m)
     \<and> list_all wf_query (questions m) \<and> list_all wf_answer (answers m)"

lemma reads_target:
  assumes "byteorder_laws bo" and "wf_target t"
  shows "reads (Target_from_raw bo) (Target_write bo t) t"
  unfolding Target_from_raw_def Target_write_def
proof (rule reads_bind[OF reads_prims(2)[OF assms(1)]])
  have "reads (p_bind (p_utf8 (target t)) (\<lambda>s. p_return \<lparr>target_len = target_len t, target = s\<rparr>)) [] t"
    using assms(2) by (intro reads_bind_return[OF reads_utf8]) (simp_all add: wf_target_def)
  with reads_bytes[OF assms(1)] show "reads (p_bind (read_bytes bo (unat (target_len t)))
      (\<lambda>u. p_bind (p_utf8 u) (\<lambda>s. p_return \<lparr>target_len = target_len t, target = s\<rparr>))) (write_bytes bo (target t)) t"
    using assms(2) reads_bind[where w' = "[]"] by (fastforce simp: wf_target_def)
qed

lemma reads_query:
  assumes "byteorder_laws bo" and "wf_query q"
  shows "reads (read_question bo) (QuerySection_write bo q) q"
proof -
  have len: "unat (q_dn_len q) = length (q_domain_name q)" and u: "valid_utf8 (q_domain_name q)"
    using assms(2) by (auto simp: wf_query_def)
  have tail: "reads (p_bind (p_read (bo_read_u16 bo)) (\<lambda>qt. p_bind (p_read (bo_read_u16 bo)) (\<lambda>qc.
       p_return \<lparr>q_dn_len = q_dn_len q, q_domain_name = q_domain_name q, query_type = qt, query_class = qc\<rparr>)))
     (bo_write_u16 bo (query_type q) @ bo_write_u16 bo (query_class q)) q"
    by (rule reads_bind[OF reads_prims(2)[OF assms(1)]], rule reads_bind_return[OF reads_prims(2)[OF assms(1)]]) simp
  have "reads (QuerySection_from_raw bo (q_dn_len q))
      (write_bytes bo (q_domain_name q) @ [] @ bo_write_u16 bo (query_type q) @ bo_write_u16 bo (query_class q)) q"
    unfolding QuerySection_from_raw_def
    by (rule reads_bind[OF reads_bytes[OF assms(1) len]], rule reads_bind[OF reads_utf8[OF u]], rule tail)
  then show ?thesis unfolding read_question_def QuerySection_write_def
    by (intro reads_bind[OF reads_prims(2)[OF assms(1)]]) simp
qed

lemma reads_answer:
  assumes "byteorder_laws bo" and "wf_answer a"
  shows "reads (AnswerSection_from_raw bo) (AnswerSection_write bo a) a"
proof -
  have len: "unat (a_dn_len a) = length (a_domain_name a)" and u: "valid_utf8 (a_domain_name a)"
    and t: "wf_target (a_data a)" using assms(2) by (auto simp: wf_answer_def)
  note r = reads_bind[OF reads_prims(2)[OF assms(1)]]
  have "reads (AnswerSection_from_raw bo) (bo_write_u16 bo (a_dn_len a) @ write_bytes bo (a_domain_name a)
     @ bo_write_u16 bo (answer_type a) @ bo_write_u16 bo (answer_class a) @ bo_write_u32 bo (a_ttl a)
     @ bo_write_u16 bo (data_len a) @ Target_write bo (a_data a) @ []) a"
    unfolding AnswerSection_from_raw_def
    by (rule r, rule reads_bind[OF reads_bytes[OF assms(1) len]], rule r, rule r,
        rule reads_bind[OF reads_prims(3)[OF assms(1)]], rule r, rule reads_bind[OF reads_target[OF assms(1) t]],
        rule reads_bind_return[OF reads_utf8[OF u]]) simp
  then show ?thesis by (simp add: AnswerSection_write_def)
qed

interpretation query: section_codec "read_question bo" "QuerySection_write bo" "\<lambda>q. byteorder_laws bo \<and> wf_query q" for bo
  by unfold_locales (simp add: reads_query)

interpretation answer: section_codec "AnswerSection_from_raw bo" "AnswerSection_write bo" "\<lambda>a. byteorder_laws bo \<and> wf_answer a" for bo
  by unfold_locales (simp add: reads_answer)

lemma reads_message:
  assumes "byteorder_laws bo" and "wf_message m"
  shows "reads (parse_message bo) (DnsMessage_to_raw bo m) m"
proof -
  have q: "reads (read_sections (read_question bo) (unat (nb_questions m))) (concat (map (QuerySection_write bo) (questions m))) (questions m)"
    using assms by (intro query.reads_sections) (auto simp: wf_message_def list_all_iff)
  have a: "reads (read_sections (AnswerSection_from_raw bo) (unat (nb_answers m))) (concat (map (AnswerSection_write bo) (answers m))) (answers m)"
    using assms by (intro answer.reads_sections) (auto simp: wf_message_def list_all_iff)
  note r = reads_bind[OF reads_prims(2)[OF assms(1)]]
  show ?thesis unfolding parse_message_def DnsMessage_to_raw_def
    by (rule r, rule r, rule r, rule r, rule r, rule r, rule reads_bind[OF q], rule reads_bind_return[OF a]) simp
qed

section \<open>Properties\<close>

text \<open>
  C16: Encoding then decoding gives the message back, whatever bytes follow it in the packet.
\<close>

theorem message_roundtrip:
  assumes "byteorder_laws bo" and "wf_message m"
  shows "DnsMessage_from_raw bo (DnsMessage_to_raw bo m @ rest) = Inr m"
  using reads_message[OF assms] by (simp add: DnsMessage_from_raw_def reads_def)

text \<open>
  A truncated packet is never taken for a message: decoding any proper prefix of an encoded
  message is an I/O error (end of input), at whichever byte it was cut.
\<close>

theorem truncated_message_rejected:
  assumes "byteorder_laws bo" and "wf_message m" and "strict_prefix packet (DnsMessage_to_raw bo m)"
  shows "DnsMessage_from_raw bo packet = Inl (MdnsIo ''UnexpectedEof'')"
  using reads_message[OF assms(1,2)] assms(3) by (simp add: DnsMessage_from_raw_def reads_def eof_def)


section \<open>Witnesses\<close>

text \<open>Big-endian numbers in base 256: an instance of \<open>byteorder_laws\<close>.\<close>

fun be_write :: "nat \<Rightarrow> nat \<Rightarrow> bytes" where
  "be_write 0 v = []"
| "be_write (Suc k) v = be_write k (v div 256) @ [of_nat v]"

definition be_read :: "nat \<Rightarrow> bytes \<Rightarrow> (nat \<times> bytes) option" where
  "be_read k bs = (if length bs < k then None
     else Some (foldl (\<lambda>acc b. acc * 256 + unat b) 0 (take k bs), drop k bs))"

definition big_endian :: byteorder where
  "big_endian =
     \<lparr>bo_read_u8 = (\<lambda>bs. map_option (map_prod of_nat id) (be_read 1 bs)),
      bo_read_u16 = (\<lambda>bs. map_option (map_prod of_nat id) (be_read 2 bs)),
      bo_read_u32 = (\<lambda>bs. map_option (map_prod of_nat id) (be_read 4 bs)),
      bo_write_u8 = (\<lambda>v. be_write 1 (unat v)), bo_write_u16 = (\<lambda>v. be_write 2 (unat v)),
      bo_write_u32 = (\<lambda>v. be_write 4 (unat v))\<rparr>"

lemma length_be_write [simp]: "length (be_write k v) = k"
  by (induction k arbitrary: v) auto

lemma be_value: "v < 256 ^ k \<Longrightarrow> foldl (\<lambda>acc b. acc * 256 + unat b) 0 (be_write k v) = v"
proof (induction k arbitrary: v)
  case (Suc k)
  have "v div 256 < 256 ^ k" using Suc.prems by (simp add: less_mult_imp_div_less mult.commute)
  moreover have "unat (of_nat v :: u8) = v mod 256" by (simp add: unat_of_nat)
  ultimately show ?case using Suc.IH by simp
qed simp

lemma be_codec:
  assumes "\<And>x. (to_nat x :: nat) < 256 ^ k" and "\<And>x. back_to (to_nat x) = x"
  shows "codec_law k (\<lambda>bs. map_option (map_prod back_to id) (be_read k bs)) (\<lambda>v. be_write k (to_nat v))"
  using assms by (simp add: codec_law_def be_read_def be_value)

lemma big_endian_laws: "byteorder_laws big_endian"
proof -
  have "unat (x :: u8) < 256 ^ 1" "unat (y :: u16) < 256 ^ 2" "unat (z :: u32) < 256 ^ 4" for x y z
    using unsigned_less[of x] unsigned_less[of y] unsigned_less[of z] by simp_all
  then show ?thesis
    using be_codec[of "unat :: u8 \<Rightarrow> nat" 1 of_nat] be_codec[of "unat :: u16 \<Rightarrow> nat" 2 of_nat]
      be_codec[of "unat :: u32 \<Rightarrow> nat" 4 of_nat]
    by (simp add: byteorder_laws_def big_endian_def)
qed

text \<open>A question for \<open>ab\<close> and an answer with target \<open>c\<close>.\<close>

definition demo_message :: DnsMessage where
  "demo_message = DnsMessage_default\<lparr>nb_questions := 1, nb_answers := 1,
     questions := [QuerySection_new [0x61, 0x62]], answers := [AnswerSection_new [0x61] (Target_new [0x63])]\<rparr>"

lemma demo_message_wf: "wf_message demo_message"
  by (simp add: wf_message_def demo_message_def DnsMessage_default_def wf_query_def wf_answer_def wf_target_def
      QuerySection_new_def AnswerSection_new_def AnswerSection_default_def Target_new_def)

theorem message_roundtrip_witness:
  "DnsMessage_from_raw big_endian (DnsMessage_to_raw big_endian demo_message @ [0]) = Inr demo_message"
  by (rule message_roundtrip[OF big_endian_laws demo_message_wf])

theorem truncated_message_rejected_witness:
  "DnsMessage_from_raw big_endian (butlast (DnsMessage_to_raw big_endian demo_message)) = Inl (MdnsIo ''UnexpectedEof'')"
proof -
  have "DnsMessage_to_raw big_endian demo_message \<noteq> []"
    by (auto simp: DnsMessage_to_raw_def big_endian_def dest: arg_cong[of _ _ length])
  then have "strict_prefix (butlast (DnsMessage_to_raw big_endian demo_message)) (DnsMessage_to_raw big_endian demo_message)"
    by (metis append_butlast_last_id prefixI prefix_order.dual_order.strict_iff_order append_self_conv not_Cons_self2)
  from truncated_message_rejected[OF big_endian_laws demo_message_wf this] show ?thesis .
qed


end
