(* ===== verification/Mdns_Record.thy ===== *)
theory Mdns_Record
  imports Mdns_Dns "HOL-Library.List_Lexorder"
begin

text \<open>
  Resource records of the mDNS crate (\<open>crates/mdns/src/record.rs\<close>): records with their order, the
  table from network ids to records, its update with records heard on the network, and its
  conversion from and to DNS messages. Rust compares strings bytewise, which is the lexicographic
  order on byte lists.
\<close>

section \<open>Records\<close>

datatype Record = Record (networkid: bytes) (url: bytes) (ttl: u32)

text \<open>\<open>Ord for Record\<close>: by network id, then url, then time to live.\<close>

instantiation Record :: linorder
begin

definition less_eq_Record :: "Record \<Rightarrow> Record \<Rightarrow> bool" where
  "r \<le> s \<longleftrightarrow> networkid r < networkid s
     \<or> networkid r = networkid s \<and> (url r < url s \<or> url r = url s \<and> ttl r \<le> ttl s)"

definition less_Record :: "Record \<Rightarrow> Record \<Rightarrow> bool" where
  "r < (s :: Record) \<longleftrightarrow> r \<le> s \<and> \<not> s \<le> r"

instance
proof
  show "(r < s) = (r \<le> s \<and> \<not> s \<le> r)" for r s :: Record by (simp add: less_Record_def)
  show "r \<le> r" for r :: Record by (simp add: less_eq_Record_def)
  show "r \<le> s \<Longrightarrow> s \<le> t \<Longrightarrow> r \<le> t" for r s t :: Record by (auto simp: less_eq_Record_def)
  show "r \<le> s \<Longrightarrow> s \<le> r \<Longrightarrow> r = s" for r s :: Record
    by (cases r; cases s) (auto simp: less_eq_Record_def)
  show "r \<le> s \<or> s \<le> r" for r s :: Record by (auto simp: less_eq_Record_def)
qed

end

definition Record_new :: "bytes \<Rightarrow> bytes \<Rightarrow> u32 \<Rightarrow> Record" where
  "Record_new name u t = Record name u t"

definition to_target :: "Record \<Rightarrow> Target" where
  "to_target r = Target_new (url r)"

definition to_answers_section :: "Record \<Rightarrow> AnswerSection" where
  "to_answers_section r = AnswerSection_new_with_ttl (networkid r) (to_target r) (ttl r)"

definition to_question_section :: "Record \<Rightarrow> QuerySection" where
  "to_question_section r = QuerySection_new (networkid r)"

definition Record_to_dns_response_message :: "Record \<Rightarrow> DnsMessage" where
  "Record_to_dns_response_message r =
     DnsMessage_default\<lparr>nb_answers := 1, nb_authority := 1, answers := [to_answers_section r]\<rparr>"

text \<open>\<open>new_own\<close>: \<open>hostname\<close> is what the \<open>hostname\<close> package answers.\<close>

definition ascii :: "string \<Rightarrow> bytes" where
  "ascii s = map (\<lambda>c. of_nat (of_char c)) s"

definition convert_to_mdns_hostname :: "bytes \<Rightarrow> bytes" where
  "convert_to_mdns_hostname hostname =
     (if suffix (ascii ''.local.'') hostname then hostname else hostname @ ascii ''.local.'')"

definition Record_new_own :: "bytes option \<Rightarrow> Record" where
  "Record_new_own hostname = Record
     (convert_to_mdns_hostname (case hostname of Some h \<Rightarrow> h | None \<Rightarrow> ascii ''Anonymous-host''))
     (ascii ''0.0.0.0'') DEFAULT_TTL"

section \<open>The table of records\<close>

type_synonym MapRecord = "(bytes, Record list) hashmap"

definition MapRecord_with_record :: "bytes \<Rightarrow> Record list \<Rightarrow> MapRecord" where
  "MapRecord_with_record nid rs = [(nid, rs)]"

text \<open>\<open>Vec::dedup_by\<close>: drops an element that equals the last one kept.\<close>

fun dedup_by :: "('a \<Rightarrow> 'a \<Rightarrow> bool) \<Rightarrow> 'a list \<Rightarrow> 'a list" where
  "dedup_by eq [] = []"
| "dedup_by eq [x] = [x]"
| "dedup_by eq (x # y # ys) = (if eq y x then dedup_by eq (x # ys) else x # dedup_by eq (y # ys))"

text \<open>What \<open>update\<close> keeps of the records drained for one url.\<close>

definition settle_url :: "Record list \<Rightarrow> Record list" where
  "settle_url drained =
     (if length drained = 1 then drained
      else (case drained of [] \<Rightarrow> [] | first # _ \<Rightarrow> if ttl first = 0 then [first] else [])
           @ (if drained = [] then [] else if ttl (last drained) = 255 then [last drained] else []))"

text \<open>The loop over the urls: \<open>drain_filter\<close> takes the records of the url out of \<open>cached\<close>.\<close>

fun settle_urls :: "bytes list \<Rightarrow> Record list \<Rightarrow> Record list \<Rightarrow> Record list" where
  "settle_urls [] cached final = final"
| "settle_urls (u # urls) cached final =
     settle_urls urls (filter (\<lambda>r. url r \<noteq> u) cached) (final @ settle_url (filter (\<lambda>r. url r = u) cached))"

definition update_records :: "Record list \<Rightarrow> Record list \<Rightarrow> Record list" where
  "update_records cached other =
     (let sorted = sort (cached @ other)
      in settle_urls (dedup_by (=) (map url sorted)) sorted [])"

fun MapRecord_update :: "MapRecord \<Rightarrow> MapRecord \<Rightarrow> MapRecord" where
  "MapRecord_update self [] = self"
| "MapRecord_update self ((other_nid, other_records) # rest) =
     MapRecord_update
       (case map_of self other_nid of
          Some cached_records \<Rightarrow> AList.update other_nid (update_records cached_records other_records) self
        | None \<Rightarrow> AList.update other_nid other_records self)
       rest"

definition record_of_answer :: "AnswerSection \<Rightarrow> Record option" where
  "record_of_answer a =
     (if answer_class a = 1 \<and> answer_type a = 5
      then Some (Record_new (a_domain_name a) (target (a_data a)) (a_ttl a)) else None)"

definition answer_records :: "DnsMessage \<Rightarrow> Record list" where
  "answer_records m = dedup_by (\<lambda>a b. url a = url b) (sort (List.map_filter record_of_answer (answers m)))"

definition from_dns_message :: "DnsMessage \<Rightarrow> MapRecord option" where
  "from_dns_message m =
     (if answers m \<noteq> []
      then Some (fold (\<lambda>r mr. MapRecord_update mr (MapRecord_with_record (networkid r) [r])) (answer_records m) [])
      else None)"

definition to_dns_response_message :: "MapRecord \<Rightarrow> bytes list \<Rightarrow> DnsMessage option" where
  "to_dns_response_message self networkids =
     (let answers = concat (map (\<lambda>netid. case map_of self netid of
                                           Some records \<Rightarrow> map to_answers_section records
                                         | None \<Rightarrow> []) networkids)
      in if answers = [] then None
         else Some (DnsMessage_default\<lparr>nb_answers := of_nat (length answers),
                      nb_authority := of_nat (length answers), answers := answers\<rparr>))"

definition to_dns_message_query :: "MapRecord \<Rightarrow> bytes list \<Rightarrow> DnsMessage option" where
  "to_dns_message_query self networkids =
     (let questions = concat (map (\<lambda>netid. case map_of self netid of
                                             Some records \<Rightarrow> map to_question_section records
                                           | None \<Rightarrow> []) networkids)
      in if questions = [] then None
         else Some (DnsMessage_default\<lparr>nb_questions := of_nat (length questions), questions := questions\<rparr>))"

section \<open>Lemmas\<close>

lemma settle_urls_acc: "settle_urls us rs fin = fin @ settle_urls us rs []"
proof (induction us arbitrary: rs fin)
  case (Cons u us)
  show ?case
    using Cons.IH[of "filter (\<lambda>r. url r \<noteq> u) rs" "fin @ settle_url (filter (\<lambda>r. url r = u) rs)"]
      Cons.IH[of "filter (\<lambda>r. url r \<noteq> u) rs" "settle_url (filter (\<lambda>r. url r = u) rs)"]
    by simp
qed simp

lemma settle_url_nil: "settle_url [] = []"
  by (simp add: settle_url_def)

lemma settle_url_subset: "set (settle_url rs) \<subseteq> set rs"
proof (cases rs)
  case (Cons a list)
  have "last rs \<in> set rs" using Cons by (intro last_in_set) simp
  then show ?thesis by (auto simp: settle_url_def Cons)
qed (simp add: settle_url_def)

lemma filter_settle_url:
  "filter (\<lambda>r. url r = v) (settle_url (filter (\<lambda>r. url r = u) rs)) =
     (if u = v then settle_url (filter (\<lambda>r. url r = u) rs) else [])"
proof -
  have all: "\<forall>r \<in> set (settle_url (filter (\<lambda>r. url r = u) rs)). url r = u"
    using settle_url_subset[of "filter (\<lambda>r. url r = u) rs"] by auto
  show ?thesis
  proof (cases "u = v")
    case True
    with filter_True[OF all] show ?thesis by (simp only: if_True refl)
  next
    case False
    then have "\<forall>r \<in> set (settle_url (filter (\<lambda>r. url r = u) rs)). \<not> url r = v" using all by metis
    from filter_False[OF this] False show ?thesis by (simp only: if_False)
  qed
qed

text \<open>
  The records kept for a url are decided by the records of that url alone.
\<close>

lemma filter_settle_urls:
  "filter (\<lambda>r. url r = v) (settle_urls us rs []) =
     (if v \<in> set us then settle_url (filter (\<lambda>r. url r = v) rs) else [])"
proof (induction us arbitrary: rs)
  case (Cons u us)
  have "filter (\<lambda>r. url r = v) (settle_urls (u # us) rs []) =
      filter (\<lambda>r. url r = v) (settle_url (filter (\<lambda>r. url r = u) rs))
      @ filter (\<lambda>r. url r = v) (settle_urls us (filter (\<lambda>r. url r \<noteq> u) rs) [])"
    using settle_urls_acc[of us "filter (\<lambda>r. url r \<noteq> u) rs" "settle_url (filter (\<lambda>r. url r = u) rs)"] by simp
  moreover have "filter (\<lambda>r. url r = v) (filter (\<lambda>r. url r \<noteq> u) rs) =
      (if u = v then [] else filter (\<lambda>r. url r = v) rs)"
    by (cases "u = v") (simp_all add: filter_empty_conv conj_commute cong: conj_cong)
  ultimately show ?case using Cons.IH[of "filter (\<lambda>r. url r \<noteq> u) rs"]
    by (cases "u = v") (simp_all add: filter_settle_url settle_url_nil)
qed simp

lemma set_dedup_by_eq: "set (dedup_by (=) xs) = set xs"
  by (induction "(=) :: 'a \<Rightarrow> 'a \<Rightarrow> bool" xs rule: dedup_by.induct) auto

lemma update_records_filter:
  "filter (\<lambda>r. url r = u) (update_records cached other) =
     settle_url (sort (filter (\<lambda>r. url r = u) (cached @ other)))"
proof -
  have "filter (\<lambda>r. url r = u) (update_records cached other) =
      (if u \<in> set (map url (sort (cached @ other)))
       then settle_url (filter (\<lambda>r. url r = u) (sort (cached @ other))) else [])"
    by (simp only: update_records_def Let_def filter_settle_urls set_dedup_by_eq)
  also have "\<dots> = settle_url (filter (\<lambda>r. url r = u) (sort (cached @ other)))"
  proof (cases "u \<in> set (map url (sort (cached @ other)))")
    case False
    then have "filter (\<lambda>r. url r = u) (sort (cached @ other)) = []" by (auto simp: filter_empty_conv)
    then show ?thesis by (simp add: settle_url_nil)
  qed simp
  finally show ?thesis by (simp only: filter_sort)
qed

lemma sort_pair: "sort [a, b :: 'a :: linorder] = (if a \<le> b then [a, b] else [b, a])"
  by simp

section \<open>Properties\<close>

text \<open>
  What becomes of a url when a table entry is updated. Known to one side only, its record is kept.
  Known to both sides of the same network: a record with ttl 0 wins as such (a release), a record
  with ttl 255 wins as such (an announcement). So an announcement refreshes any live record to
  exactly one record with ttl 255, and a release replaces any aged record (ttl below 255) by exactly one
  record with ttl 0. But a release of a record that has not aged keeps both the dead and the
  live record, and two records that are neither fresh nor released are both dropped.
\<close>

theorem update_settles_url:
  assumes "filter (\<lambda>r. url r = u) cached = [Record n u t]"
  shows "(filter (\<lambda>r. url r = u) other = [] \<longrightarrow>
        filter (\<lambda>r. url r = u) (update_records cached other) = [Record n u t])
    \<and> (filter (\<lambda>r. url r = u) other = [Record n u 255] \<and> 0 < t \<and> t \<le> 255 \<longrightarrow>
        filter (\<lambda>r. url r = u) (update_records cached other) = [Record n u 255])
    \<and> (filter (\<lambda>r. url r = u) other = [Record n u 0] \<and> t < 255 \<longrightarrow>
        filter (\<lambda>r. url r = u) (update_records cached other) = [Record n u 0])
    \<and> (filter (\<lambda>r. url r = u) other = [Record n u 0] \<and> t = 255 \<longrightarrow>
        filter (\<lambda>r. url r = u) (update_records cached other) = [Record n u 0, Record n u 255])
    \<and> (\<forall>t'. filter (\<lambda>r. url r = u) other = [Record n u t'] \<and> 0 < t \<and> t < 255 \<and> 0 < t' \<and> t' < 255 \<longrightarrow>
        filter (\<lambda>r. url r = u) (update_records cached other) = [])"
proof -
  have one: "filter (\<lambda>r. url r = u) (update_records cached other) = settle_url (sort ([Record n u t] @ rs))"
    if "filter (\<lambda>r. url r = u) other = rs" for rs
    by (simp only: update_records_filter filter_append assms that)
  have le: "Record n u a \<le> Record n u b \<longleftrightarrow> a \<le> b" for a b by (simp add: less_eq_Record_def)
  show ?thesis
  proof (intro conjI impI allI)
    assume "filter (\<lambda>r. url r = u) other = []"
    from one[OF this] show "filter (\<lambda>r. url r = u) (update_records cached other) = [Record n u t]"
      by (simp add: settle_url_def)
  next
    assume *: "filter (\<lambda>r. url r = u) other = [Record n u 255] \<and> 0 < t \<and> t \<le> 255"
    from one[of "[Record n u 255]"] * show "filter (\<lambda>r. url r = u) (update_records cached other) = [Record n u 255]"
      by (auto simp: settle_url_def le)
  next
    assume *: "filter (\<lambda>r. url r = u) other = [Record n u 0] \<and> t < 255"
    from one[of "[Record n u 0]"] * show "filter (\<lambda>r. url r = u) (update_records cached other) = [Record n u 0]"
      by (auto simp: settle_url_def le)
  next
    assume *: "filter (\<lambda>r. url r = u) other = [Record n u 0] \<and> t = 255"
    from one[of "[Record n u 0]"] * show "filter (\<lambda>r. url r = u) (update_records cached other) = [Record n u 0, Record n u 255]"
      by (simp add: settle_url_def le)
  next
    fix t'
    assume *: "filter (\<lambda>r. url r = u) other = [Record n u t'] \<and> 0 < t \<and> t < 255 \<and> 0 < t' \<and> t' < 255"
    from one[of "[Record n u t']"] * show "filter (\<lambda>r. url r = u) (update_records cached other) = []"
      by (auto simp: settle_url_def le)
  qed
qed

text \<open>
  A url announced for two networks in one message is recorded for one of them only: duplicates are
  dropped by url among the sorted records, whatever their network. The announcement of a host
  lists the records of all its networks in one message.
\<close>

theorem same_url_two_networks_lost:
  assumes "n1 < n2"
  shows "to_dns_response_message [(n1, [Record n1 u t]), (n2, [Record n2 u t])] [n1, n2] = Some m \<longrightarrow>
    from_dns_message m = Some [(n1, [Record n1 u t])]"
proof
  assume "to_dns_response_message [(n1, [Record n1 u t]), (n2, [Record n2 u t])] [n1, n2] = Some m"
  then have "answers m = [to_answers_section (Record n1 u t), to_answers_section (Record n2 u t)]"
    using assms by (auto simp: to_dns_response_message_def Let_def DnsMessage_default_def)
  moreover have "record_of_answer (to_answers_section r) = Some r" for r
    by (cases r) (simp add: record_of_answer_def to_answers_section_def AnswerSection_new_with_ttl_def
        AnswerSection_default_def to_target_def Target_new_def Record_new_def)
  moreover have "Record n1 u t \<le> Record n2 u t" using assms by (simp add: less_eq_Record_def)
  ultimately show "from_dns_message m = Some [(n1, [Record n1 u t])]"
    by (simp add: from_dns_message_def answer_records_def List.map_filter_def MapRecord_with_record_def)
qed

section \<open>Witnesses\<close>

theorem update_settles_url_witness:
  "filter (\<lambda>r. url r = [1]) (update_records [Record [9] [1] 250] [Record [9] [1] 255]) = [Record [9] [1] 255]
   \<and> filter (\<lambda>r. url r = [1]) (update_records [Record [9] [1] 250] [Record [9] [1] 0]) = [Record [9] [1] 0]"
  using update_settles_url[of "[1]" "[Record [9] [1] 250]" "[9]" 250 "[Record [9] [1] 255]"]
    update_settles_url[of "[1]" "[Record [9] [1] 250]" "[9]" 250 "[Record [9] [1] 0]"]
  by simp

theorem same_url_two_networks_lost_witness:
  "\<exists>m. to_dns_response_message [([1], [Record [1] [7] 255]), ([2], [Record [2] [7] 255])] [[1], [2]] = Some m
     \<and> from_dns_message m = Some [([1], [Record [1] [7] 255])]"
proof -
  have "[1] < ([2] :: bytes)" by simp
  moreover obtain m where "to_dns_response_message [([1], [Record [1] [7] 255]), ([2], [Record [2] [7] 255])] [[1], [2]] = Some m"
    by (simp add: to_dns_response_message_def Let_def)
  ultimately show ?thesis using same_url_two_networks_lost[of "[1]" "[2]" "[7]" 255 m] by blast
qed

end
