(* ===== verification/Mdns.thy ===== *)
theory Mdns
  imports Mdns_Record
begin

text \<open>
  The multicast DNS node (\<open>crates/mdns/src/lib.rs\<close> and \<open>builder.rs\<close>): its configuration, the cache
  of records heard on the network, the responder that empties the socket, queries, announcements
  and the \<open>Discovery\<close> operations.

  The receiving socket is the list of what its \<open>recv_from\<close> calls will give (an exhausted list
  would block), the sending socket the list of what was sent. Address resolution, the result of
  \<open>send_to\<close> and the url parser are arguments (\<open>mdns_env\<close>, \<open>socket_api\<close>). The code of the
  crate is the same on all systems but for the truncation of long datagrams: \<open>recv_from\<close> keeps the
  first \<open>READ_BUF_SIZE\<close> bytes, as on Unix.
\<close>

section \<open>Constants and state\<close>

definition READ_BUF_SIZE :: nat where
  "READ_BUF_SIZE = 4096"

definition SERVICE_LISTENER_PORT :: u16 where
  "SERVICE_LISTENER_PORT = 8585"

definition MDNS_MULCAST_IPV4_ADRESS :: string where
  "MDNS_MULCAST_IPV4_ADRESS = ''224.0.0.251''"

definition DEFAULT_BIND_ADRESS :: string where
  "DEFAULT_BIND_ADRESS = ''0.0.0.0''"

definition DEFAULT_QUERY_INTERVAL_MS :: nat where
  "DEFAULT_QUERY_INTERVAL_MS = 30000"

type_synonym SocketAddr = string

datatype recv_event = Datagram bytes SocketAddr | RecvError string

record MulticastDns =
  md_bind_address :: string
  md_bind_port :: u16
  md_multicast_loop :: bool
  md_multicast_ttl :: u32
  md_multicast_address :: string
  md_timestamp :: time
  md_query_interval_ms :: nat
  md_send_socket :: "(bytes \<times> SocketAddr) list"
  md_recv_socket :: "recv_event list"
  md_buffer :: bytes
  md_own_map_record :: MapRecord
  md_map_record :: MapRecord

record mdns_env =
  env_byteorder :: byteorder
  to_socket_addrs :: "string \<Rightarrow> u16 \<Rightarrow> string + SocketAddr list"
  send_to :: "(bytes \<times> SocketAddr) list \<Rightarrow> bytes \<Rightarrow> SocketAddr \<Rightarrow> string + nat"
  Url_parse :: "bytes \<Rightarrow> string option"
  utf8_error_text :: string

type_synonym 'a mdns_result = "(MulticastDns, MulticastDnsError, 'a) outcome"

section \<open>Builder\<close>

record MulticastDnsBuilder =
  b_bind_address :: string
  b_bind_port :: u16
  b_multicast_loop :: bool
  b_multicast_ttl :: u32
  b_multicast_address :: string
  b_query_interval_ms :: nat
  b_own_map_record :: MapRecord

definition MulticastDnsBuilder_default :: MulticastDnsBuilder where
  "MulticastDnsBuilder_default = \<lparr>b_bind_address = DEFAULT_BIND_ADRESS, b_bind_port = SERVICE_LISTENER_PORT,
     b_multicast_loop = True, b_multicast_ttl = DEFAULT_TTL, b_multicast_address = MDNS_MULCAST_IPV4_ADRESS,
     b_query_interval_ms = DEFAULT_QUERY_INTERVAL_MS, b_own_map_record = []\<rparr>"

definition MulticastDnsBuilder_new :: MulticastDnsBuilder where
  "MulticastDnsBuilder_new = MulticastDnsBuilder_default"

definition with_own_record :: "bytes \<Rightarrow> Record \<Rightarrow> MulticastDnsBuilder" where
  "with_own_record nid rec = MulticastDnsBuilder_default\<lparr>b_own_map_record := MapRecord_with_record nid [rec]\<rparr>"

definition set_bind_address :: "string \<Rightarrow> MulticastDnsBuilder \<Rightarrow> MulticastDnsBuilder" where
  "set_bind_address addr b = b\<lparr>b_bind_address := addr\<rparr>"

definition set_bind_port :: "u16 \<Rightarrow> MulticastDnsBuilder \<Rightarrow> MulticastDnsBuilder" where
  "set_bind_port p b = b\<lparr>b_bind_port := p\<rparr>"

definition set_multicast_loop :: "bool \<Rightarrow> MulticastDnsBuilder \<Rightarrow> MulticastDnsBuilder" where
  "set_multicast_loop should_loop b = b\<lparr>b_multicast_loop := should_loop\<rparr>"

definition set_multicast_ttl :: "u32 \<Rightarrow> MulticastDnsBuilder \<Rightarrow> MulticastDnsBuilder" where
  "set_multicast_ttl t b = b\<lparr>b_multicast_ttl := t\<rparr>"

definition set_multicast_address :: "string \<Rightarrow> MulticastDnsBuilder \<Rightarrow> MulticastDnsBuilder" where
  "set_multicast_address addr b = b\<lparr>b_multicast_address := addr\<rparr>"

definition set_query_interval_ms :: "nat \<Rightarrow> MulticastDnsBuilder \<Rightarrow> MulticastDnsBuilder" where
  "set_query_interval_ms every_ms b = b\<lparr>b_query_interval_ms := every_ms\<rparr>"

definition own_record :: "bytes \<Rightarrow> bytes list \<Rightarrow> MulticastDnsBuilder \<Rightarrow> MulticastDnsBuilder" where
  "own_record nid urls b =
     b\<lparr>b_own_map_record := AList.update nid (map (\<lambda>u. Record_new nid u DEFAULT_TTL) urls) (b_own_map_record b)\<rparr>"

text \<open>
  What the operating system answers to each call that sets up a socket; \<open>None\<close> is success. The
  number tells the receiving (0) from the sending (1) socket.
\<close>

record socket_api =
  new_v4 :: "nat \<Rightarrow> string option"
  reuse_address :: "nat \<Rightarrow> string option"
  reuse_port :: "nat \<Rightarrow> string option"
  bind_to :: "nat \<Rightarrow> string \<Rightarrow> u16 \<Rightarrow> string option"
  set_nonblocking :: "nat \<Rightarrow> string option"
  set_multicast_loop_v4 :: "bool \<Rightarrow> string option"
  set_multicast_ttl_v4 :: "u32 \<Rightarrow> string option"
  parse_ipv4 :: "string \<Rightarrow> string + string"
  join_multicast_v4 :: "string \<Rightarrow> string \<Rightarrow> string option"

text \<open>\<open>?\<close> on a call that gives an I/O error or nothing of interest.\<close>

fun io :: "string option \<Rightarrow> MulticastDnsError + unit" where
  "io (Some e) = Inl (MdnsIo e)"
| "io None = Inr ()"

definition create_socket :: "socket_api \<Rightarrow> nat \<Rightarrow> string \<Rightarrow> u16 \<Rightarrow> MulticastDnsError + unit" where
  "create_socket api i addr port =
     and_then (io (new_v4 api i)) (\<lambda>_.
     and_then (io (reuse_address api i)) (\<lambda>_.
     and_then (io (reuse_port api i)) (\<lambda>_.
     io (bind_to api i addr port))))"

definition parse_address :: "socket_api \<Rightarrow> string \<Rightarrow> MulticastDnsError + string" where
  "parse_address api addr = map_sum MdnsAddrParseError id (parse_ipv4 api addr)"

definition build :: "socket_api \<Rightarrow> time \<Rightarrow> MulticastDnsBuilder \<Rightarrow> MulticastDnsError + MulticastDns" where
  "build api now b =
     and_then (create_socket api 0 (b_bind_address b) (b_bind_port b)) (\<lambda>_.
     and_then (io (set_nonblocking api 0)) (\<lambda>_.
     and_then (io (set_multicast_loop_v4 api (b_multicast_loop b))) (\<lambda>_.
     and_then (io (set_multicast_ttl_v4 api (b_multicast_ttl b))) (\<lambda>_.
     and_then (parse_address api (b_multicast_address b)) (\<lambda>multiaddr.
     and_then (parse_address api (b_bind_address b)) (\<lambda>iface.
     and_then (io (join_multicast_v4 api multiaddr iface)) (\<lambda>_.
     and_then (create_socket api 1 (b_bind_address b) (b_bind_port b)) (\<lambda>_.
     and_then (io (set_nonblocking api 1)) (\<lambda>_.
       Inr \<lparr>md_bind_address = b_bind_address b, md_bind_port = b_bind_port b,
         md_multicast_loop = b_multicast_loop b, md_multicast_ttl = b_multicast_ttl b,
         md_multicast_address = b_multicast_address b, md_timestamp = now,
         md_query_interval_ms = b_query_interval_ms b, md_send_socket = [], md_recv_socket = [],
         md_buffer = replicate READ_BUF_SIZE 0, md_own_map_record = b_own_map_record b,
         md_map_record = []\<rparr>)))))))))"

section \<open>Records of the node\<close>

definition own_urls :: "MulticastDns \<Rightarrow> bytes list" where
  "own_urls s = concat (map (\<lambda>(_, v). map url v) (md_own_map_record s))"

definition urls :: "mdns_env \<Rightarrow> MulticastDns \<Rightarrow> string list" where
  "urls env s = concat (map (\<lambda>(_, v). List.map_filter (\<lambda>r. Url_parse env (url r)) v) (md_map_record s))"

definition own_networkids :: "MulticastDns \<Rightarrow> bytes list" where
  "own_networkids s = keys (md_own_map_record s)"

definition insert_own_record :: "bytes \<Rightarrow> bytes list \<Rightarrow> MulticastDns \<Rightarrow> MulticastDns" where
  "insert_own_record netid us s =
     s\<lparr>md_own_map_record := AList.update netid (map (\<lambda>u. Record_new netid u 255) us) (md_own_map_record s)\<rparr>"

definition insert_record :: "bytes \<Rightarrow> bytes list \<Rightarrow> MulticastDns \<Rightarrow> MulticastDns" where
  "insert_record netid us s =
     s\<lparr>md_map_record := AList.update netid (map (\<lambda>u. Record_new netid u 255) us) (md_map_record s)\<rparr>"

definition update_cache :: "MapRecord \<Rightarrow> MulticastDns \<Rightarrow> MulticastDns" where
  "update_cache other s = s\<lparr>md_map_record := MapRecord_update (md_map_record s) other\<rparr>"

section \<open>Sending and receiving\<close>

definition socket_send :: "mdns_env \<Rightarrow> bytes \<Rightarrow> SocketAddr \<Rightarrow> MulticastDns \<Rightarrow> nat mdns_result" where
  "socket_send env data addr s =
     (case send_to env (md_send_socket s) data addr of
        Inl e \<Rightarrow> Err (MdnsIo e) s
      | Inr n \<Rightarrow> Ok n (s\<lparr>md_send_socket := md_send_socket s @ [(data, addr)]\<rparr>))"

definition broadcast :: "mdns_env \<Rightarrow> bytes \<Rightarrow> MulticastDns \<Rightarrow> nat mdns_result" where
  "broadcast env data s =
     (case to_socket_addrs env (md_multicast_address s) (md_bind_port s) of
        Inl e \<Rightarrow> Err (MdnsIo e) s
      | Inr [] \<Rightarrow> Err MdnsNoneError s
      | Inr (addr # _) \<Rightarrow> socket_send env data addr s)"

definition broadcast_message :: "mdns_env \<Rightarrow> DnsMessage \<Rightarrow> MulticastDns \<Rightarrow> nat mdns_result" where
  "broadcast_message env dmesg s =
     (case to_socket_addrs env (md_multicast_address s) (md_bind_port s) of
        Inl e \<Rightarrow> Err (MdnsIo e) s
      | Inr [] \<Rightarrow> Err MdnsNoneError s
      | Inr (addr # _) \<Rightarrow> socket_send env (DnsMessage_to_raw (env_byteorder env) dmesg) addr s)"

definition clear_buffer :: "MulticastDns \<Rightarrow> MulticastDns" where
  "clear_buffer s = s\<lparr>md_buffer := replicate READ_BUF_SIZE 0\<rparr>"

text \<open>
  \<open>recv_from\<close> copies a datagram over the start of the buffer; what does not fit is lost.
\<close>

definition fill_buffer :: "bytes \<Rightarrow> bytes \<Rightarrow> bytes" where
  "fill_buffer d buf = take (length buf) d @ drop (length d) buf"

definition recv :: "MulticastDns \<Rightarrow> (bytes \<times> SocketAddr) option mdns_result" where
  "recv s0 =
     (let s = clear_buffer s0
      in case md_recv_socket s of
           [] \<Rightarrow> Ok None s
         | RecvError k # evs \<Rightarrow>
             (if k = ''WouldBlock'' then Ok None (s\<lparr>md_recv_socket := evs\<rparr>)
              else Err (MdnsIo k) (s\<lparr>md_recv_socket := evs\<rparr>))
         | Datagram d addr # evs \<Rightarrow>
             (let num_bytes = min (length d) READ_BUF_SIZE;
                  s1 = s\<lparr>md_recv_socket := evs, md_buffer := fill_buffer d (md_buffer s)\<rparr>
              in if num_bytes = 0 then Ok None s1 else Ok (Some (take num_bytes (md_buffer s1), addr)) s1))"

section \<open>The cache over time\<close>

definition prune_cache :: "MulticastDns \<Rightarrow> MulticastDns" where
  "prune_cache s = s\<lparr>md_map_record := map (\<lambda>(n, rs). (n, filter (\<lambda>r. ttl r \<noteq> 0) rs)) (md_map_record s)\<rparr>"

definition age_record :: "bytes list \<Rightarrow> Record \<Rightarrow> Record" where
  "age_record own r =
     (if url r \<notin> set own \<and> ttl r > 0 then Record (networkid r) (url r) (ttl r - 1) else r)"

definition update_ttl :: "MulticastDns \<Rightarrow> MulticastDns" where
  "update_ttl s =
     (let own = own_urls s
      in s\<lparr>md_map_record := map (\<lambda>(n, rs). (n, map (age_record own) rs)) (md_map_record s)\<rparr>)"

section \<open>Queries and responses\<close>

definition build_query_message :: "MulticastDns \<Rightarrow> DnsMessage option" where
  "build_query_message s =
     (if md_own_map_record s = [] then None
      else let questions = concat (map (\<lambda>(_, rs). map to_question_section rs) (md_own_map_record s))
           in Some (DnsMessage_default\<lparr>nb_questions := of_nat (length questions), questions := questions\<rparr>))"

definition build_probe_packet :: "MulticastDns \<Rightarrow> DnsMessage" where
  "build_probe_packet s =
     (let questions = map QuerySection_new (keys (md_own_map_record s))
      in DnsMessage_default\<lparr>nb_questions := of_nat (length questions), questions := questions\<rparr>)"

text \<open>\<open>n\<close> broadcasts of the same message, one statement each in the code.\<close>

fun broadcast_times :: "mdns_env \<Rightarrow> nat \<Rightarrow> DnsMessage \<Rightarrow> MulticastDns \<Rightarrow> unit mdns_result" where
  "broadcast_times env 0 m s = Ok () s"
| "broadcast_times env (Suc k) m s = bind_ok (broadcast_message env m s) (\<lambda>_. broadcast_times env k m)"

definition query :: "mdns_env \<Rightarrow> MulticastDns \<Rightarrow> unit mdns_result" where
  "query env s =
     (case build_query_message s of Some m \<Rightarrow> broadcast_times env 3 m s | None \<Rightarrow> Ok () s)"

definition announcing :: "mdns_env \<Rightarrow> MulticastDns \<Rightarrow> unit mdns_result" where
  "announcing env s =
     (case to_dns_response_message (md_own_map_record s) (own_networkids s) of
        Some m \<Rightarrow> broadcast_times env 3 m s | None \<Rightarrow> Ok () s)"

text \<open>The answers of a message, filed for the networks this node belongs to.\<close>

definition cache_answers :: "DnsMessage \<Rightarrow> MulticastDns \<Rightarrow> MulticastDns" where
  "cache_answers dmesg s =
     (case from_dns_message dmesg of
        None \<Rightarrow> s
      | Some new_map_record \<Rightarrow>
          let own = own_networkids s
          in fold (\<lambda>(netid, new_records) s.
               if netid \<in> set own then update_cache (MapRecord_with_record netid new_records) s else s)
             new_map_record s)"

definition question_list :: "DnsMessage \<Rightarrow> bytes list" where
  "question_list dmesg =
     map q_domain_name (filter (\<lambda>q. query_class q = 1 \<and> query_type q = 5) (questions dmesg))"

definition answer_questions :: "mdns_env \<Rightarrow> DnsMessage \<Rightarrow> SocketAddr \<Rightarrow> MulticastDns \<Rightarrow> unit mdns_result" where
  "answer_questions env dmesg sender_addr s =
     (case to_dns_response_message (md_own_map_record s) (question_list dmesg) of
        None \<Rightarrow> Ok () s
      | Some response \<Rightarrow>
          bind_ok (socket_send env (DnsMessage_to_raw (env_byteorder env) response) sender_addr s) (\<lambda>_ s.
          bind_ok (broadcast_message env response s) (\<lambda>_ s. Ok () s)))"

definition handle_packet :: "mdns_env \<Rightarrow> bytes \<Rightarrow> SocketAddr \<Rightarrow> MulticastDns \<Rightarrow> unit mdns_result" where
  "handle_packet env packet sender_addr s =
     (case DnsMessage_from_raw (env_byteorder env) packet of
        Inl e \<Rightarrow> Err e s
      | Inr dmesg \<Rightarrow>
          if nb_answers dmesg > 0 then Ok () (cache_answers dmesg s)
          else if nb_questions dmesg > 0 then answer_questions env dmesg sender_addr s
          else Ok () s)"

lemma fold_keeps: "(\<And>x s. f (g x s) = f s) \<Longrightarrow> f (fold g xs s) = f s"
  by (induction xs arbitrary: s) auto

named_theorems mdns_frame \<open>what an operation of the node leaves unchanged\<close>

lemma update_cache_frame [mdns_frame]:
  "md_recv_socket (update_cache m s) = md_recv_socket s" "md_own_map_record (update_cache m s) = md_own_map_record s"
  "md_send_socket (update_cache m s) = md_send_socket s" "md_multicast_address (update_cache m s) = md_multicast_address s"
  "md_bind_port (update_cache m s) = md_bind_port s" "md_timestamp (update_cache m s) = md_timestamp s"
  "md_query_interval_ms (update_cache m s) = md_query_interval_ms s"
  by (simp_all add: update_cache_def)

lemma cache_answers_frame [mdns_frame]:
  "md_recv_socket (cache_answers m s) = md_recv_socket s" "md_own_map_record (cache_answers m s) = md_own_map_record s"
  "md_send_socket (cache_answers m s) = md_send_socket s" "md_multicast_address (cache_answers m s) = md_multicast_address s"
  "md_bind_port (cache_answers m s) = md_bind_port s" "md_timestamp (cache_answers m s) = md_timestamp s"
  "md_query_interval_ms (cache_answers m s) = md_query_interval_ms s"
  by (auto simp: cache_answers_def Let_def mdns_frame intro!: fold_keeps split: option.splits)

text \<open>Sending changes the log of the sending socket and nothing else.\<close>

definition sends_only :: "MulticastDns \<Rightarrow> MulticastDns \<Rightarrow> bool" where
  "sends_only s t \<longleftrightarrow> (\<exists>ds. t = s\<lparr>md_send_socket := md_send_socket s @ ds\<rparr>)"

lemma sends_only_refl [intro!]: "sends_only s s"
  unfolding sends_only_def by (rule exI[of _ "[]"]) simp

lemma sends_only_trans: "sends_only s t \<Longrightarrow> sends_only t u \<Longrightarrow> sends_only s u"
  by (auto simp: sends_only_def)

lemma sends_only_frame:
  assumes "sends_only s t"
  shows "md_recv_socket t = md_recv_socket s" "md_own_map_record t = md_own_map_record s"
    "md_map_record t = md_map_record s" "md_timestamp t = md_timestamp s"
    "md_query_interval_ms t = md_query_interval_ms s" "md_multicast_address t = md_multicast_address s"
    "md_bind_port t = md_bind_port s"
  using assms by (auto simp: sends_only_def)

lemma socket_send_sends: "final_state (socket_send env d a s) = Some t \<Longrightarrow> sends_only s t"
  by (cases "send_to env (md_send_socket s) d a") (auto simp: socket_send_def, auto simp: sends_only_def)

lemma broadcast_message_sends: "final_state (broadcast_message env m s) = Some t \<Longrightarrow> sends_only s t"
  by (auto simp: broadcast_message_def dest: socket_send_sends split: sum.splits list.splits)

lemma broadcast_times_sends: "final_state (broadcast_times env k m s) = Some t \<Longrightarrow> sends_only s t"
proof (induction k arbitrary: s)
  case (Suc k)
  then show ?case using broadcast_message_sends[of env m s]
    by (auto simp: final_state_bind_ok split: outcome.splits intro: sends_only_trans)
qed auto

lemma query_sends: "final_state (query env s) = Some t \<Longrightarrow> sends_only s t"
  by (auto simp: query_def dest: broadcast_times_sends split: option.splits)

lemma answer_questions_sends: "final_state (answer_questions env m a s) = Some t \<Longrightarrow> sends_only s t"
  using socket_send_sends broadcast_message_sends
  by (auto simp: answer_questions_def final_state_bind_ok split: option.splits outcome.splits)
    (metis final_state.simps sends_only_trans)+

lemma handle_packet_recv_socket:
  "final_state (handle_packet env p a s) = Some t \<Longrightarrow> md_recv_socket t = md_recv_socket s"
  by (auto simp: handle_packet_def mdns_frame split: sum.splits if_splits
      dest!: answer_questions_sends sends_only_frame(1))

section \<open>The responder and the discovery operations\<close>

function responder :: "mdns_env \<Rightarrow> MulticastDns \<Rightarrow> unit mdns_result" where
  "responder env s =
     (case recv s of
        Ok (Some (packet, sender_addr)) s1 \<Rightarrow> bind_ok (handle_packet env packet sender_addr s1) (\<lambda>_. responder env)
      | Ok None s1 \<Rightarrow> Ok () s1
      | Err e s1 \<Rightarrow> Ok () s1
      | Panic m \<Rightarrow> Panic m)"
  by pat_completeness auto

lemma recv_progress:
  "recv s = Ok (Some p) t \<Longrightarrow> length (md_recv_socket t) < length (md_recv_socket s)"
  by (auto simp: recv_def clear_buffer_def Let_def split: list.splits recv_event.splits if_splits)

termination responder
  by (relation "measure (\<lambda>(env, s). length (md_recv_socket s))")
    (auto dest!: recv_progress handle_packet_recv_socket[OF arg_cong[where f = final_state, THEN trans], OF _ final_state.simps(1)])

declare responder.simps [simp del]

text \<open>
  \<open>Display\<close> of the errors; \<open>None\<close> is the \<open>unreachable!\<close> arm. The text of a \<open>Utf8Error\<close> names the
  offending position, which the model of the error does not keep, so it is an argument.
\<close>

fun MulticastDnsError_display :: "string \<Rightarrow> MulticastDnsError \<Rightarrow> string option" where
  "MulticastDnsError_display utf8_text (MdnsIo e) = Some e"
| "MulticastDnsError_display utf8_text MdnsNoneError = Some ''None value encountered.''"
| "MulticastDnsError_display utf8_text (MdnsAddrParseError e) = Some e"
| "MulticastDnsError_display utf8_text ProbeError = Some ''Error during probe.''"
| "MulticastDnsError_display utf8_text NoAvailablePort = Some ''No available port found on the host.''"
| "MulticastDnsError_display utf8_text Utf8Error = Some utf8_text"
| "MulticastDnsError_display utf8_text (MdnsDiscoveryError e) = Some e"
| "MulticastDnsError_display utf8_text (MdnsOther s) =
     Some (''Unknown error encountered: '' @ [CHR 0x27] @ s @ [CHR 0x27] @ ''.'')"
| "MulticastDnsError_display utf8_text _ = None"

datatype DiscoveryError = DiscoveryIo string | DiscoveryOther string

text \<open>\<open>?\<close> in a \<open>Discovery\<close> operation: \<open>From<MulticastDnsError> for DiscoveryError\<close>.\<close>

fun to_discovery :: "mdns_env \<Rightarrow> ('s, MulticastDnsError, 'a) outcome \<Rightarrow> ('s, DiscoveryError, 'a) outcome" where
  "to_discovery env (Ok v s) = Ok v s"
| "to_discovery env (Err e s) =
     (case MulticastDnsError_display (utf8_error_text env) e of
        Some text \<Rightarrow> Err (DiscoveryOther text) s | None \<Rightarrow> Panic ''unreachable'')"
| "to_discovery env (Panic m) = Panic m"

definition advertise :: "mdns_env \<Rightarrow> MulticastDns \<Rightarrow> (MulticastDns, DiscoveryError, unit) outcome" where
  "advertise env s =
     bind_ok (to_discovery env (query env s)) (\<lambda>_ s. to_discovery env (announcing env s))"

text \<open>\<open>now\<close> is when the elapsed time is read, \<open>now'\<close> when the timestamp is taken.\<close>

definition discover :: "mdns_env \<Rightarrow> time \<times> time \<Rightarrow> MulticastDns \<Rightarrow> (MulticastDns, DiscoveryError, string list) outcome" where
  "discover env clock s =
     bind_ok (to_discovery env (responder env s)) (\<lambda>_ s.
     bind_ok (if fst clock - md_timestamp s > md_query_interval_ms s
              then bind_ok (to_discovery env (query env s)) (\<lambda>_ s. Ok () (s\<lparr>md_timestamp := snd clock\<rparr>))
              else Ok () s) (\<lambda>_ s.
     let s' = prune_cache (update_ttl s) in Ok (urls env s') s'))"

definition release :: "mdns_env \<Rightarrow> MulticastDns \<Rightarrow> (MulticastDns, DiscoveryError, unit) outcome" where
  "release env s0 =
     (let s = s0\<lparr>md_own_map_record :=
                map (\<lambda>(n, rs). (n, map (\<lambda>r. Record (networkid r) (url r) 0) rs)) (md_own_map_record s0)\<rparr>
      in case to_dns_response_message (md_own_map_record s) (own_networkids s) of
           Some m \<Rightarrow> to_discovery env (broadcast_times env 4 m s)
         | None \<Rightarrow> Ok () s)"

definition flush :: "MulticastDns \<Rightarrow> (MulticastDns, DiscoveryError, unit) outcome" where
  "flush s = Ok () (s\<lparr>md_map_record := []\<rparr>)"

section \<open>Lemmas: the responder\<close>

text \<open>What the operations need of the network: the multicast address resolves and sends succeed.\<close>

definition network_up :: "mdns_env \<Rightarrow> MulticastDns \<Rightarrow> bool" where
  "network_up env s \<longleftrightarrow> (\<exists>a as. to_socket_addrs env (md_multicast_address s) (md_bind_port s) = Inr (a # as))
     \<and> (\<forall>log d a. \<exists>n. send_to env log d a = Inr n)"

lemma network_up_frame:
  "md_multicast_address t = md_multicast_address s \<Longrightarrow> md_bind_port t = md_bind_port s \<Longrightarrow>
     network_up env t = network_up env s"
  by (simp add: network_up_def)

lemma socket_send_up:
  assumes "network_up env s"
  shows "\<exists>n. socket_send env d a s = Ok n (s\<lparr>md_send_socket := md_send_socket s @ [(d, a)]\<rparr>)"
proof -
  obtain n where "send_to env (md_send_socket s) d a = Inr n" using assms unfolding network_up_def by blast
  then show ?thesis by (simp add: socket_send_def)
qed

lemma broadcast_message_up:
  assumes "network_up env s"
  shows "\<exists>n. broadcast_message env m s = Ok n (s\<lparr>md_send_socket := md_send_socket s @
     [(DnsMessage_to_raw (env_byteorder env) m, hd (projr (to_socket_addrs env (md_multicast_address s) (md_bind_port s))))]\<rparr>)"
proof -
  obtain a as where "to_socket_addrs env (md_multicast_address s) (md_bind_port s) = Inr (a # as)"
    using assms by (auto simp: network_up_def)
  then show ?thesis using socket_send_up[OF assms] by (simp add: broadcast_message_def)
qed

lemma broadcast_times_up:
  assumes "network_up env s"
  shows "broadcast_times env k m s = Ok () (s\<lparr>md_send_socket := md_send_socket s @ replicate k
     (DnsMessage_to_raw (env_byteorder env) m, hd (projr (to_socket_addrs env (md_multicast_address s) (md_bind_port s))))\<rparr>)"
  using assms
proof (induction k arbitrary: s)
  case (Suc k)
  let ?p = "(DnsMessage_to_raw (env_byteorder env) m, hd (projr (to_socket_addrs env (md_multicast_address s) (md_bind_port s))))"
  obtain n where "broadcast_message env m s = Ok n (s\<lparr>md_send_socket := md_send_socket s @ [?p]\<rparr>)"
    using broadcast_message_up[OF Suc.prems] by auto
  moreover have "network_up env (s\<lparr>md_send_socket := md_send_socket s @ [?p]\<rparr>)"
    using Suc.prems by (simp add: network_up_def)
  ultimately show ?case using Suc.IH by simp
qed simp

lemma query_up: "network_up env s \<Longrightarrow> \<exists>t. query env s = Ok () t \<and> sends_only s t"
  by (cases "build_query_message s") (auto simp: query_def broadcast_times_up, auto simp: sends_only_def)

lemma answer_questions_up:
  assumes "network_up env s"
  shows "\<exists>t. answer_questions env m a s = Ok () t \<and> sends_only s t"
proof (cases "to_dns_response_message (md_own_map_record s) (question_list m)")
  case None
  then show ?thesis by (auto simp: answer_questions_def)
next
  case (Some r)
  let ?s1 = "s\<lparr>md_send_socket := md_send_socket s @ [(DnsMessage_to_raw (env_byteorder env) r, a)]\<rparr>"
  have "network_up env ?s1" using assms by (simp add: network_up_def)
  from socket_send_up[OF assms, of "DnsMessage_to_raw (env_byteorder env) r" a] broadcast_message_up[OF this, of r]
  show ?thesis using Some by (auto simp: answer_questions_def sends_only_def)
qed

lemma responder_empty: "md_recv_socket s = [] \<Longrightarrow> responder env s = Ok () (clear_buffer s)"
  by (simp add: responder.simps[of env s] recv_def clear_buffer_def)

text \<open>Reading the first datagram of the queue.\<close>

definition received :: "bytes \<Rightarrow> MulticastDns \<Rightarrow> MulticastDns" where
  "received d s = s\<lparr>md_recv_socket := tl (md_recv_socket s), md_buffer := fill_buffer d (replicate READ_BUF_SIZE 0)\<rparr>"

lemma received_frame [mdns_frame]:
  "md_own_map_record (received d s) = md_own_map_record s" "md_map_record (received d s) = md_map_record s"
  "md_send_socket (received d s) = md_send_socket s" "md_multicast_address (received d s) = md_multicast_address s"
  "md_bind_port (received d s) = md_bind_port s" "md_timestamp (received d s) = md_timestamp s"
  "md_query_interval_ms (received d s) = md_query_interval_ms s"
  by (simp_all add: received_def)

lemma responder_datagram:
  assumes "md_recv_socket s = Datagram d a # evs" and "d \<noteq> []"
  shows "responder env s = bind_ok (handle_packet env (take READ_BUF_SIZE d) a (received d s)) (\<lambda>_. responder env)"
proof -
  have "recv s = Ok (Some (take READ_BUF_SIZE d, a)) (received d s)"
    using assms by (simp add: recv_def clear_buffer_def received_def fill_buffer_def Let_def min_def READ_BUF_SIZE_def)
  then show ?thesis by (simp add: responder.simps[of env s])
qed

text \<open>The packet the responder reads off a queue entry, if it is one it understands.\<close>

definition understood :: "mdns_env \<Rightarrow> recv_event \<Rightarrow> bool" where
  "understood env ev = (case ev of RecvError _ \<Rightarrow> False
     | Datagram d a \<Rightarrow> d \<noteq> [] \<and> (\<exists>m. DnsMessage_from_raw (env_byteorder env) (take READ_BUF_SIZE d) = Inr m))"

lemma handle_packet_up:
  assumes "network_up env s" and "DnsMessage_from_raw (env_byteorder env) p = Inr m"
  shows "\<exists>t. handle_packet env p a s = Ok () t \<and> network_up env t \<and> md_recv_socket t = md_recv_socket s"
proof -
  consider "0 < nb_answers m" | "\<not> 0 < nb_answers m" "0 < nb_questions m" | "\<not> 0 < nb_answers m" "\<not> 0 < nb_questions m"
    by blast
  then show ?thesis
  proof cases
    case 1
    have "network_up env (cache_answers m s) = network_up env s"
      by (rule network_up_frame) (simp_all add: mdns_frame)
    with 1 assms show ?thesis by (simp add: handle_packet_def mdns_frame)
  next
    case 2
    obtain t where "answer_questions env m a s = Ok () t" "sends_only s t" using answer_questions_up[OF assms(1)] by blast
    then show ?thesis using 2 assms network_up_frame[OF sends_only_frame(6,7)[OF \<open>sends_only s t\<close>]] sends_only_frame(1)[OF \<open>sends_only s t\<close>]
      by (simp add: handle_packet_def)
  qed (use assms in \<open>auto simp: handle_packet_def\<close>)
qed

lemma responder_drains_understood:
  assumes "network_up env s" and "md_recv_socket s = evs @ post" and "list_all (understood env) evs"
  shows "\<exists>t. responder env s = responder env t \<and> network_up env t \<and> md_recv_socket t = post"
  using assms
proof (induction evs arbitrary: s)
  case (Cons ev evs)
  then obtain d a m where ev: "ev = Datagram d a" "d \<noteq> []"
    and m: "DnsMessage_from_raw (env_byteorder env) (take READ_BUF_SIZE d) = Inr m"
    by (auto simp: understood_def split: recv_event.splits)
  have "network_up env (received d s)" using Cons.prems(1) by (simp add: network_up_def mdns_frame)
  from handle_packet_up[OF this m] obtain t where t: "handle_packet env (take READ_BUF_SIZE d) a (received d s) = Ok () t"
    "network_up env t" "md_recv_socket t = md_recv_socket (received d s)" by blast
  with Cons.prems(2) ev have "md_recv_socket t = evs @ post" by (simp add: received_def)
  moreover have "responder env s = responder env t" using responder_datagram[of s d a "evs @ post" env] Cons.prems(2) ev t by simp
  ultimately show ?case using Cons.IH[OF t(2)] Cons.prems(3) by simp
qed auto

section \<open>Lemmas: ageing\<close>

text \<open>
  A cache after \<open>k\<close> rounds without news: the records of this node are kept as they are, every other
  record has lost \<open>k\<close> of its time to live and is gone once nothing is left of it.
\<close>

definition expire_records :: "bytes list \<Rightarrow> nat \<Rightarrow> Record list \<Rightarrow> Record list" where
  "expire_records own k rs =
     map (\<lambda>r. if url r \<in> set own then r else Record (networkid r) (url r) (ttl r - of_nat k))
       (filter (\<lambda>r. if url r \<in> set own then ttl r \<noteq> 0 else k < unat (ttl r)) rs)"

definition expire :: "bytes list \<Rightarrow> nat \<Rightarrow> MapRecord \<Rightarrow> MapRecord" where
  "expire own k m = map (\<lambda>(n, rs). (n, expire_records own k rs)) m"

lemma unat_minus_of_nat: "k \<le> unat (w :: u32) \<Longrightarrow> unat (w - of_nat k) = unat w - k"
proof -
  assume k: "k \<le> unat w"
  have "unat w < 2 ^ 32" using unsigned_less[of w, where ?'a = nat] by simp
  with k have "unat (of_nat k :: u32) = k" by (simp add: unat_of_nat)
  with k show ?thesis by (metis unat_sub word_le_nat_alt)
qed

lemma age_and_prune:
  "filter (\<lambda>r. ttl r \<noteq> 0) (map (age_record own) rs) = expire_records own 1 rs"
proof -
  have "ttl r \<noteq> 0 \<and> ttl r - 1 \<noteq> 0 \<longleftrightarrow> Suc 0 < unat (ttl r)" for r
    by (metis One_nat_def Suc_lessI diff_is_0_eq' less_numeral_extra(3) nat_less_le not_gr0 unat_0 unat_eq_zero unat_minus_one zero_less_diff)
  then show ?thesis by (induction rs) (auto simp: expire_records_def age_record_def word_neq_0_conv[symmetric])
qed

lemma expire_records_step: "expire_records own 1 (expire_records own k rs) = expire_records own (Suc k) rs"
proof (induction rs)
  case (Cons r rs)
  have "unat (ttl r - of_nat k) = unat (ttl r) - k" if "k < unat (ttl r)"
    using that by (intro unat_minus_of_nat) simp
  with Cons show ?case by (auto simp: expire_records_def)
qed (simp add: expire_records_def)

lemma prune_update_ttl: "prune_cache (update_ttl s) = s\<lparr>md_map_record := expire (own_urls s) 1 (md_map_record s)\<rparr>"
  by (simp add: prune_cache_def update_ttl_def expire_def Let_def age_and_prune comp_def split_def cong: map_cong)

text \<open>
  The end of a \<open>discover\<close> call, after the responder.
\<close>

lemma discover_after_responder:
  assumes "responder env s = Ok () t" and "network_up env t"
  shows "\<exists>us t'. discover env clock s = Ok us t' \<and> md_map_record t' = expire (own_urls t) 1 (md_map_record t)
    \<and> md_own_map_record t' = md_own_map_record t \<and> md_recv_socket t' = md_recv_socket t \<and> network_up env t'
    \<and> us = urls env t'"
proof -
  obtain q where q: "query env t = Ok () q" "sends_only t q" using query_up[OF assms(2)] by blast
  show ?thesis
  proof (cases "fst clock - md_timestamp t > md_query_interval_ms t")
    case True
    with assms q sends_only_frame[OF q(2)] show ?thesis
      by (simp add: discover_def prune_update_ttl own_urls_def network_up_def Let_def)
  next
    case False
    with assms show ?thesis by (simp add: discover_def prune_update_ttl own_urls_def network_up_def Let_def)
  qed
qed

section \<open>Lemmas: responses heard\<close>

definition cached :: "bytes \<Rightarrow> bytes \<Rightarrow> MulticastDns \<Rightarrow> Record list" where
  "cached n u s = filter (\<lambda>r. url r = u) (case map_of (md_map_record s) n of Some rs \<Rightarrow> rs | None \<Rightarrow> [])"

lemma settle_url_single: "settle_url [r] = [r]"
  by (simp add: settle_url_def)

lemma map_of_update_one:
  "map_of (MapRecord_update m [(n, rs)]) n = Some (case map_of m n of Some c \<Rightarrow> update_records c rs | None \<Rightarrow> rs)"
  by (auto simp: update_conv' split: option.splits)

lemma update_records_one:
  assumes "filter (\<lambda>r. url r = u) rs = [r]"
  shows "filter (\<lambda>r. url r = u) (case c of Some c \<Rightarrow> update_records c rs | None \<Rightarrow> rs) =
    settle_url (sort (filter (\<lambda>r. url r = u) (case c of Some c \<Rightarrow> c | None \<Rightarrow> []) @ [r]))"
  by (cases c) (simp_all add: update_records_filter assms settle_url_single)

lemma cached_update_cache:
  assumes "filter (\<lambda>r. url r = u) rs = [r]"
  shows "cached n u (update_cache (MapRecord_with_record n rs) s) = settle_url (sort (cached n u s @ [r]))"
proof -
  have "md_map_record (update_cache (MapRecord_with_record n rs) s) = MapRecord_update (md_map_record s) [(n, rs)]"
    by (simp add: update_cache_def MapRecord_with_record_def)
  then show ?thesis using update_records_one[OF assms, of "map_of (md_map_record s) n"]
    by (simp only: cached_def map_of_update_one option.case)
qed

text \<open>
  A message with records of one network and distinct urls is read as those records.
\<close>

lemma record_of_answers: "List.map_filter record_of_answer (map to_answers_section rs) = rs"
proof (induction rs)
  case (Cons r rs)
  have "record_of_answer (to_answers_section r) = Some r"
    by (cases r) (simp add: record_of_answer_def to_answers_section_def AnswerSection_new_with_ttl_def
        AnswerSection_default_def to_target_def Target_new_def Record_new_def)
  with Cons show ?case by (simp add: List.map_filter_simps)
qed (simp add: List.map_filter_simps)

lemma dedup_by_distinct: "distinct (map f xs) \<Longrightarrow> dedup_by (\<lambda>a b. f a = f b) xs = xs"
  by (induction "\<lambda>a b. f a = f b" xs rule: dedup_by.induct) auto

lemma filter_one_url: "distinct (map url rs) \<Longrightarrow> r \<in> set rs \<Longrightarrow> filter (\<lambda>s. url s = url r) rs = [r]"
proof (induction rs)
  case (Cons a rs)
  then show ?case by (cases "a = r") (auto simp: filter_empty_conv image_iff)
qed simp

lemma collect_records:
  assumes "\<forall>r \<in> set rs. networkid r = n" and "distinct (map url (done @ rs))"
    and "\<forall>u. filter (\<lambda>r. url r = u) acc = filter (\<lambda>r. url r = u) done"
  shows "\<exists>acc'. fold (\<lambda>r mr. MapRecord_update mr (MapRecord_with_record (networkid r) [r])) rs [(n, acc)] = [(n, acc')]
    \<and> (\<forall>u. filter (\<lambda>r. url r = u) acc' = filter (\<lambda>r. url r = u) (done @ rs))"
  using assms
proof (induction rs arbitrary: acc "done")
  case (Cons r rs)
  have acc: "filter (\<lambda>x. url x = u) (update_records acc [r]) = filter (\<lambda>x. url x = u) (done @ [r])" for u
  proof (cases "u = url r")
    case True
    have "url r \<notin> url ` set done" using Cons.prems(2) by simp
    then have none: "filter (\<lambda>x. url x = u) done = []" unfolding filter_empty_conv using True by (metis imageI)
    have one: "filter (\<lambda>x. url x = u) [r] = [r]" using True by simp
    show ?thesis by (simp only: update_records_filter filter_append Cons.prems(3)[rule_format] none one) (simp add: settle_url_single)
  next
    case False
    then have none: "filter (\<lambda>x. url x = u) [r] = []" by simp
    have "filter (\<lambda>x. url x = u) done = [] \<or> (\<exists>x. filter (\<lambda>x. url x = u) done = [x])"
    proof (cases "\<exists>x \<in> set done. url x = u")
      case True
      then obtain x where "x \<in> set done" "url x = u" by blast
      with filter_one_url[of "done" x] Cons.prems(2) show ?thesis by simp
    qed (simp add: filter_empty_conv)
    then show ?thesis
      by (elim disjE exE; simp only: update_records_filter filter_append Cons.prems(3)[rule_format] none)
        (simp_all add: settle_url_single settle_url_nil)
  qed
  have "distinct (map url ((done @ [r]) @ rs))" using Cons.prems(2) by simp
  from Cons.IH[OF _ this, of "update_records acc [r]"] acc Cons.prems(1) show ?case
    by (simp add: MapRecord_with_record_def)
qed auto

lemma from_dns_message_one_network:
  assumes "answers m = map to_answers_section rs" and "rs \<noteq> []" and "\<forall>r \<in> set rs. networkid r = n"
    and "distinct (map url rs)" and "r \<in> set rs"
  shows "\<exists>rs'. from_dns_message m = Some [(n, rs')] \<and> filter (\<lambda>s. url s = url r) rs' = [r]"
proof -
  have d: "distinct (map url (sort rs))"
    by (metis assms(4) card_distinct distinct_card length_map length_sort list.set_map set_sort)
  then have records: "answer_records m = sort rs"
    using dedup_by_distinct[of url "sort rs"] by (simp add: answer_records_def assms(1) record_of_answers)
  obtain a as where as: "sort rs = a # as" using assms(2) by (cases "sort rs") (auto dest: arg_cong[of _ _ length])
  have n: "\<forall>x \<in> set (a # as). networkid x = n" using assms(3) as by (metis set_sort)
  obtain acc where acc: "fold (\<lambda>r mr. MapRecord_update mr (MapRecord_with_record (networkid r) [r])) as [(n, [a])] = [(n, acc)]"
    "filter (\<lambda>s. url s = url r) acc = filter (\<lambda>s. url s = url r) (a # as)"
    using collect_records[of as n "[a]" "[a]"] n d as by auto
  have "filter (\<lambda>s. url s = url r) (a # as) = [r]"
    using filter_one_url[of "a # as" r] d as assms(5) by (metis set_sort)
  with acc n show ?thesis using assms(1,2)
    by (simp add: from_dns_message_def records as MapRecord_with_record_def)
qed

lemma cached_cache_answers:
  assumes "answers m = map to_answers_section rs" and "\<forall>r \<in> set rs. networkid r = n"
    and "distinct (map url rs)" and "r \<in> set rs" and "n \<in> set (own_networkids s)"
  shows "cached n (url r) (cache_answers m s) = settle_url (sort (cached n (url r) s @ [r]))"
proof -
  have "rs \<noteq> []" using assms(4) by auto
  with from_dns_message_one_network[OF assms(1) _ assms(2-4)] obtain rs' where
    "from_dns_message m = Some [(n, rs')]" "filter (\<lambda>s. url s = url r) rs' = [r]" by blast
  then show ?thesis using cached_update_cache[of "url r" rs' r n s] assms(5) by (simp add: cache_answers_def Let_def)
qed

text \<open>The response that lists the records of one network, and records it can carry in one packet.\<close>

definition response :: "Record list \<Rightarrow> DnsMessage" where
  "response rs = DnsMessage_default\<lparr>nb_answers := of_nat (length rs), nb_authority := of_nat (length rs),
     answers := map to_answers_section rs\<rparr>"

definition carriable :: "byteorder \<Rightarrow> bytes \<Rightarrow> Record list \<Rightarrow> bool" where
  "carriable bo n rs \<longleftrightarrow> rs \<noteq> [] \<and> length rs < 65536 \<and> distinct (map url rs)
     \<and> (\<forall>r \<in> set rs. networkid r = n \<and> valid_utf8 (url r) \<and> length (url r) < 65536)
     \<and> valid_utf8 n \<and> length n < 65536 \<and> length (DnsMessage_to_raw bo (response rs)) \<le> READ_BUF_SIZE"

lemma to_dns_response_message_one: "rs \<noteq> [] \<Longrightarrow> to_dns_response_message [(n, rs)] [n] = Some (response rs)"
  by (simp add: to_dns_response_message_def response_def Let_def)

lemma unat_u16_length: "length xs < 65536 \<Longrightarrow> unat (of_nat (length xs) :: u16) = length xs"
  by (simp add: unat_of_nat)

lemma wf_response: "carriable bo n rs \<Longrightarrow> wf_message (response rs)"
  by (auto simp: carriable_def wf_message_def response_def DnsMessage_default_def list_all_iff unat_u16_length
      wf_answer_def wf_target_def to_answers_section_def AnswerSection_new_with_ttl_def AnswerSection_default_def
      to_target_def Target_new_def)

lemma response_packet:
  assumes "byteorder_laws (env_byteorder env)" and "carriable (env_byteorder env) n rs"
  shows "handle_packet env (take READ_BUF_SIZE (DnsMessage_to_raw (env_byteorder env) (response rs))) a s =
      Ok () (cache_answers (response rs) s)"
    and "DnsMessage_to_raw (env_byteorder env) (response rs) \<noteq> []"
proof -
  let ?p = "DnsMessage_to_raw (env_byteorder env) (response rs)"
  have "reads (parse_message (env_byteorder env)) ?p (response rs)"
    using reads_message[OF assms(1) wf_response[OF assms(2)]] .
  then have "parse_message (env_byteorder env) (?p @ []) = Inr (response rs, [])" unfolding reads_def by blast
  moreover have "take READ_BUF_SIZE ?p = ?p" using assms(2) by (simp add: carriable_def)
  moreover have "unat (nb_answers (response rs)) = length rs" "rs \<noteq> []"
    using assms(2) by (simp_all add: carriable_def response_def unat_u16_length)
  then have "0 < nb_answers (response rs)" by (metis length_greater_0_conv unat_gt_0 word_neq_0_conv)
  ultimately show "handle_packet env (take READ_BUF_SIZE ?p) a s = Ok () (cache_answers (response rs) s)"
    by (simp add: handle_packet_def DnsMessage_from_raw_def)
  have "length (bo_write_u16 (env_byteorder env) v) = 2" for v
    using assms(1) by (simp add: byteorder_laws_def codec_law_def)
  then show "?p \<noteq> []" by (metis DnsMessage_to_raw_def append_is_Nil_conv list.size(3) zero_neq_numeral)
qed

text \<open>
  The responder fed with copies of a response.
\<close>

lemma responder_responses:
  assumes "byteorder_laws (env_byteorder env)" and "carriable (env_byteorder env) n rs" and "r \<in> set rs"
    and "network_up env s" and "n \<in> set (own_networkids s)"
    and "md_recv_socket s = replicate k (Datagram (DnsMessage_to_raw (env_byteorder env) (response rs)) a)"
  shows "\<exists>t. responder env s = Ok () t \<and> network_up env t \<and> own_urls t = own_urls s
    \<and> cached n (url r) t = ((\<lambda>c. settle_url (sort (c @ [r]))) ^^ k) (cached n (url r) s)"
  using assms(4-6)
proof (induction k arbitrary: s)
  case 0
  then show ?case by (simp add: responder_empty) (simp add: clear_buffer_def network_up_def own_urls_def cached_def)
next
  case (Suc k)
  let ?p = "DnsMessage_to_raw (env_byteorder env) (response rs)" and ?t = "cache_answers (response rs) (received (DnsMessage_to_raw (env_byteorder env) (response rs)) s)"
  have run: "responder env s = responder env ?t"
    using responder_datagram[of s ?p a "replicate k (Datagram ?p a)" env] Suc.prems(3) response_packet[OF assms(1,2)] by simp
  have "network_up env ?t = network_up env s" by (rule network_up_frame) (simp_all add: mdns_frame)
  moreover have own: "own_networkids ?t = own_networkids s" "own_urls ?t = own_urls s"
    by (simp_all add: own_networkids_def own_urls_def mdns_frame)
  moreover have "md_recv_socket ?t = replicate k (Datagram ?p a)" using Suc.prems(3) by (simp add: mdns_frame) (simp add: received_def)
  moreover have "cached n (url r) ?t = settle_url (sort (cached n (url r) s @ [r]))"
  proof -
    have "n \<in> set (own_networkids (received ?p s))" using Suc.prems(2) by (simp add: own_networkids_def mdns_frame)
    moreover have "cached n (url r) (received ?p s) = cached n (url r) s" by (simp add: cached_def mdns_frame)
    ultimately show ?thesis
      using cached_cache_answers[of "response rs" rs n r "received ?p s"] assms(2,3) by (simp add: carriable_def response_def)
  qed
  ultimately show ?case using Suc.IH[of ?t] Suc.prems run by (simp add: funpow_Suc_right del: funpow.simps)
qed

lemma cached_expire:
  assumes "md_map_record t' = expire own k (md_map_record t)"
  shows "cached n u t' = expire_records own k (cached n u t)"
proof -
  have "map_of (expire own k m) n = map_option (expire_records own k) (map_of m n)" for m :: MapRecord
    by (induction m) (auto simp: expire_def)
  moreover have "filter (\<lambda>r. url r = u) (expire_records own k rs) = expire_records own k (filter (\<lambda>r. url r = u) rs)" for rs
    by (induction rs) (auto simp: expire_records_def)
  moreover have "expire_records own k [] = []" by (simp add: expire_records_def)
  ultimately show ?thesis using assms by (cases "map_of (md_map_record t) n") (simp_all add: cached_def)
qed

lemma discover_responses:
  assumes "byteorder_laws (env_byteorder env)" and "carriable (env_byteorder env) n rs" and "r \<in> set rs"
    and "network_up env s" and "n \<in> set (own_networkids s)" and "url r \<notin> set (own_urls s)"
    and "md_recv_socket s = replicate k (Datagram (DnsMessage_to_raw (env_byteorder env) (response rs)) a)"
  shows "\<exists>us t. discover env clock s = Ok us t
    \<and> cached n (url r) t = expire_records (own_urls s) 1 (((\<lambda>c. settle_url (sort (c @ [r]))) ^^ k) (cached n (url r) s))"
proof -
  obtain t where t: "responder env s = Ok () t" "network_up env t" "own_urls t = own_urls s"
    "cached n (url r) t = ((\<lambda>c. settle_url (sort (c @ [r]))) ^^ k) (cached n (url r) s)"
    using responder_responses[OF assms(1-5,7)] by blast
  from discover_after_responder[OF t(1,2), of clock] show ?thesis using cached_expire[of _ "own_urls t" 1 t] t(3,4) by metis
qed

lemma settle_pair:
  "settle_url (sort [Record n u a, Record n u b]) =
     (if min a b = 0 then [Record n u 0] else []) @ (if max a b = 255 then [Record n u 255] else [])"
proof -
  have "Record n u a \<le> Record n u b \<longleftrightarrow> a \<le> b" by (simp add: less_eq_Record_def)
  then show ?thesis by (auto simp: settle_url_def min_def max_def)
qed

text \<open>
  Copies of an announcement or a release settle a url after the first one.
\<close>

lemma announce_settles:
  assumes "r = Record n u 255" and "c = [] \<or> c = [Record n u t] \<and> 0 < t \<and> t \<le> 255"
  shows "((\<lambda>c. settle_url (sort (c @ [r]))) ^^ 3) c = [r]"
proof -
  have "settle_url (sort [Record n u t, Record n u 255]) = [Record n u 255]" if "0 < t" "t \<le> 255" for t
    using that by (auto simp only: settle_pair min_def max_def) auto
  moreover have "settle_url (sort [Record n u 255]) = [Record n u 255]" by (simp add: settle_url_single)
  ultimately show ?thesis using assms by (auto simp: numeral_3_eq_3 simp del: sort_key_simps)
qed

lemma release_settles:
  assumes "r = Record n u 0" and "t \<le> 255"
  shows "((\<lambda>c. settle_url (sort (c @ [r]))) ^^ 4) [Record n u t] = (if t = 255 then [Record n u 0, Record n u 255] else [Record n u 0])"
proof -
  have le: "Record n u a \<le> Record n u b \<longleftrightarrow> a \<le> b" for a b by (simp add: less_eq_Record_def)
  have "settle_url (sort [Record n u t, Record n u 0]) = (if t = 255 then [Record n u 0, Record n u 255] else [Record n u 0])"
    using assms(2) by (auto simp only: settle_pair min_def max_def) auto
  moreover have "settle_url (sort [Record n u 0, Record n u 0]) = [Record n u 0]" by (simp add: settle_url_def)
  moreover have "settle_url (sort [Record n u 0, Record n u 255, Record n u 0]) = [Record n u 0, Record n u 255]"
    by (simp add: settle_url_def le)
  ultimately show ?thesis using assms(1) by (cases "t = 255") (simp_all add: eval_nat_numeral del: sort_key_simps)
qed

section \<open>Properties\<close>

text \<open>
  C27: The responder empties the socket: whatever number of packets is queued, if each of them decodes and
  the network takes the answers, it returns normally after the last one, and nothing is left unread.
\<close>

theorem responder_drains:
  assumes "network_up env s" and "list_all (understood env) (md_recv_socket s)"
  shows "\<exists>t. responder env s = Ok () t \<and> md_recv_socket t = []"
  using responder_drains_understood[of env s "md_recv_socket s" "[]"] assms responder_empty
  by (force simp: clear_buffer_def)

text \<open>
  One packet that does not decode ends the call: \<open>discover\<close> returns the decoding error, the packets
  behind it stay queued, and no record is aged, pruned or returned in that round. A well-formed
  message longer than the 4096 byte buffer is such a packet: it arrives truncated. So a node with
  enough records makes \<open>discover\<close> fail at every node that hears its announcement.
\<close>

theorem bad_packet_stops_discover:
  assumes "network_up env s" and "md_recv_socket s = evs @ Datagram d a # post" and "list_all (understood env) evs"
    and "d \<noteq> [] \<and> DnsMessage_from_raw (env_byteorder env) (take READ_BUF_SIZE d) = Inl e
      \<or> (\<exists>m. byteorder_laws (env_byteorder env) \<and> wf_message m \<and> d = DnsMessage_to_raw (env_byteorder env) m
            \<and> READ_BUF_SIZE < length d \<and> e = MdnsIo ''UnexpectedEof'')"
  shows "\<exists>t. responder env s = Err e t \<and> md_recv_socket t = post \<and> discover env clock s = to_discovery env (Err e t)"
proof -
  have bad: "d \<noteq> [] \<and> DnsMessage_from_raw (env_byteorder env) (take READ_BUF_SIZE d) = Inl e" using assms(4)
  proof (elim disjE exE conjE)
    fix m
    assume m: "byteorder_laws (env_byteorder env)" "wf_message m" "d = DnsMessage_to_raw (env_byteorder env) m"
      "READ_BUF_SIZE < length d" "e = MdnsIo ''UnexpectedEof''"
    have "strict_prefix (take READ_BUF_SIZE d) d"
      using m(4) by (metis take_is_prefix prefix_order.dual_order.not_eq_order_implies_strict take_all_iff not_le)
    then show ?thesis using reads_message[OF m(1,2)] m(3-5) by (auto simp: reads_def DnsMessage_from_raw_def eof_def)
  qed blast
  obtain t where t: "responder env s = responder env t" "md_recv_socket t = Datagram d a # post"
    using responder_drains_understood[OF assms(1,2,3)] by blast
  have "responder env s = Err e (received d t)" using t responder_datagram[of t d a post env] bad by (simp add: handle_packet_def)
  moreover have "md_recv_socket (received d t) = post" using t by (simp add: received_def)
  moreover have "bind_ok (to_discovery env (Err e x)) f = to_discovery env (Err e x)"
    for x :: MulticastDns and f :: "unit \<Rightarrow> MulticastDns \<Rightarrow> (MulticastDns, DiscoveryError, string list) outcome"
    by (simp split: option.split)
  ultimately show ?thesis by (auto simp: discover_def simp del: to_discovery.simps)
qed

text \<open>
  Records expire: over \<open>k\<close> rounds in which nothing is heard, \<open>discover\<close> succeeds each time, the records of
  this node's own urls keep their time to live, any other record has lost exactly \<open>k\<close> of it (no
  wrap-around below zero), and those with at most \<open>k\<close> left are gone from the cache.
\<close>

theorem records_expire:
  assumes "network_up env s" and "md_recv_socket s = []" and "clocks \<noteq> []"
  shows "\<exists>t. run_steps (\<lambda>clock s. final_state (discover env clock s)) clocks s = Some t
    \<and> (\<forall>n. map_of (md_map_record t) n = map_option (\<lambda>rs.
         [if url r \<in> set (own_urls s) then r else Record (networkid r) (url r) (ttl r - of_nat (length clocks)).
          r \<leftarrow> rs, if url r \<in> set (own_urls s) then ttl r \<noteq> 0 else length clocks < unat (ttl r)])
         (map_of (md_map_record s) n))"
proof -
  have "\<exists>t. run_steps (\<lambda>clock s. final_state (discover env clock s)) clocks s = Some t
      \<and> md_map_record t = expire (own_urls s0) (k + length clocks) m"
    if "network_up env s" "md_recv_socket s = []" "own_urls s = own_urls s0"
      "expire (own_urls s) 1 (md_map_record s) = expire (own_urls s0) (Suc k) m" "clocks \<noteq> []" for k s0 m
    using that
  proof (induction clocks arbitrary: s k)
    case (Cons c cs)
    have "responder env s = Ok () (clear_buffer s)" "network_up env (clear_buffer s)"
      using Cons.prems responder_empty by (simp_all add: clear_buffer_def network_up_def)
    from discover_after_responder[OF this, of c] obtain us t where t: "discover env c s = Ok us t"
      "md_map_record t = expire (own_urls s) 1 (md_map_record s)" "network_up env t" "md_recv_socket t = []" "own_urls t = own_urls s"
      using Cons.prems(2) by (auto simp: clear_buffer_def own_urls_def)
    have "expire (own_urls t) 1 (md_map_record t) = expire (own_urls s0) (Suc (Suc k)) m"
      unfolding trans[OF t(2) Cons.prems(4)] trans[OF t(5) Cons.prems(3)]
      by (simp add: expire_def expire_records_step[unfolded One_nat_def] comp_def split_def)
    with Cons.IH[OF t(3,4), of "Suc k"] t Cons.prems show ?case by (cases cs) auto
  qed simp
  from this[of s 0 "md_map_record s"] assms obtain t where
    "run_steps (\<lambda>clock s. final_state (discover env clock s)) clocks s = Some t"
    "md_map_record t = expire (own_urls s) (length clocks) (md_map_record s)" by auto
  moreover have "map_of (expire own k m) n = map_option (expire_records own k) (map_of m n)" for own k n and m :: MapRecord
    by (induction m) (auto simp: expire_def)
  moreover have "expire_records own k rs = [if url r \<in> set own then r else Record (networkid r) (url r) (ttl r - of_nat k).
          r \<leftarrow> rs, if url r \<in> set own then ttl r \<noteq> 0 else k < unat (ttl r)]" for own k rs
    by (induction rs) (simp_all add: expire_records_def)
  ultimately show ?thesis by (auto intro!: option.map_cong0)
qed

text \<open>
  C24: An announcement reaches a neighbour: the node sends its records three times; a neighbour in the
  same network that hears the packets in one round holds, for each announced url, exactly one record
  with 254 rounds to live, whether the url was unknown or its record had aged.
\<close>

theorem announcement_heard:
  assumes "byteorder_laws (env_byteorder env)" and "network_up env A" and "md_own_map_record A = [(n, rs)]"
    and "carriable (env_byteorder env) n rs" and "\<forall>r \<in> set rs. ttl r = 255" and "r \<in> set rs"
    and "network_up env B" and "n \<in> set (own_networkids B)" and "url r \<notin> set (own_urls B)"
    and "cached n (url r) B = [] \<or> cached n (url r) B = [Record n (url r) t] \<and> 0 < t \<and> t \<le> 255"
  shows "\<exists>A' p addr us B'. announcing env A = Ok () A' \<and> md_send_socket A' = md_send_socket A @ replicate 3 (p, addr)
    \<and> discover env clock (B\<lparr>md_recv_socket := replicate 3 (Datagram p a)\<rparr>) = Ok us B'
    \<and> cached n (url r) B' = [Record n (url r) 254]"
proof -
  let ?B = "B\<lparr>md_recv_socket := replicate 3 (Datagram (DnsMessage_to_raw (env_byteorder env) (response rs)) a)\<rparr>"
  have r: "r = Record n (url r) 255" using assms(4-6) by (cases r) (auto simp: carriable_def)
  have "rs \<noteq> []" using assms(6) by auto
  then have "announcing env A = broadcast_times env 3 (response rs) A"
    by (simp add: announcing_def own_networkids_def assms(3) to_dns_response_message_one)
  moreover have B: "network_up env ?B" "n \<in> set (own_networkids ?B)" "url r \<notin> set (own_urls ?B)" "cached n (url r) ?B = cached n (url r) B"
    using assms(7-9) by (simp_all add: network_up_def own_networkids_def own_urls_def cached_def)
  from discover_responses[OF assms(1,4,6) B(1-3), of 3 a clock] obtain us t' where t': "discover env clock ?B = Ok us t'"
    "cached n (url r) t' = expire_records (own_urls ?B) 1 (((\<lambda>c. settle_url (sort (c @ [r]))) ^^ 3) (cached n (url r) B))"
    unfolding B(4) by auto
  moreover have "((\<lambda>c. settle_url (sort (c @ [r]))) ^^ 3) (cached n (url r) B) = [r]"
    using assms(10) by (rule announce_settles[OF r])
  moreover have "expire_records (own_urls ?B) 1 [r] = [Record n (url r) 254]"
    using B(3) by (subst r) (simp add: expire_records_def)
  ultimately show ?thesis using broadcast_times_up[OF assms(2), of 3 "response rs"] by auto
qed

text \<open>
  C14: A release reaches a neighbour: the node sends its records four times with time to live 0. A
  neighbour that held an aged record of the url no longer holds it after that round. But a neighbour
  that hears the release while its record is still fresh (time to live 255: announced and
  released between two of its rounds) keeps the record, with 254 rounds to live.
\<close>

theorem release_heard:
  assumes "byteorder_laws (env_byteorder env)" and "network_up env A" and "md_own_map_record A = [(n, rs)]"
    and "carriable (env_byteorder env) n (map (\<lambda>r. Record (networkid r) (url r) 0) rs)" and "r \<in> set rs"
    and "network_up env B" and "n \<in> set (own_networkids B)" and "url r \<notin> set (own_urls B)"
    and "cached n (url r) B = [Record n (url r) t]" and "t \<le> 255"
  shows "\<exists>A' p addr us B'. release env A = Ok () A' \<and> md_send_socket A' = md_send_socket A @ replicate 4 (p, addr)
    \<and> discover env clock (B\<lparr>md_recv_socket := replicate 4 (Datagram p a)\<rparr>) = Ok us B'
    \<and> cached n (url r) B' = (if t = 255 then [Record n (url r) 254] else [])"
proof -
  let ?rs = "map (\<lambda>r. Record (networkid r) (url r) 0) rs" and ?r = "Record n (url r) 0"
  let ?B = "B\<lparr>md_recv_socket := replicate 4 (Datagram (DnsMessage_to_raw (env_byteorder env) (response ?rs)) a)\<rparr>"
  let ?A = "A\<lparr>md_own_map_record := [(n, ?rs)]\<rparr>"
  have "networkid r = n" using assms(4,5) by (auto simp: carriable_def)
  with assms(5) have r: "?r \<in> set ?rs" by (auto simp: image_iff)
  have "?rs \<noteq> []" using assms(5) by auto
  then have "release env A = to_discovery env (broadcast_times env 4 (response ?rs) ?A)"
    by (simp add: release_def own_networkids_def assms(3) to_dns_response_message_one Let_def)
  moreover have "network_up env ?A" using assms(2) by (simp add: network_up_def)
  from broadcast_times_up[OF this, of 4 "response ?rs"] obtain A' addr where "broadcast_times env 4 (response ?rs) ?A = Ok () A'"
    "md_send_socket A' = md_send_socket A @ replicate 4 (DnsMessage_to_raw (env_byteorder env) (response ?rs), addr)" by auto
  moreover have B: "network_up env ?B" "n \<in> set (own_networkids ?B)" "url ?r \<notin> set (own_urls ?B)" "cached n (url r) ?B = [Record n (url r) t]"
    using assms(6-9) by (simp_all add: network_up_def own_networkids_def own_urls_def cached_def)
  from discover_responses[OF assms(1,4) r B(1-3), of 4 a clock] obtain us t' where "discover env clock ?B = Ok us t'"
    "cached n (url r) t' = expire_records (own_urls ?B) 1 (((\<lambda>c. settle_url (sort (c @ [?r]))) ^^ 4) [Record n (url r) t])"
    using B(4) by auto
  moreover have "expire_records (own_urls ?B) 1 (((\<lambda>c. settle_url (sort (c @ [?r]))) ^^ 4) [Record n (url r) t]) =
      (if t = 255 then [Record n (url r) 254] else [])"
    unfolding release_settles[OF refl assms(10), of n "url r"] using B(3) by (simp add: expire_records_def)
  ultimately show ?thesis by auto
qed

section \<open>Witnesses\<close>

definition demo_mdns_env :: mdns_env where
  "demo_mdns_env = \<lparr>env_byteorder = big_endian, to_socket_addrs = (\<lambda>_ _. Inr [''224.0.0.251:8585'']),
     send_to = (\<lambda>_ d _. Inr (length d)), Url_parse = (\<lambda>_. Some ''wss://host''), utf8_error_text = []\<rparr>"

definition demo_socket_api :: socket_api where
  "demo_socket_api = \<lparr>new_v4 = (\<lambda>_. None), reuse_address = (\<lambda>_. None), reuse_port = (\<lambda>_. None), bind_to = (\<lambda>_ _ _. None),
     set_nonblocking = (\<lambda>_. None), set_multicast_loop_v4 = (\<lambda>_. None), set_multicast_ttl_v4 = (\<lambda>_. None),
     parse_ipv4 = Inr, join_multicast_v4 = (\<lambda>_ _. None)\<rparr>"

definition demo_node :: "bytes \<Rightarrow> MulticastDns" where
  "demo_node u = projr (build demo_socket_api 0 (own_record [0x6E] [u] MulticastDnsBuilder_new))"

lemmas demo_node_simps = demo_node_def demo_socket_api_def build_def create_socket_def parse_address_def own_record_def
  MulticastDnsBuilder_new_def MulticastDnsBuilder_default_def

lemma demo_node_fields:
  "md_own_map_record (demo_node u) = [([0x6E], [Record [0x6E] u 255])]" "md_recv_socket (demo_node u) = []"
  "md_map_record (demo_node u) = []" "own_networkids (demo_node u) = [[0x6E]]" "own_urls (demo_node u) = [u]"
  by (simp_all add: demo_node_simps Record_new_def DEFAULT_TTL_def own_networkids_def own_urls_def)

lemma demo_network_up: "network_up demo_mdns_env s"
  by (simp add: network_up_def demo_mdns_env_def)

lemma demo_laws: "byteorder_laws (env_byteorder demo_mdns_env)"
  by (simp add: demo_mdns_env_def big_endian_laws)

lemma demo_carriable: "carriable (env_byteorder demo_mdns_env) [0x6E] [Record [0x6E] [0x75] t]"
proof -
  have w: "length (bo_write_u8 big_endian b) = 1" "length (bo_write_u16 big_endian v) = 2" "length (bo_write_u32 big_endian x) = 4" for b v x
    using big_endian_laws by (simp_all add: byteorder_laws_def codec_law_def)
  show ?thesis by (simp add: carriable_def demo_mdns_env_def response_def DnsMessage_default_def DnsMessage_to_raw_def
      AnswerSection_write_def Target_write_def to_answers_section_def AnswerSection_new_with_ttl_def AnswerSection_default_def
      to_target_def Target_new_def READ_BUF_SIZE_def w)
qed

theorem responder_drains_witness:
  "\<exists>t. responder demo_mdns_env ((demo_node [1])\<lparr>md_recv_socket := [Datagram (DnsMessage_to_raw big_endian (response [Record [0x6E] [0x75] 255])) ''b'']\<rparr>) = Ok () t
     \<and> md_recv_socket t = []"
proof (rule responder_drains[OF demo_network_up])
  have "reads (parse_message big_endian) (DnsMessage_to_raw big_endian (response [Record [0x6E] [0x75] 255])) (response [Record [0x6E] [0x75] 255])"
    using reads_message[OF big_endian_laws wf_response[OF demo_carriable]] .
  then have "DnsMessage_from_raw big_endian (DnsMessage_to_raw big_endian (response [Record [0x6E] [0x75] 255]) @ []) = Inr (response [Record [0x6E] [0x75] 255])"
    unfolding reads_def DnsMessage_from_raw_def by (metis fst_conv map_sum.simps(2))
  then show "list_all (understood demo_mdns_env) (md_recv_socket ((demo_node [1])\<lparr>md_recv_socket :=
      [Datagram (DnsMessage_to_raw big_endian (response [Record [0x6E] [0x75] 255])) ''b'']\<rparr>))"
    using demo_carriable[of 255] response_packet(2)[OF demo_laws demo_carriable, of 255]
    by (simp add: understood_def carriable_def demo_mdns_env_def)
qed

theorem bad_packet_stops_discover_witness:
  "\<exists>t. responder demo_mdns_env ((demo_node [1])\<lparr>md_recv_socket := [Datagram [0] ''b'', Datagram [1] ''c'']\<rparr>) = Err (MdnsIo ''UnexpectedEof'') t
     \<and> md_recv_socket t = [Datagram [1] ''c'']"
proof -
  have "DnsMessage_from_raw big_endian [0] = Inl (MdnsIo ''UnexpectedEof'')"
  proof -
    have "bo_read_u16 big_endian [0] = None" using big_endian_laws by (simp add: byteorder_laws_def codec_law_def)
    then show ?thesis by (simp add: DnsMessage_from_raw_def parse_message_def p_bind_def[of "p_read (bo_read_u16 big_endian)"] p_read_def eof_def)
  qed
  then show ?thesis
    using bad_packet_stops_discover[OF demo_network_up, of "(demo_node [1])\<lparr>md_recv_socket := [Datagram [0] ''b'', Datagram [1] ''c'']\<rparr>"
        "[]" "[0]" "''b''" "[Datagram [1] ''c'']" "MdnsIo ''UnexpectedEof''"]
    by (auto simp: demo_mdns_env_def READ_BUF_SIZE_def)
qed

theorem records_expire_witness:
  "\<exists>t. run_steps (\<lambda>clock s. final_state (discover demo_mdns_env clock s)) [(0, 0), (100, 100)]
       ((demo_node [1])\<lparr>md_map_record := [([0x6E], [Record [0x6E] [1] 5, Record [0x6E] [2] 5, Record [0x6E] [3] 2])]\<rparr>) = Some t
     \<and> map_of (md_map_record t) [0x6E] = Some [Record [0x6E] [1] 5, Record [0x6E] [2] 3]"
  using records_expire[OF demo_network_up, of "(demo_node [1])\<lparr>md_map_record := [([0x6E], [Record [0x6E] [1] 5, Record [0x6E] [2] 5, Record [0x6E] [3] 2])]\<rparr>"
      "[(0, 0), (100, 100)]"]
  by (auto simp: demo_node_fields own_urls_def)

theorem announcement_heard_witness:
  "\<exists>A' p addr us B'. announcing demo_mdns_env (demo_node [0x75]) = Ok () A'
     \<and> md_send_socket A' = md_send_socket (demo_node [0x75]) @ replicate 3 (p, addr)
     \<and> discover demo_mdns_env (0, 0) ((demo_node [1])\<lparr>md_recv_socket := replicate 3 (Datagram p ''b'')\<rparr>) = Ok us B'
     \<and> cached [0x6E] [0x75] B' = [Record [0x6E] [0x75] 254]"
  using announcement_heard[OF demo_laws demo_network_up demo_node_fields(1) demo_carriable, of "Record [0x6E] [0x75] 255" "demo_node [1]" 1 "(0, 0)" "''b''"]
  by (simp add: demo_network_up demo_node_fields cached_def)

theorem release_heard_witness:
  "\<exists>A' p addr us B'. release demo_mdns_env (demo_node [0x75]) = Ok () A'
     \<and> md_send_socket A' = md_send_socket (demo_node [0x75]) @ replicate 4 (p, addr)
     \<and> discover demo_mdns_env (0, 0) ((demo_node [1])\<lparr>md_map_record := [([0x6E], [Record [0x6E] [0x75] 250])],
           md_recv_socket := replicate 4 (Datagram p ''b'')\<rparr>) = Ok us B'
     \<and> cached [0x6E] [0x75] B' = []"
  using release_heard[OF demo_laws demo_network_up demo_node_fields(1), of "[0x75]" "Record [0x6E] [0x75] 255"
      "(demo_node [1])\<lparr>md_map_record := [([0x6E], [Record [0x6E] [0x75] 250])]\<rparr>" 250 "(0, 0)" "''b''"] demo_carriable[of 0]
  by (simp add: demo_network_up demo_node_fields cached_def own_networkids_def own_urls_def)

end
