(* ===== verification/Gateway_Protocol.thy ===== *)
theory Gateway_Protocol
  imports Mirror_Dht Transport_Protocol Message_Encoding Ghost_Actor
begin

text \<open>
  What gateways speak: the requests between a gateway and its owner
  (\<open>lib3h/src/gateway/protocol.rs\<close>), the messages between nodes (\<open>engine/p2p_protocol.rs\<close> and
  \<open>p2p_protocol/src/p2p.rs\<close>), and a child actor seen from its owner.
\<close>

section \<open>Requests between a gateway and its owner\<close>

record BootstrapData =
  bsd_space_address :: SpaceHash
  bootstrap_uri :: Lib3hUri

datatype GatewayRequestToChild =
    TransportToChild RequestToChild
  | DhtToChild DhtRequestToChild
  | Bootstrap BootstrapData
  | SendAll bytes

datatype GatewayRequestToChildResponse =
    TransportResponse RequestToChildResponse
  | DhtResponse DhtRequestToChildResponse
  | BootstrapSuccess

datatype GatewayRequestToParent =
    TransportToParent RequestToParent
  | DhtToParent DhtRequestToParent

text \<open>
  The variant \<open>Transport(RequestToParentResponse)\<close> has no values, because that enum has none.
\<close>

datatype GatewayRequestToParentResponse = DhtToParentResponse DhtRequestToParentResponse

type_synonym GatewayToChildMessage = "GatewayRequestToChild GhostMessage"
type_synonym GatewayToParentMessage = "GatewayRequestToParent GhostMessage"

type_synonym GatewayParentEndpoint =
  "(GatewayRequestToChild, GatewayRequestToChildResponse, GatewayRequestToParent,
    GatewayRequestToParentResponse, Lib3hError) GhostEndpoint"

type_synonym 'cb GatewaySelfEndpoint =
  "('cb, GatewayRequestToParent, GatewayRequestToParentResponse, GatewayRequestToChild,
    GatewayRequestToChildResponse, Lib3hError) GhostContextEndpoint"

text \<open>The owner's endpoint inside a \<open>GatewayParentWrapper\<close>.\<close>

type_synonym 'cb GatewayOwnerEndpoint =
  "('cb, GatewayRequestToChild, GatewayRequestToChildResponse, GatewayRequestToParent,
    GatewayRequestToParentResponse, Lib3hError) GhostContextEndpoint"

record GatewayId =
  nickname :: string
  gateway_id :: Address

section \<open>Messages between nodes\<close>

record DirectMessageData =
  dm_space_address :: SpaceHash
  dm_request_id :: string
  dm_to_agent_id :: Address
  dm_from_agent_id :: Address
  dm_content :: Opaque

record GossipData =
  gd_space_address :: SpaceHash
  gd_to_peer_name :: Lib3hUri
  gd_from_peer_name :: Lib3hUri
  gd_bundle :: Opaque

datatype P2pProtocol =
    Gossip GossipData
  | DirectMessage DirectMessageData
  | DirectMessageResult DirectMessageData
  | PeerName string Lib3hUri u64
  | BroadcastJoinSpace SpaceHash PeerData
  | AllJoinedSpaceList "(SpaceHash \<times> PeerData) list"
  | CapnProtoMessage bytes

datatype P2pMessage = MsgPing u64 | MsgPong u64 u64

definition create_ping :: "u64 \<Rightarrow> u64 option \<Rightarrow> P2pMessage" where
  "create_ping now_ms send_epoch_ms = MsgPing (case send_epoch_ms of Some t \<Rightarrow> t | None \<Rightarrow> now_ms)"

definition create_pong :: "u64 \<Rightarrow> u64 \<Rightarrow> u64 option \<Rightarrow> P2pMessage" where
  "create_pong now_ms send_epoch_ms recv_epoch_ms =
     MsgPong send_epoch_ms (case recv_epoch_ms of Some t \<Rightarrow> t | None \<Rightarrow> now_ms)"

text \<open>
  The serializers: \<open>rmp_serde\<close> for \<open>P2pProtocol\<close>, the \<open>capnp\<close> package and its generated code for
  \<open>P2pMessage\<close>. \<open>None\<close> and \<open>Inl\<close> are their errors.
\<close>

record wire_lib =
  rmp_ser :: "P2pProtocol \<Rightarrow> bytes option"
  rmp_de :: "bytes \<Rightarrow> string + P2pProtocol"
  capnp_write :: "P2pMessage \<Rightarrow> bytes"
  capnp_read :: "bytes \<Rightarrow> string + P2pMessage"

definition P2pProtocol_from_bytes :: "wire_lib \<Rightarrow> bytes \<Rightarrow> string + P2pProtocol" where
  "P2pProtocol_from_bytes W bs = rmp_de W bs"

definition P2pProtocol_to_bytes :: "wire_lib \<Rightarrow> P2pProtocol \<Rightarrow> (unit, 'e, bytes) outcome" where
  "P2pProtocol_to_bytes W p = (case rmp_ser W p of Some b \<Rightarrow> Ok b () | None \<Rightarrow> Panic ''serialize unwrap'')"

section \<open>Children\<close>

text \<open>
  An actor and a child of it share nothing but the two queues between them. So for the owner, a run of
  the child is what it puts on its queue meanwhile and how it ends: an outcome whose state is the
  list of messages. \<open>process\<close> of a wrapper runs the child, then the owner's endpoint.
\<close>

type_synonym ('rs, 'ror, 'err) child_run =
  "(('rs, 'ror, 'err) GhostEndpointMessage list, GhostError, WorkWasDone) outcome"

definition child_process ::
  "(RequestId \<Rightarrow> RequestId list \<Rightarrow> string) \<Rightarrow>
   ('cb, 'ud \<times> ('ro, 'rsr, 'err) GhostEndpointMessage Sender, 'ror, 'err) call \<Rightarrow> time \<Rightarrow>
   ('rs, 'ror, 'err) child_run \<Rightarrow>
   ('cb, 'ro, 'ror, 'rs, 'rsr, 'err) GhostContextEndpoint \<times> 'ud \<Rightarrow>
   (('cb, 'ro, 'ror, 'rs, 'rsr, 'err) GhostContextEndpoint \<times> 'ud, GhostError, unit) outcome" where
  "child_process rid_msg call now child st =
     (case st of (ep, ud) \<Rightarrow>
        bind_ok (lift_state (\<lambda>ms. (deliver ms ep, ud)) child) (\<lambda>_ st.
        bind_ok (endpoint_process rid_msg call now st) (\<lambda>_. Ok ())))"

text \<open>
  This is \<open>GhostParentWrapperDyn::process\<close> on a child that produces those messages.
\<close>

lemma child_process_wrapper:
  assumes "ap a = Ok w a'" and "tr a' ep = deliver ms ep"
  shows "child_process rid_msg call now (Ok w ms) (ep, ud) =
    bind_ok (lift_state (\<lambda>(wr, ud). (gpw_endpoint wr, ud))
      (wrapper_dyn_process ap tr rid_msg call now (\<lparr>gpw_actor = a, gpw_endpoint = ep\<rparr>, ud))) (\<lambda>_. Ok ())"
  using assms
  by (cases "endpoint_process rid_msg call now (deliver ms ep, ud)")
    (auto simp: child_process_def wrapper_dyn_process_def wrapper_step_def)

definition wrap_endpoint ::
  "string \<Rightarrow> ('ro, 'ror, 'rs, 'rsr, 'err) GhostEndpoint \<Rightarrow> ('cb, 'ro, 'ror, 'rs, 'rsr, 'err) GhostContextEndpoint" where
  "wrap_endpoint prefix ge = GhostContextEndpointBuilder_build
     (GhostContextEndpointBuilder_request_id_prefix prefix (as_context_endpoint_builder ge))"

lemma idle_child_process:
  assumes "idle_endpoint now ep"
  shows "child_process rid_msg call now (Ok w []) (ep, ud) = Ok () (ep, ud)"
  using assms by (simp add: child_process_def deliver_def endpoint_process_idle)

text \<open>
  A child that only answers: the callback of each answered request runs, in order.
\<close>

lemma child_process_one_response:
  assumes "gt_expired now (gce_tracker ep) = []" and "rcv_incoming (gce_receiver ep) = []"
    and "\<not> rcv_disconnected (gce_receiver ep)"
    and "gt_lookup (gce_tracker ep) rid = Some entry"
    and "call (gte_cb entry) (CbResponse r) (ud, gce_sender ep) = Ok () (ud', s')"
  shows "child_process rid_msg call now (Ok w [Response bt rid r]) (ep, ud) =
    Ok () (ep\<lparr>gce_tracker := gt_remove rid (gce_tracker ep), gce_sender := s'\<rparr>, ud')"
  using assms
  by (simp add: child_process_def deliver_def endpoint_process_def with_tracker_process_idle process_message_Response)

end
