(* ===== verification/Gateway.thy ===== *)
theory Gateway
  imports Gateway_Protocol
begin

text \<open>
  The gateway (\<open>lib3h/src/gateway/\<close>): it combines a transport, a DHT and the encoding actor, resolves
  high-level uris to low-level ones, encodes and sends with retries, and handles what it
  receives.

  A closure handed to \<open>request\<close> or kept in the send queue is a constructor that names it and holds
  what it captures. Each child is its owner's endpoint, with a \<open>child_run\<close> per \<open>process\<close> call.
  \<open>gw_draws\<close> counts the request ids drawn, so that the ids \<open>ge_nanoid\<close> supplies differ. The clock
  is read once per call of \<open>process\<close> (\<open>ge_now\<close>; \<open>ge_epoch\<close> is the wall clock).
\<close>

section \<open>State\<close>

datatype GatewayOutputWrapType = DoNotWrapOutput | WrapOutputWithP2pDirectMessage

datatype SendCallback =
    RespondBootstrap GatewayToChildMessage
  | RespondSendMessage GatewayToChildMessage
  | IgnoreResult

datatype SendWithFullLowUri = SendWithFullLowUri (full_low_uri: Lib3hUri) (full_payload: Opaque)

datatype SendWithPartialHighUri = SendWithPartialHighUri (partial_high_uri: Lib3hUri) (partial_payload: Opaque)

datatype SendData = WithPartialHighUri SendWithPartialHighUri | WithFullLowUri SendWithFullLowUri

record SendMetaData =
  send_data :: SendData
  last_attempt :: time
  expires_at :: time
  sm_cb :: SendCallback

datatype GwDhtCallback =
    StoreThisPeer
  | SendToPeers bytes
  | GreetConnection Lib3hUri
  | SendToResolved SendWithPartialHighUri time time SendCallback
  | ForwardDhtResponse GatewayToChildMessage

datatype GwEncodingCallback =
    SendEncoded SendWithFullLowUri time time SendCallback
  | ReceiveDecoded Lib3hUri

datatype GwTransportCallback =
    ForwardBindResponse GatewayToChildMessage
  | FinishSend SendWithFullLowUri time time SendCallback

datatype GwSelfCallback = BroadcastReceivedEntry

type_synonym GwDhtEndpoint =
  "(GwDhtCallback, DhtRequestToChild, DhtRequestToChildResponse, DhtRequestToParent,
    DhtRequestToParentResponse, Lib3hError) GhostContextEndpoint"

type_synonym GwEncodingEndpoint =
  "(GwEncodingCallback, EncodingRequestToChild, EncodingRequestToChildResponse, unit, unit, Lib3hError)
     GhostContextEndpoint"

record P2pGateway =
  wrap_output_type :: GatewayOutputWrapType
  gw_identifier :: GatewayId
  gw_inner_transport :: "GwTransportCallback TransportActorParentContextEndpoint Detach"
  gw_inner_dht :: "GwDhtEndpoint Detach"
  gw_message_encoding :: "GwEncodingEndpoint Detach"
  gw_endpoint_parent :: "GatewayParentEndpoint option"
  gw_endpoint_self :: "GwSelfCallback GatewaySelfEndpoint Detach"
  gw_this_peer :: PeerData
  pending_send_queue :: "SendMetaData list"
  gw_draws :: nat

record gateway_env =
  ge_url :: url_lib
  ge_wire :: wire_lib
  ge_now :: time
  ge_epoch :: u64
  ge_checks :: bool
  ge_log_info :: bool
  ge_bt :: Backtwrap
  ge_nanoid :: "nat \<Rightarrow> string"
  ge_rid_msg :: "RequestId \<Rightarrow> RequestId list \<Rightarrow> string"
  ge_dbg_bt :: "Backtwrap \<Rightarrow> string"
  ge_dbg_ghost :: "GhostError \<Rightarrow> string"
  ge_dbg_lib3h :: "Lib3hError \<Rightarrow> string"

type_synonym 'a gw_result = "(P2pGateway, GhostError, 'a) outcome"

text \<open>
  Error conversions on the way out of a handler: through \<open>TransportError\<close> or \<open>Lib3hError\<close> and back to
  \<open>GhostError\<close> in \<open>process_concrete\<close>.
\<close>

definition via_transport :: "gateway_env \<Rightarrow> GhostError \<Rightarrow> GhostError" where
  "via_transport env e = Other (''TransportError: '' @ ge_dbg_ghost env e)"

definition via_lib3h :: "gateway_env \<Rightarrow> GhostError \<Rightarrow> GhostError" where
  "via_lib3h env e = Lib3hError_to_GhostError (ge_dbg_lib3h env) (Lib3hGhostError e)"

section \<open>Constructor\<close>

definition P2pGateway_new ::
  "gateway_env \<Rightarrow> GatewayOutputWrapType \<Rightarrow> GatewayId \<Rightarrow> Lib3hUri \<Rightarrow> TransportActorParentEndpoint \<Rightarrow>
   (DhtConfig \<Rightarrow> PeerData option \<Rightarrow> DhtEndpoint option) \<Rightarrow> DhtConfig \<Rightarrow> (unit, GhostError, P2pGateway) outcome" where
  "P2pGateway_new env wrap gid this_peer_location inner_transport dht_factory dht_config =
     (let this_peer = \<lparr>peer_name = cfg_this_peer_name dht_config, peer_location = this_peer_location, timestamp = ge_epoch env\<rparr>;
          maybe_this_peer = (if is_scheme (ge_url env) this_peer_location Undefined then None else Some this_peer)
      in case dht_factory dht_config maybe_this_peer of
           None \<Rightarrow> Panic ''Failed to construct DHT''
         | Some dht \<Rightarrow>
            (case (create_ghost_channel, me_endpoint_parent MessageEncoding_new) of
               ((ep_parent, ep_self), Some enc) \<Rightarrow>
                 Ok \<lparr>wrap_output_type = wrap, gw_identifier = gid,
                     gw_inner_transport = Detach_new (wrap_endpoint ''to_child_transport_'' inner_transport),
                     gw_inner_dht = Detach_new (wrap_endpoint ''gateway_dht_'' dht),
                     gw_message_encoding = Detach_new (wrap_endpoint ''to_message_encoding_'' enc),
                     gw_endpoint_parent = Some ep_parent,
                     gw_endpoint_self = Detach_new (wrap_endpoint (nickname gid @ ''_to_parent_'') ep_self),
                     gw_this_peer = this_peer, pending_send_queue = [], gw_draws = 0\<rparr> ()
             | (_, None) \<Rightarrow> Panic ''exists''))"

definition gw_take_parent_endpoint :: "P2pGateway \<Rightarrow> GatewayParentEndpoint option \<times> P2pGateway" where
  "gw_take_parent_endpoint g = (gw_endpoint_parent g, g\<lparr>gw_endpoint_parent := None\<rparr>)"

section \<open>Talking to the children and the owner\<close>

definition gw_req :: "gateway_env \<Rightarrow> P2pGateway \<Rightarrow> req_env" where
  "gw_req env g = \<lparr>re_nanoid = ge_nanoid env (gw_draws g), re_now = ge_now env, re_bt = ge_bt env\<rparr>"

definition drawn :: "unit gw_result \<Rightarrow> unit gw_result" where
  "drawn r = lift_state (\<lambda>g. g\<lparr>gw_draws := Suc (gw_draws g)\<rparr>) r"

definition gw_dht_request :: "gateway_env \<Rightarrow> DhtRequestToChild \<Rightarrow> GwDhtCallback \<Rightarrow> P2pGateway \<Rightarrow> unit gw_result" where
  "gw_dht_request env payload cb g = drawn
     (detach_deref_mut gw_inner_dht (\<lambda>d g. g\<lparr>gw_inner_dht := d\<rparr>) (request (gw_req env g) payload cb) g)"

definition gw_dht_publish :: "gateway_env \<Rightarrow> DhtRequestToChild \<Rightarrow> P2pGateway \<Rightarrow> unit gw_result" where
  "gw_dht_publish env payload =
     detach_deref_mut gw_inner_dht (\<lambda>d g. g\<lparr>gw_inner_dht := d\<rparr>) (publish (ge_bt env) payload)"

definition gw_encoding_request :: "gateway_env \<Rightarrow> EncodingRequestToChild \<Rightarrow> GwEncodingCallback \<Rightarrow> P2pGateway \<Rightarrow> unit gw_result" where
  "gw_encoding_request env payload cb g = drawn
     (detach_deref_mut gw_message_encoding (\<lambda>d g. g\<lparr>gw_message_encoding := d\<rparr>) (request (gw_req env g) payload cb) g)"

definition gw_transport_request :: "gateway_env \<Rightarrow> RequestToChild \<Rightarrow> GwTransportCallback \<Rightarrow> P2pGateway \<Rightarrow> unit gw_result" where
  "gw_transport_request env payload cb g = drawn
     (detach_deref_mut gw_inner_transport (\<lambda>d g. g\<lparr>gw_inner_transport := d\<rparr>) (request (gw_req env g) payload cb) g)"

definition gw_owner_request :: "gateway_env \<Rightarrow> GatewayRequestToParent \<Rightarrow> GwSelfCallback \<Rightarrow> P2pGateway \<Rightarrow> unit gw_result" where
  "gw_owner_request env payload cb g = drawn
     (detach_deref_mut gw_endpoint_self (\<lambda>d g. g\<lparr>gw_endpoint_self := d\<rparr>) (request (gw_req env g) payload cb) g)"

definition gw_owner_publish :: "gateway_env \<Rightarrow> GatewayRequestToParent \<Rightarrow> P2pGateway \<Rightarrow> unit gw_result" where
  "gw_owner_publish env payload =
     detach_deref_mut gw_endpoint_self (\<lambda>d g. g\<lparr>gw_endpoint_self := d\<rparr>) (publish (ge_bt env) payload)"

text \<open>\<open>respond\<close> on a message of the owner: its sender is the one of \<open>endpoint_self\<close>.\<close>

definition gw_respond ::
  "gateway_env \<Rightarrow> GatewayToChildMessage \<Rightarrow> Lib3hError + GatewayRequestToChildResponse \<Rightarrow> P2pGateway \<Rightarrow> unit gw_result" where
  "gw_respond env msg payload =
     detach_deref_mut gw_endpoint_self (\<lambda>d g. g\<lparr>gw_endpoint_self := d\<rparr>)
       (\<lambda>ep. lift_state (\<lambda>s. ep\<lparr>gce_sender := s\<rparr>) (GhostMessage_respond (ge_bt env) msg payload (gce_sender ep)))"

section \<open>Sending with retries\<close>

definition SEND_RETRY_INTERVAL_MS :: nat where
  "SEND_RETRY_INTERVAL_MS = 20"

definition SEND_RETRY_TIMEOUT_MS :: nat where
  "SEND_RETRY_TIMEOUT_MS = 20000"

fun run_send_callback ::
  "gateway_env \<Rightarrow> SendCallback \<Rightarrow> TransportError + GatewayRequestToChildResponse \<Rightarrow> P2pGateway \<Rightarrow> unit gw_result" where
  "run_send_callback env (RespondBootstrap msg) response g =
     (case response of
        Inr _ \<Rightarrow> gw_respond env msg (Inr BootstrapSuccess) g
      | Inl e \<Rightarrow> gw_respond env msg (Inl (Lib3hTransportError e)) g)"
| "run_send_callback env (RespondSendMessage msg) response g =
     gw_respond env msg (map_sum Lib3hTransportError id response) g"
| "run_send_callback env IgnoreResult response g = Ok () g"

definition priv_send_queue_pending :: "gateway_env \<Rightarrow> SendMetaData \<Rightarrow> P2pGateway \<Rightarrow> unit gw_result" where
  "priv_send_queue_pending env meta g =
     (if expires_at meta < ge_now env then run_send_callback env (sm_cb meta) (Inl (TransportOther ''timeout'')) g
      else Ok () (g\<lparr>pending_send_queue := pending_send_queue g @ [meta]\<rparr>))"

definition last_attempt_run_on_next_process :: "gateway_env \<Rightarrow> (unit, GhostError, time) outcome" where
  "last_attempt_run_on_next_process env =
     (if SEND_RETRY_INTERVAL_MS * 2 \<le> ge_now env then Ok (ge_now env - SEND_RETRY_INTERVAL_MS * 2) ()
      else Panic ''can subtract duration'')"

text \<open>Continue with the value of a part that does not touch the gateway.\<close>

definition with_pure :: "(unit, GhostError, 'a) outcome \<Rightarrow> ('a \<Rightarrow> P2pGateway \<Rightarrow> 'b gw_result) \<Rightarrow> P2pGateway \<Rightarrow> 'b gw_result" where
  "with_pure r f g = (case r of Ok v _ \<Rightarrow> f v g | Err e _ \<Rightarrow> Err e g | Panic m \<Rightarrow> Panic m)"

text \<open>The payload on the wire: wrapped in a direct message for space gateways.\<close>

definition wrap_payload :: "gateway_env \<Rightarrow> Lib3hUri \<Rightarrow> Opaque \<Rightarrow> P2pGateway \<Rightarrow> (unit, GhostError, Opaque) outcome" where
  "wrap_payload env uri encoded_payload g =
     (case wrap_output_type g of
        WrapOutputWithP2pDirectMessage \<Rightarrow>
          (case Address_from_uri (ge_url env) (peer_name (gw_this_peer g)) of
             Ok from_agent_id _ \<Rightarrow>
               P2pProtocol_to_bytes (ge_wire env) (DirectMessage
                 \<lparr>dm_space_address = gateway_id (gw_identifier g), dm_request_id = [],
                  dm_to_agent_id = (case agent_id (ge_url env) uri of Some a \<Rightarrow> a | None \<Rightarrow> []),
                  dm_from_agent_id = from_agent_id, dm_content = encoded_payload\<rparr>)
           | Err e _ \<Rightarrow> Err e ()
           | Panic m \<Rightarrow> Panic m)
      | DoNotWrapOutput \<Rightarrow> Ok encoded_payload ())"

definition priv_send_with_full_low_uri_inner ::
  "gateway_env \<Rightarrow> SendWithFullLowUri \<Rightarrow> Opaque \<Rightarrow> time \<Rightarrow> time \<Rightarrow> SendCallback \<Rightarrow> P2pGateway \<Rightarrow> unit gw_result" where
  "priv_send_with_full_low_uri_inner env sd encoded_payload attempted expires cb g =
     with_pure (wrap_payload env (full_low_uri sd) encoded_payload g)
       (\<lambda>payload. gw_transport_request env (SendMessage (clear_agent_id (ge_url env) (full_low_uri sd)) payload)
          (FinishSend sd attempted expires cb)) g"

definition priv_send_with_full_low_uri_encode ::
  "gateway_env \<Rightarrow> SendWithFullLowUri \<Rightarrow> time \<Rightarrow> SendCallback \<Rightarrow> P2pGateway \<Rightarrow> unit gw_result" where
  "priv_send_with_full_low_uri_encode env sd expires cb g =
     (if \<not> is_attached (gw_message_encoding g)
      then with_pure (last_attempt_run_on_next_process env)
             (\<lambda>attempted. priv_send_queue_pending env
                \<lparr>send_data = WithFullLowUri sd, last_attempt = attempted, expires_at = expires, sm_cb = cb\<rparr>) g
      else gw_encoding_request env (EncodePayload (full_payload sd)) (SendEncoded sd (ge_now env) expires cb) g)"

definition priv_send_with_full_low_uri ::
  "gateway_env \<Rightarrow> SendWithFullLowUri \<Rightarrow> time \<Rightarrow> SendCallback \<Rightarrow> P2pGateway \<Rightarrow> unit gw_result" where
  "priv_send_with_full_low_uri env sd expires cb = priv_send_with_full_low_uri_encode env sd expires cb"

definition priv_send_with_partial_high_uri ::
  "gateway_env \<Rightarrow> SendWithPartialHighUri \<Rightarrow> time \<Rightarrow> SendCallback \<Rightarrow> P2pGateway \<Rightarrow> unit gw_result" where
  "priv_send_with_partial_high_uri env sd expires cb =
     gw_dht_request env (RequestPeer (partial_high_uri sd)) (SendToResolved sd (ge_now env) expires cb)"

definition send_expiry :: "gateway_env \<Rightarrow> (unit, GhostError, time) outcome" where
  "send_expiry env =
     (case checked_add_time (ge_now env) SEND_RETRY_TIMEOUT_MS of Some t \<Rightarrow> Ok t () | None \<Rightarrow> Panic ''can add'')"

definition send_with_partial_high_uri :: "gateway_env \<Rightarrow> SendWithPartialHighUri \<Rightarrow> SendCallback \<Rightarrow> P2pGateway \<Rightarrow> unit gw_result" where
  "send_with_partial_high_uri env sd cb =
     with_pure (send_expiry env) (\<lambda>expires. priv_send_with_partial_high_uri env sd expires cb)"

definition send_with_full_low_uri :: "gateway_env \<Rightarrow> SendWithFullLowUri \<Rightarrow> SendCallback \<Rightarrow> P2pGateway \<Rightarrow> unit gw_result" where
  "send_with_full_low_uri env sd cb =
     with_pure (send_expiry env) (\<lambda>expires. priv_send_with_full_low_uri env sd expires cb)"

definition priv_send_check_dispatch :: "gateway_env \<Rightarrow> SendMetaData \<Rightarrow> P2pGateway \<Rightarrow> unit gw_result" where
  "priv_send_check_dispatch env meta g =
     (if ge_now env < last_attempt meta then Panic ''supplied instant is later than self''
      else if ge_now env - last_attempt meta < SEND_RETRY_INTERVAL_MS then priv_send_queue_pending env meta g
      else case send_data meta of
             WithPartialHighUri sd \<Rightarrow> priv_send_with_partial_high_uri env sd (expires_at meta) (sm_cb meta) g
           | WithFullLowUri sd \<Rightarrow> priv_send_with_full_low_uri env sd (expires_at meta) (sm_cb meta) g)"

text \<open>The loop collects the errors and goes on.\<close>

fun dispatch_all :: "gateway_env \<Rightarrow> SendMetaData list \<Rightarrow> GhostError list \<Rightarrow> P2pGateway \<Rightarrow> GhostError list gw_result" where
  "dispatch_all env [] errors g = Ok errors g"
| "dispatch_all env (meta # metas) errors g =
     (case priv_send_check_dispatch env meta g of
        Ok _ g' \<Rightarrow> dispatch_all env metas errors g'
      | Err e g' \<Rightarrow> dispatch_all env metas (errors @ [e]) g'
      | Panic m \<Rightarrow> Panic m)"

definition process_transport_pending_sends :: "gateway_env \<Rightarrow> P2pGateway \<Rightarrow> unit gw_result" where
  "process_transport_pending_sends env g =
     bind_ok (dispatch_all env (pending_send_queue g) [] (g\<lparr>pending_send_queue := []\<rparr>))
       (\<lambda>errors g. if errors = [] then Ok () g else Err (Multiple errors) g)"

section \<open>Receiving\<close>

definition priv_on_receive :: "gateway_env \<Rightarrow> Lib3hUri \<Rightarrow> Opaque \<Rightarrow> P2pGateway \<Rightarrow> unit gw_result" where
  "priv_on_receive env uri payload g =
     (case P2pProtocol_from_bytes (ge_wire env) payload of
        Inr (PeerName gid name ts) \<Rightarrow>
          if gateway_id (gw_identifier g) \<noteq> gid then Panic ''BAD gateway''
          else gw_dht_publish env (HoldPeer \<lparr>peer_name = name, peer_location = uri, timestamp = ts\<rparr>) g
      | Inr (CapnProtoMessage bytes) \<Rightarrow>
          (case capnp_read (ge_wire env) bytes of
             Inr (MsgPing send_epoch_ms) \<Rightarrow>
               with_pure (P2pProtocol_to_bytes (ge_wire env) (CapnProtoMessage
                   (capnp_write (ge_wire env) (create_pong (ge_epoch env) send_epoch_ms None))))
                 (\<lambda>pong. send_with_full_low_uri env (SendWithFullLowUri uri pong) IgnoreResult) g
           | Inr (MsgPong ping_send_epoch_ms _) \<Rightarrow>
               (if ge_log_info env \<and> sub_u64 (ge_checks env) (ge_epoch env) ping_send_epoch_ms = None
                then Panic ''attempt to subtract with overflow'' else Ok () g)
           | Inl _ \<Rightarrow> Panic ''failed to decode P2pMessage'')
      | Inr msg \<Rightarrow>
          with_pure (P2pProtocol_to_bytes (ge_wire env) msg)
            (\<lambda>payload. gw_owner_publish env (TransportToParent (ReceivedData uri payload))) g
      | Inl e \<Rightarrow> Panic ''unexpected received data type'')"

definition priv_decode_on_receive :: "gateway_env \<Rightarrow> Lib3hUri \<Rightarrow> Opaque \<Rightarrow> P2pGateway \<Rightarrow> unit gw_result" where
  "priv_decode_on_receive env uri payload = gw_encoding_request env (Decode payload) (ReceiveDecoded uri)"

definition handle_incoming_connection :: "gateway_env \<Rightarrow> Lib3hUri \<Rightarrow> P2pGateway \<Rightarrow> unit gw_result" where
  "handle_incoming_connection env uri = gw_dht_request env RequestThisPeer (GreetConnection uri)"

definition handle_transport_RequestToParent ::
  "gateway_env \<Rightarrow> RequestToParent GhostMessage \<Rightarrow> P2pGateway \<Rightarrow> unit gw_result" where
  "handle_transport_RequestToParent env msg g =
     (case fst (take_message msg) of
        None \<Rightarrow> Panic ''exists''
      | Some (ErrorOccured uri e) \<Rightarrow> gw_owner_publish env (TransportToParent (ErrorOccured uri e)) g
      | Some (IncomingConnection uri) \<Rightarrow> handle_incoming_connection env uri g
      | Some (ReceivedData uri payload) \<Rightarrow>
          if payload = [] then Panic ''We should no longer ever be sending zero length messages''
          else priv_decode_on_receive env uri payload g)"

section \<open>Requests of the owner\<close>

definition ping_bytes :: "gateway_env \<Rightarrow> (unit, GhostError, bytes) outcome" where
  "ping_bytes env = P2pProtocol_to_bytes (ge_wire env)
     (CapnProtoMessage (capnp_write (ge_wire env) (create_ping (ge_epoch env) None)))"

text \<open>\<open>Bind\<close> drops an error of the request (\<open>let _ = ..\<close>).\<close>

definition handle_transport_RequestToChild ::
  "gateway_env \<Rightarrow> RequestToChild \<Rightarrow> GatewayToChildMessage \<Rightarrow> P2pGateway \<Rightarrow> unit gw_result" where
  "handle_transport_RequestToChild env transport_request parent_request g =
     (case transport_request of
        Bind spec \<Rightarrow>
          (case gw_transport_request env transport_request (ForwardBindResponse parent_request) g of
             Err e g' \<Rightarrow> Ok () g' | r \<Rightarrow> r)
      | SendMessage uri payload \<Rightarrow>
          send_with_partial_high_uri env (SendWithPartialHighUri uri payload) (RespondSendMessage parent_request) g)"

definition handle_dht_RequestToChild ::
  "gateway_env \<Rightarrow> DhtRequestToChild \<Rightarrow> GatewayToChildMessage \<Rightarrow> P2pGateway \<Rightarrow> unit gw_result" where
  "handle_dht_RequestToChild env req parent_msg =
     (if is_request parent_msg then gw_dht_request env req (ForwardDhtResponse parent_msg)
      else gw_dht_publish env req)"

definition handle_RequestToChild :: "gateway_env \<Rightarrow> GatewayToChildMessage \<Rightarrow> P2pGateway \<Rightarrow> unit gw_result" where
  "handle_RequestToChild env msg0 g =
     (case take_message msg0 of
        (None, _) \<Rightarrow> Panic ''exists''
      | (Some (TransportToChild req), msg) \<Rightarrow> handle_transport_RequestToChild env req msg g
      | (Some (DhtToChild req), msg) \<Rightarrow> handle_dht_RequestToChild env req msg g
      | (Some (Bootstrap data), msg) \<Rightarrow>
          with_pure (ping_bytes env)
            (\<lambda>payload. send_with_full_low_uri env (SendWithFullLowUri (bootstrap_uri data) payload) (RespondBootstrap msg)) g
      | (Some (SendAll payload), msg) \<Rightarrow> gw_dht_request env RequestPeerList (SendToPeers payload) g)"

section \<open>Requests of the DHT\<close>

definition high_uri :: "gateway_env \<Rightarrow> PeerData \<Rightarrow> Lib3hUri" where
  "high_uri env peer = set_agent_id (ge_url env) (lower_address (ge_url env) (peer_name peer)) (peer_location peer)"

definition handle_dht_RequestToParent :: "gateway_env \<Rightarrow> DhtRequestToParent GhostMessage \<Rightarrow> P2pGateway \<Rightarrow> unit gw_result" where
  "handle_dht_RequestToParent env msg g =
     (case fst (take_message msg) of
        None \<Rightarrow> Panic ''exists''
      | Some payload \<Rightarrow>
          (case payload of
             EntryPruned _ \<Rightarrow> Panic ''unreachable''
           | RequestEntryOfParent _ \<Rightarrow> gw_owner_request env (DhtToParent payload) BroadcastReceivedEntry g
           | HoldPeerRequested peer_data \<Rightarrow>
               bind_ok (with_pure (ping_bytes env)
                   (\<lambda>ping. send_with_full_low_uri env (SendWithFullLowUri (high_uri env peer_data) ping) IgnoreResult) g)
                 (\<lambda>_. gw_owner_publish env (DhtToParent payload))
           | _ \<Rightarrow> gw_owner_publish env (DhtToParent payload) g))"

section \<open>Callbacks\<close>

text \<open>Every callback runs on the gateway and leaves the sender of the endpoint it came from alone.\<close>

definition on_gateway :: "(P2pGateway \<Rightarrow> unit gw_result) \<Rightarrow> P2pGateway \<times> 's \<Rightarrow> (P2pGateway \<times> 's, GhostError, unit) outcome" where
  "on_gateway f st = (case st of (g, s) \<Rightarrow> lift_state (\<lambda>g. (g, s)) (f g))"

fun send_to_peers :: "gateway_env \<Rightarrow> bytes \<Rightarrow> PeerData list \<Rightarrow> P2pGateway \<Rightarrow> unit gw_result" where
  "send_to_peers env payload [] g = Ok () g"
| "send_to_peers env payload (peer # peers) g =
     bind_ok (send_with_full_low_uri env (SendWithFullLowUri (high_uri env peer) payload) IgnoreResult g)
       (\<lambda>_. send_to_peers env payload peers)"

definition greet_connection :: "gateway_env \<Rightarrow> Lib3hUri \<Rightarrow> PeerData \<Rightarrow> P2pGateway \<Rightarrow> unit gw_result" where
  "greet_connection env uri me g =
     bind_ok (gw_owner_publish env (TransportToParent (IncomingConnection (peer_name me))) g) (\<lambda>_ g.
     with_pure (P2pProtocol_to_bytes (ge_wire env) (PeerName (gateway_id (gw_identifier g)) (peer_name me) (timestamp me)))
       (\<lambda>buf. send_with_full_low_uri env (SendWithFullLowUri uri buf) IgnoreResult) g)"

fun gw_dht_callback :: "gateway_env \<Rightarrow> GwDhtCallback \<Rightarrow>
    (DhtRequestToChildResponse, Lib3hError) GhostCallbackData \<Rightarrow> P2pGateway \<Rightarrow> unit gw_result" where
  "gw_dht_callback env StoreThisPeer response g =
     (case response of
        CbTimeout bt \<Rightarrow> Panic ''timeout''
      | CbResponse (Inl e) \<Rightarrow> Panic ''error''
      | CbResponse (Inr (ThisPeerResponse peer)) \<Rightarrow> Ok () (g\<lparr>gw_this_peer := peer\<rparr>)
      | _ \<Rightarrow> Panic ''bad response to RequestThisPeer'')"
| "gw_dht_callback env (GreetConnection uri) response g =
     (case response of
        CbTimeout bt \<Rightarrow> Panic ''timeout''
      | CbResponse (Inl e) \<Rightarrow> Panic ''error''
      | CbResponse (Inr (ThisPeerResponse peer)) \<Rightarrow> greet_connection env uri peer g
      | _ \<Rightarrow> Panic ''bad response to RequestThisPeer'')"
| "gw_dht_callback env (SendToPeers payload) response g =
     (case response of
        CbTimeout bt \<Rightarrow> Panic ''Timeout on RequestPeerList''
      | CbResponse (Inl e) \<Rightarrow> Panic ''Error on RequestPeerList''
      | CbResponse (Inr (PeerListResponse peers)) \<Rightarrow> send_to_peers env payload peers g
      | _ \<Rightarrow> Panic ''unexpected'')"
| "gw_dht_callback env (SendToResolved sd attempted expires cb) response g =
     (case response of
        CbResponse (Inr (PeerResponse (Some peer))) \<Rightarrow>
          priv_send_with_full_low_uri env (SendWithFullLowUri (high_uri env peer) (partial_payload sd)) expires cb g
      | _ \<Rightarrow> priv_send_queue_pending env
               \<lparr>send_data = WithPartialHighUri sd, last_attempt = attempted, expires_at = expires, sm_cb = cb\<rparr> g)"
| "gw_dht_callback env (ForwardDhtResponse parent_msg) response g =
     (case response of
        CbTimeout bt \<Rightarrow> gw_respond env parent_msg (Inl (Lib3hOther (''timeout: '' @ ge_dbg_bt env bt))) g
      | CbResponse (Inl e) \<Rightarrow> Panic ''response.unwrap''
      | CbResponse (Inr r) \<Rightarrow> gw_respond env parent_msg (Inr (DhtResponse r)) g)"

fun gw_encoding_callback :: "gateway_env \<Rightarrow> GwEncodingCallback \<Rightarrow>
    (EncodingRequestToChildResponse, Lib3hError) GhostCallbackData \<Rightarrow> P2pGateway \<Rightarrow> unit gw_result" where
  "gw_encoding_callback env (SendEncoded sd attempted expires cb) response g =
     (case response of
        CbResponse (Inr (EncodePayloadResult payload)) \<Rightarrow> priv_send_with_full_low_uri_inner env sd payload attempted expires cb g
      | _ \<Rightarrow> priv_send_queue_pending env
               \<lparr>send_data = WithFullLowUri sd, last_attempt = attempted, expires_at = expires, sm_cb = cb\<rparr> g)"
| "gw_encoding_callback env (ReceiveDecoded uri) response g =
     (case response of
        CbResponse (Inr (DecodeResult (Payload payload))) \<Rightarrow>
          if payload = [] then Panic ''We should no longer ever be sending zero length messages''
          else priv_on_receive env uri payload g
      | _ \<Rightarrow> Panic ''unexpected decode result'')"

fun gw_transport_callback :: "gateway_env \<Rightarrow> GwTransportCallback \<Rightarrow>
    (RequestToChildResponse, TransportError) GhostCallbackData \<Rightarrow> P2pGateway \<Rightarrow> unit gw_result" where
  "gw_transport_callback env (ForwardBindResponse parent_msg) response g =
     (case response of
        CbTimeout bt \<Rightarrow> gw_respond env parent_msg (Inl (Lib3hOther (''timeout: '' @ ge_dbg_bt env bt))) g
      | CbResponse (Inl e) \<Rightarrow> Panic ''response.unwrap''
      | CbResponse (Inr r) \<Rightarrow> gw_respond env parent_msg (Inr (TransportResponse r)) g)"
| "gw_transport_callback env (FinishSend sd attempted expires cb) response g =
     (case response of
        CbResponse (Inr SendMessageSuccess) \<Rightarrow> run_send_callback env cb (Inr (TransportResponse SendMessageSuccess)) g
      | _ \<Rightarrow> priv_send_queue_pending env
               \<lparr>send_data = WithFullLowUri sd, last_attempt = attempted, expires_at = expires, sm_cb = cb\<rparr> g)"

fun gw_self_callback :: "gateway_env \<Rightarrow> GwSelfCallback \<Rightarrow>
    (GatewayRequestToParentResponse, Lib3hError) GhostCallbackData \<Rightarrow> P2pGateway \<Rightarrow> unit gw_result" where
  "gw_self_callback env BroadcastReceivedEntry response g =
     (case response of
        CbResponse (Inr (DhtToParentResponse (RequestEntryResponse entry))) \<Rightarrow> gw_dht_publish env (BroadcastEntry entry) g
      | _ \<Rightarrow> Panic ''invalid response type'')"

section \<open>Processing\<close>

text \<open>What the children do during one \<open>process\<close> call.\<close>

record gateway_children =
  gc_transport :: "(RequestToParent, RequestToChildResponse, TransportError) child_run"
  gc_encoding :: "(unit, EncodingRequestToChildResponse, Lib3hError) child_run"
  gc_dht :: "(DhtRequestToParent, DhtRequestToChildResponse, Lib3hError) child_run"

definition gw_call :: "('cb \<Rightarrow> ('r, 'e) GhostCallbackData \<Rightarrow> P2pGateway \<Rightarrow> unit gw_result) \<Rightarrow> ('cb, P2pGateway \<times> 's, 'r, 'e) call" where
  "gw_call f cb data = on_gateway (f cb data)"

definition gw_drain ::
  "(P2pGateway \<Rightarrow> ('cb, 'ro, 'ror, 'rs, 'rsr, 'err) GhostContextEndpoint Detach) \<Rightarrow>
   (('cb, 'ro, 'ror, 'rs, 'rsr, 'err) GhostContextEndpoint Detach \<Rightarrow> P2pGateway \<Rightarrow> P2pGateway) \<Rightarrow>
   P2pGateway \<Rightarrow> 'rs GhostMessage list gw_result" where
  "gw_drain get put = detach_deref_mut get put (\<lambda>ep. case drain_messages ep of (ms, ep') \<Rightarrow> Ok ms ep')"

definition gw_process_owner :: "gateway_env \<Rightarrow> P2pGateway \<Rightarrow> unit gw_result" where
  "gw_process_owner env g =
     bind_ok (detach_run gw_endpoint_self (\<lambda>d g. g\<lparr>gw_endpoint_self := d\<rparr>)
       (endpoint_process (ge_rid_msg env) (gw_call (gw_self_callback env)) (ge_now env)) g) (\<lambda>_ g.
     bind_ok (gw_drain gw_endpoint_self (\<lambda>d g. g\<lparr>gw_endpoint_self := d\<rparr>) g) (\<lambda>msgs.
     for_each (\<lambda>msg g. map_err (via_lib3h env) (handle_RequestToChild env msg g)) msgs))"

definition gw_process_transport :: "gateway_env \<Rightarrow> gateway_children \<Rightarrow> P2pGateway \<Rightarrow> unit gw_result" where
  "gw_process_transport env children g =
     bind_ok (detach_run gw_inner_transport (\<lambda>d g. g\<lparr>gw_inner_transport := d\<rparr>)
       (child_process (ge_rid_msg env) (gw_call (gw_transport_callback env)) (ge_now env) (gc_transport children)) g) (\<lambda>_ g.
     bind_ok (gw_drain gw_inner_transport (\<lambda>d g. g\<lparr>gw_inner_transport := d\<rparr>) g) (\<lambda>msgs.
     for_each (\<lambda>msg g. map_err (via_transport env) (handle_transport_RequestToParent env msg g)) msgs))"

definition gw_process_encoding :: "gateway_env \<Rightarrow> gateway_children \<Rightarrow> P2pGateway \<Rightarrow> unit gw_result" where
  "gw_process_encoding env children =
     detach_run gw_message_encoding (\<lambda>d g. g\<lparr>gw_message_encoding := d\<rparr>)
       (child_process (ge_rid_msg env) (gw_call (gw_encoding_callback env)) (ge_now env) (gc_encoding children))"

definition gw_process_dht :: "gateway_env \<Rightarrow> gateway_children \<Rightarrow> P2pGateway \<Rightarrow> unit gw_result" where
  "gw_process_dht env children g =
     bind_ok (gw_dht_request env RequestThisPeer StoreThisPeer g) (\<lambda>_ g.
     bind_ok (detach_run gw_inner_dht (\<lambda>d g. g\<lparr>gw_inner_dht := d\<rparr>)
       (child_process (ge_rid_msg env) (gw_call (gw_dht_callback env)) (ge_now env) (gc_dht children)) g) (\<lambda>_ g.
     bind_ok (gw_drain gw_inner_dht (\<lambda>d g. g\<lparr>gw_inner_dht := d\<rparr>) g) (\<lambda>msgs.
     for_each (\<lambda>msg g. map_err (via_lib3h env) (handle_dht_RequestToParent env msg g)) msgs)))"

definition gw_process_concrete :: "gateway_env \<Rightarrow> gateway_children \<Rightarrow> P2pGateway \<Rightarrow> WorkWasDone gw_result" where
  "gw_process_concrete env children g =
     bind_ok (gw_process_owner env g) (\<lambda>_ g.
     bind_ok (gw_process_transport env children g) (\<lambda>_ g.
     bind_ok (gw_process_encoding env children g) (\<lambda>_ g.
     bind_ok (process_transport_pending_sends env g) (\<lambda>_ g.
     bind_ok (gw_process_dht env children g) (\<lambda>_. Ok True)))))"

end
