(* ===== verification/Gateway_Paths.thy ===== *)
theory Gateway_Paths
  imports Gateway
begin

text \<open>
  Whole paths of a message through a gateway, phase by phase of \<open>process\<close>: a send from the owner's
  request to its answer, and a ping from the wire to the queued pong; and the timing of the retry queue.
\<close>

section \<open>Endpoints that accept and deliver\<close>

text \<open>An endpoint at rest that accepts requests: nothing to deliver, the queue open, no overflow of the clock.\<close>

definition ready :: "gateway_env \<Rightarrow> ('cb, 'ro, 'ror, 'rs, 'rsr, 'err) GhostContextEndpoint \<Rightarrow> bool" where
  "ready env ep \<longleftrightarrow> idle_endpoint (ge_now env) ep \<and> snd_error (gce_sender ep) = None
     \<and> ge_now env + gt_default_timeout (gce_tracker ep) \<le> TIME_MAX"

definition asked :: "req_env \<Rightarrow> 'ro \<Rightarrow> 'cb \<Rightarrow> ('cb, 'ro, 'ror, 'rs, 'rsr, 'err) GhostContextEndpoint \<Rightarrow>
    ('cb, 'ro, 'ror, 'rs, 'rsr, 'err) GhostContextEndpoint" where
  "asked renv p cb ep =
     (let rid = gt_request_id_prefix (gce_tracker ep) @ re_nanoid renv
      in append_sent [Request (re_bt renv) (Some rid) p] (ep\<lparr>gce_tracker := gt_insert rid
           \<lparr>gte_backtrace = re_bt renv, gte_expires = re_now renv + gt_default_timeout (gce_tracker ep), gte_cb = cb\<rparr> (gce_tracker ep)\<rparr>))"

lemma request_open:
  assumes "snd_error (gce_sender ep) = None" and "re_now renv + gt_default_timeout (gce_tracker ep) \<le> TIME_MAX"
  shows "request renv p cb ep = Ok () (asked renv p cb ep)"
  using assms
  by (simp add: request_def priv_request_def GhostTrackRequestOptions_default_def bookmark_def bookmark_options_def
      GhostTrackerBookmarkOptions_default_def RequestId_with_prefix_def checked_add_time_def Let_def send_on_def
      chan_send_def asked_def append_sent_def)

lemma ready_request: "ready env ep \<Longrightarrow> request (gw_req env g) p cb ep = Ok () (asked (gw_req env g) p cb ep)"
  by (simp add: ready_def request_open gw_req_def)

lemma gt_expired_insert: "gt_expired now t = [] \<Longrightarrow> now \<le> gte_expires entry \<Longrightarrow> gt_expired now (gt_insert rid entry t) = []"
proof -
  have "[r. (r, e) \<leftarrow> AList.update rid entry m, now > gte_expires e] = []"
    if "[r. (r, e) \<leftarrow> m, now > gte_expires e] = []" "now \<le> gte_expires entry" for m
    using that by (induction m) (auto split: if_splits)
  then show "gt_expired now t = [] \<Longrightarrow> now \<le> gte_expires entry \<Longrightarrow> ?thesis"
    by (simp add: gt_expired_def gt_insert_def)
qed

lemma gt_expired_remove: "gt_expired now t = [] \<Longrightarrow> gt_expired now (gt_remove rid t) = []"
  by (auto simp: gt_expired_def gt_remove_def delete_filter)

lemma asked_ready: "ready env ep \<Longrightarrow> ready env (asked (gw_req env g) p cb ep)"
  by (auto simp: ready_def asked_def idle_endpoint_def gw_req_def Let_def gt_insert_def[of _ _ "gce_tracker ep"] append_sent_def
      intro!: gt_expired_insert[unfolded gt_insert_def])

lemma asked_fields [simp]:
  "gce_receiver (asked renv p cb ep) = gce_receiver ep" "gce_outbox (asked renv p cb ep) = gce_outbox ep"
  "snd_error (gce_sender (asked renv p cb ep)) = snd_error (gce_sender ep)"
  "snd_sent (gce_sender (asked renv p cb ep)) = snd_sent (gce_sender ep) @
     [Request (re_bt renv) (Some (gt_request_id_prefix (gce_tracker ep) @ re_nanoid renv)) p]"
  by (simp_all add: asked_def Let_def append_sent_def)

lemma asked_lookup:
  "\<exists>entry. gt_lookup (gce_tracker (asked renv p cb ep)) (gt_request_id_prefix (gce_tracker ep) @ re_nanoid renv) = Some entry \<and> gte_cb entry = cb"
  by (simp add: asked_def Let_def append_sent_def gt_insert_def update_conv')

section \<open>Phases\<close>

lemma gw_request_ready:
  shows "ready env d \<Longrightarrow> gw_inner_dht g = Detach (Some d) \<Longrightarrow> gw_dht_request env dp dcb g =
      Ok () (g\<lparr>gw_inner_dht := Detach (Some (asked (gw_req env g) dp dcb d)), gw_draws := Suc (gw_draws g)\<rparr>)"
    and "ready env e \<Longrightarrow> gw_message_encoding g = Detach (Some e) \<Longrightarrow> gw_encoding_request env ep ecb g =
      Ok () (g\<lparr>gw_message_encoding := Detach (Some (asked (gw_req env g) ep ecb e)), gw_draws := Suc (gw_draws g)\<rparr>)"
    and "ready env i \<Longrightarrow> gw_inner_transport g = Detach (Some i) \<Longrightarrow> gw_transport_request env tp tcb g =
      Ok () (g\<lparr>gw_inner_transport := Detach (Some (asked (gw_req env g) tp tcb i)), gw_draws := Suc (gw_draws g)\<rparr>)"
  by (simp_all add: gw_dht_request_def gw_encoding_request_def gw_transport_request_def detach_deref_mut_def ready_request drawn_def)

lemma bind_for_each_Nil [simp]: "bind_ok r (\<lambda>_. for_each f []) = r"
  by (cases r) auto

text \<open>
  The owner's endpoint with one message for the gateway.
\<close>

lemma process_owner_one:
  assumes "gw_endpoint_self g = Detach (Some s)" and "gt_expired (ge_now env) (gce_tracker s) = []" and "gce_outbox s = []"
    and "\<not> rcv_disconnected (gce_receiver s)" and "rcv_incoming (gce_receiver s) = [Request b rid p]"
  shows "gw_process_owner env g = map_err (via_lib3h env) (handle_RequestToChild env (GhostMessage_new b rid p)
    (g\<lparr>gw_endpoint_self := Detach (Some (s\<lparr>gce_receiver := (gce_receiver s)\<lparr>rcv_incoming := []\<rparr>\<rparr>))\<rparr>))"
proof -
  have "endpoint_process (ge_rid_msg env) (gw_call (gw_self_callback env)) (ge_now env) (s, ud) = Ok True
     (s\<lparr>gce_receiver := (gce_receiver s)\<lparr>rcv_incoming := []\<rparr>, gce_outbox := [GhostMessage_new b rid p]\<rparr>, ud)" for ud
    using endpoint_process_requests[of "ge_now env" s b "[(rid, p)]" "ge_rid_msg env" "gw_call (gw_self_callback env)" ud] assms by simp
  moreover have "s\<lparr>gce_receiver := (gce_receiver s)\<lparr>rcv_incoming := []\<rparr>, gce_outbox := []\<rparr> =
      s\<lparr>gce_receiver := (gce_receiver s)\<lparr>rcv_incoming := []\<rparr>\<rparr>" using assms(3) by simp
  ultimately show ?thesis using assms(1)
    by (simp add: gw_process_owner_def detach_run_attached gw_drain_def detach_deref_mut_def drain_messages_def)
qed

text \<open>
  A child that answers the request made last.
\<close>

lemma child_answers:
  assumes "ready env ep" and "cbf cb (CbResponse r) ud = Ok () ud'"
    and "rid = gt_request_id_prefix (gce_tracker ep) @ re_nanoid (gw_req env g)"
  shows "\<exists>ep'. child_process rid_msg (gw_call cbf) (ge_now env) (Ok w [Response b rid r]) (asked (gw_req env g) p cb ep, ud) = Ok () (ep', ud')
    \<and> ready env ep' \<and> snd_sent (gce_sender ep') = snd_sent (gce_sender (asked (gw_req env g) p cb ep))"
proof -
  let ?ep = "asked (gw_req env g) p cb ep"
  have rd: "ready env ?ep" using asked_ready[OF assms(1)] .
  obtain entry where e: "gt_lookup (gce_tracker ?ep) rid = Some entry" "gte_cb entry = cb"
    using asked_lookup[of "gw_req env g" p cb ep] assms(3) by blast
  have "gw_call cbf (gte_cb entry) (CbResponse r) (ud, gce_sender ?ep) = Ok () (ud', gce_sender ?ep)"
    using assms(2) e(2) by (simp add: gw_call_def on_gateway_def)
  from child_process_one_response[where ep = ?ep and rid = rid and entry = entry and call = "gw_call cbf" and r = r
      and now = "ge_now env" and rid_msg = rid_msg and w = w and bt = b, OF _ _ _ e(1) this] rd show ?thesis
    by (auto simp: ready_def idle_endpoint_def gt_expired_remove gt_remove_def[of _ "gce_tracker ?ep"] simp del: asked_fields
        intro: gt_expired_remove[unfolded gt_remove_def])
qed

lemma gw_respond_open:
  assumes "gw_endpoint_self g = Detach (Some s)" and "snd_error (gce_sender s) = None" and "gm_request_id msg = Some rid"
  shows "gw_respond env msg r g = Ok () (g\<lparr>gw_endpoint_self := Detach (Some (append_sent [Response (ge_bt env) rid r] s))\<rparr>)"
  using assms by (simp add: gw_respond_def detach_deref_mut_def GhostMessage_respond_def chan_send_def append_sent_def)

text \<open>The part of the DHT phase that delivers its answers.\<close>

definition gw_dht_answers :: "gateway_env \<Rightarrow> (DhtRequestToParent, DhtRequestToChildResponse, Lib3hError) GhostEndpointMessage list \<Rightarrow> P2pGateway \<Rightarrow> unit gw_result" where
  "gw_dht_answers env ms = detach_run gw_inner_dht (\<lambda>d g. g\<lparr>gw_inner_dht := d\<rparr>)
     (child_process (ge_rid_msg env) (gw_call (gw_dht_callback env)) (ge_now env) (Ok True ms))"

lemma dht_answers:
  assumes "ready env d" and "gw_dht_callback env cb (CbResponse r) (g'\<lparr>gw_inner_dht := Detach None\<rparr>) = Ok () g1"
    and "rid = gt_request_id_prefix (gce_tracker d) @ re_nanoid (gw_req env g)"
    and "gw_inner_dht g' = Detach (Some (asked (gw_req env g) p cb d))"
  shows "\<exists>d'. ready env d' \<and> gw_dht_answers env [Response b rid r] g' = Ok () (g1\<lparr>gw_inner_dht := Detach (Some d')\<rparr>)
    \<and> snd_sent (gce_sender d') = snd_sent (gce_sender (asked (gw_req env g) p cb d))"
  using child_answers[OF assms(1), of "gw_dht_callback env" cb r "g'\<lparr>gw_inner_dht := Detach None\<rparr>" g1, OF assms(2,3), of "ge_rid_msg env" True b p] assms(4)
  by (auto simp: gw_dht_answers_def detach_run_attached)

lemma dht_answers_panic:
  assumes "ready env d" and "gw_dht_callback env cb (CbResponse r) (g'\<lparr>gw_inner_dht := Detach None\<rparr>) = Panic m"
    and "rid = gt_request_id_prefix (gce_tracker d) @ re_nanoid (gw_req env g)"
    and "gw_inner_dht g' = Detach (Some (asked (gw_req env g) p cb d))"
  shows "gw_dht_answers env [Response b rid r] g' = Panic m"
proof -
  let ?ep = "asked (gw_req env g) p cb d" and ?h = "g'\<lparr>gw_inner_dht := Detach None\<rparr>"
  obtain entry where e: "gt_lookup (gce_tracker ?ep) rid = Some entry" "gte_cb entry = cb"
    using asked_lookup[of "gw_req env g" p cb d] assms(3) by blast
  have "gt_expired (ge_now env) (gce_tracker ?ep) = []" "rcv_incoming (gce_receiver ?ep) = []"
    using asked_ready[OF assms(1), of g p cb] by (simp_all add: ready_def idle_endpoint_def)
  then have "child_process (ge_rid_msg env) (gw_call (gw_dht_callback env)) (ge_now env) (Ok True [Response b rid r]) (?ep, ?h) = Panic m"
    using e assms(2) by (simp add: child_process_def deliver_def endpoint_process_def with_tracker_process_idle process_message_def
        with_tracker_def GhostTracker_process_def GhostTracker_handle_def gw_call_def on_gateway_def del: gw_dht_callback.simps)
  then show ?thesis using assms(4) by (simp add: gw_dht_answers_def detach_run_attached)
qed

lemma encoding_answers:
  assumes "ready env e" and "gw_encoding_callback env cb (CbResponse r) (g'\<lparr>gw_message_encoding := Detach None\<rparr>) = Ok () g1"
    and "rid = gt_request_id_prefix (gce_tracker e) @ re_nanoid (gw_req env g)"
    and "gw_message_encoding g' = Detach (Some (asked (gw_req env g) p cb e))" and "gc_encoding children = Ok True [Response b rid r]"
  shows "\<exists>e'. ready env e' \<and> gw_process_encoding env children g' = Ok () (g1\<lparr>gw_message_encoding := Detach (Some e')\<rparr>)"
  using child_answers[OF assms(1), of "gw_encoding_callback env" cb r "g'\<lparr>gw_message_encoding := Detach None\<rparr>" g1, OF assms(2,3), of "ge_rid_msg env" True b p] assms(4,5)
  by (auto simp: gw_process_encoding_def detach_run_attached)

lemma transport_answers:
  assumes "ready env i" and "gw_transport_callback env cb (CbResponse r) (g'\<lparr>gw_inner_transport := Detach None\<rparr>) = Ok () g1"
    and "rid = gt_request_id_prefix (gce_tracker i) @ re_nanoid (gw_req env g)"
    and "gw_inner_transport g' = Detach (Some (asked (gw_req env g) p cb i))" and "gc_transport children = Ok True [Response b rid r]"
  shows "\<exists>i'. ready env i' \<and> gw_process_transport env children g' = Ok () (g1\<lparr>gw_inner_transport := Detach (Some i')\<rparr>)"
proof -
  obtain i' where i': "child_process (ge_rid_msg env) (gw_call (gw_transport_callback env)) (ge_now env) (gc_transport children)
      (asked (gw_req env g) p cb i, g'\<lparr>gw_inner_transport := Detach None\<rparr>) = Ok () (i', g1)" "ready env i'"
    using child_answers[OF assms(1), of "gw_transport_callback env" cb r "g'\<lparr>gw_inner_transport := Detach None\<rparr>" g1, OF assms(2,3), of "ge_rid_msg env" True b p] assms(5)
    by auto
  have "i'\<lparr>gce_outbox := []\<rparr> = i'" "gce_outbox i' = []" using i'(2) by (simp_all add: ready_def idle_endpoint_def)
  then show ?thesis using i' assms(4)
    by (auto simp: gw_process_transport_def detach_run_attached gw_drain_def detach_deref_mut_def drain_messages_def)
qed

lemma wrap_payload_frame:
  "wrap_output_type g' = wrap_output_type g \<Longrightarrow> gw_identifier g' = gw_identifier g \<Longrightarrow> gw_this_peer g' = gw_this_peer g \<Longrightarrow>
     wrap_payload env u p g' = wrap_payload env u p g"
  by (auto simp: wrap_payload_def split: GatewayOutputWrapType.splits outcome.splits)

text \<open>
  A send request of the owner: the gateway asks the DHT for the peer, the rest of the send being its callback.
\<close>

lemma owner_send_asks:
  assumes "gw_endpoint_self g = Detach (Some s)" "gt_expired (ge_now env) (gce_tracker s) = []" "gce_outbox s = []"
      "\<not> rcv_disconnected (gce_receiver s)" "rcv_incoming (gce_receiver s) = [Request b (Some rid) (TransportToChild (SendMessage uri payload))]"
    and "gw_inner_dht g = Detach (Some d)" "ready env d" "ge_now env + SEND_RETRY_TIMEOUT_MS \<le> TIME_MAX"
    and "g0 = g\<lparr>gw_endpoint_self := Detach (Some (s\<lparr>gce_receiver := (gce_receiver s)\<lparr>rcv_incoming := []\<rparr>\<rparr>))\<rparr>"
    and "cb = SendToResolved (SendWithPartialHighUri uri payload) (ge_now env) (ge_now env + SEND_RETRY_TIMEOUT_MS)
      (RespondSendMessage ((GhostMessage_new b (Some rid) (TransportToChild (SendMessage uri payload)))\<lparr>gm_message := None\<rparr>))"
  shows "gw_process_owner env g = Ok () (g0\<lparr>gw_inner_dht := Detach (Some (asked (gw_req env g0) (RequestPeer uri) cb d)), gw_draws := Suc (gw_draws g0)\<rparr>)"
  using process_owner_one[OF assms(1-5)] gw_request_ready(1)[OF assms(7), of g0] assms(6-)
  by (simp add: handle_RequestToChild_def take_message_def GhostMessage_new_def handle_transport_RequestToChild_def
      send_with_partial_high_uri_def with_pure_def send_expiry_def checked_add_time_def priv_send_with_partial_high_uri_def)

text \<open>
  Children that have nothing to say leave the gateway as it is, but for the question about this peer.
\<close>

lemma silent_phases:
  shows "gw_inner_transport g = Detach (Some i) \<Longrightarrow> ready env i \<Longrightarrow> gc_transport children = Ok w [] \<Longrightarrow> gw_process_transport env children g = Ok () g"
    and "gw_message_encoding g = Detach (Some e) \<Longrightarrow> ready env e \<Longrightarrow> gc_encoding children = Ok w [] \<Longrightarrow> gw_process_encoding env children g = Ok () g"
    and "gw_inner_dht g = Detach (Some d) \<Longrightarrow> ready env d \<Longrightarrow> gc_dht children = Ok w [] \<Longrightarrow> gw_process_dht env children g =
      Ok () (g\<lparr>gw_inner_dht := Detach (Some (asked (gw_req env g) RequestThisPeer StoreThisPeer d)), gw_draws := Suc (gw_draws g)\<rparr>)"
proof -
  note steps = detach_run_attached gw_drain_def detach_deref_mut_def drain_messages_def idle_child_process
  show "gw_process_transport env children g = Ok () g"
    if "gw_inner_transport g = Detach (Some i)" "ready env i" "gc_transport children = Ok w []"
    using that by (simp add: gw_process_transport_def steps ready_def idle_endpoint_def)
  show "gw_process_encoding env children g = Ok () g"
    if "gw_message_encoding g = Detach (Some e)" "ready env e" "gc_encoding children = Ok w []"
    using that by (simp add: gw_process_encoding_def steps ready_def)
  show "gw_process_dht env children g = Ok () (g\<lparr>gw_inner_dht := Detach (Some (asked (gw_req env g) RequestThisPeer StoreThisPeer d)), gw_draws := Suc (gw_draws g)\<rparr>)"
    if "gw_inner_dht g = Detach (Some d)" "ready env d" "gc_dht children = Ok w []"
    using that asked_ready[OF that(2), of g RequestThisPeer StoreThisPeer]
    by (simp add: gw_process_dht_def gw_request_ready(1)[OF that(2)] steps ready_def idle_endpoint_def)
qed

section \<open>Properties\<close>

fun last_sent :: "('cb, 'ro, 'ror, 'rs, 'rsr, 'err) GhostContextEndpoint Detach \<Rightarrow> ('ro, 'rsr, 'err) GhostEndpointMessage option" where
  "last_sent (Detach (Some ep)) = (if snd_sent (gce_sender ep) = [] then None else Some (last (snd_sent (gce_sender ep))))"
| "last_sent (Detach None) = None"

text \<open>
  The way of a message. The owner asks the gateway to send to a high-level uri: the gateway asks the
  DHT for the peer; given the peer it asks the encoder to encode the payload; given the bytes it
  asks the transport to send them (wrapped, for a space gateway) to the peer's location without the agent part;
  when the transport reports success, the owner's request is answered with success.
\<close>

theorem send_path:
  assumes "gw_endpoint_self g = Detach (Some s)" "gt_expired (ge_now env) (gce_tracker s) = []" "gce_outbox s = []"
      "\<not> rcv_disconnected (gce_receiver s)" "snd_error (gce_sender s) = None"
      "rcv_incoming (gce_receiver s) = [Request b (Some rid) (TransportToChild (SendMessage uri payload))]"
    and ep: "gw_inner_dht g = Detach (Some d)" "gw_message_encoding g = Detach (Some e)" "gw_inner_transport g = Detach (Some i)"
    and rd: "ready env d" "ready env e" "ready env i"
    and "ge_now env + SEND_RETRY_TIMEOUT_MS \<le> TIME_MAX"
    and wire: "wrap_payload env (high_uri env peer) encoded g = Ok wire ()"
  shows "\<exists>g1 g2 g3 g4 ra rb rc s4. gw_process_owner env g = Ok () g1
      \<and> last_sent (gw_inner_dht g1) = Some (Request (ge_bt env) (Some ra) (RequestPeer uri))
    \<and> gw_dht_answers env [Response b1 ra (Inr (PeerResponse (Some peer)))] g1 = Ok () g2
      \<and> last_sent (gw_message_encoding g2) = Some (Request (ge_bt env) (Some rb) (EncodePayload payload))
    \<and> gw_process_encoding env (children\<lparr>gc_encoding := Ok True [Response b2 rb (Inr (EncodePayloadResult encoded))]\<rparr>) g2 = Ok () g3
      \<and> last_sent (gw_inner_transport g3) =
          Some (Request (ge_bt env) (Some rc) (SendMessage (clear_agent_id (ge_url env) (high_uri env peer)) wire))
    \<and> gw_process_transport env (children\<lparr>gc_transport := Ok True [Response b3 rc (Inr SendMessageSuccess)]\<rparr>) g3 = Ok () g4
      \<and> gw_endpoint_self g4 = Detach (Some s4)
      \<and> snd_sent (gce_sender s4) = snd_sent (gce_sender s) @ [Response (ge_bt env) rid (Inr (TransportResponse SendMessageSuccess))]"
proof -
  let ?t = "ge_now env" and ?x = "ge_now env + SEND_RETRY_TIMEOUT_MS"
  define msg where "msg = (GhostMessage_new b (Some rid) (TransportToChild (SendMessage uri payload)))\<lparr>gm_message := None\<rparr>"
  define s' where "s' = s\<lparr>gce_receiver := (gce_receiver s)\<lparr>rcv_incoming := []\<rparr>\<rparr>"
  define cb where "cb = RespondSendMessage msg"
  define sd where "sd = SendWithPartialHighUri uri payload"
  define fd where "fd = SendWithFullLowUri (high_uri env peer) payload"
  define g0 where "g0 = g\<lparr>gw_endpoint_self := Detach (Some s')\<rparr>"
  define g1 where "g1 = g0\<lparr>gw_inner_dht := Detach (Some (asked (gw_req env g0) (RequestPeer uri) (SendToResolved sd ?t ?x cb) d)), gw_draws := Suc (gw_draws g0)\<rparr>"
  have owner: "gw_process_owner env g = Ok () g1"
    using owner_send_asks[OF assms(1-4,6) ep(1) rd(1) assms(13)] by (simp add: g1_def g0_def s'_def cb_def msg_def sd_def)
  let ?h = "g1\<lparr>gw_inner_dht := Detach None\<rparr>"
  define h1 where "h1 = ?h\<lparr>gw_message_encoding := Detach (Some (asked (gw_req env ?h) (EncodePayload payload) (SendEncoded fd ?t ?x cb) e)), gw_draws := Suc (gw_draws g1)\<rparr>"
  have cb1: "gw_dht_callback env (SendToResolved sd ?t ?x cb) (CbResponse (Inr (PeerResponse (Some peer)))) ?h = Ok () h1"
    using gw_request_ready(2)[OF rd(2), of ?h "EncodePayload payload" "SendEncoded fd ?t ?x cb"] ep(2)
    by (simp add: priv_send_with_full_low_uri_def priv_send_with_full_low_uri_encode_def g1_def g0_def h1_def sd_def fd_def)
  let ?ra = "gt_request_id_prefix (gce_tracker d) @ re_nanoid (gw_req env g0)"
  obtain d' where g2: "gw_dht_answers env [Response b1 ?ra (Inr (PeerResponse (Some peer)))] g1 = Ok () (h1\<lparr>gw_inner_dht := Detach (Some d')\<rparr>)"
    using dht_answers[OF rd(1) cb1 refl, of g0 "RequestPeer uri" b1] by (auto simp: g1_def)
  define g2 where "g2 = h1\<lparr>gw_inner_dht := Detach (Some d')\<rparr>"
  let ?k = "g2\<lparr>gw_message_encoding := Detach None\<rparr>"
  define k1 where "k1 = ?k\<lparr>gw_inner_transport := Detach (Some (asked (gw_req env ?k) (SendMessage (clear_agent_id (ge_url env) (high_uri env peer)) wire)
      (FinishSend fd ?t ?x cb) i)), gw_draws := Suc (gw_draws g2)\<rparr>"
  have wire': "wrap_payload env (high_uri env peer) encoded ?k = Ok wire ()"
    unfolding wire[symmetric] by (rule wrap_payload_frame) (simp_all add: g2_def h1_def g1_def g0_def)
  have cb2: "gw_encoding_callback env (SendEncoded fd ?t ?x cb) (CbResponse (Inr (EncodePayloadResult encoded))) ?k = Ok () k1"
    using gw_request_ready(3)[OF rd(3), of ?k] ep(3) wire'
    by (simp add: priv_send_with_full_low_uri_inner_def with_pure_def fd_def k1_def) (simp add: g2_def h1_def g1_def g0_def)
  let ?rb = "gt_request_id_prefix (gce_tracker e) @ re_nanoid (gw_req env ?h)"
  obtain e' where g3: "gw_process_encoding env (children\<lparr>gc_encoding := Ok True [Response b2 ?rb (Inr (EncodePayloadResult encoded))]\<rparr>) g2 =
      Ok () (k1\<lparr>gw_message_encoding := Detach (Some e')\<rparr>)"
    using encoding_answers[OF rd(2) cb2 refl, of ?h "EncodePayload payload"
        "children\<lparr>gc_encoding := Ok True [Response b2 ?rb (Inr (EncodePayloadResult encoded))]\<rparr>" b2] by (auto simp: g2_def h1_def)
  define g3 where "g3 = k1\<lparr>gw_message_encoding := Detach (Some e')\<rparr>"
  let ?l = "g3\<lparr>gw_inner_transport := Detach None\<rparr>" and ?s4 = "append_sent [Response (ge_bt env) rid (Inr (TransportResponse SendMessageSuccess))] s'"
  have self: "gw_endpoint_self ?l = Detach (Some s')" "snd_error (gce_sender s') = None"
    using assms(5) by (simp_all add: g3_def k1_def g2_def h1_def g1_def g0_def s'_def)
  have cb3: "gw_transport_callback env (FinishSend fd ?t ?x cb) (CbResponse (Inr SendMessageSuccess)) ?l = Ok () (?l\<lparr>gw_endpoint_self := Detach (Some ?s4)\<rparr>)"
    using gw_respond_open[OF self, of msg rid env] by (simp add: cb_def msg_def GhostMessage_new_def)
  let ?rc = "gt_request_id_prefix (gce_tracker i) @ re_nanoid (gw_req env ?k)"
  obtain i' where g4: "gw_process_transport env (children\<lparr>gc_transport := Ok True [Response b3 ?rc (Inr SendMessageSuccess)]\<rparr>) g3 =
      Ok () (?l\<lparr>gw_endpoint_self := Detach (Some ?s4), gw_inner_transport := Detach (Some i')\<rparr>)"
    using transport_answers[OF rd(3) cb3 refl, of ?k "SendMessage (clear_agent_id (ge_url env) (high_uri env peer)) wire"
        "children\<lparr>gc_transport := Ok True [Response b3 ?rc (Inr SendMessageSuccess)]\<rparr>" b3] by (auto simp: g3_def k1_def)
  have sent: "last_sent (gw_inner_dht g1) = Some (Request (ge_bt env) (Some ?ra) (RequestPeer uri))"
    "last_sent (gw_message_encoding g2) = Some (Request (ge_bt env) (Some ?rb) (EncodePayload payload))"
    "last_sent (gw_inner_transport g3) = Some (Request (ge_bt env) (Some ?rc) (SendMessage (clear_agent_id (ge_url env) (high_uri env peer)) wire))"
    by (simp_all add: g1_def g2_def h1_def g3_def k1_def gw_req_def)
  define g4 where "g4 = ?l\<lparr>gw_endpoint_self := Detach (Some ?s4), gw_inner_transport := Detach (Some i')\<rparr>"
  have "gw_endpoint_self g4 = Detach (Some ?s4)"
    "snd_sent (gce_sender ?s4) = snd_sent (gce_sender s) @ [Response (ge_bt env) rid (Inr (TransportResponse SendMessageSuccess))]"
    by (simp_all add: g4_def append_sent_def s'_def)
  with owner sent g2[folded g2_def] g3[folded g3_def] g4[folded g4_def] show ?thesis by (intro exI conjI)
qed

text \<open>
  C18: A send to a peer the DHT does not know, in one pass over the retry queue. Before the retry interval of 20 ms
  has passed, the pass leaves it queued as it is. After that the DHT is asked again; if it still does not
  know the peer, the send is queued again from this moment on, until the deadline has passed: then it leaves the queue and the owner
  gets a timeout error. If the owner's message was an event instead of a request, the timeout panics.
\<close>

theorem unresolved_send_retries:
  assumes self: "gw_endpoint_self g = Detach (Some s)" "snd_error (gce_sender s) = None"
    and dht: "gw_inner_dht g = Detach (Some d)" "ready env d"
    and queue: "pending_send_queue g = [\<lparr>send_data = WithPartialHighUri sd, last_attempt = l, expires_at = x, sm_cb = RespondSendMessage msg\<rparr>]"
    and "l \<le> ge_now env"
  shows "(ge_now env < l + SEND_RETRY_INTERVAL_MS \<and> ge_now env \<le> x \<longrightarrow> process_transport_pending_sends env g = Ok () g)
    \<and> (l + SEND_RETRY_INTERVAL_MS \<le> ge_now env \<longrightarrow> (\<exists>g1 rid. process_transport_pending_sends env g = Ok () g1
        \<and> pending_send_queue g1 = [] \<and> last_sent (gw_inner_dht g1) = Some (Request (ge_bt env) (Some rid) (RequestPeer (partial_high_uri sd)))
        \<and> (ge_now env \<le> x \<longrightarrow> (\<exists>g2. gw_dht_answers env [Response b rid (Inr (PeerResponse None))] g1 = Ok () g2
              \<and> pending_send_queue g2 = [\<lparr>send_data = WithPartialHighUri sd, last_attempt = ge_now env, expires_at = x, sm_cb = RespondSendMessage msg\<rparr>]
              \<and> gw_endpoint_self g2 = gw_endpoint_self g))
        \<and> (x < ge_now env \<longrightarrow> (\<forall>r. gm_request_id msg = Some r \<longrightarrow> (\<exists>g2. gw_dht_answers env [Response b rid (Inr (PeerResponse None))] g1 = Ok () g2
              \<and> pending_send_queue g2 = []
              \<and> last_sent (gw_endpoint_self g2) = Some (Response (ge_bt env) r (Inl (Lib3hTransportError (TransportOther ''timeout''))))))
            \<and> (gm_request_id msg = None \<longrightarrow> gw_dht_answers env [Response b rid (Inr (PeerResponse None))] g1 = Panic ''Unhandled publish error''))))"
proof (intro conjI impI)
  assume *: "ge_now env < l + SEND_RETRY_INTERVAL_MS \<and> ge_now env \<le> x"
  then have "ge_now env - l < SEND_RETRY_INTERVAL_MS" using \<open>l \<le> ge_now env\<close> by arith
  with * show "process_transport_pending_sends env g = Ok () g" using queue \<open>l \<le> ge_now env\<close>
    by (simp add: process_transport_pending_sends_def priv_send_check_dispatch_def priv_send_queue_pending_def)
next
  assume due: "l + SEND_RETRY_INTERVAL_MS \<le> ge_now env"
  let ?cb = "RespondSendMessage msg" and ?g0 = "g\<lparr>pending_send_queue := []\<rparr>"
  let ?dcb = "SendToResolved sd (ge_now env) x ?cb" and ?p = "RequestPeer (partial_high_uri sd)"
  define g1 where "g1 = ?g0\<lparr>gw_inner_dht := Detach (Some (asked (gw_req env ?g0) ?p ?dcb d)), gw_draws := Suc (gw_draws g)\<rparr>"
  let ?rid = "gt_request_id_prefix (gce_tracker d) @ re_nanoid (gw_req env ?g0)" and ?h = "g1\<lparr>gw_inner_dht := Detach None\<rparr>"
  have "\<not> ge_now env - l < SEND_RETRY_INTERVAL_MS" using due by arith
  then have run: "process_transport_pending_sends env g = Ok () g1"
    using queue due dht
    by (simp add: process_transport_pending_sends_def priv_send_check_dispatch_def priv_send_with_partial_high_uri_def g1_def
        gw_dht_request_def detach_deref_mut_def ready_request drawn_def)
  have sent: "last_sent (gw_inner_dht g1) = Some (Request (ge_bt env) (Some ?rid) ?p)" by (simp add: g1_def gw_req_def)
  have answer: "\<exists>d'. gw_dht_answers env [Response b ?rid (Inr (PeerResponse None))] g1 = Ok () (g2\<lparr>gw_inner_dht := Detach (Some d')\<rparr>)"
    if "gw_dht_callback env ?dcb (CbResponse (Inr (PeerResponse None))) ?h = Ok () g2" for g2
    using dht_answers[OF dht(2) that refl, of ?g0 ?p b] by (auto simp: g1_def)
  have sf: "gw_endpoint_self ?h = Detach (Some s)" using self by (simp add: g1_def)
  show "\<exists>g1 rid. process_transport_pending_sends env g = Ok () g1
        \<and> pending_send_queue g1 = [] \<and> last_sent (gw_inner_dht g1) = Some (Request (ge_bt env) (Some rid) ?p)
        \<and> (ge_now env \<le> x \<longrightarrow> (\<exists>g2. gw_dht_answers env [Response b rid (Inr (PeerResponse None))] g1 = Ok () g2
              \<and> pending_send_queue g2 = [\<lparr>send_data = WithPartialHighUri sd, last_attempt = ge_now env, expires_at = x, sm_cb = ?cb\<rparr>]
              \<and> gw_endpoint_self g2 = gw_endpoint_self g))
        \<and> (x < ge_now env \<longrightarrow> (\<forall>r. gm_request_id msg = Some r \<longrightarrow> (\<exists>g2. gw_dht_answers env [Response b rid (Inr (PeerResponse None))] g1 = Ok () g2
              \<and> pending_send_queue g2 = []
              \<and> last_sent (gw_endpoint_self g2) = Some (Response (ge_bt env) r (Inl (Lib3hTransportError (TransportOther ''timeout''))))))
            \<and> (gm_request_id msg = None \<longrightarrow> gw_dht_answers env [Response b rid (Inr (PeerResponse None))] g1 = Panic ''Unhandled publish error''))"
  proof (rule exI[of _ g1], rule exI[of _ ?rid], intro conjI impI allI run sent)
    show "pending_send_queue g1 = []" by (simp add: g1_def)
    show "\<exists>g2. gw_dht_answers env [Response b ?rid (Inr (PeerResponse None))] g1 = Ok () g2
        \<and> pending_send_queue g2 = [\<lparr>send_data = WithPartialHighUri sd, last_attempt = ge_now env, expires_at = x, sm_cb = ?cb\<rparr>]
        \<and> gw_endpoint_self g2 = gw_endpoint_self g" if "ge_now env \<le> x"
    proof -
      let ?g2 = "?h\<lparr>pending_send_queue := [\<lparr>send_data = WithPartialHighUri sd, last_attempt = ge_now env, expires_at = x, sm_cb = ?cb\<rparr>]\<rparr>"
      have "gw_dht_callback env ?dcb (CbResponse (Inr (PeerResponse None))) ?h = Ok () ?g2"
        using that by (simp add: priv_send_queue_pending_def g1_def)
      from answer[OF this] show ?thesis by (auto simp: g1_def)
    qed
    show "\<exists>g2. gw_dht_answers env [Response b ?rid (Inr (PeerResponse None))] g1 = Ok () g2 \<and> pending_send_queue g2 = []
        \<and> last_sent (gw_endpoint_self g2) = Some (Response (ge_bt env) r (Inl (Lib3hTransportError (TransportOther ''timeout''))))"
      if late: "x < ge_now env" and r: "gm_request_id msg = Some r" for r
    proof -
      let ?e = "Inl (Lib3hTransportError (TransportOther ''timeout''))"
      have "gw_dht_callback env ?dcb (CbResponse (Inr (PeerResponse None))) ?h =
          Ok () (?h\<lparr>gw_endpoint_self := Detach (Some (append_sent [Response (ge_bt env) r ?e] s))\<rparr>)"
        using late gw_respond_open[OF sf self(2) r, of env ?e] by (simp add: priv_send_queue_pending_def)
      from answer[OF this] show ?thesis by (auto simp: g1_def append_sent_def)
    qed
    show "gw_dht_answers env [Response b ?rid (Inr (PeerResponse None))] g1 = Panic ''Unhandled publish error''"
      if late: "x < ge_now env" and r: "gm_request_id msg = None"
    proof -
      have cb: "gw_dht_callback env ?dcb (CbResponse (Inr (PeerResponse None))) ?h = Panic ''Unhandled publish error''"
        using late r sf by (simp add: priv_send_queue_pending_def gw_respond_def detach_deref_mut_def GhostMessage_respond_def)
      show ?thesis by (rule dht_answers_panic[OF dht(2) cb refl]) (simp add: g1_def)
    qed
  qed
qed

lemma child_forwards:
  assumes "ready env ep"
  shows "child_process rid_msg call (ge_now env) (Ok True [Request b None p]) (ep, ud) =
    Ok () (ep\<lparr>gce_outbox := [GhostMessage_new b None p]\<rparr>, ud)"
proof -
  have "ep\<lparr>gce_receiver := (gce_receiver ep)\<lparr>rcv_incoming := []\<rparr>\<rparr> = ep"
    using assms by (simp add: ready_def idle_endpoint_def)
  then have "deliver [Request b None p] ep = ep\<lparr>gce_receiver := (gce_receiver ep)\<lparr>rcv_incoming := [Request b None p]\<rparr>\<rparr>"
    using assms by (simp add: ready_def idle_endpoint_def deliver_def)
  then show ?thesis
    using assms endpoint_process_requests[of "ge_now env" "deliver [Request b None p] ep" b "[(None, p)]" rid_msg call ud]
    by (simp add: child_process_def ready_def idle_endpoint_def deliver_def)
qed


section \<open>Witnesses\<close>

definition demo_url :: url_lib where
  "demo_url = \<lparr>ul_parse = Inr, ul_scheme = takeWhile (\<lambda>c. c \<noteq> CHR '':''), ul_path = id, ul_query_pairs = (\<lambda>_. []), ul_clear_query = id,
     ul_one_pair = (\<lambda>_ u. u), ul_port = (\<lambda>_. None), ul_set_port = (\<lambda>_ u. Some u), ul_set_host = (\<lambda>_ u. Some u), ul_set_scheme = (\<lambda>_ u. Some u)\<rparr>"

definition demo_wire :: wire_lib where
  "demo_wire = \<lparr>rmp_ser = (\<lambda>p. case p of CapnProtoMessage b \<Rightarrow> Some (7 # b) | _ \<Rightarrow> Some [0]),
     rmp_de = (\<lambda>b. case b of x # bs \<Rightarrow> if x = 7 then Inr (CapnProtoMessage bs) else Inl [] | [] \<Rightarrow> Inl []),
     capnp_write = (\<lambda>m. case m of MsgPing _ \<Rightarrow> [1] | MsgPong _ _ \<Rightarrow> [2]),
     capnp_read = (\<lambda>b. if b = [1] then Inr (MsgPing 5) else if b = [2] then Inr (MsgPong 5 6) else Inl [])\<rparr>"

definition demo_gw_env :: "time \<Rightarrow> gateway_env" where
  "demo_gw_env now = \<lparr>ge_url = demo_url, ge_wire = demo_wire, ge_now = now, ge_epoch = 1000, ge_checks = True, ge_log_info = True,
     ge_bt = Backtwrap None, ge_nanoid = (\<lambda>n. replicate n (CHR ''x'')), ge_rid_msg = (\<lambda>_ _. []), ge_dbg_bt = (\<lambda>_. []),
     ge_dbg_ghost = (\<lambda>_. []), ge_dbg_lib3h = (\<lambda>_. [])\<rparr>"

definition demo_gateway :: P2pGateway where
  "demo_gateway = (case P2pGateway_new (demo_gw_env 100) DoNotWrapOutput \<lparr>nickname = ''n'', gateway_id = ''net''\<rparr> ''mem://a''
     (fst create_ghost_channel) (\<lambda>_ _. Some (fst create_ghost_channel)) (DhtConfig_new ''a:me'') of Ok g _ \<Rightarrow> g)"

definition owner_sends :: "(GatewayRequestToChild, GatewayRequestToParentResponse, Lib3hError) GhostEndpointMessage list \<Rightarrow> P2pGateway \<Rightarrow> P2pGateway" where
  "owner_sends ms g = (case gw_endpoint_self g of
     Detach (Some ep) \<Rightarrow> g\<lparr>gw_endpoint_self := Detach (Some (deliver ms ep))\<rparr> | Detach None \<Rightarrow> g)"

definition silent_children :: gateway_children where
  "silent_children = \<lparr>gc_transport = Ok False [], gc_encoding = Ok False [], gc_dht = Ok False []\<rparr>"

definition demo_request :: "(GatewayRequestToChild, GatewayRequestToParentResponse, Lib3hError) GhostEndpointMessage" where
  "demo_request = Request (Backtwrap None) (Some ''r1'') (TransportToChild (SendMessage ''a:you'' [9]))"

lemmas demo_gateway_simps = demo_gateway_def P2pGateway_new_def demo_gw_env_def Let_def create_ghost_channel_def
  wrap_endpoint_def Detach_new_def GhostContextEndpointBuilder_build_def GhostContextEndpointBuilder_request_id_prefix_def
  as_context_endpoint_builder_def GhostTrackerBuilder_build_def MessageEncoding_new_def GhostTrackerBuilder_request_id_prefix_def
  GhostEndpoint_new_def fresh_sender_def fresh_receiver_def

definition demo_self :: "GwSelfCallback GatewaySelfEndpoint" where
  "demo_self = wrap_endpoint ''n_to_parent_'' (snd create_ghost_channel)"

lemma demo_gateway_fields:
  "gw_endpoint_self demo_gateway = Detach (Some demo_self)"
  "pending_send_queue demo_gateway = []"
  "wrap_output_type demo_gateway = DoNotWrapOutput"
  by (simp_all add: demo_gateway_simps demo_self_def)

lemma demo_gateway_children:
  "gw_inner_transport demo_gateway = Detach (Some (wrap_endpoint ''to_child_transport_'' (fst create_ghost_channel)))"
  "gw_inner_dht demo_gateway = Detach (Some (wrap_endpoint ''gateway_dht_'' (fst create_ghost_channel)))"
  "gw_message_encoding demo_gateway = Detach (Some (wrap_endpoint ''to_message_encoding_'' (fst create_ghost_channel)))"
  by (simp_all add: demo_gateway_simps)

lemma demo_endpoint_ready: "now \<le> 1000 \<Longrightarrow> ready (demo_gw_env now) (wrap_endpoint prefix (fst create_ghost_channel))"
  by (simp add: ready_def idle_endpoint_def demo_gateway_simps gt_expired_def GhostTrackerBuilder_default_def DEFAULT_TIMEOUT_def TIME_MAX_def)

definition demo_asked :: P2pGateway where
  "demo_asked = owner_sends [demo_request] demo_gateway"

lemma demo_asked_self:
  "gw_endpoint_self demo_asked = Detach (Some (deliver [demo_request] demo_self))"
  "gt_expired (ge_now (demo_gw_env now)) (gce_tracker (deliver [demo_request] demo_self)) = []"
  "gce_outbox (deliver [demo_request] demo_self) = []" "\<not> rcv_disconnected (gce_receiver (deliver [demo_request] demo_self))"
  "snd_error (gce_sender (deliver [demo_request] demo_self)) = None"
  "rcv_incoming (gce_receiver (deliver [demo_request] demo_self)) = [Request (Backtwrap None) (Some ''r1'') (TransportToChild (SendMessage ''a:you'' [9]))]"
  by (simp_all add: demo_asked_def owner_sends_def demo_gateway_fields deliver_def demo_self_def demo_gateway_simps gt_expired_def demo_request_def)

lemma demo_asked_frame:
  "gw_inner_transport demo_asked = gw_inner_transport demo_gateway" "gw_inner_dht demo_asked = gw_inner_dht demo_gateway"
  "gw_message_encoding demo_asked = gw_message_encoding demo_gateway" "wrap_output_type demo_asked = DoNotWrapOutput"
  "pending_send_queue demo_asked = []"
  by (simp_all add: demo_asked_def owner_sends_def demo_gateway_fields)

lemmas demo_ready = demo_endpoint_ready[of 100, simplified]

lemma demo_time: "ge_now (demo_gw_env 100) + SEND_RETRY_TIMEOUT_MS \<le> TIME_MAX" "SEND_RETRY_INTERVAL_MS * 2 \<le> ge_now (demo_gw_env 100)"
  by (simp_all add: demo_gw_env_def SEND_RETRY_TIMEOUT_MS_def SEND_RETRY_INTERVAL_MS_def TIME_MAX_def)

theorem send_path_witness:
  "\<exists>g1 g3 g4 children s4. gw_process_owner (demo_gw_env 100) demo_asked = Ok () g1
     \<and> gw_process_transport (demo_gw_env 100) children g3 = Ok () g4 \<and> gw_endpoint_self g4 = Detach (Some s4)
     \<and> snd_sent (gce_sender s4) = [Response (Backtwrap None) ''r1'' (Inr (TransportResponse SendMessageSuccess))]"
proof -
  let ?env = "demo_gw_env 100" and ?peer = "\<lparr>peer_name = ''a:you'', peer_location = ''mem://b'', timestamp = 3\<rparr>"
  have "wrap_payload ?env (high_uri ?env ?peer) [8] demo_asked = Ok [8] ()" by (simp add: wrap_payload_def demo_asked_frame)
  note path = send_path[where b = "Backtwrap None" and ?b1.0 = "Backtwrap None" and ?b2.0 = "Backtwrap None" and ?b3.0 = "Backtwrap None" and children = silent_children,
      OF demo_asked_self(1-6) demo_asked_frame(2,3,1)[unfolded demo_gateway_children] demo_ready demo_ready demo_ready demo_time(1) this]
  moreover have "snd_sent (gce_sender (deliver [demo_request] demo_self)) = []" "ge_bt ?env = Backtwrap None"
    by (simp_all add: deliver_def demo_self_def demo_gateway_simps)
  ultimately show ?thesis by (metis append_Nil)
qed

definition demo_message :: GatewayToChildMessage where
  "demo_message = (GhostMessage_new (Backtwrap None) (Some ''r1'') (TransportToChild (SendMessage ''a:you'' [9])))\<lparr>gm_message := None\<rparr>"

definition demo_queued :: "time \<Rightarrow> P2pGateway" where
  "demo_queued x = demo_gateway\<lparr>pending_send_queue := [\<lparr>send_data = WithPartialHighUri (SendWithPartialHighUri ''a:you'' [9]), last_attempt = 70,
     expires_at = x, sm_cb = RespondSendMessage demo_message\<rparr>]\<rparr>"

theorem unresolved_send_retries_witness:
  "(\<exists>g1 g2 rid. process_transport_pending_sends (demo_gw_env 100) (demo_queued 200) = Ok () g1
     \<and> gw_dht_answers (demo_gw_env 100) [Response (Backtwrap None) rid (Inr (PeerResponse None))] g1 = Ok () g2 \<and> length (pending_send_queue g2) = 1)
   \<and> (\<exists>g1 g2 rid. process_transport_pending_sends (demo_gw_env 100) (demo_queued 90) = Ok () g1
     \<and> gw_dht_answers (demo_gw_env 100) [Response (Backtwrap None) rid (Inr (PeerResponse None))] g1 = Ok () g2 \<and> pending_send_queue g2 = []
     \<and> last_sent (gw_endpoint_self g2) = Some (Response (Backtwrap None) ''r1'' (Inl (Lib3hTransportError (TransportOther ''timeout'')))))"
proof -
  have f: "gw_endpoint_self (demo_queued x) = Detach (Some demo_self)" "snd_error (gce_sender demo_self) = None"
    "gw_inner_dht (demo_queued x) = Detach (Some (wrap_endpoint ''gateway_dht_'' (fst create_ghost_channel)))" for x
    by (simp_all add: demo_queued_def demo_gateway_fields demo_gateway_children) (simp add: demo_self_def demo_gateway_simps)
  have q: "pending_send_queue (demo_queued x) = [\<lparr>send_data = WithPartialHighUri (SendWithPartialHighUri ''a:you'' [9]), last_attempt = 70,
     expires_at = x, sm_cb = RespondSendMessage demo_message\<rparr>]" for x by (simp add: demo_queued_def)
  have t: "70 \<le> ge_now (demo_gw_env 100)" "70 + SEND_RETRY_INTERVAL_MS \<le> ge_now (demo_gw_env 100)" "ge_now (demo_gw_env 100) = 100"
    "ge_bt (demo_gw_env 100) = Backtwrap None"
    by (simp_all add: demo_gw_env_def SEND_RETRY_INTERVAL_MS_def)
  note u = unresolved_send_retries[OF f demo_ready q t(1), where b = "Backtwrap None", THEN conjunct2, rule_format, OF t(2)]
  show ?thesis
  proof
    from u[of 200] show "\<exists>g1 g2 rid. process_transport_pending_sends (demo_gw_env 100) (demo_queued 200) = Ok () g1
     \<and> gw_dht_answers (demo_gw_env 100) [Response (Backtwrap None) rid (Inr (PeerResponse None))] g1 = Ok () g2 \<and> length (pending_send_queue g2) = 1"
      unfolding t(3) by fastforce
    have "gm_request_id demo_message = Some ''r1''" by (simp add: demo_message_def GhostMessage_new_def)
    with u[of 90] show "\<exists>g1 g2 rid. process_transport_pending_sends (demo_gw_env 100) (demo_queued 90) = Ok () g1
     \<and> gw_dht_answers (demo_gw_env 100) [Response (Backtwrap None) rid (Inr (PeerResponse None))] g1 = Ok () g2 \<and> pending_send_queue g2 = []
     \<and> last_sent (gw_endpoint_self g2) = Some (Response (Backtwrap None) ''r1'' (Inl (Lib3hTransportError (TransportOther ''timeout''))))"
      unfolding t(3,4) by fastforce
  qed
qed


end
