(* ===== verification/Ghost_Ledger.thy ===== *)
theory Ghost_Ledger
  imports Ghost_Channel "HOL-Library.Multiset"
begin

text \<open>
  Book-keeping for callbacks. A callback stored in a tracker stands for obligations of its actor
  (requests it still has to answer). If every callback that runs moves exactly its own obligations into the
  actor's ledger (where they are answered, or owed by another stored callback), then processing an
  endpoint neither loses nor duplicates one: what the ledger gains is what the tracker loses.
\<close>

definition tracker_owes :: "('cb \<Rightarrow> 'k multiset) \<Rightarrow> 'cb GhostTracker \<Rightarrow> 'k multiset" where
  "tracker_owes owes t = (\<Sum>p \<in># mset (gt_pending t). owes (gte_cb (snd p)))"

lemma tracker_owes_remove:
  assumes "wf_tracker t" and "gt_lookup t rid = Some entry"
  shows "tracker_owes owes (gt_remove rid t) + owes (gte_cb entry) = tracker_owes owes t"
proof -
  have in_set: "(rid, entry) \<in># mset (gt_pending t)" using assms(2) by (auto dest: map_of_SomeD)
  have "filter (\<lambda>(k', _). rid \<noteq> k') m = remove1 (rid, entry) m" if "distinct (map fst m)" "(rid, entry) \<in> set m" for m
    using that
  proof (induction m)
    case (Cons p m)
    then show ?case by (cases p) (auto simp: filter_id_conv image_iff split: prod.splits)
  qed simp
  then have "mset (gt_pending (gt_remove rid t)) = mset (gt_pending t) - {#(rid, entry)#}"
    using assms(1) in_set by (simp add: gt_remove_def delete_filter)
  moreover obtain M where M: "mset (gt_pending t) = add_mset (rid, entry) M" using in_set by (rule mset_add)
  ultimately show ?thesis by (simp add: tracker_owes_def)
qed

lemma tracker_owes_insert:
  assumes "gt_lookup t rid = None"
  shows "tracker_owes owes (gt_insert rid entry t) = tracker_owes owes t + owes (gte_cb entry)"
  using assms by (simp add: tracker_owes_def gt_insert_def update_new)

locale callback_ledger =
  fixes call :: "('cb, 'ud \<times> ('ro, 'rsr, 'err) GhostEndpointMessage Sender, 'ror, 'err) call"
    and ok :: "'ud \<Rightarrow> bool"
    and stamp :: "'ud \<Rightarrow> nat"
    and ledger :: "'ud \<Rightarrow> 'k multiset"
    and owes :: "'cb \<Rightarrow> 'k multiset"
  assumes call_ledger: "ok ud \<Longrightarrow> call cb data (ud, s) = Ok () (ud', s') \<Longrightarrow>
      ok ud' \<and> stamp ud \<le> stamp ud' \<and> ledger ud' = ledger ud + owes cb"
begin

text \<open>From one state of tracker and actor to a later one.\<close>

definition settles :: "'cb GhostTracker \<Rightarrow> 'ud \<Rightarrow> 'cb GhostTracker \<Rightarrow> 'ud \<Rightarrow> bool" where
  "settles t ud t' ud' \<longleftrightarrow> wf_tracker t' \<and> ok ud' \<and> stamp ud \<le> stamp ud'
     \<and> gt_request_id_prefix t' = gt_request_id_prefix t \<and> set (keys (gt_pending t')) \<subseteq> set (keys (gt_pending t))
     \<and> ledger ud' + tracker_owes owes t' = ledger ud + tracker_owes owes t"

lemma settles_refl: "wf_tracker t \<Longrightarrow> ok ud \<Longrightarrow> settles t ud t ud"
  by (simp add: settles_def)

lemma settles_trans: "settles t ud t1 ud1 \<Longrightarrow> settles t1 ud1 t2 ud2 \<Longrightarrow> settles t ud t2 ud2"
  unfolding settles_def by (metis le_trans order_trans)

lemma settles_call:
  assumes "wf_tracker t" and "ok ud" and "gt_lookup t rid = Some entry"
    and "call (gte_cb entry) data (ud, s) = Ok () (ud', s')"
  shows "settles t ud (gt_remove rid t) ud'"
proof -
  from call_ledger[OF assms(2,4)] tracker_owes_remove[OF assms(1,3), of owes] show ?thesis using assms(1)
    unfolding settles_def by (intro conjI) (auto simp: gt_remove_def keys_delete_set ac_simps simp del: set_map)
qed

lemma expire_settles:
  "wf_tracker t \<Longrightarrow> ok ud \<Longrightarrow> gt_expire call rids t (ud, s) = Ok v (t', ud', s') \<Longrightarrow> settles t ud t' ud'"
proof (induction rids arbitrary: t ud s)
  case Nil
  then show ?case by (simp add: settles_refl)
next
  case (Cons rid rids)
  show ?case
  proof (cases "gt_lookup t rid")
    case None
    with Cons show ?thesis by simp
  next
    case (Some entry)
    with Cons.prems(3) obtain ud1 s1 where c: "call (gte_cb entry) (CbTimeout (gte_backtrace entry)) (ud, s) = Ok () (ud1, s1)"
      and r: "gt_expire call rids (gt_remove rid t) (ud1, s1) = Ok v (t', ud', s')"
      by (auto simp: outcome_simps)
    from settles_call[OF Cons.prems(1,2) Some c] have s1: "settles t ud (gt_remove rid t) ud1" .
    then have "settles (gt_remove rid t) ud1 t' ud'" using Cons.IH[OF _ _ r] by (simp add: settles_def)
    with s1 show ?thesis by (rule settles_trans)
  qed
qed

lemma with_tracker_process_settles:
  assumes "wf_tracker (gce_tracker ep)" and "ok ud"
    and "with_tracker (GhostTracker_process call now) (ep, ud) = Ok w (ep', ud')"
  shows "settles (gce_tracker ep) ud (gce_tracker ep') ud'"
proof -
  from assms(3) obtain t' s' where "gt_expire call (gt_expired now (gce_tracker ep)) (gce_tracker ep) (ud, gce_sender ep) = Ok () (t', ud', s')"
    "gce_tracker ep' = t'"
    by (auto simp: with_tracker_def GhostTracker_process_def outcome_simps Let_def)
  with expire_settles[OF assms(1,2)] show ?thesis by metis
qed

lemma process_message_settles:
  assumes "wf_tracker (gce_tracker ep)" and "ok ud" and "process_message rid_msg call m (ep, ud) = Ok v (ep', ud')"
  shows "settles (gce_tracker ep) ud (gce_tracker ep') ud'"
proof (cases m)
  case (Request bt rid p)
  with assms show ?thesis by (auto simp: process_message_def settles_refl)
next
  case (Response bt rid p)
  with assms(3) obtain entry s' where e: "gt_lookup (gce_tracker ep) rid = Some entry"
    and c: "call (gte_cb entry) (CbResponse p) (ud, gce_sender ep) = Ok () (ud', s')" and t: "gce_tracker ep' = gt_remove rid (gce_tracker ep)"
    by (auto simp: process_message_def with_tracker_def GhostTracker_handle_def outcome_simps split: option.splits)
  from settles_call[OF assms(1,2) e c] t show ?thesis by simp
qed

lemma process_loop_settles:
  "wf_tracker (gce_tracker ep) \<Longrightarrow> ok ud \<Longrightarrow> process_loop rid_msg call ms w (ep, ud) = Ok w' (ep', ud') \<Longrightarrow>
     settles (gce_tracker ep) ud (gce_tracker ep') ud'"
proof (induction ms arbitrary: w ep ud)
  case Nil
  then show ?case by (auto simp: settles_refl split: if_splits)
next
  case (Cons m ms)
  let ?ep = "ep\<lparr>gce_receiver := (gce_receiver ep)\<lparr>rcv_incoming := ms\<rparr>\<rparr>"
  from Cons.prems(3) obtain v ep1 ud1 where m: "process_message rid_msg call m (?ep, ud) = Ok v (ep1, ud1)"
    and r: "process_loop rid_msg call ms True (ep1, ud1) = Ok w' (ep', ud')" by (auto simp: outcome_simps)
  have s: "settles (gce_tracker ep) ud (gce_tracker ep1) ud1"
    using process_message_settles[of ?ep, OF _ Cons.prems(2) m] Cons.prems(1) by simp
  then have "settles (gce_tracker ep1) ud1 (gce_tracker ep') ud'" using Cons.IH[OF _ _ r] by (simp add: settles_def)
  with s show ?case by (rule settles_trans)
qed

lemma endpoint_process_settles:
  assumes "wf_tracker (gce_tracker ep)" and "ok ud" and "endpoint_process rid_msg call now (ep, ud) = Ok w (ep', ud')"
  shows "settles (gce_tracker ep) ud (gce_tracker ep') ud'"
proof -
  from assms(3) obtain w1 ep1 ud1 where t: "with_tracker (GhostTracker_process call now) (ep, ud) = Ok w1 (ep1, ud1)"
    and l: "process_loop rid_msg call (rcv_incoming (gce_receiver ep1)) w1 (ep1, ud1) = Ok w (ep', ud')"
    by (auto simp: endpoint_process_def outcome_simps)
  have s: "settles (gce_tracker ep) ud (gce_tracker ep1) ud1" using with_tracker_process_settles[OF assms(1,2) t] .
  then have "settles (gce_tracker ep1) ud1 (gce_tracker ep') ud'" using process_loop_settles[OF _ _ l] by (simp add: settles_def)
  with s show ?thesis by (rule settles_trans)
qed

end

end
