(* ===== verification/Gateway_Obligations.thy ===== *)
theory Gateway_Obligations
  imports Gateway_Paths Ghost_Ledger
begin

text \<open>
  Every request of a gateway's owner is answered once. Until then it is owed: by a send waiting in
  the retry queue, or by a callback waiting for the DHT, the encoder or the transport. The
  lemmas follow the request through all operations; the theorem is about a whole \<open>process\<close> call.
\<close>

section \<open>What is owed and what was answered\<close>

definition msg_owes :: "GatewayToChildMessage \<Rightarrow> RequestId multiset" where
  "msg_owes msg = (case gm_request_id msg of Some rid \<Rightarrow> {#rid#} | None \<Rightarrow> {#})"

fun cb_owes :: "SendCallback \<Rightarrow> RequestId multiset" where
  "cb_owes (RespondBootstrap msg) = msg_owes msg"
| "cb_owes (RespondSendMessage msg) = msg_owes msg"
| "cb_owes IgnoreResult = {#}"

fun dht_owes :: "GwDhtCallback \<Rightarrow> RequestId multiset" where
  "dht_owes (SendToResolved _ _ _ cb) = cb_owes cb"
| "dht_owes (ForwardDhtResponse msg) = msg_owes msg"
| "dht_owes _ = {#}"

fun encoding_owes :: "GwEncodingCallback \<Rightarrow> RequestId multiset" where
  "encoding_owes (SendEncoded _ _ _ cb) = cb_owes cb"
| "encoding_owes (ReceiveDecoded _) = {#}"

fun transport_owes :: "GwTransportCallback \<Rightarrow> RequestId multiset" where
  "transport_owes (ForwardBindResponse msg) = msg_owes msg"
| "transport_owes (FinishSend _ _ _ cb) = cb_owes cb"

fun endpoint_owes :: "('cb \<Rightarrow> 'k multiset) \<Rightarrow> ('cb, 'ro, 'ror, 'rs, 'rsr, 'err) GhostContextEndpoint Detach \<Rightarrow> 'k multiset" where
  "endpoint_owes owes (Detach (Some ep)) = tracker_owes owes (gce_tracker ep)"
| "endpoint_owes owes (Detach None) = {#}"

definition owed :: "P2pGateway \<Rightarrow> RequestId multiset" where
  "owed g = (\<Sum>meta \<in># mset (pending_send_queue g). cb_owes (sm_cb meta))
     + endpoint_owes dht_owes (gw_inner_dht g) + endpoint_owes encoding_owes (gw_message_encoding g)
     + endpoint_owes transport_owes (gw_inner_transport g)"

fun response_id :: "('req, 'resp, 'err) GhostEndpointMessage \<Rightarrow> RequestId multiset" where
  "response_id (Response _ rid _) = {#rid#}"
| "response_id (Request _ _ _) = {#}"

fun sent_responses :: "('cb, 'ro, 'ror, 'rs, 'rsr, 'err) GhostContextEndpoint Detach \<Rightarrow> RequestId multiset" where
  "sent_responses (Detach (Some ep)) = (\<Sum>m \<in># mset (snd_sent (gce_sender ep)). response_id m)"
| "sent_responses (Detach None) = {#}"

definition answered :: "P2pGateway \<Rightarrow> RequestId multiset" where
  "answered g = sent_responses (gw_endpoint_self g)"

text \<open>\<open>SendAll\<close> is the one request that is never answered; its closure drops the message.\<close>

definition request_owes :: "GatewayToChildMessage \<Rightarrow> RequestId multiset" where
  "request_owes msg = (case gm_message msg of Some (SendAll _) \<Rightarrow> {#} | _ \<Rightarrow> msg_owes msg)"

section \<open>Moving obligations\<close>

text \<open>The trackers are well-formed and the ids to be drawn next are not in use.\<close>

fun endpoint_ok :: "(nat \<Rightarrow> string) \<Rightarrow> nat \<Rightarrow> ('cb, 'ro, 'ror, 'rs, 'rsr, 'err) GhostContextEndpoint Detach \<Rightarrow> bool" where
  "endpoint_ok nanoid n (Detach (Some ep)) \<longleftrightarrow> wf_tracker (gce_tracker ep)
     \<and> (\<forall>k \<ge> n. gt_request_id_prefix (gce_tracker ep) @ nanoid k \<notin> set (keys (gt_pending (gce_tracker ep))))"
| "endpoint_ok nanoid n (Detach None) \<longleftrightarrow> True"

definition gateway_ok :: "gateway_env \<Rightarrow> P2pGateway \<Rightarrow> bool" where
  "gateway_ok env g \<longleftrightarrow> inj (ge_nanoid env) \<and> endpoint_ok (ge_nanoid env) (gw_draws g) (gw_inner_dht g)
     \<and> endpoint_ok (ge_nanoid env) (gw_draws g) (gw_message_encoding g)
     \<and> endpoint_ok (ge_nanoid env) (gw_draws g) (gw_inner_transport g)"

lemma endpoint_ok_mono: "endpoint_ok nanoid n d \<Longrightarrow> n \<le> m \<Longrightarrow> endpoint_ok nanoid m d"
proof -
  assume d: "endpoint_ok nanoid n d" and "n \<le> m"
  then show ?thesis by (cases d) (auto split: option.splits elim!: endpoint_ok.elims)
qed

definition ledger :: "P2pGateway \<Rightarrow> RequestId multiset" where
  "ledger g = answered g + owed g"

text \<open>Which members are in place.\<close>

definition attachment :: "P2pGateway \<Rightarrow> bool \<times> bool \<times> bool \<times> bool" where
  "attachment g = (is_attached (gw_inner_dht g), is_attached (gw_message_encoding g),
     is_attached (gw_inner_transport g), is_attached (gw_endpoint_self g))"

text \<open>\<open>moves env k g g'\<close>: the step from \<open>g\<close> to \<open>g'\<close> takes over the obligations \<open>k\<close> and keeps all others.\<close>

definition moves :: "gateway_env \<Rightarrow> RequestId multiset \<Rightarrow> P2pGateway \<Rightarrow> P2pGateway \<Rightarrow> bool" where
  "moves env k g g' \<longleftrightarrow> gateway_ok env g' \<and> gw_draws g \<le> gw_draws g' \<and> ledger g' = ledger g + k
     \<and> attachment g' = attachment g"

lemma moves_refl: "gateway_ok env g \<Longrightarrow> moves env {#} g g"
  by (simp add: moves_def)

lemma moves_trans: "moves env k g g1 \<Longrightarrow> moves env l g1 g2 \<Longrightarrow> moves env (k + l) g g2"
  by (auto simp: moves_def add.assoc)

lemma moves_ok: "moves env k g g' \<Longrightarrow> gateway_ok env g'"
  by (simp add: moves_def)

text \<open>An operation that takes over \<open>k\<close> whenever it returns normally.\<close>

definition carries :: "gateway_env \<Rightarrow> RequestId multiset \<Rightarrow> (P2pGateway \<Rightarrow> unit gw_result) \<Rightarrow> bool" where
  "carries env k f \<longleftrightarrow> (\<forall>g g'. gateway_ok env g \<longrightarrow> f g = Ok () g' \<longrightarrow> moves env k g g')"

lemma carriesI: "(\<And>g g'. gateway_ok env g \<Longrightarrow> final_state (f g) = Some g' \<Longrightarrow> moves env k g g') \<Longrightarrow> carries env k f"
  by (auto simp: carries_def)

named_theorems carry \<open>operations and the obligations they take over\<close>

lemma carries_bind:
  assumes "carries env k f" and "carries env l h"
  shows "carries env (k + l) (\<lambda>g. bind_ok (f g) (\<lambda>_. h))"
  using assms unfolding carries_def by (auto simp: outcome_simps) (meson moves_ok moves_trans)

lemma carries_with_pure: "(\<And>v. carries env k (f v)) \<Longrightarrow> carries env k (with_pure r f)"
  by (cases r) (auto simp: carries_def with_pure_def)

lemma carries_Ok: "carries env {#} (\<lambda>g. Ok () g)"
  by (simp add: carries_def moves_refl)

lemma carries_Panic: "carries env k (\<lambda>g. Panic m)"
  by (simp add: carries_def)

lemma carries_for_each:
  assumes "\<And>x. x \<in> set xs \<Longrightarrow> carries env (k x) (f x)"
  shows "carries env (\<Sum>x \<in># mset xs. k x) (for_each f xs)"
  using assms
proof (induction xs)
  case Nil
  then show ?case by (simp add: carries_def moves_refl)
next
  case (Cons x xs)
  have "carries env (k x + (\<Sum>x \<in># mset xs. k x)) (\<lambda>g. bind_ok (f x g) (\<lambda>_. for_each f xs))"
    using Cons by (intro carries_bind) auto
  then show ?case by (simp add: carries_def)
qed

lemma carries_map_err: "carries env k f \<Longrightarrow> carries env k (\<lambda>g. map_err h (f g))"
proof -
  have "map_err h r = Ok () g' \<longleftrightarrow> r = Ok () g'" for r :: "unit gw_result" and g' by (cases r) auto
  then show "carries env k f \<Longrightarrow> carries env k (\<lambda>g. map_err h (f g))" by (simp add: carries_def)
qed

section \<open>Requests, publishes, responses\<close>

lemma request_tracker:
  assumes "final_state (request renv p cb ep) = Some ep'"
  shows "\<exists>entry. gce_tracker ep' = gt_insert (gt_request_id_prefix (gce_tracker ep) @ re_nanoid renv) entry (gce_tracker ep)
    \<and> gte_cb entry = cb"
  using assms
  by (auto simp: request_def priv_request_def GhostTrackRequestOptions_default_def bookmark_def bookmark_options_def
      GhostTrackerBookmarkOptions_default_def RequestId_with_prefix_def Let_def final_state_bind_ok send_on_def chan_send_def
      split: option.splits outcome.splits)

lemma keys_insert: "set (keys (gt_pending (gt_insert rid e t))) = insert rid (set (keys (gt_pending t)))"
  by (simp add: gt_insert_def keys_update_set del: set_map)

text \<open>
  A request through an attached endpoint stores its callback under a fresh id.
\<close>

lemma request_stores:
  assumes "final_state (detach_deref_mut get put (request (gw_req env g) p cb) g) = Some g'"
    and "endpoint_ok (ge_nanoid env) (gw_draws g) (get g)" and "inj (ge_nanoid env)"
  shows "\<exists>d. g' = put d g \<and> is_attached d \<and> is_attached (get g) \<and> endpoint_ok (ge_nanoid env) (Suc (gw_draws g)) d
    \<and> endpoint_owes owes d = endpoint_owes owes (get g) + owes cb"
proof -
  obtain ep where ep: "get g = Detach (Some ep)"
    using assms(1) by (cases "get g") (auto simp: detach_deref_mut_def split: option.splits)
  with assms(1) obtain ep' where r: "final_state (request (gw_req env g) p cb ep) = Some ep'" and g': "g' = put (Detach (Some ep')) g"
    by (auto simp: detach_deref_mut_def final_state_lift_state)
  let ?t = "gce_tracker ep" and ?rid = "gt_request_id_prefix (gce_tracker ep) @ ge_nanoid env (gw_draws g)"
  obtain entry where t': "gce_tracker ep' = gt_insert ?rid entry ?t" "gte_cb entry = cb"
    using request_tracker[OF r] by (auto simp: gw_req_def)
  have wf: "wf_tracker ?t" and fresh: "?rid \<notin> set (keys (gt_pending ?t))"
    and later: "\<forall>k \<ge> gw_draws g. gt_request_id_prefix ?t @ ge_nanoid env k \<notin> set (keys (gt_pending ?t))"
    using assms(2) ep by auto
  have prefix: "gt_request_id_prefix (gce_tracker ep') = gt_request_id_prefix ?t" using t' by (simp add: gt_insert_def)
  have "gt_request_id_prefix ?t @ ge_nanoid env k \<notin> set (keys (gt_pending (gce_tracker ep')))" if "Suc (gw_draws g) \<le> k" for k
    unfolding t'(1) keys_insert using later that injD[OF assms(3), of k "gw_draws g"] by auto
  moreover have "wf_tracker (gce_tracker ep')" unfolding t'(1) by (rule gtt.invar_put[OF wf])
  moreover have "tracker_owes owes (gce_tracker ep') = tracker_owes owes ?t + owes cb"
    unfolding t' using tracker_owes_insert[of ?t ?rid owes entry] fresh t'(2) by (simp add: map_of_eq_None_iff)
  ultimately show ?thesis using ep g' prefix by (intro exI[of _ "Detach (Some ep')"]) auto
qed

text \<open>
  The same for an operation that leaves the tracker alone.
\<close>

lemma detach_deref_mut_final:
  assumes "final_state (detach_deref_mut get put f g) = Some g'"
  shows "\<exists>ep ep'. get g = Detach (Some ep) \<and> final_state (f ep) = Some ep' \<and> g' = put (Detach (Some ep')) g"
  using assms by (auto simp: detach_deref_mut_def final_state_lift_state split: Detach.splits option.splits)

lemma publish_frame:
  "final_state (publish bt p ep) = Some ep' \<Longrightarrow> gce_tracker ep' = gce_tracker ep
     \<and> (\<Sum>m \<in># mset (snd_sent (gce_sender ep')). response_id m) = (\<Sum>m \<in># mset (snd_sent (gce_sender ep)). response_id m)"
  by (auto simp: publish_def send_on_def chan_send_def split: option.splits)

lemma request_responses:
  "final_state (request renv p cb ep) = Some ep' \<Longrightarrow>
     (\<Sum>m \<in># mset (snd_sent (gce_sender ep')). response_id m) = (\<Sum>m \<in># mset (snd_sent (gce_sender ep)). response_id m)"
  by (auto simp: request_def priv_request_def GhostTrackRequestOptions_default_def bookmark_def bookmark_options_def
      GhostTrackerBookmarkOptions_default_def Let_def final_state_bind_ok send_on_def chan_send_def
      split: option.splits outcome.splits)

lemma gateway_ok_parts:
  assumes "gateway_ok env g"
  shows "inj (ge_nanoid env)" "endpoint_ok (ge_nanoid env) (gw_draws g) (gw_inner_dht g)"
    "endpoint_ok (ge_nanoid env) (gw_draws g) (gw_message_encoding g)"
    "endpoint_ok (ge_nanoid env) (gw_draws g) (gw_inner_transport g)"
    "endpoint_ok (ge_nanoid env) (Suc (gw_draws g)) (gw_inner_dht g)"
    "endpoint_ok (ge_nanoid env) (Suc (gw_draws g)) (gw_message_encoding g)"
    "endpoint_ok (ge_nanoid env) (Suc (gw_draws g)) (gw_inner_transport g)"
  using assms by (auto simp: gateway_ok_def intro: endpoint_ok_mono)

lemma drawn_final: "final_state (drawn r) = Some g' \<longleftrightarrow> (\<exists>g. final_state r = Some g \<and> g' = g\<lparr>gw_draws := Suc (gw_draws g)\<rparr>)"
  by (cases r) (auto simp: drawn_def)

lemmas ledger_defs = attachment_def moves_def ledger_def owed_def answered_def gateway_ok_def

lemma gw_dht_request_moves:
  assumes "gateway_ok env g" and "final_state (gw_dht_request env p cb g) = Some g'"
  shows "moves env (dht_owes cb) g g'"
proof -
  note ok = gateway_ok_parts[OF assms(1)]
  obtain g1 where g1: "final_state (detach_deref_mut gw_inner_dht (\<lambda>d g. g\<lparr>gw_inner_dht := d\<rparr>) (request (gw_req env g) p cb) g) = Some g1"
    "g' = g1\<lparr>gw_draws := Suc (gw_draws g1)\<rparr>" using assms(2) unfolding gw_dht_request_def drawn_final by blast
  obtain d where "g' = g\<lparr>gw_inner_dht := d, gw_draws := Suc (gw_draws g)\<rparr>" "is_attached d" "is_attached (gw_inner_dht g)"
    "endpoint_ok (ge_nanoid env) (Suc (gw_draws g)) d" "endpoint_owes dht_owes d = endpoint_owes dht_owes (gw_inner_dht g) + dht_owes cb"
    using request_stores[OF g1(1) ok(2,1), where owes = dht_owes] g1(2) by auto
  with ok show ?thesis by (simp add: ledger_defs ac_simps)
qed

lemma gw_encoding_request_moves:
  assumes "gateway_ok env g" and "final_state (gw_encoding_request env p cb g) = Some g'"
  shows "moves env (encoding_owes cb) g g'"
proof -
  note ok = gateway_ok_parts[OF assms(1)]
  obtain g1 where g1: "final_state (detach_deref_mut gw_message_encoding (\<lambda>d g. g\<lparr>gw_message_encoding := d\<rparr>) (request (gw_req env g) p cb) g) = Some g1"
    "g' = g1\<lparr>gw_draws := Suc (gw_draws g1)\<rparr>" using assms(2) unfolding gw_encoding_request_def drawn_final by blast
  obtain d where "g' = g\<lparr>gw_message_encoding := d, gw_draws := Suc (gw_draws g)\<rparr>" "is_attached d" "is_attached (gw_message_encoding g)"
    "endpoint_ok (ge_nanoid env) (Suc (gw_draws g)) d"
    "endpoint_owes encoding_owes d = endpoint_owes encoding_owes (gw_message_encoding g) + encoding_owes cb"
    using request_stores[OF g1(1) ok(3,1), where owes = encoding_owes] g1(2) by auto
  with ok show ?thesis by (simp add: ledger_defs ac_simps)
qed

lemma gw_transport_request_moves:
  assumes "gateway_ok env g" and "final_state (gw_transport_request env p cb g) = Some g'"
  shows "moves env (transport_owes cb) g g'"
proof -
  note ok = gateway_ok_parts[OF assms(1)]
  obtain g1 where g1: "final_state (detach_deref_mut gw_inner_transport (\<lambda>d g. g\<lparr>gw_inner_transport := d\<rparr>) (request (gw_req env g) p cb) g) = Some g1"
    "g' = g1\<lparr>gw_draws := Suc (gw_draws g1)\<rparr>" using assms(2) unfolding gw_transport_request_def drawn_final by blast
  obtain d where "g' = g\<lparr>gw_inner_transport := d, gw_draws := Suc (gw_draws g)\<rparr>" "is_attached d" "is_attached (gw_inner_transport g)"
    "endpoint_ok (ge_nanoid env) (Suc (gw_draws g)) d"
    "endpoint_owes transport_owes d = endpoint_owes transport_owes (gw_inner_transport g) + transport_owes cb"
    using request_stores[OF g1(1) ok(4,1), where owes = transport_owes] g1(2) by auto
  with ok show ?thesis by (simp add: ledger_defs ac_simps)
qed

lemma gw_owner_request_moves:
  assumes "gateway_ok env g" and "final_state (gw_owner_request env p cb g) = Some g'"
  shows "moves env {#} g g'"
proof -
  note ok = gateway_ok_parts[OF assms(1)]
  obtain g1 where g1: "final_state (detach_deref_mut gw_endpoint_self (\<lambda>d g. g\<lparr>gw_endpoint_self := d\<rparr>) (request (gw_req env g) p cb) g) = Some g1"
    "g' = g1\<lparr>gw_draws := Suc (gw_draws g1)\<rparr>" using assms(2) unfolding gw_owner_request_def drawn_final by blast
  obtain ep ep' where "gw_endpoint_self g = Detach (Some ep)" "final_state (request (gw_req env g) p cb ep) = Some ep'"
    "g' = g\<lparr>gw_endpoint_self := Detach (Some ep'), gw_draws := Suc (gw_draws g)\<rparr>"
    using detach_deref_mut_final[OF g1(1)] g1(2) by auto
  with ok request_responses[of "gw_req env g" p cb ep ep'] show ?thesis by (simp add: ledger_defs)
qed

lemma gw_publish_moves:
  assumes "gateway_ok env g"
  shows "final_state (gw_dht_publish env p g) = Some g' \<Longrightarrow> moves env {#} g g'"
    and "final_state (gw_owner_publish env q g) = Some g' \<Longrightarrow> moves env {#} g g'"
proof -
  note ok = gateway_ok_parts[OF assms]
  show "moves env {#} g g'" if dht: "final_state (gw_dht_publish env p g) = Some g'"
  proof -
    obtain ep ep' where "gw_inner_dht g = Detach (Some ep)" "final_state (publish (ge_bt env) p ep) = Some ep'"
      "g' = g\<lparr>gw_inner_dht := Detach (Some ep')\<rparr>"
      using detach_deref_mut_final[OF dht[unfolded gw_dht_publish_def]] by auto
    with ok publish_frame[of "ge_bt env" p ep ep'] show ?thesis by (simp add: ledger_defs)
  qed
  show "moves env {#} g g'" if own: "final_state (gw_owner_publish env q g) = Some g'"
  proof -
    obtain ep ep' where "gw_endpoint_self g = Detach (Some ep)" "final_state (publish (ge_bt env) q ep) = Some ep'"
      "g' = g\<lparr>gw_endpoint_self := Detach (Some ep')\<rparr>"
      using detach_deref_mut_final[OF own[unfolded gw_owner_publish_def]] by auto
    with ok publish_frame[of "ge_bt env" q ep ep'] show ?thesis by (simp add: ledger_defs)
  qed
qed

lemma gw_respond_moves:
  assumes "gateway_ok env g" and "gw_respond env msg payload g = Ok () g'"
  shows "moves env (msg_owes msg) g g'"
proof -
  note ok = gateway_ok_parts[OF assms(1)]
  have "final_state (gw_respond env msg payload g) = Some g'" using assms(2) by simp
  from detach_deref_mut_final[OF this[unfolded gw_respond_def]] obtain ep where ep: "gw_endpoint_self g = Detach (Some ep)" by blast
  then obtain s where "GhostMessage_respond (ge_bt env) msg payload (gce_sender ep) = Ok () s"
    "g' = g\<lparr>gw_endpoint_self := Detach (Some (ep\<lparr>gce_sender := s\<rparr>))\<rparr>"
    using assms(2) by (auto simp: gw_respond_def detach_deref_mut_def outcome_simps)
  with ok ep show ?thesis
    by (auto simp: ledger_defs GhostMessage_respond_def msg_owes_def split: option.splits sum.splits)
qed

lemma carries_ops [carry]:
  "carries env (dht_owes dcb) (gw_dht_request env dp dcb)" "carries env (encoding_owes ecb) (gw_encoding_request env ep ecb)"
  "carries env (transport_owes tcb) (gw_transport_request env tp tcb)" "carries env {#} (gw_owner_request env op ocb)"
  "carries env {#} (gw_dht_publish env dp)" "carries env {#} (gw_owner_publish env pp)" "carries env (msg_owes msg) (gw_respond env msg payload)"
proof -
  show "carries env (dht_owes dcb) (gw_dht_request env dp dcb)" by (rule carriesI) (rule gw_dht_request_moves)
  show "carries env (encoding_owes ecb) (gw_encoding_request env ep ecb)" by (rule carriesI) (rule gw_encoding_request_moves)
  show "carries env (transport_owes tcb) (gw_transport_request env tp tcb)" by (rule carriesI) (rule gw_transport_request_moves)
  show "carries env {#} (gw_owner_request env op ocb)" by (rule carriesI) (rule gw_owner_request_moves)
  show "carries env {#} (gw_dht_publish env dp)" by (rule carriesI) (rule gw_publish_moves(1))
  show "carries env {#} (gw_owner_publish env pp)" by (rule carriesI) (rule gw_publish_moves(2))
  show "carries env (msg_owes msg) (gw_respond env msg payload)" by (simp add: carries_def gw_respond_moves)
qed

section \<open>The send path\<close>

lemma carries_run_send_callback [carry]: "carries env (cb_owes cb) (run_send_callback env cb r)"
proof (cases cb)
  case (RespondBootstrap m)
  have "run_send_callback env cb r = gw_respond env m (case r of Inr _ \<Rightarrow> Inr BootstrapSuccess | Inl e \<Rightarrow> Inl (Lib3hTransportError e))"
    by (simp add: RespondBootstrap fun_eq_iff split: sum.split)
  then show ?thesis by (simp add: RespondBootstrap carry)
next
  case (RespondSendMessage m)
  have "run_send_callback env cb r = gw_respond env m (map_sum Lib3hTransportError id r)"
    by (simp add: RespondSendMessage fun_eq_iff)
  then show ?thesis by (simp add: RespondSendMessage carry)
next
  case IgnoreResult
  have "run_send_callback env cb r = (\<lambda>g. Ok () g)" by (simp add: IgnoreResult fun_eq_iff)
  then show ?thesis by (simp add: IgnoreResult carries_Ok)
qed

lemma carries_queue_pending [carry]: "carries env (cb_owes (sm_cb meta)) (priv_send_queue_pending env meta)"
proof (cases "expires_at meta < ge_now env")
  case True
  then have "priv_send_queue_pending env meta = run_send_callback env (sm_cb meta) (Inl (TransportOther ''timeout''))"
    by (simp add: priv_send_queue_pending_def fun_eq_iff)
  then show ?thesis by (simp add: carry)
next
  case False
  then show ?thesis by (auto simp: carries_def priv_send_queue_pending_def ledger_defs ac_simps)
qed

lemma carries_pending_meta [carry]:
  "carries env (cb_owes cb) (priv_send_queue_pending env \<lparr>send_data = sd, last_attempt = l, expires_at = e, sm_cb = cb\<rparr>)"
  using carries_queue_pending[of env "\<lparr>send_data = sd, last_attempt = l, expires_at = e, sm_cb = cb\<rparr>"] by simp

text \<open>
  Operations that look at the gateway first.
\<close>

lemma carries_state: "(\<And>g. carries env k (f g)) \<Longrightarrow> carries env k (\<lambda>g. f g g)"
  by (simp add: carries_def)

lemma carries_inner [carry]: "carries env (cb_owes cb) (priv_send_with_full_low_uri_inner env sd p l e cb)"
proof -
  have "carries env (cb_owes cb) (\<lambda>g. with_pure (wrap_payload env (full_low_uri sd) p g)
       (\<lambda>payload. gw_transport_request env (SendMessage (clear_agent_id (ge_url env) (full_low_uri sd)) payload)
          (FinishSend sd l e cb)) g)"
    using carries_ops(3)[of env "FinishSend sd l e cb"]
    by (intro carries_state[where f = "\<lambda>g. with_pure (wrap_payload env (full_low_uri sd) p g)
       (\<lambda>payload. gw_transport_request env (SendMessage (clear_agent_id (ge_url env) (full_low_uri sd)) payload)
          (FinishSend sd l e cb))"] carries_with_pure) simp
  then show ?thesis by (simp add: carries_def priv_send_with_full_low_uri_inner_def)
qed

lemma carries_encode [carry]: "carries env (cb_owes cb) (priv_send_with_full_low_uri_encode env sd e cb)"
proof -
  have "carries env (cb_owes cb) (with_pure (last_attempt_run_on_next_process env)
      (\<lambda>l. priv_send_queue_pending env \<lparr>send_data = WithFullLowUri sd, last_attempt = l, expires_at = e, sm_cb = cb\<rparr>))"
    by (intro carries_with_pure carry)
  moreover have "carries env (cb_owes cb) (gw_encoding_request env (EncodePayload (full_payload sd)) (SendEncoded sd (ge_now env) e cb))"
    using carries_ops(2)[of env "SendEncoded sd (ge_now env) e cb"] by simp
  ultimately show ?thesis by (auto simp: carries_def priv_send_with_full_low_uri_encode_def)
qed

lemma carries_full [carry]: "carries env (cb_owes cb) (priv_send_with_full_low_uri env sd e cb)"
  unfolding priv_send_with_full_low_uri_def by (rule carry)

lemma carries_partial [carry]: "carries env (cb_owes cb) (priv_send_with_partial_high_uri env sd e cb)"
  unfolding priv_send_with_partial_high_uri_def using carries_ops(1)[of env "SendToResolved sd (ge_now env) e cb"] by simp

lemma carries_send [carry]:
  "carries env (cb_owes cb) (send_with_partial_high_uri env psd cb)" "carries env (cb_owes cb) (send_with_full_low_uri env fsd cb)"
  unfolding send_with_partial_high_uri_def send_with_full_low_uri_def by (intro carries_with_pure carry)+

lemma carries_check_dispatch [carry]: "carries env (cb_owes (sm_cb meta)) (priv_send_check_dispatch env meta)"
  using carries_queue_pending[of env meta] carries_partial[of env "sm_cb meta"] carries_full[of env "sm_cb meta"]
  unfolding carries_def priv_send_check_dispatch_def by (auto split: if_splits SendData.splits)

lemma dispatch_all_errors: "dispatch_all env metas es g = Ok es' g' \<Longrightarrow> \<exists>es2. es' = es @ es2"
  by (induction metas arbitrary: es g) (fastforce split: outcome.splits)+

lemma dispatch_all_moves:
  "gateway_ok env g \<Longrightarrow> dispatch_all env metas [] g = Ok [] g' \<Longrightarrow> moves env (\<Sum>m \<in># mset metas. cb_owes (sm_cb m)) g g'"
proof (induction metas arbitrary: g)
  case Nil
  then show ?case by (simp add: moves_refl)
next
  case (Cons m metas)
  then obtain g1 where g1: "priv_send_check_dispatch env m g = Ok () g1" "dispatch_all env metas [] g1 = Ok [] g'"
    by (auto split: outcome.splits dest: dispatch_all_errors)
  have m: "moves env (cb_owes (sm_cb m)) g g1" using carries_check_dispatch Cons.prems(1) g1(1) unfolding carries_def by blast
  from moves_trans[OF m Cons.IH[OF moves_ok[OF m] g1(2)]] show ?case by simp
qed

lemma carries_pending_sends [carry]: "carries env {#} (process_transport_pending_sends env)"
  unfolding carries_def
proof (intro allI impI)
  fix g g' assume ok: "gateway_ok env g" and run: "process_transport_pending_sends env g = Ok () g'"
  let ?g = "g\<lparr>pending_send_queue := []\<rparr>"
  have "dispatch_all env (pending_send_queue g) [] ?g = Ok [] g'"
    using run by (auto simp: process_transport_pending_sends_def outcome_simps split: if_splits)
  moreover have "gateway_ok env ?g" using ok by (simp add: gateway_ok_def)
  ultimately have "moves env (\<Sum>m \<in># mset (pending_send_queue g). cb_owes (sm_cb m)) ?g g'" by (rule dispatch_all_moves[rotated])
  then show "moves env {#} g g'" by (simp add: ledger_defs ac_simps)
qed

section \<open>Handlers and callbacks\<close>

lemma carries_ignored [carry]:
  "carries env {#} (send_with_full_low_uri env sd IgnoreResult)" "carries env {#} (gw_dht_request env p StoreThisPeer)"
  "carries env {#} (gw_dht_request env p (GreetConnection u))" "carries env {#} (gw_dht_request env p (SendToPeers b))"
  "carries env {#} (gw_encoding_request env q (ReceiveDecoded u))"
  using carries_send(2)[of env IgnoreResult sd] carries_ops(1)[of env StoreThisPeer p] carries_ops(1)[of env "GreetConnection u" p]
    carries_ops(1)[of env "SendToPeers b" p] carries_ops(2)[of env "ReceiveDecoded u" q] by simp_all

text \<open>The same per state, where case distinctions can be split.\<close>

definition carried :: "gateway_env \<Rightarrow> RequestId multiset \<Rightarrow> P2pGateway \<Rightarrow> unit gw_result \<Rightarrow> bool" where
  "carried env k g r \<longleftrightarrow> (gateway_ok env g \<longrightarrow> (\<forall>g'. r = Ok () g' \<longrightarrow> moves env k g g'))"

lemma carriedD: "carries env k f \<Longrightarrow> carried env k g (f g)"
  by (simp add: carries_def carried_def)

lemma carriedI: "(\<And>g. carried env k g (f g)) \<Longrightarrow> carries env k f"
  by (simp add: carries_def carried_def)

lemma carried_Ok: "carried env {#} g (Ok () g)"
  by (simp add: carried_def moves_refl)

lemma carried_Panic: "carried env k g (Panic m)"
  by (simp add: carried_def)

lemma carried_with_pure: "(\<And>v. carries env k (f v)) \<Longrightarrow> carried env k g (with_pure r f g)"
  by (rule carriedD[OF carries_with_pure])

lemmas carried_simps = carried_Ok carried_Panic carried_with_pure carry carry[THEN carriedD]

lemma carries_on_receive [carry]: "carries env {#} (priv_on_receive env uri payload)"
  unfolding priv_on_receive_def
  by (rule carriedI) (simp add: carried_simps split: sum.splits P2pProtocol.splits P2pMessage.splits)

lemma carries_send_to_peers [carry]: "carries env {#} (send_to_peers env payload peers)"
proof (induction peers)
  case Nil
  have "carries env {#} (\<lambda>g. send_to_peers env payload [] g)" by (simp add: carries_Ok)
  then show ?case by simp
next
  case (Cons p ps)
  have "carries env {#} (\<lambda>g. send_to_peers env payload (p # ps) g)"
    using carries_bind[OF carries_ignored(1) Cons] by simp
  then show ?case by simp
qed

lemma carries_greet [carry]: "carries env {#} (greet_connection env uri me)"
proof -
  let ?rest = "\<lambda>g. with_pure (P2pProtocol_to_bytes (ge_wire env) (PeerName (gateway_id (gw_identifier g)) (peer_name me) (timestamp me)))
       (\<lambda>buf. send_with_full_low_uri env (SendWithFullLowUri uri buf) IgnoreResult)"
  have "carries env {#} (\<lambda>g. ?rest g g)" by (rule carries_state, rule carries_with_pure, rule carry)
  from carries_bind[OF carries_ops(6) this, of "TransportToParent (IncomingConnection (peer_name me))"]
  have "carries env {#} (\<lambda>g. greet_connection env uri me g)" by (simp add: greet_connection_def)
  then show ?thesis by simp
qed

lemma carries_dht_callback: "carries env (dht_owes cb) (gw_dht_callback env cb r)"
proof (rule carriedI)
  fix g
  have "carried env {#} g (Ok () (g\<lparr>gw_this_peer := peer\<rparr>))" for peer by (simp add: carried_def ledger_defs)
  then show "carried env (dht_owes cb) g (gw_dht_callback env cb r g)"
    by (cases cb) (simp_all add: carried_simps carries_send_to_peers[THEN carriedD] carries_greet[THEN carriedD]
        split: GhostCallbackData.splits sum.splits DhtRequestToChildResponse.splits option.splits)
qed

lemma carries_encoding_callback: "carries env (encoding_owes cb) (gw_encoding_callback env cb r)"
  by (rule carriedI, cases cb) (simp_all add: carried_simps carries_on_receive[THEN carriedD]
    split: GhostCallbackData.splits sum.splits EncodingRequestToChildResponse.splits DecodeData.splits)

lemma carries_transport_callback: "carries env (transport_owes cb) (gw_transport_callback env cb r)"
  by (rule carriedI, cases cb) (simp_all add: carried_simps split: GhostCallbackData.splits sum.splits RequestToChildResponse.splits)

lemma carries_self_callback: "carries env {#} (gw_self_callback env cb r)"
  by (rule carriedI, cases cb)
    (simp add: carried_simps split: GhostCallbackData.splits sum.splits GatewayRequestToParentResponse.splits DhtRequestToParentResponse.splits)

lemma carries_transport_to_parent: "carries env {#} (handle_transport_RequestToParent env msg)"
  unfolding handle_transport_RequestToParent_def handle_incoming_connection_def priv_decode_on_receive_def
  by (rule carriedI) (simp add: carried_simps split: option.splits RequestToParent.splits)

lemma carries_dht_to_parent: "carries env {#} (handle_dht_RequestToParent env msg)"
proof -
  have hold: "carries env {#} (\<lambda>g. bind_ok (with_pure (ping_bytes env)
      (\<lambda>ping. send_with_full_low_uri env (SendWithFullLowUri u ping) IgnoreResult) g) (\<lambda>_. gw_owner_publish env p))" for u p
    using carries_bind[OF carries_with_pure[OF carries_ignored(1)] carries_ops(6)] by simp
  show ?thesis unfolding handle_dht_RequestToParent_def
    by (rule carriedI) (simp add: carried_simps hold[THEN carriedD] split: option.splits DhtRequestToParent.splits)
qed

lemma carries_bind_request:
  "carries env (msg_owes msg) (handle_transport_RequestToChild env (Bind spec) msg)"
  unfolding carries_def handle_transport_RequestToChild_def
  using gw_transport_request_moves[of env _ "Bind spec" "ForwardBindResponse msg"] by (auto split: outcome.splits)

lemma carries_transport_to_child: "carries env (msg_owes msg) (handle_transport_RequestToChild env req msg)"
proof (cases req)
  case (SendMessage uri payload)
  have "carries env (msg_owes msg) (\<lambda>g. handle_transport_RequestToChild env req msg g)"
    using carries_send(1)[of env "RespondSendMessage msg"] by (simp add: handle_transport_RequestToChild_def SendMessage)
  then show ?thesis by simp
qed (simp add: carries_bind_request)

lemma carries_request_to_child: "carries env (request_owes msg) (handle_RequestToChild env msg)"
proof -
  let ?msg = "msg\<lparr>gm_message := None\<rparr>"
  have owes: "msg_owes ?msg = msg_owes msg" by (simp add: msg_owes_def)
  have dht: "carries env (msg_owes msg) (handle_dht_RequestToChild env req ?msg)" for req
    using carries_ops(1)[of env "ForwardDhtResponse ?msg" req] carries_ops(5)[of env req]
    by (auto simp: handle_dht_RequestToChild_def owes is_request_def msg_owes_def)
  have boot: "carries env (msg_owes msg) (with_pure (ping_bytes env)
      (\<lambda>payload. send_with_full_low_uri env (SendWithFullLowUri u payload) (RespondBootstrap ?msg)))" for u
    using carries_send(2)[of env "RespondBootstrap ?msg"] owes by (intro carries_with_pure) simp
  have tr: "carries env (msg_owes msg) (handle_transport_RequestToChild env req ?msg)" for req
    using carries_transport_to_child[of env ?msg req] owes by simp
  show ?thesis unfolding handle_RequestToChild_def take_message_def request_owes_def
    by (rule carriedI) (simp add: carried_simps dht[THEN carriedD] boot[THEN carriedD] tr[THEN carriedD]
        split: option.splits GatewayRequestToChild.splits)
qed

section \<open>Processing a child\<close>

text \<open>
  A child of the gateway as its obligations see it: a member \<open>get\<close>/\<open>put\<close> that holds the endpoint, and the
  callbacks stored in it. The laws say that the ledger and the well-formedness of the gateway split into the part
  of this member and the rest.
\<close>

locale child_slot =
  fixes env :: gateway_env
    and get :: "P2pGateway \<Rightarrow> ('cb, 'ro, 'ror, 'rs, 'rsr, 'err) GhostContextEndpoint Detach"
    and put :: "('cb, 'ro, 'ror, 'rs, 'rsr, 'err) GhostContextEndpoint Detach \<Rightarrow> P2pGateway \<Rightarrow> P2pGateway"
    and owes :: "'cb \<Rightarrow> RequestId multiset"
    and callback :: "'cb \<Rightarrow> ('ror, 'err) GhostCallbackData \<Rightarrow> P2pGateway \<Rightarrow> unit gw_result"
  assumes get_put: "get (put d g) = d"
    and put_get: "put (get g) g = g"
    and put_put: "put d (put d' g) = put d g"
    and draws_put: "gw_draws (put d g) = gw_draws g"
    and ledger_put: "ledger (put d g) = ledger (put (Detach None) g) + endpoint_owes owes d"
    and ok_put: "gateway_ok env (put d g) \<longleftrightarrow>
        gateway_ok env (put (Detach None) g) \<and> endpoint_ok (ge_nanoid env) (gw_draws g) d"
    and attachment_put: "is_attached d = is_attached d' \<Longrightarrow> attachment g = attachment g' \<Longrightarrow>
        attachment (put d g) = attachment (put d' g')"
    and attached_get: "attachment g = attachment g' \<Longrightarrow> is_attached (get g) = is_attached (get g')"
    and callback_carries: "carries env (owes cb) (callback cb r)"

sublocale child_slot \<subseteq> slot: callback_ledger "gw_call callback"
    "\<lambda>g. gateway_ok env g \<and> get g = Detach None \<and> attachment g = a" gw_draws ledger owes for a
proof
  fix ud cb data s ud' s'
  assume ok: "gateway_ok env ud \<and> get ud = Detach None \<and> attachment ud = a"
    and "gw_call callback cb data (ud, s) = Ok () (ud', s')"
  then have "callback cb data ud = Ok () ud'" by (auto simp: gw_call_def on_gateway_def outcome_simps)
  with callback_carries ok have m: "moves env (owes cb) ud ud'" by (simp add: carries_def)
  then have "is_attached (get ud') = is_attached (get ud)" by (intro attached_get) (simp add: moves_def)
  with ok have "get ud' = Detach None" by (cases "get ud'") simp
  with m ok show "(gateway_ok env ud' \<and> get ud' = Detach None \<and> attachment ud' = a) \<and> gw_draws ud \<le> gw_draws ud'
      \<and> ledger ud' = ledger ud + owes cb" by (simp add: moves_def)
qed

context child_slot
begin

lemma process_moves:
  assumes "gateway_ok env g" and "get g = Detach (Some ep)"
    and "endpoint_process rid_msg (gw_call callback) now (ep', put (Detach None) g) = Ok w (ep'', g1)"
    and "gce_tracker ep' = gce_tracker ep"
  shows "moves env {#} g (put (Detach (Some ep'')) g1)"
proof -
  let ?g0 = "put (Detach None) g" and ?t = "gce_tracker ep" and ?t' = "gce_tracker ep''"
  have ok: "gateway_ok env ?g0" "endpoint_ok (ge_nanoid env) (gw_draws g) (Detach (Some ep))"
    using assms(1) ok_put[of "get g" g] put_get[of g] assms(2) by auto
  have s: "slot.settles (attachment ?g0) ?t ?g0 ?t' g1"
    using slot.endpoint_process_settles[of ep' ?g0 "attachment ?g0" rid_msg now w ep'' g1] assms(3,4) ok get_put by simp
  note s = s[unfolded slot.settles_def]
  have "gateway_ok env (put (Detach (Some ep'')) g1)"
  proof -
    have g1: "put (Detach None) g1 = g1" using s put_get[of g1] by simp
    have "endpoint_ok (ge_nanoid env) (gw_draws g1) (Detach (Some ep''))"
      unfolding endpoint_ok.simps
    proof (intro conjI allI impI)
      show "wf_tracker ?t'" using s by blast
      fix k assume "gw_draws g1 \<le> k"
      then have "gw_draws g \<le> k" using s by (simp add: draws_put)
      then have "gt_request_id_prefix ?t @ ge_nanoid env k \<notin> set (keys (gt_pending ?t))" using ok(2) by simp
      moreover have "gt_request_id_prefix ?t' = gt_request_id_prefix ?t" "set (keys (gt_pending ?t')) \<subseteq> set (keys (gt_pending ?t))"
        using s by blast+
      ultimately show "gt_request_id_prefix ?t' @ ge_nanoid env k \<notin> set (keys (gt_pending ?t'))" by (auto simp del: set_map)
    qed
    then show ?thesis using s ok_put[of "Detach (Some ep'')" g1] g1 by simp
  qed
  moreover have "ledger (put (Detach (Some ep'')) g1) = ledger g"
  proof -
    have "ledger g = ledger ?g0 + tracker_owes owes ?t" using ledger_put[of "get g" g] put_get[of g] assms(2) by simp
    moreover have "put (Detach None) g1 = g1" using s put_get[of g1] by simp
    then have "ledger (put (Detach (Some ep'')) g1) = ledger g1 + tracker_owes owes ?t'" using ledger_put[of "Detach (Some ep'')" g1] by simp
    ultimately show ?thesis using s by simp
  qed
  moreover have "attachment (put (Detach (Some ep'')) g1) = attachment g"
  proof -
    have "attachment (put (Detach (Some ep'')) g1) = attachment (put (Detach (Some ep)) ?g0)"
      using s by (intro attachment_put) auto
    also have "\<dots> = attachment (put (get g) g)" by (simp add: put_put assms(2))
    finally show ?thesis by (simp add: put_get)
  qed
  ultimately show ?thesis using s draws_put by (simp add: moves_def)
qed

lemma run_moves:
  assumes "gateway_ok env g"
    and "detach_run get put (child_process rid_msg (gw_call callback) now child) g = Ok () g'"
  shows "moves env {#} g g'"
proof -
  obtain ep where ep: "get g = Detach (Some ep)"
    using assms(2) by (cases "get g") (auto simp: detach_run_def split: outcome.splits elim!: detach_take.elims)
  from assms(2) obtain ep1 g1 where c: "child_process rid_msg (gw_call callback) now child (ep, put (Detach None) g) = Ok () (ep1, g1)"
    and g': "g' = put (Detach (Some ep1)) g1" unfolding detach_run_attached[of get g ep, OF ep] by (auto simp: outcome_simps)
  from c obtain ms w where "endpoint_process rid_msg (gw_call callback) now (deliver ms ep, put (Detach None) g) = Ok w (ep1, g1)"
    by (auto simp: child_process_def outcome_simps)
  from process_moves[OF assms(1) ep this] g' show ?thesis by (simp add: deliver_def)
qed

end

interpretation dht_slot: child_slot env gw_inner_dht "\<lambda>d g. g\<lparr>gw_inner_dht := d\<rparr>" dht_owes "gw_dht_callback env" for env
  by unfold_locales (auto simp: ledger_def owed_def answered_def gateway_ok_def attachment_def carries_dht_callback)

interpretation encoding_slot: child_slot env gw_message_encoding "\<lambda>d g. g\<lparr>gw_message_encoding := d\<rparr>" encoding_owes "gw_encoding_callback env" for env
  by unfold_locales (auto simp: ledger_def owed_def answered_def gateway_ok_def attachment_def carries_encoding_callback)

interpretation transport_slot: child_slot env gw_inner_transport "\<lambda>d g. g\<lparr>gw_inner_transport := d\<rparr>" transport_owes "gw_transport_callback env" for env
  by unfold_locales (auto simp: ledger_def owed_def answered_def gateway_ok_def attachment_def carries_transport_callback)

section \<open>Processing the owner's endpoint\<close>

text \<open>
  The callbacks stored in it owe nothing and leave its sender alone.
\<close>

lemma self_callback_moves:
  assumes "gateway_ok env g" and "final_state (gw_self_callback env cb r g) = Some g'"
  shows "moves env {#} g g'"
  using assms gw_publish_moves(1)[OF assms(1)]
  by (cases cb) (auto split: GhostCallbackData.splits sum.splits GatewayRequestToParentResponse.splits DhtRequestToParentResponse.splits)

interpretation self_contract: callback_contract "gw_call (gw_self_callback env)" "\<lambda>(g', s). moves env {#} g g' \<and> s = s0" for env g s0
proof
  fix u cb data u'
  assume "case u of (g', s) \<Rightarrow> moves env {#} g g' \<and> s = s0" and "final_state (gw_call (gw_self_callback env) cb data u) = Some u'"
  then obtain g1 g2 where "u = (g1, s0)" "moves env {#} g g1" "final_state (gw_self_callback env cb data g1) = Some g2" "u' = (g2, s0)"
    by (auto simp: gw_call_def on_gateway_def final_state_lift_state)
  moreover from self_callback_moves[OF moves_ok[OF this(2)] this(3)] have "moves env {#} g1 g2" .
  ultimately show "case u' of (g', s) \<Rightarrow> moves env {#} g g' \<and> s = s0" using moves_trans[of env "{#}" g g1 "{#}" g2] by simp
qed

lemma drain_moves:
  assumes "gateway_ok env g"
  shows "gw_drain gw_endpoint_self (\<lambda>d g. g\<lparr>gw_endpoint_self := d\<rparr>) g = Ok ms g' \<Longrightarrow> moves env {#} g g'"
    and "gw_drain gw_inner_transport (\<lambda>d g. g\<lparr>gw_inner_transport := d\<rparr>) g = Ok ms' g' \<Longrightarrow> moves env {#} g g'"
    and "gw_drain gw_inner_dht (\<lambda>d g. g\<lparr>gw_inner_dht := d\<rparr>) g = Ok ms'' g' \<Longrightarrow> moves env {#} g g'"
  using assms by (auto simp: gw_drain_def detach_deref_mut_def drain_messages_def ledger_defs split: Detach.splits option.splits)

text \<open>The requests waiting for the gateway: drained ones not handled yet, then the queue.\<close>

definition waiting_requests :: "P2pGateway \<Rightarrow> GatewayToChildMessage list" where
  "waiting_requests g = (case gw_endpoint_self g of
     Detach (Some ep) \<Rightarrow> gce_outbox ep @ requests_of (rcv_incoming (gce_receiver ep)) | Detach None \<Rightarrow> [])"

lemma process_owner_moves:
  assumes "gateway_ok env g" and "gw_process_owner env g = Ok () g'"
  shows "moves env (\<Sum>m \<in># mset (waiting_requests g). request_owes m) g g'"
proof -
  let ?put = "\<lambda>d g. g\<lparr>gw_endpoint_self := d\<rparr>" and ?call = "gw_call (gw_self_callback env)"
  obtain ep where ep: "gw_endpoint_self g = Detach (Some ep)"
    using assms(2) by (cases "gw_endpoint_self g") (auto simp: gw_process_owner_def detach_run_def outcome_simps split: outcome.splits elim!: detach_take.elims)
  let ?g0 = "g\<lparr>gw_endpoint_self := Detach None\<rparr>"
  obtain w ga where 1: "detach_run gw_endpoint_self ?put (endpoint_process (ge_rid_msg env) ?call (ge_now env)) g = Ok w ga"
    and rest: "bind_ok (gw_drain gw_endpoint_self ?put ga)
      (for_each (\<lambda>msg g. map_err (via_lib3h env) (handle_RequestToChild env msg g))) = Ok () g'"
    using assms(2) unfolding gw_process_owner_def bind_ok_eq_Ok by blast
  obtain ep1 g1 where run: "endpoint_process (ge_rid_msg env) ?call (ge_now env) (ep, ?g0) = Ok w (ep1, g1)"
    and ga: "ga = ?put (Detach (Some ep1)) g1"
    using 1 unfolding detach_run_attached[of gw_endpoint_self g ep, OF ep] lift_state_eq_Ok by auto
  obtain ms g2 where drain: "gw_drain gw_endpoint_self ?put (?put (Detach (Some ep1)) g1) = Ok ms g2"
    and handle: "for_each (\<lambda>msg g. map_err (via_lib3h env) (handle_RequestToChild env msg g)) ms g2 = Ok () g'"
    using rest unfolding ga bind_ok_eq_Ok by blast
  have ok0: "gateway_ok env ?g0" using assms(1) by (simp add: gateway_ok_def)
  from run obtain w1 ep0 g0' where t: "with_tracker (GhostTracker_process ?call (ge_now env)) (ep, ?g0) = Ok w1 (ep0, g0')"
    and l: "process_loop (ge_rid_msg env) ?call (rcv_incoming (gce_receiver ep0)) w1 (ep0, g0') = Ok w (ep1, g1)"
    by (auto simp: endpoint_process_def outcome_simps)
  have out: "gce_outbox ep1 = waiting_requests g"
    using with_tracker_frame_Ok[OF t] process_loop_frame[OF l refl] by (simp add: waiting_requests_def ep)
  have m0: "moves env {#} ?g0 g1" and sender: "gce_sender ep1 = gce_sender ep"
    using self_contract.endpoint_process_keeps[of env ?g0 "gce_sender ep" ?g0 ep "ge_rid_msg env" "ge_now env" ep1 g1]
      run moves_refl[OF ok0] by simp_all
  have m1: "moves env {#} g (?put (Detach (Some ep1)) g1)"
  proof -
    have "is_attached (gw_endpoint_self g1) = is_attached (gw_endpoint_self ?g0)"
      using m0 unfolding moves_def attachment_def by (metis Pair_inject)
    then have "gw_endpoint_self g1 = Detach None" by (cases "gw_endpoint_self g1") simp
    with m0 ep sender show ?thesis by (auto simp: ledger_defs)
  qed
  have m2: "moves env {#} (?put (Detach (Some ep1)) g1) g2" using drain_moves(1)[OF moves_ok[OF m1] drain] .
  have ms: "ms = waiting_requests g" using drain out by (auto simp: gw_drain_def detach_deref_mut_def drain_messages_def)
  have "carries env (\<Sum>m \<in># mset ms. request_owes m) (for_each (\<lambda>msg g. map_err (via_lib3h env) (handle_RequestToChild env msg g)) ms)"
    by (intro carries_for_each carries_map_err carries_request_to_child)
  then have "moves env (\<Sum>m \<in># mset ms. request_owes m) g2 g'" using handle moves_ok[OF m2] unfolding carries_def by blast
  from moves_trans[OF moves_trans[OF m1 m2] this] show ?thesis by (simp add: ms)
qed

section \<open>Properties\<close>

lemma carries_process_transport: "carries env {#} (gw_process_transport env children)"
proof -
  let ?h = "\<lambda>msg g. map_err (via_transport env) (handle_transport_RequestToParent env msg g)"
  have h: "carries env {#} (for_each ?h ms)" for ms
    using carries_for_each[of ms env "\<lambda>_. {#}" ?h, OF carries_map_err[OF carries_transport_to_parent]] by simp
  show ?thesis unfolding carries_def gw_process_transport_def bind_ok_eq_Ok
  proof (intro allI impI, elim exE conjE)
    fix g g' u g1 g2 ms
    assume g: "gateway_ok env g"
      and 1: "detach_run gw_inner_transport (\<lambda>d g. g\<lparr>gw_inner_transport := d\<rparr>) (child_process (ge_rid_msg env)
          (gw_call (gw_transport_callback env)) (ge_now env) (gc_transport children)) g = Ok u g1"
      and 2: "gw_drain gw_inner_transport (\<lambda>d g. g\<lparr>gw_inner_transport := d\<rparr>) g1 = Ok ms g2"
      and 3: "for_each ?h ms g2 = Ok () g'"
    have m1: "moves env {#} g g1" using transport_slot.run_moves[OF g] 1 by simp
    have m2: "moves env {#} g1 g2" using drain_moves(2)[OF moves_ok[OF m1] 2] .
    have m3: "moves env {#} g2 g'" using h 3 moves_ok[OF m2] unfolding carries_def by blast
    from moves_trans[OF moves_trans[OF m1 m2] m3] show "moves env {#} g g'" by simp
  qed
qed

lemma carries_process_encoding: "carries env {#} (gw_process_encoding env children)"
  unfolding carries_def gw_process_encoding_def using encoding_slot.run_moves by blast

lemma carries_process_dht: "carries env {#} (gw_process_dht env children)"
proof -
  let ?h = "\<lambda>msg g. map_err (via_lib3h env) (handle_dht_RequestToParent env msg g)"
  have h: "carries env {#} (for_each ?h ms)" for ms
    using carries_for_each[of ms env "\<lambda>_. {#}" ?h, OF carries_map_err[OF carries_dht_to_parent]] by simp
  show ?thesis unfolding carries_def gw_process_dht_def bind_ok_eq_Ok
  proof (intro allI impI, elim exE conjE)
    fix g g' u v g0 g1 g2 ms
    assume g: "gateway_ok env g" and 0: "gw_dht_request env RequestThisPeer StoreThisPeer g = Ok v g0"
      and 1: "detach_run gw_inner_dht (\<lambda>d g. g\<lparr>gw_inner_dht := d\<rparr>) (child_process (ge_rid_msg env)
          (gw_call (gw_dht_callback env)) (ge_now env) (gc_dht children)) g0 = Ok u g1"
      and 2: "gw_drain gw_inner_dht (\<lambda>d g. g\<lparr>gw_inner_dht := d\<rparr>) g1 = Ok ms g2"
      and 3: "for_each ?h ms g2 = Ok () g'"
    have m0: "moves env {#} g g0" using carries_ignored(2)[of env RequestThisPeer] g 0 by (simp add: carries_def)
    have m1: "moves env {#} g0 g1" using dht_slot.run_moves[OF moves_ok[OF m0]] 1 by simp
    have m2: "moves env {#} g1 g2" using drain_moves(3)[OF moves_ok[OF m1] 2] .
    have m3: "moves env {#} g2 g'" using h 3 moves_ok[OF m2] unfolding carries_def by blast
    from moves_trans[OF moves_trans[OF moves_trans[OF m0 m1] m2] m3] show "moves env {#} g g'" by simp
  qed
qed

text \<open>
  C3: Requests are neither lost nor answered twice. Whatever the children answer, and in whatever
  order, a \<open>process\<close> call that returns normally accounts for every request id: those answered so far plus
  those still owed (by a queued send or a pending callback) are the ones there were before, plus the ones
  taken from the owner in this call. The one exception is \<open>SendAll\<close>, which is never answered.
  The invariant on fresh ids is kept, so the account stays balanced over any number of calls.
\<close>

theorem requests_answered_once:
  assumes "gateway_ok env g" and "gw_process_concrete env children g = Ok w g'"
  shows "answered g' + owed g' = answered g + owed g + (\<Sum>m \<in># mset (waiting_requests g). request_owes m) \<and> gateway_ok env g'"
proof -
  from assms(2) obtain g1 g2 g3 g4 where run: "gw_process_owner env g = Ok () g1" "gw_process_transport env children g1 = Ok () g2"
    "gw_process_encoding env children g2 = Ok () g3" "process_transport_pending_sends env g3 = Ok () g4"
    "gw_process_dht env children g4 = Ok () g'"
    by (auto simp: gw_process_concrete_def outcome_simps)
  note c = carries_process_transport carries_process_encoding carries_pending_sends carries_process_dht
  have m1: "moves env (\<Sum>m \<in># mset (waiting_requests g). request_owes m) g g1" using process_owner_moves[OF assms(1) run(1)] .
  have m2: "moves env {#} g1 g2" using c(1) run(2) moves_ok[OF m1] unfolding carries_def by blast
  have m3: "moves env {#} g2 g3" using c(2) run(3) moves_ok[OF m2] unfolding carries_def by blast
  have m4: "moves env {#} g3 g4" using c(3) run(4) moves_ok[OF m3] unfolding carries_def by blast
  have m5: "moves env {#} g4 g'" using c(4) run(5) moves_ok[OF m4] unfolding carries_def by blast
  from m1 m2 m3 m4 m5 show ?thesis by (simp add: moves_def ledger_def)
qed

section \<open>Witnesses\<close>

lemma fresh_endpoint_ok: "endpoint_ok nanoid n (Detach (Some (wrap_endpoint prefix (fst create_ghost_channel))))"
  by (simp add: demo_gateway_simps)

lemma fresh_endpoint_owes: "endpoint_owes f (Detach (Some (wrap_endpoint prefix (fst create_ghost_channel)))) = {#}"
  by (simp add: demo_gateway_simps tracker_owes_def)

lemma demo_asked_ok: "gateway_ok (demo_gw_env now) demo_asked"
proof -
  have "inj (\<lambda>n. replicate n (CHR ''x''))" by (rule injI) (metis length_replicate)
  then show ?thesis
    by (simp add: gateway_ok_def demo_asked_frame demo_gateway_children fresh_endpoint_ok del: endpoint_ok.simps) (simp add: demo_gw_env_def)
qed

lemma demo_asked_runs: "\<exists>g'. gw_process_concrete (demo_gw_env 100) silent_children demo_asked = Ok True g'"
proof -
  note f = demo_asked_frame(1-3)[unfolded demo_gateway_children]
  let ?cb = "SendToResolved (SendWithPartialHighUri ''a:you'' [9]) (ge_now (demo_gw_env 100)) (ge_now (demo_gw_env 100) + SEND_RETRY_TIMEOUT_MS) (RespondSendMessage demo_message)"
  define g0 where "g0 = demo_asked\<lparr>gw_endpoint_self := Detach (Some ((deliver [demo_request] demo_self)
    \<lparr>gce_receiver := (gce_receiver (deliver [demo_request] demo_self))\<lparr>rcv_incoming := []\<rparr>\<rparr>))\<rparr>"
  note owner = owner_send_asks[OF demo_asked_self(1-4,6) f(2) demo_ready demo_time(1) g0_def, of ?cb, OF arg_cong[OF demo_message_def]]
  show ?thesis using demo_ready[of "''gateway_dht_''"]
    by (auto simp: gw_process_concrete_def owner silent_phases[where w = False] silent_children_def g0_def f demo_ready asked_ready
        process_transport_pending_sends_def demo_asked_frame)
qed

theorem requests_answered_once_witness:
  "\<exists>g'. gw_process_concrete (demo_gw_env 100) silent_children demo_asked = Ok True g' \<and> answered g' + owed g' = {#''r1''#}"
proof -
  obtain g' where run: "gw_process_concrete (demo_gw_env 100) silent_children demo_asked = Ok True g'"
    using demo_asked_runs by blast
  have "answered demo_asked + owed demo_asked = {#}"
    by (simp add: answered_def owed_def demo_asked_frame demo_gateway_children demo_asked_self fresh_endpoint_owes del: endpoint_owes.simps) (simp add: deliver_def demo_self_def demo_gateway_simps)
  moreover have "(\<Sum>m \<in># mset (waiting_requests demo_asked). request_owes m) = {#''r1''#}"
    by (simp add: waiting_requests_def demo_asked_self request_owes_def GhostMessage_new_def msg_owes_def)
  ultimately show ?thesis using requests_answered_once[OF demo_asked_ok run] run by simp
qed

end
