(* ===== verification/Gateway_Node.thy ===== *)
theory Gateway_Node
  imports Gateway_Paths Memory_Transport
begin

text \<open>
  A gateway together with its children, as \<open>P2pGateway::new\<close> puts them together for a node on the in-memory network: the
  full-sync DHT, the encoding actor and the in-memory transport, each connected to the gateway by two queues. One
  \<open>process\<close> call of the gateway runs the child of each phase on what the gateway has sent to it, where \<open>Gateway\<close> takes any run of the
  child as an argument.
\<close>

section \<open>Queues between an actor and its owner\<close>

text \<open>All that was ever sent on an endpoint, and messages put on the queue it receives from.\<close>

fun sent_on :: "('cb, 'ro, 'ror, 'rs, 'rsr, 'err) GhostContextEndpoint Detach \<Rightarrow> ('ro, 'rsr, 'err) GhostEndpointMessage list" where
  "sent_on (Detach (Some ep)) = snd_sent (gce_sender ep)"
| "sent_on (Detach None) = []"

fun receive_on :: "('rs, 'ror, 'err) GhostEndpointMessage list \<Rightarrow> ('cb, 'ro, 'ror, 'rs, 'rsr, 'err) GhostContextEndpoint Detach \<Rightarrow>
    ('cb, 'ro, 'ror, 'rs, 'rsr, 'err) GhostContextEndpoint Detach" where
  "receive_on ms (Detach (Some ep)) = Detach (Some (deliver ms ep))"
| "receive_on ms (Detach None) = Detach None"

text \<open>
  A run of an actor: it receives \<open>ms\<close>, \<open>proc\<close> runs, and what it sends meanwhile is what its owner sees of the run.
\<close>

definition run_actor ::
  "('a \<Rightarrow> ('cb, 'ro, 'ror, 'rs, 'rsr, 'err) GhostContextEndpoint Detach) \<Rightarrow>
   (('cb, 'ro, 'ror, 'rs, 'rsr, 'err) GhostContextEndpoint Detach \<Rightarrow> 'a \<Rightarrow> 'a) \<Rightarrow>
   ('a \<Rightarrow> ('a, GhostError, WorkWasDone) outcome) \<Rightarrow> ('rs, 'ror, 'err) GhostEndpointMessage list \<Rightarrow> 'a \<Rightarrow>
   ('ro, 'rsr, 'err) child_run \<times> 'a" where
  "run_actor get put proc ms a =
     (let a1 = put (receive_on ms (get a)) a;
          r = proc a1
      in (lift_state (\<lambda>a'. drop (length (sent_on (get a))) (sent_on (get a'))) r,
          case final_state r of Some a' \<Rightarrow> a' | None \<Rightarrow> a1))"

section \<open>Model\<close>

text \<open>
  \<open>nd_dht_seen\<close> counts the messages of the gateway that its DHT has received, and so on.
\<close>

record node =
  nd_gateway :: P2pGateway
  nd_dht :: MirrorDht
  nd_encoding :: MessageEncoding
  nd_transport :: GhostTransportMemory
  nd_dht_seen :: nat
  nd_encoding_seen :: nat
  nd_transport_seen :: nat

record node_env =
  ne_gateway :: gateway_env
  ne_dht :: "nat \<Rightarrow> dht_env"
  ne_dht_tick :: dht_env
  ne_encoding :: encoding_env
  ne_transport :: tm_env

type_synonym node_state = "node \<times> MemoryNet"
type_synonym 'a node_result = "(node_state, GhostError, 'a) outcome"

definition quiet_children :: gateway_children where
  "quiet_children = \<lparr>gc_transport = Ok False [], gc_encoding = Ok False [], gc_dht = Ok False []\<rparr>"

definition run_dht :: "node_env \<Rightarrow> P2pGateway \<Rightarrow> node \<Rightarrow> (DhtRequestToParent, DhtRequestToChildResponse, Lib3hError) child_run \<times> MirrorDht" where
  "run_dht env g n = run_actor endpoint_self (\<lambda>ep d. d\<lparr>endpoint_self := ep\<rparr>)
     (dht_process_concrete (ge_rid_msg (ne_gateway env)) (ge_now (ne_gateway env)) (ne_dht env) (ne_dht_tick env))
     (drop (nd_dht_seen n) (sent_on (gw_inner_dht g))) (nd_dht n)"

definition run_encoding :: "node_env \<Rightarrow> P2pGateway \<Rightarrow> node \<Rightarrow> (unit, EncodingRequestToChildResponse, Lib3hError) child_run \<times> MessageEncoding" where
  "run_encoding env g n = run_actor me_endpoint_self (\<lambda>ep me. me\<lparr>me_endpoint_self := ep\<rparr>)
     (enc_process_concrete (ge_rid_msg (ne_gateway env)) (ge_now (ne_gateway env)) (ne_encoding env))
     (drop (nd_encoding_seen n) (sent_on (gw_message_encoding g))) (nd_encoding n)"

definition run_transport :: "node_env \<Rightarrow> P2pGateway \<Rightarrow> node_state \<Rightarrow> (RequestToParent, RequestToChildResponse, TransportError) child_run \<times> tm_state" where
  "run_transport env g st = run_actor (\<lambda>(tm, net). tm_endpoint_self tm) (\<lambda>ep (tm, net). (tm\<lparr>tm_endpoint_self := ep\<rparr>, net))
     (tm_process_concrete (ne_transport env))
     (drop (nd_transport_seen (fst st)) (sent_on (gw_inner_transport g))) (nd_transport (fst st), snd st)"

definition node_gateway :: "(P2pGateway \<Rightarrow> unit gw_result) \<Rightarrow> node_state \<Rightarrow> unit node_result" where
  "node_gateway f st = lift_state (\<lambda>g. ((fst st)\<lparr>nd_gateway := g\<rparr>, snd st)) (f (nd_gateway (fst st)))"

definition node_transport :: "node_env \<Rightarrow> node_state \<Rightarrow> unit node_result" where
  "node_transport env st =
     (let g = nd_gateway (fst st) in
      case run_transport env g st of (run, tm, net) \<Rightarrow>
        node_gateway (gw_process_transport (ne_gateway env) (quiet_children\<lparr>gc_transport := run\<rparr>))
          ((fst st)\<lparr>nd_transport := tm, nd_transport_seen := length (sent_on (gw_inner_transport g))\<rparr>, net))"

definition node_encoding :: "node_env \<Rightarrow> node_state \<Rightarrow> unit node_result" where
  "node_encoding env st =
     (let g = nd_gateway (fst st) in
      case run_encoding env g (fst st) of (run, me) \<Rightarrow>
        node_gateway (gw_process_encoding (ne_gateway env) (quiet_children\<lparr>gc_encoding := run\<rparr>))
          ((fst st)\<lparr>nd_encoding := me, nd_encoding_seen := length (sent_on (gw_message_encoding g))\<rparr>, snd st))"

text \<open>The phase begins with a question to the DHT, so its run is the one after that.\<close>

definition node_dht :: "node_env \<Rightarrow> node_state \<Rightarrow> unit node_result" where
  "node_dht env st =
     (let g = (case final_state (gw_dht_request (ne_gateway env) RequestThisPeer StoreThisPeer (nd_gateway (fst st))) of
                 Some g' \<Rightarrow> g' | None \<Rightarrow> nd_gateway (fst st)) in
      case run_dht env g (fst st) of (run, d) \<Rightarrow>
        node_gateway (gw_process_dht (ne_gateway env) (quiet_children\<lparr>gc_dht := run\<rparr>))
          ((fst st)\<lparr>nd_dht := d, nd_dht_seen := length (sent_on (gw_inner_dht g))\<rparr>, snd st))"

definition node_process :: "node_env \<Rightarrow> node_state \<Rightarrow> WorkWasDone node_result" where
  "node_process env st =
     bind_ok (node_gateway (gw_process_owner (ne_gateway env)) st) (\<lambda>_ st.
     bind_ok (node_transport env st) (\<lambda>_ st.
     bind_ok (node_encoding env st) (\<lambda>_ st.
     bind_ok (node_gateway (process_transport_pending_sends (ne_gateway env)) st) (\<lambda>_ st.
     bind_ok (node_dht env st) (\<lambda>_. Ok True)))))"

section \<open>A node's gateway is the gateway\<close>

text \<open>
  Seen from outside, a node's \<open>process\<close> is the gateway's with some run of each child. So what holds of the gateway for
  all runs of its children holds of every node.
\<close>

lemma phase_children:
  "gc_transport c = gc_transport c' \<Longrightarrow> gw_process_transport env c g = gw_process_transport env c' g"
  "gc_encoding c = gc_encoding c' \<Longrightarrow> gw_process_encoding env c g = gw_process_encoding env c' g"
  "gc_dht c = gc_dht c' \<Longrightarrow> gw_process_dht env c g = gw_process_dht env c' g"
  by (simp_all add: gw_process_transport_def gw_process_encoding_def gw_process_dht_def)

definition gateway_of :: "'a node_result \<Rightarrow> 'a gw_result" where
  "gateway_of r = lift_state (\<lambda>st. nd_gateway (fst st)) r"

lemma gateway_of_simps [simp]:
  "gateway_of (Ok v st) = Ok v (nd_gateway (fst st))" "gateway_of (Err e st) = Err e (nd_gateway (fst st))"
  "gateway_of (Panic m) = Panic m" "gateway_of (node_gateway f st) = f (nd_gateway (fst st))"
  by (simp_all add: gateway_of_def node_gateway_def) (cases "f (nd_gateway (fst st))"; simp)

lemma gateway_of_bind:
  assumes "gateway_of r = r'" and "\<And>v st. r = Ok v st \<Longrightarrow> gateway_of (f v st) = f' v (nd_gateway (fst st))"
  shows "gateway_of (bind_ok r f) = bind_ok r' f'"
  using assms by (cases r) (auto simp: gateway_of_def)

lemma gateway_of_phases:
  "gateway_of (node_transport env st) = gw_process_transport (ne_gateway env)
     (quiet_children\<lparr>gc_transport := fst (run_transport env (nd_gateway (fst st)) st)\<rparr>) (nd_gateway (fst st))"
  "gateway_of (node_encoding env st) = gw_process_encoding (ne_gateway env)
     (quiet_children\<lparr>gc_encoding := fst (run_encoding env (nd_gateway (fst st)) (fst st))\<rparr>) (nd_gateway (fst st))"
  "\<exists>run. gateway_of (node_dht env st) = gw_process_dht (ne_gateway env) (quiet_children\<lparr>gc_dht := run\<rparr>) (nd_gateway (fst st))"
  by (auto simp: node_transport_def node_encoding_def node_dht_def Let_def split: prod.splits)

lemma node_process_is_gateway:
  "\<exists>children. gateway_of (node_process env st) = gw_process_concrete (ne_gateway env) children (nd_gateway (fst st))"
proof -
  let ?e = "ne_gateway env"
  define r1 where "r1 = node_gateway (gw_process_owner ?e) st"
  define r2 where "r2 = bind_ok r1 (\<lambda>_. node_transport env)"
  define r3 where "r3 = bind_ok r2 (\<lambda>_. node_encoding env)"
  define r4 where "r4 = bind_ok r3 (\<lambda>_. node_gateway (process_transport_pending_sends ?e))"
  define t where "t = (case r1 of Ok _ s \<Rightarrow> fst (run_transport env (nd_gateway (fst s)) s) | _ \<Rightarrow> Ok False [])"
  define c where "c = (case r2 of Ok _ s \<Rightarrow> fst (run_encoding env (nd_gateway (fst s)) (fst s)) | _ \<Rightarrow> Ok False [])"
  define d where "d = (case r4 of Ok _ s \<Rightarrow>
      (SOME run. gateway_of (node_dht env s) = gw_process_dht ?e (quiet_children\<lparr>gc_dht := run\<rparr>) (nd_gateway (fst s))) | _ \<Rightarrow> Ok False [])"
  let ?ch = "\<lparr>gc_transport = t, gc_encoding = c, gc_dht = d\<rparr>"
  have "gateway_of r1 = gw_process_owner ?e (nd_gateway (fst st))" by (simp add: r1_def)
  then have g2: "gateway_of r2 = bind_ok (gw_process_owner ?e (nd_gateway (fst st))) (\<lambda>_. gw_process_transport ?e ?ch)"
    unfolding r2_def by (rule gateway_of_bind) (simp add: gateway_of_phases, rule phase_children(1), simp add: t_def)
  then have g3: "gateway_of r3 = bind_ok (bind_ok (gw_process_owner ?e (nd_gateway (fst st))) (\<lambda>_. gw_process_transport ?e ?ch)) (\<lambda>_. gw_process_encoding ?e ?ch)"
    unfolding r3_def by (rule gateway_of_bind) (simp add: gateway_of_phases, rule phase_children(2), simp add: c_def)
  then have g4: "gateway_of r4 = bind_ok (bind_ok (bind_ok (gw_process_owner ?e (nd_gateway (fst st))) (\<lambda>_. gw_process_transport ?e ?ch))
      (\<lambda>_. gw_process_encoding ?e ?ch)) (\<lambda>_. process_transport_pending_sends ?e)"
    unfolding r4_def by (rule gateway_of_bind) simp
  have dht: "gateway_of (node_dht env s) = gw_process_dht ?e ?ch (nd_gateway (fst s))" if "r4 = Ok v s" for v s
  proof -
    have "gateway_of (node_dht env s) = gw_process_dht ?e (quiet_children\<lparr>gc_dht := d\<rparr>) (nd_gateway (fst s))"
      using someI_ex[OF gateway_of_phases(3)[of env s]] that by (simp add: d_def)
    then show ?thesis by (simp add: phase_children(3)[of ?ch "quiet_children\<lparr>gc_dht := d\<rparr>"])
  qed
  have "gateway_of (bind_ok (bind_ok r4 (\<lambda>_. node_dht env)) (\<lambda>_. Ok True)) =
      bind_ok (bind_ok (bind_ok (bind_ok (bind_ok (gw_process_owner ?e (nd_gateway (fst st))) (\<lambda>_. gw_process_transport ?e ?ch))
      (\<lambda>_. gw_process_encoding ?e ?ch)) (\<lambda>_. process_transport_pending_sends ?e)) (\<lambda>_. gw_process_dht ?e ?ch)) (\<lambda>_. Ok True)"
    by (intro gateway_of_bind g4 dht) simp_all
  then have "gateway_of (node_process env st) = gw_process_concrete ?e ?ch (nd_gateway (fst st))"
    by (simp add: node_process_def gw_process_concrete_def r4_def r3_def r2_def r1_def bind_ok_assoc)
  then show ?thesis by blast
qed

end
