(* ===== verification/Gateway_Network.thy ===== *)
theory Gateway_Network
  imports Gateway_Node
begin

text \<open>
  What the children of a node do with the gateway's requests: runs of the DHT, the encoder and the transport, each computed on the queue it shares
  with the gateway, and the phases of a node in which nothing happens. \<open>Gateway_Delivery\<close> puts them together.
\<close>

section \<open>Answers to pending requests\<close>

text \<open>An endpoint nothing has arrived on, on which sending works.\<close>

definition open_endpoint :: "('cb, 'ro, 'ror, 'rs, 'rsr, 'err) GhostContextEndpoint \<Rightarrow> bool" where
  "open_endpoint ep \<longleftrightarrow> gce_outbox ep = [] \<and> \<not> rcv_disconnected (gce_receiver ep) \<and> rcv_incoming (gce_receiver ep) = []
     \<and> snd_error (gce_sender ep) = None"

lemma ready_open: "ready env ep \<longleftrightarrow> open_endpoint ep \<and> gt_expired (ge_now env) (gce_tracker ep) = []
    \<and> ge_now env + gt_default_timeout (gce_tracker ep) \<le> TIME_MAX"
  by (auto simp: ready_def open_endpoint_def idle_endpoint_def)

lemma open_endpoint_simps [simp]:
  "open_endpoint (append_sent ms ep) = open_endpoint ep" "open_endpoint (asked renv p cb ep) = open_endpoint ep"
  "open_endpoint (ep\<lparr>gce_tracker := t\<rparr>) = open_endpoint ep"
  by (simp_all add: open_endpoint_def)

lemma no_pending_ready:
  "open_endpoint ep \<Longrightarrow> gt_pending (gce_tracker ep) = [] \<Longrightarrow> ge_now env + gt_default_timeout (gce_tracker ep) \<le> TIME_MAX \<Longrightarrow> ready env ep"
  by (simp add: ready_open gt_expired_def)

lemma one_pending_ready:
  "open_endpoint ep \<Longrightarrow> gt_pending (gce_tracker ep) = [(rid, entry)] \<Longrightarrow> ge_now env \<le> gte_expires entry \<Longrightarrow>
   ge_now env + gt_default_timeout (gce_tracker ep) \<le> TIME_MAX \<Longrightarrow> ready env ep"
  by (simp add: ready_open gt_expired_def)

definition asked_entry :: "req_env \<Rightarrow> 'cb \<Rightarrow> 'cb GhostTracker \<Rightarrow> 'cb GhostTrackerEntry" where
  "asked_entry renv cb t = \<lparr>gte_backtrace = re_bt renv, gte_expires = re_now renv + gt_default_timeout t, gte_cb = cb\<rparr>"

lemma asked_entry_simps [simp]:
  "gte_cb (asked_entry renv cb t) = cb" "gte_expires (asked_entry renv cb t) = re_now renv + gt_default_timeout t"
  by (simp_all add: asked_entry_def)

lemma asked_tracker [simp]:
  "gt_request_id_prefix (gce_tracker (asked renv p cb ep)) = gt_request_id_prefix (gce_tracker ep)"
  "gt_default_timeout (gce_tracker (asked renv p cb ep)) = gt_default_timeout (gce_tracker ep)"
  by (simp_all add: asked_def Let_def append_sent_def gt_insert_def)

lemma asked_pending:
  "gt_lookup (gce_tracker ep) (gt_request_id_prefix (gce_tracker ep) @ re_nanoid renv) = None \<Longrightarrow>
   gt_pending (gce_tracker (asked renv p cb ep)) = gt_pending (gce_tracker ep) @
     [(gt_request_id_prefix (gce_tracker ep) @ re_nanoid renv, asked_entry renv cb (gce_tracker ep))]"
  by (simp add: asked_def Let_def append_sent_def gt_insert_def update_new asked_entry_def)

definition settled :: "('cb, 'ro, 'ror, 'rs, 'rsr, 'err) GhostContextEndpoint \<Rightarrow> ('cb, 'ro, 'ror, 'rs, 'rsr, 'err) GhostContextEndpoint" where
  "settled ep = ep\<lparr>gce_tracker := (gce_tracker ep)\<lparr>gt_pending := []\<rparr>\<rparr>"

lemma settled_simps [simp]:
  "open_endpoint (settled ep) = open_endpoint ep" "gt_pending (gce_tracker (settled ep)) = []"
  "gt_default_timeout (gce_tracker (settled ep)) = gt_default_timeout (gce_tracker ep)"
  "gt_request_id_prefix (gce_tracker (settled ep)) = gt_request_id_prefix (gce_tracker ep)"
  "snd_sent (gce_sender (settled ep)) = snd_sent (gce_sender ep)"
  by (simp_all add: settled_def)

text \<open>
  All requests an endpoint waits for, answered in the order they were made: their callbacks run in that order.
\<close>

fun run_callbacks :: "('cb \<Rightarrow> ('r, 'e) GhostCallbackData \<Rightarrow> P2pGateway \<Rightarrow> unit gw_result) \<Rightarrow> ('cb \<times> ('e + 'r)) list \<Rightarrow> P2pGateway \<Rightarrow> unit gw_result" where
  "run_callbacks cbf [] g = Ok () g"
| "run_callbacks cbf ((cb, r) # xs) g = bind_ok (cbf cb (CbResponse r) g) (\<lambda>_. run_callbacks cbf xs)"

definition answers_to :: "(RequestId \<times> 'cb GhostTrackerEntry) list \<Rightarrow> (Backtwrap \<times> ('e + 'r)) list \<Rightarrow> ('rs, 'r, 'e) GhostEndpointMessage list" where
  "answers_to es rs = map2 (\<lambda>(rid, _) (b, r). Response b rid r) es rs"

lemma answers_to_simps [simp]:
  "answers_to [] rs = []" "answers_to ((rid, entry) # es) ((b, r) # rs) = Response b rid r # answers_to es rs"
  by (simp_all add: answers_to_def)

lemma process_loop_answers:
  assumes "gt_pending (gce_tracker ep) = es" and "distinct (map fst es)" and "length rs = length es"
    and "\<not> rcv_disconnected (gce_receiver ep)"
    and "run_callbacks cbf (zip (map (\<lambda>p. gte_cb (snd p)) es) (map snd rs)) g = Ok () g'"
  shows "process_loop rid_msg (gw_call cbf) (answers_to es rs) w (ep, g) = Ok (w \<or> es \<noteq> [])
    (ep\<lparr>gce_receiver := if es = [] then gce_receiver ep else (gce_receiver ep)\<lparr>rcv_incoming := []\<rparr>,
        gce_tracker := (gce_tracker ep)\<lparr>gt_pending := []\<rparr>\<rparr>, g')"
  using assms
proof (induction es arbitrary: ep rs w g)
  case Nil
  then have "(gce_tracker ep)\<lparr>gt_pending := []\<rparr> = gce_tracker ep" by simp
  with Nil show ?case by simp
next
  case (Cons e es)
  obtain rid entry where e: "e = (rid, entry)" by (cases e)
  obtain b r rs' where rs: "rs = (b, r) # rs'" using Cons.prems(3) by (cases rs) auto
  obtain g1 where cb: "cbf (gte_cb entry) (CbResponse r) g = Ok () g1"
    and rest: "run_callbacks cbf (zip (map (\<lambda>p. gte_cb (snd p)) es) (map snd rs')) g1 = Ok () g'"
    using Cons.prems(5) by (auto simp: e rs outcome_simps)
  let ?ms = "answers_to es rs'"
  let ?ep = "ep\<lparr>gce_receiver := (gce_receiver ep)\<lparr>rcv_incoming := ?ms\<rparr>\<rparr>"
  have look: "gt_lookup (gce_tracker ?ep) rid = Some entry" using Cons.prems(1) by (simp add: e)
  have removed: "gt_remove rid (gce_tracker ep) = (gce_tracker ep)\<lparr>gt_pending := es\<rparr>"
    using Cons.prems(1,2) by (simp add: gt_remove_def e delete_notin)
  have "gw_call cbf (gte_cb entry) (CbResponse r) (g, gce_sender ?ep) = Ok () (g1, gce_sender ?ep)"
    using cb by (simp add: gw_call_def on_gateway_def)
  from process_message_Response[where ep = ?ep and rid = rid and entry = entry and p = r and bt = b and rid_msg = rid_msg and call = "gw_call cbf" and ud = g, OF look this]
  have step: "process_message rid_msg (gw_call cbf) (Response b rid r) (?ep, g) =
      Ok () (?ep\<lparr>gce_tracker := (gce_tracker ep)\<lparr>gt_pending := es\<rparr>\<rparr>, g1)"
    by (simp add: removed)
  let ?ep1 = "?ep\<lparr>gce_tracker := (gce_tracker ep)\<lparr>gt_pending := es\<rparr>\<rparr>"
  have "process_loop rid_msg (gw_call cbf) ?ms True (?ep1, g1) = Ok (True \<or> es \<noteq> [])
      (?ep1\<lparr>gce_receiver := if es = [] then gce_receiver ?ep1 else (gce_receiver ?ep1)\<lparr>rcv_incoming := []\<rparr>,
        gce_tracker := (gce_tracker ?ep1)\<lparr>gt_pending := []\<rparr>\<rparr>, g')"
    by (rule Cons.IH) (use Cons.prems rest in \<open>simp_all add: e rs\<close>)
  then show ?case using step by (cases "es = []") (simp_all add: e rs)
qed

lemma child_answers_all:
  assumes "ready env ep" and "gt_pending (gce_tracker ep) = es" and "distinct (map fst es)" and "length rs = length es"
    and "run_callbacks cbf (zip (map (\<lambda>p. gte_cb (snd p)) es) (map snd rs)) g = Ok () g'"
  shows "child_process rid_msg (gw_call cbf) (ge_now env) (Ok w (answers_to es rs)) (ep, g) = Ok () (settled ep, g')"
proof -
  let ?ep = "deliver (answers_to es rs) ep"
  have "(gce_receiver ep)\<lparr>rcv_incoming := []\<rparr> = gce_receiver ep" using assms(1) by (simp add: ready_open open_endpoint_def)
  moreover have "process_loop rid_msg (gw_call cbf) (answers_to es rs) w' (?ep, g) = Ok (w' \<or> es \<noteq> [])
    (?ep\<lparr>gce_receiver := if es = [] then gce_receiver ?ep else (gce_receiver ?ep)\<lparr>rcv_incoming := []\<rparr>,
        gce_tracker := (gce_tracker ?ep)\<lparr>gt_pending := []\<rparr>\<rparr>, g')" for w'
    by (rule process_loop_answers) (use assms in \<open>simp_all add: deliver_def ready_open open_endpoint_def\<close>)
  ultimately show ?thesis using assms(1)
    by (cases "es = []")
      (simp_all add: child_process_def endpoint_process_def with_tracker_process_idle deliver_def ready_open settled_def open_endpoint_def)
qed

section \<open>The DHT\<close>

text \<open>The requests the DHT answers from what it knows, and the answers.\<close>

fun dht_reply :: "MirrorDht \<Rightarrow> DhtRequestToChild \<Rightarrow> DhtRequestToChildResponse option" where
  "dht_reply d (RequestPeer name) = Some (PeerResponse (get_peer d name))"
| "dht_reply d RequestPeerList = Some (PeerListResponse (get_peer_list d))"
| "dht_reply d RequestThisPeer = Some (ThisPeerResponse (this_peer d))"
| "dht_reply d RequestEntryAddressList = Some (EntryAddressListResponse (get_entry_address_list d))"
| "dht_reply d (RequestAspectsOf a) = Some (AspectsOfResponse (get_aspects_of d a))"
| "dht_reply d _ = None"

fun dht_replies :: "(nat \<Rightarrow> dht_env) \<Rightarrow> nat \<Rightarrow> MirrorDht \<Rightarrow> (RequestId \<times> DhtRequestToChild) list \<Rightarrow>
    (DhtRequestToParent, DhtRequestToChildResponse, Lib3hError) GhostEndpointMessage list" where
  "dht_replies envs n d [] = []"
| "dht_replies envs n d ((rid, m) # ms) =
     Response (re_bt (ev_req (envs n))) rid (Inr (the (dht_reply d m))) # dht_replies envs (Suc n) d ms"

lemma dht_reply_endpoint [simp]: "dht_reply (d\<lparr>endpoint_self := ep\<rparr>) m = dht_reply d m"
  by (cases m) (simp_all add: get_peer_def get_peer_list_def get_entry_address_list_def get_aspects_of_def)

lemma dht_replies_endpoint [simp]: "dht_replies envs n (d\<lparr>endpoint_self := ep\<rparr>) ms = dht_replies envs n d ms"
  by (induction envs n d ms rule: dht_replies.induct) simp_all

lemma dht_serve_queries:
  assumes "endpoint_self d = Detach (Some ep)" and "snd_error (gce_sender ep) = None" and "list_all (\<lambda>(rid, m). dht_reply d m \<noteq> None) ms"
  shows "dht_serve envs n (map (\<lambda>(rid, m). GhostMessage_new b (Some rid) m) ms) d =
    Ok () (d\<lparr>endpoint_self := Detach (Some (append_sent (dht_replies envs n d ms) ep))\<rparr>)"
  using assms
proof (induction ms arbitrary: n d ep)
  case Nil
  then have "d\<lparr>endpoint_self := Detach (Some ep)\<rparr> = d" by simp
  with Nil show ?case by simp
next
  case (Cons rm ms)
  obtain rid m where rm: "rm = (rid, m)" by (cases rm)
  let ?ep = "append_sent [Response (re_bt (ev_req (envs n))) rid (Inr (the (dht_reply d m)))] ep"
  have "handle_request_from_parent (envs n) (GhostMessage_new b (Some rid) m) d = Ok () (d\<lparr>endpoint_self := Detach (Some ?ep)\<rparr>)"
    using Cons.prems
    by (cases m) (simp_all add: rm handle_request_from_parent_def take_message_def GhostMessage_new_def dht_respond_def Mirror_Dht.on_endpoint_def
        detach_deref_mut_def GhostMessage_respond_def chan_send_def append_sent_def)
  with Cons.IH[of "d\<lparr>endpoint_self := Detach (Some ?ep)\<rparr>" ?ep "Suc n"] Cons.prems show ?case by (simp add: rm)
qed

text \<open>Nothing to gossip and no peer to report, whatever the endpoint.\<close>

definition dht_quiet :: "dht_env \<Rightarrow> MirrorDht \<Rightarrow> bool" where
  "dht_quiet env d \<longleftrightarrow> (\<forall>ep. internal_process env (d\<lparr>endpoint_self := ep\<rparr>) = Ok (False, []) (d\<lparr>endpoint_self := ep\<rparr>))"

definition requests :: "Backtwrap \<Rightarrow> (RequestId \<times> 'r) list \<Rightarrow> ('r, 'a, 'e) GhostEndpointMessage list" where
  "requests b ms = map (\<lambda>(rid, m). Request b (Some rid) m) ms"

lemma endpoint_process_delivered:
  assumes "idle_endpoint now ep"
  shows "endpoint_process rid_msg call now (deliver (requests b ms) ep, ud) = Ok (gt_pending (gce_tracker ep) \<noteq> [] \<or> ms \<noteq> [])
    (ep\<lparr>gce_outbox := map (\<lambda>(rid, m). GhostMessage_new b (Some rid) m) ms\<rparr>, ud)"
proof -
  let ?ms = "map (\<lambda>(rid, m). (Some rid, m)) ms"
  have maps: "requests b ms = map (\<lambda>(rid, p). Request b rid p) ?ms"
    "map (\<lambda>(rid, p). GhostMessage_new b rid p) ?ms = map (\<lambda>(rid, m). GhostMessage_new b (Some rid) m) ms"
    "map ((\<lambda>(rid, p). GhostMessage_new b rid p) \<circ> (\<lambda>(rid, m). (Some rid, m))) ms = map (\<lambda>(rid, m). GhostMessage_new b (Some rid) m) ms"
    by (auto simp: requests_def comp_def split_def)
  have "(gce_receiver ep)\<lparr>rcv_incoming := []\<rparr> = gce_receiver ep" using assms by (simp add: idle_endpoint_def)
  then show ?thesis
    using endpoint_process_requests[of now "deliver (requests b ms) ep" b ?ms rid_msg call ud] assms
    by (simp add: deliver_def idle_endpoint_def maps)
qed

lemma run_dht_queries:
  assumes "endpoint_self d = Detach (Some ep)" and "idle_endpoint now ep" and "snd_error (gce_sender ep) = None"
    and "list_all (\<lambda>(rid, m). dht_reply d m \<noteq> None) ms" and "dht_quiet envp d"
  shows "run_actor endpoint_self (\<lambda>ep d. d\<lparr>endpoint_self := ep\<rparr>) (dht_process_concrete rid_msg now envs envp) (requests b ms) d =
    (Ok False (dht_replies envs 0 d ms), d\<lparr>endpoint_self := Detach (Some (append_sent (dht_replies envs 0 d ms) ep))\<rparr>)"
proof -
  let ?d = "d\<lparr>endpoint_self := Detach (Some ep)\<rparr>" and ?r = "dht_replies envs 0 d ms"
  have out: "ep\<lparr>gce_outbox := []\<rparr> = ep" using assms(2) by (simp add: idle_endpoint_def)
  have "dht_process_concrete rid_msg now envs envp (d\<lparr>endpoint_self := Detach (Some (deliver (requests b ms) ep))\<rparr>) =
      Ok False (d\<lparr>endpoint_self := Detach (Some (append_sent ?r ep))\<rparr>)"
    using dht_serve_queries[of ?d ep ms envs 0 b] assms(3-5)
    by (simp add: dht_process_concrete_def detach_run_attached endpoint_process_delivered[OF assms(2)] Mirror_Dht.on_endpoint_def detach_deref_mut_def
        drain_messages_def out dht_quiet_def)
  then show ?thesis using assms(1) by (simp add: run_actor_def append_sent_def)
qed

section \<open>The encoder\<close>

lemma run_encoding_one:
  assumes "me_endpoint_self me = Detach (Some ep)" and "idle_endpoint now ep" and "snd_error (gce_sender ep) = None"
    and "encoding_answer env m = Some r"
  shows "run_actor me_endpoint_self (\<lambda>ep me. me\<lparr>me_endpoint_self := ep\<rparr>) (enc_process_concrete rid_msg now env) (requests b [(rid, m)]) me =
    (Ok True [Response (enc_bt env) rid r], me\<lparr>me_endpoint_self := Detach (Some (append_sent [Response (enc_bt env) rid r] ep))\<rparr>)"
proof -
  have out: "ep\<lparr>gce_outbox := []\<rparr> = ep" using assms(2) by (simp add: idle_endpoint_def)
  have "handle_msg_from_parent env (GhostMessage_new b (Some rid) m) (me\<lparr>me_endpoint_self := Detach (Some ep)\<rparr>) =
      Ok () (me\<lparr>me_endpoint_self := Detach (Some (append_sent [Response (enc_bt env) rid r] ep))\<rparr>)"
    using handle_msg_answer(1)[of "me\<lparr>me_endpoint_self := Detach (Some ep)\<rparr>" ep "GhostMessage_new b (Some rid) m" rid m env r] assms(3,4)
    by (simp add: GhostMessage_new_def)
  then have "enc_process_concrete rid_msg now env (me\<lparr>me_endpoint_self := Detach (Some (deliver (requests b [(rid, m)]) ep))\<rparr>) =
      Ok True (me\<lparr>me_endpoint_self := Detach (Some (append_sent [Response (enc_bt env) rid r] ep))\<rparr>)"
    by (simp add: enc_process_concrete_def detach_run_attached endpoint_process_delivered[OF assms(2)] detach_deref_mut_def drain_messages_def out)
  then show ?thesis using assms(1) by (simp add: run_actor_def append_sent_def)
qed

lemma run_encoding_none:
  assumes "me_endpoint_self me = Detach (Some ep)" and "idle_endpoint now ep"
  shows "\<exists>w. run_actor me_endpoint_self (\<lambda>ep me. me\<lparr>me_endpoint_self := ep\<rparr>) (enc_process_concrete rid_msg now env) [] me = (Ok w [], me)"
proof -
  have "deliver [] ep = ep" "ep\<lparr>gce_outbox := []\<rparr> = ep" "gce_outbox ep = []" using assms(2) by (simp_all add: idle_endpoint_def deliver_def)
  moreover have "me\<lparr>me_endpoint_self := Detach (Some ep)\<rparr> = me" using assms(1) by simp
  ultimately show ?thesis using assms
    by (simp add: run_actor_def enc_process_concrete_def detach_run_attached endpoint_process_idle detach_deref_mut_def drain_messages_def)
qed

section \<open>The in-memory transport\<close>

definition discover_quiet :: "tm_env \<Rightarrow> GhostTransportMemory \<Rightarrow> bool" where
  "discover_quiet env tm \<longleftrightarrow> (case last_discover tm of Some t \<Rightarrow> tm_instant env - t \<le> discover_interval_ms tm | None \<Rightarrow> True)"

lemma try_discover_quiet: "discover_quiet env tm \<Longrightarrow> try_discover env (tm, net) = Ok () (tm, net)"
  by (auto simp: discover_quiet_def try_discover_def split: option.splits)

definition idle_server :: "MemoryServer \<Rightarrow> bool" where
  "idle_server s \<longleftrightarrow> connection_inbox s = [] \<and> list_all (\<lambda>(u, inbox). inbox = []) (inbox_map s) \<and> ms_state s = Running"

lemma idle_inboxes:
  "list_all (\<lambda>(u, inbox). inbox = []) m \<Longrightarrow> concat (map (\<lambda>(uri, inbox). pop_inbox uri inbox) m) = [] \<and> map (\<lambda>(uri, _). (uri, [])) m = m"
  by (induction m) auto

lemma idle_server_process: "idle_server s \<Longrightarrow> MemoryServer_process s = Ok (False, []) s"
  by (cases s) (simp add: idle_server_def MemoryServer_process_def idle_inboxes Let_def)

lemma update_same: "map_of m k = Some v \<Longrightarrow> AList.update k v m = m"
  by (induction m) (auto split: if_splits)

lemma put_server_same: "get_server u net = Some s \<Longrightarrow> put_server u s net = net"
  by (simp add: get_server_def put_server_def update_same)

text \<open>A bound transport with nothing to do for itself.\<close>

definition transport_calm :: "tm_env \<Rightarrow> Lib3hUri \<Rightarrow> unit TransportActorSelfEndpoint \<Rightarrow> tm_state \<Rightarrow> bool" where
  "transport_calm env a te st \<longleftrightarrow> tm_endpoint_self (fst st) = Detach (Some te) \<and> idle_endpoint (tm_now env) te \<and> snd_error (gce_sender te) = None
     \<and> discover_quiet env (fst st) \<and> maybe_my_address (fst st) = Some a"

lemma calm_endpoint: "transport_calm env a te (tm, net) \<Longrightarrow> tm\<lparr>tm_endpoint_self := Detach (Some te)\<rparr> = tm"
  by (cases tm) (simp add: transport_calm_def)

lemma tm_endpoint_pass:
  assumes "tm_endpoint_self tm = Detach (Some (deliver (requests b ms) te))" and "idle_endpoint now te"
  shows "detach_run (\<lambda>(tm, net). tm_endpoint_self tm) (\<lambda>ep (tm, net). (tm\<lparr>tm_endpoint_self := ep\<rparr>, net))
      (endpoint_process rid_msg tm_no_callback now) (tm, net) =
    Ok (gt_pending (gce_tracker te) \<noteq> [] \<or> ms \<noteq> [])
      (tm\<lparr>tm_endpoint_self := Detach (Some (te\<lparr>gce_outbox := map (\<lambda>(rid, m). GhostMessage_new b (Some rid) m) ms\<rparr>))\<rparr>, net)"
  using assms by (simp add: detach_run_attached endpoint_process_delivered)

lemma server_pass_idle:
  assumes "maybe_my_address tm = Some a" and "get_server a net = Some s" and "idle_server s"
  shows "server_pass env (tm, net) = Ok () (tm, net)"
  using assms by (simp add: server_pass_def idle_server_process put_server_same)

lemma run_transport_requests:
  assumes calm: "transport_calm env a te (tm, net)" and "get_server a net = Some s" and "idle_server s"
    and handled: "for_each (tm_handle_msg env) (map (\<lambda>(rid, m). GhostMessage_new b (Some rid) m) ms) (tm, net) = Ok () (tm', net')"
    and sent: "sent_on (tm_endpoint_self tm') = snd_sent (gce_sender te) @ out"
  shows "run_actor (\<lambda>(tm, net). tm_endpoint_self tm) (\<lambda>ep (tm, net). (tm\<lparr>tm_endpoint_self := ep\<rparr>, net)) (tm_process_concrete env)
      (requests b ms) (tm, net) = (Ok True out, (tm', net'))"
proof -
  let ?tm = "tm\<lparr>tm_endpoint_self := Detach (Some (deliver (requests b ms) te))\<rparr>"
  have te: "tm_endpoint_self tm = Detach (Some te)" "idle_endpoint (tm_now env) te" "discover_quiet env ?tm" "maybe_my_address ?tm = Some a"
    using calm by (simp_all add: transport_calm_def discover_quiet_def split: option.splits)
  have same_tm: "tm\<lparr>tm_endpoint_self := Detach (Some (te\<lparr>gce_outbox := []\<rparr>))\<rparr> = tm"
  proof -
    have "te\<lparr>gce_outbox := []\<rparr> = te" using te(2) by (simp add: idle_endpoint_def)
    then show ?thesis using calm_endpoint[OF calm] by metis
  qed
  have "tm_process_concrete env (?tm, net) = Ok True (tm', net')"
    using server_pass_idle[OF te(4) assms(2,3)] handled tm_endpoint_pass[of ?tm b ms te "tm_now env" "tm_rid_msg env" net] te(2)
    by (simp add: tm_process_concrete_def try_discover_quiet[OF te(3)] tm_on_endpoint_def detach_deref_mut_def drain_messages_def same_tm)
  then show ?thesis using te(1) sent by (simp add: run_actor_def)
qed

lemma tm_sent_endpoint: "tm_endpoint_self tm = Detach (Some te) \<Longrightarrow> tm_sent m tm = tm\<lparr>tm_endpoint_self := Detach (Some (append_sent [m] te))\<rparr>"
  by (simp add: tm_sent_def append_sent_def)

text \<open>A server after a first contact: the connection and one payload.\<close>

definition contacted :: "Lib3hUri \<Rightarrow> bytes list \<Rightarrow> MemoryServer \<Rightarrow> MemoryServer" where
  "contacted a ps s = s\<lparr>inbox_map := inbox_map s @ [(a, ps)], connection_inbox := connection_inbox s @ [(a, True)]\<rparr>"

lemma request_connect_contacted:
  assumes "u \<noteq> this_uri s" and "\<not> is_connected_to s u"
  shows "request_connect u s = Ok () (contacted u [] s)"
proof -
  have "map_of (inbox_map s) u = None" using assms(2) by (simp add: is_connected_to_iff)
  then show ?thesis using request_connect_new[OF assms] by (simp add: contacted_def update_new)
qed

lemma post_contacted: "\<not> is_connected_to s a \<Longrightarrow> post a p (contacted a ps s) = Ok () (contacted a (ps @ [p]) s)"
proof -
  have "AList.update a (ps @ [p]) (m @ [(a, ps)]) = m @ [(a, ps @ [p])]" if "map_of m a = None" for m
    using that by (induction m) (auto split: if_splits)
  then show "\<not> is_connected_to s a \<Longrightarrow> ?thesis" by (simp add: is_connected_to_iff post_def contacted_def map_add_def)
qed

lemma run_transport_send:
  assumes calm: "transport_calm env a te (tm, net)" and sa: "get_server a net = Some sa" "idle_server sa"
    and u: "u \<noteq> a" "u \<notin> set (connections tm)" "get_server u net = Some su" "this_uri su = u" "\<not> is_connected_to su a"
  shows "run_actor (\<lambda>(tm, net). tm_endpoint_self tm) (\<lambda>ep (tm, net). (tm\<lparr>tm_endpoint_self := ep\<rparr>, net)) (tm_process_concrete env)
      (requests b [(rid, SendMessage u p)]) (tm, net) =
    (Ok True [Response (tm_bt env) rid (Inr SendMessageSuccess)],
     (tm_sent (Response (tm_bt env) rid (Inr SendMessageSuccess)) (add_connection u tm), put_server u (contacted a [p] su) net))"
proof -
  have op: "tm_open tm" and my: "maybe_my_address tm = Some a" using calm by (simp_all add: transport_calm_def tm_open_def)
  have "request_connect a su = Ok () (contacted a [] su)" using u(1,4,5) by (simp add: request_connect_contacted)
  moreover have "post a p (contacted a [] su) = Ok () (contacted a [p] su)" using post_contacted[OF u(5), of p "[]"] by simp
  ultimately have "tm_handle_msg env (GhostMessage_new b (Some rid) (SendMessage u p)) (tm, net) = Ok ()
      (tm_sent (Response (tm_bt env) rid (Inr SendMessageSuccess)) (add_connection u tm), put_server u (contacted a [p] su) net)"
    using my u op
    by (simp add: tm_handle_msg_def take_message_def GhostMessage_new_def tm_send_message_def send_remote_def post_and_respond_def tm_respond_open)
  moreover have "tm_endpoint_self (add_connection u tm) = Detach (Some te)" using calm by (simp add: transport_calm_def add_connection_def)
  ultimately show ?thesis
    using run_transport_requests[OF calm sa, of b "[(rid, SendMessage u p)]"] by (simp add: tm_sent_endpoint append_sent_def)
qed

lemma run_transport_none:
  assumes "transport_calm env a te (tm, net)" and "get_server a net = Some s" and "idle_server s"
  shows "run_actor (\<lambda>(tm, net). tm_endpoint_self tm) (\<lambda>ep (tm, net). (tm\<lparr>tm_endpoint_self := ep\<rparr>, net)) (tm_process_concrete env)
      [] (tm, net) = (Ok True [], (tm, net))"
  using run_transport_requests[OF assms, of _ "[]" tm net "[]"] assms(1) by (simp add: requests_def transport_calm_def)

text \<open>
  The other side: the transport reports the connection, then the payload, and connects back.
\<close>

lemma run_transport_receive:
  assumes calm: "transport_calm env b te (tm, net)" and sb: "get_server b net = Some (contacted a [p] sb)" "idle_server sb"
    and a: "a \<noteq> b" "a \<notin> set (connections tm)" "get_server a net = Some sa" "this_uri sa = a" "\<not> is_connected_to sa b"
  shows "\<exists>tm' net'. run_actor (\<lambda>(tm, net). tm_endpoint_self tm) (\<lambda>ep (tm, net). (tm\<lparr>tm_endpoint_self := ep\<rparr>, net)) (tm_process_concrete env)
      [] (tm, net) = (Ok True [Request (tm_bt env) None (IncomingConnection a), Request (tm_bt env) None (ReceivedData a p)], (tm', net'))
    \<and> connections tm' = List.insert a (connections tm) \<and> get_server a net' = Some (contacted b [] sa)"
proof -
  define sb' where "sb' = sb\<lparr>inbox_map := map (\<lambda>(u, _). (u, [])) (inbox_map sb @ [(a, [p])])\<rparr>"
  have srv: "MemoryServer_process (contacted a [p] sb) = Ok (True, [EvIncomingConnectionEstablished a, EvReceivedData a p]) sb'"
    using sb(2) by (simp add: MemoryServer_process_def contacted_def idle_server_def idle_inboxes connection_event_def sb'_def Let_def)
  let ?i = "Request (tm_bt env) None (IncomingConnection a)" and ?d = "Request (tm_bt env) None (ReceivedData a p)"
  define tm1 where "tm1 = tm_sent ?d (add_connection a (tm_sent ?i tm))"
  define net1 where "net1 = put_server a (contacted b [] sa) (put_server b sb' net)"
  have op: "tm_open tm" and my: "maybe_my_address tm = Some b" and q: "discover_quiet env tm" "tm_endpoint_self tm = Detach (Some te)"
      "idle_endpoint (tm_now env) te" using calm by (simp_all add: transport_calm_def tm_open_def)
  have "request_connect b sa = Ok () (contacted b [] sa)" using a by (simp add: request_connect_contacted)
  then have pass: "server_pass env (tm, net) = Ok () (tm1, net1)"
    using my op sb(1) a(1,2,3) by (simp add: server_pass_def srv tm_publish_open get_put_server tm1_def net1_def)
  have ep: "tm_endpoint_self tm1 = Detach (Some (append_sent [?i, ?d] te))"
    using q(2) by (simp add: tm1_def tm_sent_endpoint add_connection_def)
  have idle: "idle_endpoint (tm_now env) (append_sent [?i, ?d] te)" using q(3) by (simp add: idle_endpoint_def)
  have "deliver [] te = te" "te\<lparr>gce_outbox := []\<rparr> = te" "gce_outbox te = []" using q(3) by (simp_all add: deliver_def idle_endpoint_def)
  moreover have "(append_sent [?i, ?d] te)\<lparr>gce_outbox := []\<rparr> = append_sent [?i, ?d] te" "gce_outbox (append_sent [?i, ?d] te) = []"
    using q(3) by (simp_all add: idle_endpoint_def append_sent_def)
  moreover have "tm1\<lparr>tm_endpoint_self := Detach (Some (append_sent [?i, ?d] te))\<rparr> = tm1" using ep by (cases tm1) simp
  ultimately have "tm_process_concrete env (tm, net) = Ok True (tm1, net1)"
    by (simp add: endpoint_process_idle[OF idle] tm_process_concrete_def try_discover_quiet[OF q(1)] pass detach_run_attached ep tm_on_endpoint_def detach_deref_mut_def drain_messages_def
        del: append_sent_simps)
  moreover have "sent_on (tm_endpoint_self tm1) = snd_sent (gce_sender te) @ [?i, ?d]" by (simp add: ep append_sent_def)
  ultimately have "run_actor (\<lambda>(tm, net). tm_endpoint_self tm) (\<lambda>ep (tm, net). (tm\<lparr>tm_endpoint_self := ep\<rparr>, net)) (tm_process_concrete env)
      [] (tm, net) = (Ok True [?i, ?d], (tm1, net1))"
    using q(2) by (simp add: run_actor_def deliver_def calm_endpoint[OF calm])
  moreover have "connections tm1 = List.insert a (connections tm)" by (simp add: tm1_def add_connection_def)
  moreover have "get_server a net1 = Some (contacted b [] sa)" by (simp add: net1_def get_put_server)
  ultimately show ?thesis by blast
qed

section \<open>The phases of a node\<close>

definition resting :: "('cb, 'ro, 'ror, 'rs, 'rsr, 'err) GhostContextEndpoint \<Rightarrow> bool" where
  "resting ep \<longleftrightarrow> open_endpoint ep \<and> gt_pending (gce_tracker ep) = []"

lemma resting_idle: "resting ep \<Longrightarrow> idle_endpoint now ep \<and> snd_error (gce_sender ep) = None"
  by (simp add: resting_def open_endpoint_def idle_endpoint_def gt_expired_def)

lemma resting_append_sent [simp]: "resting (append_sent ms ep) = resting ep"
  by (simp add: resting_def)

text \<open>
  The two ends of the queues between a gateway and a child: the gateway waits for the answers \<open>es\<close>, the child has not yet
  received the requests \<open>qs\<close>, which are the same requests in the same order; the child's end is at rest.
\<close>

definition link ::
  "('cb, 'ro, 'ror, 'rs, 'rsr, 'err) GhostContextEndpoint Detach \<Rightarrow> nat \<Rightarrow> ('cc, 'rs, 'rsr, 'ro, 'ror, 'err) GhostContextEndpoint Detach \<Rightarrow>
   Backtwrap \<Rightarrow> (RequestId \<times> 'cb GhostTrackerEntry) list \<Rightarrow> (RequestId \<times> 'ro) list \<Rightarrow> bool" where
  "link p seen c b es qs \<longleftrightarrow>
     (\<exists>ep. p = Detach (Some ep) \<and> open_endpoint ep \<and> gt_pending (gce_tracker ep) = es \<and> gt_default_timeout (gce_tracker ep) = DEFAULT_TIMEOUT
         \<and> drop seen (snd_sent (gce_sender ep)) = requests b qs \<and> seen \<le> length (snd_sent (gce_sender ep)))
   \<and> map fst es = map fst qs \<and> distinct (map fst es) \<and> (\<exists>ep. c = Detach (Some ep) \<and> resting ep)"

definition unexpired :: "time \<Rightarrow> (RequestId \<times> 'cb GhostTrackerEntry) list \<Rightarrow> bool" where
  "unexpired now es \<longleftrightarrow> list_all (\<lambda>(rid, entry). now \<le> gte_expires entry) es \<and> now + DEFAULT_TIMEOUT \<le> TIME_MAX"

lemma link_ready:
  assumes "link p seen c b es qs" and "unexpired (ge_now env) es"
  obtains ep ce where "p = Detach (Some ep)" "ready env ep" "gt_pending (gce_tracker ep) = es" "c = Detach (Some ce)" "resting ce"
    "drop seen (snd_sent (gce_sender ep)) = requests b qs"
proof -
  have "gt_expired now t = []" if "list_all (\<lambda>(rid, entry). now \<le> gte_expires entry) (gt_pending t)" for now and t :: "'a GhostTracker"
    using that by (auto simp: gt_expired_def list_all_iff)
  then show thesis using assms that by (auto simp: link_def unexpired_def ready_open)
qed

lemma link_ask:
  assumes "link p seen c b es qs" and "unexpired (ge_now env) es" and "b = ge_bt env \<or> es = []"
    and "\<And>ep. p = Detach (Some ep) \<Longrightarrow> gt_request_id_prefix (gce_tracker ep) @ ge_nanoid env (gw_draws g) \<notin> fst ` set es"
  obtains ep rid where "p = Detach (Some ep)" "ready env ep"
    "link (Detach (Some (asked (gw_req env g) m cb ep))) seen c (ge_bt env)
       (es @ [(rid, asked_entry (gw_req env g) cb (gce_tracker ep))]) (qs @ [(rid, m)])"
    "rid = gt_request_id_prefix (gce_tracker ep) @ ge_nanoid env (gw_draws g)" "gt_default_timeout (gce_tracker ep) = DEFAULT_TIMEOUT"
proof -
  obtain ep ce where ep: "p = Detach (Some ep)" "ready env ep" "gt_pending (gce_tracker ep) = es" "c = Detach (Some ce)" "resting ce"
      "drop seen (snd_sent (gce_sender ep)) = requests b qs"
    using link_ready[OF assms(1,2)] .
  let ?rid = "gt_request_id_prefix (gce_tracker ep) @ ge_nanoid env (gw_draws g)"
  have fresh: "?rid \<notin> fst ` set es" using assms(4) ep(1) .
  then have "gt_pending (gce_tracker (asked (gw_req env g) m cb ep)) = es @ [(?rid, asked_entry (gw_req env g) cb (gce_tracker ep))]"
    using ep(3) by (simp add: asked_pending gw_req_def map_of_eq_None_iff)
  moreover have "requests b qs = requests (ge_bt env) qs" using assms(1,3) by (auto simp: link_def requests_def)
  moreover have "?rid \<notin> set (map fst qs)" using assms(1) fresh by (simp add: link_def) (metis list.set_map)
  ultimately have "link (Detach (Some (asked (gw_req env g) m cb ep))) seen c (ge_bt env)
       (es @ [(?rid, asked_entry (gw_req env g) cb (gce_tracker ep))]) (qs @ [(?rid, m)])"
    using assms(1) ep fresh by (auto simp: link_def requests_def gw_req_def)
  moreover have "gt_default_timeout (gce_tracker ep) = DEFAULT_TIMEOUT" using assms(1) ep(1) by (simp add: link_def)
  ultimately show thesis using that ep(1,2) by blast
qed

lemma link_settled:
  assumes "link (Detach (Some ep)) seen c b es qs" and "resting ce"
  shows "link (Detach (Some (settled ep))) (length (snd_sent (gce_sender ep))) (Detach (Some ce)) b' [] []"
  using assms by (auto simp: link_def requests_def)

lemma node_owner_rest:
  assumes "gw_endpoint_self (nd_gateway n) = Detach (Some s)" and "idle_endpoint (ge_now (ne_gateway env)) s"
  shows "node_gateway (gw_process_owner (ne_gateway env)) (n, net) = Ok () (n, net)"
proof -
  have "s\<lparr>gce_outbox := []\<rparr> = s" "gce_outbox s = []" using assms(2) by (simp_all add: idle_endpoint_def)
  moreover have "(nd_gateway n)\<lparr>gw_endpoint_self := Detach (Some s)\<rparr> = nd_gateway n" using assms(1) by (cases "nd_gateway n") simp
  ultimately have "gw_process_owner (ne_gateway env) (nd_gateway n) = Ok () (nd_gateway n)"
    by (simp add: gw_process_owner_def detach_run_attached assms(1) endpoint_process_idle[OF assms(2)] gw_drain_def detach_deref_mut_def
        drain_messages_def)
  then show ?thesis by (simp add: node_gateway_def)
qed

lemma node_transport_rest:
  assumes "link (gw_inner_transport (nd_gateway n)) (nd_transport_seen n) (tm_endpoint_self (nd_transport n)) b [] []"
    and "unexpired (ge_now (ne_gateway env)) ([] :: (RequestId \<times> GwTransportCallback GhostTrackerEntry) list)"
    and "discover_quiet (ne_transport env) (nd_transport n)" and "maybe_my_address (nd_transport n) = Some a"
    and "get_server a net = Some sa" and "idle_server sa"
  shows "node_transport env (n, net) = Ok () (n, net)"
proof -
  obtain i te where i: "gw_inner_transport (nd_gateway n) = Detach (Some i)" "ready (ne_gateway env) i" "tm_endpoint_self (nd_transport n) = Detach (Some te)"
      "resting te" "drop (nd_transport_seen n) (snd_sent (gce_sender i)) = []"
    using link_ready[OF assms(1,2)] by (simp add: requests_def) metis
  have seen: "nd_transport_seen n = length (snd_sent (gce_sender i))" using assms(1) i(1,5) by (auto simp: link_def)
  have "transport_calm (ne_transport env) a te (nd_transport n, net)"
    using i(3) resting_idle[OF i(4)] assms(3,4) by (simp add: transport_calm_def)
  from run_transport_none[OF this assms(5,6)]
  have "run_transport env (nd_gateway n) (n, net) = (Ok True [], (nd_transport n, net))" by (simp add: run_transport_def i(1) seen)
  then show ?thesis
    using silent_phases(1)[OF i(1,2), of "quiet_children\<lparr>gc_transport := Ok True []\<rparr>" True]
    by (simp add: node_transport_def node_gateway_def i(1) seen[symmetric])
qed

lemma node_encoding_rest:
  assumes "link (gw_message_encoding (nd_gateway n)) (nd_encoding_seen n) (me_endpoint_self (nd_encoding n)) b [] []"
    and "unexpired (ge_now (ne_gateway env)) ([] :: (RequestId \<times> GwEncodingCallback GhostTrackerEntry) list)"
  shows "node_encoding env (n, net) = Ok () (n, net)"
proof -
  obtain e ee where e: "gw_message_encoding (nd_gateway n) = Detach (Some e)" "ready (ne_gateway env) e" "me_endpoint_self (nd_encoding n) = Detach (Some ee)"
      "resting ee" "drop (nd_encoding_seen n) (snd_sent (gce_sender e)) = []"
    using link_ready[OF assms] by (simp add: requests_def) metis
  have seen: "nd_encoding_seen n = length (snd_sent (gce_sender e))" using assms(1) e(1,5) by (auto simp: link_def)
  obtain w where "run_encoding env (nd_gateway n) n = (Ok w [], nd_encoding n)"
    using run_encoding_none[OF e(3), of "ge_now (ne_gateway env)" "ge_rid_msg (ne_gateway env)" "ne_encoding env"] resting_idle[OF e(4)]
    by (auto simp: run_encoding_def e(1) seen)
  then show ?thesis
    using silent_phases(2)[OF e(1,2), of "quiet_children\<lparr>gc_encoding := Ok w []\<rparr>" w]
    by (simp add: node_encoding_def node_gateway_def e(1) seen[symmetric])
qed

end
