(* ===== verification/Gateway_Delivery.thy ===== *)
theory Gateway_Delivery
  imports Gateway_Network
begin

text \<open>
  What the owner of one node sends to a peer arrives at the owner of the peer's node: the processes of both nodes, phase by phase.
\<close>

section \<open>What a node keeps\<close>

text \<open>Its settings, what its DHT knows and when its transport last looked for others.\<close>

definition kept :: "node \<Rightarrow> node \<Rightarrow> bool" where
  "kept n n' \<longleftrightarrow> wrap_output_type (nd_gateway n') = wrap_output_type (nd_gateway n)
     \<and> gw_identifier (nd_gateway n') = gw_identifier (nd_gateway n)
     \<and> (\<exists>ep. nd_dht n' = (nd_dht n)\<lparr>endpoint_self := ep\<rparr>)
     \<and> last_discover (nd_transport n') = last_discover (nd_transport n)
     \<and> discover_interval_ms (nd_transport n') = discover_interval_ms (nd_transport n)"

lemma kept_refl: "kept n n"
  unfolding kept_def by (auto intro: exI[of _ "endpoint_self (nd_dht n)"])

lemma kept_trans: "kept n n' \<Longrightarrow> kept n' n'' \<Longrightarrow> kept n n''"
  by (auto simp: kept_def)

text \<open>An environment in which a node has nothing to gossip, need not look for others, and no clock overflows.\<close>

definition env_fit :: "node_env \<Rightarrow> node \<Rightarrow> bool" where
  "env_fit env n \<longleftrightarrow> discover_quiet (ne_transport env) (nd_transport n) \<and> dht_quiet (ne_dht_tick env) (nd_dht n)
     \<and> ge_now (ne_gateway env) + DEFAULT_TIMEOUT \<le> TIME_MAX \<and> ge_now (ne_gateway env) + SEND_RETRY_TIMEOUT_MS \<le> TIME_MAX
     \<and> inj (ge_nanoid (ne_gateway env))"

lemma kept_env_fit: "kept n n' \<Longrightarrow> env_fit env n \<Longrightarrow> env_fit env n'"
  by (auto simp: kept_def env_fit_def discover_quiet_def dht_quiet_def split: option.splits)

lemma kept_dht:
  "kept n n' \<Longrightarrow> dht_reply (nd_dht n') m = dht_reply (nd_dht n) m"
  "kept n n' \<Longrightarrow> this_peer (nd_dht n') = this_peer (nd_dht n)"
  "kept n n' \<Longrightarrow> get_peer (nd_dht n') u = get_peer (nd_dht n) u"
  by (auto simp: kept_def get_peer_def)

lemma link_parent:
  assumes "link (Detach (Some ep)) seen c b es qs" and "unexpired (ge_now env) es"
  shows "ready env ep" "gt_pending (gce_tracker ep) = es" "drop seen (snd_sent (gce_sender ep)) = requests b qs"
    "map fst es = map fst qs" "distinct (map fst es)"
proof -
  obtain ep' where "Detach (Some ep) = Detach (Some ep')" "ready env ep'" "gt_pending (gce_tracker ep') = es"
    "drop seen (snd_sent (gce_sender ep')) = requests b qs" by (rule link_ready[OF assms])
  then show "ready env ep" "gt_pending (gce_tracker ep) = es" "drop seen (snd_sent (gce_sender ep)) = requests b qs" by simp_all
  show "map fst es = map fst qs" "distinct (map fst es)" using assms(1) unfolding link_def by blast+
qed

section \<open>The DHT phase\<close>

lemma dht_replies_answers:
  "map fst es = map fst qs \<Longrightarrow>
   \<exists>rs. dht_replies envs k d qs = answers_to es rs \<and> map snd rs = map (\<lambda>(_, m). Inr (the (dht_reply d m))) qs \<and> length rs = length es"
proof (induction envs k d qs arbitrary: es rule: dht_replies.induct)
  case (2 envs k d rid m ms)
  obtain entry es' where es: "es = (rid, entry) # es'" "map fst es' = map fst ms" using 2(2) by (cases es) auto
  from 2(1)[OF es(2)] obtain rs where rs: "dht_replies envs (Suc k) d ms = answers_to es' rs"
    "map snd rs = map (\<lambda>(_, m). Inr (the (dht_reply d m))) ms" "length rs = length es'" by blast
  show ?case
    by (rule exI[of _ "(re_bt (ev_req (envs k)), Inr (the (dht_reply d m))) # rs"]) (simp add: es(1) rs)
qed simp

lemma run_callbacks_append:
  "run_callbacks cbf (xs @ ys) g = bind_ok (run_callbacks cbf xs g) (\<lambda>_. run_callbacks cbf ys)"
  by (induction cbf xs g rule: run_callbacks.induct) (auto simp: bind_ok_assoc cong: bind_ok_cong)

lemma node_dht_answers:
  assumes l: "link (gw_inner_dht (nd_gateway n)) (nd_dht_seen n) (endpoint_self (nd_dht n)) (ge_bt (ne_gateway env)) es qs"
    and un: "unexpired (ge_now (ne_gateway env)) es"
    and fresh: "\<And>ep. gw_inner_dht (nd_gateway n) = Detach (Some ep) \<Longrightarrow>
      gt_request_id_prefix (gce_tracker ep) @ ge_nanoid (ne_gateway env) (gw_draws (nd_gateway n)) \<notin> fst ` set es"
    and known: "list_all (\<lambda>(rid, m). dht_reply (nd_dht n) m \<noteq> None) qs"
    and quiet: "dht_quiet (ne_dht_tick env) (nd_dht n)"
    and cbs: "run_callbacks (gw_dht_callback (ne_gateway env))
        (zip (map (\<lambda>p. gte_cb (snd p)) es) (map (\<lambda>(_, m). Inr (the (dht_reply (nd_dht n) m))) qs))
        ((nd_gateway n)\<lparr>gw_draws := Suc (gw_draws (nd_gateway n)), gw_inner_dht := Detach None\<rparr>) = Ok () g1"
  obtains n' d where "node_dht env (n, net) = Ok () (n', net)"
    "link (gw_inner_dht (nd_gateway n')) (nd_dht_seen n') (endpoint_self (nd_dht n')) (ge_bt (ne_gateway env)) [] []"
    "nd_gateway n' = g1\<lparr>gw_this_peer := this_peer (nd_dht n), gw_inner_dht := Detach (Some d)\<rparr>"
    "nd_encoding n' = nd_encoding n" "nd_transport n' = nd_transport n" "nd_encoding_seen n' = nd_encoding_seen n"
    "nd_transport_seen n' = nd_transport_seen n" "\<exists>ep. nd_dht n' = (nd_dht n)\<lparr>endpoint_self := ep\<rparr>"
proof -
  let ?e = "ne_gateway env" and ?g = "nd_gateway n" and ?d = "nd_dht n"
  obtain ep ce where ep: "gw_inner_dht ?g = Detach (Some ep)" "ready ?e ep" "endpoint_self ?d = Detach (Some ce)" "resting ce"
    using link_ready[OF l un] by metis
  let ?rid = "gt_request_id_prefix (gce_tracker ep) @ ge_nanoid ?e (gw_draws ?g)"
  let ?ask = "asked (gw_req ?e ?g) RequestThisPeer StoreThisPeer ep"
  let ?es = "es @ [(?rid, asked_entry (gw_req ?e ?g) StoreThisPeer (gce_tracker ep))]" and ?qs = "qs @ [(?rid, RequestThisPeer)]"
  have l1: "link (Detach (Some ?ask)) (nd_dht_seen n) (endpoint_self ?d) (ge_bt ?e) ?es ?qs"
    by (rule link_ask[OF l un, of "?g" RequestThisPeer StoreThisPeer]) (use ep(1) fresh in auto)
  let ?ga = "?g\<lparr>gw_inner_dht := Detach (Some ?ask), gw_draws := Suc (gw_draws ?g)\<rparr>"
  have asking: "gw_dht_request ?e RequestThisPeer StoreThisPeer ?g = Ok () ?ga" using gw_request_ready(1)[OF ep(2,1)] .
  have "unexpired (ge_now ?e) ?es" using un by (simp add: unexpired_def gw_req_def)
  from link_parent[OF l1 this] have ask: "ready ?e ?ask" "gt_pending (gce_tracker ?ask) = ?es"
      "drop (nd_dht_seen n) (snd_sent (gce_sender ?ask)) = requests (ge_bt ?e) ?qs" "map fst ?es = map fst ?qs" "distinct (map fst ?es)"
    by blast+
  let ?replies = "dht_replies (ne_dht env) 0 ?d ?qs"
  obtain rs where rs: "?replies = answers_to ?es rs" "map snd rs = map (\<lambda>(_, m). Inr (the (dht_reply ?d m))) ?qs" "length rs = length ?es"
    using dht_replies_answers[OF ask(4)] by blast
  let ?d' = "?d\<lparr>endpoint_self := Detach (Some (append_sent ?replies ce))\<rparr>"
  have run: "run_dht env ?ga n = (Ok False ?replies, ?d')"
    using run_dht_queries[OF ep(3), of "ge_now ?e" ?qs "ne_dht_tick env" "ge_rid_msg ?e" "ne_dht env" "ge_bt ?e"] resting_idle[OF ep(4)] known quiet ask(3)
    by (simp add: run_dht_def)
  have len: "length (map (\<lambda>p. gte_cb (snd p)) es) = length qs" using l by (simp add: link_def) (metis length_map)
  have "run_callbacks (gw_dht_callback ?e) (zip (map (\<lambda>p. gte_cb (snd p)) ?es) (map snd rs)) (?ga\<lparr>gw_inner_dht := Detach None\<rparr>) =
      Ok () (g1\<lparr>gw_this_peer := this_peer ?d\<rparr>)"
    using cbs len by (simp add: rs(2) run_callbacks_append)
  from child_answers_all[OF ask(1,2,5) rs(3) this, where rid_msg = "ge_rid_msg ?e" and w = False]
  have "child_process (ge_rid_msg ?e) (gw_call (gw_dht_callback ?e)) (ge_now ?e) (Ok False ?replies) (?ask, ?ga\<lparr>gw_inner_dht := Detach None\<rparr>) =
      Ok () (settled ?ask, g1\<lparr>gw_this_peer := this_peer ?d\<rparr>)" by (simp add: rs(1))
  moreover have "gce_outbox (settled ?ask) = []" "(settled ?ask)\<lparr>gce_outbox := []\<rparr> = settled ?ask"
    using ask(1) by (simp_all add: ready_open open_endpoint_def settled_def)
  ultimately have "gw_process_dht ?e (quiet_children\<lparr>gc_dht := Ok False ?replies\<rparr>) ?g =
      Ok () (g1\<lparr>gw_this_peer := this_peer ?d, gw_inner_dht := Detach (Some (settled ?ask))\<rparr>)"
    by (simp add: gw_process_dht_def asking detach_run_attached gw_drain_def detach_deref_mut_def drain_messages_def)
  moreover define n' where "n' = n\<lparr>nd_dht := ?d', nd_dht_seen := length (snd_sent (gce_sender ?ask)),
      nd_gateway := g1\<lparr>gw_this_peer := this_peer ?d, gw_inner_dht := Detach (Some (settled ?ask))\<rparr>\<rparr>"
  ultimately have phase: "node_dht env (n, net) = Ok () (n', net)"
    using run by (simp add: node_dht_def asking node_gateway_def)
  have "link (Detach (Some (settled ?ask))) (length (snd_sent (gce_sender ?ask))) (Detach (Some (append_sent ?replies ce))) (ge_bt ?e) [] []"
    using link_settled[OF l1, of "append_sent ?replies ce"] ep(4) by simp
  then show thesis
    by (intro that[OF phase]) (auto simp: n'_def)
qed

section \<open>The encoder's phase\<close>

lemma node_encoding_answers:
  assumes l: "link (gw_message_encoding (nd_gateway n)) (nd_encoding_seen n) (me_endpoint_self (nd_encoding n)) b [(rid, entry)] [(rid, m)]"
    and un: "unexpired (ge_now (ne_gateway env)) [(rid, entry)]"
    and r: "encoding_answer (ne_encoding env) m = Some r"
    and cb: "gw_encoding_callback (ne_gateway env) (gte_cb entry) (CbResponse r) ((nd_gateway n)\<lparr>gw_message_encoding := Detach None\<rparr>) = Ok () g1"
  obtains n' e where "node_encoding env (n, net) = Ok () (n', net)"
    "link (gw_message_encoding (nd_gateway n')) (nd_encoding_seen n') (me_endpoint_self (nd_encoding n')) (ge_bt (ne_gateway env)) [] []"
    "nd_gateway n' = g1\<lparr>gw_message_encoding := Detach (Some e)\<rparr>"
    "nd_dht n' = nd_dht n" "nd_transport n' = nd_transport n" "nd_dht_seen n' = nd_dht_seen n" "nd_transport_seen n' = nd_transport_seen n"
proof -
  let ?e = "ne_gateway env" and ?g = "nd_gateway n" and ?me = "nd_encoding n"
  obtain ep ce where ep: "gw_message_encoding ?g = Detach (Some ep)" "me_endpoint_self ?me = Detach (Some ce)" "resting ce"
    by (rule link_ready[OF l un])
  note p = link_parent[OF l[unfolded ep(1)] un]
  let ?r = "[Response (enc_bt (ne_encoding env)) rid r]"
  let ?me' = "?me\<lparr>me_endpoint_self := Detach (Some (append_sent ?r ce))\<rparr>"
  have run: "run_encoding env ?g n = (Ok True ?r, ?me')"
    using run_encoding_one[OF ep(2), of "ge_now ?e" "ne_encoding env" m r "ge_rid_msg ?e" b rid] resting_idle[OF ep(3)] r p(3)
    by (simp add: run_encoding_def ep(1))
  have "run_callbacks (gw_encoding_callback ?e) (zip (map (\<lambda>p. gte_cb (snd p)) [(rid, entry)]) (map snd [(enc_bt (ne_encoding env), r)]))
      (?g\<lparr>gw_message_encoding := Detach None\<rparr>) = Ok () g1" using cb by simp
  from child_answers_all[OF p(1,2,5) _ this, where rid_msg = "ge_rid_msg ?e" and w = True]
  have "gw_process_encoding ?e (quiet_children\<lparr>gc_encoding := Ok True ?r\<rparr>) ?g = Ok () (g1\<lparr>gw_message_encoding := Detach (Some (settled ep))\<rparr>)"
    by (simp add: gw_process_encoding_def detach_run_attached ep(1))
  moreover define n' where "n' = n\<lparr>nd_encoding := ?me', nd_encoding_seen := length (snd_sent (gce_sender ep)),
      nd_gateway := g1\<lparr>gw_message_encoding := Detach (Some (settled ep))\<rparr>\<rparr>"
  ultimately have phase: "node_encoding env (n, net) = Ok () (n', net)"
    using run by (simp add: node_encoding_def node_gateway_def ep(1))
  have "link (Detach (Some (settled ep))) (length (snd_sent (gce_sender ep))) (Detach (Some (append_sent ?r ce))) (ge_bt ?e) [] []"
    by (rule link_settled[OF l[unfolded ep(1)]]) (simp add: ep(3))
  then show thesis by (intro that[OF phase]) (simp_all add: n'_def)
qed

section \<open>The transport's phase\<close>

lemma node_transport_sends:
  assumes l: "link (gw_inner_transport (nd_gateway n)) (nd_transport_seen n) (tm_endpoint_self (nd_transport n)) b [(rid, entry)] [(rid, SendMessage u p)]"
    and un: "unexpired (ge_now (ne_gateway env)) [(rid, entry)]"
    and quiet: "discover_quiet (ne_transport env) (nd_transport n)" and my: "maybe_my_address (nd_transport n) = Some a"
    and sa: "get_server a net = Some sa" "idle_server sa"
    and u: "u \<noteq> a" "u \<notin> set (connections (nd_transport n))" "get_server u net = Some su" "this_uri su = u" "\<not> is_connected_to su a"
    and cb: "gw_transport_callback (ne_gateway env) (gte_cb entry) (CbResponse (Inr SendMessageSuccess)) ((nd_gateway n)\<lparr>gw_inner_transport := Detach None\<rparr>) = Ok () g1"
  obtains n' i where "node_transport env (n, net) = Ok () (n', put_server u (contacted a [p] su) net)"
    "link (gw_inner_transport (nd_gateway n')) (nd_transport_seen n') (tm_endpoint_self (nd_transport n')) (ge_bt (ne_gateway env)) [] []"
    "nd_gateway n' = g1\<lparr>gw_inner_transport := Detach (Some i)\<rparr>"
    "nd_dht n' = nd_dht n" "nd_encoding n' = nd_encoding n" "nd_dht_seen n' = nd_dht_seen n" "nd_encoding_seen n' = nd_encoding_seen n"
    "\<exists>ep. nd_transport n' = (nd_transport n)\<lparr>connections := List.insert u (connections (nd_transport n)), tm_endpoint_self := ep\<rparr>"
proof -
  let ?e = "ne_gateway env" and ?g = "nd_gateway n" and ?tm = "nd_transport n"
  obtain ep ce where ep: "gw_inner_transport ?g = Detach (Some ep)" "tm_endpoint_self ?tm = Detach (Some ce)" "resting ce"
    by (rule link_ready[OF l un])
  note q = link_parent[OF l[unfolded ep(1)] un]
  let ?r = "[Response (tm_bt (ne_transport env)) rid (Inr SendMessageSuccess)]"
  have calm: "transport_calm (ne_transport env) a ce (?tm, net)"
    using ep(2) resting_idle[OF ep(3)] quiet my by (simp add: transport_calm_def)
  define tm' where "tm' = (add_connection u ?tm)\<lparr>tm_endpoint_self := Detach (Some (append_sent ?r ce))\<rparr>"
  have "tm_sent (hd ?r) (add_connection u ?tm) = tm'" using ep(2) by (simp add: tm_sent_endpoint add_connection_def tm'_def)
  with run_transport_send[OF calm sa u, of b rid p]
  have run: "run_transport env ?g (n, net) = (Ok True ?r, tm', put_server u (contacted a [p] su) net)"
    using q(3) by (simp add: run_transport_def ep(1))
  have "run_callbacks (gw_transport_callback ?e) (zip (map (\<lambda>p. gte_cb (snd p)) [(rid, entry)])
      (map snd [(tm_bt (ne_transport env), Inr SendMessageSuccess)])) (?g\<lparr>gw_inner_transport := Detach None\<rparr>) = Ok () g1" using cb by simp
  note answers = child_answers_all[OF q(1,2,5) _ this, where rid_msg = "ge_rid_msg ?e" and w = True]
  have "gce_outbox (settled ep) = []" "(settled ep)\<lparr>gce_outbox := []\<rparr> = settled ep" using q(1) by (simp_all add: ready_open open_endpoint_def settled_def)
  with answers have "gw_process_transport ?e (quiet_children\<lparr>gc_transport := Ok True ?r\<rparr>) ?g = Ok () (g1\<lparr>gw_inner_transport := Detach (Some (settled ep))\<rparr>)"
    by (simp add: gw_process_transport_def detach_run_attached ep(1) gw_drain_def detach_deref_mut_def drain_messages_def)
  moreover define n' where "n' = n\<lparr>nd_transport := tm', nd_transport_seen := length (snd_sent (gce_sender ep)),
      nd_gateway := g1\<lparr>gw_inner_transport := Detach (Some (settled ep))\<rparr>\<rparr>"
  ultimately have phase: "node_transport env (n, net) = Ok () (n', put_server u (contacted a [p] su) net)"
    using run by (simp add: node_transport_def node_gateway_def ep(1))
  have "link (Detach (Some (settled ep))) (length (snd_sent (gce_sender ep))) (Detach (Some (append_sent ?r ce))) (ge_bt ?e) [] []"
    by (rule link_settled[OF l[unfolded ep(1)]]) (simp add: ep(3))
  then show thesis by (intro that[OF phase]) (auto simp: n'_def tm'_def add_connection_def)
qed

lemma child_forwards_all:
  assumes "ready env ep"
  shows "child_process rid_msg call (ge_now env) (Ok True (map (Request b None) ps)) (ep, ud) =
    Ok () (ep\<lparr>gce_outbox := map (GhostMessage_new b None) ps\<rparr>, ud)"
proof -
  have maps: "map (Request b None) ps = map (\<lambda>(rid, p). Request b rid p) (map (Pair None) ps)"
    "map (\<lambda>(rid, p). GhostMessage_new b rid p) (map (Pair None) ps) = map (GhostMessage_new b None) ps"
    by (simp_all add: comp_def)
  have "(gce_receiver ep)\<lparr>rcv_incoming := []\<rparr> = gce_receiver ep" using assms by (simp add: ready_open open_endpoint_def)
  then show ?thesis
    using assms endpoint_process_requests[of "ge_now env" "deliver (map (Request b None) ps) ep" b "map (Pair None) ps" rid_msg call ud] maps
    by (simp add: child_process_def ready_def idle_endpoint_def deliver_def)
qed

lemma node_transport_receives:
  assumes l: "link (gw_inner_transport (nd_gateway n)) (nd_transport_seen n) (tm_endpoint_self (nd_transport n)) bt [] []"
    and un: "unexpired (ge_now (ne_gateway env)) ([] :: (RequestId \<times> GwTransportCallback GhostTrackerEntry) list)"
    and quiet: "discover_quiet (ne_transport env) (nd_transport n)" and my: "maybe_my_address (nd_transport n) = Some b"
    and sb: "get_server b net = Some (contacted a [p] sb)" "idle_server sb"
    and a: "a \<noteq> b" "a \<notin> set (connections (nd_transport n))" "get_server a net = Some sa" "this_uri sa = a" "\<not> is_connected_to sa b"
    and handled: "for_each (\<lambda>msg g. map_err (via_transport (ne_gateway env)) (handle_transport_RequestToParent (ne_gateway env) msg g))
      (map (GhostMessage_new (tm_bt (ne_transport env)) None) [IncomingConnection a, ReceivedData a p]) (nd_gateway n) = Ok () g1"
  obtains n' net' where "node_transport env (n, net) = Ok () (n', net')" "nd_gateway n' = g1"
    "nd_dht n' = nd_dht n" "nd_encoding n' = nd_encoding n" "nd_dht_seen n' = nd_dht_seen n" "nd_encoding_seen n' = nd_encoding_seen n"
proof -
  let ?e = "ne_gateway env" and ?g = "nd_gateway n" and ?tm = "nd_transport n"
  obtain i te where i: "gw_inner_transport ?g = Detach (Some i)" "ready ?e i" "tm_endpoint_self ?tm = Detach (Some te)"
      "resting te" "drop (nd_transport_seen n) (snd_sent (gce_sender i)) = []"
    using link_ready[OF l un] by (simp add: requests_def) metis
  have seen: "nd_transport_seen n = length (snd_sent (gce_sender i))" using l i(1,5) by (auto simp: link_def)
  have calm: "transport_calm (ne_transport env) b te (?tm, net)"
    using i(3) resting_idle[OF i(4)] quiet my by (simp add: transport_calm_def)
  let ?ms = "map (Request (tm_bt (ne_transport env)) None) [IncomingConnection a, ReceivedData a p]"
  obtain tm' net' where run: "run_transport env ?g (n, net) = (Ok True ?ms, tm', net')"
    using run_transport_receive[OF calm sb a] by (auto simp: run_transport_def i(1) seen)
  have same: "?g\<lparr>gw_inner_transport := Detach (Some i)\<rparr> = ?g" using i(1) by (cases ?g) simp
  have "i\<lparr>gce_outbox := []\<rparr> = i" using i(2) by (simp add: ready_def idle_endpoint_def)
  then have "gw_process_transport ?e (quiet_children\<lparr>gc_transport := Ok True ?ms\<rparr>) ?g = Ok () g1"
    using handled
    by (simp add: gw_process_transport_def detach_run_attached i(1) child_forwards_all[OF i(2)] gw_drain_def detach_deref_mut_def drain_messages_def same
        del: list.map for_each.simps)
  moreover define n' where "n' = n\<lparr>nd_transport := tm', nd_transport_seen := length (snd_sent (gce_sender i)), nd_gateway := g1\<rparr>"
  ultimately have phase: "node_transport env (n, net) = Ok () (n', net')"
    using run by (simp add: node_transport_def node_gateway_def i(1))
  then show thesis by (intro that[OF phase]) (simp_all add: n'_def)
qed

section \<open>A node between two processes\<close>

text \<open>
  A node bound to \<open>a\<close>, whose gateway waits for the transport to answer \<open>tes\<close> (requests \<open>tqs\<close>) and for the encoder to answer \<open>ees\<close>
  (requests \<open>eqs\<close>); \<open>s\<close> is the endpoint to its owner.
\<close>

definition node_at ::
  "Lib3hUri \<Rightarrow> Backtwrap \<Rightarrow> GwSelfCallback GatewaySelfEndpoint \<Rightarrow>
   (RequestId \<times> GwTransportCallback GhostTrackerEntry) list \<Rightarrow> (RequestId \<times> RequestToChild) list \<Rightarrow>
   (RequestId \<times> GwEncodingCallback GhostTrackerEntry) list \<Rightarrow> (RequestId \<times> EncodingRequestToChild) list \<Rightarrow> node \<Rightarrow> bool" where
  "node_at a bt s tes tqs ees eqs n \<longleftrightarrow> gw_endpoint_self (nd_gateway n) = Detach (Some s)
     \<and> link (gw_inner_transport (nd_gateway n)) (nd_transport_seen n) (tm_endpoint_self (nd_transport n)) bt tes tqs
     \<and> link (gw_message_encoding (nd_gateway n)) (nd_encoding_seen n) (me_endpoint_self (nd_encoding n)) bt ees eqs
     \<and> link (gw_inner_dht (nd_gateway n)) (nd_dht_seen n) (endpoint_self (nd_dht n)) bt [] []
     \<and> pending_send_queue (nd_gateway n) = [] \<and> maybe_my_address (nd_transport n) = Some a"

lemma unexpired_Nil [simp]: "unexpired now [] \<longleftrightarrow> now + DEFAULT_TIMEOUT \<le> TIME_MAX"
  by (simp add: unexpired_def)

lemma unexpired_one [simp]: "unexpired now [(rid, entry)] \<longleftrightarrow> now \<le> gte_expires entry \<and> now + DEFAULT_TIMEOUT \<le> TIME_MAX"
  by (simp add: unexpired_def)

lemma no_pending_sends:
  "pending_send_queue (nd_gateway n) = [] \<Longrightarrow> node_gateway (process_transport_pending_sends env) (n, net) = Ok () (n, net)"
  by (cases "nd_gateway n") (simp add: node_gateway_def process_transport_pending_sends_def)

definition process_rest :: "node_env \<Rightarrow> node_state \<Rightarrow> WorkWasDone node_result" where
  "process_rest env st =
     bind_ok (node_gateway (process_transport_pending_sends (ne_gateway env)) st) (\<lambda>_ st.
     bind_ok (node_dht env st) (\<lambda>_. Ok True))"

lemma node_process_rest:
  "node_process env st = bind_ok (node_gateway (gw_process_owner (ne_gateway env)) st) (\<lambda>_ st.
     bind_ok (node_transport env st) (\<lambda>_ st. bind_ok (node_encoding env st) (\<lambda>_. process_rest env)))"
  by (simp add: node_process_def process_rest_def[abs_def])

lemma node_rests:
  assumes "node_at a bt s tes tqs ees eqs n" and "env_fit env n" and "ge_bt (ne_gateway env) = bt"
  obtains n' where "process_rest env (n, net) = Ok True (n', net)" "node_at a bt s tes tqs ees eqs n'" "kept n n'"
    "nd_transport n' = nd_transport n"
proof -
  have un: "unexpired (ge_now (ne_gateway env)) ([] :: (RequestId \<times> GwDhtCallback GhostTrackerEntry) list)" and quiet: "dht_quiet (ne_dht_tick env) (nd_dht n)"
    and l: "link (gw_inner_dht (nd_gateway n)) (nd_dht_seen n) (endpoint_self (nd_dht n)) (ge_bt (ne_gateway env)) [] []"
    using assms by (simp_all add: env_fit_def node_at_def)
  have cbs: "run_callbacks (gw_dht_callback (ne_gateway env)) (zip (map (\<lambda>p. gte_cb (snd p)) []) (map (\<lambda>(_, m). Inr (the (dht_reply (nd_dht n) m))) []))
      ((nd_gateway n)\<lparr>gw_draws := Suc (gw_draws (nd_gateway n)), gw_inner_dht := Detach None\<rparr>) =
      Ok () ((nd_gateway n)\<lparr>gw_draws := Suc (gw_draws (nd_gateway n)), gw_inner_dht := Detach None\<rparr>)" by simp
  obtain n' d where n': "node_dht env (n, net) = Ok () (n', net)"
    "link (gw_inner_dht (nd_gateway n')) (nd_dht_seen n') (endpoint_self (nd_dht n')) (ge_bt (ne_gateway env)) [] []"
    "nd_gateway n' = (nd_gateway n)\<lparr>gw_draws := Suc (gw_draws (nd_gateway n)), gw_inner_dht := Detach None,
      gw_this_peer := this_peer (nd_dht n), gw_inner_dht := Detach (Some d)\<rparr>"
    "nd_encoding n' = nd_encoding n" "nd_transport n' = nd_transport n" "nd_encoding_seen n' = nd_encoding_seen n"
    "nd_transport_seen n' = nd_transport_seen n" "\<exists>ep. nd_dht n' = (nd_dht n)\<lparr>endpoint_self := ep\<rparr>"
    by (rule node_dht_answers[OF l un _ _ quiet cbs, of net]) (simp, simp, blast)
  have fields: "gw_endpoint_self (nd_gateway n') = gw_endpoint_self (nd_gateway n)" "gw_inner_transport (nd_gateway n') = gw_inner_transport (nd_gateway n)"
    "gw_message_encoding (nd_gateway n') = gw_message_encoding (nd_gateway n)" "pending_send_queue (nd_gateway n') = pending_send_queue (nd_gateway n)"
    "wrap_output_type (nd_gateway n') = wrap_output_type (nd_gateway n)" "gw_identifier (nd_gateway n') = gw_identifier (nd_gateway n)"
    by (simp_all add: n'(3))
  have "process_rest env (n, net) = Ok True (n', net)" "node_at a bt s tes tqs ees eqs n'" "kept n n'"
    using assms n'(1,2,4-8) by (simp_all add: process_rest_def no_pending_sends node_at_def kept_def fields)
  then show thesis using n'(5) by (rule that)
qed

section \<open>Sending: three processes\<close>

text \<open>The owner of a node puts messages on its queue.\<close>

definition owner_asks :: "(GatewayRequestToChild, GatewayRequestToParentResponse, Lib3hError) GhostEndpointMessage list \<Rightarrow> node \<Rightarrow> node" where
  "owner_asks ms n = n\<lparr>nd_gateway := (nd_gateway n)\<lparr>gw_endpoint_self := receive_on ms (gw_endpoint_self (nd_gateway n))\<rparr>\<rparr>"

definition server_rests :: "Lib3hUri \<Rightarrow> MemoryNet \<Rightarrow> bool" where
  "server_rests a net \<longleftrightarrow> (\<exists>sa. get_server a net = Some sa \<and> idle_server sa)"

lemma link_first:
  assumes "link p seen c (ge_bt env) [] []" and "ge_now env + DEFAULT_TIMEOUT \<le> TIME_MAX" and "p = Detach (Some ep)"
  shows "ready env ep" "gt_default_timeout (gce_tracker ep) = DEFAULT_TIMEOUT"
    "link (Detach (Some (asked (gw_req env g) m cb ep))) seen c (ge_bt env)
       [(gt_request_id_prefix (gce_tracker ep) @ ge_nanoid env (gw_draws g), asked_entry (gw_req env g) cb (gce_tracker ep))]
       [(gt_request_id_prefix (gce_tracker ep) @ ge_nanoid env (gw_draws g), m)]"
  by (rule link_ask[OF assms(1), of env g m cb]; use assms(2,3) in simp)+

lemma node_dht_answers_one:
  assumes l: "link p (nd_dht_seen n) (endpoint_self (nd_dht n)) (ge_bt (ne_gateway env)) [] []" "p = Detach (Some d)"
    and now: "ge_now (ne_gateway env) + DEFAULT_TIMEOUT \<le> TIME_MAX" and inj: "inj (ge_nanoid (ne_gateway env))"
    and quiet: "dht_quiet (ne_dht_tick env) (nd_dht n)"
    and asks: "gw_inner_dht (nd_gateway n) = Detach (Some (asked (gw_req (ne_gateway env) g) m cb d))" "gw_draws g < gw_draws (nd_gateway n)"
    and reply: "dht_reply (nd_dht n) m = Some r"
    and cbs: "gw_dht_callback (ne_gateway env) cb (CbResponse (Inr r))
        ((nd_gateway n)\<lparr>gw_draws := Suc (gw_draws (nd_gateway n)), gw_inner_dht := Detach None\<rparr>) = Ok () g1"
  obtains n' d' where "node_dht env (n, net) = Ok () (n', net)"
    "link (gw_inner_dht (nd_gateway n')) (nd_dht_seen n') (endpoint_self (nd_dht n')) (ge_bt (ne_gateway env)) [] []"
    "nd_gateway n' = g1\<lparr>gw_this_peer := this_peer (nd_dht n), gw_inner_dht := Detach (Some d')\<rparr>"
    "nd_encoding n' = nd_encoding n" "nd_transport n' = nd_transport n" "nd_encoding_seen n' = nd_encoding_seen n"
    "nd_transport_seen n' = nd_transport_seen n" "\<exists>ep. nd_dht n' = (nd_dht n)\<lparr>endpoint_self := ep\<rparr>"
proof -
  let ?e = "ne_gateway env" and ?g = "nd_gateway n"
  let ?r = "gt_request_id_prefix (gce_tracker d) @ ge_nanoid ?e (gw_draws g)" and ?entry = "asked_entry (gw_req ?e g) cb (gce_tracker d)"
  have l1: "link (gw_inner_dht ?g) (nd_dht_seen n) (endpoint_self (nd_dht n)) (ge_bt ?e) [(?r, ?entry)] [(?r, m)]"
    using link_first(3)[OF l(1) now l(2)] by (simp add: asks(1))
  have un: "unexpired (ge_now ?e) [(?r, ?entry)]" using now by (simp add: gw_req_def)
  have fresh: "\<And>ep. gw_inner_dht ?g = Detach (Some ep) \<Longrightarrow> gt_request_id_prefix (gce_tracker ep) @ ge_nanoid ?e (gw_draws ?g) \<notin> fst ` set [(?r, ?entry)]"
    using inj asks by (auto dest: injD)
  have known: "list_all (\<lambda>(rid, m). dht_reply (nd_dht n) m \<noteq> None) [(?r, m)]" using reply by simp
  have one: "run_callbacks (gw_dht_callback ?e) (zip (map (\<lambda>p. gte_cb (snd p)) [(?r, ?entry)]) (map (\<lambda>(_, m). Inr (the (dht_reply (nd_dht n) m))) [(?r, m)]))
      (?g\<lparr>gw_draws := Suc (gw_draws ?g), gw_inner_dht := Detach None\<rparr>) = Ok () g1"
    using reply cbs by simp
  show thesis by (rule node_dht_answers[OF l1 un fresh known quiet one, of net]) (assumption, rule that)
qed

text \<open>
  The owner's request, and the question to the DHT it leads to.
\<close>

lemma owner_phase_asks:
  assumes self: "gw_endpoint_self (nd_gateway n) = Detach (Some s)" "resting s" and d: "gw_inner_dht (nd_gateway n) = Detach (Some d)" "ready (ne_gateway env) d"
    and "ge_now (ne_gateway env) + SEND_RETRY_TIMEOUT_MS \<le> TIME_MAX"
    and "cb = SendToResolved (SendWithPartialHighUri uri payload) (ge_now (ne_gateway env)) (ge_now (ne_gateway env) + SEND_RETRY_TIMEOUT_MS)
      (RespondSendMessage ((GhostMessage_new b (Some rid) (TransportToChild (SendMessage uri payload)))\<lparr>gm_message := None\<rparr>))"
  shows "node_gateway (gw_process_owner (ne_gateway env)) (owner_asks [Request b (Some rid) (TransportToChild (SendMessage uri payload))] n, net) =
    Ok () (n\<lparr>nd_gateway := (nd_gateway n)\<lparr>gw_inner_dht := Detach (Some (asked (gw_req (ne_gateway env) (nd_gateway n)) (RequestPeer uri) cb d)),
      gw_draws := Suc (gw_draws (nd_gateway n))\<rparr>\<rparr>, net)"
proof -
  let ?g = "nd_gateway n" and ?s = "deliver [Request b (Some rid) (TransportToChild (SendMessage uri payload))] s"
  have "s\<lparr>gce_receiver := (gce_receiver s)\<lparr>rcv_incoming := []\<rparr>\<rparr> = s" "?g\<lparr>gw_endpoint_self := Detach (Some s)\<rparr> = ?g"
    using self by (simp_all add: resting_def open_endpoint_def)
  then have "gw_process_owner (ne_gateway env) (?g\<lparr>gw_endpoint_self := Detach (Some ?s)\<rparr>) =
      Ok () (?g\<lparr>gw_inner_dht := Detach (Some (asked (gw_req (ne_gateway env) ?g) (RequestPeer uri) cb d)), gw_draws := Suc (gw_draws ?g)\<rparr>)"
    using owner_send_asks[where s = ?s and g = "?g\<lparr>gw_endpoint_self := Detach (Some ?s)\<rparr>" and d = d and ?g0.0 = ?g
        and env = "ne_gateway env" and b = b and rid = rid and uri = uri and payload = payload and cb = cb] assms
    by (simp add: resting_def open_endpoint_def deliver_def gt_expired_def)
  then show ?thesis by (simp add: owner_asks_def node_gateway_def self(1))
qed

lemma process_asks:
  assumes at: "node_at a bt s [] [] [] [] n" and s: "resting s" and fit: "env_fit env n" and bt: "ge_bt (ne_gateway env) = bt"
    and net: "server_rests a net" and peer: "get_peer (nd_dht n) uri = Some peer"
  obtains n' r entry where "node_process env (owner_asks [Request b (Some rid) (TransportToChild (SendMessage uri payload))] n, net) = Ok True (n', net)"
    "node_at a bt s [] [] [(r, entry)] [(r, EncodePayload payload)] n'" "kept n n'" "connections (nd_transport n') = connections (nd_transport n)"
    "gte_cb entry = SendEncoded (SendWithFullLowUri (high_uri (ne_gateway env) peer) payload) (ge_now (ne_gateway env))
       (ge_now (ne_gateway env) + SEND_RETRY_TIMEOUT_MS) (RespondSendMessage ((GhostMessage_new b (Some rid) (TransportToChild (SendMessage uri payload)))\<lparr>gm_message := None\<rparr>))"
    "gte_expires entry = ge_now (ne_gateway env) + DEFAULT_TIMEOUT"
proof -
  let ?e = "ne_gateway env" and ?g = "nd_gateway n" and ?m = "Request b (Some rid) (TransportToChild (SendMessage uri payload))"
  let ?t = "ge_now ?e" and ?x = "ge_now ?e + SEND_RETRY_TIMEOUT_MS"
  let ?cb = "RespondSendMessage ((GhostMessage_new b (Some rid) (TransportToChild (SendMessage uri payload)))\<lparr>gm_message := None\<rparr>)"
  have now: "?t + DEFAULT_TIMEOUT \<le> TIME_MAX" "?x \<le> TIME_MAX" and inj: "inj (ge_nanoid ?e)" and quiet: "discover_quiet (ne_transport env) (nd_transport n)"
    "dht_quiet (ne_dht_tick env) (nd_dht n)" using fit by (simp_all add: env_fit_def)
  have self: "gw_endpoint_self ?g = Detach (Some s)" and q: "pending_send_queue ?g = []" and my: "maybe_my_address (nd_transport n) = Some a"
    and lt: "link (gw_inner_transport ?g) (nd_transport_seen n) (tm_endpoint_self (nd_transport n)) (ge_bt ?e) [] []"
    and le: "link (gw_message_encoding ?g) (nd_encoding_seen n) (me_endpoint_self (nd_encoding n)) (ge_bt ?e) [] []"
    and ld: "link (gw_inner_dht ?g) (nd_dht_seen n) (endpoint_self (nd_dht n)) (ge_bt ?e) [] []"
    using at bt by (simp_all add: node_at_def)
  obtain d where d: "gw_inner_dht ?g = Detach (Some d)" using ld by (auto simp: link_def)
  obtain ec where ec: "gw_message_encoding ?g = Detach (Some ec)" using le by (auto simp: link_def)
  obtain sa where sa: "get_server a net = Some sa" "idle_server sa" using net by (auto simp: server_rests_def)
  let ?dcb = "SendToResolved (SendWithPartialHighUri uri payload) ?t ?x ?cb" and ?enc = "SendEncoded (SendWithFullLowUri (high_uri ?e peer) payload) ?t ?x ?cb"
  define g1 where "g1 = ?g\<lparr>gw_inner_dht := Detach (Some (asked (gw_req ?e ?g) (RequestPeer uri) ?dcb d)), gw_draws := Suc (gw_draws ?g)\<rparr>"
  define n1 where "n1 = n\<lparr>nd_gateway := g1\<rparr>"
  have owner: "node_gateway (gw_process_owner ?e) (owner_asks [?m] n, net) = Ok () (n1, net)"
    using owner_phase_asks[OF self s d link_first(1)[OF ld now(1) d] now(2) refl] by (simp add: n1_def g1_def)
  have transport: "node_transport env (n1, net) = Ok () (n1, net)"
    by (rule node_transport_rest[OF _ _ _ _ sa]) (use lt now quiet my in \<open>simp_all add: n1_def g1_def\<close>)
  have encoding: "node_encoding env (n1, net) = Ok () (n1, net)"
    by (rule node_encoding_rest) (use le now in \<open>simp_all add: n1_def g1_def\<close>)
  have queue: "pending_send_queue (nd_gateway n1) = []" using q by (simp add: n1_def g1_def)
  define h where "h = (nd_gateway n1)\<lparr>gw_draws := Suc (gw_draws (nd_gateway n1)), gw_inner_dht := Detach None\<rparr>"
  define g2 where "g2 = h\<lparr>gw_message_encoding := Detach (Some (asked (gw_req ?e h) (EncodePayload payload) ?enc ec)), gw_draws := Suc (gw_draws h)\<rparr>"
  note ea = link_first(1,2)[OF le now(1) ec] link_first(3)[OF le now(1) ec, of h "EncodePayload payload" ?enc]
  have cb: "gw_dht_callback ?e ?dcb (CbResponse (Inr (PeerResponse (Some peer)))) h = Ok () g2"
    using gw_request_ready(2)[OF ea(1), of h "EncodePayload payload" ?enc] ec
    by (simp add: priv_send_with_full_low_uri_def priv_send_with_full_low_uri_encode_def g2_def h_def n1_def g1_def)
  obtain n' d' where n': "node_dht env (n1, net) = Ok () (n', net)"
    "link (gw_inner_dht (nd_gateway n')) (nd_dht_seen n') (endpoint_self (nd_dht n')) (ge_bt ?e) [] []"
    "nd_gateway n' = g2\<lparr>gw_this_peer := this_peer (nd_dht n1), gw_inner_dht := Detach (Some d')\<rparr>"
    "nd_encoding n' = nd_encoding n1" "nd_transport n' = nd_transport n1" "nd_encoding_seen n' = nd_encoding_seen n1"
    "nd_transport_seen n' = nd_transport_seen n1" "\<exists>ep. nd_dht n' = (nd_dht n1)\<lparr>endpoint_self := ep\<rparr>"
    by (rule node_dht_answers_one[where n = n1 and net = net and p = "gw_inner_dht ?g" and d = d and env = env and g = ?g, OF _ d now(1) inj _ _ _ _ cb[unfolded h_def]])
      (use ld quiet(2) peer in \<open>simp add: n1_def, simp add: n1_def, simp add: n1_def g1_def, simp add: n1_def g1_def, simp add: n1_def, blast\<close>)
  have fields: "gw_endpoint_self (nd_gateway n') = gw_endpoint_self ?g" "gw_inner_transport (nd_gateway n') = gw_inner_transport ?g"
    "gw_message_encoding (nd_gateway n') = Detach (Some (asked (gw_req ?e h) (EncodePayload payload) ?enc ec))"
    "pending_send_queue (nd_gateway n') = pending_send_queue ?g"
    "wrap_output_type (nd_gateway n') = wrap_output_type ?g" "gw_identifier (nd_gateway n') = gw_identifier ?g"
    by (simp_all add: n'(3) g2_def h_def n1_def g1_def)
  let ?r = "gt_request_id_prefix (gce_tracker ec) @ ge_nanoid ?e (gw_draws h)" and ?entry = "asked_entry (gw_req ?e h) ?enc (gce_tracker ec)"
  have "node_at a bt s [] [] [(?r, ?entry)] [(?r, EncodePayload payload)] n'"
    using bt self lt q my ea(3) n'(2) by (simp add: node_at_def fields n'(4-7)) (simp add: n1_def)
  moreover have "kept n n'" using n'(5,8) by (simp add: kept_def fields) (simp add: n1_def)
  ultimately show thesis
    by (intro that[of n' ?r ?entry]) (simp_all add: node_process_rest process_rest_def owner transport encoding no_pending_sends[OF queue] n'(1,5), simp_all add: n1_def gw_req_def ea(2))
qed

lemma process_encodes:
  assumes at: "node_at a bt s [] [] [(r, entry)] [(r, EncodePayload payload)] n" and s: "resting s" and fit: "env_fit env n"
    and bt: "ge_bt (ne_gateway env) = bt" and net: "server_rests a net"
    and cb: "gte_cb entry = SendEncoded sd attempted expires cb" and t: "ge_now (ne_gateway env) \<le> gte_expires entry"
    and json: "json_ser (ne_encoding env) (WirePayload payload) = Some bytes" and plain: "wrap_output_type (nd_gateway n) = DoNotWrapOutput"
  obtains n' r' entry' where "node_process env (n, net) = Ok True (n', net)"
    "node_at a bt s [(r', entry')] [(r', SendMessage (clear_agent_id (ge_url (ne_gateway env)) (full_low_uri sd)) bytes)] [] [] n'"
    "kept n n'" "connections (nd_transport n') = connections (nd_transport n)"
    "gte_cb entry' = FinishSend sd attempted expires cb" "gte_expires entry' = ge_now (ne_gateway env) + DEFAULT_TIMEOUT"
proof -
  let ?e = "ne_gateway env" and ?g = "nd_gateway n" and ?u = "clear_agent_id (ge_url (ne_gateway env)) (full_low_uri sd)"
  have now: "ge_now ?e + DEFAULT_TIMEOUT \<le> TIME_MAX" and quiet: "discover_quiet (ne_transport env) (nd_transport n)" using fit by (simp_all add: env_fit_def)
  have self: "gw_endpoint_self ?g = Detach (Some s)" and my: "maybe_my_address (nd_transport n) = Some a"
    and lt: "link (gw_inner_transport ?g) (nd_transport_seen n) (tm_endpoint_self (nd_transport n)) (ge_bt ?e) [] []"
    and le: "link (gw_message_encoding ?g) (nd_encoding_seen n) (me_endpoint_self (nd_encoding n)) (ge_bt ?e) [(r, entry)] [(r, EncodePayload payload)]"
    using at bt by (simp_all add: node_at_def)
  obtain i where i: "gw_inner_transport ?g = Detach (Some i)" using lt by (auto simp: link_def)
  obtain sa where sa: "get_server a net = Some sa" "idle_server sa" using net by (auto simp: server_rests_def)
  have owner: "node_gateway (gw_process_owner ?e) (n, net) = Ok () (n, net)"
    by (rule node_owner_rest[OF self]) (use resting_idle[OF s] in blast)
  have transport: "node_transport env (n, net) = Ok () (n, net)"
    by (rule node_transport_rest[OF lt _ quiet my sa]) (use now in simp)
  let ?h = "?g\<lparr>gw_message_encoding := Detach None\<rparr>" and ?tcb = "FinishSend sd attempted expires cb"
  note ta = link_first(1,2)[OF lt now i] link_first(3)[OF lt now i, of ?h "SendMessage ?u bytes" ?tcb]
  define g1 where "g1 = ?h\<lparr>gw_inner_transport := Detach (Some (asked (gw_req ?e ?h) (SendMessage ?u bytes) ?tcb i)), gw_draws := Suc (gw_draws ?h)\<rparr>"
  have cbs: "gw_encoding_callback ?e (gte_cb entry) (CbResponse (Inr (EncodePayloadResult bytes))) ?h = Ok () g1"
    using gw_request_ready(3)[OF ta(1), of ?h "SendMessage ?u bytes" ?tcb] i plain
    by (simp add: cb priv_send_with_full_low_uri_inner_def wrap_payload_def with_pure_def g1_def)
  obtain n1 e' where n1: "node_encoding env (n, net) = Ok () (n1, net)"
    "link (gw_message_encoding (nd_gateway n1)) (nd_encoding_seen n1) (me_endpoint_self (nd_encoding n1)) (ge_bt ?e) [] []"
    "nd_gateway n1 = g1\<lparr>gw_message_encoding := Detach (Some e')\<rparr>"
    "nd_dht n1 = nd_dht n" "nd_transport n1 = nd_transport n" "nd_dht_seen n1 = nd_dht_seen n" "nd_transport_seen n1 = nd_transport_seen n"
    by (rule node_encoding_answers[OF le _ _ cbs, of net]) (use t now json in \<open>simp, simp add: encoding_answer_def, blast\<close>)
  let ?r = "gt_request_id_prefix (gce_tracker i) @ ge_nanoid ?e (gw_draws ?h)" and ?entry = "asked_entry (gw_req ?e ?h) ?tcb (gce_tracker i)"
  have at1: "node_at a bt s [(?r, ?entry)] [(?r, SendMessage ?u bytes)] [] [] n1" and k1: "kept n n1"
    using at bt ta(3) n1(2) by (auto simp: node_at_def kept_def n1(3-7) g1_def intro: exI[of _ "endpoint_self (nd_dht n)"])
  obtain n' where n': "process_rest env (n1, net) = Ok True (n', net)" "node_at a bt s [(?r, ?entry)] [(?r, SendMessage ?u bytes)] [] [] n'"
    "kept n1 n'" "nd_transport n' = nd_transport n1" by (rule node_rests[OF at1 kept_env_fit[OF k1 fit] bt])
  show thesis
    by (rule that[OF _ n'(2) kept_trans[OF k1 n'(3)]])
      (simp_all add: node_process_rest owner transport n1(1,5) n'(1,4) gw_req_def ta(2))
qed

lemma process_sends:
  assumes at: "node_at a bt s [(r, entry)] [(r, SendMessage u bytes)] [] [] n" and s: "resting s" and fit: "env_fit env n"
    and bt: "ge_bt (ne_gateway env) = bt" and sa: "get_server a net = Some sa" "idle_server sa"
    and u: "u \<noteq> a" "u \<notin> set (connections (nd_transport n))" "get_server u net = Some su" "this_uri su = u" "\<not> is_connected_to su a"
    and cb: "gte_cb entry = FinishSend sd attempted expires (RespondSendMessage msg)" "gm_request_id msg = Some rid"
    and t: "ge_now (ne_gateway env) \<le> gte_expires entry"
  obtains n' where "node_process env (n, net) = Ok True (n', put_server u (contacted a [bytes] su) net)"
    "node_at a bt (append_sent [Response bt rid (Inr (TransportResponse SendMessageSuccess))] s) [] [] [] [] n'" "kept n n'"
    "connections (nd_transport n') = List.insert u (connections (nd_transport n))"
proof -
  let ?e = "ne_gateway env" and ?g = "nd_gateway n"
  let ?s = "append_sent [Response bt rid (Inr (TransportResponse SendMessageSuccess))] s"
  have now: "ge_now ?e + DEFAULT_TIMEOUT \<le> TIME_MAX" and quiet: "discover_quiet (ne_transport env) (nd_transport n)" using fit by (simp_all add: env_fit_def)
  have self: "gw_endpoint_self ?g = Detach (Some s)" "snd_error (gce_sender s) = None" and my: "maybe_my_address (nd_transport n) = Some a"
    and lt: "link (gw_inner_transport ?g) (nd_transport_seen n) (tm_endpoint_self (nd_transport n)) (ge_bt ?e) [(r, entry)] [(r, SendMessage u bytes)]"
    using at bt resting_idle[OF s] by (simp_all add: node_at_def)
  have owner: "node_gateway (gw_process_owner ?e) (n, net) = Ok () (n, net)"
    by (rule node_owner_rest[OF self(1)]) (use resting_idle[OF s] in blast)
  let ?h = "?g\<lparr>gw_inner_transport := Detach None\<rparr>"
  have cbs: "gw_transport_callback ?e (gte_cb entry) (CbResponse (Inr SendMessageSuccess)) ?h = Ok () (?h\<lparr>gw_endpoint_self := Detach (Some ?s)\<rparr>)"
    using gw_respond_open[of ?h s msg rid ?e] self cb(2) bt by (simp add: cb(1))
  obtain n1 i where n1: "node_transport env (n, net) = Ok () (n1, put_server u (contacted a [bytes] su) net)"
    "link (gw_inner_transport (nd_gateway n1)) (nd_transport_seen n1) (tm_endpoint_self (nd_transport n1)) (ge_bt ?e) [] []"
    "nd_gateway n1 = ?h\<lparr>gw_endpoint_self := Detach (Some ?s), gw_inner_transport := Detach (Some i)\<rparr>"
    "nd_dht n1 = nd_dht n" "nd_encoding n1 = nd_encoding n" "nd_dht_seen n1 = nd_dht_seen n" "nd_encoding_seen n1 = nd_encoding_seen n"
    "\<exists>ep. nd_transport n1 = (nd_transport n)\<lparr>connections := List.insert u (connections (nd_transport n)), tm_endpoint_self := ep\<rparr>"
    by (rule node_transport_sends[OF lt _ quiet my sa u cbs]) (use t now in \<open>simp, blast\<close>)
  have at1: "node_at a bt ?s [] [] [] [] n1" and k1: "kept n n1" and c1: "connections (nd_transport n1) = List.insert u (connections (nd_transport n))"
    using at bt n1(2,8) by (auto simp: node_at_def kept_def n1(3-7) intro: exI[of _ "endpoint_self (nd_dht n)"])
  have encoding: "node_encoding env (n1, net') = Ok () (n1, net')" for net'
    by (rule node_encoding_rest[where b = bt]) (use at1 now in \<open>simp_all add: node_at_def\<close>)
  obtain n' where n': "process_rest env (n1, put_server u (contacted a [bytes] su) net) = Ok True (n', put_server u (contacted a [bytes] su) net)"
    "node_at a bt ?s [] [] [] [] n'" "kept n1 n'" "nd_transport n' = nd_transport n1" by (rule node_rests[OF at1 kept_env_fit[OF k1 fit] bt])
  show thesis
    by (rule that[OF _ n'(2) kept_trans[OF k1 n'(3)]]) (simp_all add: node_process_rest owner encoding n1(1) n'(1,4) c1)
qed

section \<open>Receiving: one process\<close>

text \<open>The messages between nodes that a gateway passes on to its owner.\<close>

fun for_owner :: "P2pProtocol \<Rightarrow> bool" where
  "for_owner (PeerName _ _ _) = False"
| "for_owner (CapnProtoMessage _) = False"
| "for_owner _ = True"

lemma owner_publish_open:
  "gw_endpoint_self g = Detach (Some s) \<Longrightarrow> snd_error (gce_sender s) = None \<Longrightarrow> gw_owner_publish env p g =
     Ok () (g\<lparr>gw_endpoint_self := Detach (Some (append_sent [Request (ge_bt env) None p] s))\<rparr>)"
  by (simp add: gw_owner_publish_def detach_deref_mut_def publish_open)

lemma receive_for_owner:
  assumes "P2pProtocol_from_bytes (ge_wire env) payload = Inr msg" and "for_owner msg" and "rmp_ser (ge_wire env) msg = Some payload'"
    and "gw_endpoint_self g = Detach (Some s)" and "snd_error (gce_sender s) = None"
  shows "priv_on_receive env a payload g =
    Ok () (g\<lparr>gw_endpoint_self := Detach (Some (append_sent [Request (ge_bt env) None (TransportToParent (ReceivedData a payload'))] s))\<rparr>)"
  using assms by (cases msg) (simp_all add: priv_on_receive_def P2pProtocol_to_bytes_def with_pure_def owner_publish_open)

text \<open>
  Both reports of the transport, the new connection and the data, become requests of the gateway.
\<close>

lemma transport_reports:
  assumes d: "gw_inner_dht g = Detach (Some d)" "ready env d" and e: "gw_message_encoding g = Detach (Some e)" "ready env e" and "bytes \<noteq> []"
  shows "for_each (\<lambda>msg g. map_err (via_transport env) (handle_transport_RequestToParent env msg g))
      (map (GhostMessage_new b None) [IncomingConnection a, ReceivedData a bytes]) g =
    Ok () (g\<lparr>gw_inner_dht := Detach (Some (asked (gw_req env g) RequestThisPeer (GreetConnection a) d)),
        gw_message_encoding := Detach (Some (asked (gw_req env (g\<lparr>gw_draws := Suc (gw_draws g)\<rparr>)) (Decode bytes) (ReceiveDecoded a) e)),
        gw_draws := Suc (Suc (gw_draws g))\<rparr>)"
  using assms gw_request_ready(1)[OF d(2,1), of RequestThisPeer "GreetConnection a"]
    gw_request_ready(2)[OF e(2), of "g\<lparr>gw_inner_dht := Detach (Some (asked (gw_req env g) RequestThisPeer (GreetConnection a) d)), gw_draws := Suc (gw_draws g)\<rparr>"
      "Decode bytes" "ReceiveDecoded a"]
  by (simp add: GhostMessage_new_def handle_transport_RequestToParent_def take_message_def handle_incoming_connection_def priv_decode_on_receive_def
      gw_req_def)

lemma greets:
  assumes "gw_endpoint_self g = Detach (Some s)" and "snd_error (gce_sender s) = None" and e: "gw_message_encoding g = Detach (Some e)" "ready env e"
    and "rmp_ser (ge_wire env) (PeerName (gateway_id (gw_identifier g)) (peer_name me) (timestamp me)) = Some greeting"
    and "ge_now env + SEND_RETRY_TIMEOUT_MS \<le> TIME_MAX"
  obtains e' where "greet_connection env a me g = Ok () (g\<lparr>gw_endpoint_self := Detach (Some (append_sent
        [Request (ge_bt env) None (TransportToParent (IncomingConnection (peer_name me)))] s)),
      gw_message_encoding := Detach (Some e'), gw_draws := Suc (gw_draws g)\<rparr>)"
proof -
  let ?s = "append_sent [Request (ge_bt env) None (TransportToParent (IncomingConnection (peer_name me)))] s"
  let ?g = "g\<lparr>gw_endpoint_self := Detach (Some ?s)\<rparr>"
  let ?cb = "SendEncoded (SendWithFullLowUri a greeting) (ge_now env) (ge_now env + SEND_RETRY_TIMEOUT_MS) IgnoreResult"
  show thesis
    using assms gw_request_ready(2)[OF e(2), of ?g "EncodePayload greeting" ?cb]
    by (intro that[of "asked (gw_req env ?g) (EncodePayload greeting) ?cb e"])
      (simp add: greet_connection_def owner_publish_open P2pProtocol_to_bytes_def with_pure_def send_with_full_low_uri_def send_expiry_def
        checked_add_time_def priv_send_with_full_low_uri_def priv_send_with_full_low_uri_encode_def)
qed

text \<open>
  The transport's reports reach the encoder and, decoded, the owner, while the question to the DHT still waits.
\<close>

lemma phases_receive:
  assumes at: "node_at b (ge_bt (ne_gateway env)) s [] [] [] [] n" and s: "resting s" and fit: "env_fit env n"
    and sb: "get_server b net = Some (contacted a [bytes] sb)" "idle_server sb"
    and a: "a \<noteq> b" "a \<notin> set (connections (nd_transport n))" "get_server a net = Some sa" "this_uri sa = a" "\<not> is_connected_to sa b"
    and bytes: "bytes \<noteq> []" "json_de (ne_encoding env) bytes = Inr (WirePayload payload)" "payload \<noteq> []"
    and wire: "P2pProtocol_from_bytes (ge_wire (ne_gateway env)) payload = Inr msg" "for_owner msg" "rmp_ser (ge_wire (ne_gateway env)) msg = Some payload'"
    and d: "gw_inner_dht (nd_gateway n) = Detach (Some d)"
  obtains n' e net' where "bind_ok (node_transport env (n, net)) (\<lambda>_. node_encoding env) = Ok () (n', net')" "ready (ne_gateway env) e"
    "nd_gateway n' = (nd_gateway n)\<lparr>gw_inner_dht := Detach (Some (asked (gw_req (ne_gateway env) (nd_gateway n)) RequestThisPeer (GreetConnection a) d)),
        gw_draws := Suc (Suc (gw_draws (nd_gateway n))), gw_message_encoding := Detach (Some e),
        gw_endpoint_self := Detach (Some (append_sent [Request (ge_bt (ne_gateway env)) None (TransportToParent (ReceivedData a payload'))] s))\<rparr>"
    "nd_dht n' = nd_dht n" "nd_dht_seen n' = nd_dht_seen n"
proof -
  let ?e = "ne_gateway env" and ?g = "nd_gateway n" and ?b = "ge_bt (ne_gateway env)"
  have now: "ge_now ?e + DEFAULT_TIMEOUT \<le> TIME_MAX" and quiet: "discover_quiet (ne_transport env) (nd_transport n)" using fit by (simp_all add: env_fit_def)
  have self: "gw_endpoint_self ?g = Detach (Some s)" "snd_error (gce_sender s) = None" and my: "maybe_my_address (nd_transport n) = Some b"
    and lt: "link (gw_inner_transport ?g) (nd_transport_seen n) (tm_endpoint_self (nd_transport n)) ?b [] []"
    and le: "link (gw_message_encoding ?g) (nd_encoding_seen n) (me_endpoint_self (nd_encoding n)) ?b [] []"
    and ld: "link (gw_inner_dht ?g) (nd_dht_seen n) (endpoint_self (nd_dht n)) ?b [] []"
    using at resting_idle[OF s] by (simp_all add: node_at_def)
  obtain e where e: "gw_message_encoding ?g = Detach (Some e)" using le by (auto simp: link_def)
  let ?h = "?g\<lparr>gw_draws := Suc (gw_draws ?g)\<rparr>"
  note ea = link_first(1)[OF le now e] link_first(3)[OF le now e, of ?h "Decode bytes" "ReceiveDecoded a"]
  define g1 where "g1 = ?g\<lparr>gw_inner_dht := Detach (Some (asked (gw_req ?e ?g) RequestThisPeer (GreetConnection a) d)),
        gw_message_encoding := Detach (Some (asked (gw_req ?e ?h) (Decode bytes) (ReceiveDecoded a) e)), gw_draws := Suc (Suc (gw_draws ?g))\<rparr>"
  have reports: "for_each (\<lambda>msg g. map_err (via_transport ?e) (handle_transport_RequestToParent ?e msg g))
      (map (GhostMessage_new (tm_bt (ne_transport env)) None) [IncomingConnection a, ReceivedData a bytes]) ?g = Ok () g1"
    unfolding g1_def by (rule transport_reports[OF d link_first(1)[OF ld now d] e ea(1) bytes(1)])
  obtain n1 net1 where n1: "node_transport env (n, net) = Ok () (n1, net1)" "nd_gateway n1 = g1"
    "nd_dht n1 = nd_dht n" "nd_encoding n1 = nd_encoding n" "nd_dht_seen n1 = nd_dht_seen n" "nd_encoding_seen n1 = nd_encoding_seen n"
    by (rule node_transport_receives[OF lt _ quiet my sb a reports]) (use now in \<open>simp, blast\<close>)
  let ?eh = "g1\<lparr>gw_message_encoding := Detach None\<rparr>" and ?s1 = "append_sent [Request ?b None (TransportToParent (ReceivedData a payload'))] s"
  let ?re = "gt_request_id_prefix (gce_tracker e) @ ge_nanoid ?e (gw_draws ?h)" and ?ee = "asked_entry (gw_req ?e ?h) (ReceiveDecoded a) (gce_tracker e)"
  have le1: "link (gw_message_encoding (nd_gateway n1)) (nd_encoding_seen n1) (me_endpoint_self (nd_encoding n1)) ?b [(?re, ?ee)] [(?re, Decode bytes)]"
    using ea(2) by (simp add: n1(2,4,6) g1_def)
  have cb1: "gw_encoding_callback ?e (gte_cb ?ee) (CbResponse (Inr (DecodeResult (Payload payload)))) ((nd_gateway n1)\<lparr>gw_message_encoding := Detach None\<rparr>) =
      Ok () (?eh\<lparr>gw_endpoint_self := Detach (Some ?s1)\<rparr>)"
    using receive_for_owner[OF wire, of ?eh s a] self bytes(3) by (simp add: n1(2) g1_def)
  obtain n2 e2 where n2: "node_encoding env (n1, net1) = Ok () (n2, net1)"
    "link (gw_message_encoding (nd_gateway n2)) (nd_encoding_seen n2) (me_endpoint_self (nd_encoding n2)) ?b [] []"
    "nd_gateway n2 = ?eh\<lparr>gw_endpoint_self := Detach (Some ?s1), gw_message_encoding := Detach (Some e2)\<rparr>"
    "nd_dht n2 = nd_dht n1" "nd_dht_seen n2 = nd_dht_seen n1"
    by (rule node_encoding_answers[OF le1 _ _ cb1, of net1]) (use now bytes(2) in \<open>simp add: gw_req_def, simp add: encoding_answer_def, blast\<close>)
  have "link (Detach (Some e2)) (nd_encoding_seen n2) (me_endpoint_self (nd_encoding n2)) ?b [] []" using n2(2,3) by simp
  then have "ready ?e e2" by (rule link_parent(1)) (use now in simp)
  then show thesis by (intro that[of n2 net1 e2]) (simp_all add: n1 n2(1,3-5) g1_def)
qed

lemma process_receives:
  assumes at: "node_at b bt s [] [] [] [] n" and s: "resting s" and fit: "env_fit env n" and bt: "ge_bt (ne_gateway env) = bt"
    and sb: "get_server b net = Some (contacted a [bytes] sb)" "idle_server sb"
    and a: "a \<noteq> b" "a \<notin> set (connections (nd_transport n))" "get_server a net = Some sa" "this_uri sa = a" "\<not> is_connected_to sa b"
    and bytes: "bytes \<noteq> []" "json_de (ne_encoding env) bytes = Inr (WirePayload payload)" "payload \<noteq> []"
    and wire: "P2pProtocol_from_bytes (ge_wire (ne_gateway env)) payload = Inr msg" "for_owner msg" "rmp_ser (ge_wire (ne_gateway env)) msg = Some payload'"
    and greeting: "rmp_ser (ge_wire (ne_gateway env)) (PeerName (gateway_id (gw_identifier (nd_gateway n)))
      (peer_name (this_peer (nd_dht n))) (timestamp (this_peer (nd_dht n)))) = Some greeting"
  shows "\<exists>n' net'. node_process env (n, net) = Ok True (n', net') \<and> gw_endpoint_self (nd_gateway n') = Detach (Some (append_sent
    [Request bt None (TransportToParent (ReceivedData a payload')),
     Request bt None (TransportToParent (IncomingConnection (peer_name (this_peer (nd_dht n)))))] s))"
proof -
  let ?e = "ne_gateway env" and ?g = "nd_gateway n" and ?me = "this_peer (nd_dht n)" and ?b = "ge_bt (ne_gateway env)"
  have now: "ge_now ?e + DEFAULT_TIMEOUT \<le> TIME_MAX" "ge_now ?e + SEND_RETRY_TIMEOUT_MS \<le> TIME_MAX" and inj: "inj (ge_nanoid ?e)"
    and quiet: "dht_quiet (ne_dht_tick env) (nd_dht n)" using fit by (simp_all add: env_fit_def)
  have self: "gw_endpoint_self ?g = Detach (Some s)" "snd_error (gce_sender s) = None" and q: "pending_send_queue ?g = []"
    and ld: "link (gw_inner_dht ?g) (nd_dht_seen n) (endpoint_self (nd_dht n)) ?b [] []"
    using at bt resting_idle[OF s] by (simp_all add: node_at_def)
  obtain d where d: "gw_inner_dht ?g = Detach (Some d)" using ld by (auto simp: link_def)
  have owner: "node_gateway (gw_process_owner ?e) (n, net) = Ok () (n, net)"
    by (rule node_owner_rest[OF self(1)]) (use resting_idle[OF s] in blast)
  let ?s1 = "append_sent [Request ?b None (TransportToParent (ReceivedData a payload'))] s"
  obtain n2 e net1 where n2: "bind_ok (node_transport env (n, net)) (\<lambda>_. node_encoding env) = Ok () (n2, net1)" "ready ?e e"
    "nd_gateway n2 = ?g\<lparr>gw_inner_dht := Detach (Some (asked (gw_req ?e ?g) RequestThisPeer (GreetConnection a) d)),
        gw_draws := Suc (Suc (gw_draws ?g)), gw_message_encoding := Detach (Some e), gw_endpoint_self := Detach (Some ?s1)\<rparr>"
    "nd_dht n2 = nd_dht n" "nd_dht_seen n2 = nd_dht_seen n"
    by (rule phases_receive[OF at[folded bt] s fit sb a bytes wire d])
  define h where "h = (nd_gateway n2)\<lparr>gw_draws := Suc (gw_draws (nd_gateway n2)), gw_inner_dht := Detach None\<rparr>"
  let ?s2 = "append_sent [Request ?b None (TransportToParent (IncomingConnection (peer_name ?me)))] ?s1"
  obtain e3 where e3: "greet_connection ?e a ?me h =
      Ok () (h\<lparr>gw_endpoint_self := Detach (Some ?s2), gw_message_encoding := Detach (Some e3), gw_draws := Suc (gw_draws h)\<rparr>)"
    by (rule greets[of h ?s1 e ?e ?me greeting a]) (use self(2) greeting now n2(2,3) in \<open>simp_all add: h_def\<close>)
  then have cb: "gw_dht_callback ?e (GreetConnection a) (CbResponse (Inr (ThisPeerResponse ?me))) h =
      Ok () (h\<lparr>gw_endpoint_self := Detach (Some ?s2), gw_message_encoding := Detach (Some e3), gw_draws := Suc (gw_draws h)\<rparr>)" by simp
  obtain n3 d3 where n3: "node_dht env (n2, net1) = Ok () (n3, net1)"
    "nd_gateway n3 = h\<lparr>gw_endpoint_self := Detach (Some ?s2), gw_message_encoding := Detach (Some e3), gw_draws := Suc (gw_draws h),
       gw_this_peer := this_peer (nd_dht n2), gw_inner_dht := Detach (Some d3)\<rparr>"
    by (rule node_dht_answers_one[where n = n2 and net = net1 and p = "gw_inner_dht ?g" and d = d and env = env and g = ?g, OF _ d now(1) inj _ _ _ _ cb[unfolded h_def]])
      (use ld quiet n2(3-5) in \<open>simp, simp, simp, simp, simp, simp add: h_def\<close>)
  have "pending_send_queue (nd_gateway n2) = []" using q by (simp add: n2(3))
  then have "process_rest env (n2, net1) = Ok True (n3, net1)" by (simp add: process_rest_def no_pending_sends n3(1))
  moreover have "node_process env (n, net) = bind_ok (bind_ok (node_transport env (n, net)) (\<lambda>_. node_encoding env)) (\<lambda>_. process_rest env)"
    by (simp add: node_process_rest owner bind_ok_assoc)
  ultimately have "node_process env (n, net) = Ok True (n3, net1)" by (simp add: n2(1))
  then show ?thesis using bt by (auto simp: n3(2) append_sent_def)
qed

section \<open>From owner to owner\<close>

text \<open>A node's environment with the clock at \<open>t\<close>.\<close>

definition at_time :: "time \<Rightarrow> node_env \<Rightarrow> node_env" where
  "at_time t env = env\<lparr>ne_gateway := (ne_gateway env)\<lparr>ge_now := t\<rparr>,
     ne_transport := (ne_transport env)\<lparr>tm_instant := t, tm_instant_end := t, tm_now := t\<rparr>\<rparr>"

lemma at_time_simps [simp]:
  "ge_now (ne_gateway (at_time t env)) = t" "ge_bt (ne_gateway (at_time t env)) = ge_bt (ne_gateway env)"
  "ge_url (ne_gateway (at_time t env)) = ge_url (ne_gateway env)" "ne_encoding (at_time t env) = ne_encoding env"
  "high_uri (ne_gateway (at_time t env)) peer = high_uri (ne_gateway env) peer"
  by (simp_all add: at_time_def high_uri_def)

lemma node_at_sent: "node_at a bt s tes tqs ees eqs n \<Longrightarrow> sent_on (gw_endpoint_self (nd_gateway n)) = snd_sent (gce_sender s)"
  by (simp add: node_at_def)

text \<open>
  C2: A message on its whole way, over the gateways, DHTs, encoders and transports of two nodes and the network between them. The
  owner of node \<open>a\<close> asks for a payload to be sent to a peer that \<open>a\<close>'s DHT places at \<open>b\<close>. After three \<open>process\<close> calls of \<open>a\<close> (the DHT
  finds the peer, the encoder encodes, the transport connects and sends) the owner's request is answered with success, once. In the
  next \<open>process\<close> call of \<open>b\<close> its owner receives the payload, re-encoded and from \<open>a\<close>'s location, and only then the
  news of the connection, which names \<open>b\<close> itself.
\<close>

theorem send_reaches_peer:
  assumes A: "node_at a bt s [] [] [] [] n" "resting s" "ge_bt (ne_gateway env) = bt" "wrap_output_type (nd_gateway n) = DoNotWrapOutput"
      "get_peer (nd_dht n) uri = Some peer" "clear_agent_id (ge_url (ne_gateway env)) (high_uri (ne_gateway env) peer) = b"
    and times: "env_fit (at_time t1 env) n" "env_fit (at_time t2 env) n" "env_fit (at_time t3 env) n" "t2 \<le> t1 + DEFAULT_TIMEOUT" "t3 \<le> t2 + DEFAULT_TIMEOUT"
    and B: "node_at b bt' s' [] [] [] [] m" "resting s'" "ge_bt (ne_gateway env') = bt'" "env_fit env' m"
    and net: "get_server a net = Some va" "idle_server va" "this_uri va = a" "get_server b net = Some vb" "idle_server vb" "this_uri vb = b"
    and strangers: "a \<noteq> b" "b \<notin> set (connections (nd_transport n))" "a \<notin> set (connections (nd_transport m))" "\<not> is_connected_to va b" "\<not> is_connected_to vb a"
    and codec: "json_ser (ne_encoding env) (WirePayload payload) = Some bytes" "json_de (ne_encoding env') bytes = Inr (WirePayload payload)"
      "bytes \<noteq> []" "payload \<noteq> []"
    and wire: "P2pProtocol_from_bytes (ge_wire (ne_gateway env')) payload = Inr msg" "for_owner msg" "rmp_ser (ge_wire (ne_gateway env')) msg = Some payload'"
      "rmp_ser (ge_wire (ne_gateway env')) (PeerName (gateway_id (gw_identifier (nd_gateway m)))
         (peer_name (this_peer (nd_dht m))) (timestamp (this_peer (nd_dht m)))) = Some greeting"
  shows "\<exists>n1 n2 n3 m1 net1 net2.
      node_process (at_time t1 env) (owner_asks [Request b0 (Some rid) (TransportToChild (SendMessage uri payload))] n, net) = Ok True (n1, net)
    \<and> node_process (at_time t2 env) (n1, net) = Ok True (n2, net)
    \<and> node_process (at_time t3 env) (n2, net) = Ok True (n3, net1)
    \<and> sent_on (gw_endpoint_self (nd_gateway n3)) = sent_on (gw_endpoint_self (nd_gateway n)) @ [Response bt rid (Inr (TransportResponse SendMessageSuccess))]
    \<and> node_process env' (m, net1) = Ok True (m1, net2)
    \<and> sent_on (gw_endpoint_self (nd_gateway m1)) = sent_on (gw_endpoint_self (nd_gateway m)) @
        [Request bt' None (TransportToParent (ReceivedData a payload')),
         Request bt' None (TransportToParent (IncomingConnection (peer_name (this_peer (nd_dht m)))))]"
proof -
  have rests: "server_rests a net" using net(1,2) by (simp add: server_rests_def)
  obtain n1 r1 e1 where n1: "node_process (at_time t1 env) (owner_asks [Request b0 (Some rid) (TransportToChild (SendMessage uri payload))] n, net) = Ok True (n1, net)"
      "node_at a bt s [] [] [(r1, e1)] [(r1, EncodePayload payload)] n1" "kept n n1" "connections (nd_transport n1) = connections (nd_transport n)"
    and e1: "gte_cb e1 = SendEncoded (SendWithFullLowUri (high_uri (ne_gateway env) peer) payload) t1 (t1 + SEND_RETRY_TIMEOUT_MS)
        (RespondSendMessage ((GhostMessage_new b0 (Some rid) (TransportToChild (SendMessage uri payload)))\<lparr>gm_message := None\<rparr>))"
      "gte_expires e1 = t1 + DEFAULT_TIMEOUT"
    by (rule process_asks[OF A(1,2) times(1) _ rests A(5), of b0 rid payload]) (use A(3) in simp_all)
  have plain: "wrap_output_type (nd_gateway n1) = DoNotWrapOutput" using n1(3) A(4) by (simp add: kept_def)
  obtain n2 r2 e2 where n2: "node_process (at_time t2 env) (n1, net) = Ok True (n2, net)" "node_at a bt s [(r2, e2)] [(r2, SendMessage b bytes)] [] [] n2"
      "kept n1 n2" "connections (nd_transport n2) = connections (nd_transport n1)"
    and e2: "gte_cb e2 = FinishSend (SendWithFullLowUri (high_uri (ne_gateway env) peer) payload) t1 (t1 + SEND_RETRY_TIMEOUT_MS)
        (RespondSendMessage ((GhostMessage_new b0 (Some rid) (TransportToChild (SendMessage uri payload)))\<lparr>gm_message := None\<rparr>))"
      "gte_expires e2 = t2 + DEFAULT_TIMEOUT"
    by (rule process_encodes[OF n1(2) A(2) kept_env_fit[OF n1(3) times(2)] _ rests e1(1) _ _ plain, of bytes]) (use A(3,6) e1(2) times(4) codec(1) in simp_all)
  let ?s = "append_sent [Response bt rid (Inr (TransportResponse SendMessageSuccess))] s" and ?net1 = "put_server b (contacted a [bytes] vb) net"
  obtain n3 where n3: "node_process (at_time t3 env) (n2, net) = Ok True (n3, ?net1)" "node_at a bt ?s [] [] [] [] n3"
    by (rule process_sends[OF n2(2) A(2) kept_env_fit[OF kept_trans[OF n1(3) n2(3)] times(3)] _ net(1,2) _ _ net(4,6) strangers(5) e2(1)])
      (use A(3) e2(2) times(5) strangers n1(4) n2(4) in \<open>simp_all add: GhostMessage_new_def\<close>)
  have servers: "get_server b ?net1 = Some (contacted a [bytes] vb)" "get_server a ?net1 = Some va" using strangers(1) net(1) by (simp_all add: get_put_server)
  obtain m1 net2 where m1: "node_process env' (m, ?net1) = Ok True (m1, net2)" "gw_endpoint_self (nd_gateway m1) = Detach (Some (append_sent
      [Request bt' None (TransportToParent (ReceivedData a payload')),
       Request bt' None (TransportToParent (IncomingConnection (peer_name (this_peer (nd_dht m)))))] s'))"
    using process_receives[OF B(1,2,4,3) servers(1) net(5) strangers(1,3) servers(2) net(3) strangers(4) codec(3,2,4) wire] by blast
  have "sent_on (gw_endpoint_self (nd_gateway n3)) = sent_on (gw_endpoint_self (nd_gateway n)) @ [Response bt rid (Inr (TransportResponse SendMessageSuccess))]"
    using node_at_sent[OF n3(2)] node_at_sent[OF A(1)] by (simp add: append_sent_def)
  moreover have "sent_on (gw_endpoint_self (nd_gateway m1)) = sent_on (gw_endpoint_self (nd_gateway m)) @
        [Request bt' None (TransportToParent (ReceivedData a payload')),
         Request bt' None (TransportToParent (IncomingConnection (peer_name (this_peer (nd_dht m)))))]"
    using node_at_sent[OF B(1)] by (simp add: m1(2) append_sent_def)
  ultimately show ?thesis using n1(1) n2(1) n3(1) m1(1) by blast
qed

section \<open>Witness\<close>

text \<open>Two nodes as their constructors make them, bound on a network of their two servers; the first knows the second.\<close>

definition net_wire :: wire_lib where
  "net_wire = \<lparr>rmp_ser = (\<lambda>p. case p of AllJoinedSpaceList [] \<Rightarrow> Some [1] | PeerName _ _ _ \<Rightarrow> Some [2] | _ \<Rightarrow> None),
     rmp_de = (\<lambda>b. if b = [1] then Inr (AllJoinedSpaceList []) else Inl []), capnp_write = (\<lambda>_. []), capnp_read = (\<lambda>_. Inl [])\<rparr>"

definition net_encoding :: encoding_env where
  "net_encoding = \<lparr>json_ser = (\<lambda>p. case p of WirePayload b \<Rightarrow> Some (9 # b) | WireHandshake _ _ _ \<Rightarrow> None),
     json_de = (\<lambda>b. case b of x # bs \<Rightarrow> if x = 9 then Inr (WirePayload bs) else Inl [] | [] \<Rightarrow> Inl []), enc_bt = Backtwrap None\<rparr>"

definition net_env :: node_env where
  "net_env = \<lparr>ne_gateway = (demo_gw_env 100)\<lparr>ge_wire := net_wire\<rparr>, ne_dht = (\<lambda>_. demo_dht_env True 1000 (Inl [])),
     ne_dht_tick = demo_dht_env True 1000 (Inl []), ne_encoding = net_encoding, ne_transport = demo_tm_env\<rparr>"

definition net_dht :: "PeerData \<Rightarrow> PeerData list \<Rightarrow> MirrorDht" where
  "net_dht me peers = (case MirrorDht_with_this_peer demo_url 1000 me of
     Ok d _ \<Rightarrow> d\<lparr>peer_map := map (\<lambda>p. (peer_name p, p)) peers, timed_out_map := map (\<lambda>p. (peer_name p, False)) peers\<rparr>)"

definition net_gateway :: "PeerData \<Rightarrow> P2pGateway" where
  "net_gateway me = (case P2pGateway_new (ne_gateway net_env) DoNotWrapOutput \<lparr>nickname = ''n'', gateway_id = ''net''\<rparr> (peer_location me)
     (fst create_ghost_channel) (\<lambda>_ _. Some (fst create_ghost_channel)) (DhtConfig_new (peer_name me)) of Ok g _ \<Rightarrow> g)"

definition net_node :: "PeerData \<Rightarrow> PeerData list \<Rightarrow> node" where
  "net_node me peers = \<lparr>nd_gateway = net_gateway me, nd_dht = net_dht me peers, nd_encoding = MessageEncoding_new,
     nd_transport = demo_tm (peer_location me) [], nd_dht_seen = 0, nd_encoding_seen = 0, nd_transport_seen = 0\<rparr>"

definition peer_a :: PeerData where
  "peer_a = \<lparr>peer_name = ''a:me'', peer_location = ''mem://a'', timestamp = 1000\<rparr>"

definition peer_b :: PeerData where
  "peer_b = \<lparr>peer_name = ''a:you'', peer_location = ''mem://b'', timestamp = 1000\<rparr>"

lemmas net_node_simps = net_node_def net_gateway_def net_env_def net_dht_def MirrorDht_with_this_peer_def MirrorDht_new_with_config_def
  demo_gateway_simps demo_tm_simps DhtConfig_new_def peer_a_def peer_b_def

lemma net_node_self: "gw_endpoint_self (nd_gateway (net_node me peers)) = Detach (Some demo_self)"
  by (simp add: net_node_simps demo_self_def)

lemma net_node_at: "node_at (peer_location me) (Backtwrap None) demo_self [] [] [] [] (net_node me peers)"
  unfolding node_at_def net_node_self
  by (simp add: link_def open_endpoint_def resting_def requests_def)
    (simp add: net_node_simps demo_self_def GhostTrackerBuilder_default_def)

lemma demo_self_rests: "resting demo_self"
  by (simp add: resting_def open_endpoint_def demo_self_def demo_gateway_simps)

lemma net_dht_quiet: "dht_quiet (ne_dht_tick net_env) (net_dht me [])" "dht_quiet (ne_dht_tick net_env) (net_dht peer_a [peer_b])"
  by (simp_all add: dht_quiet_def net_dht_def net_env_def MirrorDht_with_this_peer_def MirrorDht_new_with_config_def create_ghost_channel_def
      internal_process_def demo_dht_env_def sub_u64_def DhtConfig_new_def DEFAULT_GOSSIP_INTERVAL_MS_def DEFAULT_TIMEOUT_THRESHOLD_MS_def
      peer_a_def peer_b_def)

lemma net_node_fits:
  assumes "t \<le> 1000"
  shows "env_fit (at_time t net_env) (net_node peer_a [peer_b])" "env_fit (at_time t net_env) (net_node me [])"
proof -
  have "inj (\<lambda>n. replicate n (CHR ''x''))" by (rule injI) (metis length_replicate)
  moreover have "discover_quiet (ne_transport (at_time t net_env)) (nd_transport (net_node me peers))" for me peers
    by (simp add: discover_quiet_def net_node_def demo_tm_simps)
  moreover have "ge_nanoid (ne_gateway (at_time t net_env)) = (\<lambda>n. replicate n (CHR ''x''))" "ne_dht_tick (at_time t net_env) = ne_dht_tick net_env"
    by (simp_all add: at_time_def net_env_def demo_gw_env_def)
  moreover have "t + DEFAULT_TIMEOUT \<le> TIME_MAX" "t + SEND_RETRY_TIMEOUT_MS \<le> TIME_MAX"
    using assms by (simp_all add: DEFAULT_TIMEOUT_def SEND_RETRY_TIMEOUT_MS_def TIME_MAX_def)
  ultimately show "env_fit (at_time t net_env) (net_node peer_a [peer_b])" "env_fit (at_time t net_env) (net_node me [])"
    using net_dht_quiet by (simp_all add: env_fit_def) (simp_all add: net_node_def)
qed

lemma net_nodes:
  "nd_dht (net_node me peers) = net_dht me peers" "connections (nd_transport (net_node me peers)) = []"
  "wrap_output_type (nd_gateway (net_node me peers)) = DoNotWrapOutput" "sent_on (gw_endpoint_self (nd_gateway (net_node me peers))) = []"
  "this_peer (net_dht me peers) = me" "get_peer (net_dht peer_a [peer_b]) ''a:you'' = Some peer_b"
  by (simp_all add: net_node_self) (simp_all add: net_node_simps get_peer_def demo_self_def)

lemma net_servers:
  "get_server ''mem://a'' demo_net = Some (MemoryServer_new ''mem://a'')" "get_server ''mem://b'' demo_net = Some (MemoryServer_new ''mem://b'')"
  "idle_server (MemoryServer_new u)" "this_uri (MemoryServer_new u) = u" "\<not> is_connected_to (MemoryServer_new u) v"
  by (simp_all add: demo_net_facts idle_server_def MemoryServer_new_def is_connected_to_def)

theorem send_reaches_peer_witness:
  "\<exists>n1 n2 n3 m1 net1 net2.
      node_process (at_time 100 net_env) (owner_asks [Request (Backtwrap None) (Some ''r1'') (TransportToChild (SendMessage ''a:you'' [1]))]
        (net_node peer_a [peer_b]), demo_net) = Ok True (n1, demo_net)
    \<and> node_process (at_time 120 net_env) (n1, demo_net) = Ok True (n2, demo_net)
    \<and> node_process (at_time 140 net_env) (n2, demo_net) = Ok True (n3, net1)
    \<and> sent_on (gw_endpoint_self (nd_gateway n3)) = [Response (Backtwrap None) ''r1'' (Inr (TransportResponse SendMessageSuccess))]
    \<and> node_process (at_time 160 net_env) (net_node peer_b [], net1) = Ok True (m1, net2)
    \<and> sent_on (gw_endpoint_self (nd_gateway m1)) =
        [Request (Backtwrap None) None (TransportToParent (ReceivedData ''mem://a'' [1])),
         Request (Backtwrap None) None (TransportToParent (IncomingConnection ''a:you''))]"
proof -
  let ?b = "Backtwrap None"
  have env: "ge_bt (ne_gateway net_env) = ?b" "clear_agent_id (ge_url (ne_gateway net_env)) (high_uri (ne_gateway net_env) peer_b) = ''mem://b''"
    by (simp_all add: net_env_def demo_gw_env_def high_uri_def clear_agent_id_def set_agent_id_def demo_url_def peer_b_def)
  have A: "node_at ''mem://a'' ?b demo_self [] [] [] [] (net_node peer_a [peer_b])" using net_node_at[of peer_a] by (simp add: peer_a_def)
  have B: "node_at ''mem://b'' ?b demo_self [] [] [] [] (net_node peer_b [])" using net_node_at[of peer_b] by (simp add: peer_b_def)
  have codec: "json_ser (ne_encoding net_env) (WirePayload [1]) = Some [9, 1]" "json_de (ne_encoding (at_time 160 net_env)) [9, 1] = Inr (WirePayload [1])"
    "P2pProtocol_from_bytes (ge_wire (ne_gateway (at_time 160 net_env))) [1] = Inr (AllJoinedSpaceList [])" "for_owner (AllJoinedSpaceList [])"
    "rmp_ser (ge_wire (ne_gateway (at_time 160 net_env))) (AllJoinedSpaceList []) = Some [1]"
    "rmp_ser (ge_wire (ne_gateway (at_time 160 net_env))) (PeerName i u t) = Some [2]" for i u t
    by (simp_all add: at_time_def net_env_def net_encoding_def net_wire_def P2pProtocol_from_bytes_def)
  have times: "(120::nat) \<le> 100 + DEFAULT_TIMEOUT" "(140::nat) \<le> 120 + DEFAULT_TIMEOUT" by (simp_all add: DEFAULT_TIMEOUT_def)
  have name: "peer_name peer_b = ''a:you''" by (simp add: peer_b_def)
  have "\<exists>n1 n2 n3 m1 net1 net2. node_process (at_time 100 net_env) (owner_asks [Request ?b (Some ''r1'') (TransportToChild (SendMessage ''a:you'' [1]))]
        (net_node peer_a [peer_b]), demo_net) = Ok True (n1, demo_net)
    \<and> node_process (at_time 120 net_env) (n1, demo_net) = Ok True (n2, demo_net)
    \<and> node_process (at_time 140 net_env) (n2, demo_net) = Ok True (n3, net1)
    \<and> sent_on (gw_endpoint_self (nd_gateway n3)) = sent_on (gw_endpoint_self (nd_gateway (net_node peer_a [peer_b]))) @ [Response ?b ''r1'' (Inr (TransportResponse SendMessageSuccess))]
    \<and> node_process (at_time 160 net_env) (net_node peer_b [], net1) = Ok True (m1, net2)
    \<and> sent_on (gw_endpoint_self (nd_gateway m1)) = sent_on (gw_endpoint_self (nd_gateway (net_node peer_b []))) @
        [Request ?b None (TransportToParent (ReceivedData ''mem://a'' [1])),
         Request ?b None (TransportToParent (IncomingConnection (peer_name (this_peer (nd_dht (net_node peer_b []))))))]"
    by (rule send_reaches_peer[OF A demo_self_rests env(1) net_nodes(3) _ env(2) _ _ _ times B demo_self_rests _ _ net_servers(1,3,4,2,3,4)
          _ _ _ net_servers(5,5) codec(1,2) _ _ codec(3,4,5,6)])
      (simp_all add: net_nodes net_node_fits env(1))
  then show ?thesis by (simp add: net_nodes name)
qed

end
