(* ===== verification/P2p_Codec.thy ===== *)
theory P2p_Codec
  imports Gateway_Protocol Wall_Clock
begin

text \<open>
  The connectivity messages between nodes as bytes (\<open>crates/p2p_protocol/src/p2p.rs\<close>, \<open>error.rs\<close> and the part of the
  generated \<open>p2p_capnp.rs\<close> they use). The \<open>capnp\<close> package is a parameter: a message is a value of a type \<open>'m\<close>, a struct in
  it a handle of type \<open>'h\<close>, and the generated code calls the operations of \<open>capnp_lib\<close>.
\<close>

section \<open>Errors\<close>

datatype P2pError = P2pOther string | P2pNonexhaustive

definition P2pError_from_str :: "string \<Rightarrow> P2pError" where
  "P2pError_from_str s = P2pOther s"

definition P2pError_display :: "P2pError \<Rightarrow> (unit, 'e, string) outcome" where
  "P2pError_display e =
     (case e of
        P2pOther s \<Rightarrow> Ok (''Unknown error encountered: '' @ [CHR 0x27] @ s @ [CHR 0x27] @ ''.'') ()
      | P2pNonexhaustive \<Rightarrow> Panic ''internal error: entered unreachable code'')"

definition P2pError_source :: "P2pError \<Rightarrow> (unit, 'e, string option) outcome" where
  "P2pError_source e =
     (case e of P2pOther _ \<Rightarrow> Ok None () | P2pNonexhaustive \<Rightarrow> Panic ''internal error: entered unreachable code'')"

text \<open>The package's error, given by its \<open>Debug\<close> rendering.\<close>

definition P2pError_from_capnp :: "string \<Rightarrow> P2pError" where
  "P2pError_from_capnp e = P2pError_from_str e"

section \<open>The package\<close>

text \<open>
  A struct's size counts the words of its data section and its pointers. \<open>set_u16\<close>, \<open>get_u16\<close>, \<open>set_u64\<close>, \<open>get_u64\<close> are
  \<open>set_data_field\<close> and \<open>get_data_field\<close> at the field type (the offset counts fields of that type), \<open>init_struct\<close> and
  \<open>get_struct\<close> those methods of the pointer builder and reader \<open>get_pointer_field\<close> returns. Errors are their renderings.
\<close>

type_synonym StructSize = "nat \<times> nat"

record ('m, 'h) capnp_lib =
  new_default :: 'm
  init_root_struct :: "StructSize \<Rightarrow> 'm \<Rightarrow> 'h \<times> 'm"
  init_struct :: "'h \<Rightarrow> nat \<Rightarrow> StructSize \<Rightarrow> 'm \<Rightarrow> 'h \<times> 'm"
  set_u16 :: "'h \<Rightarrow> nat \<Rightarrow> u16 \<Rightarrow> 'm \<Rightarrow> 'm"
  set_u64 :: "'h \<Rightarrow> nat \<Rightarrow> u64 \<Rightarrow> 'm \<Rightarrow> 'm"
  get_root :: "'m \<Rightarrow> string + 'h"
  get_u16 :: "'m \<Rightarrow> 'h \<Rightarrow> nat \<Rightarrow> u16"
  get_u64 :: "'m \<Rightarrow> 'h \<Rightarrow> nat \<Rightarrow> u64"
  get_struct :: "'m \<Rightarrow> 'h \<Rightarrow> nat \<Rightarrow> string + 'h"
  pointer_is_null :: "'m \<Rightarrow> 'h \<Rightarrow> nat \<Rightarrow> bool"
  write_message :: "'m \<Rightarrow> string + bytes"
  read_message :: "bytes \<Rightarrow> string + 'm"

section \<open>Generated accessors\<close>

definition p2p_message_STRUCT_SIZE :: StructSize where
  "p2p_message_STRUCT_SIZE = (1, 1)"

definition msg_ping_STRUCT_SIZE :: StructSize where
  "msg_ping_STRUCT_SIZE = (1, 0)"

definition msg_pong_STRUCT_SIZE :: StructSize where
  "msg_pong_STRUCT_SIZE = (2, 0)"

datatype 'a Which =
    WhichMsgError 'a
  | WhichMsgHandshake 'a
  | WhichMsgGspArcRequest 'a
  | WhichMsgGspArcResponse 'a
  | WhichMsgGspAspectDataRequest 'a
  | WhichMsgGspAspectDataResponse 'a
  | WhichMsgGspAspectBroadcast 'a
  | WhichMsgDirectRequest 'a
  | WhichMsgDirectResponse 'a
  | WhichMsgQueryRequest 'a
  | WhichMsgQueryResponse 'a
  | WhichMsgPing 'a
  | WhichMsgPong 'a

datatype NotInSchema = NotInSchema u16

definition p2p_message_which :: "('m, 'h) capnp_lib \<Rightarrow> 'm \<Rightarrow> 'h \<Rightarrow> NotInSchema + (string + 'h) Which" where
  "p2p_message_which C m reader =
     (let x = get_u16 C m reader 0; field = get_struct C m reader 0 in
      if x = 0 then Inr (WhichMsgError field)
      else if x = 1 then Inr (WhichMsgHandshake field)
      else if x = 2 then Inr (WhichMsgGspArcRequest field)
      else if x = 3 then Inr (WhichMsgGspArcResponse field)
      else if x = 4 then Inr (WhichMsgGspAspectDataRequest field)
      else if x = 5 then Inr (WhichMsgGspAspectDataResponse field)
      else if x = 6 then Inr (WhichMsgGspAspectBroadcast field)
      else if x = 7 then Inr (WhichMsgDirectRequest field)
      else if x = 8 then Inr (WhichMsgDirectResponse field)
      else if x = 9 then Inr (WhichMsgQueryRequest field)
      else if x = 10 then Inr (WhichMsgQueryResponse field)
      else if x = 11 then Inr (WhichMsgPing field)
      else if x = 12 then Inr (WhichMsgPong field)
      else Inl (NotInSchema x))"

definition has_msg_ping :: "('m, 'h) capnp_lib \<Rightarrow> 'm \<Rightarrow> 'h \<Rightarrow> bool" where
  "has_msg_ping C m reader = (if get_u16 C m reader 0 \<noteq> 11 then False else \<not> pointer_is_null C m reader 0)"

definition has_msg_pong :: "('m, 'h) capnp_lib \<Rightarrow> 'm \<Rightarrow> 'h \<Rightarrow> bool" where
  "has_msg_pong C m reader = (if get_u16 C m reader 0 \<noteq> 12 then False else \<not> pointer_is_null C m reader 0)"

definition init_msg_ping :: "('m, 'h) capnp_lib \<Rightarrow> 'h \<Rightarrow> 'm \<Rightarrow> 'h \<times> 'm" where
  "init_msg_ping C builder m = init_struct C builder 0 msg_ping_STRUCT_SIZE (set_u16 C builder 0 11 m)"

definition init_msg_pong :: "('m, 'h) capnp_lib \<Rightarrow> 'h \<Rightarrow> 'm \<Rightarrow> 'h \<times> 'm" where
  "init_msg_pong C builder m = init_struct C builder 0 msg_pong_STRUCT_SIZE (set_u16 C builder 0 12 m)"

definition get_send_epoch_ms :: "('m, 'h) capnp_lib \<Rightarrow> 'm \<Rightarrow> 'h \<Rightarrow> u64" where
  "get_send_epoch_ms C m reader = get_u64 C m reader 0"

definition set_send_epoch_ms :: "('m, 'h) capnp_lib \<Rightarrow> 'h \<Rightarrow> u64 \<Rightarrow> 'm \<Rightarrow> 'm" where
  "set_send_epoch_ms C builder v m = set_u64 C builder 0 v m"

definition get_ping_send_epoch_ms :: "('m, 'h) capnp_lib \<Rightarrow> 'm \<Rightarrow> 'h \<Rightarrow> u64" where
  "get_ping_send_epoch_ms C m reader = get_u64 C m reader 0"

definition set_ping_send_epoch_ms :: "('m, 'h) capnp_lib \<Rightarrow> 'h \<Rightarrow> u64 \<Rightarrow> 'm \<Rightarrow> 'm" where
  "set_ping_send_epoch_ms C builder v m = set_u64 C builder 0 v m"

definition get_ping_received_epoch_ms :: "('m, 'h) capnp_lib \<Rightarrow> 'm \<Rightarrow> 'h \<Rightarrow> u64" where
  "get_ping_received_epoch_ms C m reader = get_u64 C m reader 1"

definition set_ping_received_epoch_ms :: "('m, 'h) capnp_lib \<Rightarrow> 'h \<Rightarrow> u64 \<Rightarrow> 'm \<Rightarrow> 'm" where
  "set_ping_received_epoch_ms C builder v m = set_u64 C builder 1 v m"

section \<open>The messages\<close>

definition P2pMessage_from_bytes :: "('m, 'h) capnp_lib \<Rightarrow> bytes \<Rightarrow> (unit, P2pError, P2pMessage) outcome" where
  "P2pMessage_from_bytes C bytes =
     (case read_message C bytes of
        Inl e \<Rightarrow> Err (P2pError_from_capnp e) ()
      | Inr m \<Rightarrow>
          case get_root C m of
            Inl e \<Rightarrow> Panic ''get_root: called `Result::unwrap()` on an `Err` value''
          | Inr message \<Rightarrow>
              case p2p_message_which C m message of
                Inr (WhichMsgPing (Inr ping)) \<Rightarrow> Ok (MsgPing (get_send_epoch_ms C m ping)) ()
              | Inr (WhichMsgPong (Inr pong)) \<Rightarrow>
                  Ok (MsgPong (get_ping_send_epoch_ms C m pong) (get_ping_received_epoch_ms C m pong)) ()
              | _ \<Rightarrow> Err (P2pError_from_str ''failed to decode'') ())"

text \<open>The message \<open>to_bytes\<close> builds.\<close>

definition build_message :: "('m, 'h) capnp_lib \<Rightarrow> P2pMessage \<Rightarrow> 'm" where
  "build_message C self =
     (case init_root_struct C p2p_message_STRUCT_SIZE (new_default C) of (root, m) \<Rightarrow>
        case self of
          MsgPing send_epoch_ms \<Rightarrow>
            (case init_msg_ping C root m of (message, m) \<Rightarrow> set_send_epoch_ms C message send_epoch_ms m)
        | MsgPong send_epoch_ms received_epoch_ms \<Rightarrow>
            (case init_msg_pong C root m of (message, m) \<Rightarrow>
               set_ping_received_epoch_ms C message received_epoch_ms
                 (set_ping_send_epoch_ms C message send_epoch_ms m)))"

definition P2pMessage_to_bytes :: "('m, 'h) capnp_lib \<Rightarrow> P2pMessage \<Rightarrow> (unit, 'e, bytes) outcome" where
  "P2pMessage_to_bytes C self =
     (case write_message C (build_message C self) of
        Inr bytes \<Rightarrow> Ok bytes ()
      | Inl e \<Rightarrow> Panic ''write_message: called `Result::unwrap()` on an `Err` value'')"

definition P2pMessage_into_bytes :: "('m, 'h) capnp_lib \<Rightarrow> P2pMessage \<Rightarrow> (unit, 'e, bytes) outcome" where
  "P2pMessage_into_bytes C self = P2pMessage_to_bytes C self"

section \<open>Documented behaviour of the package\<close>

text \<open>
  \<open>fits m h sz\<close> says that \<open>h\<close> is a struct of size \<open>sz\<close> in \<open>m\<close>, \<open>size_words m\<close> how many words \<open>m\<close> takes.

  Allocating a struct makes the root or a pointer field refer to it and disturbs no other field. A field that was set is
  read back, and setting it disturbs no other field of its width, no field of another struct and no pointer. A message below
  the traversal limit of \<open>ReaderOptions::new\<close> that is written to a vector is read back as a message with the same
  fields, in which \<open>f\<close> finds the structs.
\<close>

definition TRAVERSAL_LIMIT :: nat where
  "TRAVERSAL_LIMIT = 8 * 1024 * 1024"

definition same_pointers :: "('m, 'h) capnp_lib \<Rightarrow> 'm \<Rightarrow> 'm \<Rightarrow> bool" where
  "same_pointers C m m' \<longleftrightarrow> get_root C m' = get_root C m \<and> (\<forall>h i. get_struct C m' h i = get_struct C m h i)"

definition alloc_ok :: "('m, 'h) capnp_lib \<Rightarrow> ('m \<Rightarrow> 'h \<Rightarrow> StructSize \<Rightarrow> bool) \<Rightarrow> ('m \<Rightarrow> nat) \<Rightarrow> bool" where
  "alloc_ok C fits size_words \<longleftrightarrow>
     size_words (new_default C) = 0
   \<and> (\<forall>m d p h m'. init_root_struct C (d, p) m = (h, m') \<longrightarrow>
        get_root C m' = Inr h \<and> fits m' h (d, p) \<and> size_words m' \<le> size_words m + 1 + d + p)
   \<and> (\<forall>m h d p i d' p' h' m'. fits m h (d, p) \<longrightarrow> i < p \<longrightarrow> init_struct C h i (d', p') m = (h', m') \<longrightarrow>
        get_struct C m' h i = Inr h' \<and> fits m' h' (d', p') \<and> h' \<noteq> h \<and> fits m' h (d, p) \<and> get_root C m' = get_root C m
      \<and> (\<forall>j. get_u16 C m' h j = get_u16 C m h j) \<and> size_words m' \<le> size_words m + d' + p')"

definition fields_ok :: "('m, 'h) capnp_lib \<Rightarrow> ('m \<Rightarrow> 'h \<Rightarrow> StructSize \<Rightarrow> bool) \<Rightarrow> ('m \<Rightarrow> nat) \<Rightarrow> bool" where
  "fields_ok C fits size_words \<longleftrightarrow>
     (\<forall>m h d p i v. fits m h (d, p) \<longrightarrow> i < 4 * d \<longrightarrow>
        (let m' = set_u16 C h i v m in
           get_u16 C m' h i = v \<and> same_pointers C m m' \<and> size_words m' = size_words m \<and> (\<forall>k sz. fits m k sz \<longrightarrow> fits m' k sz)))
   \<and> (\<forall>m h d p i v. fits m h (d, p) \<longrightarrow> i < d \<longrightarrow>
        (let m' = set_u64 C h i v m in
           get_u64 C m' h i = v \<and> (\<forall>j. j \<noteq> i \<longrightarrow> get_u64 C m' h j = get_u64 C m h j) \<and> same_pointers C m m'
         \<and> size_words m' = size_words m \<and> (\<forall>k sz. fits m k sz \<longrightarrow> fits m' k sz)
         \<and> (\<forall>k j. k \<noteq> h \<longrightarrow> get_u16 C m' k j = get_u16 C m k j)))"

definition serialize_ok :: "('m, 'h) capnp_lib \<Rightarrow> ('m \<Rightarrow> 'h \<Rightarrow> StructSize \<Rightarrow> bool) \<Rightarrow> ('m \<Rightarrow> nat) \<Rightarrow> bool" where
  "serialize_ok C fits size_words \<longleftrightarrow>
     (\<forall>m. size_words m \<le> TRAVERSAL_LIMIT \<longrightarrow>
        (\<exists>b m' f. write_message C m = Inr b \<and> read_message C b = Inr m' \<and> get_root C m' = map_sum id f (get_root C m)
         \<and> (\<forall>h sz. fits m h sz \<longrightarrow>
              (\<forall>j. get_u16 C m' (f h) j = get_u16 C m h j) \<and> (\<forall>j. get_u64 C m' (f h) j = get_u64 C m h j)
            \<and> (\<forall>j. get_struct C m' (f h) j = map_sum id f (get_struct C m h j)))))"

definition capnp_ok :: "('m, 'h) capnp_lib \<Rightarrow> ('m \<Rightarrow> 'h \<Rightarrow> StructSize \<Rightarrow> bool) \<Rightarrow> ('m \<Rightarrow> nat) \<Rightarrow> bool" where
  "capnp_ok C fits size_words \<longleftrightarrow> alloc_ok C fits size_words \<and> fields_ok C fits size_words \<and> serialize_ok C fits size_words"

lemma alloc_ok_root:
  assumes "alloc_ok C fits size_words" and "init_root_struct C (d, p) (new_default C) = (h, m)"
  shows "get_root C m = Inr h" and "fits m h (d, p)" and "size_words m \<le> 1 + d + p"
proof -
  have "get_root C m = Inr h \<and> fits m h (d, p) \<and> size_words m \<le> size_words (new_default C) + 1 + d + p"
    using assms unfolding alloc_ok_def by blast
  moreover have "size_words (new_default C) = 0" using assms(1) unfolding alloc_ok_def by blast
  ultimately show "get_root C m = Inr h" "fits m h (d, p)" "size_words m \<le> 1 + d + p" by simp_all
qed

lemma alloc_ok_struct:
  assumes "alloc_ok C fits size_words" and "fits m h (d, p)" and "i < p" and "init_struct C h i (d', p') m = (h', m')"
  shows "get_struct C m' h i = Inr h'" and "fits m' h' (d', p')" and "h' \<noteq> h" and "fits m' h (d, p)" and "get_root C m' = get_root C m"
    and "get_u16 C m' h j = get_u16 C m h j" and "size_words m' \<le> size_words m + d' + p'"
  using assms unfolding alloc_ok_def by blast+

lemma fields_ok_u16:
  assumes "fields_ok C fits size_words" and "fits m h (d, p)" and "i < 4 * d"
  shows "get_u16 C (set_u16 C h i v m) h i = v" and "same_pointers C m (set_u16 C h i v m)"
    and "size_words (set_u16 C h i v m) = size_words m" and "fits m k sz \<Longrightarrow> fits (set_u16 C h i v m) k sz"
  using assms unfolding fields_ok_def Let_def by blast+

lemma fields_ok_u64:
  assumes "fields_ok C fits size_words" and "fits m h (d, p)" and "i < d"
  shows "get_u64 C (set_u64 C h i v m) h i = v" and "j \<noteq> i \<Longrightarrow> get_u64 C (set_u64 C h i v m) h j = get_u64 C m h j"
    and "same_pointers C m (set_u64 C h i v m)" and "size_words (set_u64 C h i v m) = size_words m"
    and "fits m k sz \<Longrightarrow> fits (set_u64 C h i v m) k sz"
    and "k \<noteq> h \<Longrightarrow> get_u16 C (set_u64 C h i v m) k j = get_u16 C m k j"
  using assms unfolding fields_ok_def Let_def by blast+

section \<open>Writing and reading\<close>

text \<open>
  A message whose root is a \<open>p2p_message\<close> with the given tag and struct of it: what the setters of a variant leave.
\<close>

definition tagged :: "('m, 'h) capnp_lib \<Rightarrow> ('m \<Rightarrow> 'h \<Rightarrow> StructSize \<Rightarrow> bool) \<Rightarrow> ('m \<Rightarrow> nat) \<Rightarrow> u16 \<Rightarrow> StructSize \<Rightarrow> 'h \<Rightarrow> 'm \<Rightarrow> bool" where
  "tagged C fits size_words tag sz h m \<longleftrightarrow>
     (\<exists>root. get_root C m = Inr root \<and> fits m root p2p_message_STRUCT_SIZE \<and> get_u16 C m root 0 = tag
           \<and> get_struct C m root 0 = Inr h \<and> fits m h sz \<and> h \<noteq> root) \<and> size_words m \<le> TRAVERSAL_LIMIT"

lemma init_variant_tagged:
  assumes ok: "capnp_ok C fits size_words"
    and root: "init_root_struct C p2p_message_STRUCT_SIZE (new_default C) = (root, m)"
    and variant: "init_struct C root 0 sz (set_u16 C root 0 tag m) = (h, m')"
    and small: "3 + fst sz + snd sz \<le> TRAVERSAL_LIMIT"
  shows "tagged C fits size_words tag sz h m'"
proof -
  obtain d p where sz: "sz = (d, p)" by (cases sz)
  have alloc: "alloc_ok C fits size_words" and fields: "fields_ok C fits size_words" using ok by (simp_all add: capnp_ok_def)
  have m: "get_root C m = Inr root" "fits m root (1, 1)" "size_words m \<le> 3"
    using alloc_ok_root[OF alloc root[unfolded p2p_message_STRUCT_SIZE_def]] by simp_all
  let ?n = "set_u16 C root 0 tag m"
  note set = fields_ok_u16[OF fields m(2), where i = 0 and v = tag]
  have n: "get_u16 C ?n root 0 = tag" "get_root C ?n = Inr root" "size_words ?n \<le> 3" "fits ?n root (1, 1)"
    using set(1,3,4) set(2)[unfolded same_pointers_def] m by simp_all
  note struct = alloc_ok_struct[OF alloc n(4) zero_less_one variant[unfolded sz]]
  show ?thesis using struct(1-5) struct(6)[of 0] struct(7) n small by (auto simp: tagged_def p2p_message_STRUCT_SIZE_def sz)
qed

lemma set_field_tagged:
  assumes ok: "capnp_ok C fits size_words" and tagged: "tagged C fits size_words tag (d, p) h m" and i: "i < d"
  shows "tagged C fits size_words tag (d, p) h (set_u64 C h i v m)"
    and "get_u64 C (set_u64 C h i v m) h i = v"
    and "j \<noteq> i \<Longrightarrow> get_u64 C (set_u64 C h i v m) h j = get_u64 C m h j"
proof -
  let ?n = "set_u64 C h i v m"
  have fits: "fits m h (d, p)" using tagged by (auto simp: tagged_def)
  have fields: "fields_ok C fits size_words" using ok by (simp add: capnp_ok_def)
  note set = fields_ok_u64[OF fields fits i, where v = v]
  show "get_u64 C ?n h i = v" by (rule set(1))
  show "j \<noteq> i \<Longrightarrow> get_u64 C ?n h j = get_u64 C m h j" by (rule set(2))
  show "tagged C fits size_words tag (d, p) h ?n"
    using tagged set(3)[unfolded same_pointers_def] set(4,5,6) unfolding tagged_def by metis
qed

lemma tagged_serialized:
  assumes ok: "capnp_ok C fits size_words" and tagged: "tagged C fits size_words tag sz h m"
  obtains b m' root' h' where "write_message C m = Inr b" "read_message C b = Inr m'" "get_root C m' = Inr root'"
    "get_u16 C m' root' 0 = tag" "get_struct C m' root' 0 = Inr h'" "\<And>j. get_u64 C m' h' j = get_u64 C m h j"
proof -
  obtain root where root: "get_root C m = Inr root" "fits m root p2p_message_STRUCT_SIZE" "get_u16 C m root 0 = tag"
      "get_struct C m root 0 = Inr h" "fits m h sz"
    and small: "size_words m \<le> TRAVERSAL_LIMIT"
    using tagged by (auto simp: tagged_def)
  obtain b m' f where w: "write_message C m = Inr b" "read_message C b = Inr m'" "get_root C m' = map_sum id f (get_root C m)"
    and same: "\<And>h sz. fits m h sz \<Longrightarrow> (\<forall>j. get_u16 C m' (f h) j = get_u16 C m h j) \<and> (\<forall>j. get_u64 C m' (f h) j = get_u64 C m h j)
            \<and> (\<forall>j. get_struct C m' (f h) j = map_sum id f (get_struct C m h j))"
    using ok small unfolding capnp_ok_def serialize_ok_def by meson
  show thesis
    by (rule that[of b m' "f root" "f h"]) (use w root same[OF root(2)] same[OF root(5)] in simp_all)
qed

text \<open>
  The serializer of a gateway, built from these functions. Where one of them panics the gateway does; the record has no place
  for that, so the fields are only meaningful where they return.
\<close>

definition gateway_codec :: "('m, 'h) capnp_lib \<Rightarrow> wire_lib \<Rightarrow> wire_lib" where
  "gateway_codec C W = W
     \<lparr>capnp_write := (\<lambda>msg. case (P2pMessage_into_bytes C msg :: (unit, P2pError, bytes) outcome) of Ok bytes _ \<Rightarrow> bytes | _ \<Rightarrow> []),
      capnp_read := (\<lambda>bytes. case P2pMessage_from_bytes C bytes of
          Ok msg _ \<Rightarrow> Inr msg | Err (P2pOther s) _ \<Rightarrow> Inl s | _ \<Rightarrow> Inl [])\<rparr>"

lemmas variant_defs = init_msg_ping_def init_msg_pong_def set_send_epoch_ms_def set_ping_send_epoch_ms_def
  set_ping_received_epoch_ms_def get_send_epoch_ms_def get_ping_send_epoch_ms_def get_ping_received_epoch_ms_def
  msg_ping_STRUCT_SIZE_def msg_pong_STRUCT_SIZE_def

text \<open>
  C29: every message a node writes is written without a panic, and a node that reads the bytes gets the same message: the tag, the
  sizes and the field offsets of the writer and the reader fit together. So a gateway decodes the pings and pongs of another.
\<close>

theorem p2p_message_round_trip:
  assumes ok: "capnp_ok C fits size_words"
  shows "(\<exists>bytes. P2pMessage_to_bytes C msg = (Ok bytes () :: (unit, P2pError, bytes) outcome) \<and> P2pMessage_from_bytes C bytes = Ok msg ())
    \<and> capnp_read (gateway_codec C W) (capnp_write (gateway_codec C W) msg) = Inr msg"
proof -
  obtain root m where root: "init_root_struct C p2p_message_STRUCT_SIZE (new_default C) = (root, m)" by fastforce
  have limit: "10 \<le> TRAVERSAL_LIMIT" by (simp add: TRAVERSAL_LIMIT_def)
  have "\<exists>bytes. P2pMessage_to_bytes C msg = (Ok bytes () :: (unit, P2pError, bytes) outcome) \<and> P2pMessage_from_bytes C bytes = Ok msg ()"
  proof (cases msg)
    case (MsgPing t)
    obtain h m1 where init: "init_struct C root 0 (1, 0) (set_u16 C root 0 11 m) = (h, m1)" by fastforce
    have "tagged C fits size_words 11 (1, 0) h m1" using init_variant_tagged[OF ok root init] limit by simp
    note field = set_field_tagged[OF ok this, where i = 0]
    have built: "build_message C msg = set_u64 C h 0 t m1" by (simp add: build_message_def MsgPing root init variant_defs del: One_nat_def)
    obtain b m2 root2 h2 where "write_message C (build_message C msg) = Inr b" "read_message C b = Inr m2" "get_root C m2 = Inr root2"
        "get_u16 C m2 root2 0 = 11" "get_struct C m2 root2 0 = Inr h2" "\<And>j. get_u64 C m2 h2 j = get_u64 C (build_message C msg) h j"
      using tagged_serialized[OF ok field(1)] built by (metis zero_less_one)
    then show ?thesis
      by (simp add: P2pMessage_to_bytes_def P2pMessage_from_bytes_def p2p_message_which_def MsgPing variant_defs built[unfolded MsgPing] field(2))
  next
    case (MsgPong t r)
    obtain h m1 where init: "init_struct C root 0 (2, 0) (set_u16 C root 0 12 m) = (h, m1)" by fastforce
    have tagged: "tagged C fits size_words 12 (2, 0) h m1" using init_variant_tagged[OF ok root init] limit by simp
    note first = set_field_tagged[OF ok tagged, where i = 0 and v = t]
    have "tagged C fits size_words 12 (2, 0) h (set_u64 C h 0 t m1)" by (rule first(1)) simp
    note second = set_field_tagged[OF ok this, where i = 1 and v = r]
    have built: "build_message C msg = set_u64 C h 1 r (set_u64 C h 0 t m1)"
      by (simp add: build_message_def MsgPong root init variant_defs del: One_nat_def)
    obtain b m2 root2 h2 where "write_message C (build_message C msg) = Inr b" "read_message C b = Inr m2" "get_root C m2 = Inr root2"
        "get_u16 C m2 root2 0 = 12" "get_struct C m2 root2 0 = Inr h2" "\<And>j. get_u64 C m2 h2 j = get_u64 C (build_message C msg) h j"
      using tagged_serialized[OF ok second(1)] built by (metis one_less_numeral_iff semiring_norm(76))
    then show ?thesis
      by (simp add: P2pMessage_to_bytes_def P2pMessage_from_bytes_def p2p_message_which_def MsgPong variant_defs built[unfolded MsgPong] first(2)
          second(2,3)[unfolded One_nat_def])
  qed
  then show ?thesis by (auto simp: gateway_codec_def P2pMessage_into_bytes_def)
qed

text \<open>
  What a node makes of bytes it did not write. Bytes that are no message, tags of other messages and unknown tags, and a variant whose
  struct is not there are errors; but a root that is not there panics.
\<close>

lemma from_bytes_cases:
  "P2pMessage_from_bytes C bytes = Err e () \<longleftrightarrow>
     (read_message C bytes = Inl (case e of P2pOther s \<Rightarrow> s | P2pNonexhaustive \<Rightarrow> []) \<and> e \<noteq> P2pNonexhaustive)
   \<or> (e = P2pOther ''failed to decode'' \<and> (\<exists>m root. read_message C bytes = Inr m \<and> get_root C m = Inr root
        \<and> \<not> (get_u16 C m root 0 \<in> {11, 12} \<and> (\<exists>h. get_struct C m root 0 = Inr h))))"
  by (cases e) (auto simp: P2pMessage_from_bytes_def P2pError_from_capnp_def P2pError_from_str_def p2p_message_which_def Let_def
      split: sum.splits if_splits)

lemma from_bytes_panics_iff:
  "is_panic (P2pMessage_from_bytes C bytes) \<longleftrightarrow> (\<exists>m e. read_message C bytes = Inr m \<and> get_root C m = Inl e)"
  by (auto simp: P2pMessage_from_bytes_def p2p_message_which_def Let_def split: sum.splits)

text \<open>
  A decoding error can be displayed: it is never the hidden variant.
\<close>

lemma from_bytes_error_displays:
  "P2pMessage_from_bytes C bytes = Err e () \<Longrightarrow> \<not> is_panic (P2pError_display e)"
  by (auto simp: from_bytes_cases P2pError_display_def split: P2pError.splits)

section \<open>An instance of the package\<close>

text \<open>
  A message as a list of structs, each with its narrow fields, its wide fields and its pointers; a number on the wire is that
  many ones and a zero.
\<close>

type_synonym arena = "nat \<times> (u16 list \<times> u64 list \<times> nat list) list"

fun encode_nats :: "nat list \<Rightarrow> bytes" where
  "encode_nats [] = []"
| "encode_nats (n # ns) = replicate n 1 @ 0 # encode_nats ns"

fun decode_nats :: "nat \<Rightarrow> bytes \<Rightarrow> nat list" where
  "decode_nats acc [] = []"
| "decode_nats acc (b # bs) = (if b = 0 then acc # decode_nats 0 bs else decode_nats (Suc acc) bs)"

lemma decode_replicate: "decode_nats acc (replicate n 1 @ 0 # bs) = (acc + n) # decode_nats 0 bs"
  by (induction n arbitrary: acc) auto

lemma decode_encode_nats: "decode_nats 0 (encode_nats ns) = ns"
  by (induction ns) (auto simp: decode_replicate)

fun flatten :: "(u16 list \<times> u64 list \<times> nat list) list \<Rightarrow> nat list" where
  "flatten [] = []"
| "flatten ((a, b, c) # ss) = length a # map unat a @ length b # map unat b @ length c # c @ flatten ss"

definition block :: "nat list \<Rightarrow> nat list \<times> nat list" where
  "block ns = (case ns of [] \<Rightarrow> ([], []) | n # ns \<Rightarrow> (take n ns, drop n ns))"

lemma block_smaller: "length (snd (block ns)) \<le> length ns" "ns \<noteq> [] \<Longrightarrow> length (snd (block ns)) < length ns"
  by (auto simp: block_def split: list.splits)

lemma block_append [simp]: "n = length a \<Longrightarrow> block (n # a @ rest) = (a, rest)"
  by (simp add: block_def)

function unflatten :: "nat list \<Rightarrow> (u16 list \<times> u64 list \<times> nat list) list" where
  "unflatten ns =
     (if ns = [] then []
      else let a = block ns; b = block (snd a); c = block (snd b)
           in (map of_nat (fst a), map of_nat (fst b), fst c) # unflatten (snd c))"
  by auto

termination
  by (relation "measure length") (auto intro: le_less_trans[OF block_smaller(1)] le_less_trans[OF block_smaller(1) le_less_trans[OF block_smaller(1) block_smaller(2)]])

declare unflatten.simps [simp del]

lemma unflatten_flatten: "unflatten (flatten ss) = ss"
proof (induction ss)
  case Nil
  then show ?case by (simp add: unflatten.simps)
next
  case (Cons s ss)
  obtain a b c where s: "s = (a, b, c)" by (cases s)
  show ?case
    using Cons by (subst unflatten.simps) (simp add: s Let_def comp_def)
qed

definition arena_struct :: "arena \<Rightarrow> nat \<Rightarrow> u16 list \<times> u64 list \<times> nat list" where
  "arena_struct m h = (if h < length (snd m) then snd m ! h else ([], [], []))"

definition field :: "'a list \<Rightarrow> nat \<Rightarrow> 'a \<Rightarrow> 'a" where
  "field xs i dflt = (if i < length xs then xs ! i else dflt)"

definition blank :: "StructSize \<Rightarrow> u16 list \<times> u64 list \<times> nat list" where
  "blank sz = (replicate (4 * fst sz) 0, replicate (fst sz) 0, replicate (snd sz) 0)"

definition change :: "nat \<Rightarrow> (u16 list \<times> u64 list \<times> nat list \<Rightarrow> u16 list \<times> u64 list \<times> nat list) \<Rightarrow> arena \<Rightarrow> arena" where
  "change h g m = (fst m, (snd m)[h := g (arena_struct m h)])"

definition arena_lib :: "(arena, nat) capnp_lib" where
  "arena_lib =
     \<lparr>new_default = (0, []),
      init_root_struct = (\<lambda>sz m. (length (snd m), (Suc (length (snd m)), snd m @ [blank sz]))),
      init_struct = (\<lambda>h i sz m.
        let n = length (snd m); m = change h (\<lambda>(a, b, c). (a, b, c[i := Suc n])) m in (n, (fst m, snd m @ [blank sz]))),
      set_u16 = (\<lambda>h i v. change h (\<lambda>(a, b, c). (a[i := v], b, c))),
      set_u64 = (\<lambda>h i v. change h (\<lambda>(a, b, c). (a, b[i := v], c))),
      get_root = (\<lambda>m. case fst m of 0 \<Rightarrow> Inl ''no root'' | Suc n \<Rightarrow> Inr n),
      get_u16 = (\<lambda>m h i. field (fst (arena_struct m h)) i 0),
      get_u64 = (\<lambda>m h i. field (fst (snd (arena_struct m h))) i 0),
      get_struct = (\<lambda>m h i. case field (snd (snd (arena_struct m h))) i 0 of 0 \<Rightarrow> Inl ''null'' | Suc n \<Rightarrow> Inr n),
      pointer_is_null = (\<lambda>m h i. field (snd (snd (arena_struct m h))) i 0 = 0),
      write_message = (\<lambda>m. Inr (encode_nats (fst m # flatten (snd m)))),
      read_message = (\<lambda>b. case decode_nats 0 b of [] \<Rightarrow> Inl ''end of input'' | n # ns \<Rightarrow> Inr (n, unflatten ns))\<rparr>"

definition arena_fits :: "arena \<Rightarrow> nat \<Rightarrow> StructSize \<Rightarrow> bool" where
  "arena_fits m h sz \<longleftrightarrow> h < length (snd m)
     \<and> (case snd m ! h of (a, b, c) \<Rightarrow> length a = 4 * fst sz \<and> length b = fst sz \<and> length c = snd sz)"

lemmas arena_simps = arena_lib_def arena_fits_def arena_struct_def change_def field_def blank_def

lemma arena_alloc: "alloc_ok arena_lib arena_fits (\<lambda>_. 0)"
  unfolding alloc_ok_def
  by (auto simp: arena_simps Let_def nth_append nth_list_update split: prod.splits if_splits)

lemma arena_fields: "fields_ok arena_lib arena_fits (\<lambda>_. 0)"
  unfolding fields_ok_def same_pointers_def
  by (auto simp: arena_simps Let_def nth_list_update split: prod.splits if_splits)

lemma arena_serialize: "serialize_ok arena_lib arena_fits (\<lambda>_. 0)"
  unfolding serialize_ok_def
proof (intro allI impI)
  fix m :: arena
  have "read_message arena_lib (encode_nats (fst m # flatten (snd m))) = Inr m"
    by (simp add: arena_lib_def decode_encode_nats unflatten_flatten del: encode_nats.simps)
  then show "\<exists>b m' f. write_message arena_lib m = Inr b \<and> read_message arena_lib b = Inr m'
      \<and> get_root arena_lib m' = map_sum id f (get_root arena_lib m)
      \<and> (\<forall>h sz. arena_fits m h sz \<longrightarrow>
           (\<forall>j. get_u16 arena_lib m' (f h) j = get_u16 arena_lib m h j) \<and> (\<forall>j. get_u64 arena_lib m' (f h) j = get_u64 arena_lib m h j)
         \<and> (\<forall>j. get_struct arena_lib m' (f h) j = map_sum id f (get_struct arena_lib m h j)))"
    by (intro exI[of _ "encode_nats (fst m # flatten (snd m))"] exI[of _ m] exI[of _ id])
       (simp add: sum.map_id0 arena_lib_def)
qed

lemma arena_ok: "capnp_ok arena_lib arena_fits (\<lambda>_. 0)"
  by (simp add: capnp_ok_def arena_alloc arena_fields arena_serialize)

theorem p2p_message_round_trip_witness:
  "(\<exists>bytes. P2pMessage_to_bytes arena_lib (MsgPong 42 99) = (Ok bytes () :: (unit, P2pError, bytes) outcome)
      \<and> P2pMessage_from_bytes arena_lib bytes = Ok (MsgPong 42 99) ())
   \<and> (let W = gateway_codec arena_lib \<lparr>rmp_ser = \<lambda>_. None, rmp_de = \<lambda>_. Inl [], capnp_write = \<lambda>_. [], capnp_read = \<lambda>_. Inl []\<rparr>
      in capnp_read W (capnp_write W (MsgPong 42 99)) = Inr (MsgPong 42 99))"
  unfolding Let_def by (rule p2p_message_round_trip[OF arena_ok])

text \<open>
  A message without structs has no root: reading it panics.
\<close>

lemma rootless_message_panics: "is_panic (P2pMessage_from_bytes arena_lib [0])"
  by (simp add: from_bytes_panics_iff arena_lib_def unflatten.simps)

end
