(* ===== verification/Multiplex.thy ===== *)
theory Multiplex
  imports Gateway_Paths
begin

text \<open>
  The multiplexer (\<open>lib3h/src/transport/transport_multiplex/mplex.rs\<close>): one network gateway shared by
  a route per joined space and agent. Requests of the owner and of the routes go to the inner
  gateway, its answers go back to where the request came from, and data for one agent in one
  space goes to that route.

  The inner gateway is any actor: its owner's endpoint, with a \<open>child_run\<close> per \<open>process\<close> call.
  \<open>route_endpoints\<close> is the list of entries in the order of iteration. A message keeps a clone of the
  sender it has to answer on, also when its route is gone: routes are numbered (\<open>rt_serial\<close>), callbacks name the
  number, and \<open>mx_orphans\<close> has the senders of removed routes.
\<close>

section \<open>State\<close>

record LocalRouteSpec =
  lrs_space_address :: SpaceHash
  lrs_local_agent_id :: Address

type_synonym route_sender = "(RequestToParent, RequestToChildResponse, TransportError) GhostEndpointMessage Sender"

record Route =
  rt_serial :: nat
  rt_endpoint :: "unit TransportActorSelfEndpoint"

datatype MxInnerCallback =
    RespondToRoute nat ToChildMessage
  | RespondToOwner GatewayToChildMessage
  | LogForward

datatype MxSelfCallback = RespondToInner GatewayToParentMessage

record TransportMultiplex =
  mx_endpoint_parent :: "GatewayParentEndpoint option"
  mx_endpoint_self :: "MxSelfCallback GatewaySelfEndpoint Detach"
  mx_inner_gateway :: "MxInnerCallback GatewayOwnerEndpoint Detach"
  mx_route_endpoints :: "(LocalRouteSpec \<times> Route) list Detach"
  mx_orphans :: "(nat \<times> route_sender) list"
  mx_serial :: nat
  mx_draws :: nat

type_synonym 'a mx_result = "(TransportMultiplex, GhostError, 'a) outcome"

record mx_env = gateway_env +
  me_dbg_response :: "GatewayRequestToChildResponse \<Rightarrow> string"
  me_dbg_route :: "LocalRouteSpec \<Rightarrow> string"

section \<open>Routes\<close>

definition TransportMultiplex_new :: "GatewayParentEndpoint option \<Rightarrow> (unit, GhostError, TransportMultiplex) outcome" where
  "TransportMultiplex_new inner_gateway =
     (case (create_ghost_channel, inner_gateway) of
        ((ep_parent, ep_self), Some inner) \<Rightarrow>
          Ok \<lparr>mx_endpoint_parent = Some ep_parent, mx_endpoint_self = Detach_new (wrap_endpoint ''mplex_to_parent_'' ep_self),
              mx_inner_gateway = Detach_new (wrap_endpoint ''mplex_to_inner_gateway_'' inner),
              mx_route_endpoints = Detach_new [], mx_orphans = [], mx_serial = 0, mx_draws = 0\<rparr> ()
      | (_, None) \<Rightarrow> Panic ''exists'')"

definition mx_take_parent_endpoint :: "TransportMultiplex \<Rightarrow> GatewayParentEndpoint option \<times> TransportMultiplex" where
  "mx_take_parent_endpoint m = (mx_endpoint_parent m, m\<lparr>mx_endpoint_parent := None\<rparr>)"

definition on_routes ::
  "((LocalRouteSpec \<times> Route) list \<Rightarrow> ((LocalRouteSpec \<times> Route) list, 'e, 'a) outcome) \<Rightarrow> TransportMultiplex \<Rightarrow>
   (TransportMultiplex, 'e, 'a) outcome" where
  "on_routes = detach_deref_mut mx_route_endpoints (\<lambda>rs m. m\<lparr>mx_route_endpoints := rs\<rparr>)"

definition create_agent_space_route ::
  "SpaceHash \<Rightarrow> Address \<Rightarrow> TransportMultiplex \<Rightarrow> (TransportMultiplex, 'e, TransportActorParentEndpoint) outcome" where
  "create_agent_space_route space_address local_agent_id m =
     (case create_ghost_channel of (ep_parent, ep_self) \<Rightarrow>
        let spec = \<lparr>lrs_space_address = space_address, lrs_local_agent_id = local_agent_id\<rparr>;
            route = \<lparr>rt_serial = mx_serial m, rt_endpoint = wrap_endpoint ''mplex_to_route_'' ep_self\<rparr>
        in lift_state (\<lambda>m. m\<lparr>mx_serial := Suc (mx_serial m)\<rparr>)
             (on_routes (\<lambda>rs. if map_of rs spec \<noteq> None then Panic ''create_agent_space_route can only be called ONCE!''
                              else Ok ep_parent (AList.update spec route rs)) m))"

definition drop_routes :: "LocalRouteSpec list \<Rightarrow> (LocalRouteSpec \<times> Route) list \<Rightarrow> TransportMultiplex \<Rightarrow>
    (LocalRouteSpec \<times> Route) list \<times> TransportMultiplex" where
  "drop_routes specs rs m = (filter (\<lambda>(spec, r). spec \<notin> set specs) rs,
     m\<lparr>mx_orphans := mx_orphans m @ map (\<lambda>(spec, r). (rt_serial r, gce_sender (rt_endpoint r))) (filter (\<lambda>(spec, r). spec \<in> set specs) rs)\<rparr>)"

definition remove_agent_space_route ::
  "SpaceHash \<Rightarrow> Address \<Rightarrow> TransportMultiplex \<Rightarrow> (TransportMultiplex, 'e, Route option) outcome" where
  "remove_agent_space_route space_address local_agent_id m =
     (let spec = \<lparr>lrs_space_address = space_address, lrs_local_agent_id = local_agent_id\<rparr>
      in case mx_route_endpoints m of
           Detach (Some rs) \<Rightarrow>
             (case drop_routes [spec] rs m of (rs', m') \<Rightarrow> Ok (map_of rs spec) (m'\<lparr>mx_route_endpoints := Detach (Some rs')\<rparr>))
         | Detach None \<Rightarrow> Panic ''detach exists-deref-mut'')"

definition received_data_for_agent_space_route ::
  "mx_env \<Rightarrow> SpaceHash \<Rightarrow> Address \<Rightarrow> Address \<Rightarrow> Opaque \<Rightarrow> TransportMultiplex \<Rightarrow> (TransportMultiplex, Lib3hError, unit) outcome" where
  "received_data_for_agent_space_route env space_address local_agent_id remote_agent_id payload m =
     (let spec = \<lparr>lrs_space_address = space_address, lrs_local_agent_id = local_agent_id\<rparr>
      in case (with_agent_id (ge_url env) remote_agent_id :: (unit, Lib3hError, Lib3hUri) outcome) of
           Ok path _ \<Rightarrow>
             on_routes (\<lambda>rs. case map_of rs spec of
                None \<Rightarrow> Err (new_other (''no such route: '' @ me_dbg_route env spec)) rs
              | Some r \<Rightarrow> map_err Lib3hGhostError (lift_state (\<lambda>ep. AList.update spec (r\<lparr>rt_endpoint := ep\<rparr>) rs)
                  (publish (ge_bt env) (ReceivedData path payload) (rt_endpoint r)))) m
         | Err e _ \<Rightarrow> Err e m
         | Panic msg \<Rightarrow> Panic msg)"

section \<open>Talking to the inner gateway, the owner and the routes\<close>

definition mx_req :: "mx_env \<Rightarrow> TransportMultiplex \<Rightarrow> req_env" where
  "mx_req env m = \<lparr>re_nanoid = ge_nanoid env (mx_draws m), re_now = ge_now env, re_bt = ge_bt env\<rparr>"

definition mx_drawn :: "unit mx_result \<Rightarrow> unit mx_result" where
  "mx_drawn r = lift_state (\<lambda>m. m\<lparr>mx_draws := Suc (mx_draws m)\<rparr>) r"

definition mx_inner_request :: "mx_env \<Rightarrow> GatewayRequestToChild \<Rightarrow> MxInnerCallback \<Rightarrow> TransportMultiplex \<Rightarrow> unit mx_result" where
  "mx_inner_request env payload cb m = mx_drawn
     (detach_deref_mut mx_inner_gateway (\<lambda>d m. m\<lparr>mx_inner_gateway := d\<rparr>) (request (mx_req env m) payload cb) m)"

definition mx_self_request :: "mx_env \<Rightarrow> GatewayRequestToParent \<Rightarrow> MxSelfCallback \<Rightarrow> TransportMultiplex \<Rightarrow> unit mx_result" where
  "mx_self_request env payload cb m = mx_drawn
     (detach_deref_mut mx_endpoint_self (\<lambda>d m. m\<lparr>mx_endpoint_self := d\<rparr>) (request (mx_req env m) payload cb) m)"

definition mx_self_publish :: "mx_env \<Rightarrow> GatewayRequestToParent \<Rightarrow> TransportMultiplex \<Rightarrow> unit mx_result" where
  "mx_self_publish env payload =
     detach_deref_mut mx_endpoint_self (\<lambda>d m. m\<lparr>mx_endpoint_self := d\<rparr>) (publish (ge_bt env) payload)"

definition mx_owner_respond ::
  "mx_env \<Rightarrow> GatewayToChildMessage \<Rightarrow> Lib3hError + GatewayRequestToChildResponse \<Rightarrow> TransportMultiplex \<Rightarrow> unit mx_result" where
  "mx_owner_respond env msg payload =
     detach_deref_mut mx_endpoint_self (\<lambda>d m. m\<lparr>mx_endpoint_self := d\<rparr>)
       (\<lambda>ep. lift_state (\<lambda>s. ep\<lparr>gce_sender := s\<rparr>) (GhostMessage_respond (ge_bt env) msg payload (gce_sender ep)))"

definition mx_inner_respond ::
  "mx_env \<Rightarrow> GatewayToParentMessage \<Rightarrow> Lib3hError + GatewayRequestToParentResponse \<Rightarrow> TransportMultiplex \<Rightarrow> unit mx_result" where
  "mx_inner_respond env msg payload =
     detach_deref_mut mx_inner_gateway (\<lambda>d m. m\<lparr>mx_inner_gateway := d\<rparr>)
       (\<lambda>ep. lift_state (\<lambda>s. ep\<lparr>gce_sender := s\<rparr>) (GhostMessage_respond (ge_bt env) msg payload (gce_sender ep)))"

text \<open>
  \<open>respond\<close> on a message of route \<open>n\<close>: on the route's endpoint, or on the sender left of a removed route.
\<close>

fun respond_on_route ::
  "(route_sender \<Rightarrow> (route_sender, GhostError, unit) outcome) \<Rightarrow> nat \<Rightarrow> (LocalRouteSpec \<times> Route) list \<Rightarrow>
   ((LocalRouteSpec \<times> Route) list, GhostError, unit) outcome option" where
  "respond_on_route f n [] = None"
| "respond_on_route f n ((spec, r) # rs) =
     (if rt_serial r = n
      then Some (lift_state (\<lambda>s. (spec, r\<lparr>rt_endpoint := (rt_endpoint r)\<lparr>gce_sender := s\<rparr>\<rparr>) # rs) (f (gce_sender (rt_endpoint r))))
      else map_option (lift_state (Cons (spec, r))) (respond_on_route f n rs))"

definition mx_route_respond ::
  "mx_env \<Rightarrow> nat \<Rightarrow> ToChildMessage \<Rightarrow> TransportError + RequestToChildResponse \<Rightarrow> TransportMultiplex \<Rightarrow> unit mx_result" where
  "mx_route_respond env n msg payload m =
     (let f = GhostMessage_respond (ge_bt env) msg payload;
          rs = (case mx_route_endpoints m of Detach (Some rs) \<Rightarrow> rs | Detach None \<Rightarrow> [])
      in case respond_on_route f n rs of
           Some r \<Rightarrow> lift_state (\<lambda>rs. m\<lparr>mx_route_endpoints := Detach (Some rs)\<rparr>) r
         | None \<Rightarrow>
             (case map_of (mx_orphans m) n of
                Some s \<Rightarrow> lift_state (\<lambda>s. m\<lparr>mx_orphans := AList.update n s (mx_orphans m)\<rparr>) (f s)
              | None \<Rightarrow> Panic ''no such sender''))"

section \<open>Handlers\<close>

definition handle_received_data :: "mx_env \<Rightarrow> Lib3hUri \<Rightarrow> Opaque \<Rightarrow> TransportMultiplex \<Rightarrow> unit mx_result" where
  "handle_received_data env uri payload = mx_self_publish env (TransportToParent (ReceivedData uri payload))"

definition handle_msg_from_inner :: "mx_env \<Rightarrow> GatewayToParentMessage \<Rightarrow> TransportMultiplex \<Rightarrow> unit mx_result" where
  "handle_msg_from_inner env msg0 m =
     (case take_message msg0 of
        (None, _) \<Rightarrow> Panic ''exists''
      | (Some (TransportToParent (ReceivedData uri payload)), _) \<Rightarrow> handle_received_data env uri payload m
      | (Some data, msg) \<Rightarrow>
          if is_request msg then mx_self_request env data (RespondToInner msg) m else mx_self_publish env data m)"

definition handle_route_bind :: "mx_env \<Rightarrow> nat \<Rightarrow> ToChildMessage \<Rightarrow> Lib3hUri \<Rightarrow> TransportMultiplex \<Rightarrow> unit mx_result" where
  "handle_route_bind env n msg spec = mx_inner_request env (TransportToChild (Bind spec)) (RespondToRoute n msg)"

definition handle_route_send_message ::
  "mx_env \<Rightarrow> nat \<Rightarrow> ToChildMessage \<Rightarrow> Lib3hUri \<Rightarrow> Opaque \<Rightarrow> TransportMultiplex \<Rightarrow> unit mx_result" where
  "handle_route_send_message env n msg uri payload =
     mx_inner_request env (TransportToChild (create_send_message uri payload)) (RespondToRoute n msg)"

definition handle_msg_from_route :: "mx_env \<Rightarrow> nat \<Rightarrow> ToChildMessage \<Rightarrow> TransportMultiplex \<Rightarrow> unit mx_result" where
  "handle_msg_from_route env n msg0 m =
     (case take_message msg0 of
        (None, _) \<Rightarrow> Panic ''exists''
      | (Some (Bind spec), msg) \<Rightarrow> handle_route_bind env n msg spec m
      | (Some (SendMessage uri payload), msg) \<Rightarrow> handle_route_send_message env n msg uri payload m)"

definition mx_handle_msg_from_parent :: "mx_env \<Rightarrow> GatewayToChildMessage \<Rightarrow> TransportMultiplex \<Rightarrow> unit mx_result" where
  "mx_handle_msg_from_parent env msg0 m =
     (case take_message msg0 of
        (None, _) \<Rightarrow> Panic ''exists''
      | (Some data, msg) \<Rightarrow> mx_inner_request env data (if is_request msg then RespondToOwner msg else LogForward) m)"

section \<open>Callbacks\<close>

text \<open>The answer for a route: transport answers pass, anything else becomes an error.\<close>

definition route_answer ::
  "mx_env \<Rightarrow> (GatewayRequestToChildResponse, Lib3hError) GhostCallbackData \<Rightarrow> TransportError + RequestToChildResponse" where
  "route_answer env response =
     (case response of
        CbTimeout bt \<Rightarrow> Inl (TransportOther (''timeout: '' @ ge_dbg_bt env bt))
      | CbResponse (Inl e) \<Rightarrow> Inl (TransportOther (ge_dbg_lib3h env e))
      | CbResponse (Inr (TransportResponse r)) \<Rightarrow> Inr r
      | CbResponse (Inr r) \<Rightarrow> Inl (TransportOther (''bad type: '' @ me_dbg_response env r)))"

fun mx_inner_callback :: "mx_env \<Rightarrow> MxInnerCallback \<Rightarrow>
    (GatewayRequestToChildResponse, Lib3hError) GhostCallbackData \<Rightarrow> TransportMultiplex \<Rightarrow> unit mx_result" where
  "mx_inner_callback env (RespondToRoute n msg) response m = mx_route_respond env n msg (route_answer env response) m"
| "mx_inner_callback env (RespondToOwner msg) response m =
     mx_owner_respond env msg (case response of
        CbTimeout bt \<Rightarrow> Inl (Lib3hOther (''timeout: '' @ ge_dbg_bt env bt)) | CbResponse r \<Rightarrow> r) m"
| "mx_inner_callback env LogForward response m = Ok () m"

fun mx_self_callback :: "mx_env \<Rightarrow> MxSelfCallback \<Rightarrow>
    (GatewayRequestToParentResponse, Lib3hError) GhostCallbackData \<Rightarrow> TransportMultiplex \<Rightarrow> unit mx_result" where
  "mx_self_callback env (RespondToInner msg) response m =
     mx_inner_respond env msg (case response of
        CbTimeout bt \<Rightarrow> Inl (Lib3hOther (''timeout: '' @ ge_dbg_bt env bt)) | CbResponse r \<Rightarrow> r) m"

section \<open>Processing\<close>

definition mx_call :: "('cb \<Rightarrow> ('r, 'e) GhostCallbackData \<Rightarrow> TransportMultiplex \<Rightarrow> unit mx_result) \<Rightarrow> ('cb, TransportMultiplex \<times> 's, 'r, 'e) call" where
  "mx_call f cb data st = (case st of (m, s) \<Rightarrow> lift_state (\<lambda>m. (m, s)) (f cb data m))"

text \<open>The multiplexer makes no request on a route, so no callback exists there.\<close>

definition mx_no_callback :: "(unit, TransportMultiplex \<times> route_sender, RequestToParentResponse, TransportError) call" where
  "mx_no_callback cb response st = Ok () st"

definition mx_drain ::
  "(TransportMultiplex \<Rightarrow> ('cb, 'ro, 'ror, 'rs, 'rsr, 'err) GhostContextEndpoint Detach) \<Rightarrow>
   (('cb, 'ro, 'ror, 'rs, 'rsr, 'err) GhostContextEndpoint Detach \<Rightarrow> TransportMultiplex \<Rightarrow> TransportMultiplex) \<Rightarrow>
   TransportMultiplex \<Rightarrow> 'rs GhostMessage list mx_result" where
  "mx_drain get put = detach_deref_mut get put (\<lambda>ep. case drain_messages ep of (ms, ep') \<Rightarrow> Ok ms ep')"

definition mx_process_owner :: "mx_env \<Rightarrow> TransportMultiplex \<Rightarrow> unit mx_result" where
  "mx_process_owner env m =
     bind_ok (detach_run mx_endpoint_self (\<lambda>d m. m\<lparr>mx_endpoint_self := d\<rparr>)
       (endpoint_process (ge_rid_msg env) (mx_call (mx_self_callback env)) (ge_now env)) m) (\<lambda>_ m.
     bind_ok (mx_drain mx_endpoint_self (\<lambda>d m. m\<lparr>mx_endpoint_self := d\<rparr>) m) (\<lambda>msgs.
     for_each (\<lambda>msg m. map_err (via_lib3h (gateway_env.truncate env)) (mx_handle_msg_from_parent env msg m)) msgs))"

definition mx_process_inner ::
  "mx_env \<Rightarrow> (GatewayRequestToParent, GatewayRequestToChildResponse, Lib3hError) child_run \<Rightarrow> TransportMultiplex \<Rightarrow> unit mx_result" where
  "mx_process_inner env inner m =
     bind_ok (detach_run mx_inner_gateway (\<lambda>d m. m\<lparr>mx_inner_gateway := d\<rparr>)
       (child_process (ge_rid_msg env) (mx_call (mx_inner_callback env)) (ge_now env) inner) m) (\<lambda>_ m.
     bind_ok (mx_drain mx_inner_gateway (\<lambda>d m. m\<lparr>mx_inner_gateway := d\<rparr>) m) (\<lambda>msgs.
     for_each (\<lambda>msg m. map_err (via_lib3h (gateway_env.truncate env)) (handle_msg_from_inner env msg m)) msgs))"

text \<open>
  The loop over the routes, in the order of the list: \<open>visited\<close> are the entries behind it,
  \<open>disconnected\<close> the ones to remove after it. An error leaves the loop at once, with all routes kept.
\<close>

fun mx_route_loop ::
  "mx_env \<Rightarrow> (LocalRouteSpec \<times> Route) list \<Rightarrow> LocalRouteSpec list \<Rightarrow> (LocalRouteSpec \<times> Route) list \<times> TransportMultiplex \<Rightarrow>
   ((LocalRouteSpec \<times> Route) list \<times> TransportMultiplex, GhostError, unit) outcome" where
  "mx_route_loop env visited disconnected ([], m) = Ok () (drop_routes disconnected visited m)"
| "mx_route_loop env visited disconnected ((spec, r) # rest, m) =
     (case endpoint_process (ge_rid_msg env) mx_no_callback (ge_now env) (rt_endpoint r, m) of
        Err e (ep, m) \<Rightarrow>
          if e = EndpointDisconnected
          then mx_route_loop env (visited @ [(spec, r\<lparr>rt_endpoint := ep\<rparr>)]) (disconnected @ [spec]) (rest, m)
          else Err (via_transport (gateway_env.truncate env) e) (visited @ (spec, r\<lparr>rt_endpoint := ep\<rparr>) # rest, m)
      | Ok _ (ep, m) \<Rightarrow>
          (case drain_messages ep of (msgs, ep) \<Rightarrow>
             (case for_each (handle_msg_from_route env (rt_serial r)) msgs m of
                Ok _ m \<Rightarrow> mx_route_loop env (visited @ [(spec, r\<lparr>rt_endpoint := ep\<rparr>)]) disconnected (rest, m)
              | Err e m \<Rightarrow> Err (Other (''TransportError: '' @ ge_dbg_lib3h env (Lib3hGhostError e)))
                             (visited @ (spec, r\<lparr>rt_endpoint := ep\<rparr>) # rest, m)
              | Panic msg \<Rightarrow> Panic msg))
      | Panic msg \<Rightarrow> Panic msg)"

definition mx_process_routes :: "mx_env \<Rightarrow> TransportMultiplex \<Rightarrow> unit mx_result" where
  "mx_process_routes env =
     detach_run mx_route_endpoints (\<lambda>rs m. m\<lparr>mx_route_endpoints := rs\<rparr>) (\<lambda>(rs, m). mx_route_loop env [] [] (rs, m))"

definition mx_process_concrete ::
  "mx_env \<Rightarrow> (GatewayRequestToParent, GatewayRequestToChildResponse, Lib3hError) child_run \<Rightarrow> TransportMultiplex \<Rightarrow> WorkWasDone mx_result" where
  "mx_process_concrete env inner m =
     bind_ok (mx_process_owner env m) (\<lambda>_ m.
     bind_ok (mx_process_inner env inner m) (\<lambda>_ m.
     bind_ok (mx_process_routes env m) (\<lambda>_. Ok False)))"

end
