(* ===== verification/Engine_Protocol.thy ===== *)
theory Engine_Protocol
  imports Multiplex Track
begin

text \<open>
  What the engine speaks with its client: the requests and responses of
  \<open>lib3h_protocol/src/protocol.rs\<close> with their data (\<open>data_types.rs\<close>), and the engine's configuration
  (\<open>lib3h/src/engine/mod.rs\<close>).
\<close>

section \<open>Data\<close>

record SpaceData =
  spd_request_id :: string
  spd_space_address :: SpaceHash
  spd_agent_id :: Address

record ConnectedData =
  cnd_request_id :: string
  cnd_uri :: Lib3hUri

record UnboundData =
  ubd_uri :: Lib3hUri

record QueryEntryData =
  qed_space_address :: SpaceHash
  qed_entry_address :: EntryHash
  qed_request_id :: string
  qed_requester_agent_id :: Address
  qed_query :: Opaque

record QueryEntryResultData =
  qer_space_address :: SpaceHash
  qer_entry_address :: EntryHash
  qer_request_id :: string
  qer_requester_agent_id :: Address
  qer_responder_agent_id :: Address
  qer_query_result :: Opaque

record ProvidedEntryData =
  ped_space_address :: SpaceHash
  ped_provider_agent_id :: Address
  ped_entry :: EntryData

record StoreEntryAspectData =
  sea_request_id :: string
  sea_space_address :: SpaceHash
  sea_provider_agent_id :: Address
  sea_entry_address :: EntryHash
  sea_entry_aspect :: EntryAspectData

record DropEntryData =
  ded_space_address :: SpaceHash
  ded_request_id :: string
  ded_entry_address :: EntryHash

record FetchEntryData =
  fed_space_address :: SpaceHash
  fed_entry_address :: EntryHash
  fed_request_id :: string
  fed_provider_agent_id :: Address
  fed_aspect_address_list :: "AspectHash list option"

record FetchEntryResultData =
  fer_space_address :: SpaceHash
  fer_provider_agent_id :: Address
  fer_request_id :: string
  fer_entry :: EntryData

record GetListData =
  gld_space_address :: SpaceHash
  gld_provider_agent_id :: Address
  gld_request_id :: string

text \<open>The address map in the order of iteration.\<close>

record EntryListData =
  eld_space_address :: SpaceHash
  eld_provider_agent_id :: Address
  eld_request_id :: string
  eld_address_map :: "(EntryHash, AspectHash list) hashmap"

section \<open>Requests and responses\<close>

datatype ClientToLib3h =
    ClientBootstrap BootstrapData
  | JoinSpace SpaceData
  | LeaveSpace SpaceData
  | SendDirectMessage DirectMessageData
  | FetchEntry FetchEntryData
  | PublishEntry ProvidedEntryData
  | QueryEntry QueryEntryData

datatype ClientToLib3hResponse =
    ClientBootstrapSuccess
  | SendDirectMessageResult DirectMessageData
  | FetchEntryResult FetchEntryResultData
  | QueryEntryResult QueryEntryResultData
  | JoinSpaceResult
  | LeaveSpaceResult

datatype Lib3hToClient =
    Connected ConnectedData
  | Unbound UnboundData
  | ClientSendDirectMessageResult DirectMessageData
  | HandleSendDirectMessage DirectMessageData
  | HandleFetchEntry FetchEntryData
  | HandleStoreEntryAspect StoreEntryAspectData
  | HandleDropEntry DropEntryData
  | HandleQueryEntry QueryEntryData
  | HandleGetAuthoringEntryList GetListData
  | HandleGetGossipingEntryList GetListData

datatype Lib3hToClientResponse =
    HandleSendDirectMessageResult DirectMessageData
  | HandleFetchEntryResult FetchEntryResultData
  | HandleStoreEntryAspectResult
  | HandleDropEntryResult
  | HandleQueryEntryResult QueryEntryResultData
  | HandleGetAuthoringEntryListResult EntryListData
  | HandleGetGossipingEntryListResult EntryListData

type_synonym ClientToLib3hMessage = "ClientToLib3h GhostMessage"
type_synonym Lib3hToClientMessage = "Lib3hToClient GhostMessage"

section \<open>Configuration\<close>

type_synonym ChainId = "SpaceHash \<times> Address"

datatype RealEngineTrackerData = GetGossipingEntryList | GetAuthoringEntryList | DataForAuthorEntry | TrackHoldEntryRequested

text \<open>The TLS settings of a websocket are opaque here: they are only passed on.\<close>

datatype 'tls TransportConfig = WebsocketTransport 'tls | MemoryTransport string

record 'tls EngineConfig =
  network_id :: GatewayId
  transport_configs :: "'tls TransportConfig list"
  bootstrap_nodes :: "Lib3hUri list"
  work_dir :: string
  log_level :: char
  bind_url :: Lib3hUri
  dht_gossip_interval :: u64
  dht_timeout_threshold :: u64
  dht_custom_config :: bytes

definition DhtConfig_with_engine_config :: "Lib3hUri \<Rightarrow> 'tls EngineConfig \<Rightarrow> DhtConfig" where
  "DhtConfig_with_engine_config name cfg =
     \<lparr>cfg_this_peer_name = name, cfg_custom = dht_custom_config cfg, gossip_interval = dht_gossip_interval cfg,
      timeout_threshold = dht_timeout_threshold cfg\<rparr>"

section \<open>A child with its state\<close>

text \<open>
  The engine holds its gateways and the multiplexer in \<open>GhostParentWrapper\<close>s and also calls
  methods of them directly, so here a run of a child is a function of its state: the new state and the messages
  it put on its queue. \<open>process\<close> of the wrapper runs the child, then the owner's endpoint.
\<close>

type_synonym ('a, 'rp, 'rcr, 'err) owned_run =
  "'a \<Rightarrow> ('a \<times> ('rp, 'rcr, 'err) GhostEndpointMessage list, GhostError, WorkWasDone) outcome"

type_synonym 'a gateway_run = "('a, GatewayRequestToParent, GatewayRequestToChildResponse, Lib3hError) owned_run"

type_synonym ('a, 'cb) gateway_wrapper =
  "('a, 'cb, GatewayRequestToParent, GatewayRequestToParentResponse, GatewayRequestToChild, GatewayRequestToChildResponse, Lib3hError) GhostParentWrapper"

definition owned_process ::
  "(RequestId \<Rightarrow> RequestId list \<Rightarrow> string) \<Rightarrow> ('cb, 'ud \<times> ('rc, 'rpr, 'err) GhostEndpointMessage Sender, 'rcr, 'err) call \<Rightarrow> time \<Rightarrow>
   ('a, 'rp, 'rcr, 'err) owned_run \<Rightarrow> ('a, 'cb, 'rp, 'rpr, 'rc, 'rcr, 'err) GhostParentWrapper \<times> 'ud \<Rightarrow>
   (('a, 'cb, 'rp, 'rpr, 'rc, 'rcr, 'err) GhostParentWrapper \<times> 'ud, GhostError, WorkWasDone) outcome" where
  "owned_process rid_msg call now run st =
     (case st of (w, ud) \<Rightarrow>
        bind_ok (lift_state (\<lambda>(a, ms). (w\<lparr>gpw_actor := a, gpw_endpoint := deliver ms (gpw_endpoint w)\<rparr>, ud)) (run (gpw_actor w))) (\<lambda>did_work (w, ud).
        bind_ok (lift_state (\<lambda>(ep, ud). (w\<lparr>gpw_endpoint := ep\<rparr>, ud)) (endpoint_process rid_msg call now (gpw_endpoint w, ud))) (\<lambda>_. Ok did_work)))"

text \<open>
  This is \<open>GhostParentWrapper::process\<close> on a child that behaves like that.
\<close>

lemma owned_process_wrapper:
  assumes "run (gpw_actor w) = Ok v (a', ms)" and "ap (gpw_actor w) = Ok v a'" and "tr a' (gpw_endpoint w) = deliver ms (gpw_endpoint w)"
  shows "owned_process rid_msg call now run (w, ud) = wrapper_process ap tr rid_msg call now (w, ud)"
  using assms
  by (cases "endpoint_process rid_msg call now (deliver ms (gpw_endpoint w), ud)")
    (auto simp: owned_process_def wrapper_process_def wrapper_step_def)

end
