(* ===== verification/Engine.thy ===== *)
theory Engine
  imports Engine_Protocol
begin

text \<open>
  The engine (\<open>lib3h/src/engine/\<close>): it serves the client, owns the multiplexer with the
  network gateway and one gateway per joined space and agent, and moves messages between them.

  Closures are constructors holding what they capture. \<open>HashMap\<close>s are lists in the order of iteration. The
  \<open>Detach\<close> around a space gateway is never emptied and is left out. Joins are numbered (\<open>sp_serial\<close>): a message of a space gateway
  that has been dropped since cannot be answered any more, even if the space was joined again; \<open>ee_closed\<close> is the text
  of that error. The clock is read once per call; \<open>eng_draws\<close> counts the ids drawn.
\<close>

section \<open>State\<close>

datatype EngineMxCallback =
    StoreBoundUrl
  | CheckBootstrap
  | RespondClientBootstrap ClientToLib3hMessage
  | SendJoinedSpaces Lib3hUri
  | IgnoreDeferred

datatype EngineSpaceCallback =
    FetchNewAspects SpaceHash Address EntryHash "AspectHash list"
  | AfterDirectMessage RequestId ClientToLib3hMessage

datatype EngineClientCallback =
    HoldGossipingList
  | FetchAuthoringList
  | BroadcastFetched SpaceHash Address
  | IgnoreStored
  | RespondQuery ClientToLib3hMessage
  | AnswerEntryRequest FetchEntryData nat GatewayToParentMessage
  | AnswerDirectMessage

type_synonym Multiplexer = "(TransportMultiplex, EngineMxCallback) gateway_wrapper"

record Space =
  sp_serial :: nat
  sp_gateway :: "(P2pGateway, EngineSpaceCallback) gateway_wrapper"

type_synonym Lib3hEndpoint =
  "(EngineClientCallback, Lib3hToClient, Lib3hToClientResponse, ClientToLib3h, ClientToLib3hResponse, Lib3hError) GhostContextEndpoint"

type_synonym client_sender = "(Lib3hToClient, ClientToLib3hResponse, Lib3hError) GhostEndpointMessage Sender"

record 'tls GhostEngine =
  eng_name :: string
  eng_config :: "'tls EngineConfig"
  eng_dht_factory :: "DhtConfig \<Rightarrow> PeerData option \<Rightarrow> DhtEndpoint option"
  request_track :: "RealEngineTrackerData Tracker"
  multiplexer :: "Multiplexer Detach"
  this_net_peer :: PeerData
  network_connections :: "Lib3hUri list"
  space_gateway_map :: "(ChainId, Space) hashmap"
  transport_id :: Address
  multiplexer_defered_sends :: "(Lib3hUri \<times> Opaque) list"
  pending_client_direct_messages :: "(RequestId, ClientToLib3hMessage) hashmap"
  client_endpoint :: "(ClientToLib3h, ClientToLib3hResponse, Lib3hToClient, Lib3hToClientResponse, Lib3hError) GhostEndpoint option"
  lib3h_endpoint :: "Lib3hEndpoint Detach"
  eng_draws :: nat
  eng_serial :: nat

type_synonym ('tls, 'a) eng_ghost = "('tls GhostEngine, GhostError, 'a) outcome"
type_synonym ('tls, 'a) eng_lib3h = "('tls GhostEngine, Lib3hError, 'a) outcome"

record eng_env = mx_env +
  ee_log_error :: bool
  ee_dbg_answer :: "(GatewayRequestToChildResponse, Lib3hError) GhostCallbackData \<Rightarrow> string"
  ee_dbg_chain :: "ChainId \<Rightarrow> string"
  ee_dbg_errors :: "GhostError list \<Rightarrow> string"
  ee_dbg_str :: "string \<Rightarrow> string"
  ee_closed :: string

section \<open>Talking to the client, the multiplexer and the spaces\<close>

text \<open>\<open>GhostError::from(lib3h_error)\<close>, and \<open>from(e.to_string())\<close>, which panics for kinds that cannot be displayed.\<close>

definition as_ghost :: "eng_env \<Rightarrow> ('s, Lib3hError, 'a) outcome \<Rightarrow> ('s, GhostError, 'a) outcome" where
  "as_ghost env = map_err (Lib3hError_to_GhostError (ge_dbg_lib3h env))"

definition displayed :: "('e \<Rightarrow> string option) \<Rightarrow> (string \<Rightarrow> 'f) \<Rightarrow> ('s, 'e, 'a) outcome \<Rightarrow> ('s, 'f, 'a) outcome" where
  "displayed display mk r =
     (case r of
        Ok v s \<Rightarrow> Ok v s
      | Err e s \<Rightarrow> (case display e of Some d \<Rightarrow> Err (mk d) s | None \<Rightarrow> Panic ''unreachable'')
      | Panic m \<Rightarrow> Panic m)"

abbreviation lib3h_display :: "eng_env \<Rightarrow> Lib3hError \<Rightarrow> string option" where
  "lib3h_display env \<equiv> Lib3hError_display (ee_dbg_errors env) (ee_dbg_str env)"

abbreviation ghost_display :: "eng_env \<Rightarrow> GhostError \<Rightarrow> string option" where
  "ghost_display env \<equiv> GhostError_display (ee_dbg_errors env) (ee_dbg_str env)"

fun ignore_err :: "('s, 'e, unit) outcome \<Rightarrow> ('s, 'f, unit) outcome" where
  "ignore_err (Ok v s) = Ok v s"
| "ignore_err (Err e s) = Ok () s"
| "ignore_err (Panic m) = Panic m"

definition eng_req :: "eng_env \<Rightarrow> 'tls GhostEngine \<Rightarrow> req_env" where
  "eng_req env e = \<lparr>re_nanoid = ge_nanoid env (eng_draws e), re_now = ge_now env, re_bt = ge_bt env\<rparr>"

definition eng_drawn :: "('tls, 'a) eng_ghost \<Rightarrow> ('tls, 'a) eng_ghost" where
  "eng_drawn = lift_state (\<lambda>e. e\<lparr>eng_draws := Suc (eng_draws e)\<rparr>)"

definition on_multiplexer :: "(Multiplexer \<Rightarrow> (Multiplexer, 'e, 'a) outcome) \<Rightarrow> 'tls GhostEngine \<Rightarrow> ('tls GhostEngine, 'e, 'a) outcome" where
  "on_multiplexer = detach_deref_mut multiplexer (\<lambda>d e. e\<lparr>multiplexer := d\<rparr>)"

definition on_client :: "(Lib3hEndpoint \<Rightarrow> (Lib3hEndpoint, 'e, 'a) outcome) \<Rightarrow> 'tls GhostEngine \<Rightarrow> ('tls GhostEngine, 'e, 'a) outcome" where
  "on_client = detach_deref_mut lib3h_endpoint (\<lambda>d e. e\<lparr>lib3h_endpoint := d\<rparr>)"

definition multiplexer_request :: "eng_env \<Rightarrow> GatewayRequestToChild \<Rightarrow> EngineMxCallback \<Rightarrow> 'tls GhostEngine \<Rightarrow> ('tls, unit) eng_ghost" where
  "multiplexer_request env p cb e = eng_drawn (on_multiplexer (wrapper_request (eng_req env e) p cb) e)"

definition multiplexer_publish :: "eng_env \<Rightarrow> GatewayRequestToChild \<Rightarrow> 'tls GhostEngine \<Rightarrow> ('tls, unit) eng_ghost" where
  "multiplexer_publish env p = on_multiplexer (wrapper_publish (ge_bt env) p)"

definition client_request :: "eng_env \<Rightarrow> Lib3hToClient \<Rightarrow> EngineClientCallback \<Rightarrow> 'tls GhostEngine \<Rightarrow> ('tls, unit) eng_ghost" where
  "client_request env p cb e = eng_drawn (on_client (request (eng_req env e) p cb) e)"

definition client_publish :: "eng_env \<Rightarrow> Lib3hToClient \<Rightarrow> 'tls GhostEngine \<Rightarrow> ('tls, unit) eng_ghost" where
  "client_publish env p = on_client (publish (ge_bt env) p)"

text \<open>\<open>respond\<close> on a message of the client, while \<open>lib3h_endpoint\<close> is attached.\<close>

definition client_respond :: "eng_env \<Rightarrow> ClientToLib3hMessage \<Rightarrow> Lib3hError + ClientToLib3hResponse \<Rightarrow> 'tls GhostEngine \<Rightarrow> ('tls, unit) eng_ghost" where
  "client_respond env msg payload =
     on_client (\<lambda>ep. lift_state (\<lambda>s. ep\<lparr>gce_sender := s\<rparr>) (GhostMessage_respond (ge_bt env) msg payload (gce_sender ep)))"

definition put_space :: "ChainId \<Rightarrow> Space \<Rightarrow> 'tls GhostEngine \<Rightarrow> 'tls GhostEngine" where
  "put_space chain_id sp e = e\<lparr>space_gateway_map := AList.update chain_id sp (space_gateway_map e)\<rparr>"

text \<open>On the gateway of a space that is known to be in the map.\<close>

definition on_space :: "ChainId \<Rightarrow> ((P2pGateway, EngineSpaceCallback) gateway_wrapper \<Rightarrow> ((P2pGateway, EngineSpaceCallback) gateway_wrapper, 'e, 'a) outcome) \<Rightarrow>
    'tls GhostEngine \<Rightarrow> ('tls GhostEngine, 'e, 'a) outcome" where
  "on_space chain_id f e =
     (case map_of (space_gateway_map e) chain_id of
        Some sp \<Rightarrow> lift_state (\<lambda>w. put_space chain_id (sp\<lparr>sp_gateway := w\<rparr>) e) (f (sp_gateway sp))
      | None \<Rightarrow> Panic ''no such space'')"

definition space_request :: "eng_env \<Rightarrow> ChainId \<Rightarrow> GatewayRequestToChild \<Rightarrow> EngineSpaceCallback \<Rightarrow> 'tls GhostEngine \<Rightarrow> ('tls, unit) eng_ghost" where
  "space_request env chain_id p cb e = eng_drawn (on_space chain_id (wrapper_request (eng_req env e) p cb) e)"

definition space_publish :: "eng_env \<Rightarrow> ChainId \<Rightarrow> GatewayRequestToChild \<Rightarrow> 'tls GhostEngine \<Rightarrow> ('tls, unit) eng_ghost" where
  "space_publish env chain_id p = on_space chain_id (wrapper_publish (ge_bt env) p)"

definition this_peer_of :: "Space \<Rightarrow> PeerData" where
  "this_peer_of sp = gw_this_peer (gpw_actor (sp_gateway sp))"

definition reserve :: "eng_env \<Rightarrow> 'tls GhostEngine \<Rightarrow> ('tls GhostEngine, 'e, TrackId) outcome" where
  "reserve env e =
     (case Tracker_reserve (ge_checks env) (ge_nanoid env (eng_draws e)) (ge_epoch env) (request_track e) of
        Ok i t \<Rightarrow> Ok i (e\<lparr>request_track := t, eng_draws := Suc (eng_draws e)\<rparr>)
      | Err _ _ \<Rightarrow> Panic ''unreachable''
      | Panic m \<Rightarrow> Panic m)"

text \<open>Continue with the value of a part that does not touch the engine.\<close>

definition with_value :: "(unit, 'e, 'v) outcome \<Rightarrow> ('v \<Rightarrow> 'tls GhostEngine \<Rightarrow> ('tls GhostEngine, 'e, 'a) outcome) \<Rightarrow> 'tls GhostEngine \<Rightarrow> ('tls GhostEngine, 'e, 'a) outcome" where
  "with_value r f e = (case r of Ok v _ \<Rightarrow> f v e | Err x _ \<Rightarrow> Err x e | Panic m \<Rightarrow> Panic m)"

section \<open>Looking up spaces\<close>

definition eng_advertise :: "'tls GhostEngine \<Rightarrow> Lib3hUri" where
  "eng_advertise e = peer_location (this_net_peer e)"

definition get_space :: "eng_env \<Rightarrow> SpaceHash \<Rightarrow> Address \<Rightarrow> 'tls GhostEngine \<Rightarrow> Lib3hError + Space" where
  "get_space env space_address agent e =
     (case map_of (space_gateway_map e) (space_address, agent) of
        Some sp \<Rightarrow> Inr sp
      | None \<Rightarrow> Inl (new_other (''Not in space: '' @ ee_dbg_chain env (space_address, agent))))"

definition this_space_peer :: "ChainId \<Rightarrow> 'tls GhostEngine \<Rightarrow> Lib3hError + PeerData" where
  "this_space_peer chain_id e =
     (case map_of (space_gateway_map e) chain_id of
        Some sp \<Rightarrow> Inr (this_peer_of sp)
      | None \<Rightarrow> Inl (Lib3hOther ''No space at chainId''))"

definition get_all_spaces :: "'tls GhostEngine \<Rightarrow> (SpaceHash \<times> PeerData) list" where
  "get_all_spaces e = map (\<lambda>(chain_id, sp). (fst chain_id, this_peer_of sp)) (space_gateway_map e)"

fun first_space :: "SpaceHash \<Rightarrow> (ChainId, Space) hashmap \<Rightarrow> (ChainId \<times> Space) option" where
  "first_space space_address [] = None"
| "first_space space_address ((chain_id, sp) # spaces) =
     (if fst chain_id = space_address then Some (chain_id, sp) else first_space space_address spaces)"

definition get_first_space_mut :: "SpaceHash \<Rightarrow> 'tls GhostEngine \<Rightarrow> (ChainId \<times> Space) option" where
  "get_first_space_mut space_address e = first_space space_address (space_gateway_map e)"

definition list_includes :: "AspectHash list \<Rightarrow> AspectHash list \<Rightarrow> bool" where
  "list_includes list_a list_b = (set list_b \<subseteq> set list_a)"

section \<open>Gossip\<close>

text \<open>\<open>handle_GossipTo\<close> on a gateway, given by how to publish on it.\<close>

fun gossip_to_each :: "eng_env \<Rightarrow> Address \<Rightarrow> Lib3hUri \<Rightarrow> Opaque \<Rightarrow> (GatewayRequestToChild \<Rightarrow> 's \<Rightarrow> ('s, GhostError, unit) outcome) \<Rightarrow>
    Lib3hUri list \<Rightarrow> 's \<Rightarrow> ('s, Lib3hError, unit) outcome" where
  "gossip_to_each env gid from_peer_name bundle pub [] s = Ok () s"
| "gossip_to_each env gid from_peer_name bundle pub (to_peer_name # rest) s =
     (case rmp_ser (ge_wire env) (Gossip \<lparr>gd_space_address = gid, gd_to_peer_name = to_peer_name, gd_from_peer_name = from_peer_name, gd_bundle = bundle\<rparr>) of
        None \<Rightarrow> Panic ''P2pProtocol::Gossip serialization failed''
      | Some payload \<Rightarrow>
          bind_ok (map_err Lib3hGhostError (pub (TransportToChild (create_send_message to_peer_name payload)) s))
            (\<lambda>_. gossip_to_each env gid from_peer_name bundle pub rest))"

definition handle_GossipTo :: "eng_env \<Rightarrow> Address \<Rightarrow> (GatewayRequestToChild \<Rightarrow> 's \<Rightarrow> ('s, GhostError, unit) outcome) \<Rightarrow>
    Lib3hUri \<Rightarrow> GossipToData \<Rightarrow> 's \<Rightarrow> ('s, Lib3hError, unit) outcome" where
  "handle_GossipTo env gid pub from_peer_name gossip_data =
     gossip_to_each env gid from_peer_name (gtd_bundle gossip_data) pub (peer_name_list gossip_data)"

section \<open>Requests of the client\<close>

text \<open>The first four bytes of a name, for nicknames; shorter names panic.\<close>

definition split_at_4 :: "string \<Rightarrow> (unit, 'e, string) outcome" where
  "split_at_4 s = (if length s < 4 then Panic ''split_at'' else Ok (take 4 s) ())"

definition new_space ::
  "eng_env \<Rightarrow> ChainId \<Rightarrow> Lib3hUri \<Rightarrow> TransportActorParentEndpoint \<Rightarrow> 'tls GhostEngine \<Rightarrow> (unit, Lib3hError, Space) outcome" where
  "new_space env chain_id agent_id_uri route e =
     bind_ok (split_at_4 (fst chain_id)) (\<lambda>space4 _.
     bind_ok (split_at_4 (snd chain_id)) (\<lambda>agent4 _.
     bind_ok (with_transport_id (ge_url env) (transport_id e)) (\<lambda>location _.
     case tea_take_parent_endpoint (TransportEndpointAsActor_new route) of
       (None, _) \<Rightarrow> Panic ''exists''
     | (Some uniplex, _) \<Rightarrow>
         bind_ok (map_err Lib3hGhostError (P2pGateway_new (gateway_env.truncate env) WrapOutputWithP2pDirectMessage
             \<lparr>nickname = space4 @ ''_'' @ agent4, gateway_id = fst chain_id\<rparr> location uniplex (eng_dht_factory e)
             (DhtConfig_with_engine_config agent_id_uri (eng_config e)))) (\<lambda>gateway _.
         bind_ok (map_err Lib3hGhostError (GhostParentWrapper_new gw_take_parent_endpoint gateway ''space_gateway_'')) (\<lambda>w _.
         Ok \<lparr>sp_serial = eng_serial e, sp_gateway = w\<rparr> ())))))"

definition add_gateway :: "eng_env \<Rightarrow> SpaceHash \<Rightarrow> Address \<Rightarrow> 'tls GhostEngine \<Rightarrow> ('tls, ChainId) eng_lib3h" where
  "add_gateway env space_address agent e =
     (let chain_id = (space_address, agent) in
      if map_of (space_gateway_map e) chain_id \<noteq> None then Err (new_other ''Already joined space'') e
      else with_value (with_agent_id (ge_url env) agent) (\<lambda>agent_id_uri e.
        bind_ok (on_multiplexer (\<lambda>w. lift_state (\<lambda>mx. w\<lparr>gpw_actor := mx\<rparr>) (create_agent_space_route space_address agent (gpw_actor w))) e) (\<lambda>route e.
        with_value (new_space env chain_id agent_id_uri route e)
          (\<lambda>sp e. Ok chain_id (put_space chain_id sp (e\<lparr>eng_serial := Suc (eng_serial e)\<rparr>))) e)) e)"

definition broadcast_join :: "eng_env \<Rightarrow> SpaceHash \<Rightarrow> PeerData \<Rightarrow> 'tls GhostEngine \<Rightarrow> ('tls, unit) eng_ghost" where
  "broadcast_join env space_address peer =
     with_value (P2pProtocol_to_bytes (ge_wire env) (BroadcastJoinSpace space_address peer)) (\<lambda>payload. multiplexer_publish env (SendAll payload))"

definition handle_join :: "eng_env \<Rightarrow> SpaceData \<Rightarrow> 'tls GhostEngine \<Rightarrow> ('tls, unit) eng_lib3h" where
  "handle_join env join_msg e =
     bind_ok (add_gateway env (spd_space_address join_msg) (spd_agent_id join_msg) e) (\<lambda>chain_id e.
     case this_space_peer chain_id e of
       Inl err \<Rightarrow> Err err e
     | Inr me \<Rightarrow>
         bind_ok (map_err Lib3hGhostError (space_publish env chain_id (DhtToChild (HoldPeer me)) e)) (\<lambda>_ e.
         bind_ok (reserve env e) (\<lambda>rid1 e.
         bind_ok (map_err Lib3hGhostError (client_request env (HandleGetGossipingEntryList
             \<lparr>gld_space_address = spd_space_address join_msg, gld_provider_agent_id = spd_agent_id join_msg, gld_request_id = rid1\<rparr>) HoldGossipingList e)) (\<lambda>_ e.
         bind_ok (reserve env e) (\<lambda>rid2 e.
         bind_ok (displayed (ghost_display env) Lib3hOther (client_request env (HandleGetAuthoringEntryList
             \<lparr>gld_space_address = spd_space_address join_msg, gld_provider_agent_id = spd_agent_id join_msg, gld_request_id = rid2\<rparr>) FetchAuthoringList e)) (\<lambda>_ e.
         map_err Lib3hGhostError (broadcast_join env (spd_space_address join_msg) me e)))))))"

definition handle_leave_space :: "SpaceData \<Rightarrow> 'tls GhostEngine \<Rightarrow> ('tls, unit) eng_lib3h" where
  "handle_leave_space msg e =
     (let chain_id = (spd_space_address msg, spd_agent_id msg) in
      if map_of (space_gateway_map e) chain_id = None then Err (new_other ''Not part of that space'') e
      else
        bind_ok (on_multiplexer (\<lambda>w. lift_state (\<lambda>mx. w\<lparr>gpw_actor := mx\<rparr>) (remove_agent_space_route (spd_space_address msg) (spd_agent_id msg) (gpw_actor w)))
          (e\<lparr>space_gateway_map := AList.delete chain_id (space_gateway_map e)\<rparr>)) (\<lambda>_. Ok ()))"

definition prepare_direct_peer_msg :: "eng_env \<Rightarrow> SpaceHash \<Rightarrow> Address \<Rightarrow> P2pProtocol \<Rightarrow> 'tls GhostEngine \<Rightarrow> (unit, Lib3hError, Opaque) outcome" where
  "prepare_direct_peer_msg env space_address from_agent_id net_msg e =
     (case this_space_peer (space_address, from_agent_id) e of
        Inl err \<Rightarrow> Err err ()
      | Inr _ \<Rightarrow> P2pProtocol_to_bytes (ge_wire env) net_msg)"

definition handle_direct_message :: "eng_env \<Rightarrow> ClientToLib3hMessage \<Rightarrow> DirectMessageData \<Rightarrow> 'tls GhostEngine \<Rightarrow> ('tls, unit) eng_lib3h" where
  "handle_direct_message env client_msg msg0 e0 =
     (let request_id = ge_nanoid env (eng_draws e0);
          e = e0\<lparr>eng_draws := Suc (eng_draws e0)\<rparr>;
          msg = msg0\<lparr>dm_request_id := request_id\<rparr>
      in case prepare_direct_peer_msg env (dm_space_address msg) (dm_from_agent_id msg) (DirectMessage msg) e of
           Err err _ \<Rightarrow> map_err Lib3hGhostError (client_respond env client_msg (Inl err) e)
         | Panic m \<Rightarrow> Panic m
         | Ok payload _ \<Rightarrow>
             with_value (with_agent_id (ge_url env) (dm_to_agent_id msg)) (\<lambda>uri e.
               map_err Lib3hGhostError (space_request env (dm_space_address msg, dm_from_agent_id msg)
                 (TransportToChild (create_send_message uri payload)) (AfterDirectMessage request_id client_msg) e)) e)"

definition handle_publish_entry :: "eng_env \<Rightarrow> ProvidedEntryData \<Rightarrow> 'tls GhostEngine \<Rightarrow> ('tls, unit) eng_lib3h" where
  "handle_publish_entry env msg e =
     bind_ok (for_each (\<lambda>a e.
         bind_ok (reserve env e) (\<lambda>rid e.
         map_err Lib3hGhostError (client_request env (HandleStoreEntryAspect
           \<lparr>sea_request_id = rid, sea_space_address = ped_space_address msg, sea_provider_agent_id = ped_provider_agent_id msg,
            sea_entry_address = entry_address (ped_entry msg), sea_entry_aspect = a\<rparr>) IgnoreStored e)))
       (aspect_list (ped_entry msg)) e) (\<lambda>_ e.
     case get_space env (ped_space_address msg) (ped_provider_agent_id msg) e of
       Inl err \<Rightarrow> Err err e
     | Inr _ \<Rightarrow> displayed (ghost_display env) new_other
         (space_publish env (ped_space_address msg, ped_provider_agent_id msg) (DhtToChild (BroadcastEntry (ped_entry msg))) e))"

definition handle_query_entry :: "eng_env \<Rightarrow> ClientToLib3hMessage \<Rightarrow> QueryEntryData \<Rightarrow> 'tls GhostEngine \<Rightarrow> ('tls, unit) eng_lib3h" where
  "handle_query_entry env msg data e = displayed (ghost_display env) new_other (client_request env (HandleQueryEntry data) (RespondQuery msg) e)"

definition handle_bootstrap :: "eng_env \<Rightarrow> ClientToLib3hMessage \<Rightarrow> BootstrapData \<Rightarrow> 'tls GhostEngine \<Rightarrow> ('tls, unit) eng_ghost" where
  "handle_bootstrap env msg data = multiplexer_request env (Bootstrap data) (RespondClientBootstrap msg)"

text \<open>The result of a handler, sent as the answer to the client's message.\<close>

definition respond_result :: "eng_env \<Rightarrow> ClientToLib3hMessage \<Rightarrow> ClientToLib3hResponse \<Rightarrow> ('tls, unit) eng_lib3h \<Rightarrow> ('tls, unit) eng_ghost" where
  "respond_result env msg answer r =
     (case r of
        Ok _ e \<Rightarrow> client_respond env msg (Inr answer) e
      | Err err e \<Rightarrow> client_respond env msg (Inl err) e
      | Panic m \<Rightarrow> Panic m)"

definition handle_msg_from_client :: "eng_env \<Rightarrow> ClientToLib3hMessage \<Rightarrow> 'tls GhostEngine \<Rightarrow> ('tls, unit) eng_ghost" where
  "handle_msg_from_client env msg0 e =
     (case take_message msg0 of
        (None, _) \<Rightarrow> Panic ''exists''
      | (Some req, msg) \<Rightarrow>
          (case req of
             ClientBootstrap data \<Rightarrow> handle_bootstrap env msg data e
           | JoinSpace data \<Rightarrow> respond_result env msg JoinSpaceResult (handle_join env data e)
           | LeaveSpace data \<Rightarrow> respond_result env msg LeaveSpaceResult (handle_leave_space data e)
           | SendDirectMessage data \<Rightarrow> displayed (lib3h_display env) Other (handle_direct_message env msg data e)
           | PublishEntry data \<Rightarrow> displayed (lib3h_display env) Other (handle_publish_entry env data e)
           | QueryEntry data \<Rightarrow> displayed (lib3h_display env) Other (handle_query_entry env msg data e)
           | FetchEntry _ \<Rightarrow> Panic ''FetchEntry Deprecated''))"

section \<open>Answers of the client\<close>

text \<open>An entry with valid aspect addresses but no aspect content.\<close>

definition shallow_entry :: "EntryHash \<Rightarrow> AspectHash list \<Rightarrow> EntryData" where
  "shallow_entry address aspects =
     \<lparr>entry_address = address,
      aspect_list = map (\<lambda>a. \<lparr>aspect_address = a, type_hint = [], aspect = [], publish_ts = 0\<rparr>) aspects\<rparr>"

definition handle_HandleGetGossipingEntryListResult :: "eng_env \<Rightarrow> EntryListData \<Rightarrow> 'tls GhostEngine \<Rightarrow> ('tls, unit) eng_lib3h" where
  "handle_HandleGetGossipingEntryListResult env msg e =
     (case get_space env (eld_space_address msg) (eld_provider_agent_id msg) e of
        Inl err \<Rightarrow> Err err e
      | Inr _ \<Rightarrow>
          for_each (\<lambda>(address, aspects) e. displayed (ghost_display env) new_other
            (space_publish env (eld_space_address msg, eld_provider_agent_id msg) (DhtToChild (HoldEntryAspectAddress (shallow_entry address aspects))) e))
          (eld_address_map msg) e)"

definition handle_HandleGetAuthoringEntryListResult :: "eng_env \<Rightarrow> EntryListData \<Rightarrow> 'tls GhostEngine \<Rightarrow> ('tls, unit) eng_lib3h" where
  "handle_HandleGetAuthoringEntryListResult env entries e =
     (let space_address = eld_space_address entries; provider = eld_provider_agent_id entries
      in case get_space env space_address provider e of
           Inl err \<Rightarrow> Err err e
         | Inr _ \<Rightarrow>
             for_each (\<lambda>(address, aspects) e. map_err Lib3hGhostError
               (space_request env (space_address, provider) (DhtToChild (RequestAspectsOf address)) (FetchNewAspects space_address provider address aspects) e))
             (eld_address_map entries) e)"

end
