(* ===== verification/Engine_Layers.thy ===== *)
theory Engine_Layers
  imports Engine
begin

text \<open>
  What the engine does with the answers it gets (the closures of \<open>ghost_engine.rs\<close> and \<open>space_layer.rs\<close>), with
  the network (\<open>network_layer.rs\<close>) and with the spaces (\<open>space_layer.rs\<close>), its \<open>process_concrete\<close>
  (\<open>engine_actor.rs\<close>) and its constructor.

  How the multiplexer and the gateways run is a parameter: a \<open>gateway_run\<close> for the multiplexer and one per space.
\<close>

section \<open>Closures\<close>

text \<open>The answer to a request that has to succeed: anything else panics.\<close>

definition must_answer :: "eng_env \<Rightarrow> string \<Rightarrow> (GatewayRequestToChildResponse, Lib3hError) GhostCallbackData \<Rightarrow>
    (unit, GhostError, GatewayRequestToChildResponse) outcome" where
  "must_answer env timeout response =
     (case response of
        CbTimeout bt \<Rightarrow> Panic (timeout @ ge_dbg_bt env bt)
      | CbResponse (Inl err) \<Rightarrow> Panic (ge_dbg_lib3h env err)
      | CbResponse (Inr r) \<Rightarrow> Ok r ())"

definition defer_send :: "Lib3hUri \<Rightarrow> Opaque \<Rightarrow> 'tls GhostEngine \<Rightarrow> 'tls GhostEngine" where
  "defer_send to_uri payload e = e\<lparr>multiplexer_defered_sends := multiplexer_defered_sends e @ [(to_uri, payload)]\<rparr>"

definition send_joined_spaces :: "eng_env \<Rightarrow> Lib3hUri \<Rightarrow> PeerData list \<Rightarrow> 'tls GhostEngine \<Rightarrow> ('tls, unit) eng_ghost" where
  "send_joined_spaces env net_location peer_list e =
     with_value (P2pProtocol_to_bytes (ge_wire env) (AllJoinedSpaceList (get_all_spaces e))) (\<lambda>payload e.
       case List.find (\<lambda>pd. peer_location pd = net_location) peer_list of
         Some pd \<Rightarrow> Ok () (defer_send (peer_name pd) payload e)
       | None \<Rightarrow> Ok () e) e"

fun eng_mx_callback :: "eng_env \<Rightarrow> EngineMxCallback \<Rightarrow> (GatewayRequestToChildResponse, Lib3hError) GhostCallbackData \<Rightarrow>
    'tls GhostEngine \<Rightarrow> ('tls, unit) eng_ghost" where
  "eng_mx_callback env StoreBoundUrl response e =
     with_value (must_answer env ''timeout: '' response) (\<lambda>r e.
       case r of
         TransportResponse (BindResponse d) \<Rightarrow> Ok () (e\<lparr>this_net_peer := (this_net_peer e)\<lparr>peer_location := bound_url d\<rparr>\<rparr>)
       | _ \<Rightarrow> Panic (''bad response to bind: '' @ me_dbg_response env r)) e"
| "eng_mx_callback env CheckBootstrap response e =
     with_value (must_answer env ''bootstrap timeout: '' response) (\<lambda>_. Ok ()) e"
| "eng_mx_callback env (RespondClientBootstrap msg) response e =
     client_respond env msg (case response of
        CbResponse (Inr BootstrapSuccess) \<Rightarrow> Inr ClientBootstrapSuccess
      | CbResponse (Inl err) \<Rightarrow> Inl err
      | CbTimeout bt \<Rightarrow> Inl (Lib3hOther (''timeout: '' @ ge_dbg_bt env bt))
      | _ \<Rightarrow> Inl (Lib3hOther (''bad response: '' @ ee_dbg_answer env response))) e"
| "eng_mx_callback env (SendJoinedSpaces net_location) response e =
     with_value (must_answer env ''timeout: '' response) (\<lambda>r e.
       case r of
         DhtResponse (PeerListResponse peer_list) \<Rightarrow> send_joined_spaces env net_location peer_list e
       | _ \<Rightarrow> Panic (''bad response to RequestPeerList: '' @ me_dbg_response env r)) e"
| "eng_mx_callback env IgnoreDeferred response e = Ok () e"

definition fetch_entry :: "eng_env \<Rightarrow> SpaceHash \<Rightarrow> Address \<Rightarrow> EntryHash \<Rightarrow> 'tls GhostEngine \<Rightarrow> ('tls, unit) eng_ghost" where
  "fetch_entry env space_address provider address e =
     bind_ok (reserve env e) (\<lambda>rid.
     client_request env (HandleFetchEntry
       \<lparr>fed_space_address = space_address, fed_entry_address = address, fed_request_id = rid, fed_provider_agent_id = provider,
        fed_aspect_address_list = None\<rparr>) (BroadcastFetched space_address provider))"

fun eng_space_callback :: "eng_env \<Rightarrow> EngineSpaceCallback \<Rightarrow> (GatewayRequestToChildResponse, Lib3hError) GhostCallbackData \<Rightarrow>
    'tls GhostEngine \<Rightarrow> ('tls, unit) eng_ghost" where
  "eng_space_callback env (FetchNewAspects space_address provider address aspects) response e =
     (case response of
        CbTimeout bt \<Rightarrow> Err (Other (''timeout: '' @ ge_dbg_bt env bt)) e
      | CbResponse (Inl err) \<Rightarrow> Err (Lib3hError_to_GhostError (ge_dbg_lib3h env) err) e
      | CbResponse (Inr (DhtResponse (AspectsOfResponse maybe_known_aspects))) \<Rightarrow>
          if (case maybe_known_aspects of None \<Rightarrow> True | Some known \<Rightarrow> \<not> list_includes known aspects)
          then fetch_entry env space_address provider address e
          else Ok () e
      | CbResponse (Inr r) \<Rightarrow> Panic (''bad response to RequestAspectsOf: '' @ me_dbg_response env r))"
| "eng_space_callback env (AfterDirectMessage request_id msg) response e =
     (case response of
        CbResponse (Inr (TransportResponse SendMessageSuccess)) \<Rightarrow>
          Ok () (e\<lparr>pending_client_direct_messages := AList.update request_id msg (pending_client_direct_messages e)\<rparr>)
      | _ \<Rightarrow> client_respond env msg (Inl (Lib3hOther (ee_dbg_answer env response))) e)"

text \<open>
  Answers of the client come while \<open>lib3h_endpoint\<close> is detached: \<open>s\<close> is its sender, which the messages
  of the client hold a clone of.
\<close>

definition on_engine :: "('tls GhostEngine \<Rightarrow> ('tls, 'a) eng_ghost) \<Rightarrow> 'tls GhostEngine \<times> client_sender \<Rightarrow>
    ('tls GhostEngine \<times> client_sender, GhostError, 'a) outcome" where
  "on_engine f st = (case st of (e, s) \<Rightarrow> lift_state (\<lambda>e. (e, s)) (f e))"

text \<open>The answer to a list request, and to \<open>HandleFetchEntry\<close> for an authored entry.\<close>

definition answered_list :: "eng_env \<Rightarrow> (Lib3hToClientResponse \<Rightarrow> EntryListData option) \<Rightarrow>
    (EntryListData \<Rightarrow> 'tls GhostEngine \<Rightarrow> ('tls, unit) eng_lib3h) \<Rightarrow> (Lib3hToClientResponse, Lib3hError) GhostCallbackData \<Rightarrow>
    'tls GhostEngine \<Rightarrow> ('tls, unit) eng_ghost" where
  "answered_list env the_list handle response e =
     (case response of
        CbTimeout bt \<Rightarrow> Err (Other (''timeout: '' @ ge_dbg_bt env bt)) e
      | CbResponse (Inl err) \<Rightarrow> Err (Lib3hError_to_GhostError (ge_dbg_lib3h env) err) e
      | CbResponse (Inr r) \<Rightarrow>
          (case the_list r of
             Some msg \<Rightarrow> as_ghost env (handle msg e)
           | None \<Rightarrow> Err (Other ''bad response type'') e))"

definition broadcast_fetched :: "eng_env \<Rightarrow> SpaceHash \<Rightarrow> Address \<Rightarrow> (Lib3hToClientResponse, Lib3hError) GhostCallbackData \<Rightarrow>
    'tls GhostEngine \<Rightarrow> ('tls, unit) eng_ghost" where
  "broadcast_fetched env space_address provider response e =
     (case get_space env space_address provider e of
        Inl err \<Rightarrow> displayed (lib3h_display env) Other (Err err e)
      | Inr _ \<Rightarrow>
          (case response of
             CbTimeout bt \<Rightarrow> Err (Other (''timeout: '' @ ge_dbg_bt env bt)) e
           | CbResponse (Inl err) \<Rightarrow> Err (Lib3hError_to_GhostError (ge_dbg_lib3h env) err) e
           | CbResponse (Inr (HandleFetchEntryResult msg)) \<Rightarrow>
               space_publish env (space_address, provider) (DhtToChild (BroadcastEntry (fer_entry msg))) e
           | _ \<Rightarrow> Err (Other ''bad response type'') e))"

text \<open>\<open>respond\<close> on a request of the space gateway that joined as number \<open>n\<close>.\<close>

definition respond_to_space :: "eng_env \<Rightarrow> ChainId \<Rightarrow> nat \<Rightarrow> GatewayToParentMessage \<Rightarrow> Lib3hError + GatewayRequestToParentResponse \<Rightarrow>
    'tls GhostEngine \<Rightarrow> ('tls, unit) eng_ghost" where
  "respond_to_space env chain_id n msg payload e =
     (case map_of (space_gateway_map e) chain_id of
        Some sp \<Rightarrow>
          if sp_serial sp = n
          then on_space chain_id (on_endpoint (\<lambda>ep. lift_state (\<lambda>s. ep\<lparr>gce_sender := s\<rparr>) (GhostMessage_respond (ge_bt env) msg payload (gce_sender ep)))) e
          else Err (Other (ee_closed env)) e
      | None \<Rightarrow> Err (Other (ee_closed env)) e)"

definition answer_entry_request :: "eng_env \<Rightarrow> FetchEntryData \<Rightarrow> nat \<Rightarrow> GatewayToParentMessage \<Rightarrow>
    (Lib3hToClientResponse, Lib3hError) GhostCallbackData \<Rightarrow> 'tls GhostEngine \<Rightarrow> ('tls, unit) eng_ghost" where
  "answer_entry_request env msg n req response e0 =
     (let chain_id = (fed_space_address msg, fed_provider_agent_id msg);
          (is_data_for_author_list, e) =
            (if Tracker_has (request_track e0) (fed_request_id msg)
             then (case Tracker_remove (fed_request_id msg) (request_track e0) of
                     (value, t) \<Rightarrow> (value = Some DataForAuthorEntry, e0\<lparr>request_track := t\<rparr>))
             else (False, e0))
      in case get_space env (fst chain_id) (snd chain_id) e of
           Inl _ \<Rightarrow> Ok () e
         | Inr _ \<Rightarrow>
             (case response of
                CbResponse (Inr (HandleFetchEntryResult r)) \<Rightarrow>
                  if is_data_for_author_list then space_publish env chain_id (DhtToChild (BroadcastEntry (fer_entry r))) e
                  else respond_to_space env chain_id n req (Inr (DhtToParentResponse (RequestEntryResponse (fer_entry r)))) e
              | CbResponse (Inl err) \<Rightarrow> Panic (''Got error on HandleFetchEntry: '' @ ge_dbg_lib3h env err)
              | CbTimeout bt \<Rightarrow> Panic (''Got timeout on HandleFetchEntry: '' @ ge_dbg_bt env bt)
              | _ \<Rightarrow> Panic ''bad response type''))"

definition answer_direct_message :: "eng_env \<Rightarrow> (Lib3hToClientResponse, Lib3hError) GhostCallbackData \<Rightarrow> 'tls GhostEngine \<Rightarrow> ('tls, unit) eng_ghost" where
  "answer_direct_message env response e =
     (case response of
        CbResponse (Inr (HandleSendDirectMessageResult dm)) \<Rightarrow>
          (case prepare_direct_peer_msg env (dm_space_address dm) (dm_from_agent_id dm) (DirectMessageResult dm) e of
             Ok payload _ \<Rightarrow>
               with_value (with_agent_id (ge_url env) (dm_to_agent_id dm)) (\<lambda>uri.
                 space_publish env (dm_space_address dm, dm_from_agent_id dm) (TransportToChild (create_send_message uri payload))) e
           | Err err _ \<Rightarrow> Panic (ge_dbg_lib3h env err)
           | Panic m \<Rightarrow> Panic m)
      | _ \<Rightarrow> Panic ''unhandled'')"

definition respond_query :: "eng_env \<Rightarrow> ClientToLib3hMessage \<Rightarrow> (Lib3hToClientResponse, Lib3hError) GhostCallbackData \<Rightarrow>
    'tls GhostEngine \<times> client_sender \<Rightarrow> ('tls GhostEngine \<times> client_sender, GhostError, unit) outcome" where
  "respond_query env msg response st =
     (case st of (e, s) \<Rightarrow>
        (case response of
           CbResponse (Inr (HandleQueryEntryResult data)) \<Rightarrow>
             lift_state (\<lambda>s. (e, s)) (GhostMessage_respond (ge_bt env) msg (Inr (QueryEntryResult data)) s)
         | CbResponse (Inl _) \<Rightarrow> Ok () (e, s)
         | CbTimeout _ \<Rightarrow> Ok () (e, s)
         | _ \<Rightarrow> Panic ''bad response type''))"

fun eng_client_callback :: "eng_env \<Rightarrow> EngineClientCallback \<Rightarrow> (Lib3hToClientResponse, Lib3hError) GhostCallbackData \<Rightarrow>
    'tls GhostEngine \<times> client_sender \<Rightarrow> ('tls GhostEngine \<times> client_sender, GhostError, unit) outcome" where
  "eng_client_callback env HoldGossipingList response st =
     on_engine (answered_list env (\<lambda>r. case r of HandleGetGossipingEntryListResult msg \<Rightarrow> Some msg | _ \<Rightarrow> None)
       (handle_HandleGetGossipingEntryListResult env) response) st"
| "eng_client_callback env FetchAuthoringList response st =
     on_engine (answered_list env (\<lambda>r. case r of HandleGetAuthoringEntryListResult msg \<Rightarrow> Some msg | _ \<Rightarrow> None)
       (handle_HandleGetAuthoringEntryListResult env) response) st"
| "eng_client_callback env (BroadcastFetched space_address provider) response st =
     on_engine (broadcast_fetched env space_address provider response) st"
| "eng_client_callback env IgnoreStored response st = Ok () st"
| "eng_client_callback env (RespondQuery msg) response st = respond_query env msg response st"
| "eng_client_callback env (AnswerEntryRequest msg n req) response st = on_engine (answer_entry_request env msg n req response) st"
| "eng_client_callback env AnswerDirectMessage response st = on_engine (answer_direct_message env response) st"

section \<open>The network layer\<close>

definition handle_network_dht_request :: "eng_env \<Rightarrow> DhtRequestToParent \<Rightarrow> 'tls GhostEngine \<Rightarrow> ('tls, unit) eng_lib3h" where
  "handle_network_dht_request env req e =
     (case req of
        GossipTo gossip_data \<Rightarrow>
          expect ''Failed to gossip with multiplexer''
            (handle_GossipTo env (gateway_id (network_id (eng_config e))) (multiplexer_publish env) (peer_name (this_net_peer e)) gossip_data e)
      | GossipUnreliablyTo _ \<Rightarrow> Ok () e
      | HoldPeerRequested peer_data \<Rightarrow>
          map_err Lib3hGhostError (multiplexer_publish env (TransportToChild (create_send_message (peer_location peer_data) [])) e)
      | PeerTimedOut _ \<Rightarrow> Ok () e
      | HoldEntryRequested _ _ \<Rightarrow> Panic ''unreachable''
      | EntryPruned _ \<Rightarrow> Panic ''unreachable''
      | RequestEntryOfParent _ \<Rightarrow> Panic ''unreachable'')"

definition eng_handle_incoming_connection :: "eng_env \<Rightarrow> Lib3hUri \<Rightarrow> 'tls GhostEngine \<Rightarrow> ('tls, unit) eng_lib3h" where
  "eng_handle_incoming_connection env net_location e =
     bind_ok (expect ''sync functions should work'' (multiplexer_request env (DhtToChild RequestPeerList) (SendJoinedSpaces net_location) e)) (\<lambda>_ e.
     bind_ok (if network_connections e = []
              then map_err Lib3hGhostError (client_publish env (Connected \<lparr>cnd_request_id = [], cnd_uri = net_location\<rparr>) e)
              else Ok () e) (\<lambda>_ e.
     Ok () (e\<lparr>network_connections := List.insert net_location (network_connections e)\<rparr>)))"

definition hold_peer_in :: "eng_env \<Rightarrow> PeerData \<Rightarrow> ChainId \<Rightarrow> 'tls GhostEngine \<Rightarrow> ('tls, unit) eng_lib3h" where
  "hold_peer_in env peer_data chain_id e = map_err Lib3hGhostError (space_publish env chain_id (DhtToChild (HoldPeer peer_data)) e)"

definition serve_P2pProtocol :: "eng_env \<Rightarrow> P2pProtocol \<Rightarrow> 'tls GhostEngine \<Rightarrow> ('tls, unit) eng_lib3h" where
  "serve_P2pProtocol env p2p_msg e =
     (case p2p_msg of
        Gossip msg \<Rightarrow>
          (let gossip = DhtToChild (HandleGossip \<lparr>rgb_from_peer_name = gd_from_peer_name msg, rgb_bundle = gd_bundle msg\<rparr>)
           in if gd_space_address msg = gateway_id (network_id (eng_config e)) then ignore_err (multiplexer_publish env gossip e)
              else with_value (Address_from_uri (ge_url env) (gd_to_peer_name msg)) (\<lambda>agent e.
                let chain_id = (gd_space_address msg, agent)
                in if map_of (space_gateway_map e) chain_id \<noteq> None then ignore_err (space_publish env chain_id gossip e) else Ok () e) e)
      | DirectMessage dm \<Rightarrow>
          on_multiplexer (\<lambda>w. lift_state (\<lambda>mx. w\<lparr>gpw_actor := mx\<rparr>)
            (received_data_for_agent_space_route (mx_env.truncate env) (dm_space_address dm) (dm_to_agent_id dm) (dm_from_agent_id dm) (dm_content dm) (gpw_actor w))) e
      | DirectMessageResult _ \<Rightarrow> Panic ''we should never get a DirectMessageResult at this layer... only using DirectMessage''
      | PeerName _ _ _ \<Rightarrow> Ok () e
      | BroadcastJoinSpace _ peer_data \<Rightarrow> for_each (hold_peer_in env peer_data) (keys (space_gateway_map e)) e
      | AllJoinedSpaceList join_list \<Rightarrow>
          for_each (\<lambda>(space_address, peer_data) e.
            case get_first_space_mut space_address e of
              Some (chain_id, _) \<Rightarrow> hold_peer_in env peer_data chain_id e
            | None \<Rightarrow> Ok () e) join_list e
      | CapnProtoMessage _ \<Rightarrow> Panic ''Gateway should handle this case and NOT pass it to us'')"

text \<open>A received payload is a serialized \<open>P2pProtocol\<close>.\<close>

definition with_p2p_message :: "eng_env \<Rightarrow> Opaque \<Rightarrow> (P2pProtocol \<Rightarrow> 'tls GhostEngine \<Rightarrow> ('tls, unit) eng_lib3h) \<Rightarrow>
    'tls GhostEngine \<Rightarrow> ('tls, unit) eng_lib3h" where
  "with_p2p_message env payload f e =
     (if payload = [] then Panic ''We should no longer ever be sending zero length messages''
      else case rmp_de (ge_wire env) payload of
             Inl d \<Rightarrow> Err (Lib3hRmpSerdeDecodeError d) e
           | Inr p2p_msg \<Rightarrow> f p2p_msg e)"

definition handle_network_transport_request :: "eng_env \<Rightarrow> RequestToParent \<Rightarrow> 'tls GhostEngine \<Rightarrow> ('tls, unit) eng_lib3h" where
  "handle_network_transport_request env req e =
     (case req of
        ErrorOccured uri err \<Rightarrow>
          if err = Unbind then map_err Lib3hGhostError (client_publish env (Unbound \<lparr>ubd_uri = uri\<rparr>) e)
          else if ee_log_error env \<and> TransportError_display err = None then Panic ''unreachable''
          else Ok () e
      | IncomingConnection uri \<Rightarrow> eng_handle_incoming_connection env uri e
      | ReceivedData _ payload \<Rightarrow> with_p2p_message env payload (serve_P2pProtocol env) e)"

definition handle_network_request :: "eng_env \<Rightarrow> GatewayToParentMessage \<Rightarrow> 'tls GhostEngine \<Rightarrow> ('tls, unit) eng_lib3h" where
  "handle_network_request env msg e =
     (case fst (take_message msg) of
        None \<Rightarrow> Panic ''exists''
      | Some (DhtToParent req) \<Rightarrow> handle_network_dht_request env req e
      | Some (TransportToParent req) \<Rightarrow> handle_network_transport_request env req e)"

definition eng_call :: "('cb \<Rightarrow> ('r, 'e) GhostCallbackData \<Rightarrow> 'tls GhostEngine \<Rightarrow> ('tls, unit) eng_ghost) \<Rightarrow> ('cb, 'tls GhostEngine \<times> 's, 'r, 'e) call" where
  "eng_call f cb data st = (case st of (e, s) \<Rightarrow> lift_state (\<lambda>e. (e, s)) (f cb data e))"

definition run_multiplexer :: "eng_env \<Rightarrow> TransportMultiplex gateway_run \<Rightarrow> 'tls GhostEngine \<Rightarrow> ('tls, WorkWasDone) eng_ghost" where
  "run_multiplexer env mx_run =
     detach_run multiplexer (\<lambda>d e. e\<lparr>multiplexer := d\<rparr>) (owned_process (ge_rid_msg env) (eng_call (eng_mx_callback env)) (ge_now env) mx_run)"

definition drain_multiplexer :: "'tls GhostEngine \<Rightarrow> ('tls, GatewayToParentMessage list) eng_lib3h" where
  "drain_multiplexer = on_multiplexer (\<lambda>w. case wrapper_drain_messages w of (msgs, w) \<Rightarrow> Ok msgs w)"

definition send_deferred :: "eng_env \<Rightarrow> 'tls GhostEngine \<Rightarrow> ('tls, unit) eng_lib3h" where
  "send_deferred env e =
     for_each (\<lambda>(to_uri, payload) e. map_err Lib3hGhostError
       (multiplexer_request env (TransportToChild (create_send_message to_uri payload)) IgnoreDeferred e))
     (multiplexer_defered_sends e) (e\<lparr>multiplexer_defered_sends := []\<rparr>)"

definition process_multiplexer :: "eng_env \<Rightarrow> TransportMultiplex gateway_run \<Rightarrow> 'tls GhostEngine \<Rightarrow> ('tls, bool) eng_lib3h" where
  "process_multiplexer env mx_run e =
     bind_ok (map_err Lib3hGhostError (run_multiplexer env mx_run e)) (\<lambda>_ e.
     bind_ok (drain_multiplexer e) (\<lambda>msgs e.
     bind_ok (for_each (handle_network_request env) msgs e) (\<lambda>_ e.
     bind_ok (send_deferred env e) (\<lambda>_. Ok (msgs \<noteq> [])))))"

section \<open>The space layer\<close>

definition handle_p2p_protocol :: "eng_env \<Rightarrow> P2pProtocol \<Rightarrow> 'tls GhostEngine \<Rightarrow> ('tls, unit) eng_lib3h" where
  "handle_p2p_protocol env p2p_msg e =
     (case p2p_msg of
        DirectMessage dm \<Rightarrow> map_err Lib3hGhostError (client_request env (HandleSendDirectMessage dm) AnswerDirectMessage e)
      | DirectMessageResult dm \<Rightarrow>
          (case map_of (pending_client_direct_messages e) (dm_request_id dm) of
             Some msg \<Rightarrow>
               map_err Lib3hGhostError (client_respond env msg (Inr (SendDirectMessageResult dm))
                 (e\<lparr>pending_client_direct_messages := AList.delete (dm_request_id dm) (pending_client_direct_messages e)\<rparr>))
           | None \<Rightarrow> Ok () e)
      | Gossip gd \<Rightarrow>
          with_value (Address_from_uri (ge_url env) (gd_to_peer_name gd)) (\<lambda>agent e.
            case get_space env (gd_space_address gd) agent e of
              Inl err \<Rightarrow> Err err e
            | Inr _ \<Rightarrow> map_err Lib3hGhostError (space_publish env (gd_space_address gd, agent)
                (DhtToChild (HandleGossip \<lparr>rgb_from_peer_name = gd_from_peer_name gd, rgb_bundle = gd_bundle gd\<rparr>)) e)) e
      | _ \<Rightarrow> Panic ''can't handle space layer receive of'')"

definition track_held :: "eng_env \<Rightarrow> TrackId \<Rightarrow> 'tls GhostEngine \<Rightarrow> ('tls, unit) eng_lib3h" where
  "track_held env rid e =
     (case Tracker_set (ge_checks env) (ge_epoch env) rid (Some TrackHoldEntryRequested) (request_track e) of
        Ok _ t \<Rightarrow> Ok () (e\<lparr>request_track := t\<rparr>)
      | Err _ _ \<Rightarrow> Panic ''unreachable''
      | Panic m \<Rightarrow> Panic m)"

definition store_aspect :: "eng_env \<Rightarrow> SpaceHash \<Rightarrow> Lib3hUri \<Rightarrow> EntryHash \<Rightarrow> EntryAspectData \<Rightarrow> 'tls GhostEngine \<Rightarrow> ('tls, unit) eng_lib3h" where
  "store_aspect env space_address from_peer_name address asp e =
     bind_ok (reserve env e) (\<lambda>rid.
     with_value (Address_from_uri (ge_url env) from_peer_name) (\<lambda>provider e.
     bind_ok (track_held env rid e) (\<lambda>_ e.
     map_err Lib3hGhostError (client_publish env (HandleStoreEntryAspect
       \<lparr>sea_request_id = rid, sea_space_address = space_address, sea_provider_agent_id = provider, sea_entry_address = address,
        sea_entry_aspect = asp\<rparr>) e))))"

definition handle_space_dht_request :: "eng_env \<Rightarrow> ChainId \<Rightarrow> Space \<Rightarrow> DhtRequestToParent \<Rightarrow> GatewayToParentMessage \<Rightarrow>
    'tls GhostEngine \<Rightarrow> ('tls, unit) eng_lib3h" where
  "handle_space_dht_request env chain_id sp req msg e =
     (case req of
        GossipTo gossip_data \<Rightarrow>
          expect ''Failed to gossip with space_gateway''
            (handle_GossipTo env (fst chain_id) (space_publish env chain_id) (peer_name (this_peer_of sp)) gossip_data e)
      | GossipUnreliablyTo _ \<Rightarrow> Ok () e
      | HoldPeerRequested peer_data \<Rightarrow> ignore_err (space_publish env chain_id (DhtToChild (HoldPeer peer_data)) e)
      | PeerTimedOut _ \<Rightarrow> Ok () e
      | HoldEntryRequested from_peer_name entry \<Rightarrow>
          for_each (store_aspect env (fst chain_id) from_peer_name (entry_address entry)) (aspect_list entry) e
      | EntryPruned _ \<Rightarrow> Ok () e
      | RequestEntryOfParent address \<Rightarrow>
          (let data = \<lparr>fed_space_address = fst chain_id, fed_entry_address = address, fed_request_id = ''FIXME'',
                       fed_provider_agent_id = snd chain_id, fed_aspect_address_list = None\<rparr>
           in map_err Lib3hGhostError (client_request env (HandleFetchEntry data) (AnswerEntryRequest data (sp_serial sp) msg) e)))"

definition handle_space_request :: "eng_env \<Rightarrow> ChainId \<Rightarrow> GatewayToParentMessage \<Rightarrow> 'tls GhostEngine \<Rightarrow> ('tls, unit) eng_lib3h" where
  "handle_space_request env chain_id msg0 e =
     (case map_of (space_gateway_map e) chain_id of
        None \<Rightarrow> Panic ''Should have the space gateway we receive an event from.''
      | Some sp \<Rightarrow>
          (case take_message msg0 of
             (None, _) \<Rightarrow> Panic ''exists''
           | (Some (DhtToParent req), msg) \<Rightarrow> handle_space_dht_request env chain_id sp req msg e
           | (Some (TransportToParent (ErrorOccured _ _)), _) \<Rightarrow> Panic ''can't handle''
           | (Some (TransportToParent (IncomingConnection _)), _) \<Rightarrow> Panic ''can't handle incoming connection''
           | (Some (TransportToParent (ReceivedData _ payload)), _) \<Rightarrow> with_p2p_message env payload (handle_p2p_protocol env) e))"

text \<open>
  The first loop of \<open>process_space_gateways\<close>: a gateway is put back into the map once it has been
  processed, so the ones from a failing one on are dropped. The requests are collected per space.
\<close>

fun run_spaces :: "eng_env \<Rightarrow> (ChainId \<Rightarrow> P2pGateway gateway_run) \<Rightarrow> (ChainId, Space) hashmap \<Rightarrow> 'tls GhostEngine \<Rightarrow>
    ('tls, (ChainId \<times> GatewayToParentMessage list) list) eng_lib3h" where
  "run_spaces env runs [] e = Ok [] e"
| "run_spaces env runs ((chain_id, sp) # rest) e =
     (case owned_process (ge_rid_msg env) (eng_call (eng_space_callback env)) (ge_now env) (runs chain_id) (sp_gateway sp, e) of
        Ok _ (w, e) \<Rightarrow>
          (case wrapper_drain_messages w of (msgs, w) \<Rightarrow>
             bind_ok (run_spaces env runs rest (put_space chain_id (sp\<lparr>sp_gateway := w\<rparr>) e)) (\<lambda>outbox. Ok ((chain_id, msgs) # outbox)))
      | Err err (_, e) \<Rightarrow> Err (Lib3hGhostError err) e
      | Panic m \<Rightarrow> Panic m)"

definition process_space_gateways :: "eng_env \<Rightarrow> (ChainId \<Rightarrow> P2pGateway gateway_run) \<Rightarrow> 'tls GhostEngine \<Rightarrow> ('tls, bool) eng_lib3h" where
  "process_space_gateways env runs e =
     bind_ok (run_spaces env runs (space_gateway_map e) (e\<lparr>space_gateway_map := []\<rparr>)) (\<lambda>outbox e.
     bind_ok (for_each (\<lambda>(chain_id, msgs). for_each (handle_space_request env chain_id) msgs) outbox e) (\<lambda>_.
     Ok (\<exists>(chain_id, msgs) \<in> set outbox. msgs \<noteq> [])))"

section \<open>The actor\<close>

definition eng_take_parent_endpoint where
  "eng_take_parent_endpoint e = (client_endpoint e, e\<lparr>client_endpoint := None\<rparr>)"

definition run_client :: "eng_env \<Rightarrow> 'tls GhostEngine \<Rightarrow> ('tls, WorkWasDone) eng_ghost" where
  "run_client env =
     detach_run lib3h_endpoint (\<lambda>d e. e\<lparr>lib3h_endpoint := d\<rparr>) (endpoint_process (ge_rid_msg env) (eng_client_callback env) (ge_now env))"

definition drain_client :: "'tls GhostEngine \<Rightarrow> ('tls, ClientToLib3hMessage list) eng_ghost" where
  "drain_client = on_client (\<lambda>ep. case drain_messages ep of (msgs, ep) \<Rightarrow> Ok msgs ep)"

definition eng_process_concrete :: "eng_env \<Rightarrow> TransportMultiplex gateway_run \<Rightarrow> (ChainId \<Rightarrow> P2pGateway gateway_run) \<Rightarrow>
    'tls GhostEngine \<Rightarrow> ('tls, WorkWasDone) eng_ghost" where
  "eng_process_concrete env mx_run space_runs e =
     bind_ok (run_client env e) (\<lambda>_ e.
     bind_ok (drain_client e) (\<lambda>msgs e.
     bind_ok (for_each (handle_msg_from_client env) msgs e) (\<lambda>_ e.
     bind_ok (if msgs \<noteq> [] then Ok True e else as_ghost env (process_multiplexer env mx_run e)) (\<lambda>did_work e.
     if did_work then Ok True e else as_ghost env (process_space_gateways env space_runs e)))))"

section \<open>Constructor\<close>

definition priv_connect_bootstraps :: "eng_env \<Rightarrow> 'tls GhostEngine \<Rightarrow> ('tls, unit) eng_ghost" where
  "priv_connect_bootstraps env e =
     for_each (\<lambda>bs e. multiplexer_request env (Bootstrap \<lparr>bsd_space_address = gateway_id (network_id (eng_config e)), bootstrap_uri = bs\<rparr>) CheckBootstrap e)
     (bootstrap_nodes (eng_config e)) (e\<lparr>eng_config := (eng_config e)\<lparr>bootstrap_nodes := []\<rparr>\<rparr>)"

text \<open>
  The part of \<open>GhostEngine::new\<close> up to the struct: \<open>transport_id\<close> is what \<open>TransportKeys::new\<close> got from
  the crypto system, \<open>mk_transport\<close> makes the transport actor and takes its owner's endpoint.
\<close>

definition eng_multiplexer :: "eng_env \<Rightarrow> Address \<Rightarrow> TransportActorParentEndpoint \<Rightarrow>
    (DhtConfig \<Rightarrow> PeerData option \<Rightarrow> DhtEndpoint option) \<Rightarrow> 'tls EngineConfig \<Rightarrow> (unit, Lib3hError, PeerData \<times> Multiplexer) outcome" where
  "eng_multiplexer env tid transport dht_factory cfg =
     bind_ok (with_transport_id (ge_url env) tid) (\<lambda>tid_uri _.
     bind_ok (with_undefined (ge_url env)) (\<lambda>prebound_binding _.
     bind_ok (map_err Lib3hGhostError (P2pGateway_new (gateway_env.truncate env) DoNotWrapOutput (network_id cfg) prebound_binding transport
       dht_factory (DhtConfig_with_engine_config tid_uri cfg))) (\<lambda>gateway _.
     bind_ok (map_err Lib3hGhostError (TransportMultiplex_new (fst (gw_take_parent_endpoint gateway)))) (\<lambda>mx _.
     bind_ok (map_err Lib3hGhostError (GhostParentWrapper_new mx_take_parent_endpoint mx ''engine_to_multiplexer_'')) (\<lambda>w _.
     Ok (\<lparr>peer_name = tid_uri, peer_location = prebound_binding, timestamp = ge_epoch env\<rparr>, w) ())))))"

definition eng_struct :: "string \<Rightarrow> 'tls EngineConfig \<Rightarrow> (DhtConfig \<Rightarrow> PeerData option \<Rightarrow> DhtEndpoint option) \<Rightarrow> Address \<Rightarrow>
    PeerData \<Rightarrow> Multiplexer \<Rightarrow> 'tls GhostEngine" where
  "eng_struct name cfg dht_factory tid net_peer w =
     (case create_ghost_channel of (ep_parent, ep_self) \<Rightarrow>
        \<lparr>eng_name = name, eng_config = cfg, eng_dht_factory = dht_factory, request_track = Tracker_new ''real_engine_'' 2000,
         multiplexer = Detach_new w, this_net_peer = net_peer, network_connections = [], space_gateway_map = [], transport_id = tid,
         multiplexer_defered_sends = [], pending_client_direct_messages = [], client_endpoint = Some ep_parent,
         lib3h_endpoint = Detach_new (wrap_endpoint name ep_self), eng_draws = 0, eng_serial = 0\<rparr>)"

fun GhostEngine_new :: "eng_env \<Rightarrow> Lib3hError + Address \<Rightarrow> (Address \<Rightarrow> 'tls TransportConfig \<Rightarrow> TransportActorParentEndpoint) \<Rightarrow>
    TransportMultiplex gateway_run \<Rightarrow> TransportMultiplex gateway_run \<Rightarrow> 'tls EngineConfig \<Rightarrow> string \<Rightarrow>
    (DhtConfig \<Rightarrow> PeerData option \<Rightarrow> DhtEndpoint option) \<Rightarrow> (unit, Lib3hError, 'tls GhostEngine) outcome" where
  "GhostEngine_new env (Inl err) mk_transport run1 run2 cfg name dht_factory = Err err ()"
| "GhostEngine_new env (Inr tid) mk_transport run1 run2 cfg name dht_factory =
     (case transport_configs cfg of
        [transport_config] \<Rightarrow>
          bind_ok (eng_multiplexer env tid (mk_transport tid transport_config) dht_factory cfg) (\<lambda>(net_peer, w) _.
          let r =
            bind_ok (multiplexer_request env (TransportToChild (Bind (bind_url cfg))) StoreBoundUrl (eng_struct name cfg dht_factory tid net_peer w)) (\<lambda>_ e.
            bind_ok (run_multiplexer env run1 e) (\<lambda>_ e.
            bind_ok (multiplexer_publish env (DhtToChild (UpdateAdvertise (peer_location (this_net_peer e)))) e) (\<lambda>_ e.
            bind_ok (run_multiplexer env run2 e) (\<lambda>_ e.
            priv_connect_bootstraps env e))))
          in case map_err Lib3hGhostError r of Ok _ e \<Rightarrow> Ok e () | Err err _ \<Rightarrow> Err err () | Panic m \<Rightarrow> Panic m)
      | _ \<Rightarrow> Panic ''assertion failed: one transport'')"

end
