(* ===== verification/Multiplex_Paths.thy ===== *)
theory Multiplex_Paths
  imports Multiplex "HOL-Library.Multiset"
begin

text \<open>
  What the multiplexer promises its routes: they stay distinct, a request of a route goes to the inner
  gateway and its answer comes back to that route alone, and routes that hang up are removed.
\<close>

section \<open>Well-formedness\<close>

text \<open>One entry per route; no number is used twice, neither among the routes nor by senders left of removed ones.\<close>

definition routes_of :: "TransportMultiplex \<Rightarrow> (LocalRouteSpec \<times> Route) list" where
  "routes_of m = (case mx_route_endpoints m of Detach (Some rs) \<Rightarrow> rs | Detach None \<Rightarrow> [])"

abbreviation serials :: "(LocalRouteSpec \<times> Route) list \<Rightarrow> nat list" where
  "serials rs \<equiv> map (rt_serial \<circ> snd) rs"

definition wf_routes :: "(LocalRouteSpec \<times> Route) list \<Rightarrow> (nat \<times> route_sender) list \<Rightarrow> nat \<Rightarrow> bool" where
  "wf_routes rs os n \<longleftrightarrow> distinct (keys rs) \<and> distinct (serials rs @ keys os) \<and> (\<forall>k \<in> set (serials rs @ keys os). k < n)"

definition mx_wf :: "TransportMultiplex \<Rightarrow> bool" where
  "mx_wf m \<longleftrightarrow> is_attached (mx_route_endpoints m) \<and> wf_routes (routes_of m) (mx_orphans m) (mx_serial m)"

section \<open>Answering routes\<close>

lemma respond_on_route_hit:
  "n \<notin> set (serials rs1) \<Longrightarrow> rt_serial r = n \<Longrightarrow> respond_on_route f n (rs1 @ (spec, r) # rs2) =
     Some (lift_state (\<lambda>s. rs1 @ (spec, r\<lparr>rt_endpoint := (rt_endpoint r)\<lparr>gce_sender := s\<rparr>\<rparr>) # rs2) (f (gce_sender (rt_endpoint r))))"
proof (induction rs1)
  case (Cons p rs1)
  then show ?case by (cases p; cases "f (gce_sender (rt_endpoint r))") auto
qed simp

lemma respond_on_route_miss: "n \<notin> set (serials rs) \<Longrightarrow> respond_on_route f n rs = None"
  by (induction rs) auto

lemma mx_route_respond_open:
  assumes "mx_route_endpoints m = Detach (Some (rs1 @ (spec, r) # rs2))" and "rt_serial r \<notin> set (serials rs1)"
    and "snd_error (gce_sender (rt_endpoint r)) = None" and "gm_request_id msg = Some rid"
  shows "mx_route_respond env (rt_serial r) msg payload m = Ok () (m\<lparr>mx_route_endpoints :=
    Detach (Some (rs1 @ (spec, r\<lparr>rt_endpoint := append_sent [Response (ge_bt env) rid payload] (rt_endpoint r)\<rparr>) # rs2))\<rparr>)"
  using assms by (simp add: mx_route_respond_def respond_on_route_hit GhostMessage_respond_def chan_send_def append_sent_def)

lemma mx_route_respond_closed:
  assumes "mx_route_endpoints m = Detach (Some rs)" and "n \<notin> set (serials rs)" and "map_of (mx_orphans m) n = Some s"
    and "snd_error s = Some e" and "gm_request_id msg = Some rid"
  shows "mx_route_respond env n msg payload m = Err (Other e) (m\<lparr>mx_orphans := AList.update n s (mx_orphans m)\<rparr>)"
  using assms by (simp add: mx_route_respond_def respond_on_route_miss GhostMessage_respond_def chan_send_def)

section \<open>Phases\<close>

lemma route_loop_idle:
  "\<forall>(s, q) \<in> set rs1. idle_endpoint (ge_now env) (rt_endpoint q) \<Longrightarrow>
     mx_route_loop env visited gone (rs1 @ rest, m) = mx_route_loop env (visited @ rs1) gone (rest, m)"
proof (induction rs1 arbitrary: visited)
  case (Cons p rs1)
  obtain s q where p: "p = (s, q)" by (cases p)
  have idle: "idle_endpoint (ge_now env) (rt_endpoint q)" using Cons.prems p by auto
  then have same: "gce_outbox (rt_endpoint q) = []" "q\<lparr>rt_endpoint := (rt_endpoint q)\<lparr>gce_outbox := []\<rparr>\<rparr> = q" by (simp_all add: idle_endpoint_def)
  show ?case using Cons.IH[of "visited @ [p]"] Cons.prems idle by (simp add: p endpoint_process_idle drain_messages_def same)
qed simp

lemma mx_inner_request_ready:
  assumes "ready (gateway_env.truncate env) i" and "mx_inner_gateway m = Detach (Some i)"
  shows "mx_inner_request env p cb m =
    Ok () (m\<lparr>mx_inner_gateway := Detach (Some (asked (mx_req env m) p cb i)), mx_draws := Suc (mx_draws m)\<rparr>)"
  using assms by (simp add: mx_inner_request_def detach_deref_mut_def request_open ready_def mx_req_def mx_drawn_def gateway_env.defs)

lemma mx_asked_ready: "ready (gateway_env.truncate env) i \<Longrightarrow> ready (gateway_env.truncate env) (asked (mx_req env m) p cb i)"
  using asked_ready[of "gateway_env.truncate env" i "undefined\<lparr>gw_draws := mx_draws m\<rparr>" p cb]
  by (simp add: gw_req_def mx_req_def gateway_env.defs)

text \<open>
  One request on one route: it goes to the inner gateway.
\<close>

lemma process_routes_one:
  assumes "mx_route_endpoints m = Detach (Some (rs1 @ (spec, r) # rs2))"
    and "\<forall>(s, q) \<in> set (rs1 @ rs2). idle_endpoint (ge_now env) (rt_endpoint q)"
    and "gt_expired (ge_now env) (gce_tracker (rt_endpoint r)) = []" "gce_outbox (rt_endpoint r) = []" "\<not> rcv_disconnected (gce_receiver (rt_endpoint r))"
    and "rcv_incoming (gce_receiver (rt_endpoint r)) = [Request b (Some rid) (SendMessage uri payload)]"
    and "mx_inner_gateway m = Detach (Some i)" "ready (gateway_env.truncate env) i"
    and "cb = RespondToRoute (rt_serial r) ((GhostMessage_new b (Some rid) (SendMessage uri payload))\<lparr>gm_message := None\<rparr>)"
    and "r1 = r\<lparr>rt_endpoint := (rt_endpoint r)\<lparr>gce_receiver := (gce_receiver (rt_endpoint r))\<lparr>rcv_incoming := []\<rparr>\<rparr>\<rparr>"
  shows "mx_process_routes env m = Ok () (m\<lparr>mx_route_endpoints := Detach (Some (rs1 @ (spec, r1) # rs2)),
    mx_inner_gateway := Detach (Some (asked (mx_req env m) (TransportToChild (SendMessage uri payload)) cb i)), mx_draws := Suc (mx_draws m)\<rparr>)"
proof -
  let ?m = "m\<lparr>mx_route_endpoints := Detach None\<rparr>" and ?m1 = "m\<lparr>mx_route_endpoints := Detach None,
    mx_inner_gateway := Detach (Some (asked (mx_req env m) (TransportToChild (SendMessage uri payload)) cb i)), mx_draws := Suc (mx_draws m)\<rparr>"
  have req: "mx_req env ?m = mx_req env m" by (simp add: mx_req_def)
  have ep: "endpoint_process (ge_rid_msg env) mx_no_callback (ge_now env) (rt_endpoint r, ?m) = Ok True
     ((rt_endpoint r)\<lparr>gce_receiver := (gce_receiver (rt_endpoint r))\<lparr>rcv_incoming := []\<rparr>,
        gce_outbox := [GhostMessage_new b (Some rid) (SendMessage uri payload)]\<rparr>, ?m)"
    using endpoint_process_requests[of "ge_now env" "rt_endpoint r" b "[(Some rid, SendMessage uri payload)]" "ge_rid_msg env" mx_no_callback ?m] assms(3-6) by simp
  have handled: "handle_msg_from_route env (rt_serial r) (GhostMessage_new b (Some rid) (SendMessage uri payload)) ?m = Ok () ?m1"
    using mx_inner_request_ready[OF assms(8), of ?m "TransportToChild (SendMessage uri payload)" cb] assms(7,9) req
    by (simp add: handle_msg_from_route_def take_message_def GhostMessage_new_def handle_route_send_message_def create_send_message_def)
  have out: "(rt_endpoint r)\<lparr>gce_receiver := c, gce_outbox := []\<rparr> = (rt_endpoint r)\<lparr>gce_receiver := c\<rparr>" for c using assms(4) by simp
  have idle1: "\<forall>(s, q) \<in> set rs1. idle_endpoint (ge_now env) (rt_endpoint q)" and idle2: "\<forall>(s, q) \<in> set rs2. idle_endpoint (ge_now env) (rt_endpoint q)"
    using assms(2) by auto
  have rest: "mx_route_loop env (rs1 @ [(spec, r1)]) [] (rs2, ?m1) = Ok () (rs1 @ (spec, r1) # rs2, ?m1)"
    using route_loop_idle[OF idle2, of "rs1 @ [(spec, r1)]" "[]" "[]" ?m1] by (simp add: drop_routes_def)
  have "mx_route_loop env [] [] (rs1 @ (spec, r) # rs2, ?m) = Ok () (rs1 @ (spec, r1) # rs2, ?m1)"
    using route_loop_idle[OF idle1, of "[]" "[]" "(spec, r) # rs2" ?m] rest
    by (simp add: ep handled drain_messages_def out assms(10))
  then show ?thesis using assms(1) by (simp add: mx_process_routes_def detach_run_attached)
qed

text \<open>
  The inner gateway answers the request made last.
\<close>

lemma inner_answers:
  assumes "ready (gateway_env.truncate env) i" and "mx_inner_gateway m' = Detach (Some (asked (mx_req env m) p cb i))"
    and "rid = gt_request_id_prefix (gce_tracker i) @ re_nanoid (mx_req env m)"
  shows "mx_inner_callback env cb (CbResponse r) (m'\<lparr>mx_inner_gateway := Detach None\<rparr>) = Ok () m1 \<Longrightarrow>
      \<exists>i'. mx_process_inner env (Ok True [Response b rid r]) m' = Ok () (m1\<lparr>mx_inner_gateway := Detach (Some i')\<rparr>)"
    and "mx_inner_callback env cb (CbResponse r) (m'\<lparr>mx_inner_gateway := Detach None\<rparr>) = Err e m1 \<Longrightarrow>
      \<exists>i'. mx_process_inner env (Ok True [Response b rid r]) m' = Err e (m1\<lparr>mx_inner_gateway := Detach (Some i')\<rparr>)"
proof -
  let ?ep = "asked (mx_req env m) p cb i" and ?call = "mx_call (mx_inner_callback env)" and ?h = "m'\<lparr>mx_inner_gateway := Detach None\<rparr>"
  obtain entry where e: "gt_lookup (gce_tracker ?ep) rid = Some entry" "gte_cb entry = cb"
    using asked_lookup[of "mx_req env m" p cb i] assms(3) by blast
  have idle: "gt_expired (ge_now env) (gce_tracker ?ep) = []" "rcv_incoming (gce_receiver ?ep) = []" "\<not> rcv_disconnected (gce_receiver ?ep)" "gce_outbox ?ep = []"
    using mx_asked_ready[OF assms(1), of m p cb] by (simp_all add: ready_def idle_endpoint_def gateway_env.defs)
  note steps = mx_process_inner_def detach_run_attached assms(2) mx_drain_def detach_deref_mut_def drain_messages_def
  show "\<exists>i'. mx_process_inner env (Ok True [Response b rid r]) m' = Ok () (m1\<lparr>mx_inner_gateway := Detach (Some i')\<rparr>)"
    if "mx_inner_callback env cb (CbResponse r) ?h = Ok () m1"
  proof -
    have "?call (gte_cb entry) (CbResponse r) (?h, gce_sender ?ep) = Ok () (m1, gce_sender ?ep)" using that e(2) by (simp add: mx_call_def)
    from child_process_one_response[OF idle(1-3) e(1), of ?call, OF this] idle(4) show ?thesis by (simp add: steps) (rule exI, rule refl)
  qed
  show "\<exists>i'. mx_process_inner env (Ok True [Response b rid r]) m' = Err e (m1\<lparr>mx_inner_gateway := Detach (Some i')\<rparr>)"
    if "mx_inner_callback env cb (CbResponse r) ?h = Err e m1"
    using that e idle by (simp add: steps child_process_def deliver_def endpoint_process_def with_tracker_process_idle process_message_def
        with_tracker_def GhostTracker_process_def GhostTracker_handle_def mx_call_def del: mx_inner_callback.simps)
      (rule exI, rule refl)
qed

section \<open>What keeps the routes well-formed\<close>

definition same_routes :: "TransportMultiplex \<Rightarrow> TransportMultiplex \<Rightarrow> bool" where
  "same_routes m m' \<longleftrightarrow> is_attached (mx_route_endpoints m') = is_attached (mx_route_endpoints m) \<and> keys (routes_of m') = keys (routes_of m)
     \<and> serials (routes_of m') = serials (routes_of m) \<and> keys (mx_orphans m') = keys (mx_orphans m) \<and> mx_serial m' = mx_serial m"

lemma same_routes_refl: "same_routes m m"
  by (simp add: same_routes_def)

lemma same_routes_trans: "same_routes m m1 \<Longrightarrow> same_routes m1 m2 \<Longrightarrow> same_routes m m2"
  by (simp add: same_routes_def)

lemma same_routes_wf: "same_routes m m' \<Longrightarrow> mx_wf m \<Longrightarrow> mx_wf m'"
  by (simp add: same_routes_def mx_wf_def wf_routes_def)

lemma same_routes_put [simp]:
  "same_routes m (m'\<lparr>mx_inner_gateway := d\<rparr>) = same_routes m m'" "same_routes m (m'\<lparr>mx_endpoint_self := s\<rparr>) = same_routes m m'"
  "same_routes m (m'\<lparr>mx_draws := n\<rparr>) = same_routes m m'" "same_routes (m\<lparr>mx_inner_gateway := d\<rparr>) m' = same_routes m m'"
  "same_routes (m\<lparr>mx_endpoint_self := s\<rparr>) m' = same_routes m m'"
  by (simp_all add: same_routes_def routes_of_def)

lemma final_deref:
  assumes "final_state (detach_deref_mut get put code m) = Some m'" and "\<And>d m'. P m (put d m') = P m m'" and "P m m"
  shows "P m m'"
  using assms by (auto simp: detach_deref_mut_def final_state_lift_state split: Detach.splits option.splits)

lemma respond_on_route_same:
  "respond_on_route f n rs = Some r \<Longrightarrow> final_state r = Some rs' \<Longrightarrow> keys rs' = keys rs \<and> serials rs' = serials rs"
  by (induction rs arbitrary: r rs') (fastforce simp: final_state_lift_state split: if_splits)+

lemma keys_update_present: "map_of os n = Some s \<Longrightarrow> keys (AList.update n s' os) = keys os"
  by (induction os) auto

lemma mx_route_respond_same:
  assumes "final_state (mx_route_respond env n msg payload m) = Some m'"
  shows "same_routes m m'"
proof (cases "respond_on_route (GhostMessage_respond (ge_bt env) msg payload) n (routes_of m)")
  case None
  then show ?thesis using assms
    by (auto simp: mx_route_respond_def routes_of_def same_routes_def final_state_lift_state keys_update_present split: option.splits Detach.splits)
next
  case (Some r)
  then obtain rs where rs: "mx_route_endpoints m = Detach (Some rs)"
    by (cases "mx_route_endpoints m") (auto simp: routes_of_def split: option.splits)
  with assms Some obtain rs' where "final_state r = Some rs'" "m' = m\<lparr>mx_route_endpoints := Detach (Some rs')\<rparr>"
    by (auto simp: mx_route_respond_def routes_of_def final_state_lift_state)
  with respond_on_route_same[OF Some] show ?thesis by (simp add: same_routes_def routes_of_def rs)
qed

lemma mx_ops_same:
  "final_state (mx_owner_respond env omsg oans m) = Some m' \<Longrightarrow> same_routes m m'"
  "final_state (mx_inner_respond env imsg ians m) = Some m' \<Longrightarrow> same_routes m m'"
  "final_state (mx_self_publish env pp m) = Some m' \<Longrightarrow> same_routes m m'"
  "final_state (mx_self_request env pp scb m) = Some m' \<Longrightarrow> same_routes m m'"
  "final_state (mx_inner_request env cp icb m) = Some m' \<Longrightarrow> same_routes m m'"
  unfolding mx_owner_respond_def mx_inner_respond_def mx_self_publish_def mx_self_request_def mx_inner_request_def mx_drawn_def final_state_lift_state
  by (auto elim!: final_deref[where P = same_routes] simp: same_routes_refl)

interpretation mx_inner: callback_contract "mx_call (mx_inner_callback env)" "\<lambda>(m, s). same_routes m0 m" for env m0
proof
  fix u cb data u'
  assume "case u of (m, s) \<Rightarrow> same_routes m0 m" and "final_state (mx_call (mx_inner_callback env) cb data u) = Some u'"
  then show "case u' of (m, s) \<Rightarrow> same_routes m0 m"
    by (cases cb) (auto simp: mx_call_def final_state_lift_state split: prod.splits dest!: mx_route_respond_same mx_ops_same(1) intro: same_routes_trans)
qed

interpretation mx_self: callback_contract "mx_call (mx_self_callback env)" "\<lambda>(m, s). same_routes m0 m" for env m0
proof
  fix u cb data u'
  assume "case u of (m, s) \<Rightarrow> same_routes m0 m" and "final_state (mx_call (mx_self_callback env) cb data u) = Some u'"
  then show "case u' of (m, s) \<Rightarrow> same_routes m0 m"
    by (cases cb) (auto simp: mx_call_def final_state_lift_state split: prod.splits dest!: mx_ops_same(2) intro: same_routes_trans)
qed

interpretation mx_route: callback_contract mx_no_callback "\<lambda>(m, s). m = m0" for m0
  by unfold_locales (auto simp: mx_no_callback_def)

text \<open>
  An endpoint without callbacks reports a closed queue exactly when it is closed.
\<close>

lemma process_loop_connected:
  "process_loop rid_msg call ms w (ep, ud) = Ok w' (ep', ud') \<Longrightarrow> \<not> rcv_disconnected (gce_receiver ep)"
proof (induction ms arbitrary: w ep ud)
  case (Cons m ms)
  let ?ep = "ep\<lparr>gce_receiver := (gce_receiver ep)\<lparr>rcv_incoming := ms\<rparr>\<rparr>"
  from Cons.prems obtain ep1 ud1 where m: "process_message rid_msg call m (?ep, ud) = Ok () (ep1, ud1)"
    and r: "process_loop rid_msg call ms True (ep1, ud1) = Ok w' (ep', ud')" by (auto simp: outcome_simps)
  from Cons.IH[OF r] process_message_frame[OF m] show ?case by simp
qed (auto split: if_splits)

lemma gt_expire_no_callback: "gt_expire mx_no_callback rids t u \<noteq> Err e v"
  by (induction rids arbitrary: t) (auto simp: mx_no_callback_def split: option.splits)

lemma process_loop_disconnected:
  "process_loop rid_msg mx_no_callback ms w (ep, ud) = Err EndpointDisconnected st \<Longrightarrow> rcv_disconnected (gce_receiver ep)"
proof (induction ms arbitrary: w ep ud)
  case (Cons m ms)
  let ?ep = "ep\<lparr>gce_receiver := (gce_receiver ep)\<lparr>rcv_incoming := ms\<rparr>\<rparr>"
  have "process_message rid_msg mx_no_callback m (?ep, ud) \<noteq> Err EndpointDisconnected st"
    by (auto simp: process_message_def with_tracker_def GhostTracker_handle_def mx_no_callback_def split: GhostEndpointMessage.splits option.splits)
  with Cons.prems obtain ep1 ud1 where m: "process_message rid_msg mx_no_callback m (?ep, ud) = Ok () (ep1, ud1)"
    and r: "process_loop rid_msg mx_no_callback ms True (ep1, ud1) = Err EndpointDisconnected st"
    by (cases "process_message rid_msg mx_no_callback m (?ep, ud)") auto
  from Cons.IH[OF r] process_message_frame[OF m] show ?case by simp
qed (auto split: if_splits)

lemma route_process_cases:
  shows "endpoint_process rid_msg mx_no_callback now (ep, m) = Ok w st \<Longrightarrow> \<not> rcv_disconnected (gce_receiver ep)"
    and "endpoint_process rid_msg mx_no_callback now (ep, m) = Err EndpointDisconnected st \<Longrightarrow> rcv_disconnected (gce_receiver ep)"
proof -
  have no_err: "with_tracker (GhostTracker_process mx_no_callback now) (ep, m) \<noteq> Err e st" for e st
    using gt_expire_no_callback
    by (cases "gt_expire mx_no_callback (gt_expired now (gce_tracker ep)) (gce_tracker ep) (m, gce_sender ep)")
      (auto simp: with_tracker_def GhostTracker_process_def Let_def)
  show "\<not> rcv_disconnected (gce_receiver ep)" if ok: "endpoint_process rid_msg mx_no_callback now (ep, m) = Ok w st"
  proof -
    from ok obtain w1 ep1 m1 where t: "with_tracker (GhostTracker_process mx_no_callback now) (ep, m) = Ok w1 (ep1, m1)"
      and l: "process_loop rid_msg mx_no_callback (rcv_incoming (gce_receiver ep1)) w1 (ep1, m1) = Ok w (fst st, snd st)"
      by (auto simp: endpoint_process_def outcome_simps)
    from process_loop_connected[OF l] with_tracker_frame_Ok[OF t] show ?thesis by simp
  qed
  show "rcv_disconnected (gce_receiver ep)" if err: "endpoint_process rid_msg mx_no_callback now (ep, m) = Err EndpointDisconnected st"
  proof -
    from err no_err[of EndpointDisconnected st] obtain w1 ep1 m1 where t: "with_tracker (GhostTracker_process mx_no_callback now) (ep, m) = Ok w1 (ep1, m1)"
      and l: "process_loop rid_msg mx_no_callback (rcv_incoming (gce_receiver ep1)) w1 (ep1, m1) = Err EndpointDisconnected st"
      by (cases "with_tracker (GhostTracker_process mx_no_callback now) (ep, m)") (auto simp: endpoint_process_def)
    from process_loop_disconnected[OF l] with_tracker_frame_Ok[OF t] show ?thesis by simp
  qed
qed

lemma handle_msg_from_route_frame:
  assumes "final_state (handle_msg_from_route env n msg m) = Some m'"
  shows "mx_orphans m' = mx_orphans m \<and> mx_serial m' = mx_serial m"
proof -
  have "mx_orphans m' = mx_orphans m \<and> mx_serial m' = mx_serial m" if "final_state (mx_inner_request env p cb m) = Some m'" for p cb
    using that by (auto simp: mx_inner_request_def mx_drawn_def final_state_lift_state detach_deref_mut_def split: Detach.splits option.splits)
  then show ?thesis using assms
    by (auto simp: handle_msg_from_route_def handle_route_bind_def handle_route_send_message_def split: prod.splits option.splits RequestToChild.splits)
qed

lemma drop_routes_wf:
  assumes "wf_routes rs (mx_orphans m) n"
  shows "wf_routes (fst (drop_routes gone rs m)) (mx_orphans (snd (drop_routes gone rs m))) n"
proof -
  let ?P = "\<lambda>(spec, r). spec \<notin> set gone"
  have "mset (serials (filter ?P rs)) + mset (serials (filter (\<lambda>x. \<not> ?P x) rs)) = mset (serials rs)"
    by (induction rs) auto
  then have "mset (serials (filter ?P rs) @ keys (mx_orphans m) @ serials (filter (\<lambda>x. \<not> ?P x) rs)) = mset (serials rs @ keys (mx_orphans m))"
    by (simp add: ac_simps)
  then have new: "distinct (serials (filter ?P rs) @ keys (mx_orphans m) @ serials (filter (\<lambda>x. \<not> ?P x) rs))"
    "set (serials (filter ?P rs) @ keys (mx_orphans m) @ serials (filter (\<lambda>x. \<not> ?P x) rs)) = set (serials rs @ keys (mx_orphans m))"
    using assms by (metis mset_eq_imp_distinct_iff wf_routes_def, metis mset_eq_setD)
  have sender: "fst \<circ> (\<lambda>(spec, r). (rt_serial r, gce_sender (rt_endpoint r))) = rt_serial \<circ> snd" by auto
  have "filter (\<lambda>(spec, r). spec \<in> set gone) rs = filter (\<lambda>x. \<not> ?P x) rs" by (rule filter_cong) auto
  then have dropped: "fst (drop_routes gone rs m) = filter ?P rs"
    "keys (mx_orphans (snd (drop_routes gone rs m))) = keys (mx_orphans m) @ serials (filter (\<lambda>x. \<not> ?P x) rs)"
    by (simp_all add: drop_routes_def sender)
  have "distinct (keys (filter ?P rs))" using assms by (simp add: wf_routes_def distinct_map_filter)
  with new assms show ?thesis unfolding wf_routes_def dropped by metis
qed

text \<open>The loop over the routes keeps exactly the connected ones, and on an error all of them.\<close>

abbreviation connected :: "LocalRouteSpec \<times> Route \<Rightarrow> bool" where
  "connected p \<equiv> \<not> rcv_disconnected (gce_receiver (rt_endpoint (snd p)))"

lemma wf_routes_replace: "wf_routes (visited @ (spec, r) # rest) os n \<Longrightarrow> rt_serial r' = rt_serial r \<Longrightarrow> wf_routes (visited @ (spec, r') # rest) os n"
  by (simp add: wf_routes_def)

lemma mx_route_loop_wf:
  "final_state (mx_route_loop env visited gone (rs, m)) = Some (rs', m') \<Longrightarrow> wf_routes (visited @ rs) (mx_orphans m) n \<Longrightarrow>
     wf_routes rs' (mx_orphans m') n \<and> mx_serial m' = mx_serial m"
proof (induction rs arbitrary: visited gone m)
  case Nil
  then show ?case using drop_routes_wf[of visited m n gone] by (auto simp: drop_routes_def)
next
  case (Cons p rest)
  obtain spec r where p: "p = (spec, r)" by (cases p)
  let ?v = "\<lambda>ep. visited @ (spec, r\<lparr>rt_endpoint := ep\<rparr>) # rest"
  have wf: "wf_routes (?v ep) (mx_orphans m) n" for ep using Cons.prems(2) wf_routes_replace[of visited spec r rest] p by simp
  have same: "ud = m" if "final_state (endpoint_process (ge_rid_msg env) mx_no_callback (ge_now env) (rt_endpoint r, m)) = Some (ep, ud)" for ep ud
    using mx_route.endpoint_process_keeps[of m m "rt_endpoint r" "ge_rid_msg env" "ge_now env" ep ud] that by simp
  show ?case
  proof (cases "endpoint_process (ge_rid_msg env) mx_no_callback (ge_now env) (rt_endpoint r, m)")
    case (Ok w st)
    obtain ep msgs where st: "st = (ep, m)" using same[of "fst st" "snd st"] Ok by (cases st) auto
    let ?ep = "ep\<lparr>gce_outbox := []\<rparr>" and ?f = "for_each (handle_msg_from_route env (rt_serial r)) (gce_outbox ep) m"
    have frame: "mx_orphans m1 = mx_orphans m \<and> mx_serial m1 = mx_serial m" if "final_state ?f = Some m1" for m1
      using for_each_invariant[where P = "\<lambda>m1. mx_orphans m1 = mx_orphans m \<and> mx_serial m1 = mx_serial m", OF _ _ that] handle_msg_from_route_frame by fastforce
    show ?thesis
    proof (cases ?f)
      case (Ok v m1)
      then show ?thesis using Cons.IH[of "visited @ [(spec, r\<lparr>rt_endpoint := ?ep\<rparr>)]" gone m1] Cons.prems(1) frame[of m1] wf
        \<open>endpoint_process _ _ _ _ = Ok w st\<close> by (simp add: p st drain_messages_def)
    qed (use Cons.prems(1) frame wf \<open>endpoint_process _ _ _ _ = Ok w st\<close> in \<open>auto simp: p st drain_messages_def\<close>)
  next
    case (Err e st)
    obtain ep where st: "st = (ep, m)" using same[of "fst st" "snd st"] Err by (cases st) auto
    show ?thesis using Cons.IH[of "visited @ [(spec, r\<lparr>rt_endpoint := ep\<rparr>)]" "gone @ [spec]" m] Cons.prems(1) Err wf
      by (auto simp: p st split: if_splits)
  qed (use Cons.prems(1) p in simp)
qed

lemma mx_route_loop_keys:
  "mx_route_loop env visited gone (rs, m) = Ok () (rs', m') \<Longrightarrow> distinct (keys (visited @ rs)) \<Longrightarrow> set gone \<subseteq> set (keys visited) \<Longrightarrow>
     keys rs' = filter (\<lambda>k. k \<notin> set gone) (keys visited) @ keys (filter connected rs)"
proof (induction rs arbitrary: visited gone m)
  case Nil
  have "keys (filter (\<lambda>(spec, r). spec \<notin> set gone) xs) = filter (\<lambda>k. k \<notin> set gone) (keys xs)" for xs :: "(LocalRouteSpec \<times> Route) list"
    by (induction xs) auto
  with Nil show ?case by (auto simp: drop_routes_def)
next
  case (Cons p rest)
  obtain spec r where p: "p = (spec, r)" by (cases p)
  have new: "spec \<notin> set gone" "filter (\<lambda>k. k \<notin> insert spec (set gone)) (keys visited) = filter (\<lambda>k. k \<notin> set gone) (keys visited)"
    using Cons.prems(2,3) p by (auto intro!: filter_cong simp: image_iff)
  show ?case
  proof (cases "endpoint_process (ge_rid_msg env) mx_no_callback (ge_now env) (rt_endpoint r, m)")
    case (Ok w st)
    obtain ep m1 where st: "st = (ep, m1)" by (cases st)
    let ?ep = "ep\<lparr>gce_outbox := []\<rparr>"
    from Cons.prems(1) obtain m2 where "mx_route_loop env (visited @ [(spec, r\<lparr>rt_endpoint := ?ep\<rparr>)]) gone (rest, m2) = Ok () (rs', m')"
      by (auto simp: p Ok st drain_messages_def split: outcome.splits)
    from Cons.IH[OF this] Cons.prems(2,3) new(1) route_process_cases(1)[OF Ok] show ?thesis by (auto simp: p)
  next
    case (Err e st)
    obtain ep m1 where st: "st = (ep, m1)" by (cases st)
    from Cons.prems(1) have e: "e = EndpointDisconnected" and l: "mx_route_loop env (visited @ [(spec, r\<lparr>rt_endpoint := ep\<rparr>)]) (gone @ [spec]) (rest, m1) = Ok () (rs', m')"
      by (auto simp: p Err st split: if_splits)
    from Cons.IH[OF l] Cons.prems(2,3) new(2) route_process_cases(2)[OF Err[unfolded e]] show ?thesis by (auto simp: p)
  qed (use Cons.prems(1) p in simp)
qed

lemma mx_drain_same:
  assumes "final_state (mx_drain get put m) = Some m'" and "\<And>d m'. same_routes m (put d m') = same_routes m m'"
  shows "same_routes m m'"
  using assms unfolding mx_drain_def by (auto elim!: final_deref[where P = same_routes] simp: same_routes_refl)

lemma mx_for_each_same:
  assumes "\<And>msg m1 m2. final_state (h msg m1) = Some m2 \<Longrightarrow> same_routes m1 m2"
  shows "same_routes m m1 \<Longrightarrow> final_state (for_each (\<lambda>msg m. map_err f (h msg m)) msgs m1) = Some m' \<Longrightarrow> same_routes m m'"
  using for_each_invariant[where P = "same_routes m" and xs = msgs and body = "\<lambda>msg m. map_err f (h msg m)" and s = m1 and s' = m'] assms same_routes_trans
  by (metis final_state_map_err)

lemma mx_phase_same:
  fixes get :: "TransportMultiplex \<Rightarrow> ('cb, 'ro, 'ror, 'rs, 'rsr, 'err) GhostContextEndpoint Detach"
  assumes run: "\<And>m1. final_state R = Some m1 \<Longrightarrow> same_routes m m1" and put: "\<And>d m m'. same_routes m (put d m') = same_routes m m'"
    and h: "\<And>msg m1 m2. final_state (h msg m1) = Some m2 \<Longrightarrow> same_routes m1 m2"
    and final: "final_state (bind_ok R (\<lambda>_ m. bind_ok (mx_drain get put m) (\<lambda>msgs. for_each (\<lambda>msg m. map_err f (h msg m)) msgs))) = Some m'"
  shows "same_routes m m'"
proof (cases R)
  case (Ok v m1)
  then have m1: "same_routes m m1" using run by simp
  have m2: "same_routes m m2" if "final_state (mx_drain get put m1) = Some m2" for m2
    using same_routes_trans[OF m1 mx_drain_same[OF that put]] .
  show ?thesis
  proof (cases "mx_drain get put m1")
    case (Ok msgs m2)
    then show ?thesis using final \<open>R = Ok v m1\<close> m2 mx_for_each_same[of h m m2 f msgs m'] h by simp
  qed (use final \<open>R = Ok v m1\<close> m2 in auto)
qed (use run final in auto)

lemma mx_process_same:
  shows "final_state (mx_process_owner env m) = Some m' \<Longrightarrow> same_routes m m'"
    and "final_state (mx_process_inner env inner m) = Some m' \<Longrightarrow> same_routes m m'"
proof -
  have handlers: "final_state (mx_handle_msg_from_parent env msg m1) = Some m2 \<Longrightarrow> same_routes m1 m2"
    "final_state (handle_msg_from_inner env msg' m1) = Some m2 \<Longrightarrow> same_routes m1 m2" for msg msg' m1 m2
    by (auto simp: mx_handle_msg_from_parent_def handle_msg_from_inner_def handle_received_data_def dest!: mx_ops_same(3-5)
        split: prod.splits option.splits GatewayRequestToParent.splits RequestToParent.splits if_splits)
  have run1: "same_routes m m1" if "final_state (detach_run mx_endpoint_self (\<lambda>d m. m\<lparr>mx_endpoint_self := d\<rparr>)
      (endpoint_process (ge_rid_msg env) (mx_call (mx_self_callback env)) (ge_now env)) m) = Some m1" for m1
    using that mx_self.endpoint_process_keeps[of m "m\<lparr>mx_endpoint_self := Detach None\<rparr>" _ "ge_rid_msg env" env "ge_now env"]
    by (cases "mx_endpoint_self m"; cases "case mx_endpoint_self m of Detach x \<Rightarrow> x") (auto simp: detach_run_def final_state_lift_state same_routes_refl)
  have keeps: "same_routes m m1" if "final_state (child_process (ge_rid_msg env) (mx_call (mx_inner_callback env)) (ge_now env) inner (ep, m\<lparr>mx_inner_gateway := Detach None\<rparr>)) = Some (ep', m1)" for ep ep' m1
  proof -
    have k: "same_routes m m1" if "final_state (endpoint_process (ge_rid_msg env) (mx_call (mx_inner_callback env)) (ge_now env)
        (ep, m\<lparr>mx_inner_gateway := Detach None\<rparr>)) = Some (ep', m1)" for ep ep' m1
      using mx_inner.endpoint_process_keeps[of m "m\<lparr>mx_inner_gateway := Detach None\<rparr>" ep "ge_rid_msg env" env "ge_now env" ep' m1] that
      by (simp add: same_routes_refl)
    have "endpoint_process (ge_rid_msg env) (mx_call (mx_inner_callback env)) (ge_now env) (ep, m\<lparr>mx_inner_gateway := Detach None\<rparr>) = Ok v (ep', m1) \<Longrightarrow> same_routes m m1"
      "endpoint_process (ge_rid_msg env) (mx_call (mx_inner_callback env)) (ge_now env) (ep, m\<lparr>mx_inner_gateway := Detach None\<rparr>) = Err e (ep', m1) \<Longrightarrow> same_routes m m1"
      for ep ep' m1 v e using k[of ep ep' m1] by simp_all
    then show ?thesis using that
      by (cases inner) (auto simp: child_process_def final_state_bind_ok same_routes_refl split: outcome.splits)
  qed
  have run2: "same_routes m m1" if "final_state (detach_run mx_inner_gateway (\<lambda>d m. m\<lparr>mx_inner_gateway := d\<rparr>)
      (child_process (ge_rid_msg env) (mx_call (mx_inner_callback env)) (ge_now env) inner) m) = Some m1" for m1
    using that keeps
    by (cases "mx_inner_gateway m"; cases "case mx_inner_gateway m of Detach x \<Rightarrow> x") (auto simp: detach_run_def final_state_lift_state)
  show "same_routes m m'" if "final_state (mx_process_owner env m) = Some m'"
    using mx_phase_same[OF run1 _ handlers(1) that[unfolded mx_process_owner_def]] by simp
  show "same_routes m m'" if "final_state (mx_process_inner env inner m) = Some m'"
    using mx_phase_same[OF run2 _ handlers(2) that[unfolded mx_process_inner_def]] by simp
qed

section \<open>Properties\<close>

text \<open>
  C38: A route asks to send. The next pass over the routes hands the request to the inner gateway, unchanged. Whatever
  the inner gateway answers, that route gets exactly one answer under its own id: the transport's answer
  as it is, anything else as an error. The other routes and the owner see nothing of it.
\<close>

theorem route_request_relayed:
  assumes "mx_wf m" and routes: "mx_route_endpoints m = Detach (Some (rs1 @ (spec, r) # rs2))"
    and "\<forall>(s, q) \<in> set (rs1 @ rs2). idle_endpoint (ge_now env) (rt_endpoint q)"
    and "gt_expired (ge_now env) (gce_tracker (rt_endpoint r)) = []" "gce_outbox (rt_endpoint r) = []" "\<not> rcv_disconnected (gce_receiver (rt_endpoint r))"
    and "rcv_incoming (gce_receiver (rt_endpoint r)) = [Request b (Some rid) (SendMessage uri payload)]" "snd_error (gce_sender (rt_endpoint r)) = None"
    and inner: "mx_inner_gateway m = Detach (Some i)" "ready (gateway_env.truncate env) i"
  shows "\<exists>m1 ra. mx_process_routes env m = Ok () m1 \<and> last_sent (mx_inner_gateway m1) = Some (Request (ge_bt env) (Some ra) (TransportToChild (SendMessage uri payload)))
    \<and> (\<forall>answer. \<exists>m2 r2. mx_process_inner env (Ok True [Response b1 ra answer]) m1 = Ok () m2
        \<and> mx_route_endpoints m2 = Detach (Some (rs1 @ (spec, r2) # rs2)) \<and> mx_endpoint_self m2 = mx_endpoint_self m
        \<and> snd_sent (gce_sender (rt_endpoint r2)) = snd_sent (gce_sender (rt_endpoint r))
            @ [Response (ge_bt env) rid (case answer of Inr (TransportResponse x) \<Rightarrow> Inr x | _ \<Rightarrow> route_answer env (CbResponse answer))])"
proof -
  let ?msg = "(GhostMessage_new b (Some rid) (SendMessage uri payload))\<lparr>gm_message := None\<rparr>"
  let ?cb = "RespondToRoute (rt_serial r) ?msg" and ?ra = "gt_request_id_prefix (gce_tracker i) @ re_nanoid (mx_req env m)"
  define r1 where "r1 = r\<lparr>rt_endpoint := (rt_endpoint r)\<lparr>gce_receiver := (gce_receiver (rt_endpoint r))\<lparr>rcv_incoming := []\<rparr>\<rparr>\<rparr>"
  define m1 where "m1 = m\<lparr>mx_route_endpoints := Detach (Some (rs1 @ (spec, r1) # rs2)),
    mx_inner_gateway := Detach (Some (asked (mx_req env m) (TransportToChild (SendMessage uri payload)) ?cb i)), mx_draws := Suc (mx_draws m)\<rparr>"
  have run: "mx_process_routes env m = Ok () m1"
    unfolding m1_def using process_routes_one[OF routes assms(3-7) inner refl r1_def] .
  have fresh: "rt_serial r1 \<notin> set (serials rs1)" "rt_serial r1 = rt_serial r"
    using assms(1) by (auto simp: mx_wf_def wf_routes_def routes_of_def routes r1_def)
  have "\<exists>m2 r2. mx_process_inner env (Ok True [Response b1 ?ra answer]) m1 = Ok () m2
        \<and> mx_route_endpoints m2 = Detach (Some (rs1 @ (spec, r2) # rs2)) \<and> mx_endpoint_self m2 = mx_endpoint_self m
        \<and> snd_sent (gce_sender (rt_endpoint r2)) = snd_sent (gce_sender (rt_endpoint r)) @ [Response (ge_bt env) rid (route_answer env (CbResponse answer))]" for answer
  proof -
    let ?h = "m1\<lparr>mx_inner_gateway := Detach None\<rparr>" and ?r2 = "r1\<lparr>rt_endpoint := append_sent [Response (ge_bt env) rid (route_answer env (CbResponse answer))] (rt_endpoint r1)\<rparr>"
    have "mx_inner_callback env ?cb (CbResponse answer) ?h = Ok () (?h\<lparr>mx_route_endpoints := Detach (Some (rs1 @ (spec, ?r2) # rs2))\<rparr>)"
      using mx_route_respond_open[of ?h rs1 spec r1 rs2 ?msg rid env] fresh assms(8) by (simp add: m1_def r1_def GhostMessage_new_def)
    from inner_answers(1)[OF inner(2) _ refl this, of m "TransportToChild (SendMessage uri payload)" b1]
    obtain i' where answered: "mx_process_inner env (Ok True [Response b1 ?ra answer]) m1 =
        Ok () (?h\<lparr>mx_route_endpoints := Detach (Some (rs1 @ (spec, ?r2) # rs2)), mx_inner_gateway := Detach (Some i')\<rparr>)"
      by (auto simp: m1_def)
    show ?thesis
      by (rule exI, rule exI[of _ ?r2], intro conjI, rule answered) (simp_all add: m1_def, simp add: r1_def append_sent_def)
  qed
  moreover have "route_answer env (CbResponse answer) = (case answer of Inr (TransportResponse x) \<Rightarrow> Inr x | _ \<Rightarrow> route_answer env (CbResponse answer))" for answer
    by (simp add: route_answer_def split: sum.splits GatewayRequestToChildResponse.splits)
  moreover have "last_sent (mx_inner_gateway m1) = Some (Request (ge_bt env) (Some ?ra) (TransportToChild (SendMessage uri payload)))"
    by (simp add: m1_def mx_req_def)
  ultimately show ?thesis using run by metis
qed

text \<open>
  C39: The routes are kept apart. From a well-formed multiplexer, whatever a \<open>process\<close> call receives and even
  if it ends with an error, it stays well-formed, and a pass over the routes that succeeds keeps exactly the routes
  whose other end is still there. A route that exists cannot be created again (it panics); a new one is
  added; removing one hands it back and leaves the others.
\<close>

theorem routes_kept_apart:
  assumes wf: "mx_wf m" and spec: "spec = \<lparr>lrs_space_address = space, lrs_local_agent_id = agent\<rparr>"
  shows "(final_state (mx_process_concrete env inner m) = Some m' \<longrightarrow> mx_wf m')
    \<and> (mx_process_routes env m = Ok () m' \<longrightarrow> keys (routes_of m') = keys (filter connected (routes_of m)))
    \<and> (spec \<in> set (keys (routes_of m)) \<longrightarrow>
         (create_agent_space_route space agent m :: (_, GhostError, _) outcome) = Panic ''create_agent_space_route can only be called ONCE!'')
    \<and> (spec \<notin> set (keys (routes_of m)) \<longrightarrow> (\<exists>ep m1. (create_agent_space_route space agent m :: (_, GhostError, _) outcome) = Ok ep m1
         \<and> mx_wf m1 \<and> keys (routes_of m1) = keys (routes_of m) @ [spec]))
    \<and> (\<exists>m1. (remove_agent_space_route space agent m :: (_, GhostError, _) outcome) = Ok (map_of (routes_of m) spec) m1
         \<and> mx_wf m1 \<and> keys (routes_of m1) = filter (\<lambda>k. k \<noteq> spec) (keys (routes_of m)))"
proof -
  obtain rs where rs: "mx_route_endpoints m = Detach (Some rs)" using wf unfolding mx_wf_def is_attached_iff by blast
  have wfr: "wf_routes rs (mx_orphans m) (mx_serial m)" "routes_of m = rs" using wf rs by (auto simp: mx_wf_def routes_of_def)
  have routes: "mx_wf m2" if w: "mx_wf m1" and f: "final_state (mx_process_routes env m1) = Some m2" for m1 m2
  proof -
    obtain rs1 where rs1: "mx_route_endpoints m1 = Detach (Some rs1)" using w unfolding mx_wf_def is_attached_iff by blast
    from f obtain rs2 m3 where "final_state (mx_route_loop env [] [] (rs1, m1\<lparr>mx_route_endpoints := Detach None\<rparr>)) = Some (rs2, m3)"
      and m2: "m2 = m3\<lparr>mx_route_endpoints := Detach (Some rs2)\<rparr>"
      by (auto simp: mx_process_routes_def detach_run_attached rs1 final_state_lift_state)
    from mx_route_loop_wf[OF this(1), of "mx_serial m1"] w show ?thesis by (simp add: m2 mx_wf_def routes_of_def rs1)
  qed
  have proc: "mx_wf m'" if "final_state (mx_process_concrete env inner m) = Some m'"
    using that same_routes_wf[OF mx_process_same(1) wf] same_routes_wf[OF mx_process_same(2)] routes
    by (auto simp: mx_process_concrete_def final_state_bind_ok split: outcome.splits) (metis final_state.simps(1,2))+
  have kept: "keys (routes_of m') = keys (filter connected (routes_of m))" if "mx_process_routes env m = Ok () m'"
  proof -
    from that obtain rs2 m3 where "mx_route_loop env [] [] (rs, m\<lparr>mx_route_endpoints := Detach None\<rparr>) = Ok () (rs2, m3)"
      and "m' = m3\<lparr>mx_route_endpoints := Detach (Some rs2)\<rparr>"
      by (auto simp: mx_process_routes_def detach_run_attached rs outcome_simps)
    with mx_route_loop_keys[OF this(1)] wfr show ?thesis by (simp add: routes_of_def wf_routes_def)
  qed
  have create: "(create_agent_space_route space agent m :: (_, GhostError, _) outcome) =
      (if spec \<in> set (keys rs) then Panic ''create_agent_space_route can only be called ONCE!'' else Ok (fst create_ghost_channel)
        (m\<lparr>mx_route_endpoints := Detach (Some (rs @ [(spec, \<lparr>rt_serial = mx_serial m, rt_endpoint = wrap_endpoint ''mplex_to_route_'' (snd create_ghost_channel)\<rparr>)])),
           mx_serial := Suc (mx_serial m)\<rparr>))"
    by (auto simp: create_agent_space_route_def on_routes_def detach_deref_mut_def rs spec Let_def create_ghost_channel_def map_of_eq_None_iff update_new)
  have removed: "\<exists>m1. (remove_agent_space_route space agent m :: (_, GhostError, _) outcome) = Ok (map_of (routes_of m) spec) m1
      \<and> mx_wf m1 \<and> keys (routes_of m1) = filter (\<lambda>k. k \<noteq> spec) (keys (routes_of m))"
  proof -
    have "keys (filter (\<lambda>(s, r). s \<notin> set [spec]) xs) = filter (\<lambda>k. k \<noteq> spec) (keys xs)" for xs :: "(LocalRouteSpec \<times> Route) list"
      by (induction xs) auto
    then show ?thesis using drop_routes_wf[OF wfr(1), of "[spec]"] wfr(2)
      by (simp add: remove_agent_space_route_def rs spec Let_def mx_wf_def routes_of_def drop_routes_def)
  qed
  have added: "wf_routes (rs @ [(spec, \<lparr>rt_serial = mx_serial m, rt_endpoint = ep\<rparr>)]) (mx_orphans m) (Suc (mx_serial m))" if "spec \<notin> set (keys rs)" for ep
  proof -
    have "mx_serial m \<notin> set (serials rs @ keys (mx_orphans m))" using wfr(1) unfolding wf_routes_def by blast
    with wfr(1) that show ?thesis by (simp add: wf_routes_def ball_Un less_SucI)
  qed
  have created: "\<exists>ep m1. (create_agent_space_route space agent m :: (_, GhostError, _) outcome) = Ok ep m1
      \<and> mx_wf m1 \<and> keys (routes_of m1) = keys (routes_of m) @ [spec]" if "spec \<notin> set (keys (routes_of m))"
    unfolding create using that added rs by (simp add: mx_wf_def routes_of_def)
  have once: "(create_agent_space_route space agent m :: (_, GhostError, _) outcome) = Panic ''create_agent_space_route can only be called ONCE!''"
    if "spec \<in> set (keys (routes_of m))" using create that wfr(2) by argo
  show ?thesis by (intro conjI impI proc kept once created removed)
qed

text \<open>
  A route that is removed while a request of it is under way: when the answer comes and the other end of the route is gone,
  the multiplexer's \<open>process\<close> fails, and everything behind the answer waits for the next call.
\<close>

definition hang_up :: "string \<Rightarrow> TransportMultiplex \<Rightarrow> TransportMultiplex" where
  "hang_up e m = m\<lparr>mx_orphans := map (\<lambda>(n, s). (n, s\<lparr>snd_error := Some e\<rparr>)) (mx_orphans m)\<rparr>"

theorem answer_for_removed_route_fails:
  assumes "mx_wf m" and "mx_route_endpoints m = Detach (Some rs)" and "(spec, r) \<in> set rs" and "spec = \<lparr>lrs_space_address = space, lrs_local_agent_id = agent\<rparr>"
    and inner: "mx_inner_gateway m = Detach (Some (asked (mx_req env m0) p (RespondToRoute (rt_serial r) msg) i))" "ready (gateway_env.truncate env) i"
    and "gm_request_id msg = Some rid" and "ra = gt_request_id_prefix (gce_tracker i) @ re_nanoid (mx_req env m0)"
  shows "\<exists>m1 m2. (remove_agent_space_route space agent m :: (_, GhostError, _) outcome) = Ok (Some r) m1
    \<and> mx_process_inner env (Ok True [Response b ra answer]) (hang_up e m1) = Err (Other e) m2"
proof -
  have d: "distinct (keys rs)" "distinct (serials rs @ keys (mx_orphans m))" using assms(1,2) by (auto simp: mx_wf_def wf_routes_def routes_of_def)
  let ?rs = "filter (\<lambda>(s, r). s \<notin> set [spec]) rs" and ?s = "(gce_sender (rt_endpoint r))\<lparr>snd_error := Some e\<rparr>"
  define m1 where "m1 = (snd (drop_routes [spec] rs m))\<lparr>mx_route_endpoints := Detach (Some ?rs)\<rparr>"
  have r: "map_of rs spec = Some r" using d(1) assms(3) by simp
  have removed: "(remove_agent_space_route space agent m :: (_, GhostError, _) outcome) = Ok (Some r) m1"
    using r by (simp add: remove_agent_space_route_def assms(2,4) Let_def m1_def drop_routes_def)
  have only: "filter (\<lambda>(s, r). s \<in> set [spec]) rs = [(spec, r)]" using d(1) assms(3)
  proof (induction rs)
    case (Cons q qs)
    then show ?case by (cases q) (auto simp: filter_empty_conv image_iff)
  qed simp
  have "rt_serial r \<in> set (serials rs)" using assms(3) by force
  then have n: "rt_serial r \<notin> set (serials ?rs)" "rt_serial r \<notin> set (keys (mx_orphans m))"
    using d(2) assms(3) by (force simp: distinct_map inj_on_def, auto)
  have os: "mx_orphans (hang_up e m1) = map (\<lambda>(n, s). (n, s\<lparr>snd_error := Some e\<rparr>)) (mx_orphans m) @ [(rt_serial r, ?s)]"
    using only by (simp add: hang_up_def m1_def drop_routes_def)
  have "map_of (map (\<lambda>(n, s). (n, s\<lparr>snd_error := Some e\<rparr>)) xs) k = map_option (\<lambda>s. s\<lparr>snd_error := Some e\<rparr>) (map_of xs k)" for xs :: "(nat \<times> route_sender) list" and k
    by (induction xs) auto
  then have "map_of (mx_orphans (hang_up e m1)) (rt_serial r) = Some ?s"
    using n(2) map_of_eq_None_iff[of "mx_orphans m" "rt_serial r"] by (simp add: os map_add_def)
  then have "mx_inner_callback env (RespondToRoute (rt_serial r) msg) (CbResponse answer) ((hang_up e m1)\<lparr>mx_inner_gateway := Detach None\<rparr>) =
      Err (Other e) ((hang_up e m1)\<lparr>mx_inner_gateway := Detach None, mx_orphans := AList.update (rt_serial r) ?s (mx_orphans (hang_up e m1))\<rparr>)"
    using mx_route_respond_closed[of "(hang_up e m1)\<lparr>mx_inner_gateway := Detach None\<rparr>" ?rs, OF _ n(1) _ _ assms(7)] by (simp add: hang_up_def m1_def)
  from inner_answers(2)[OF inner(2) _ assms(8) this, of p b] inner(1) removed show ?thesis by (auto simp: hang_up_def m1_def drop_routes_def)
qed

section \<open>Witnesses\<close>

definition demo_mx_env :: mx_env where
  "demo_mx_env = gateway_env.extend (demo_gw_env 100) \<lparr>me_dbg_response = (\<lambda>_. []), me_dbg_route = (\<lambda>_. [])\<rparr>"

definition demo_spec :: "string \<Rightarrow> LocalRouteSpec" where
  "demo_spec agent = \<lparr>lrs_space_address = ''s'', lrs_local_agent_id = agent\<rparr>"

definition demo_route :: "nat \<Rightarrow> (RequestToChild, RequestToParentResponse, TransportError) GhostEndpointMessage list \<Rightarrow> Route" where
  "demo_route n ms = \<lparr>rt_serial = n, rt_endpoint = deliver ms (wrap_endpoint ''mplex_to_route_'' (snd create_ghost_channel))\<rparr>"

definition demo_send_request :: "(RequestToChild, RequestToParentResponse, TransportError) GhostEndpointMessage" where
  "demo_send_request = Request (Backtwrap None) (Some ''r1'') (SendMessage ''a:you'' [9])"

definition demo_mx :: TransportMultiplex where
  "demo_mx = \<lparr>mx_endpoint_parent = None, mx_endpoint_self = Detach (Some (wrap_endpoint ''mplex_to_parent_'' (snd create_ghost_channel))),
     mx_inner_gateway = Detach (Some (wrap_endpoint ''mplex_to_inner_gateway_'' (fst create_ghost_channel))),
     mx_route_endpoints = Detach (Some [(demo_spec ''bob'', demo_route 2 []), (demo_spec ''eve'', demo_route 3 [demo_send_request])]),
     mx_orphans = [], mx_serial = 4, mx_draws = 0\<rparr>"

lemmas demo_route_simps = demo_route_def deliver_def wrap_endpoint_def create_ghost_channel_def GhostContextEndpointBuilder_build_def
  GhostContextEndpointBuilder_request_id_prefix_def as_context_endpoint_builder_def GhostTrackerBuilder_build_def
  GhostTrackerBuilder_request_id_prefix_def GhostEndpoint_new_def fresh_sender_def fresh_receiver_def gt_expired_def

lemma demo_mx_env_simps: "gateway_env.truncate demo_mx_env = demo_gw_env 100" "ge_now demo_mx_env = 100" "ge_bt demo_mx_env = Backtwrap None"
  by (simp_all add: demo_mx_env_def gateway_env.defs demo_gw_env_def)

lemma demo_mx_wf: "mx_wf demo_mx"
  by (simp add: mx_wf_def demo_mx_def routes_of_def wf_routes_def demo_route_def demo_spec_def)

lemma demo_routes: "idle_endpoint now (rt_endpoint (demo_route 2 []))" "gt_expired now (gce_tracker (rt_endpoint (demo_route 3 [demo_send_request]))) = []"
  "gce_outbox (rt_endpoint (demo_route 3 [demo_send_request])) = []" "\<not> rcv_disconnected (gce_receiver (rt_endpoint (demo_route 3 [demo_send_request])))"
  "rcv_incoming (gce_receiver (rt_endpoint (demo_route 3 [demo_send_request]))) = [Request (Backtwrap None) (Some ''r1'') (SendMessage ''a:you'' [9])]"
  "snd_error (gce_sender (rt_endpoint (demo_route 3 [demo_send_request]))) = None" "snd_sent (gce_sender (rt_endpoint (demo_route 3 [demo_send_request]))) = []"
  by (simp_all add: idle_endpoint_def demo_route_simps demo_send_request_def)

theorem route_request_relayed_witness:
  "\<exists>m1 ra m2 r2. mx_process_routes demo_mx_env demo_mx = Ok () m1
     \<and> mx_process_inner demo_mx_env (Ok True [Response (Backtwrap None) ra (Inr (TransportResponse SendMessageSuccess))]) m1 = Ok () m2
     \<and> mx_route_endpoints m2 = Detach (Some [(demo_spec ''bob'', demo_route 2 []), (demo_spec ''eve'', r2)])
     \<and> snd_sent (gce_sender (rt_endpoint r2)) = [Response (Backtwrap None) ''r1'' (Inr SendMessageSuccess)]"
proof -
  have routes: "mx_route_endpoints demo_mx = Detach (Some ([(demo_spec ''bob'', demo_route 2 [])] @ (demo_spec ''eve'', demo_route 3 [demo_send_request]) # []))"
    "mx_inner_gateway demo_mx = Detach (Some (wrap_endpoint ''mplex_to_inner_gateway_'' (fst create_ghost_channel)))" by (simp_all add: demo_mx_def)
  have idle: "\<forall>(s, q) \<in> set ([(demo_spec ''bob'', demo_route 2 [])] @ []). idle_endpoint (ge_now demo_mx_env) (rt_endpoint q)" by (simp add: demo_routes)
  have rd: "ready (gateway_env.truncate demo_mx_env) (wrap_endpoint prefix (fst create_ghost_channel))" for prefix
    using demo_ready by (simp add: demo_mx_env_simps)
  from route_request_relayed[OF demo_mx_wf routes(1) idle demo_routes(2-6) routes(2) rd, where ?b1.0 = "Backtwrap None"]
  obtain m1 ra where m1: "mx_process_routes demo_mx_env demo_mx = Ok () m1" and all: "\<forall>answer. \<exists>m2 r2.
      mx_process_inner demo_mx_env (Ok True [Response (Backtwrap None) ra answer]) m1 = Ok () m2
      \<and> mx_route_endpoints m2 = Detach (Some ([(demo_spec ''bob'', demo_route 2 [])] @ (demo_spec ''eve'', r2) # [])) \<and> mx_endpoint_self m2 = mx_endpoint_self demo_mx
      \<and> snd_sent (gce_sender (rt_endpoint r2)) = snd_sent (gce_sender (rt_endpoint (demo_route 3 [demo_send_request])))
          @ [Response (ge_bt demo_mx_env) ''r1'' (case answer of Inr (TransportResponse x) \<Rightarrow> Inr x | _ \<Rightarrow> route_answer demo_mx_env (CbResponse answer))]"
    by blast
  from m1 all[rule_format, of "Inr (TransportResponse SendMessageSuccess)"] show ?thesis by (auto simp: demo_routes demo_mx_env_simps)
qed

theorem routes_kept_apart_witness:
  "\<exists>ep m1 m2. (create_agent_space_route ''s'' ''ann'' demo_mx :: (_, GhostError, _) outcome) = Ok ep m1
     \<and> keys (routes_of m1) = [demo_spec ''bob'', demo_spec ''eve'', demo_spec ''ann'']
     \<and> (remove_agent_space_route ''s'' ''bob'' demo_mx :: (_, GhostError, _) outcome) = Ok (Some (demo_route 2 [])) m2 \<and> keys (routes_of m2) = [demo_spec ''eve'']"
proof -
  have keys: "keys (routes_of demo_mx) = [demo_spec ''bob'', demo_spec ''eve'']" "map_of (routes_of demo_mx) (demo_spec ''bob'') = Some (demo_route 2 [])"
    by (simp_all add: demo_mx_def routes_of_def)
  have new: "demo_spec ''ann'' \<notin> set (keys (routes_of demo_mx))" "demo_spec ''eve'' \<noteq> demo_spec ''bob''" by (simp_all only: keys) (simp_all add: demo_spec_def)
  from routes_kept_apart[OF demo_mx_wf demo_spec_def[of "''ann''"], where env = demo_mx_env and inner = "Ok True []" and m' = demo_mx] new(1) keys(1)
    routes_kept_apart[OF demo_mx_wf demo_spec_def[of "''bob''"], where env = demo_mx_env and inner = "Ok True []" and m' = demo_mx] keys new(2)
  show ?thesis by auto
qed

theorem answer_for_removed_route_fails_witness:
  "\<exists>m ra m1 m2. (remove_agent_space_route ''s'' ''eve'' m :: (_, GhostError, _) outcome) = Ok (Some (demo_route 3 [demo_send_request])) m1
     \<and> mx_process_inner demo_mx_env (Ok True [Response (Backtwrap None) ra (Inr (TransportResponse SendMessageSuccess))]) (hang_up ''gone'' m1) = Err (Other ''gone'') m2"
proof -
  let ?i = "wrap_endpoint ''mplex_to_inner_gateway_'' (fst create_ghost_channel)" and ?msg = "GhostMessage_new (Backtwrap None) (Some ''r1'') (SendMessage ''a:you'' [9])"
  let ?m = "demo_mx\<lparr>mx_inner_gateway := Detach (Some (asked (mx_req demo_mx_env demo_mx) (TransportToChild (SendMessage ''a:you'' [9])) (RespondToRoute 3 ?msg) ?i))\<rparr>"
  have wf: "mx_wf ?m" using demo_mx_wf by (simp add: mx_wf_def routes_of_def)
  have f: "mx_route_endpoints ?m = Detach (Some [(demo_spec ''bob'', demo_route 2 []), (demo_spec ''eve'', demo_route 3 [demo_send_request])])"
    "(demo_spec ''eve'', demo_route 3 [demo_send_request]) \<in> set [(demo_spec ''bob'', demo_route 2 []), (demo_spec ''eve'', demo_route 3 [demo_send_request])]"
    "mx_inner_gateway ?m = Detach (Some (asked (mx_req demo_mx_env demo_mx) (TransportToChild (SendMessage ''a:you'' [9])) (RespondToRoute (rt_serial (demo_route 3 [demo_send_request])) ?msg) ?i))"
    "ready (gateway_env.truncate demo_mx_env) ?i" "gm_request_id ?msg = Some ''r1''"
    using demo_ready by (simp_all add: demo_mx_def demo_route_def demo_mx_env_simps GhostMessage_new_def)
  from answer_for_removed_route_fails[OF wf f(1,2) demo_spec_def f(3-5) refl] show ?thesis by blast
qed

end
