(* ===== verification/Engine_Spaces.thy ===== *)
theory Engine_Spaces
  imports Engine_Layers Multiplex_Paths
begin

text \<open>
  The spaces the engine has joined and the routes the multiplexer has for them: which operations leave both alone,
  how joining and leaving change them together, and what a failing space gateway does to them.
\<close>

section \<open>A predicate on every state an outcome leaves\<close>

definition upholds :: "('s \<Rightarrow> bool) \<Rightarrow> ('s, 'e, 'a) outcome \<Rightarrow> bool" where
  "upholds P r \<longleftrightarrow> (\<forall>s. final_state r = Some s \<longrightarrow> P s)"

named_theorems upholds_intros \<open>one rule per outcome combinator\<close>

lemma upholds_basic [upholds_intros]:
  "P s \<Longrightarrow> upholds P (Ok v s)" "P s \<Longrightarrow> upholds P (Err e s)" "upholds P (Panic m)"
  by (simp_all add: upholds_def)

lemma upholds_bind [upholds_intros]:
  "upholds P r \<Longrightarrow> (\<And>v s. P s \<Longrightarrow> upholds P (f v s)) \<Longrightarrow> upholds P (bind_ok r f)"
  by (cases r) (auto simp: upholds_def)

lemma upholds_conversions [upholds_intros]:
  "upholds P r \<Longrightarrow> upholds P (map_err g r)" "upholds P r \<Longrightarrow> upholds P (expect m r)"
  by (cases r; simp add: upholds_def)+

lemma upholds_as_ghost [upholds_intros]: "upholds P r \<Longrightarrow> upholds P (as_ghost env r)"
  by (simp add: as_ghost_def upholds_conversions)

lemma upholds_displayed [upholds_intros]: "upholds P r \<Longrightarrow> upholds P (displayed d mk r)"
  by (cases r) (auto simp: upholds_def displayed_def split: option.splits)

lemma upholds_ignore_err [upholds_intros]: "upholds P r \<Longrightarrow> upholds P (ignore_err r)"
  by (cases r) (auto simp: upholds_def)

lemma upholds_lift: "upholds (\<lambda>t. P (put t)) r \<Longrightarrow> upholds P (lift_state put r)"
  by (cases r) (auto simp: upholds_def)

lemma upholds_for_each [upholds_intros]:
  "P s \<Longrightarrow> (\<And>x s. x \<in> set xs \<Longrightarrow> P s \<Longrightarrow> upholds P (body x s)) \<Longrightarrow> upholds P (for_each body xs s)"
  unfolding upholds_def using for_each_invariant[of xs P body s] by blast

lemma upholds_with_value [upholds_intros]:
  "P e \<Longrightarrow> (\<And>v. upholds P (f v e)) \<Longrightarrow> upholds P (with_value r f e)"
  by (cases r) (auto simp: upholds_def with_value_def)

lemma upholds_triv: "upholds (\<lambda>_. True) r"
  by (simp add: upholds_def)

section \<open>Operations that change neither spaces nor routes\<close>

definition route_keys :: "'tls GhostEngine \<Rightarrow> (LocalRouteSpec list \<times> bool) option" where
  "route_keys e = (case multiplexer e of
     Detach (Some w) \<Rightarrow> Some (keys (routes_of (gpw_actor w)), is_attached (mx_route_endpoints (gpw_actor w))) | Detach None \<Rightarrow> None)"

definition space_keys :: "'tls GhostEngine \<Rightarrow> ChainId list" where
  "space_keys e = keys (space_gateway_map e)"

definition same_net :: "'tls GhostEngine \<Rightarrow> 'tls GhostEngine \<Rightarrow> bool" where
  "same_net e e' \<longleftrightarrow> space_keys e' = space_keys e \<and> route_keys e' = route_keys e"

lemma same_net_refl [simp]: "same_net e e"
  by (simp add: same_net_def)

lemma same_net_put [simp]:
  "same_net e (e'\<lparr>eng_draws := n\<rparr>) = same_net e e'" "same_net e (e'\<lparr>lib3h_endpoint := d\<rparr>) = same_net e e'" "same_net e (e'\<lparr>request_track := t\<rparr>) = same_net e e'"
  "same_net e (e'\<lparr>pending_client_direct_messages := p\<rparr>) = same_net e e'" "same_net e (e'\<lparr>multiplexer_defered_sends := ds\<rparr>) = same_net e e'"
  "same_net e (e'\<lparr>network_connections := cs\<rparr>) = same_net e e'" "same_net e (e'\<lparr>this_net_peer := tp\<rparr>) = same_net e e'"
  by (simp_all add: same_net_def route_keys_def space_keys_def)

lemma on_client_upholds [upholds_intros]: "same_net e0 e \<Longrightarrow> upholds (same_net e0) (on_client f e)"
  by (auto simp: on_client_def detach_deref_mut_def upholds_def final_state_lift_state split: Detach.splits option.splits)

lemma on_multiplexer_upholds:
  assumes "same_net e0 e" and "\<And>w. upholds (\<lambda>w'. same_routes (gpw_actor w) (gpw_actor w')) (f w)"
  shows "upholds (same_net e0) (on_multiplexer f e)"
proof (cases "multiplexer e")
  case (Detach x)
  show ?thesis
  proof (cases x)
    case (Some w)
    have "same_net e0 (e\<lparr>multiplexer := Detach (Some w')\<rparr>)" if "final_state (f w) = Some w'" for w'
      using assms(1) assms(2)[of w] that by (simp add: same_net_def route_keys_def space_keys_def Detach Some upholds_def same_routes_def)
    then show ?thesis by (auto simp: on_multiplexer_def detach_deref_mut_def Detach Some upholds_def final_state_lift_state)
  qed (simp add: on_multiplexer_def detach_deref_mut_def Detach upholds_def)
qed

lemma on_endpoint_actor: "upholds (\<lambda>w'. gpw_actor w' = gpw_actor w) (on_endpoint f w)"
  by (auto simp: on_endpoint_def upholds_def final_state_lift_state)

lemma upholds_weaken: "upholds P r \<Longrightarrow> (\<And>s. P s \<Longrightarrow> Q s) \<Longrightarrow> upholds Q r"
  by (simp add: upholds_def)

lemma on_endpoint_same_routes: "upholds (\<lambda>w'. same_routes (gpw_actor w) (gpw_actor w')) (on_endpoint f w)"
  by (rule upholds_weaken[OF on_endpoint_actor]) (simp add: same_routes_refl)

lemma on_space_upholds [upholds_intros]: "same_net e0 e \<Longrightarrow> upholds (same_net e0) (on_space c f e)"
  by (auto simp: on_space_def upholds_def final_state_lift_state put_space_def same_net_def route_keys_def space_keys_def keys_update_present split: option.splits)

lemma eng_drawn_upholds: "upholds (same_net e0) r \<Longrightarrow> upholds (same_net e0) (eng_drawn r)"
  by (simp add: eng_drawn_def upholds_lift)

lemma on_multiplexer_endpoint_upholds: "same_net e0 e \<Longrightarrow> upholds (same_net e0) (on_multiplexer (on_endpoint f) e)"
  by (rule on_multiplexer_upholds[OF _ on_endpoint_same_routes])

lemma eng_ops_upholds [upholds_intros]:
  assumes "same_net e0 e"
  shows "upholds (same_net e0) (client_request env cp ccb e)" "upholds (same_net e0) (client_publish env cp e)"
    "upholds (same_net e0) (client_respond env cmsg cans e)" "upholds (same_net e0) (multiplexer_request env mp mcb e)"
    "upholds (same_net e0) (multiplexer_publish env mp e)" "upholds (same_net e0) (space_request env c sp scb e)"
    "upholds (same_net e0) (space_publish env c sp e)"
  unfolding client_request_def client_publish_def client_respond_def multiplexer_request_def multiplexer_publish_def space_request_def space_publish_def
    wrapper_request_def[abs_def] wrapper_publish_def[abs_def]
  by (simp_all add: assms eng_drawn_upholds on_client_upholds on_multiplexer_endpoint_upholds on_space_upholds)

lemma reserve_upholds [upholds_intros]: "same_net e0 e \<Longrightarrow> upholds (same_net e0) (reserve env e)"
  by (auto simp: reserve_def upholds_def split: outcome.splits)

lemma gossip_upholds:
  assumes "\<And>p s. P s \<Longrightarrow> upholds P (pub p s)"
  shows "P s \<Longrightarrow> upholds P (gossip_to_each env gid from bundle pub names s)"
  by (induction names arbitrary: s) (auto intro!: upholds_intros assms split: option.splits)

lemma handle_GossipTo_upholds [upholds_intros]:
  "(\<And>p s. P s \<Longrightarrow> upholds P (pub p s)) \<Longrightarrow> P s \<Longrightarrow> upholds P (handle_GossipTo env gid pub from gd s)"
  by (simp add: handle_GossipTo_def gossip_upholds)

subsection \<open>Closures\<close>

lemma mx_callback_upholds: "same_net e0 e \<Longrightarrow> upholds (same_net e0) (eng_mx_callback env cb response e)"
  by (cases cb) (auto simp: send_joined_spaces_def defer_send_def intro!: upholds_intros
      split: GatewayRequestToChildResponse.splits RequestToChildResponse.splits DhtRequestToChildResponse.splits option.splits)

lemma space_callback_upholds: "same_net e0 e \<Longrightarrow> upholds (same_net e0) (eng_space_callback env cb response e)"
  by (cases cb) (auto simp: fetch_entry_def intro!: upholds_intros
      split: GhostCallbackData.splits sum.splits GatewayRequestToChildResponse.splits RequestToChildResponse.splits DhtRequestToChildResponse.splits option.splits)

lemma list_results_upholds [upholds_intros]:
  assumes "same_net e0 e"
  shows "upholds (same_net e0) (handle_HandleGetGossipingEntryListResult env l e)" "upholds (same_net e0) (handle_HandleGetAuthoringEntryListResult env l e)"
  using assms unfolding handle_HandleGetGossipingEntryListResult_def handle_HandleGetAuthoringEntryListResult_def Let_def
  by (auto intro!: upholds_intros split: sum.splits)

lemma answered_list_upholds [upholds_intros]:
  "same_net e0 e \<Longrightarrow> (\<And>l. upholds (same_net e0) (handle l e)) \<Longrightarrow> upholds (same_net e0) (answered_list env the_list handle response e)"
  by (auto simp: answered_list_def intro!: upholds_intros split: GhostCallbackData.splits sum.splits option.splits)

lemma client_answers_upholds [upholds_intros]:
  assumes "same_net e0 e"
  shows "upholds (same_net e0) (broadcast_fetched env sa pr response e)" "upholds (same_net e0) (answer_direct_message env response e)"
    "upholds (same_net e0) (respond_to_space env c n smsg sans e)"
  using assms unfolding broadcast_fetched_def answer_direct_message_def respond_to_space_def
  by (auto intro!: upholds_intros split: GhostCallbackData.splits sum.splits option.splits outcome.splits Lib3hToClientResponse.splits)

lemma answer_entry_request_upholds [upholds_intros]:
  "same_net e0 e \<Longrightarrow> upholds (same_net e0) (answer_entry_request env data n req response e)"
  by (auto simp: answer_entry_request_def Let_def intro!: upholds_intros
      split: GhostCallbackData.splits sum.splits outcome.splits Lib3hToClientResponse.splits prod.splits if_splits)

lemma client_callback_upholds:
  assumes "same_net e0 (fst st)"
  shows "upholds (\<lambda>st. same_net e0 (fst st)) (eng_client_callback env cb response st)"
proof -
  obtain e s where st: "st = (e, s)" by (cases st)
  show ?thesis
    using assms by (cases cb) (auto simp: st on_engine_def respond_query_def intro!: upholds_lift upholds_intros upholds_triv
        split: GhostCallbackData.splits sum.splits Lib3hToClientResponse.splits)
qed

subsection \<open>Requests of the network and of the spaces\<close>

lemma serials_update_present: "map_of rs k = Some r \<Longrightarrow> rt_serial r' = rt_serial r \<Longrightarrow> serials (AList.update k r' rs) = serials rs"
  by (induction rs) auto

lemma received_data_same_routes:
  "upholds (\<lambda>w'. same_routes (gpw_actor w) (gpw_actor w'))
     (lift_state (\<lambda>mx. w\<lparr>gpw_actor := mx\<rparr>) (received_data_for_agent_space_route env sa la ra payload (gpw_actor w)))"
  by (auto simp: upholds_def final_state_lift_state received_data_for_agent_space_route_def Let_def on_routes_def detach_deref_mut_def
      same_routes_def routes_of_def keys_update_present serials_update_present
      split: outcome.splits Detach.splits option.splits)

lemma network_upholds [upholds_intros]:
  assumes "same_net e0 e"
  shows "upholds (same_net e0) (handle_network_dht_request env dreq e)" "upholds (same_net e0) (eng_handle_incoming_connection env uri e)"
    "upholds (same_net e0) (hold_peer_in env pd c e)"
  using assms unfolding handle_network_dht_request_def eng_handle_incoming_connection_def hold_peer_in_def
  by (auto intro!: upholds_intros split: DhtRequestToParent.splits)

lemma serve_upholds [upholds_intros]: "same_net e0 e \<Longrightarrow> upholds (same_net e0) (serve_P2pProtocol env p e)"
  by (auto simp: serve_P2pProtocol_def Let_def intro!: upholds_intros on_multiplexer_upholds received_data_same_routes
      split: P2pProtocol.splits option.splits)

lemma handle_network_request_upholds: "same_net e0 e \<Longrightarrow> upholds (same_net e0) (handle_network_request env msg e)"
  by (auto simp: handle_network_request_def handle_network_transport_request_def with_p2p_message_def intro!: upholds_intros
      split: option.splits GatewayRequestToParent.splits RequestToParent.splits sum.splits)

lemma space_layer_upholds [upholds_intros]:
  assumes "same_net e0 e"
  shows "upholds (same_net e0) (handle_p2p_protocol env p e)" "upholds (same_net e0) (track_held env rid e)"
    "upholds (same_net e0) (store_aspect env sa from ea asp e)"
proof -
  show t: "upholds (same_net e0) (track_held env rid e)" for rid
    using assms by (auto simp: track_held_def intro!: upholds_intros split: outcome.splits)
  have "upholds (same_net e0) (track_held env rid e1)" if "same_net e0 e1" for rid e1
    using that by (auto simp: track_held_def intro!: upholds_intros split: outcome.splits)
  then show "upholds (same_net e0) (store_aspect env sa from ea asp e)"
    using assms by (auto simp: store_aspect_def intro!: upholds_intros)
  show "upholds (same_net e0) (handle_p2p_protocol env p e)"
    using assms by (auto simp: handle_p2p_protocol_def intro!: upholds_intros split: P2pProtocol.splits option.splits sum.splits)
qed

lemma handle_space_request_upholds: "same_net e0 e \<Longrightarrow> upholds (same_net e0) (handle_space_request env c msg e)"
  by (auto simp: handle_space_request_def handle_space_dht_request_def with_p2p_message_def Let_def intro!: upholds_intros
      split: option.splits prod.splits GatewayRequestToParent.splits RequestToParent.splits DhtRequestToParent.splits sum.splits)

subsection \<open>Runs of the children\<close>

interpretation eng_mx: callback_contract "eng_call (eng_mx_callback env)" "\<lambda>(e, s). same_net e0 e" for env e0
  by unfold_locales (use mx_callback_upholds in \<open>fastforce simp: eng_call_def upholds_def final_state_lift_state\<close>)

interpretation eng_sp: callback_contract "eng_call (eng_space_callback env)" "\<lambda>(e, s). same_net e0 e" for env e0
  by unfold_locales (use space_callback_upholds in \<open>fastforce simp: eng_call_def upholds_def final_state_lift_state\<close>)

interpretation eng_cl: callback_contract "eng_client_callback env" "\<lambda>st. same_net e0 (fst st)" for env e0
  by unfold_locales (use client_callback_upholds in \<open>fastforce simp: upholds_def\<close>)

text \<open>
  A child's run and the callbacks it causes leave the owner's net alone.
\<close>

lemma owned_process_keeps:
  assumes keeps: "\<And>(ep :: 'cb GatewayOwnerEndpoint) u (ep' :: 'cb GatewayOwnerEndpoint) u'. K u \<Longrightarrow> final_state (endpoint_process rid_msg call now (ep, u)) = Some (ep', u') \<Longrightarrow> K u'"
    and "K u" and "final_state (owned_process rid_msg call now run (w :: ('a, 'cb) gateway_wrapper, u)) = Some (w', u')"
  shows "K u' \<and> (\<exists>ms. final_state (run (gpw_actor w)) = Some (gpw_actor w', ms))"
proof (cases "run (gpw_actor w)")
  case (Ok v x)
  obtain a ms where x: "x = (a, ms)" by (cases x)
  from assms(3) obtain ep where "final_state (endpoint_process rid_msg call now (deliver ms (gpw_endpoint w), u)) = Some (ep, u')" "gpw_actor w' = a"
    by (cases "endpoint_process rid_msg call now (deliver ms (gpw_endpoint w), u)") (auto simp: owned_process_def Ok x)
  with keeps[OF assms(2) this(1)] show ?thesis by (auto simp: Ok x)
next
  case (Err er x)
  then show ?thesis using assms(2,3) by (cases x) (auto simp: owned_process_def)
next
  case (Panic m)
  then show ?thesis using assms(3) by (auto simp: owned_process_def)
qed

section \<open>Joined spaces have routes\<close>

definition spec_of :: "ChainId \<Rightarrow> LocalRouteSpec" where
  "spec_of c = \<lparr>lrs_space_address = fst c, lrs_local_agent_id = snd c\<rparr>"

lemma spec_of_inject [simp]: "spec_of c = spec_of c' \<longleftrightarrow> c = c'"
  by (auto simp: spec_of_def prod_eq_iff)

text \<open>Every joined space has a route; \<open>matched\<close>: and every route is that of a joined space.\<close>

definition routed :: "'tls GhostEngine \<Rightarrow> bool" where
  "routed e \<longleftrightarrow> distinct (space_keys e)
     \<and> (\<exists>rs. route_keys e = Some (rs, True) \<and> distinct rs \<and> spec_of ` set (space_keys e) \<subseteq> set rs)"

definition matched :: "'tls GhostEngine \<Rightarrow> bool" where
  "matched e \<longleftrightarrow> distinct (space_keys e)
     \<and> (\<exists>rs. route_keys e = Some (rs, True) \<and> distinct rs \<and> set rs = spec_of ` set (space_keys e))"

lemma matched_routed: "matched e \<Longrightarrow> routed e"
  by (auto simp: matched_def routed_def)

lemma same_net_routed: "same_net e e' \<Longrightarrow> routed e \<Longrightarrow> routed e'"
  by (simp add: same_net_def routed_def)

lemma same_net_matched: "same_net e e' \<Longrightarrow> matched e \<Longrightarrow> matched e'"
  by (simp add: same_net_def matched_def)

subsection \<open>Joining and leaving\<close>

lemma new_space_no_Err: "new_space env c uri route e \<noteq> Err err u"
  by (auto simp: new_space_def split_at_4_def with_transport_id_def Lib3hUri_parse_def P2pGateway_new_def GhostParentWrapper_new_def gw_take_parent_endpoint_def
      Let_def split: sum.splits option.splits prod.splits)

lemma keys_update_new: "map_of m k = None \<Longrightarrow> keys (AList.update k v m) = keys m @ [k]"
  by (simp add: update_new)

lemma create_route_cases:
  assumes "final_state (create_agent_space_route sa ag mx) = Some mx'"
  shows "is_attached (mx_route_endpoints mx) \<and> is_attached (mx_route_endpoints mx') \<and> spec_of (sa, ag) \<notin> set (keys (routes_of mx))
     \<and> keys (routes_of mx') = keys (routes_of mx) @ [spec_of (sa, ag)]"
  using assms
  by (auto simp: create_agent_space_route_def Let_def on_routes_def detach_deref_mut_def routes_of_def spec_of_def keys_update_new
      final_state_lift_state map_of_eq_None_iff split: Detach.splits option.splits if_splits prod.splits)

lemma space_keys_put [simp]: "space_keys (e\<lparr>multiplexer := d, eng_serial := n\<rparr>) = space_keys e" "space_keys (e\<lparr>multiplexer := d\<rparr>) = space_keys e"
  by (simp_all add: space_keys_def)

lemma keys_put_new: "map_of (space_gateway_map e) c = None \<Longrightarrow> space_keys (put_space c sp e) = space_keys e @ [c]"
  by (simp add: put_space_def space_keys_def keys_update_new)

definition joins :: "ChainId \<Rightarrow> 'tls GhostEngine \<Rightarrow> 'tls GhostEngine \<Rightarrow> bool" where
  "joins c e e' \<longleftrightarrow> c \<notin> set (space_keys e) \<and> space_keys e' = space_keys e @ [c]
     \<and> (\<exists>rs. route_keys e = Some (rs, True) \<and> spec_of c \<notin> set rs \<and> route_keys e' = Some (rs @ [spec_of c], True))"

lemma joins_matched: "joins c e e' \<Longrightarrow> matched e \<Longrightarrow> matched e'"
  by (auto simp: joins_def matched_def)

lemma joins_routed: "joins c e e' \<Longrightarrow> routed e \<Longrightarrow> routed e'"
  by (auto simp: joins_def routed_def image_subset_iff)

lemma joins_same_net: "joins c e e1 \<Longrightarrow> same_net e1 e' \<Longrightarrow> joins c e e'"
  by (auto simp: joins_def same_net_def)

lemma add_gateway_cases:
  assumes "final_state (add_gateway env sa ag e) = Some e'"
  shows "(add_gateway env sa ag e = Err (new_other ''Already joined space'') e \<and> e' = e \<and> map_of (space_gateway_map e) (sa, ag) \<noteq> None)
    \<or> (add_gateway env sa ag e = Ok (sa, ag) e' \<and> joins (sa, ag) e e')"
proof (cases "map_of (space_gateway_map e) (sa, ag)")
  case None
  then obtain uri where uri: "(with_agent_id (ge_url env) ag :: (unit, Lib3hError, Lib3hUri) outcome) = Ok uri ()"
    using assms by (auto simp: add_gateway_def with_value_def with_agent_id_def Lib3hUri_parse_def split: sum.splits outcome.splits)
  obtain w where w: "multiplexer e = Detach (Some w)"
    using assms None uri by (auto simp: add_gateway_def with_value_def on_multiplexer_def detach_deref_mut_def split: Detach.splits option.splits)
  show ?thesis
  proof (cases "create_agent_space_route sa ag (gpw_actor w) :: (TransportMultiplex, Lib3hError, TransportActorParentEndpoint) outcome")
    case (Ok route mx)
    let ?e1 = "e\<lparr>multiplexer := Detach (Some (w\<lparr>gpw_actor := mx\<rparr>))\<rparr>"
    obtain sp where "new_space env (sa, ag) uri route ?e1 = Ok sp ()"
      using assms None uri w Ok new_space_no_Err[of env "(sa, ag)" uri route ?e1]
      by (cases "new_space env (sa, ag) uri route ?e1") (auto simp: add_gateway_def with_value_def on_multiplexer_def detach_deref_mut_def Let_def)
    then have r: "add_gateway env sa ag e = Ok (sa, ag) (put_space (sa, ag) sp (?e1\<lparr>eng_serial := Suc (eng_serial e)\<rparr>))"
      using None uri w Ok by (simp add: add_gateway_def Let_def with_value_def on_multiplexer_def detach_deref_mut_def)
    then have e': "e' = put_space (sa, ag) sp (?e1\<lparr>eng_serial := Suc (eng_serial e)\<rparr>)" using assms by simp
    have "space_keys e' = space_keys e @ [(sa, ag)]"
      unfolding e' using keys_put_new[of "?e1\<lparr>eng_serial := Suc (eng_serial e)\<rparr>" "(sa, ag)" sp] None by simp
    moreover have "route_keys e' = Some (keys (routes_of mx), is_attached (mx_route_endpoints mx))"
      by (simp add: e' put_space_def route_keys_def)
    ultimately show ?thesis
      using r e' None create_route_cases[OF arg_cong[OF Ok, of final_state, simplified]]
      by (simp add: joins_def route_keys_def[of e] w map_of_eq_None_iff space_keys_def[of e])
  qed (use assms None uri w in \<open>auto simp: add_gateway_def with_value_def on_multiplexer_def detach_deref_mut_def create_agent_space_route_def
      on_routes_def Let_def split: prod.splits Detach.splits option.splits if_splits\<close>)
qed (use assms in \<open>auto simp: add_gateway_def\<close>)

text \<open>
  A join changes the net by one new space and its route, or not at all.
\<close>

lemma handle_join_cases:
  assumes "final_state (handle_join env d e) = Some e'"
  shows "same_net e e' \<or> joins (spd_space_address d, spd_agent_id d) e e'"
proof (cases "add_gateway env (spd_space_address d) (spd_agent_id d) e")
  case (Ok c e1)
  with add_gateway_cases[of env "spd_space_address d" "spd_agent_id d" e e1] have j: "joins (spd_space_address d, spd_agent_id d) e e1" and c: "c = (spd_space_address d, spd_agent_id d)" by auto
  have "upholds (same_net e1) (handle_join env d e)"
    unfolding handle_join_def Ok bind_ok.simps broadcast_join_def by (auto intro!: upholds_intros split: sum.splits)
  then have "same_net e1 e'" using assms by (simp add: upholds_def)
  with j show ?thesis by (blast intro: joins_same_net)
next
  case (Err err e1)
  with add_gateway_cases[of env "spd_space_address d" "spd_agent_id d" e e1] assms show ?thesis by (auto simp: handle_join_def)
qed (use assms in \<open>simp add: handle_join_def\<close>)

definition leaves :: "ChainId \<Rightarrow> 'tls GhostEngine \<Rightarrow> 'tls GhostEngine \<Rightarrow> bool" where
  "leaves c e e' \<longleftrightarrow> c \<in> set (space_keys e) \<and> space_keys e' = removeAll c (space_keys e)
     \<and> (\<exists>rs. route_keys e = Some (rs, True) \<and> route_keys e' = Some (removeAll (spec_of c) rs, True))"

lemma leaves_matched: "leaves c e e' \<Longrightarrow> matched e \<Longrightarrow> matched e'"
  by (auto simp: leaves_def matched_def distinct_removeAll)

lemma leaves_routed: "leaves c e e' \<Longrightarrow> routed e \<Longrightarrow> routed e'"
  by (auto simp: leaves_def routed_def distinct_removeAll image_subset_iff)

lemma keys_delete: "keys (AList.delete k m) = removeAll k (keys m)"
  by (induction m) auto

lemma keys_filter_removeAll: "keys (filter (\<lambda>(k', v). k' \<noteq> k) rs) = removeAll k (keys rs)"
  by (induction rs) auto

lemma handle_leave_cases:
  assumes "final_state (handle_leave_space d e) = Some e'"
  shows "(handle_leave_space d e = Err (new_other ''Not part of that space'') e \<and> e' = e)
     \<or> (handle_leave_space d e = Ok () e' \<and> leaves (spd_space_address d, spd_agent_id d) e e')"
proof (cases "map_of (space_gateway_map e) (spd_space_address d, spd_agent_id d)")
  case (Some sp)
  then show ?thesis
    using assms map_of_in_keys[OF Some]
    by (auto simp: handle_leave_space_def Let_def on_multiplexer_def detach_deref_mut_def remove_agent_space_route_def drop_routes_def leaves_def route_keys_def space_keys_def
        routes_of_def spec_of_def keys_delete keys_filter_removeAll[simplified] split: Detach.splits option.splits)
qed (use assms in \<open>simp add: handle_leave_space_def\<close>)

lemma respond_result_upholds:
  "upholds P r \<Longrightarrow> (\<And>e ans. P e \<Longrightarrow> upholds P (client_respond env msg ans e)) \<Longrightarrow> upholds P (respond_result env msg answer r)"
  by (cases r) (auto simp: respond_result_def upholds_def)

lemma client_keeps_net:
  assumes "upholds Q r" and net: "\<And>e1 e2. Q e1 \<Longrightarrow> same_net e1 e2 \<Longrightarrow> Q e2"
  shows "upholds Q (respond_result env msg answer r)"
proof (rule respond_result_upholds[OF assms(1)])
  show "upholds Q (client_respond env msg ans e)" if "Q e" for e ans
    using upholds_weaken[OF eng_ops_upholds(3)[OF same_net_refl]] net[OF that] by blast
qed

lemma client_handlers_upholds [upholds_intros]:
  assumes "same_net e0 e"
  shows "upholds (same_net e0) (handle_bootstrap env msg bd e)" "upholds (same_net e0) (handle_direct_message env msg dm e)"
    "upholds (same_net e0) (handle_publish_entry env ped e)" "upholds (same_net e0) (handle_query_entry env msg qd e)"
  using assms unfolding handle_bootstrap_def handle_direct_message_def handle_publish_entry_def handle_query_entry_def Let_def
  by (auto intro!: upholds_intros split: sum.splits outcome.splits)

lemma weaken_net: "(\<And>e1 e2. Q e1 \<Longrightarrow> same_net e1 e2 \<Longrightarrow> Q e2) \<Longrightarrow> Q e \<Longrightarrow> upholds (same_net e) r \<Longrightarrow> upholds Q r"
  by (auto simp: upholds_def)

text \<open>
  Any message of the client, whatever becomes of it, keeps an invariant of spaces and routes.
\<close>

lemma client_message_upholds:
  assumes net: "\<And>e1 e2. Q e1 \<Longrightarrow> same_net e1 e2 \<Longrightarrow> Q e2" and join: "\<And>c e1 e2. Q e1 \<Longrightarrow> joins c e1 e2 \<Longrightarrow> Q e2"
    and leave: "\<And>c e1 e2. Q e1 \<Longrightarrow> leaves c e1 e2 \<Longrightarrow> Q e2" and "Q e"
  shows "upholds Q (handle_msg_from_client env msg e)"
proof -
  have j: "upholds Q (handle_join env d e)" for d
    unfolding upholds_def using handle_join_cases net[OF assms(4)] join[OF assms(4)] by blast
  have l: "upholds Q (handle_leave_space d e)" for d
    unfolding upholds_def using handle_leave_cases[of d e] leave[OF assms(4)] assms(4) by fastforce
  note h = client_handlers_upholds[OF same_net_refl, THEN weaken_net[of Q, rotated 2, OF _ net assms(4)]]
  show ?thesis
    unfolding handle_msg_from_client_def
    by (auto intro!: client_keeps_net[OF j net] client_keeps_net[OF l net] upholds_displayed upholds_basic(3)
        h(1) h(2)
        h(3) h(4)
        split: prod.splits option.splits ClientToLib3h.splits)
qed

lemma client_message_keeps:
  shows "matched e \<Longrightarrow> upholds matched (handle_msg_from_client env msg e)"
    and "routed e \<Longrightarrow> upholds routed (handle_msg_from_client env msg e)"
  by (rule client_message_upholds; blast intro: same_net_matched joins_matched leaves_matched same_net_routed joins_routed leaves_routed)+

lemma same_net_upholds:
  shows "matched e \<Longrightarrow> upholds (same_net e) r \<Longrightarrow> upholds matched r"
    and "routed e \<Longrightarrow> upholds (same_net e) r \<Longrightarrow> upholds routed r"
  by (auto simp: upholds_def intro: same_net_matched same_net_routed)

subsection \<open>Processing\<close>

definition keeps_routes :: "TransportMultiplex gateway_run \<Rightarrow> bool" where
  "keeps_routes run \<longleftrightarrow> (\<forall>mx mx' ms. final_state (run mx) = Some (mx', ms) \<longrightarrow> same_routes mx mx')"

lemma run_multiplexer_upholds:
  assumes "keeps_routes run"
  shows "upholds (same_net e) (run_multiplexer env run e)"
proof (cases "multiplexer e")
  case (Detach x)
  show ?thesis
  proof (cases x)
    case (Some w)
    let ?e = "e\<lparr>multiplexer := Detach None\<rparr>"
    have "same_net e (e1\<lparr>multiplexer := Detach (Some w1)\<rparr>)"
      if "final_state (owned_process (ge_rid_msg env) (eng_call (eng_mx_callback env)) (ge_now env) run (w, ?e)) = Some (w1, e1)" for w1 e1
    proof -
      have "same_net ?e e1 \<and> (\<exists>ms. final_state (run (gpw_actor w)) = Some (gpw_actor w1, ms))"
        using owned_process_keeps[of "same_net ?e", OF _ _ that] eng_mx.endpoint_process_keeps[where ?e0.0 = ?e and env = env] by fastforce
      then have "space_keys e1 = space_keys e" "same_routes (gpw_actor w) (gpw_actor w1)"
        using assms by (auto simp: same_net_def keeps_routes_def)
      then show ?thesis by (simp add: same_net_def route_keys_def Detach Some same_routes_def)
    qed
    then show ?thesis by (auto simp: run_multiplexer_def detach_run_attached[of multiplexer, OF Detach[unfolded Some]] upholds_def final_state_lift_state)
  qed (simp add: run_multiplexer_def detach_run_def Detach upholds_def)
qed

lemma same_net_trans: "same_net e e1 \<Longrightarrow> same_net e1 e2 \<Longrightarrow> same_net e e2"
  by (simp add: same_net_def)

lemma drain_multiplexer_upholds [upholds_intros]: "same_net e0 e \<Longrightarrow> upholds (same_net e0) (drain_multiplexer e)"
  unfolding drain_multiplexer_def
  by (rule on_multiplexer_upholds) (auto simp: wrapper_drain_messages_def drain_messages_def upholds_def same_routes_refl)

lemma process_multiplexer_upholds:
  assumes "keeps_routes run"
  shows "upholds (same_net e) (process_multiplexer env run e)"
  unfolding process_multiplexer_def send_deferred_def
  by (auto intro!: upholds_intros run_multiplexer_upholds[OF assms] handle_network_request_upholds)

text \<open>
  After the first loop over the spaces, a prefix of them is left; all of them when it has not failed.
\<close>

lemma run_spaces_prefix:
  assumes "final_state (run_spaces env runs sps e) = Some e'" and "distinct (space_keys e @ keys sps)"
  shows "\<exists>n. space_keys e' = space_keys e @ take n (keys sps) \<and> route_keys e' = route_keys e
     \<and> (\<forall>out. run_spaces env runs sps e = Ok out e' \<longrightarrow> take n (keys sps) = keys sps)"
  using assms
proof (induction env runs sps e rule: run_spaces.induct)
  case (1 env runs e)
  then show ?case by simp
next
  case (2 env runs c sp rest e)
  show ?case
  proof (cases "owned_process (ge_rid_msg env) (eng_call (eng_space_callback env)) (ge_now env) (runs c) (sp_gateway sp, e)")
    case (Ok v x)
    obtain w e1 where x: "x = (w, e1)" by (cases x)
    have n1: "same_net e e1"
      using owned_process_keeps[of "same_net e", OF _ _ arg_cong[OF Ok[unfolded x], of final_state, simplified]]
        eng_sp.endpoint_process_keeps[where ?e0.0 = e and env = env] by fastforce
    obtain msgs w' where d: "wrapper_drain_messages w = (msgs, w')" by (cases "wrapper_drain_messages w")
    let ?e2 = "put_space c (sp\<lparr>sp_gateway := w'\<rparr>) e1"
    have "c \<notin> set (space_keys e1)" using 2(3) n1 by (simp add: same_net_def)
    then have "map_of (space_gateway_map e1) c = None" by (simp add: space_keys_def keys_map_of_None)
    then have k: "space_keys ?e2 = space_keys e @ [c]" "route_keys ?e2 = route_keys e"
      using n1 keys_put_new[of e1 c] by (auto simp: same_net_def) (simp add: put_space_def route_keys_def)
    from 2(2) obtain out where "final_state (run_spaces env runs rest ?e2) = Some e'"
      by (cases "run_spaces env runs rest ?e2") (auto simp: Ok x d)
    from 2(1)[OF Ok x[symmetric] d[symmetric] this] 2(3) k obtain n
      where "space_keys e' = space_keys e @ c # take n (keys rest)" "route_keys e' = route_keys e"
        "\<forall>out. run_spaces env runs rest ?e2 = Ok out e' \<longrightarrow> take n (keys rest) = keys rest" by auto
    then show ?thesis by (intro exI[of _ "Suc n"]) (auto simp: Ok x d bind_ok_eq_Ok)
  next
    case (Err er x)
    obtain w e1 where x: "x = (w, e1)" by (cases x)
    have "same_net e e1"
      using owned_process_keeps[of "same_net e", OF _ _ arg_cong[OF Err[unfolded x], of final_state, simplified]]
        eng_sp.endpoint_process_keeps[where ?e0.0 = e and env = env] by fastforce
    then show ?thesis using 2(2) by (auto simp: Err x same_net_def intro!: exI[of _ 0])
  qed (use 2(2) in simp)
qed

lemma space_requests_upholds:
  "same_net e0 e \<Longrightarrow> upholds (same_net e0) (for_each (\<lambda>(c, msgs). for_each (handle_space_request env c) msgs) outbox e)"
  by (auto intro!: upholds_intros handle_space_request_upholds)

lemma process_space_gateways_prefix:
  assumes "final_state (process_space_gateways env runs e) = Some e'" and "distinct (space_keys e)"
  shows "\<exists>n. space_keys e' = take n (space_keys e) \<and> route_keys e' = route_keys e
     \<and> ((\<exists>out e1. run_spaces env runs (space_gateway_map e) (e\<lparr>space_gateway_map := []\<rparr>) = Ok out e1) \<longrightarrow> space_keys e' = space_keys e)"
proof -
  let ?e0 = "e\<lparr>space_gateway_map := []\<rparr>"
  have e0: "space_keys ?e0 = []" "route_keys ?e0 = route_keys e" by (simp_all add: space_keys_def route_keys_def)
  show ?thesis
  proof (cases "run_spaces env runs (space_gateway_map e) ?e0")
    case (Ok out e1)
    then have e1: "space_keys e1 = space_keys e" "route_keys e1 = route_keys e"
      using run_spaces_prefix[of env runs "space_gateway_map e" ?e0 e1] assms(2) e0 by (auto simp: space_keys_def[of e])
    have "upholds (same_net e1) (process_space_gateways env runs e)"
      unfolding process_space_gateways_def Ok bind_ok.simps by (auto intro!: upholds_intros space_requests_upholds)
    then have "same_net e1 e'" using assms(1) by (simp add: upholds_def)
    then show ?thesis using e1 by (auto simp: same_net_def intro!: exI[of _ "length (space_keys e)"])
  next
    case (Err er e1)
    then have "e' = e1" using assms(1) by (simp add: process_space_gateways_def)
    then show ?thesis
      using run_spaces_prefix[of env runs "space_gateway_map e" ?e0 e1] assms(2) e0 Err by (auto simp: space_keys_def[of e])
  qed (use assms(1) in \<open>simp add: process_space_gateways_def\<close>)
qed

lemma run_client_upholds: "upholds (same_net e) (run_client env e)"
proof (cases "lib3h_endpoint e")
  case (Detach x)
  show ?thesis
  proof (cases x)
    case (Some ep)
    let ?e = "e\<lparr>lib3h_endpoint := Detach None\<rparr>"
    have "same_net e e1"
      if "final_state (endpoint_process (ge_rid_msg env) (eng_client_callback env) (ge_now env) (ep, ?e)) = Some (ep1, e1)" for ep1 e1
      using eng_cl.endpoint_process_keeps[of e ?e ep "ge_rid_msg env" env "ge_now env" ep1 e1] that by simp
    then show ?thesis by (auto simp: run_client_def detach_run_attached[of lib3h_endpoint, OF Detach[unfolded Some]] upholds_def final_state_lift_state)
  qed (simp add: run_client_def detach_run_def Detach upholds_def)
qed

lemma drain_client_upholds: "upholds (same_net e) (drain_client e)"
  by (simp add: drain_client_def on_client_upholds)

lemma upholds_Ok: "upholds P r \<Longrightarrow> r = Ok v s \<Longrightarrow> P s"
  by (simp add: upholds_def)

lemma as_ghost_Ok: "as_ghost env r = Ok v s \<longleftrightarrow> r = Ok v s"
  by (cases r) (auto simp: as_ghost_def)

lemma client_messages_keep:
  shows "matched e \<Longrightarrow> upholds matched (for_each (handle_msg_from_client env) msgs e)"
    and "routed e \<Longrightarrow> upholds routed (for_each (handle_msg_from_client env) msgs e)"
  by (auto intro!: upholds_for_each client_message_keeps)

lemma prefix_routed: "routed e \<Longrightarrow> space_keys e' = take n (space_keys e) \<Longrightarrow> route_keys e' = route_keys e \<Longrightarrow> routed e'"
  using set_take_subset[of n "space_keys e"] by (auto simp: routed_def)

lemma upholds_chain: "upholds Q r \<Longrightarrow> (\<And>v s. Q s \<Longrightarrow> upholds R (f v s)) \<Longrightarrow> (\<And>s. Q s \<Longrightarrow> R s) \<Longrightarrow> upholds R (bind_ok r f)"
  by (cases r) (auto simp: upholds_def)


subsection \<open>A space that fails\<close>

lemma run_spaces_append:
  "run_spaces env runs (xs @ ys) e = bind_ok (run_spaces env runs xs e) (\<lambda>out e. bind_ok (run_spaces env runs ys e) (\<lambda>out'. Ok (out @ out')))"
proof (induction env runs xs e rule: run_spaces.induct)
  case (1 env runs e)
  then show ?case by (cases "run_spaces env runs ys e") auto
next
  case (2 env runs c sp rest e)
  then show ?case by (auto simp: bind_ok_assoc split: outcome.splits prod.splits)
qed

lemma join_lost_space:
  assumes "route_keys e = Some (rs, True)" and "spec_of (spd_space_address d, spd_agent_id d) \<in> set rs"
    and "(spd_space_address d, spd_agent_id d) \<notin> set (space_keys e)" and "ul_parse (ge_url env) (AGENT_SCHEME @ '':'' @ spd_agent_id d) = Inr uri"
  shows "handle_join env d e = Panic ''create_agent_space_route can only be called ONCE!''"
proof -
  obtain w where w: "multiplexer e = Detach (Some w)" and rs: "keys (routes_of (gpw_actor w)) = rs" and at: "is_attached (mx_route_endpoints (gpw_actor w))"
    using assms(1) by (auto simp: route_keys_def split: Detach.splits option.splits)
  from at obtain r where r: "mx_route_endpoints (gpw_actor w) = Detach (Some r)" by (auto simp: is_attached_iff)
  with rs assms(2) have "map_of r (spec_of (spd_space_address d, spd_agent_id d)) \<noteq> None" by (auto simp: routes_of_def keys_map_of_None)
  moreover have "map_of (space_gateway_map e) (spd_space_address d, spd_agent_id d) = None"
    using assms(3) by (simp add: space_keys_def keys_map_of_None)
  ultimately show ?thesis
    using assms(4) w r by (simp add: handle_join_def add_gateway_def Let_def with_value_def with_agent_id_def Lib3hUri_parse_def on_multiplexer_def detach_deref_mut_def
        create_agent_space_route_def on_routes_def spec_of_def create_ghost_channel_def)
qed

text \<open>
  C26: An error of one space gateway costs more than that gateway: \<open>process_space_gateways\<close> drops it and every gateway
  behind it in the iteration, though the clients never left those spaces. Their routes stay, so joining one of these
  spaces again panics.
\<close>

theorem failing_space_loses_spaces:
  assumes spaces: "space_gateway_map e = sps1 @ (c, sp) # sps2" and m: "matched e"
    and before: "run_spaces env runs sps1 (e\<lparr>space_gateway_map := []\<rparr>) = Ok out e1"
    and fails: "runs c (gpw_actor (sp_gateway sp)) = Err err (a, ms)"
  shows "\<exists>e'. process_space_gateways env runs e = Err (Lib3hGhostError err) e' \<and> space_keys e' = keys sps1 \<and> route_keys e' = route_keys e
    \<and> (\<forall>d uri. (spd_space_address d, spd_agent_id d) \<in> set (keys ((c, sp) # sps2)) \<longrightarrow> ul_parse (ge_url env) (AGENT_SCHEME @ '':'' @ spd_agent_id d) = Inr uri \<longrightarrow>
         handle_join env d e' = Panic ''create_agent_space_route can only be called ONCE!'')"
proof -
  let ?e0 = "e\<lparr>space_gateway_map := []\<rparr>"
  have p: "process_space_gateways env runs e = Err (Lib3hGhostError err) e1"
    by (simp add: process_space_gateways_def spaces run_spaces_append before owned_process_def fails)
  have d: "distinct (keys (sps1 @ (c, sp) # sps2))" using m spaces by (simp add: matched_def space_keys_def)
  have e0: "space_keys ?e0 = []" "route_keys ?e0 = route_keys e" by (simp_all add: space_keys_def route_keys_def)
  then have e1: "space_keys e1 = keys sps1" "route_keys e1 = route_keys e"
    using run_spaces_prefix[OF arg_cong[OF before, of final_state, simplified]] d before by auto
  have "handle_join env d e1 = Panic ''create_agent_space_route can only be called ONCE!''"
    if lost: "(spd_space_address d, spd_agent_id d) \<in> set (keys ((c, sp) # sps2))" and uri: "ul_parse (ge_url env) (AGENT_SCHEME @ '':'' @ spd_agent_id d) = Inr uri" for d uri
  proof -
    obtain rs where rs: "route_keys e1 = Some (rs, True)" "set rs = spec_of ` set (space_keys e)" using m e1 by (auto simp: matched_def)
    have "spec_of (spd_space_address d, spd_agent_id d) \<in> set rs" using lost unfolding rs(2) space_keys_def spaces by simp blast
    moreover have "(spd_space_address d, spd_agent_id d) \<notin> set (space_keys e1)" using lost \<open>distinct _\<close> e1 by auto
    ultimately show ?thesis by (rule join_lost_space[OF rs(1) _ _ uri])
  qed
  with p e1 show ?thesis by blast
qed

section \<open>Examples\<close>

definition demo_eng_env :: eng_env where
  "demo_eng_env = mx_env.extend demo_mx_env \<lparr>ee_log_error = True, ee_dbg_answer = (\<lambda>_. []), ee_dbg_chain = (\<lambda>_. []), ee_dbg_errors = (\<lambda>_. []),
     ee_dbg_str = id, ee_closed = ''closed''\<rparr>"

definition demo_space :: "nat \<Rightarrow> Space" where
  "demo_space n = \<lparr>sp_serial = n, sp_gateway = \<lparr>gpw_actor = demo_gateway, gpw_endpoint = wrap_endpoint ''space_gateway_'' (fst create_ghost_channel)\<rparr>\<rparr>"

definition demo_config :: "unit EngineConfig" where
  "demo_config = \<lparr>network_id = \<lparr>nickname = ''n'', gateway_id = ''net''\<rparr>, transport_configs = [MemoryTransport ''m''], bootstrap_nodes = [], work_dir = [],
     log_level = CHR ''i'', bind_url = ''mem://'', dht_gossip_interval = 500, dht_timeout_threshold = 1000, dht_custom_config = []\<rparr>"

definition demo_wrapped_mx :: "LocalRouteSpec list \<Rightarrow> Multiplexer" where
  "demo_wrapped_mx specs = \<lparr>gpw_actor = demo_mx\<lparr>mx_route_endpoints := Detach (Some (map (\<lambda>spec. (spec, demo_route 0 [])) specs))\<rparr>,
     gpw_endpoint = wrap_endpoint ''engine_to_multiplexer_'' (fst create_ghost_channel)\<rparr>"

text \<open>An engine that has joined the given spaces.\<close>

definition demo_engine :: "ChainId list \<Rightarrow> unit GhostEngine" where
  "demo_engine cs = (eng_struct ''e'' demo_config (\<lambda>_ _. Some (fst create_ghost_channel)) ''tid''
      \<lparr>peer_name = ''transportid:tid'', peer_location = ''mem://a'', timestamp = 1\<rparr> (demo_wrapped_mx (map spec_of cs)))
     \<lparr>space_gateway_map := map (\<lambda>c. (c, demo_space 0)) cs\<rparr>"

lemma demo_engine_keys: "space_keys (demo_engine cs) = cs" "route_keys (demo_engine cs) = Some (map spec_of cs, True)"
  by (simp_all add: demo_engine_def space_keys_def route_keys_def eng_struct_def demo_wrapped_mx_def demo_mx_def routes_of_def comp_def create_ghost_channel_def Detach_new_def)

lemma demo_engine_matched: "distinct cs \<Longrightarrow> matched (demo_engine cs)"
  by (simp add: matched_def demo_engine_keys distinct_map inj_on_def)

definition quiet_run :: "'a gateway_run" where
  "quiet_run a = Ok False (a, [])"

lemma quiet_keeps_routes: "keeps_routes quiet_run"
  by (simp add: keeps_routes_def quiet_run_def same_routes_refl)

lemma demo_fresh_idle: "idle_endpoint now (wrap_endpoint prefix (GhostEndpoint_new fresh_sender fresh_receiver))"
  by (simp add: idle_endpoint_def demo_gateway_simps gt_expired_def)

lemma quiet_owned_process:
  assumes "idle_endpoint now (gpw_endpoint w)"
  shows "owned_process rid_msg call now quiet_run (w, u) = Ok False (w, u)"
  using assms by (cases w) (simp add: owned_process_def quiet_run_def deliver_def endpoint_process_idle)

lemma demo_env_simps:
  "ge_url demo_eng_env = demo_url" "ge_now demo_eng_env = 100" "ge_bt demo_eng_env = Backtwrap None" "ge_wire demo_eng_env = demo_wire"
  by (simp_all add: demo_eng_env_def mx_env.defs demo_mx_env_def gateway_env.defs demo_gw_env_def)

lemma demo_engine_parts:
  "lib3h_endpoint (demo_engine cs) = Detach (Some (wrap_endpoint ''e'' (GhostEndpoint_new fresh_sender fresh_receiver)))"
  "multiplexer (demo_engine cs) = Detach (Some (demo_wrapped_mx (map spec_of cs)))"
  "space_gateway_map (demo_engine cs) = map (\<lambda>c. (c, demo_space 0)) cs" "multiplexer_defered_sends (demo_engine cs) = []"
  by (simp_all add: demo_engine_def eng_struct_def create_ghost_channel_def Detach_new_def)

lemma demo_space_idle: "idle_endpoint now (gpw_endpoint (sp_gateway (demo_space n)))" "idle_endpoint now (gpw_endpoint (demo_wrapped_mx specs))"
  by (simp_all add: demo_space_def demo_wrapped_mx_def create_ghost_channel_def demo_fresh_idle)

lemma demo_drained: "gce_outbox (wrap_endpoint prefix (GhostEndpoint_new s r)) = []"
  by (simp add: wrap_endpoint_def GhostContextEndpointBuilder_build_def)

lemma idle_drain: "gce_outbox ep = [] \<Longrightarrow> drain_messages ep = ([], ep)"
  by (simp add: drain_messages_def)

lemma demo_wrapped_drained:
  "drain_messages (gpw_endpoint (demo_wrapped_mx specs)) = ([], gpw_endpoint (demo_wrapped_mx specs))"
  "drain_messages (gpw_endpoint (sp_gateway (demo_space n))) = ([], gpw_endpoint (sp_gateway (demo_space n)))"
  using demo_space_idle by (simp_all add: idle_endpoint_def idle_drain)

theorem failing_space_loses_spaces_witness:
  "\<exists>e'. process_space_gateways demo_eng_env (\<lambda>c. if c = (''space2'', ''agent'') then (\<lambda>a. Err EndpointDisconnected (a, [])) else quiet_run)
      (demo_engine [(''space1'', ''agent''), (''space2'', ''agent''), (''space3'', ''agent'')]) = Err (Lib3hGhostError EndpointDisconnected) e'
    \<and> space_keys e' = [(''space1'', ''agent'')]
    \<and> handle_join demo_eng_env \<lparr>spd_request_id = [], spd_space_address = ''space3'', spd_agent_id = ''agent''\<rparr> e' = Panic ''create_agent_space_route can only be called ONCE!''"
proof -
  let ?runs = "\<lambda>c :: ChainId. if c = (''space2'', ''agent'') then (\<lambda>a :: P2pGateway. Err EndpointDisconnected (a, [])) else quiet_run"
  let ?e = "demo_engine [(''space1'', ''agent''), (''space2'', ''agent''), (''space3'', ''agent'')]"
  have "\<exists>out e1. run_spaces demo_eng_env ?runs [((''space1'', ''agent''), demo_space 0)] (?e\<lparr>space_gateway_map := []\<rparr>) = Ok out e1"
    by (simp add: quiet_owned_process demo_space_idle split: prod.splits)
  then obtain out e1 where "run_spaces demo_eng_env ?runs [((''space1'', ''agent''), demo_space 0)] (?e\<lparr>space_gateway_map := []\<rparr>) = Ok out e1" by blast
  from failing_space_loses_spaces[of ?e "[((''space1'', ''agent''), demo_space 0)]" "(''space2'', ''agent'')" "demo_space 0" "[((''space3'', ''agent''), demo_space 0)]",
      OF _ demo_engine_matched this, of EndpointDisconnected "gpw_actor (sp_gateway (demo_space 0))" "[]"]
  show ?thesis by (auto simp: demo_engine_parts demo_env_simps demo_url_def)
qed


end
