(* ===== verification/Engine_Paths.thy ===== *)
theory Engine_Paths
  imports Engine_Spaces
begin

text \<open>
  Whole paths through engines: a direct message from one client to another and its result back, joining a
  space, and gossip from one node to the other.
\<close>

section \<open>Open channels\<close>

definition client_open :: "eng_env \<Rightarrow> Lib3hEndpoint \<Rightarrow> 'tls GhostEngine \<Rightarrow> bool" where
  "client_open env ep e \<longleftrightarrow> lib3h_endpoint e = Detach (Some ep) \<and> snd_error (gce_sender ep) = None
     \<and> ge_now env + gt_default_timeout (gce_tracker ep) \<le> TIME_MAX"

definition space_open :: "eng_env \<Rightarrow> ChainId \<Rightarrow> Space \<Rightarrow> 'tls GhostEngine \<Rightarrow> bool" where
  "space_open env c sp e \<longleftrightarrow> map_of (space_gateway_map e) c = Some sp \<and> snd_error (gce_sender (gpw_endpoint (sp_gateway sp))) = None
     \<and> ge_now env + gt_default_timeout (gce_tracker (gpw_endpoint (sp_gateway sp))) \<le> TIME_MAX"

text \<open>What has been sent to the client, and to the gateway of a space.\<close>

definition client_sent :: "'tls GhostEngine \<Rightarrow> (Lib3hToClient, ClientToLib3hResponse, Lib3hError) GhostEndpointMessage list" where
  "client_sent e = (case lib3h_endpoint e of Detach (Some ep) \<Rightarrow> snd_sent (gce_sender ep) | Detach None \<Rightarrow> [])"

definition space_sent :: "ChainId \<Rightarrow> 'tls GhostEngine \<Rightarrow> (GatewayRequestToChild, GatewayRequestToParentResponse, Lib3hError) GhostEndpointMessage list" where
  "space_sent c e = (case map_of (space_gateway_map e) c of Some sp \<Rightarrow> snd_sent (gce_sender (gpw_endpoint (sp_gateway sp))) | None \<Rightarrow> [])"

definition with_endpoint :: "((EngineSpaceCallback GatewayOwnerEndpoint) \<Rightarrow> EngineSpaceCallback GatewayOwnerEndpoint) \<Rightarrow> Space \<Rightarrow> Space" where
  "with_endpoint f sp = sp\<lparr>sp_gateway := (sp_gateway sp)\<lparr>gpw_endpoint := f (gpw_endpoint (sp_gateway sp))\<rparr>\<rparr>"

named_theorems open_ops \<open>operations on open channels\<close>

lemma client_request_open [open_ops]:
  "client_open env ep e \<Longrightarrow> client_request env p cb e = Ok () (e\<lparr>lib3h_endpoint := Detach (Some (asked (eng_req env e) p cb ep)), eng_draws := Suc (eng_draws e)\<rparr>)"
  by (simp add: client_open_def client_request_def on_client_def detach_deref_mut_def request_open eng_req_def eng_drawn_def)

lemma client_publish_open [open_ops]:
  "client_open env ep e \<Longrightarrow> client_publish env p e = Ok () (e\<lparr>lib3h_endpoint := Detach (Some (append_sent [Request (ge_bt env) None p] ep))\<rparr>)"
  by (simp add: client_open_def client_publish_def on_client_def detach_deref_mut_def publish_open)

lemma client_respond_open [open_ops]:
  "client_open env ep e \<Longrightarrow> gm_request_id msg = Some rid \<Longrightarrow>
     client_respond env msg r e = Ok () (e\<lparr>lib3h_endpoint := Detach (Some (append_sent [Response (ge_bt env) rid r] ep))\<rparr>)"
  by (simp add: client_open_def client_respond_def on_client_def detach_deref_mut_def GhostMessage_respond_def append_sent_def chan_send_def)

lemma space_request_open [open_ops]:
  "space_open env c sp e \<Longrightarrow> space_request env c p cb e =
     Ok () ((put_space c (with_endpoint (asked (eng_req env e) p cb) sp) e)\<lparr>eng_draws := Suc (eng_draws e)\<rparr>)"
  by (simp add: space_open_def space_request_def on_space_def wrapper_request_def on_endpoint_def request_open eng_req_def eng_drawn_def with_endpoint_def put_space_def)

lemma space_publish_open [open_ops]:
  "space_open env c sp e \<Longrightarrow> space_publish env c p e = Ok () (put_space c (with_endpoint (append_sent [Request (ge_bt env) None p]) sp) e)"
  by (simp add: space_open_def space_publish_def on_space_def wrapper_publish_def on_endpoint_def publish_open with_endpoint_def)

lemma client_open_frame [simp]:
  "client_open env ep (e\<lparr>eng_draws := n\<rparr>) = client_open env ep e" "client_open env ep (put_space c sp e) = client_open env ep e"
  "client_open env ep (e\<lparr>pending_client_direct_messages := pend\<rparr>) = client_open env ep e" "client_open env ep (e\<lparr>request_track := t\<rparr>) = client_open env ep e"
  by (simp_all add: client_open_def put_space_def)

lemma space_open_frame [simp]:
  "space_open env c sp (e\<lparr>eng_draws := n\<rparr>) = space_open env c sp e" "space_open env c sp (e\<lparr>lib3h_endpoint := d\<rparr>) = space_open env c sp e"
  "space_open env c sp (e\<lparr>request_track := t\<rparr>) = space_open env c sp e"
  by (simp_all add: space_open_def)

lemma client_open_step [simp]:
  "client_open env (append_sent ms ep) (e\<lparr>lib3h_endpoint := Detach (Some (append_sent ms ep))\<rparr>) =
     (snd_error (gce_sender ep) = None \<and> ge_now env + gt_default_timeout (gce_tracker ep) \<le> TIME_MAX)"
  "client_open env (asked renv p cb ep) (e\<lparr>lib3h_endpoint := Detach (Some (asked renv p cb ep))\<rparr>) =
     (snd_error (gce_sender ep) = None \<and> ge_now env + gt_default_timeout (gce_tracker ep) \<le> TIME_MAX)"
  by (simp_all add: client_open_def asked_def Let_def append_sent_def gt_insert_def)

lemma client_sent_frame [simp]:
  "client_sent (e\<lparr>eng_draws := n\<rparr>) = client_sent e" "client_sent (put_space c sp e) = client_sent e" "client_sent (e\<lparr>request_track := t\<rparr>) = client_sent e"
  "client_sent (e\<lparr>pending_client_direct_messages := pend\<rparr>) = client_sent e" "client_sent (e\<lparr>lib3h_endpoint := Detach (Some ep)\<rparr>) = snd_sent (gce_sender ep)"
  by (simp_all add: client_sent_def put_space_def)

lemma space_sent_frame [simp]:
  "space_sent c (e\<lparr>eng_draws := n\<rparr>) = space_sent c e" "space_sent c (e\<lparr>lib3h_endpoint := d\<rparr>) = space_sent c e" "space_sent c (e\<lparr>request_track := t\<rparr>) = space_sent c e"
  "space_sent c (put_space c sp e) = snd_sent (gce_sender (gpw_endpoint (sp_gateway sp)))"
  by (simp_all add: space_sent_def put_space_def update_conv')

lemma open_sent: "client_open env ep e \<Longrightarrow> client_sent e = snd_sent (gce_sender ep)" "space_open env c sp e \<Longrightarrow> space_sent c e = snd_sent (gce_sender (gpw_endpoint (sp_gateway sp)))"
  by (simp_all add: client_open_def client_sent_def space_open_def space_sent_def)

section \<open>Direct messages\<close>

lemma with_endpoint_sent [simp]:
  "snd_sent (gce_sender (gpw_endpoint (sp_gateway (with_endpoint f sp)))) = snd_sent (gce_sender (f (gpw_endpoint (sp_gateway sp))))"
  by (simp add: with_endpoint_def)

lemma append_sent_sent [simp]: "snd_sent (gce_sender (append_sent ms ep)) = snd_sent (gce_sender ep) @ ms"
  by (simp add: append_sent_def)

lemma agent_uri: "ul_parse (ge_url env) (AGENT_SCHEME @ '':'' @ a) = Inr uri \<Longrightarrow> with_agent_id (ge_url env) a = Ok uri ()"
  by (simp add: with_agent_id_def Lib3hUri_parse_def)

lemma prepare_open:
  "space_open env (sa, from) sp e \<Longrightarrow> rmp_ser (ge_wire env) p = Some b \<Longrightarrow> prepare_direct_peer_msg env sa from p e = Ok b ()"
  by (simp add: prepare_direct_peer_msg_def this_space_peer_def space_open_def P2pProtocol_to_bytes_def)

text \<open>
  The client's request goes to the space's gateway, and the space's endpoint remembers what to do with the answer.
\<close>

lemma direct_message_asked:
  assumes sp: "space_open env (dm_space_address m, dm_from_agent_id m) sp e" and msg: "gm_message msg = Some (SendDirectMessage m)"
    and rid: "rid = ge_nanoid env (eng_draws e)"
    and ser: "rmp_ser (ge_wire env) (DirectMessage (m\<lparr>dm_request_id := rid\<rparr>)) = Some b"
    and uri: "ul_parse (ge_url env) (AGENT_SCHEME @ '':'' @ dm_to_agent_id m) = Inr uri"
  shows "handle_msg_from_client env msg e = Ok () ((put_space (dm_space_address m, dm_from_agent_id m)
    (with_endpoint (asked (eng_req env (e\<lparr>eng_draws := Suc (eng_draws e)\<rparr>)) (TransportToChild (SendMessage uri b)) (AfterDirectMessage rid (msg\<lparr>gm_message := None\<rparr>))) sp) e)
    \<lparr>eng_draws := Suc (Suc (eng_draws e))\<rparr>)"
  using assms prepare_open[of env "dm_space_address m" "dm_from_agent_id m" sp "e\<lparr>eng_draws := Suc (eng_draws e)\<rparr>"]
  by (simp add: handle_msg_from_client_def take_message_def handle_direct_message_def Let_def with_value_def agent_uri open_ops create_send_message_def displayed_def put_space_def)

lemma direct_message_delivered:
  assumes "client_open env ep e" and "b \<noteq> []" and "rmp_de (ge_wire env) b = Inr (DirectMessage m)"
  shows "with_p2p_message env b (handle_p2p_protocol env) e =
    Ok () (e\<lparr>lib3h_endpoint := Detach (Some (asked (eng_req env e) (HandleSendDirectMessage m) AnswerDirectMessage ep)), eng_draws := Suc (eng_draws e)\<rparr>)"
  using assms by (simp add: with_p2p_message_def handle_p2p_protocol_def open_ops)

lemma direct_message_result_sent:
  assumes "space_open env (dm_space_address r, dm_from_agent_id r) sp e" and "rmp_ser (ge_wire env) (DirectMessageResult r) = Some b"
    and "ul_parse (ge_url env) (AGENT_SCHEME @ '':'' @ dm_to_agent_id r) = Inr uri"
  shows "answer_direct_message env (CbResponse (Inr (HandleSendDirectMessageResult r))) e =
    Ok () (put_space (dm_space_address r, dm_from_agent_id r) (with_endpoint (append_sent [Request (ge_bt env) None (TransportToChild (SendMessage uri b))]) sp) e)"
  using assms by (simp add: answer_direct_message_def prepare_open with_value_def agent_uri open_ops create_send_message_def)

lemma direct_message_result_received:
  assumes "b \<noteq> []" and "rmp_de (ge_wire env) b = Inr (DirectMessageResult r)"
  shows "client_open env ep e \<Longrightarrow> map_of (pending_client_direct_messages e) (dm_request_id r) = Some msg \<Longrightarrow> gm_request_id msg = Some crid \<Longrightarrow>
      with_p2p_message env b (handle_p2p_protocol env) e = Ok () (e\<lparr>pending_client_direct_messages := AList.delete (dm_request_id r) (pending_client_direct_messages e),
        lib3h_endpoint := Detach (Some (append_sent [Response (ge_bt env) crid (Inr (SendDirectMessageResult r))] ep))\<rparr>)"
    and "map_of (pending_client_direct_messages e) (dm_request_id r) = None \<Longrightarrow> with_p2p_message env b (handle_p2p_protocol env) e = Ok () e"
  using assms by (simp_all add: with_p2p_message_def handle_p2p_protocol_def open_ops)


section \<open>Joining a space\<close>

text \<open>What a successful join needs: ids long enough for a nickname, uris that parse, and a DHT.\<close>

definition joinable :: "eng_env \<Rightarrow> ChainId \<Rightarrow> Lib3hUri \<Rightarrow> Lib3hUri \<Rightarrow> 'tls GhostEngine \<Rightarrow> bool" where
  "joinable env c agent_uri location e \<longleftrightarrow> 4 \<le> length (fst c) \<and> 4 \<le> length (snd c)
     \<and> ul_parse (ge_url env) (AGENT_SCHEME @ '':'' @ snd c) = Inr agent_uri \<and> ul_parse (ge_url env) (TRANSPORT_SCHEME @ '':'' @ transport_id e) = Inr location
     \<and> (\<forall>cfg peer. eng_dht_factory e cfg peer \<noteq> None)"

definition fresh_space :: "nat \<Rightarrow> P2pGateway \<Rightarrow> Space" where
  "fresh_space n g = \<lparr>sp_serial = n, sp_gateway = \<lparr>gpw_actor = g, gpw_endpoint = wrap_endpoint ''space_gateway_'' (fst create_ghost_channel)\<rparr>\<rparr>"

lemma new_space_ok:
  assumes "joinable env c agent_uri location e"
  shows "\<exists>g. new_space env c agent_uri route e = Ok (fresh_space (eng_serial e) g) ()
    \<and> gw_this_peer g = \<lparr>peer_name = agent_uri, peer_location = location, timestamp = ge_epoch env\<rparr>"
proof -
  have f: "\<exists>dht. eng_dht_factory e cfg peer = Some dht" for cfg peer using assms by (auto simp: joinable_def)
  obtain dht where dht: "eng_dht_factory e (DhtConfig_with_engine_config agent_uri (eng_config e))
      (if is_scheme (ge_url env) location Undefined then None else Some \<lparr>peer_name = agent_uri, peer_location = location, timestamp = ge_epoch env\<rparr>) = Some dht"
    using f by blast
  have t: "ge_url (gateway_env.truncate env) = ge_url env" "ge_epoch (gateway_env.truncate env) = ge_epoch env" by (simp_all add: gateway_env.defs)
  show ?thesis
    using assms dht by (simp add: new_space_def joinable_def split_at_4_def with_transport_id_def Lib3hUri_parse_def TransportEndpointAsActor_new_def tea_take_parent_endpoint_def
        P2pGateway_new_def t Let_def DhtConfig_with_engine_config_def create_ghost_channel_def MessageEncoding_new_def GhostParentWrapper_new_def gw_take_parent_endpoint_def
        fresh_space_def wrap_endpoint_def)
qed

lemma add_gateway_ok:
  assumes j: "joinable env c agent_uri location e" and new: "map_of (space_gateway_map e) c = None"
    and w: "multiplexer e = Detach (Some w)" and rs: "mx_route_endpoints (gpw_actor w) = Detach (Some rs)" and route: "map_of rs (spec_of c) = None"
  shows "\<exists>g e'. add_gateway env (fst c) (snd c) e = Ok c e' \<and> joins c e e' \<and> map_of (space_gateway_map e') c = Some (fresh_space (eng_serial e) g)
    \<and> gw_this_peer g = \<lparr>peer_name = agent_uri, peer_location = location, timestamp = ge_epoch env\<rparr>
    \<and> lib3h_endpoint e' = lib3h_endpoint e \<and> request_track e' = request_track e \<and> eng_draws e' = eng_draws e
    \<and> (\<exists>mx. multiplexer e' = Detach (Some (w\<lparr>gpw_actor := mx\<rparr>)))"
proof -
  obtain sa ag where c: "c = (sa, ag)" by (cases c)
  let ?mx = "(gpw_actor w)\<lparr>mx_route_endpoints := Detach (Some (AList.update (spec_of c)
    \<lparr>rt_serial = mx_serial (gpw_actor w), rt_endpoint = wrap_endpoint ''mplex_to_route_'' (snd create_ghost_channel)\<rparr> rs)), mx_serial := Suc (mx_serial (gpw_actor w))\<rparr>"
  let ?e1 = "e\<lparr>multiplexer := Detach (Some (w\<lparr>gpw_actor := ?mx\<rparr>))\<rparr>"
  have cr: "(create_agent_space_route sa ag (gpw_actor w) :: (TransportMultiplex, Lib3hError, TransportActorParentEndpoint) outcome) = Ok (fst create_ghost_channel) ?mx"
    using rs route by (simp add: create_agent_space_route_def on_routes_def detach_deref_mut_def Let_def c spec_of_def create_ghost_channel_def)
  have "joinable env c agent_uri location ?e1" using j by (simp add: joinable_def)
  from new_space_ok[OF this, of "fst create_ghost_channel"] obtain g where g: "new_space env c agent_uri (fst create_ghost_channel) ?e1 = Ok (fresh_space (eng_serial e) g) ()"
    "gw_this_peer g = \<lparr>peer_name = agent_uri, peer_location = location, timestamp = ge_epoch env\<rparr>" by auto
  let ?e' = "put_space c (fresh_space (eng_serial e) g) (?e1\<lparr>eng_serial := Suc (eng_serial e)\<rparr>)"
  have r: "add_gateway env sa ag e = Ok (sa, ag) ?e'"
    using new w cr g(1) j by (simp add: add_gateway_def c Let_def with_value_def joinable_def agent_uri on_multiplexer_def detach_deref_mut_def)
  moreover from this have "joins (sa, ag) e ?e'" using add_gateway_cases[of env sa ag e ?e'] by auto
  ultimately show ?thesis using g(2) by (auto simp: c put_space_def update_conv')
qed

definition network_sent :: "'tls GhostEngine \<Rightarrow> (GatewayRequestToChild, GatewayRequestToParentResponse, Lib3hError) GhostEndpointMessage list" where
  "network_sent e = (case multiplexer e of Detach (Some w) \<Rightarrow> snd_sent (gce_sender (gpw_endpoint w)) | Detach None \<Rightarrow> [])"

lemma reserve_ok:
  assumes "\<not> ge_checks env \<or> ge_epoch env + tr_timeout_ms (request_track e) \<ge> ge_epoch env"
  shows "\<exists>t. reserve env e = Ok (tr_id_prefix (request_track e) @ ge_nanoid env (eng_draws e)) (e\<lparr>request_track := t, eng_draws := Suc (eng_draws e)\<rparr>)
    \<and> tr_timeout_ms t = tr_timeout_ms (request_track e) \<and> tr_id_prefix t = tr_id_prefix (request_track e)"
  using assms by (auto simp: reserve_def Tracker_reserve_def Let_def gen_id_def priv_new_track_item_def add_u64_def tr_insert_def not_less)

lemma fresh_space_open:
  "map_of (space_gateway_map e) c = Some (fresh_space n g) \<Longrightarrow> ge_now env + DEFAULT_TIMEOUT \<le> TIME_MAX \<Longrightarrow> space_open env c (fresh_space n g) e"
  by (simp add: space_open_def fresh_space_def demo_gateway_simps GhostTrackerBuilder_default_def)

lemma multiplexer_publish_open:
  assumes "multiplexer e = Detach (Some w)" and "snd_error (gce_sender (gpw_endpoint w)) = None"
  shows "multiplexer_publish env p e = Ok () (e\<lparr>multiplexer := Detach (Some (w\<lparr>gpw_endpoint := append_sent [Request (ge_bt env) None p] (gpw_endpoint w)\<rparr>))\<rparr>)"
  using assms by (simp add: multiplexer_publish_def on_multiplexer_def detach_deref_mut_def wrapper_publish_def on_endpoint_def publish_open)

text \<open>The two lists the engine asks its client for when a space was joined.\<close>

definition list_request :: "eng_env \<Rightarrow> SpaceData \<Rightarrow> string \<Rightarrow> nat \<Rightarrow> GetListData" where
  "list_request env d prefix n = \<lparr>gld_space_address = spd_space_address d, gld_provider_agent_id = spd_agent_id d, gld_request_id = prefix @ ge_nanoid env n\<rparr>"

text \<open>
  The part of \<open>handle_join\<close> after the gateway was added.
\<close>

lemma announce_join:
  assumes cl: "client_open env ep e" and sp: "space_open env (spd_space_address d, spd_agent_id d) sp e"
    and w: "multiplexer e = Detach (Some w)" "snd_error (gce_sender (gpw_endpoint w)) = None"
    and clock: "\<not> ge_checks env \<or> ge_epoch env + tr_timeout_ms (request_track e) \<ge> ge_epoch env"
    and ser: "rmp_ser (ge_wire env) (BroadcastJoinSpace (spd_space_address d) (this_peer_of sp)) = Some b"
    and add: "add_gateway env (spd_space_address d) (spd_agent_id d) e0 = Ok (spd_space_address d, spd_agent_id d) e"
  shows "\<exists>e' ep' q1 q2. handle_join env d e0 = Ok () e' \<and> client_open env ep' e' \<and> space_sent (spd_space_address d, spd_agent_id d) e' =
      space_sent (spd_space_address d, spd_agent_id d) e @ [Request (ge_bt env) None (DhtToChild (HoldPeer (this_peer_of sp)))]
    \<and> snd_sent (gce_sender ep') = snd_sent (gce_sender ep) @
      [Request (ge_bt env) (Some q1) (HandleGetGossipingEntryList (list_request env d (tr_id_prefix (request_track e)) (eng_draws e))),
       Request (ge_bt env) (Some q2) (HandleGetAuthoringEntryList (list_request env d (tr_id_prefix (request_track e)) (eng_draws e + 2)))]
    \<and> network_sent e' = network_sent e @ [Request (ge_bt env) None (SendAll b)]"
proof -
  let ?c = "(spd_space_address d, spd_agent_id d)"
  let ?e1 = "put_space ?c (with_endpoint (append_sent [Request (ge_bt env) None (DhtToChild (HoldPeer (this_peer_of sp)))]) sp) e"
  let ?l = "\<lambda>i. \<lparr>gld_space_address = spd_space_address d, gld_provider_agent_id = spd_agent_id d, gld_request_id = i\<rparr>"
  have me: "this_space_peer ?c e = Inr (this_peer_of sp)" using sp by (simp add: this_space_peer_def space_open_def)
  have track: "request_track ?e1 = request_track e" "eng_draws ?e1 = eng_draws e" "multiplexer ?e1 = Detach (Some w)" using w by (simp_all add: put_space_def)
  obtain t1 where t1: "(reserve env ?e1 :: (_, Lib3hError, _) outcome) = Ok (tr_id_prefix (request_track e) @ ge_nanoid env (eng_draws e)) (?e1\<lparr>request_track := t1, eng_draws := Suc (eng_draws e)\<rparr>)"
    "tr_timeout_ms t1 = tr_timeout_ms (request_track e)" "tr_id_prefix t1 = tr_id_prefix (request_track e)"
    using reserve_ok[of env ?e1] clock track by auto
  let ?e2 = "?e1\<lparr>request_track := t1, eng_draws := Suc (eng_draws e)\<rparr>"
  let ?i1 = "tr_id_prefix (request_track e) @ ge_nanoid env (eng_draws e)"
  let ?ep1 = "asked (eng_req env ?e2) (HandleGetGossipingEntryList (?l ?i1)) HoldGossipingList ep"
  let ?e3 = "?e2\<lparr>lib3h_endpoint := Detach (Some ?ep1), eng_draws := Suc (eng_draws ?e2)\<rparr>"
  have r1: "client_request env (HandleGetGossipingEntryList (?l ?i1)) HoldGossipingList ?e2 = Ok () ?e3"
    by (rule client_request_open) (use cl in simp)
  obtain t2 where t2: "(reserve env ?e3 :: (_, Lib3hError, _) outcome) = Ok (tr_id_prefix (request_track e) @ ge_nanoid env (eng_draws e + 2)) (?e3\<lparr>request_track := t2, eng_draws := eng_draws e + 3\<rparr>)"
    using reserve_ok[of env ?e3] clock t1(2,3) by (auto simp: numeral_3_eq_3)
  let ?e4 = "?e3\<lparr>request_track := t2, eng_draws := eng_draws e + 3\<rparr>"
  let ?i2 = "tr_id_prefix (request_track e) @ ge_nanoid env (eng_draws e + 2)"
  let ?ep2 = "asked (eng_req env ?e4) (HandleGetAuthoringEntryList (?l ?i2)) FetchAuthoringList ?ep1"
  let ?e5 = "?e4\<lparr>lib3h_endpoint := Detach (Some ?ep2), eng_draws := Suc (eng_draws ?e4)\<rparr>"
  have o1: "client_open env ?ep1 ?e4" using cl by (simp add: client_open_def asked_def Let_def append_sent_def gt_insert_def)
  have r2: "client_request env (HandleGetAuthoringEntryList (?l ?i2)) FetchAuthoringList ?e4 = Ok () ?e5"
    by (rule client_request_open[OF o1])
  let ?e6 = "?e5\<lparr>multiplexer := Detach (Some (w\<lparr>gpw_endpoint := append_sent [Request (ge_bt env) None (SendAll b)] (gpw_endpoint w)\<rparr>))\<rparr>"
  have r3: "broadcast_join env (spd_space_address d) (this_peer_of sp) ?e5 = Ok () ?e6"
    using multiplexer_publish_open[of ?e5 w env "SendAll b"] w(2) track(3)
    by (simp add: broadcast_join_def with_value_def P2pProtocol_to_bytes_def ser)
  have j: "handle_join env d e0 = Ok () ?e6"
    by (simp only: handle_join_def add bind_ok.simps me sum.case space_publish_open[OF sp] map_err.simps t1(1) r1 t2 r2 displayed_def outcome.case r3)
  have o2: "client_open env ?ep2 ?e6" using o1 by (simp add: client_open_def asked_def Let_def append_sent_def gt_insert_def)
  show ?thesis
    by (intro exI conjI, rule j, rule o2)
      (use w sp in \<open>simp_all add: space_sent_def space_open_def put_space_def update_conv' eng_req_def list_request_def network_sent_def\<close>)
qed

text \<open>
  Joining a space. For a space the agent has not joined, the client's request is answered with \<open>JoinSpaceResult\<close>
  after the engine asked it for the gossiping and the authoring list; one space and its route are added, the
  new gateway's DHT is told to hold its own peer, whose location is the node's transport id, and all known nodes are told of the join.
  For a space it has joined already, the answer is an error and nothing else changes.
\<close>

theorem join_space_answered:
  assumes msg: "gm_message msg = Some (JoinSpace d)" "gm_request_id msg = Some rid" and c: "c = (spd_space_address d, spd_agent_id d)"
    and cl: "client_open env ep e"
  shows "(c \<in> set (space_keys e) \<longrightarrow> handle_msg_from_client env msg e =
      Ok () (e\<lparr>lib3h_endpoint := Detach (Some (append_sent [Response (ge_bt env) rid (Inl (Lib3hOther ''Already joined space''))] ep))\<rparr>))
    \<and> (c \<notin> set (space_keys e) \<longrightarrow> joinable env c agent_uri location e \<longrightarrow> matched e \<longrightarrow>
      (\<forall>w. multiplexer e = Detach (Some w) \<longrightarrow> snd_error (gce_sender (gpw_endpoint w)) = None) \<longrightarrow>
      ge_now env + DEFAULT_TIMEOUT \<le> TIME_MAX \<longrightarrow> (\<not> ge_checks env \<or> ge_epoch env + tr_timeout_ms (request_track e) \<ge> ge_epoch env) \<longrightarrow>
      rmp_ser (ge_wire env) (BroadcastJoinSpace (spd_space_address d) \<lparr>peer_name = agent_uri, peer_location = location, timestamp = ge_epoch env\<rparr>) = Some b \<longrightarrow>
      (\<exists>e' q1 q2. handle_msg_from_client env msg e = Ok () e' \<and> joins c e e' \<and> matched e'
        \<and> space_sent c e' = [Request (ge_bt env) None (DhtToChild (HoldPeer \<lparr>peer_name = agent_uri, peer_location = location, timestamp = ge_epoch env\<rparr>))]
        \<and> client_sent e' = client_sent e @
          [Request (ge_bt env) (Some q1) (HandleGetGossipingEntryList (list_request env d (tr_id_prefix (request_track e)) (eng_draws e))),
           Request (ge_bt env) (Some q2) (HandleGetAuthoringEntryList (list_request env d (tr_id_prefix (request_track e)) (eng_draws e + 2))),
           Response (ge_bt env) rid (Inr JoinSpaceResult)]
        \<and> network_sent e' = network_sent e @ [Request (ge_bt env) None (SendAll b)]))"
proof (intro conjI impI)
  have rid: "gm_request_id (msg\<lparr>gm_message := None\<rparr>) = Some rid" using msg(2) by simp
  assume "c \<in> set (space_keys e)"
  then have "map_of (space_gateway_map e) c \<noteq> None" by (simp add: space_keys_def keys_map_of_None)
  then have "handle_join env d e = Err (new_other ''Already joined space'') e" by (auto simp: handle_join_def add_gateway_def Let_def c)
  then show "handle_msg_from_client env msg e =
      Ok () (e\<lparr>lib3h_endpoint := Detach (Some (append_sent [Response (ge_bt env) rid (Inl (Lib3hOther ''Already joined space''))] ep))\<rparr>)"
    using client_respond_open[OF cl rid] by (simp add: handle_msg_from_client_def take_message_def msg(1) respond_result_def new_other_def)
next
  let ?me = "\<lparr>peer_name = agent_uri, peer_location = location, timestamp = ge_epoch env\<rparr>"
  have rid: "gm_request_id (msg\<lparr>gm_message := None\<rparr>) = Some rid" using msg(2) by simp
  assume new: "c \<notin> set (space_keys e)" and j: "joinable env c agent_uri location e" and m: "matched e"
    and mo: "\<forall>w. multiplexer e = Detach (Some w) \<longrightarrow> snd_error (gce_sender (gpw_endpoint w)) = None"
    and now: "ge_now env + DEFAULT_TIMEOUT \<le> TIME_MAX" and clock: "\<not> ge_checks env \<or> ge_epoch env + tr_timeout_ms (request_track e) \<ge> ge_epoch env"
    and ser: "rmp_ser (ge_wire env) (BroadcastJoinSpace (spd_space_address d) ?me) = Some b"
  from m obtain w rs where w: "multiplexer e = Detach (Some w)" "mx_route_endpoints (gpw_actor w) = Detach (Some rs)" "set (keys rs) = spec_of ` set (space_keys e)"
    by (auto simp: matched_def route_keys_def routes_of_def is_attached_iff split: Detach.splits option.splits)
  have "spec_of c \<notin> set (keys rs)" using new unfolding w(3) by auto
  then have route: "map_of rs (spec_of c) = None" by (simp only: keys_map_of_None not_False_eq_True)
  have "map_of (space_gateway_map e) c = None" using new by (simp add: space_keys_def keys_map_of_None)
  from add_gateway_ok[OF j this w(1,2) route] obtain g e1 mx where add: "add_gateway env (fst c) (snd c) e = Ok c e1" and jn: "joins c e e1"
    and sp: "map_of (space_gateway_map e1) c = Some (fresh_space (eng_serial e) g)" and me: "gw_this_peer g = ?me"
    and fr: "lib3h_endpoint e1 = lib3h_endpoint e" "request_track e1 = request_track e" "eng_draws e1 = eng_draws e" "multiplexer e1 = Detach (Some (w\<lparr>gpw_actor := mx\<rparr>))" by blast
  have cl1: "client_open env ep e1" using cl fr by (simp add: client_open_def)
  have sp1: "space_open env (spd_space_address d, spd_agent_id d) (fresh_space (eng_serial e) g) e1" using fresh_space_open[OF sp now] c by simp
  have peer: "this_peer_of (fresh_space (eng_serial e) g) = ?me" by (simp add: this_peer_of_def fresh_space_def me)
  have s1: "space_sent c e1 = []" by (simp add: space_sent_def sp fresh_space_def demo_gateway_simps)
  from announce_join[OF cl1 sp1 fr(4), of b e] obtain e2 ep2 q1 q2 where a: "handle_join env d e = Ok () e2" "client_open env ep2 e2"
    "space_sent c e2 = [Request (ge_bt env) None (DhtToChild (HoldPeer ?me))]"
    "snd_sent (gce_sender ep2) = snd_sent (gce_sender ep) @
      [Request (ge_bt env) (Some q1) (HandleGetGossipingEntryList (list_request env d (tr_id_prefix (request_track e)) (eng_draws e))),
       Request (ge_bt env) (Some q2) (HandleGetAuthoringEntryList (list_request env d (tr_id_prefix (request_track e)) (eng_draws e + 2)))]"
    "network_sent e2 = network_sent e1 @ [Request (ge_bt env) None (SendAll b)]"
    using mo w(1) clock ser add by (auto simp: fr peer c s1[unfolded c])
  let ?e' = "e2\<lparr>lib3h_endpoint := Detach (Some (append_sent [Response (ge_bt env) rid (Inr JoinSpaceResult)] ep2))\<rparr>"
  have h: "handle_msg_from_client env msg e = Ok () ?e'"
    using client_respond_open[OF a(2) rid] a(1) by (simp add: handle_msg_from_client_def take_message_def msg(1) respond_result_def)
  have "c \<in> set (space_keys e2)"
    using a(3) by (auto simp: space_sent_def space_keys_def dest!: map_of_in_keys split: option.splits)
  then have "joins c e e2" using handle_join_cases[of env d e e2] a(1) new by (auto simp: c same_net_def)
  then have jn': "joins c e ?e'" by (rule joins_same_net) simp
  have n: "network_sent e1 = network_sent e" by (simp add: network_sent_def fr w)
  show "\<exists>e' q1 q2. handle_msg_from_client env msg e = Ok () e' \<and> joins c e e' \<and> matched e'
      \<and> space_sent c e' = [Request (ge_bt env) None (DhtToChild (HoldPeer ?me))]
      \<and> client_sent e' = client_sent e @
        [Request (ge_bt env) (Some q1) (HandleGetGossipingEntryList (list_request env d (tr_id_prefix (request_track e)) (eng_draws e))),
         Request (ge_bt env) (Some q2) (HandleGetAuthoringEntryList (list_request env d (tr_id_prefix (request_track e)) (eng_draws e + 2))),
         Response (ge_bt env) rid (Inr JoinSpaceResult)]
      \<and> network_sent e' = network_sent e @ [Request (ge_bt env) None (SendAll b)]"
    by (intro exI conjI, rule h, rule jn', rule joins_matched[OF jn' m]) (use a n in \<open>simp_all add: open_sent(1)[OF cl] network_sent_def\<close>)
qed

section \<open>Examples\<close>

definition demo_dm :: "string \<Rightarrow> string \<Rightarrow> Opaque \<Rightarrow> DirectMessageData" where
  "demo_dm from_agent to_agent body = \<lparr>dm_space_address = ''space1'', dm_request_id = [], dm_to_agent_id = to_agent, dm_from_agent_id = from_agent, dm_content = body\<rparr>"

definition demo_dm_env :: eng_env where
  "demo_dm_env = demo_eng_env\<lparr>ge_wire := demo_wire\<lparr>
     rmp_ser := (\<lambda>p. case p of DirectMessage _ \<Rightarrow> Some [1] | DirectMessageResult _ \<Rightarrow> Some [2] | _ \<Rightarrow> Some [3]),
     rmp_de := (\<lambda>b. if b = [1] then Inr (DirectMessage (demo_dm ''alice'' ''bobby'' [5])) else if b = [2] then Inr (DirectMessageResult (demo_dm ''bobby'' ''alice'' [6])) else Inl [])\<rparr>\<rparr>"

lemma demo_dm_env_simps:
  "ge_url demo_dm_env = demo_url" "ge_now demo_dm_env = 100" "ge_bt demo_dm_env = Backtwrap None" "ge_nanoid demo_dm_env n = replicate n (CHR ''x'')"
  by (simp_all add: demo_dm_env_def demo_eng_env_def mx_env.defs demo_mx_env_def gateway_env.defs demo_gw_env_def)

lemma demo_open:
  "ge_now env \<le> 1000 \<Longrightarrow> client_open env (wrap_endpoint ''e'' (GhostEndpoint_new fresh_sender fresh_receiver)) (demo_engine cs)"
  "ge_now env \<le> 1000 \<Longrightarrow> c \<in> set cs \<Longrightarrow> space_open env c (demo_space 0) (demo_engine cs)"
  by (simp_all add: client_open_def space_open_def demo_engine_parts map_of_map_restrict demo_space_def demo_gateway_simps
      GhostTrackerBuilder_default_def DEFAULT_TIMEOUT_def TIME_MAX_def)


theorem join_space_answered_witness:
  "\<exists>e'. handle_msg_from_client demo_eng_env (GhostMessage_new_request (Backtwrap None) ''q''
       (JoinSpace \<lparr>spd_request_id = [], spd_space_address = ''space2'', spd_agent_id = ''alice''\<rparr>)) (demo_engine [(''space1'', ''alice'')]) = Ok () e'
    \<and> space_keys e' = [(''space1'', ''alice''), (''space2'', ''alice'')] \<and> length (client_sent e') = 3
    \<and> last (client_sent e') = Response (Backtwrap None) ''q'' (Inr JoinSpaceResult)"
proof -
  let ?d = "\<lparr>spd_request_id = [], spd_space_address = ''space2'', spd_agent_id = ''alice''\<rparr>" and ?e = "demo_engine [(''space1'', ''alice'')]"
  let ?msg = "GhostMessage_new_request (Backtwrap None) ''q'' (JoinSpace ?d)"
  have g: "gm_message ?msg = Some (JoinSpace ?d)" "gm_request_id ?msg = Some ''q''" by (simp_all add: GhostMessage_new_request_def GhostMessage_new_def)
  have c: "client_open demo_eng_env (wrap_endpoint ''e'' (GhostEndpoint_new fresh_sender fresh_receiver)) ?e" by (rule demo_open(1)) (simp add: demo_env_simps)
  have o: "client_sent ?e = []" using open_sent(1)[OF c] by (simp add: demo_gateway_simps)
  have f: "tr_timeout_ms (request_track ?e) = 2000" "eng_dht_factory ?e cfg p = Some (fst create_ghost_channel)" "transport_id ?e = ''tid''" for cfg p
    by (simp_all add: demo_engine_def eng_struct_def create_ghost_channel_def Tracker_new_def)
  have m: "\<forall>w. multiplexer ?e = Detach (Some w) \<longrightarrow> snd_error (gce_sender (gpw_endpoint w)) = None"
    by (simp add: demo_engine_parts demo_wrapped_mx_def demo_gateway_simps)
  have j: "joinable demo_eng_env (''space2'', ''alice'') ''agentid:alice'' ''transportid:tid'' ?e"
    by (simp add: joinable_def f demo_env_simps demo_url_def AGENT_SCHEME_def TRANSPORT_SCHEME_def)
  have k: "(''space2'', ''alice'') \<notin> set (space_keys ?e)" by (simp add: demo_engine_keys)
  have t: "ge_now demo_eng_env + DEFAULT_TIMEOUT \<le> TIME_MAX" by (simp add: demo_env_simps DEFAULT_TIMEOUT_def TIME_MAX_def)
  have z: "\<not> ge_checks demo_eng_env \<or> ge_epoch demo_eng_env + tr_timeout_ms (request_track ?e) \<ge> ge_epoch demo_eng_env"
    by (simp add: f demo_eng_env_def mx_env.defs demo_mx_env_def gateway_env.defs demo_gw_env_def)
  have b: "rmp_ser (ge_wire demo_eng_env) (BroadcastJoinSpace sa pd) = Some [0]" for sa pd by (simp add: demo_env_simps demo_wire_def)
  have cc: "(''space2'', ''alice'') = (spd_space_address ?d, spd_agent_id ?d)" by simp
  have dm: "matched ?e" by (rule demo_engine_matched) simp
  from join_space_answered[OF g cc c, THEN conjunct2, rule_format, OF k j dm, of "[0]"] m t z b
  obtain e' q1 q2 where "handle_msg_from_client demo_eng_env ?msg ?e = Ok () e'" "joins (''space2'', ''alice'') ?e e'"
    "client_sent e' = client_sent ?e @ [q1, q2, Response (ge_bt demo_eng_env) ''q'' (Inr JoinSpaceResult)]" by auto
  then show ?thesis by (auto simp: joins_def demo_engine_keys o demo_env_simps)
qed

end
