(* ===== verification/Legacy.thy ===== *)
theory Legacy
  imports Engine
begin

text \<open>
  The interface to clients of the older protocol: the two enums of \<open>lib3h_protocol/src/protocol_client.rs\<close> and
  \<open>protocol_server.rs\<close>, their conversions (\<open>protocol.rs\<close>), and \<open>LegacyLib3h\<close> (\<open>engine/ghost_engine_wrapper.rs\<close>), which
  wraps an engine and translates messages and request ids.

  The engine is any actor: a run of it is a function of its state. \<open>leg_draws\<close> counts the ids drawn.
\<close>

section \<open>Messages\<close>

record GenericResultData =
  grd_request_id :: string
  grd_space_address :: SpaceHash
  grd_to_agent_id :: Address
  grd_result_info :: Opaque

record ConnectData =
  ctd_request_id :: string
  ctd_peer_location :: Lib3hUri
  ctd_network_id :: string

record DisconnectedData =
  dcd_network_id :: string

datatype Lib3hClientProtocol =
    LcSuccessResult GenericResultData
  | LcConnect ConnectData
  | LcJoinSpace SpaceData
  | LcLeaveSpace SpaceData
  | LcSendDirectMessage DirectMessageData
  | LcHandleSendDirectMessageResult DirectMessageData
  | LcFetchEntry FetchEntryData
  | LcHandleFetchEntryResult FetchEntryResultData
  | LcPublishEntry ProvidedEntryData
  | LcQueryEntry QueryEntryData
  | LcHandleQueryEntryResult QueryEntryResultData
  | LcHandleGetAuthoringEntryListResult EntryListData
  | LcHandleGetGossipingEntryListResult EntryListData
  | LcShutdown

datatype Lib3hServerProtocol =
    LsSuccessResult GenericResultData
  | LsFailureResult GenericResultData
  | LsConnected ConnectedData
  | LsDisconnected DisconnectedData
  | LsSendDirectMessageResult DirectMessageData
  | LsHandleSendDirectMessage DirectMessageData
  | LsFetchEntryResult FetchEntryResultData
  | LsHandleFetchEntry FetchEntryData
  | LsHandleStoreEntryAspect StoreEntryAspectData
  | LsHandleDropEntry DropEntryData
  | LsHandleQueryEntry QueryEntryData
  | LsQueryEntryResult QueryEntryResultData
  | LsHandleGetAuthoringEntryList GetListData
  | LsHandleGetGossipingEntryList GetListData
  | LsTerminated
  | LsP2pReady

section \<open>Conversions\<close>

text \<open>\<open>TryFrom\<close> fails with an error, \<open>From\<close> panics. \<open>dbg\<close> is the \<open>{:?}\<close> rendering.\<close>

definition ClientToLib3h_try_from :: "(Lib3hClientProtocol \<Rightarrow> string) \<Rightarrow> Lib3hClientProtocol \<Rightarrow> Lib3hProtocolError + ClientToLib3h" where
  "ClientToLib3h_try_from dbg c =
     (case c of
        LcConnect d \<Rightarrow> Inr (ClientBootstrap \<lparr>bsd_space_address = ctd_network_id d, bootstrap_uri = ctd_peer_location d\<rparr>)
      | LcJoinSpace d \<Rightarrow> Inr (JoinSpace d)
      | LcLeaveSpace d \<Rightarrow> Inr (LeaveSpace d)
      | LcSendDirectMessage d \<Rightarrow> Inr (SendDirectMessage d)
      | LcFetchEntry d \<Rightarrow> Inr (FetchEntry d)
      | LcPublishEntry d \<Rightarrow> Inr (PublishEntry d)
      | LcQueryEntry d \<Rightarrow> Inr (QueryEntry d)
      | _ \<Rightarrow> Inl (ProtocolOther (dbg c @ '' can't convert to ClientToLib3h'')))"

definition Lib3hToClientResponse_try_from :: "(Lib3hClientProtocol \<Rightarrow> string) \<Rightarrow> Lib3hClientProtocol \<Rightarrow> Lib3hProtocolError + Lib3hToClientResponse" where
  "Lib3hToClientResponse_try_from dbg c =
     (case c of
        LcHandleSendDirectMessageResult d \<Rightarrow> Inr (HandleSendDirectMessageResult d)
      | LcHandleFetchEntryResult d \<Rightarrow> Inr (HandleFetchEntryResult d)
      | LcHandleQueryEntryResult d \<Rightarrow> Inr (HandleQueryEntryResult d)
      | LcHandleGetAuthoringEntryListResult d \<Rightarrow> Inr (HandleGetAuthoringEntryListResult d)
      | LcHandleGetGossipingEntryListResult d \<Rightarrow> Inr (HandleGetGossipingEntryListResult d)
      | _ \<Rightarrow> Inl (ProtocolOther (dbg c @ '' can't convert to Lib3hToClientResponse'')))"

definition Lib3hToClient_try_from :: "url_lib \<Rightarrow> (Lib3hServerProtocol \<Rightarrow> string) \<Rightarrow> Lib3hServerProtocol \<Rightarrow> (unit, Lib3hProtocolError, Lib3hToClient) outcome" where
  "Lib3hToClient_try_from L dbg c =
     (case c of
        LsConnected d \<Rightarrow> Ok (Connected d) ()
      | LsDisconnected d \<Rightarrow> bind_ok (with_undefined L) (\<lambda>u. Ok (Unbound \<lparr>ubd_uri = u\<rparr>))
      | LsSendDirectMessageResult d \<Rightarrow> Ok (ClientSendDirectMessageResult d) ()
      | LsHandleSendDirectMessage d \<Rightarrow> Ok (HandleSendDirectMessage d) ()
      | LsHandleFetchEntry d \<Rightarrow> Ok (HandleFetchEntry d) ()
      | LsHandleStoreEntryAspect d \<Rightarrow> Ok (HandleStoreEntryAspect d) ()
      | LsHandleDropEntry d \<Rightarrow> Ok (HandleDropEntry d) ()
      | LsHandleQueryEntry d \<Rightarrow> Ok (HandleQueryEntry d) ()
      | LsHandleGetAuthoringEntryList d \<Rightarrow> Ok (HandleGetAuthoringEntryList d) ()
      | LsHandleGetGossipingEntryList d \<Rightarrow> Ok (HandleGetGossipingEntryList d) ()
      | _ \<Rightarrow> Err (ProtocolOther (dbg c @ '' can't convert to Lib3hToClient'')) ())"

definition ClientToLib3hResponse_from :: "Lib3hServerProtocol \<Rightarrow> (unit, Lib3hProtocolError, ClientToLib3hResponse) outcome" where
  "ClientToLib3hResponse_from c =
     (case c of
        LsSendDirectMessageResult d \<Rightarrow> Ok (SendDirectMessageResult d) ()
      | LsFetchEntryResult d \<Rightarrow> Ok (FetchEntryResult d) ()
      | LsQueryEntryResult d \<Rightarrow> Ok (QueryEntryResult d) ()
      | LsConnected _ \<Rightarrow> Ok ClientBootstrapSuccess ()
      | _ \<Rightarrow> Panic ''can't convert to ClientToLib3hResponse'')"

definition client_from_ClientToLib3h :: "ClientToLib3h \<Rightarrow> Lib3hClientProtocol" where
  "client_from_ClientToLib3h c =
     (case c of
        ClientBootstrap d \<Rightarrow> LcConnect \<lparr>ctd_request_id = [], ctd_peer_location = bootstrap_uri d, ctd_network_id = bsd_space_address d\<rparr>
      | JoinSpace d \<Rightarrow> LcJoinSpace d
      | LeaveSpace d \<Rightarrow> LcLeaveSpace d
      | SendDirectMessage d \<Rightarrow> LcSendDirectMessage d
      | FetchEntry d \<Rightarrow> LcFetchEntry d
      | PublishEntry d \<Rightarrow> LcPublishEntry d
      | QueryEntry d \<Rightarrow> LcQueryEntry d)"

definition client_from_Lib3hToClientResponse :: "Lib3hToClientResponse \<Rightarrow> (unit, Lib3hProtocolError, Lib3hClientProtocol) outcome" where
  "client_from_Lib3hToClientResponse c =
     (case c of
        HandleSendDirectMessageResult d \<Rightarrow> Ok (LcHandleSendDirectMessageResult d) ()
      | HandleFetchEntryResult d \<Rightarrow> Ok (LcHandleFetchEntryResult d) ()
      | HandleQueryEntryResult d \<Rightarrow> Ok (LcHandleQueryEntryResult d) ()
      | HandleGetAuthoringEntryListResult d \<Rightarrow> Ok (LcHandleGetAuthoringEntryListResult d) ()
      | HandleGetGossipingEntryListResult d \<Rightarrow> Ok (LcHandleGetGossipingEntryListResult d) ()
      | _ \<Rightarrow> Panic ''can't convert to Lib3hClientProtocol'')"

definition server_from_Lib3hToClient :: "Lib3hToClient \<Rightarrow> Lib3hServerProtocol" where
  "server_from_Lib3hToClient c =
     (case c of
        Connected d \<Rightarrow> LsConnected d
      | Unbound _ \<Rightarrow> LsDisconnected \<lparr>dcd_network_id = []\<rparr>
      | ClientSendDirectMessageResult d \<Rightarrow> LsSendDirectMessageResult d
      | HandleSendDirectMessage d \<Rightarrow> LsHandleSendDirectMessage d
      | HandleFetchEntry d \<Rightarrow> LsHandleFetchEntry d
      | HandleStoreEntryAspect d \<Rightarrow> LsHandleStoreEntryAspect d
      | HandleDropEntry d \<Rightarrow> LsHandleDropEntry d
      | HandleQueryEntry d \<Rightarrow> LsHandleQueryEntry d
      | HandleGetAuthoringEntryList d \<Rightarrow> LsHandleGetAuthoringEntryList d
      | HandleGetGossipingEntryList d \<Rightarrow> LsHandleGetGossipingEntryList d)"

definition server_from_ClientToLib3hResponse :: "url_lib \<Rightarrow> ClientToLib3hResponse \<Rightarrow> (unit, Lib3hProtocolError, Lib3hServerProtocol) outcome" where
  "server_from_ClientToLib3hResponse L c =
     (case c of
        SendDirectMessageResult d \<Rightarrow> Ok (LsSendDirectMessageResult d) ()
      | FetchEntryResult d \<Rightarrow> Ok (LsFetchEntryResult d) ()
      | QueryEntryResult d \<Rightarrow> Ok (LsQueryEntryResult d) ()
      | ClientBootstrapSuccess \<Rightarrow> bind_ok (with_undefined L) (\<lambda>u. Ok (LsConnected \<lparr>cnd_request_id = [], cnd_uri = u\<rparr>))
      | _ \<Rightarrow> Panic ''can't convert to Lib3hServerProtocol'')"

section \<open>The wrapper\<close>

datatype LegacyCallback = MakeCallback string SpaceHash Address

type_synonym ('e, 'err) legacy_engine =
  "('e, LegacyCallback, Lib3hToClient, Lib3hToClientResponse, ClientToLib3h, ClientToLib3hResponse, 'err) GhostParentWrapper"

record ('e, 'err) LegacyLib3h =
  leg_engine :: "('e, 'err) legacy_engine Detach"
  leg_name :: string
  client_request_responses :: "Lib3hServerProtocol list"
  leg_tracker :: "Lib3hToClient GhostMessage Tracker"
  request_id_map :: "(string, string) hashmap"
  leg_draws :: nat

text \<open>The environment: time, fresh ids, renderings. A rendering that panics is \<open>None\<close>.\<close>

record 'err legacy_env =
  le_now :: time
  le_epoch :: u64
  le_checks :: bool
  le_bt :: Backtwrap
  le_url :: url_lib
  le_nanoid :: "nat \<Rightarrow> string"
  le_rid_msg :: "RequestId \<Rightarrow> RequestId list \<Rightarrow> string"
  le_dbg_bt :: "Backtwrap \<Rightarrow> string"
  le_dbg_str :: "string \<Rightarrow> string"
  le_dbg_client :: "Lib3hClientProtocol \<Rightarrow> string"
  le_dbg_ghosts :: "GhostError list \<Rightarrow> string"
  le_to_string :: "'err \<Rightarrow> string option"

type_synonym ('e, 'err, 'a) legacy_result = "(('e, 'err) LegacyLib3h, Lib3hProtocolError, 'a) outcome"

definition server_failure :: "string \<Rightarrow> string \<Rightarrow> SpaceHash \<Rightarrow> Address \<Rightarrow> Lib3hServerProtocol" where
  "server_failure err rid space agent =
     LsFailureResult \<lparr>grd_request_id = rid, grd_space_address = space, grd_to_agent_id = agent, grd_result_info = string_bytes err\<rparr>"

definition server_success :: "string \<Rightarrow> SpaceHash \<Rightarrow> Address \<Rightarrow> Lib3hServerProtocol" where
  "server_success rid space agent =
     LsSuccessResult \<lparr>grd_request_id = rid, grd_space_address = space, grd_to_agent_id = agent, grd_result_info = []\<rparr>"

definition LegacyLib3h_new ::
  "('e \<Rightarrow> (ClientToLib3h, ClientToLib3hResponse, Lib3hToClient, Lib3hToClientResponse, 'err) GhostEndpoint option \<times> 'e) \<Rightarrow> string \<Rightarrow> 'e \<Rightarrow>
   (unit, GhostError, ('e, 'err) LegacyLib3h) outcome" where
  "LegacyLib3h_new take_ep name engine =
     bind_ok (GhostParentWrapper_new take_ep engine name) (\<lambda>w _.
     Ok \<lparr>leg_engine = Detach_new w, leg_name = name, client_request_responses = [], leg_tracker = Tracker_new ''client_to_lib3_response_'' 2000,
         request_id_map = [], leg_draws = 0\<rparr> ())"

text \<open>\<open>make_callback\<close>: what it pushes for a response of the engine, for an error and for a timeout.\<close>

definition translate_response :: "url_lib \<Rightarrow> string \<Rightarrow> SpaceHash \<Rightarrow> Address \<Rightarrow> ClientToLib3hResponse \<Rightarrow> (unit, GhostError, Lib3hServerProtocol) outcome" where
  "translate_response L rid space agent rsp =
     (case rsp of
        ClientBootstrapSuccess \<Rightarrow> bind_ok (with_undefined L) (\<lambda>u. Ok (LsConnected \<lparr>cnd_request_id = rid, cnd_uri = u\<rparr>))
      | JoinSpaceResult \<Rightarrow> Ok (server_success rid space agent) ()
      | LeaveSpaceResult \<Rightarrow> Ok (server_success rid space agent) ()
      | SendDirectMessageResult d \<Rightarrow> Ok (LsSendDirectMessageResult (d\<lparr>dm_request_id := rid\<rparr>)) ()
      | FetchEntryResult d \<Rightarrow> Ok (LsFetchEntryResult (d\<lparr>fer_request_id := rid\<rparr>)) ()
      | QueryEntryResult d \<Rightarrow> Ok (LsQueryEntryResult (d\<lparr>qer_request_id := rid\<rparr>)) ())"

definition callback_reply :: "'err legacy_env \<Rightarrow> string \<Rightarrow> SpaceHash \<Rightarrow> Address \<Rightarrow> (ClientToLib3hResponse, 'err) GhostCallbackData \<Rightarrow>
    (unit, GhostError, Lib3hServerProtocol) outcome" where
  "callback_reply env rid space agent response =
     (case response of
        CbResponse (Inr rsp) \<Rightarrow> translate_response (le_url env) rid space agent rsp
      | CbResponse (Inl e) \<Rightarrow>
          (case le_to_string env e of Some d \<Rightarrow> Ok (server_failure d rid space agent) () | None \<Rightarrow> Panic ''unreachable'')
      | CbTimeout bt \<Rightarrow> Ok (server_failure (''Request timed out: '' @ le_dbg_bt env bt) rid space agent) ())"

fun legacy_callback :: "'err legacy_env \<Rightarrow> LegacyCallback \<Rightarrow> (ClientToLib3hResponse, 'err) GhostCallbackData \<Rightarrow>
    ('e, 'err) LegacyLib3h \<Rightarrow> (('e, 'err) LegacyLib3h, GhostError, unit) outcome" where
  "legacy_callback env (MakeCallback rid space agent) response me =
     (case callback_reply env rid space agent response of
        Ok r _ \<Rightarrow> Ok () (me\<lparr>client_request_responses := client_request_responses me @ [r]\<rparr>)
      | Err e _ \<Rightarrow> Err e me
      | Panic m \<Rightarrow> Panic m)"

text \<open>The request id, space and agent of a message; the other messages are not implemented.\<close>

definition message_ids :: "Lib3hClientProtocol \<Rightarrow> (string \<times> SpaceHash \<times> Address) option" where
  "message_ids msg =
     (case msg of
        LcConnect d \<Rightarrow> Some (ctd_request_id d, ''bogus_address'', ''bogus_agent'')
      | LcJoinSpace d \<Rightarrow> Some (spd_request_id d, spd_space_address d, spd_agent_id d)
      | LcLeaveSpace d \<Rightarrow> Some (spd_request_id d, spd_space_address d, spd_agent_id d)
      | LcSendDirectMessage d \<Rightarrow> Some (dm_request_id d, dm_space_address d, dm_to_agent_id d)
      | LcFetchEntry d \<Rightarrow> Some (fed_request_id d, fed_space_address d, fed_provider_agent_id d)
      | LcQueryEntry d \<Rightarrow> Some (qed_request_id d, qed_space_address d, qed_requester_agent_id d)
      | LcHandleSendDirectMessageResult d \<Rightarrow> Some (dm_request_id d, dm_space_address d, [])
      | LcHandleFetchEntryResult d \<Rightarrow> Some (fer_request_id d, fer_space_address d, fer_provider_agent_id d)
      | LcHandleQueryEntryResult d \<Rightarrow> Some (qer_request_id d, qer_space_address d, [])
      | LcHandleGetAuthoringEntryListResult d \<Rightarrow> Some (eld_request_id d, eld_space_address d, eld_provider_agent_id d)
      | LcHandleGetGossipingEntryListResult d \<Rightarrow> Some (eld_request_id d, eld_space_address d, eld_provider_agent_id d)
      | LcPublishEntry d \<Rightarrow> Some ([], ped_space_address d, ped_provider_agent_id d)
      | _ \<Rightarrow> None)"

definition on_legacy_engine :: "(('e, 'err) legacy_engine \<Rightarrow> (('e, 'err) legacy_engine, 'x, 'a) outcome) \<Rightarrow> ('e, 'err) LegacyLib3h \<Rightarrow>
    (('e, 'err) LegacyLib3h, 'x, 'a) outcome" where
  "on_legacy_engine = detach_deref_mut leg_engine (\<lambda>d l. l\<lparr>leg_engine := d\<rparr>)"

text \<open>\<open>map_err(|e| ... e.to_string())\<close> on a ghost error.\<close>

definition protocol_result :: "'err legacy_env \<Rightarrow> ('s, GhostError, 'a) outcome \<Rightarrow> ('s, Lib3hProtocolError, 'a) outcome" where
  "protocol_result env = displayed (GhostError_display (le_dbg_ghosts env) (le_dbg_str env)) ProtocolOther"

definition post_request :: "'err legacy_env \<Rightarrow> string \<Rightarrow> SpaceHash \<Rightarrow> Address \<Rightarrow> ClientToLib3h \<Rightarrow> ('e, 'err) LegacyLib3h \<Rightarrow> ('e, 'err, unit) legacy_result" where
  "post_request env rid space agent c me =
     protocol_result env
       (if rid = [] then on_legacy_engine (wrapper_publish (le_bt env) c) me
        else lift_state (\<lambda>l. l\<lparr>leg_draws := Suc (leg_draws l)\<rparr>)
          (on_legacy_engine (wrapper_request \<lparr>re_nanoid = le_nanoid env (leg_draws me), re_now = le_now env, re_bt = le_bt env\<rparr> c (MakeCallback rid space agent)) me))"

text \<open>The id the engine gave a direct message is put back into its result.\<close>

definition restore_request_id :: "string \<Rightarrow> Lib3hToClientResponse \<Rightarrow> ('e, 'err) LegacyLib3h \<Rightarrow> Lib3hToClientResponse \<times> ('e, 'err) LegacyLib3h" where
  "restore_request_id rid response me =
     (case response of
        HandleSendDirectMessageResult d \<Rightarrow>
          (HandleSendDirectMessageResult (case map_of (request_id_map me) rid of Some i \<Rightarrow> d\<lparr>dm_request_id := i\<rparr> | None \<Rightarrow> d),
           me\<lparr>request_id_map := AList.delete rid (request_id_map me)\<rparr>)
      | _ \<Rightarrow> (response, me))"

definition post_response :: "'err legacy_env \<Rightarrow> string \<Rightarrow> Lib3hToClientResponse \<Rightarrow> ('e, 'err) LegacyLib3h \<Rightarrow> ('e, 'err, unit) legacy_result" where
  "post_response env rid response me =
     (case Tracker_remove rid (leg_tracker me) of
        (None, t) \<Rightarrow> Err (ProtocolOther (''No ghost message for request: '' @ le_dbg_str env rid)) (me\<lparr>leg_tracker := t\<rparr>)
      | (Some msg, t) \<Rightarrow>
          (case restore_request_id rid response (me\<lparr>leg_tracker := t\<rparr>) of (response, me) \<Rightarrow>
             protocol_result env (on_legacy_engine (on_endpoint (\<lambda>ep. lift_state (\<lambda>s. ep\<lparr>gce_sender := s\<rparr>)
               (GhostMessage_respond (le_bt env) msg (Inr response) (gce_sender ep)))) me)))"

definition legacy_post :: "'err legacy_env \<Rightarrow> Lib3hClientProtocol \<Rightarrow> ('e, 'err) LegacyLib3h \<Rightarrow> ('e, 'err, unit) legacy_result" where
  "legacy_post env client_msg me =
     (case message_ids client_msg of
        None \<Rightarrow> Panic ''not implemented: Handle this case''
      | Some (rid, space, agent) \<Rightarrow>
          (case ClientToLib3h_try_from (le_dbg_client env) client_msg of
             Inr c \<Rightarrow> post_request env rid space agent c me
           | Inl _ \<Rightarrow>
               (case Lib3hToClientResponse_try_from (le_dbg_client env) client_msg of
                  Inl e \<Rightarrow> Err e me
                | Inr response \<Rightarrow> post_response env rid response me)))"

definition inject_request_id :: "string \<Rightarrow> Lib3hServerProtocol \<Rightarrow> ('e, 'err) LegacyLib3h \<Rightarrow> Lib3hServerProtocol \<times> ('e, 'err) LegacyLib3h" where
  "inject_request_id rid msg me =
     (case msg of
        LsConnected d \<Rightarrow> (LsConnected (d\<lparr>cnd_request_id := rid\<rparr>), me)
      | LsFetchEntryResult d \<Rightarrow> (LsFetchEntryResult (d\<lparr>fer_request_id := rid\<rparr>), me)
      | LsHandleFetchEntry d \<Rightarrow> (LsHandleFetchEntry (d\<lparr>fed_request_id := rid\<rparr>), me)
      | LsHandleStoreEntryAspect d \<Rightarrow> (LsHandleStoreEntryAspect (d\<lparr>sea_request_id := rid\<rparr>), me)
      | LsHandleDropEntry d \<Rightarrow> (LsHandleDropEntry (d\<lparr>ded_request_id := rid\<rparr>), me)
      | LsHandleQueryEntry d \<Rightarrow> (LsHandleQueryEntry (d\<lparr>qed_request_id := rid\<rparr>), me)
      | LsHandleGetAuthoringEntryList d \<Rightarrow> (LsHandleGetAuthoringEntryList (d\<lparr>gld_request_id := rid\<rparr>), me)
      | LsHandleGetGossipingEntryList d \<Rightarrow> (LsHandleGetGossipingEntryList (d\<lparr>gld_request_id := rid\<rparr>), me)
      | LsHandleSendDirectMessage d \<Rightarrow>
          (LsHandleSendDirectMessage (d\<lparr>dm_request_id := rid\<rparr>), me\<lparr>request_id_map := AList.update rid (dm_request_id d) (request_id_map me)\<rparr>)
      | _ \<Rightarrow> (msg, me))"

text \<open>One message of the engine: track it under a fresh id and hand it out with that id.\<close>

definition hand_out :: "'err legacy_env \<Rightarrow> Lib3hToClient GhostMessage \<Rightarrow> ('e, 'err) LegacyLib3h \<Rightarrow> ('e, 'err, Lib3hServerProtocol) legacy_result" where
  "hand_out env msg0 me =
     (case Tracker_reserve (le_checks env) (le_nanoid env (leg_draws me)) (le_epoch env) (leg_tracker me) of
        Ok rid t \<Rightarrow>
          (case take_message msg0 of
             (None, _) \<Rightarrow> Panic ''exists''
           | (Some c, msg) \<Rightarrow>
               (case Tracker_set (le_checks env) (le_epoch env) rid (Some msg) t of
                  Ok _ t \<Rightarrow>
                    (case inject_request_id rid (server_from_Lib3hToClient c) (me\<lparr>leg_tracker := t, leg_draws := Suc (leg_draws me)\<rparr>) of (r, me) \<Rightarrow> Ok r me)
                | Err _ _ \<Rightarrow> Panic ''unreachable''
                | Panic m \<Rightarrow> Panic m))
      | Err _ _ \<Rightarrow> Panic ''unreachable''
      | Panic m \<Rightarrow> Panic m)"

fun hand_out_all :: "'err legacy_env \<Rightarrow> Lib3hToClient GhostMessage list \<Rightarrow> Lib3hServerProtocol list \<Rightarrow> ('e, 'err) LegacyLib3h \<Rightarrow>
    ('e, 'err, Lib3hServerProtocol list) legacy_result" where
  "hand_out_all env [] responses me = Ok responses me"
| "hand_out_all env (msg # msgs) responses me = bind_ok (hand_out env msg me) (\<lambda>r. hand_out_all env msgs (responses @ [r]))"

definition legacy_call :: "'err legacy_env \<Rightarrow> (LegacyCallback, ('e, 'err) LegacyLib3h \<times> 's, ClientToLib3hResponse, 'err) call" where
  "legacy_call env cb data st = (case st of (me, s) \<Rightarrow> lift_state (\<lambda>me. (me, s)) (legacy_callback env cb data me))"

definition legacy_process :: "'err legacy_env \<Rightarrow> ('e, Lib3hToClient, ClientToLib3hResponse, 'err) owned_run \<Rightarrow> ('e, 'err) LegacyLib3h \<Rightarrow>
    ('e, 'err, WorkWasDone \<times> Lib3hServerProtocol list) legacy_result" where
  "legacy_process env run me =
     bind_ok (protocol_result env (detach_run leg_engine (\<lambda>d l. l\<lparr>leg_engine := d\<rparr>)
       (owned_process (le_rid_msg env) (legacy_call env) (le_now env) run) me)) (\<lambda>did_work me.
     bind_ok (on_legacy_engine (\<lambda>w. case wrapper_drain_messages w of (msgs, w) \<Rightarrow> Ok msgs w) (me\<lparr>client_request_responses := []\<rparr>)) (\<lambda>msgs me'.
     bind_ok (hand_out_all env msgs (client_request_responses me) me') (\<lambda>responses. Ok (did_work, responses))))"

text \<open>\<open>advertise\<close> and \<open>name\<close>; \<open>adv\<close> is the engine's \<open>advertise\<close>.\<close>

definition legacy_advertise :: "('e \<Rightarrow> Lib3hUri) \<Rightarrow> ('e, 'err) LegacyLib3h \<Rightarrow> (unit, 'x, Lib3hUri) outcome" where
  "legacy_advertise adv me = bind_ok (detach_as_ref (leg_engine me)) (\<lambda>w. Ok (adv (gpw_actor w)))"

end
