(* ===== verification/Legacy_Paths.thy ===== *)
theory Legacy_Paths
  imports Legacy Gateway_Paths
begin

text \<open>
  What the wrapper for older clients promises: its conversions lose nothing but what they say, a request of the client is answered
  once under the client's id, and an answer of the client reaches the engine's request it belongs to.
\<close>

section \<open>Conversions\<close>

lemma request_conversion: "ClientToLib3h_try_from dbg (client_from_ClientToLib3h q) = Inr q"
  by (cases q) (simp_all add: ClientToLib3h_try_from_def client_from_ClientToLib3h_def)

lemma answer_conversion: "client_from_Lib3hToClientResponse r = Ok c () \<longleftrightarrow> Lib3hToClientResponse_try_from dbg c = Inr r"
  by (cases r; cases c) (auto simp: client_from_Lib3hToClientResponse_def Lib3hToClientResponse_try_from_def)

lemma event_conversion:
  "Lib3hToClient_try_from L dbg (server_from_Lib3hToClient c) =
     (case c of Unbound _ \<Rightarrow> bind_ok (with_undefined L) (\<lambda>u. Ok (Unbound \<lparr>ubd_uri = u\<rparr>)) | _ \<Rightarrow> Ok c ())"
  by (cases c) (simp_all add: Lib3hToClient_try_from_def server_from_Lib3hToClient_def)

lemma response_conversion: "server_from_ClientToLib3hResponse L r = Ok s () \<Longrightarrow> ClientToLib3hResponse_from s = Ok r ()"
  by (cases r) (auto simp: server_from_ClientToLib3hResponse_def ClientToLib3hResponse_from_def with_undefined_def outcome_simps)

text \<open>
  Converting to the older protocol and back is the identity on the requests of the client, on its answers and on the
  engine's responses, wherever the first conversion does not panic, and on the engine's requests except that \<open>Unbound\<close> comes back
  with an undefined uri. Only \<open>HandleStoreEntryAspectResult\<close>, \<open>HandleDropEntryResult\<close>, \<open>JoinSpaceResult\<close> and \<open>LeaveSpaceResult\<close>
  have no counterpart and panic.
\<close>

theorem conversions_round_trip:
  assumes "with_undefined L = (Ok u () :: (unit, Lib3hProtocolError, Lib3hUri) outcome)"
  shows "ClientToLib3h_try_from dbg (client_from_ClientToLib3h q) = Inr q
    \<and> (if a \<in> {HandleStoreEntryAspectResult, HandleDropEntryResult} then \<exists>m. client_from_Lib3hToClientResponse a = Panic m
       else \<exists>c. client_from_Lib3hToClientResponse a = Ok c () \<and> Lib3hToClientResponse_try_from dbg c = Inr a)
    \<and> Lib3hToClient_try_from L dbg' (server_from_Lib3hToClient e) = Ok (case e of Unbound _ \<Rightarrow> Unbound \<lparr>ubd_uri = u\<rparr> | _ \<Rightarrow> e) ()
    \<and> (if r \<in> {JoinSpaceResult, LeaveSpaceResult} then \<exists>m. server_from_ClientToLib3hResponse L r = Panic m
       else \<exists>s. server_from_ClientToLib3hResponse L r = Ok s () \<and> ClientToLib3hResponse_from s = Ok r ())"
proof (intro conjI)
  show "if a \<in> {HandleStoreEntryAspectResult, HandleDropEntryResult} then \<exists>m. client_from_Lib3hToClientResponse a = Panic m
      else \<exists>c. client_from_Lib3hToClientResponse a = Ok c () \<and> Lib3hToClientResponse_try_from dbg c = Inr a"
    unfolding answer_conversion[symmetric] by (cases a) (simp_all add: client_from_Lib3hToClientResponse_def)
  show "Lib3hToClient_try_from L dbg' (server_from_Lib3hToClient e) = Ok (case e of Unbound _ \<Rightarrow> Unbound \<lparr>ubd_uri = u\<rparr> | _ \<Rightarrow> e) ()"
    using assms by (cases e) (simp_all add: event_conversion)
  have "\<exists>s. server_from_ClientToLib3hResponse L r = Ok s ()" if "r \<notin> {JoinSpaceResult, LeaveSpaceResult}"
    using that assms by (cases r) (simp_all add: server_from_ClientToLib3hResponse_def)
  then show "if r \<in> {JoinSpaceResult, LeaveSpaceResult} then \<exists>m. server_from_ClientToLib3hResponse L r = Panic m
      else \<exists>s. server_from_ClientToLib3hResponse L r = Ok s () \<and> ClientToLib3hResponse_from s = Ok r ()"
    using response_conversion[of L r] by (auto simp: server_from_ClientToLib3hResponse_def)
qed (rule request_conversion)

section \<open>Open channels\<close>

definition engine_idle :: "'err legacy_env \<Rightarrow> ('e, 'err) legacy_engine \<Rightarrow> ('e, 'err) LegacyLib3h \<Rightarrow> bool" where
  "engine_idle env w me \<longleftrightarrow> leg_engine me = Detach (Some w) \<and> snd_error (gce_sender (gpw_endpoint w)) = None \<and> idle_endpoint (le_now env) (gpw_endpoint w)"

definition engine_sent :: "('e, 'err) LegacyLib3h \<Rightarrow> (ClientToLib3h, Lib3hToClientResponse, 'err) GhostEndpointMessage list" where
  "engine_sent me = (case leg_engine me of Detach (Some w) \<Rightarrow> snd_sent (gce_sender (gpw_endpoint w)) | Detach None \<Rightarrow> [])"

lemma engine_idle_sent: "engine_idle env w me \<Longrightarrow> engine_sent me = snd_sent (gce_sender (gpw_endpoint w))"
  by (simp add: engine_idle_def engine_sent_def)

lemma protocol_result_Ok [simp]: "protocol_result env (Ok v s) = Ok v s"
  by (simp add: protocol_result_def displayed_def)

text \<open>
  A run of the engine in which its endpoint to the wrapper ends in \<open>ep\<close>, with \<open>msgs\<close> for the client.
\<close>

lemma legacy_process_run:
  assumes "leg_engine me = Detach (Some w)" and "run (gpw_actor w) = Ok did (a, ms)"
    and "endpoint_process (le_rid_msg env) (legacy_call env) (le_now env) (deliver ms (gpw_endpoint w), me\<lparr>leg_engine := Detach None\<rparr>) = Ok v (ep, me1)"
  shows "legacy_process env run me =
    bind_ok (hand_out_all env (gce_outbox ep) (client_request_responses me1)
       (me1\<lparr>client_request_responses := [], leg_engine := Detach (Some (w\<lparr>gpw_actor := a, gpw_endpoint := ep\<lparr>gce_outbox := []\<rparr>\<rparr>))\<rparr>))
     (\<lambda>responses. Ok (did, responses))"
  using assms by (simp add: legacy_process_def detach_run_attached[of leg_engine] owned_process_def on_legacy_engine_def detach_deref_mut_def
      wrapper_drain_messages_def drain_messages_def)

section \<open>Messages of the engine and their answers\<close>

text \<open>What the client gets for a message \<open>c\<close> under the id \<open>rid\<close>, and what the wrapper keeps for its answer.\<close>

definition reissued :: "string \<Rightarrow> Lib3hToClient \<Rightarrow> Lib3hServerProtocol" where
  "reissued rid c = fst (inject_request_id rid (server_from_Lib3hToClient c) 
     (\<lparr>leg_engine = Detach None, leg_name = [], client_request_responses = [], leg_tracker = Tracker_new [] 0, request_id_map = [], leg_draws = 0\<rparr> :: (unit, unit) LegacyLib3h))"

definition answer_held :: "('e, 'err) LegacyLib3h \<Rightarrow> string \<Rightarrow> Lib3hToClient GhostMessage \<Rightarrow> Lib3hToClient \<Rightarrow> bool" where
  "answer_held me rid msg c \<longleftrightarrow> Tracker_get (leg_tracker me) rid = Some (msg\<lparr>gm_message := None\<rparr>)
     \<and> (\<forall>d. c = HandleSendDirectMessage d \<longrightarrow> map_of (request_id_map me) rid = Some (dm_request_id d))"

definition handed_id :: "'err legacy_env \<Rightarrow> ('e, 'err) LegacyLib3h \<Rightarrow> nat \<Rightarrow> string" where
  "handed_id env me i = tr_id_prefix (leg_tracker me) @ le_nanoid env (leg_draws me + i)"

definition clock_fits :: "'err legacy_env \<Rightarrow> ('e, 'err) LegacyLib3h \<Rightarrow> bool" where
  "clock_fits env me \<longleftrightarrow> add_u64 (le_checks env) (le_epoch env) (tr_timeout_ms (leg_tracker me)) \<noteq> None"

lemma inject_reissued: "fst (inject_request_id rid (server_from_Lib3hToClient c) me) = reissued rid c"
  by (cases c) (simp_all add: reissued_def inject_request_id_def server_from_Lib3hToClient_def)

lemma inject_frame:
  assumes "inject_request_id rid (server_from_Lib3hToClient c) me = (r, me1)"
  shows "leg_engine me1 = leg_engine me" "leg_tracker me1 = leg_tracker me" "leg_draws me1 = leg_draws me"
    "\<And>k. k \<noteq> rid \<Longrightarrow> map_of (request_id_map me1) k = map_of (request_id_map me) k"
    "c = HandleSendDirectMessage d \<Longrightarrow> map_of (request_id_map me1) rid = Some (dm_request_id d)"
  using assms by (cases c; auto simp: inject_request_id_def server_from_Lib3hToClient_def update_conv')+

lemma hand_out_one:
  assumes "wf_track (leg_tracker me)" and "clock_fits env me" and "gm_message msg = Some c"
  obtains me1 where "hand_out env msg me = Ok (reissued (handed_id env me 0) c) me1" and "leg_engine me1 = leg_engine me"
    and "leg_draws me1 = Suc (leg_draws me)" and "tr_id_prefix (leg_tracker me1) = tr_id_prefix (leg_tracker me)"
    and "tr_timeout_ms (leg_tracker me1) = tr_timeout_ms (leg_tracker me)" and "wf_track (leg_tracker me1)"
    and "answer_held me1 (handed_id env me 0) msg c" and "\<forall>k m c'. k \<noteq> handed_id env me 0 \<longrightarrow> answer_held me k m c' \<longrightarrow> answer_held me1 k m c'"
proof -
  let ?rid = "handed_id env me 0" and ?t = "leg_tracker me"
  obtain x where x: "add_u64 (le_checks env) (le_epoch env) (tr_timeout_ms ?t) = Some x" using assms(2) by (auto simp: clock_fits_def)
  let ?t1 = "tr_insert ?rid \<lparr>ti_value = Some (msg\<lparr>gm_message := None\<rparr>), ti_expires_ms = x\<rparr> (tr_insert ?rid \<lparr>ti_value = None, ti_expires_ms = x\<rparr> ?t)"
  obtain r me1 where i: "inject_request_id ?rid (server_from_Lib3hToClient c) (me\<lparr>leg_tracker := ?t1, leg_draws := Suc (leg_draws me)\<rparr>) = (r, me1)"
    by (cases "inject_request_id ?rid (server_from_Lib3hToClient c) (me\<lparr>leg_tracker := ?t1, leg_draws := Suc (leg_draws me)\<rparr>)")
  have r: "r = reissued ?rid c" using inject_reissued[of ?rid c "me\<lparr>leg_tracker := ?t1, leg_draws := Suc (leg_draws me)\<rparr>"] i by simp
  have t: "wf_track ?t1" "tr_id_prefix ?t1 = tr_id_prefix ?t" "tr_timeout_ms ?t1 = tr_timeout_ms ?t"
    using assms(1) by (simp_all add: trk.invar_put) (simp add: tr_insert_def)
  have get: "Tracker_get ?t1 k = (if k = ?rid then Some (msg\<lparr>gm_message := None\<rparr>) else Tracker_get ?t k)" for k
    using assms(1) by (simp add: Tracker_get_def trk.lookup_put trk.invar_put)
  have "Tracker_reserve (le_checks env) (le_nanoid env (leg_draws me)) (le_epoch env) ?t = Ok ?rid (tr_insert ?rid \<lparr>ti_value = None, ti_expires_ms = x\<rparr> ?t)"
    by (simp add: Tracker_reserve_def gen_id_def priv_new_track_item_def x Let_def handed_id_def)
  then have "hand_out env msg me = Ok (reissued ?rid c) me1"
    using assms(1,3) i r by (simp add: hand_out_def take_message_def Tracker_set_def trk.lookup_put)
  then show ?thesis
    using t get inject_frame[OF i] by (intro that[of me1]) (auto simp: answer_held_def)
qed

lemma hand_out_each:
  assumes "wf_track (leg_tracker me)" and "clock_fits env me" and "inj_on (le_nanoid env) {leg_draws me ..< leg_draws me + length reqs}"
  shows "\<exists>me1. hand_out_all env (map (\<lambda>(g, c). GhostMessage_new bt g c) reqs) acc me =
      Ok (acc @ map (\<lambda>i. reissued (handed_id env me i) (snd (reqs ! i))) [0..<length reqs]) me1
    \<and> leg_engine me1 = leg_engine me \<and> wf_track (leg_tracker me1)
    \<and> (\<forall>i<length reqs. answer_held me1 (handed_id env me i) (GhostMessage_new bt (fst (reqs ! i)) (snd (reqs ! i))) (snd (reqs ! i)))
    \<and> (\<forall>k m c. (\<forall>i<length reqs. k \<noteq> handed_id env me i) \<longrightarrow> answer_held me k m c \<longrightarrow> answer_held me1 k m c)"
  using assms
proof (induction reqs arbitrary: acc me)
  case (Cons q reqs)
  obtain g c where q: "q = (g, c)" by (cases q)
  let ?m = "GhostMessage_new bt g c"
  have msg: "gm_message ?m = Some c" by (simp add: GhostMessage_new_def)
  obtain me1 where
    one: "hand_out env ?m me = Ok (reissued (handed_id env me 0) c) me1" "leg_engine me1 = leg_engine me" and
    same: "leg_draws me1 = Suc (leg_draws me)" "tr_id_prefix (leg_tracker me1) = tr_id_prefix (leg_tracker me)"
      "tr_timeout_ms (leg_tracker me1) = tr_timeout_ms (leg_tracker me)" and wf1: "wf_track (leg_tracker me1)" and
    h: "answer_held me1 (handed_id env me 0) ?m c" "\<forall>k m c'. k \<noteq> handed_id env me 0 \<longrightarrow> answer_held me k m c' \<longrightarrow> answer_held me1 k m c'" by (rule hand_out_one[OF Cons.prems(1,2) msg])
  have id: "handed_id env me1 i = handed_id env me (Suc i)" for i by (simp add: handed_id_def same)
  have inj: "inj_on (le_nanoid env) {leg_draws me1 ..< leg_draws me1 + length reqs}" using Cons.prems(3) by (rule inj_on_subset) (auto simp: same)
  have "clock_fits env me1" using Cons.prems(2) by (simp add: clock_fits_def same)
  from Cons.IH[OF wf1 this inj, of "acc @ [reissued (handed_id env me 0) c]"] obtain me2 where
    rest: "hand_out_all env (map (\<lambda>(g, c). GhostMessage_new bt g c) reqs) (acc @ [reissued (handed_id env me 0) c]) me1 =
      Ok (acc @ reissued (handed_id env me 0) c # map (\<lambda>i. reissued (handed_id env me (Suc i)) (snd (reqs ! i))) [0..<length reqs]) me2"
      "leg_engine me2 = leg_engine me" "wf_track (leg_tracker me2)" and
    h2: "\<forall>i<length reqs. answer_held me2 (handed_id env me (Suc i)) (GhostMessage_new bt (fst (reqs ! i)) (snd (reqs ! i))) (snd (reqs ! i))"
      "\<forall>k m c. (\<forall>i<length reqs. k \<noteq> handed_id env me (Suc i)) \<longrightarrow> answer_held me1 k m c \<longrightarrow> answer_held me2 k m c"
    unfolding id one(2) append_assoc append_Cons append_Nil by blast
  have new: "handed_id env me 0 \<noteq> handed_id env me (Suc i)" if "i < length reqs" for i
  proof
    assume "handed_id env me 0 = handed_id env me (Suc i)"
    with inj_onD[OF Cons.prems(3), of "leg_draws me" "leg_draws me + Suc i"] that show False by (simp add: handed_id_def)
  qed
  have map: "map (\<lambda>i. reissued (handed_id env me i) (snd ((q # reqs) ! i))) [0..<length (q # reqs)] =
      reissued (handed_id env me 0) c # map (\<lambda>i. reissued (handed_id env me (Suc i)) (snd (reqs ! i))) [0..<length reqs]"
    by (simp add: q map_upt_Suc del: upt_Suc)
  have "answer_held me2 (handed_id env me i) (GhostMessage_new bt (fst ((q # reqs) ! i)) (snd ((q # reqs) ! i))) (snd ((q # reqs) ! i))"
    if "i < length (q # reqs)" for i
    using that h2 h(1) new by (cases i) (auto simp: q)
  moreover have "answer_held me2 k m c'" if "\<forall>i<length (q # reqs). k \<noteq> handed_id env me i" "answer_held me k m c'" for k m c'
    using that h(2) h2(2) by fastforce
  ultimately show ?case unfolding map using rest one(1) by (intro exI[of _ me2]) (simp add: q)
qed simp

text \<open>An answer to a message that is held goes to the engine as the response to that message; a second one finds nothing.\<close>

definition original_id :: "Lib3hToClient \<Rightarrow> Lib3hToClientResponse \<Rightarrow> Lib3hToClientResponse" where
  "original_id c resp =
     (case resp of
        HandleSendDirectMessageResult r \<Rightarrow> (case c of HandleSendDirectMessage d \<Rightarrow> HandleSendDirectMessageResult (r\<lparr>dm_request_id := dm_request_id d\<rparr>) | _ \<Rightarrow> resp)
      | _ \<Rightarrow> resp)"

definition right_kind :: "Lib3hToClient \<Rightarrow> Lib3hToClientResponse \<Rightarrow> bool" where
  "right_kind c resp \<longleftrightarrow> ((\<exists>r. resp = HandleSendDirectMessageResult r) \<longrightarrow> (\<exists>d. c = HandleSendDirectMessage d))"

lemma answer_is_no_request: "Lib3hToClientResponse_try_from dbg cm = Inr resp \<Longrightarrow> \<exists>e. ClientToLib3h_try_from dbg cm = Inl e"
  by (cases cm) (simp_all add: Lib3hToClientResponse_try_from_def ClientToLib3h_try_from_def)

lemma post_answer:
  assumes "message_ids cm = Some (rid, s, a)" and "Lib3hToClientResponse_try_from (le_dbg_client env) cm = Inr resp"
  shows "legacy_post env cm me = post_response env rid resp me"
  using assms answer_is_no_request[OF assms(2)] by (auto simp: legacy_post_def)

lemma restore_held:
  assumes "answer_held me rid msg c" and "right_kind c resp"
  obtains me1 where "restore_request_id rid resp (me\<lparr>leg_tracker := t\<rparr>) = (original_id c resp, me1)" "leg_engine me1 = leg_engine me" "leg_tracker me1 = t"
proof (cases resp)
  case (HandleSendDirectMessageResult r)
  then obtain d where "c = HandleSendDirectMessage d" using assms(2) by (auto simp: right_kind_def)
  then show ?thesis using assms(1) HandleSendDirectMessageResult that by (simp add: restore_request_id_def original_id_def answer_held_def)
qed (use that in \<open>simp_all add: restore_request_id_def original_id_def\<close>)

lemma answer_reaches_engine:
  assumes "answer_held me rid msg c" and "gm_request_id msg = Some g" and "right_kind c resp" and "wf_track (leg_tracker me)"
    and "leg_engine me = Detach (Some w)" and "snd_error (gce_sender (gpw_endpoint w)) = None"
  shows "\<exists>me1. post_response env rid resp me = Ok () me1 \<and> engine_sent me1 = engine_sent me @ [Response (le_bt env) g (Inr (original_id c resp))]
    \<and> (\<forall>resp'. \<exists>me2. post_response env rid resp' me1 = Err (ProtocolOther (''No ghost message for request: '' @ le_dbg_str env rid)) me2)"
proof -
  let ?t = "tr_delete rid (leg_tracker me)"
  from restore_held[OF assms(1,3)] obtain me1 where
    r: "restore_request_id rid resp (me\<lparr>leg_tracker := ?t\<rparr>) = (original_id c resp, me1)" "leg_engine me1 = leg_engine me" "leg_tracker me1 = ?t" by blast
  have rem: "Tracker_remove rid (leg_tracker me) = (Some (msg\<lparr>gm_message := None\<rparr>), ?t)"
    using assms(1) by (auto simp: answer_held_def Tracker_remove_def Tracker_get_def split: option.splits)
  let ?w = "w\<lparr>gpw_endpoint := append_sent [Response (le_bt env) g (Inr (original_id c resp))] (gpw_endpoint w)\<rparr>"
  have "post_response env rid resp me = Ok () (me1\<lparr>leg_engine := Detach (Some ?w)\<rparr>)"
    using assms(2,5,6) r by (simp add: post_response_def rem on_legacy_engine_def detach_deref_mut_def on_endpoint_def GhostMessage_respond_def chan_send_def append_sent_def)
  moreover have "Tracker_remove rid ?t = (None, tr_delete rid ?t)"
    using assms(4) by (simp add: Tracker_remove_def trk.lookup_take)
  ultimately show ?thesis
    using assms(5) r(3) by (simp add: engine_sent_def append_sent_def post_response_def)
qed


section \<open>Requests of the client\<close>

fun server_request_id :: "Lib3hServerProtocol \<Rightarrow> string option" where
  "server_request_id (LsSuccessResult d) = Some (grd_request_id d)"
| "server_request_id (LsFailureResult d) = Some (grd_request_id d)"
| "server_request_id (LsConnected d) = Some (cnd_request_id d)"
| "server_request_id (LsSendDirectMessageResult d) = Some (dm_request_id d)"
| "server_request_id (LsFetchEntryResult d) = Some (fer_request_id d)"
| "server_request_id (LsQueryEntryResult d) = Some (qer_request_id d)"
| "server_request_id _ = None"

lemma callback_reply_id: "callback_reply env rid s ag data = Ok r () \<Longrightarrow> server_request_id r = Some rid"
  by (auto simp: callback_reply_def translate_response_def server_success_def server_failure_def with_undefined_def outcome_simps
      split: GhostCallbackData.splits sum.splits ClientToLib3hResponse.splits option.splits)

text \<open>What arrives for a request: the response to it, in time, or nothing until it has expired.\<close>

definition arrives :: "RequestId \<Rightarrow> Backtwrap \<Rightarrow> time \<Rightarrow> time \<Rightarrow> ('rcr, 'err) GhostCallbackData \<Rightarrow> ('rp, 'rcr, 'err) GhostEndpointMessage list \<Rightarrow> bool" where
  "arrives g bt expires now data ms \<longleftrightarrow>
     (case data of CbResponse ans \<Rightarrow> (\<exists>b. ms = [Response b g ans]) \<and> now \<le> expires | CbTimeout b \<Rightarrow> ms = [] \<and> b = bt \<and> now > expires)"

lemma gt_expired_fresh:
  assumes "gt_expired now t = []" and "gt_lookup t g = None" and "now > gte_expires en"
  shows "gt_expired now (gt_insert g en t) = [g]"
proof -
  have "gt_pending (gt_insert g en t) = gt_pending t @ [(g, en)]" using assms(2) by (simp add: gt_insert_def update_new)
  then show ?thesis using assms(1,3) by (simp add: gt_expired_def)
qed

lemma request_settled:
  assumes idle: "idle_endpoint now ep" "gt_expired now' (gce_tracker ep) = []" and fresh: "gt_lookup (gce_tracker ep) g = None"
    and g: "g = gt_request_id_prefix (gce_tracker ep) @ re_nanoid renv"
    and data: "arrives g (re_bt renv) (re_now renv + gt_default_timeout (gce_tracker ep)) now' data ms"
    and call: "\<And>s. call cb data (ud, s) = Ok () (ud', s)"
  shows "\<exists>v ep'. endpoint_process rid_msg call now' (deliver ms (asked renv q cb ep), ud) = Ok v (ep', ud') \<and> gce_outbox ep' = []
    \<and> gt_lookup (gce_tracker ep') g = None \<and> gce_sender ep' = gce_sender (asked renv q cb ep)"
proof -
  let ?en = "\<lparr>gte_backtrace = re_bt renv, gte_expires = re_now renv + gt_default_timeout (gce_tracker ep), gte_cb = cb\<rparr>"
  let ?A = "asked renv q cb ep"
  have A: "gce_tracker ?A = gt_insert g ?en (gce_tracker ep)" "gce_receiver ?A = gce_receiver ep" "gce_outbox ?A = []"
    using idle(1) by (simp_all add: asked_def Let_def g idle_endpoint_def)
  have rcv: "rcv_incoming (gce_receiver ep) = []" "\<not> rcv_disconnected (gce_receiver ep)" "gce_outbox ep = []" using idle(1) by (simp_all add: idle_endpoint_def)
  show ?thesis
  proof (cases data)
    case (CbResponse ans)
    then obtain b where ms: "ms = [Response b g ans]" and "now' \<le> gte_expires ?en" using data by (auto simp: arrives_def)
    then have "gt_expired now' (gt_insert g ?en (gce_tracker ep)) = []" using idle(2) by (simp add: gt_expired_insert)
    then show ?thesis
      using call CbResponse rcv by (auto simp: ms endpoint_process_def deliver_def A with_tracker_process_idle process_message_Response)
  next
    case (CbTimeout b)
    then have ms: "ms = []" and b: "b = re_bt renv" and "now' > gte_expires ?en" using data by (auto simp: arrives_def)
    then have "gt_expired now' (gt_insert g ?en (gce_tracker ep)) = [g]" using idle(2) fresh by (simp add: gt_expired_fresh)
    then show ?thesis
      using call CbTimeout rcv by (auto simp: ms b endpoint_process_def deliver_def A with_tracker_def GhostTracker_process_def)
  qed
qed

lemma post_asks:
  assumes "message_ids cm = Some (rid, s, ag)" and "rid \<noteq> []" and "ClientToLib3h_try_from (le_dbg_client env) cm = Inr q"
    and "engine_idle env w me" and "le_now env + gt_default_timeout (gce_tracker (gpw_endpoint w)) \<le> TIME_MAX"
  shows "legacy_post env cm me = Ok () (me\<lparr>leg_engine := Detach (Some (w\<lparr>gpw_endpoint :=
      asked \<lparr>re_nanoid = le_nanoid env (leg_draws me), re_now = le_now env, re_bt = le_bt env\<rparr> q (MakeCallback rid s ag) (gpw_endpoint w)\<rparr>)),
      leg_draws := Suc (leg_draws me)\<rparr>)"
  using assms by (simp add: legacy_post_def post_request_def on_legacy_engine_def engine_idle_def detach_deref_mut_def wrapper_request_def on_endpoint_def request_open)

definition engine_pending :: "('e, 'err) LegacyLib3h \<Rightarrow> RequestId \<Rightarrow> bool" where
  "engine_pending me g = (case leg_engine me of Detach (Some w) \<Rightarrow> gt_lookup (gce_tracker (gpw_endpoint w)) g \<noteq> None | Detach None \<Rightarrow> False)"

text \<open>
  C7: A request that an older client posts under an id of its own is answered exactly once, under that id. Posting it sends
  the engine one request under a fresh id, which is then pending; when the engine responds in time, with a result or an error, or when the
  request expires, the next process call returns one message for it, carrying the client's id, and the request is not pending any more.
\<close>

theorem posted_request_answered:
  assumes msg: "message_ids cm = Some (rid, s, ag)" "rid \<noteq> []" "ClientToLib3h_try_from (le_dbg_client env) cm = Inr q"
    and idle: "engine_idle env w me" "client_request_responses me = []" and time: "le_now env + gt_default_timeout (gce_tracker (gpw_endpoint w)) \<le> TIME_MAX"
    and g: "g = gt_request_id_prefix (gce_tracker (gpw_endpoint w)) @ le_nanoid env (leg_draws me)" "\<not> engine_pending me g"
    and run: "run (gpw_actor w) = Ok did (a, ms)" and others: "gt_expired (le_now env') (gce_tracker (gpw_endpoint w)) = []"
    and data: "arrives g (le_bt env) (le_now env + gt_default_timeout (gce_tracker (gpw_endpoint w))) (le_now env') data ms"
    and reply: "callback_reply env' rid s ag data = Ok r ()"
  shows "\<exists>me1 me2. legacy_post env cm me = Ok () me1 \<and> engine_sent me1 = engine_sent me @ [Request (le_bt env) (Some g) q] \<and> engine_pending me1 g
    \<and> legacy_process env' run me1 = Ok (did, [r]) me2 \<and> server_request_id r = Some rid \<and> \<not> engine_pending me2 g \<and> engine_sent me2 = engine_sent me1"
proof -
  let ?renv = "\<lparr>re_nanoid = le_nanoid env (leg_draws me), re_now = le_now env, re_bt = le_bt env\<rparr>" and ?cb = "MakeCallback rid s ag"
  let ?A = "asked ?renv q ?cb (gpw_endpoint w)" and ?w = "\<lambda>ep. w\<lparr>gpw_endpoint := ep\<rparr>"
  let ?me1 = "me\<lparr>leg_engine := Detach (Some (?w ?A)), leg_draws := Suc (leg_draws me)\<rparr>"
  let ?ud = "?me1\<lparr>leg_engine := Detach None\<rparr>" and ?ud' = "?me1\<lparr>leg_engine := Detach None, client_request_responses := [r]\<rparr>"
  have eng: "leg_engine me = Detach (Some w)" and rest: "idle_endpoint (le_now env) (gpw_endpoint w)" using idle(1) by (simp_all add: engine_idle_def)
  have fresh: "gt_lookup (gce_tracker (gpw_endpoint w)) g = None" using g(2) eng by (simp add: engine_pending_def)
  have call: "legacy_call env' ?cb data (?ud, x) = Ok () (?ud', x)" for x
    using reply idle(2) by (simp add: legacy_call_def)
  obtain v ep where ep: "endpoint_process (le_rid_msg env') (legacy_call env') (le_now env') (deliver ms ?A, ?ud) = Ok v (ep, ?ud')"
      "gce_outbox ep = []" "gt_lookup (gce_tracker ep) g = None" "gce_sender ep = gce_sender ?A"
    using request_settled[where renv = ?renv and call = "legacy_call env'" and cb = ?cb and ud = ?ud and ud' = ?ud' and data = data and ms = ms and rid_msg = "le_rid_msg env'" and q = q and g = g, OF rest others fresh _ _ call] data g(1) by auto
  have lp: "legacy_process env' run ?me1 = bind_ok (hand_out_all env' [] [r] (?ud'\<lparr>client_request_responses := [],
      leg_engine := Detach (Some ((?w ?A)\<lparr>gpw_actor := a, gpw_endpoint := ep\<lparr>gce_outbox := []\<rparr>\<rparr>))\<rparr>)) (\<lambda>responses. Ok (did, responses))"
    using legacy_process_run[of ?me1 "?w ?A" run did a ms env'] run ep by simp
  have sent: "engine_sent ?me1 = engine_sent me @ [Request (le_bt env) (Some g) q]" "engine_pending ?me1 g"
    by (simp_all add: engine_sent_def eng engine_pending_def asked_def Let_def append_sent_def g(1) gt_insert_def update_conv')
  let ?me2 = "?ud'\<lparr>client_request_responses := [], leg_engine := Detach (Some ((?w ?A)\<lparr>gpw_actor := a, gpw_endpoint := ep\<lparr>gce_outbox := []\<rparr>\<rparr>))\<rparr>"
  have done2: "legacy_process env' run ?me1 = Ok (did, [r]) ?me2" unfolding lp by simp
  have "\<not> engine_pending ?me2 g" "engine_sent ?me2 = engine_sent ?me1" using ep(3,4) by (simp_all add: engine_pending_def engine_sent_def)
  then show ?thesis
    using post_asks[OF msg idle(1) time] sent done2 callback_reply_id[OF reply] by blast
qed

section \<open>Witnesses\<close>

definition demo_legacy_env :: "time \<Rightarrow> string legacy_env" where
  "demo_legacy_env now = \<lparr>le_now = now, le_epoch = 1000, le_checks = True, le_bt = Backtwrap None, le_url = demo_url,
     le_nanoid = (\<lambda>n. replicate n (CHR ''x'')), le_rid_msg = (\<lambda>_ _. []), le_dbg_bt = (\<lambda>_. []), le_dbg_str = id, le_dbg_client = (\<lambda>_. []),
     le_dbg_ghosts = (\<lambda>_. []), le_to_string = Some\<rparr>"

definition demo_legacy_engine :: "(unit, string) legacy_engine" where
  "demo_legacy_engine = \<lparr>gpw_actor = (), gpw_endpoint = GhostContextEndpointBuilder_build (GhostContextEndpointBuilder_request_id_prefix ''n_''
     (as_context_endpoint_builder (fst create_ghost_channel)))\<rparr>"

definition demo_legacy :: "(unit, string) LegacyLib3h" where
  "demo_legacy = \<lparr>leg_engine = Detach (Some demo_legacy_engine), leg_name = ''n'', client_request_responses = [],
     leg_tracker = Tracker_new ''client_to_lib3_response_'' 2000, request_id_map = [], leg_draws = 0\<rparr>"

lemma demo_legacy_new: "LegacyLib3h_new (\<lambda>_. (Some (fst create_ghost_channel), ())) ''n_'' () = Ok (demo_legacy\<lparr>leg_name := ''n_''\<rparr>) ()"
  by (simp add: LegacyLib3h_new_def GhostParentWrapper_new_def demo_legacy_def demo_legacy_engine_def Detach_new_def)

lemma demo_legacy_endpoint:
  "gce_tracker (gpw_endpoint demo_legacy_engine) = \<lparr>gt_request_id_prefix = ''n_'', gt_default_timeout = DEFAULT_TIMEOUT, gt_pending = []\<rparr>"
  "engine_idle (demo_legacy_env now) demo_legacy_engine demo_legacy"
  by (simp_all add: demo_legacy_def demo_legacy_engine_def engine_idle_def idle_endpoint_def gt_expired_def GhostContextEndpointBuilder_build_def
      GhostTrackerBuilder_build_def GhostContextEndpointBuilder_request_id_prefix_def GhostTrackerBuilder_request_id_prefix_def as_context_endpoint_builder_def
      create_ghost_channel_def GhostEndpoint_new_def fresh_sender_def fresh_receiver_def GhostTrackerBuilder_default_def)

definition demo_direct :: "string \<Rightarrow> DirectMessageData" where
  "demo_direct rid = \<lparr>dm_space_address = ''s'', dm_request_id = rid, dm_to_agent_id = ''a'', dm_from_agent_id = ''b'', dm_content = [1]\<rparr>"

theorem conversions_round_trip_witness:
  "Lib3hToClient_try_from demo_url (\<lambda>_. []) (server_from_Lib3hToClient (Unbound \<lparr>ubd_uri = ''u''\<rparr>)) = Ok (Unbound \<lparr>ubd_uri = UNDEFINED_SCHEME @ '':''\<rparr>) ()
   \<and> (\<exists>s. server_from_ClientToLib3hResponse demo_url ClientBootstrapSuccess = Ok s () \<and> ClientToLib3hResponse_from s = Ok ClientBootstrapSuccess ())"
proof -
  have "with_undefined demo_url = (Ok (UNDEFINED_SCHEME @ '':'') () :: (unit, Lib3hProtocolError, Lib3hUri) outcome)"
    by (simp add: with_undefined_def Lib3hUri_parse_def demo_url_def)
  from conversions_round_trip[OF this, of _ _ HandleDropEntryResult "\<lambda>_. []" "Unbound \<lparr>ubd_uri = ''u''\<rparr>" ClientBootstrapSuccess] show ?thesis by simp
qed


theorem posted_request_answered_witness:
  "\<exists>me1 me2. legacy_post (demo_legacy_env 5) (LcSendDirectMessage (demo_direct ''mine'')) demo_legacy = Ok () me1
     \<and> legacy_process (demo_legacy_env 9) (\<lambda>a. Ok True (a, [Response (Backtwrap None) ''n_'' (Inl ''refused'')])) me1
       = Ok (True, [server_failure ''refused'' ''mine'' ''s'' ''a'']) me2"
proof -
  let ?cm = "LcSendDirectMessage (demo_direct ''mine'')" and ?run = "\<lambda>a. Ok True (a, [Response (Backtwrap None) ''n_'' (Inl ''refused'')])"
  have "\<exists>me1 me2. legacy_post (demo_legacy_env 5) ?cm demo_legacy = Ok () me1
      \<and> engine_sent me1 = engine_sent demo_legacy @ [Request (le_bt (demo_legacy_env 5)) (Some ''n_'') (SendDirectMessage (demo_direct ''mine''))]
      \<and> engine_pending me1 ''n_'' \<and> legacy_process (demo_legacy_env 9) ?run me1 = Ok (True, [server_failure ''refused'' ''mine'' ''s'' ''a'']) me2
      \<and> server_request_id (server_failure ''refused'' ''mine'' ''s'' ''a'') = Some ''mine'' \<and> \<not> engine_pending me2 ''n_'' \<and> engine_sent me2 = engine_sent me1"
    by (rule posted_request_answered[where data = "CbResponse (Inl ''refused'')" and s = "''s''" and ag = "''a''", OF _ _ _ demo_legacy_endpoint(2)])
      (auto simp: message_ids_def demo_direct_def ClientToLib3h_try_from_def demo_legacy_endpoint(1) demo_legacy_env_def DEFAULT_TIMEOUT_def TIME_MAX_def
        gt_expired_def arrives_def callback_reply_def engine_pending_def demo_legacy_def)
  then show ?thesis by blast
qed

end
