(* ===== verification/Ws_Streams.thy ===== *)
theory Ws_Streams
  imports Lib3h_Types
begin

text \<open>
  The connection pool of the websocket transport (\<open>lib3h/src/transport/websocket\<close>: \<open>tls.rs\<close>, \<open>wss_info.rs\<close>, \<open>streams.rs\<close>,
  \<open>tcp.rs\<close>). The packages \<open>tungstenite\<close> and \<open>native_tls\<close> and the sockets are parameters: a stream at any stage of its life is a
  value of one type \<open>'k\<close>, and an operation of the packages is a function from it to its result and the stream afterwards
  (\<open>ws_lib\<close>, \<open>tcp_api\<close>). So a stream carries whatever the other side will do. Errors of the packages are their renderings.
  A process call reads the clock once.
\<close>

section \<open>Configuration and packages\<close>

record TlsCertificate =
  pkcs12_data :: bytes
  passphrase :: string

datatype TlsConfig = Unencrypted | FakeServer | SuppliedCertificate TlsCertificate

definition FAKE_PASS :: string where
  "FAKE_PASS = ''hello''"

datatype ws_message = WsText bytes | WsBinary bytes | WsPing bytes | WsPong bytes | WsClose

text \<open>The errors of \<open>read_message\<close> as the code tells them apart, and the three ways a handshake ends.\<close>

datatype ws_read_error = IoWouldBlock | IoError string | ConnectionClosedError | OtherError string

datatype 'k handshake = HsDone 'k | HsInterrupted 'k | HsFailed string

text \<open>An error of a write has its \<open>{}\<close> and its \<open>{:?}\<close> rendering.\<close>

record 'k ws_lib =
  wl_host_str :: "Url \<Rightarrow> string option"
  wl_port :: "Url \<Rightarrow> u16 option"
  wl_fake_pkcs12 :: bytes
  wl_connector_builds :: bool
  wl_tls_connect :: "string \<Rightarrow> 'k \<Rightarrow> 'k handshake"
  wl_from_pkcs12 :: "bytes \<Rightarrow> string \<Rightarrow> string option"
  wl_acceptor_builds :: "bytes \<Rightarrow> string \<Rightarrow> bool"
  wl_tls_accept :: "bytes \<Rightarrow> string \<Rightarrow> 'k \<Rightarrow> 'k handshake"
  wl_tls_handshake :: "'k \<Rightarrow> 'k handshake"
  wl_client :: "Url \<Rightarrow> 'k \<Rightarrow> 'k handshake"
  wl_accept :: "'k \<Rightarrow> 'k handshake"
  wl_handshake :: "'k \<Rightarrow> 'k handshake"
  wl_read_message :: "'k \<Rightarrow> (ws_read_error + ws_message) \<times> 'k"
  wl_write_message :: "ws_message \<Rightarrow> 'k \<Rightarrow> (string \<times> string) option \<times> 'k"
  wl_close :: "'k \<Rightarrow> string option \<times> 'k"
  wl_write_pending :: "'k \<Rightarrow> string option \<times> 'k"

section \<open>Connections\<close>

datatype 'k WebsocketStreamState =
    NoStream
  | Connecting 'k
  | ConnectingSrv 'k
  | TlsMidHandshake 'k
  | TlsSrvMidHandshake 'k
  | TlsReady 'k
  | TlsSrvReady 'k
  | WsMidHandshake 'k
  | WsSrvMidHandshake 'k
  | WssMidHandshake 'k
  | WssSrvMidHandshake 'k
  | ReadyWs 'k
  | ReadyWss 'k

record 'k WssInfo =
  wi_request_id :: string
  wi_url :: Url
  wi_last_msg :: time
  wi_stateful_socket :: "'k WebsocketStreamState"

definition WssInfo_new :: "time \<Rightarrow> Url \<Rightarrow> 'k \<Rightarrow> bool \<Rightarrow> 'k WssInfo" where
  "WssInfo_new now u socket is_server =
     \<lparr>wi_request_id = [], wi_url = u, wi_last_msg = now, wi_stateful_socket = (if is_server then ConnectingSrv socket else Connecting socket)\<rparr>"

definition WssInfo_client :: "time \<Rightarrow> Url \<Rightarrow> 'k \<Rightarrow> 'k WssInfo" where
  "WssInfo_client now u socket = WssInfo_new now u socket False"

definition WssInfo_server :: "time \<Rightarrow> Url \<Rightarrow> 'k \<Rightarrow> 'k WssInfo" where
  "WssInfo_server now u socket = WssInfo_new now u socket True"

text \<open>A call on the socket that answers an error or nothing, and what follows it.\<close>

definition socket_try :: "string option \<times> 'k \<Rightarrow> ('k \<Rightarrow> ('k, TransportError, unit) outcome) \<Rightarrow> ('k, TransportError, unit) outcome" where
  "socket_try r next = (case r of (None, k) \<Rightarrow> next k | (Some e, k) \<Rightarrow> Err (TransportOther e) k)"

definition WssInfo_close :: "'k ws_lib \<Rightarrow> 'k WssInfo \<Rightarrow> ('k WssInfo, TransportError, unit) outcome" where
  "WssInfo_close lib info =
     (case wi_stateful_socket info of
        ReadyWss socket \<Rightarrow>
          bind_ok (lift_state (\<lambda>k. info\<lparr>wi_stateful_socket := ReadyWss k\<rparr>)
            (socket_try (map_prod (map_option snd) id (wl_write_message lib WsClose socket)) (\<lambda>k.
             socket_try (wl_close lib k) (\<lambda>k. socket_try (wl_write_pending lib k) (Ok ())))))
            (\<lambda>_ info. Ok () (info\<lparr>wi_stateful_socket := NoStream\<rparr>))
      | _ \<Rightarrow> Ok () (info\<lparr>wi_stateful_socket := NoStream\<rparr>))"

section \<open>The pool\<close>

definition DEFAULT_HEARTBEAT_MS :: nat where
  "DEFAULT_HEARTBEAT_MS = 2000"

definition DEFAULT_HEARTBEAT_WAIT_MS :: nat where
  "DEFAULT_HEARTBEAT_WAIT_MS = 5000"

datatype ConnectionStatus = CsNone | CsInitializing | CsReady

datatype StreamEvent =
    SeErrorOccured Url TransportError
  | ConnectResult Url string
  | IncomingConnectionEstablished Url
  | SeReceivedData Url bytes
  | ConnectionClosed Url

text \<open>
  \<open>bind\<close> and the acceptor it makes are closures of the pool; \<open>'acc\<close> is what the acceptor captures. The calls of the factory are
  counted, for each of them may end differently.
\<close>

record ('k, 'acc) stream_fns =
  sf_stream_factory :: "nat \<Rightarrow> string \<Rightarrow> TransportError + 'k"
  sf_bind :: "Url \<Rightarrow> (unit, TransportError, 'acc) outcome"
  sf_accept :: "'acc \<Rightarrow> (TransportError + 'k WssInfo) \<times> 'acc"

record ('k, 'acc) StreamManager =
  sm_tls_config :: TlsConfig
  sm_stream_sockets :: "(Lib3hUri, 'k WssInfo) hashmap"
  sm_event_queue :: "StreamEvent list"
  sm_acceptor :: "TransportError + 'acc"
  sm_connects :: nat

type_synonym ('k, 'acc, 'a) stream_result = "(('k, 'acc) StreamManager, TransportError, 'a) outcome"

definition StreamManager_new :: "TlsConfig \<Rightarrow> ('k, 'acc) StreamManager" where
  "StreamManager_new tls = \<lparr>sm_tls_config = tls, sm_stream_sockets = [], sm_event_queue = [],
     sm_acceptor = Inl (TransportError_new ''acceptor not initialized''), sm_connects = 0\<rparr>"

text \<open>Decimal rendering of a port.\<close>

fun decimal :: "nat \<Rightarrow> string" where
  "decimal n = (if n < 10 then [char_of (48 + n)] else decimal (n div 10) @ [char_of (48 + n mod 10)])"

declare decimal.simps [simp del]

definition put_socket :: "Lib3hUri \<Rightarrow> 'k WssInfo \<Rightarrow> ('k, 'acc) StreamManager \<Rightarrow> ('k, 'acc) StreamManager" where
  "put_socket u info m = m\<lparr>sm_stream_sockets := AList.update u info (sm_stream_sockets m)\<rparr>"

definition push_event :: "StreamEvent \<Rightarrow> ('k, 'acc) StreamManager \<Rightarrow> ('k, 'acc) StreamManager" where
  "push_event ev m = m\<lparr>sm_event_queue := sm_event_queue m @ [ev]\<rparr>"

definition sm_connect :: "'k ws_lib \<Rightarrow> ('k, 'acc) stream_fns \<Rightarrow> time \<Rightarrow> Url \<Rightarrow> ('k, 'acc) StreamManager \<Rightarrow> ('k, 'acc, unit) stream_result" where
  "sm_connect lib fns now uri m =
     (case wl_host_str lib uri of
        None \<Rightarrow> Err (TransportError_new ''bad connect host'') m
      | Some host \<Rightarrow>
          (case wl_port lib uri of
             None \<Rightarrow> Err (TransportError_new ''bad connect port'') m
           | Some port \<Rightarrow>
               let m1 = m\<lparr>sm_connects := Suc (sm_connects m)\<rparr> in
               case sf_stream_factory fns (sm_connects m) (host @ '':'' @ decimal (unat port)) of
                 Inl e \<Rightarrow> Err e m1
               | Inr socket \<Rightarrow> Ok () (put_socket uri (WssInfo_client now uri socket) m1)))"

definition sm_close :: "'k ws_lib \<Rightarrow> Url \<Rightarrow> ('k, 'acc) StreamManager \<Rightarrow> ('k, 'acc, unit) stream_result" where
  "sm_close lib uri m =
     (let m1 = m\<lparr>sm_stream_sockets := AList.delete uri (sm_stream_sockets m)\<rparr> in
      case map_of (sm_stream_sockets m) uri of
        None \<Rightarrow> Ok () m1
      | Some info \<Rightarrow> lift_state (\<lambda>_. m1) (WssInfo_close lib info))"

text \<open>The loop of \<open>close_all\<close> takes the first key, whatever it is, until none is left.\<close>

fun close_each :: "'k ws_lib \<Rightarrow> (Lib3hUri \<times> 'k WssInfo) list \<Rightarrow> TransportError list \<Rightarrow> TransportError list" where
  "close_each lib [] errors = errors"
| "close_each lib ((key, info) # sockets) errors =
     close_each lib sockets (case WssInfo_close lib info of Err e _ \<Rightarrow> errors @ [e] | _ \<Rightarrow> errors)"

definition close_all :: "'k ws_lib \<Rightarrow> (TransportError list \<Rightarrow> string) \<Rightarrow> ('k, 'acc) StreamManager \<Rightarrow> ('k, 'acc, unit) stream_result" where
  "close_all lib dbg m =
     (let errors = close_each lib (sm_stream_sockets m) []; m1 = m\<lparr>sm_stream_sockets := []\<rparr>
      in if errors = [] then Ok () m1 else Err (TransportError_from dbg errors) m1)"

text \<open>\<open>write_message\<close> on a stream that is ready, with the stream's own constructor put back around it.\<close>

definition write_ready :: "'k ws_lib \<Rightarrow> ws_message \<Rightarrow> 'k WebsocketStreamState \<Rightarrow> ((string \<times> string) option \<times> 'k WebsocketStreamState) option" where
  "write_ready lib msg st =
     (case st of
        ReadyWs k \<Rightarrow> Some (map_prod id ReadyWs (wl_write_message lib msg k))
      | ReadyWss k \<Rightarrow> Some (map_prod id ReadyWss (wl_write_message lib msg k))
      | _ \<Rightarrow> None)"

definition sm_send :: "'k ws_lib \<Rightarrow> Url \<Rightarrow> bytes \<Rightarrow> ('k, 'acc) StreamManager \<Rightarrow> ('k, 'acc, unit) stream_result" where
  "sm_send lib url payload m =
     (case map_of (sm_stream_sockets m) url of
        None \<Rightarrow> Err (TransportOther (''No socket found for URL: '' @ url)) m
      | Some info \<Rightarrow>
          (case write_ready lib (WsBinary payload) (wi_stateful_socket info) of
             None \<Rightarrow> Err (TransportOther ''Websocket not in Ready state'') m
           | Some (r, st) \<Rightarrow>
               let m1 = put_socket url (info\<lparr>wi_stateful_socket := st\<rparr>) m in
               case r of None \<Rightarrow> Ok () m1 | Some (display, _) \<Rightarrow> Err (TransportOther display) m1))"

definition sm_bind :: "('k, 'acc) stream_fns \<Rightarrow> Url \<Rightarrow> ('k, 'acc) StreamManager \<Rightarrow> ('k, 'acc, Url) stream_result" where
  "sm_bind fns url m =
     (case sf_bind fns url of
        Ok acceptor _ \<Rightarrow> Ok url (m\<lparr>sm_acceptor := Inr acceptor\<rparr>)
      | Err e _ \<Rightarrow> Err e m
      | Panic p \<Rightarrow> Panic p)"

definition connection_status :: "Url \<Rightarrow> ('k, 'acc) StreamManager \<Rightarrow> ConnectionStatus" where
  "connection_status url m =
     (case map_of (sm_stream_sockets m) url of
        None \<Rightarrow> CsNone
      | Some info \<Rightarrow>
          (case wi_stateful_socket info of
             TlsReady _ \<Rightarrow> CsReady | TlsSrvReady _ \<Rightarrow> CsReady | ReadyWs _ \<Rightarrow> CsReady | ReadyWss _ \<Rightarrow> CsReady | _ \<Rightarrow> CsInitializing))"

section \<open>Handshakes\<close>

text \<open>A step of a handshake, on the event queue: what the new state is, or the error.\<close>

type_synonym 'k socket_step = "(StreamEvent list, TransportError, 'k WebsocketStreamState) outcome"

definition priv_tls_handshake :: "'k handshake \<Rightarrow> StreamEvent list \<Rightarrow> 'k socket_step" where
  "priv_tls_handshake res q = (case res of HsInterrupted k \<Rightarrow> Ok (TlsMidHandshake k) q | HsFailed e \<Rightarrow> Err (TransportOther e) q | HsDone k \<Rightarrow> Ok (TlsReady k) q)"

definition priv_tls_srv_handshake :: "'k handshake \<Rightarrow> StreamEvent list \<Rightarrow> 'k socket_step" where
  "priv_tls_srv_handshake res q =
     (case res of HsInterrupted k \<Rightarrow> Ok (TlsSrvMidHandshake k) q | HsFailed e \<Rightarrow> Err (TransportOther e) q | HsDone k \<Rightarrow> Ok (TlsSrvReady k) q)"

definition priv_ws_handshake :: "Url \<Rightarrow> string \<Rightarrow> 'k handshake \<Rightarrow> StreamEvent list \<Rightarrow> 'k socket_step" where
  "priv_ws_handshake url rid res q =
     (case res of
        HsInterrupted k \<Rightarrow> Ok (WsMidHandshake k) q
      | HsFailed e \<Rightarrow> Err (TransportOther e) q
      | HsDone k \<Rightarrow> Ok (ReadyWs k) (q @ [ConnectResult url rid]))"

definition priv_wss_handshake :: "Url \<Rightarrow> string \<Rightarrow> 'k handshake \<Rightarrow> StreamEvent list \<Rightarrow> 'k socket_step" where
  "priv_wss_handshake url rid res q =
     (case res of
        HsInterrupted k \<Rightarrow> Ok (WssMidHandshake k) q
      | HsFailed e \<Rightarrow> Err (TransportOther e) q
      | HsDone k \<Rightarrow> Ok (ReadyWss k) (q @ [ConnectResult url rid]))"

definition priv_ws_srv_handshake :: "Url \<Rightarrow> 'k handshake \<Rightarrow> StreamEvent list \<Rightarrow> 'k socket_step" where
  "priv_ws_srv_handshake url res q =
     (case res of
        HsInterrupted k \<Rightarrow> Ok (WsSrvMidHandshake k) q
      | HsFailed e \<Rightarrow> Err (TransportOther e) q
      | HsDone k \<Rightarrow> Ok (ReadyWs k) (q @ [IncomingConnectionEstablished url]))"

definition priv_wss_srv_handshake :: "Url \<Rightarrow> 'k handshake \<Rightarrow> StreamEvent list \<Rightarrow> 'k socket_step" where
  "priv_wss_srv_handshake url res q =
     (case res of
        HsInterrupted k \<Rightarrow> Ok (WssSrvMidHandshake k) q
      | HsFailed e \<Rightarrow> Err (TransportOther e) q
      | HsDone k \<Rightarrow> Ok (ReadyWss k) (q @ [IncomingConnectionEstablished url]))"

section \<open>One connection\<close>

text \<open>
  The step of one connection works on \<open>did_work\<close>, the connection and the event queue. The stream is moved out of the connection first, so
  an error or an early end leaves it without one.
\<close>

type_synonym ('k, 'a) socket_result = "(bool \<times> 'k WssInfo \<times> StreamEvent list, TransportError, 'a) outcome"

definition settle :: "bool \<Rightarrow> 'k WssInfo \<Rightarrow> 'k socket_step \<Rightarrow> ('k, unit) socket_result" where
  "settle w info r =
     (case r of
        Ok st q \<Rightarrow> Ok () (w, info\<lparr>wi_stateful_socket := st\<rparr>, q)
      | Err e q \<Rightarrow> Err e (w, info, q)
      | Panic p \<Rightarrow> Panic p)"

definition tls_identity :: "'k ws_lib \<Rightarrow> TlsConfig \<Rightarrow> (bytes \<times> string) option" where
  "tls_identity lib cfg =
     (case cfg of
        Unencrypted \<Rightarrow> None
      | FakeServer \<Rightarrow> Some (wl_fake_pkcs12 lib, FAKE_PASS)
      | SuppliedCertificate cert \<Rightarrow> Some (pkcs12_data cert, passphrase cert))"

definition step_connecting :: "'k ws_lib \<Rightarrow> TlsConfig \<Rightarrow> 'k WssInfo \<Rightarrow> 'k \<Rightarrow> StreamEvent list \<Rightarrow> ('k, unit) socket_result" where
  "step_connecting lib cfg info socket q =
     (if cfg = Unencrypted then settle True info (priv_ws_handshake (wi_url info) (wi_request_id info) (wl_client lib (wi_url info) socket) q)
      else if \<not> wl_connector_builds lib then Panic ''failed to build TlsConnector''
      else settle True info (priv_tls_handshake (wl_tls_connect lib (wi_url info) socket) q))"

definition step_connecting_srv :: "'k ws_lib \<Rightarrow> TlsConfig \<Rightarrow> 'k WssInfo \<Rightarrow> 'k \<Rightarrow> StreamEvent list \<Rightarrow> ('k, unit) socket_result" where
  "step_connecting_srv lib cfg info socket q =
     (case tls_identity lib cfg of
        None \<Rightarrow> settle True info (priv_ws_srv_handshake (wi_url info) (wl_accept lib socket) q)
      | Some (cert, pass) \<Rightarrow>
          (case wl_from_pkcs12 lib cert pass of
             Some e \<Rightarrow> Err (TransportOther e) (True, info, q)
           | None \<Rightarrow>
               if \<not> wl_acceptor_builds lib cert pass then Panic ''failed to build TlsAcceptor''
               else settle True info (priv_tls_srv_handshake (wl_tls_accept lib cert pass socket) q)))"

fun message_data :: "ws_message \<Rightarrow> bytes option" where
  "message_data (WsText s) = Some s"
| "message_data (WsBinary b) = Some b"
| "message_data _ = None"

text \<open>The same code for \<open>ReadyWs\<close> and \<open>ReadyWss\<close>, the constructor \<open>mk\<close>.\<close>

definition step_ready :: "'k ws_lib \<Rightarrow> time \<Rightarrow> ('k \<Rightarrow> 'k WebsocketStreamState) \<Rightarrow> bool \<Rightarrow> 'k WssInfo \<Rightarrow> 'k \<Rightarrow> StreamEvent list \<Rightarrow> ('k, unit) socket_result" where
  "step_ready lib now mk w info socket q =
     (case wl_read_message lib socket of
        (Inl IoWouldBlock, k) \<Rightarrow> Ok () (w, info\<lparr>wi_stateful_socket := mk k\<rparr>, q)
      | (Inl (IoError e), k) \<Rightarrow> Err (TransportOther e) (w, info, q)
      | (Inl ConnectionClosedError, k) \<Rightarrow> Ok () (w, info, q)
      | (Inl (OtherError e), k) \<Rightarrow> Err (TransportOther e) (w, info, q)
      | (Inr msg, k) \<Rightarrow>
          Ok () (True, info\<lparr>wi_last_msg := now, wi_stateful_socket := mk k\<rparr>,
                 (case message_data msg of Some d \<Rightarrow> q @ [SeReceivedData (wi_url info) d] | None \<Rightarrow> q)))"

definition priv_process_socket :: "'k ws_lib \<Rightarrow> TlsConfig \<Rightarrow> time \<Rightarrow> bool \<times> 'k WssInfo \<times> StreamEvent list \<Rightarrow> ('k, unit) socket_result" where
  "priv_process_socket lib cfg now st =
     (case st of (w, info0, q) \<Rightarrow>
        let info = info0\<lparr>wi_stateful_socket := NoStream\<rparr>; u = wi_url info; rid = wi_request_id info; awake = info\<lparr>wi_last_msg := now\<rparr> in
        case wi_stateful_socket info0 of
          NoStream \<Rightarrow> Ok () (w, info, q)
        | Connecting socket \<Rightarrow> step_connecting lib cfg awake socket q
        | ConnectingSrv socket \<Rightarrow> step_connecting_srv lib cfg awake socket q
        | TlsMidHandshake socket \<Rightarrow> settle w info (priv_tls_handshake (wl_tls_handshake lib socket) q)
        | TlsSrvMidHandshake socket \<Rightarrow> settle w info (priv_tls_srv_handshake (wl_tls_handshake lib socket) q)
        | TlsReady socket \<Rightarrow> settle True awake (priv_wss_handshake u rid (wl_client lib u socket) q)
        | TlsSrvReady socket \<Rightarrow> settle True awake (priv_wss_srv_handshake u (wl_accept lib socket) q)
        | WsMidHandshake socket \<Rightarrow> settle w info (priv_ws_handshake u rid (wl_handshake lib socket) q)
        | WsSrvMidHandshake socket \<Rightarrow> settle w info (priv_ws_srv_handshake u (wl_handshake lib socket) q)
        | WssMidHandshake socket \<Rightarrow> settle w info (priv_wss_handshake u rid (wl_handshake lib socket) q)
        | WssSrvMidHandshake socket \<Rightarrow> settle w info (priv_wss_srv_handshake u (wl_handshake lib socket) q)
        | ReadyWs socket \<Rightarrow> step_ready lib now ReadyWs w info socket q
        | ReadyWss socket \<Rightarrow> step_ready lib now ReadyWss w info socket q)"

section \<open>All connections\<close>

text \<open>\<open>elapsed().as_millis() as usize\<close>.\<close>

definition elapsed_ms :: "time \<Rightarrow> 'k WssInfo \<Rightarrow> nat" where
  "elapsed_ms now info = unat (of_nat (now - wi_last_msg info) :: u64)"

definition priv_process_accept :: "('k, 'acc) stream_fns \<Rightarrow> ('k, 'acc) StreamManager \<Rightarrow> ('k, 'acc, bool) stream_result" where
  "priv_process_accept fns m =
     (case sm_acceptor m of
        Inl err \<Rightarrow> Ok False m
      | Inr acceptor \<Rightarrow>
          (case sf_accept fns acceptor of
             (Inr info, acc) \<Rightarrow> Ok True (put_socket (wi_url info) info (m\<lparr>sm_acceptor := Inr acc\<rparr>))
           | (Inl err, acc) \<Rightarrow>
               if is_ignorable err then Ok False (m\<lparr>sm_acceptor := Inr acc\<rparr>)
               else Panic ''Error when attempting to accept connections''))"

text \<open>The heartbeat: \<open>Some\<close> the connection to keep, \<open>None\<close> when it is closed; an error of the ping returns from the loop.\<close>

definition heartbeat :: "'k ws_lib \<Rightarrow> time \<Rightarrow> 'k WssInfo \<Rightarrow> ('k, 'acc) StreamManager \<Rightarrow> ('k, 'acc, 'k WssInfo option) stream_result" where
  "heartbeat lib now info m =
     (if elapsed_ms now info > DEFAULT_HEARTBEAT_MS
      then (case write_ready lib (WsPing []) (wi_stateful_socket info) of
              None \<Rightarrow> Ok (Some info) m
            | Some (None, st) \<Rightarrow> Ok (Some (info\<lparr>wi_stateful_socket := st\<rparr>)) m
            | Some (Some (_, dbg), st) \<Rightarrow> Err (TransportOther dbg) m)
      else if elapsed_ms now info > DEFAULT_HEARTBEAT_WAIT_MS then Ok None (push_event (ConnectionClosed (wi_url info)) m)
      else Ok (Some info) m)"

fun process_each :: "'k ws_lib \<Rightarrow> time \<Rightarrow> (Lib3hUri \<times> 'k WssInfo) list \<Rightarrow> bool \<Rightarrow> ('k, 'acc) StreamManager \<Rightarrow> ('k, 'acc, bool) stream_result" where
  "process_each lib now [] w m = Ok w m"
| "process_each lib now ((i, info0) # sockets) w m =
     (case (case priv_process_socket lib (sm_tls_config m) now (w, info0, sm_event_queue m) of
              Ok _ r \<Rightarrow> Inr r
            | Err e (w, info, q) \<Rightarrow> Inr (w, info, q @ [SeErrorOccured (wi_url info) e])
            | Panic p \<Rightarrow> Inl p) of
        Inl p \<Rightarrow> Panic p
      | Inr (w, info, q) \<Rightarrow>
          if wi_stateful_socket info = NoStream
          then process_each lib now sockets w (push_event (ConnectionClosed (wi_url info)) (m\<lparr>sm_event_queue := q\<rparr>))
          else bind_ok (heartbeat lib now info (m\<lparr>sm_event_queue := q\<rparr>)) (\<lambda>kept m.
                 process_each lib now sockets w (case kept of Some info \<Rightarrow> put_socket i info m | None \<Rightarrow> m)))"

definition priv_process_stream_sockets :: "'k ws_lib \<Rightarrow> ('k, 'acc) stream_fns \<Rightarrow> time \<Rightarrow> ('k, 'acc) StreamManager \<Rightarrow> ('k, 'acc, bool) stream_result" where
  "priv_process_stream_sockets lib fns now m =
     bind_ok (priv_process_accept fns m) (\<lambda>did_work m. process_each lib now (sm_stream_sockets m) did_work (m\<lparr>sm_stream_sockets := []\<rparr>))"

definition sm_process :: "'k ws_lib \<Rightarrow> ('k, 'acc) stream_fns \<Rightarrow> time \<Rightarrow> ('k, 'acc) StreamManager \<Rightarrow> ('k, 'acc, bool \<times> StreamEvent list) stream_result" where
  "sm_process lib fns now m =
     bind_ok (priv_process_stream_sockets lib fns now m) (\<lambda>did_work m. Ok (did_work, sm_event_queue m) (m\<lparr>sm_event_queue := []\<rparr>))"

section \<open>TCP\<close>

text \<open>Sockets of the standard library; \<open>'l\<close> is a listener. Errors are renderings, \<open>WouldBlock\<close> with its \<open>{}\<close>.\<close>

datatype accept_error = AcceptWouldBlock string | AcceptError string

record ('k, 'l) tcp_api =
  tc_connect :: "nat \<Rightarrow> string \<Rightarrow> string + 'k"
  tc_set_nonblocking :: "'k \<Rightarrow> string option"
  tc_listen :: "string \<Rightarrow> string + 'l"
  tc_listener_set_nonblocking :: "'l \<Rightarrow> string option"
  tc_accept :: "'l \<Rightarrow> (accept_error + ('k \<times> string \<times> u16)) \<times> 'l"

definition tcp_stream_factory :: "('k, 'l) tcp_api \<Rightarrow> nat \<Rightarrow> string \<Rightarrow> TransportError + 'k" where
  "tcp_stream_factory api n uri =
     (case tc_connect api n uri of
        Inl e \<Rightarrow> Inl (TransportOther e)
      | Inr socket \<Rightarrow> (case tc_set_nonblocking api socket of Some e \<Rightarrow> Inl (TransportOther e) | None \<Rightarrow> Inr socket))"

definition tcp_bind :: "'k ws_lib \<Rightarrow> ('k, 'l) tcp_api \<Rightarrow> Url \<Rightarrow> (unit, TransportError, 'l) outcome" where
  "tcp_bind lib api url =
     (case wl_host_str lib url of
        None \<Rightarrow> Panic ''host name must be supplied''
      | Some host \<Rightarrow>
          let port = (case wl_port lib url of Some p \<Rightarrow> p | None \<Rightarrow> 80) in
          case tc_listen api (host @ '':'' @ decimal (unat port)) of
            Inl e \<Rightarrow> Err (TransportOther e) ()
          | Inr listener \<Rightarrow> (case tc_listener_set_nonblocking api listener of Some e \<Rightarrow> Err (TransportOther e) () | None \<Rightarrow> Ok listener ()))"

definition tcp_accept :: "url_lib \<Rightarrow> ('k, 'l) tcp_api \<Rightarrow> time \<Rightarrow> 'l \<Rightarrow> (TransportError + 'k WssInfo) \<times> 'l" where
  "tcp_accept L api now listener =
     (case tc_accept api listener of (r, listener) \<Rightarrow>
        (case r of
           Inl (AcceptWouldBlock d) \<Rightarrow> Inl (Ignore d)
         | Inl (AcceptError e) \<Rightarrow> Inl (TransportOther e)
         | Inr (tcp_stream, ip, port) \<Rightarrow>
             (case tc_set_nonblocking api tcp_stream of
                Some e \<Rightarrow> Inl (TransportOther e)
              | None \<Rightarrow>
                  (case ul_parse L (''wss://'' @ ip @ '':'' @ decimal (unat port)) of
                     Inl e \<Rightarrow> Inl (TransportOther e)
                   | Inr url \<Rightarrow> Inr (WssInfo_server now url tcp_stream))), listener))"

definition with_std_tcp_stream :: "'k ws_lib \<Rightarrow> url_lib \<Rightarrow> ('k, 'l) tcp_api \<Rightarrow> time \<Rightarrow> ('k, 'l) stream_fns" where
  "with_std_tcp_stream lib L api now = \<lparr>sf_stream_factory = tcp_stream_factory api, sf_bind = tcp_bind lib api, sf_accept = tcp_accept L api now\<rparr>"

end
