(* ===== verification/Ws_Actor.thy ===== *)
theory Ws_Actor
  imports Ws_Streams Transport_Protocol Mdns
begin

text \<open>
  The websocket transport as an actor (\<open>lib3h/src/transport/websocket/actor.rs\<close>): it owns a connection pool and a multicast DNS
  node, serves the requests of its parent and publishes what the pool reports. The actor makes no requests of its parent, so no
  callback is pending on its endpoint.
\<close>

section \<open>State\<close>

record ('k, 'l) GhostTransportWebsocket =
  gtw_transport_id :: Address
  gtw_network_id_address :: Address
  gtw_endpoint_parent :: "TransportActorParentEndpoint option"
  gtw_endpoint_self :: "unit TransportActorSelfEndpoint Detach"
  gtw_streams :: "('k, 'l) StreamManager"
  gtw_bound_url :: "Lib3hUri option"
  gtw_pending :: "ToChildMessage list"
  gtw_mdns :: "MulticastDns option"

text \<open>What a call reads from outside; \<open>wse_instant\<close> is the monotonic clock, \<open>wse_now\<close> the wall clock.\<close>

record ('k, 'l) wst_env =
  wse_lib :: "'k ws_lib"
  wse_url :: url_lib
  wse_tcp :: "('k, 'l) tcp_api"
  wse_instant :: time
  wse_now :: time
  wse_bt :: Backtwrap
  wse_rid_msg :: "RequestId \<Rightarrow> RequestId list \<Rightarrow> string"
  wse_dbg_ghost :: "GhostError \<Rightarrow> string"
  wse_dbg_transports :: "TransportError list \<Rightarrow> string"
  wse_sockets :: socket_api
  wse_mdns :: mdns_env
  wse_discover_clock :: "time \<times> time"

type_synonym ('k, 'l, 'e, 'a) wst_result = "(('k, 'l) GhostTransportWebsocket, 'e, 'a) outcome"

abbreviation wst_fns :: "('k, 'l) wst_env \<Rightarrow> ('k, 'l) stream_fns" where
  "wst_fns env \<equiv> with_std_tcp_stream (wse_lib env) (wse_url env) (wse_tcp env) (wse_instant env)"

definition GhostTransportWebsocket_new :: "Address \<Rightarrow> TlsConfig \<Rightarrow> Address \<Rightarrow> ('k, 'l) GhostTransportWebsocket" where
  "GhostTransportWebsocket_new tid tls network_id =
     (case create_ghost_channel of (ep_parent, ep_self) \<Rightarrow>
        \<lparr>gtw_transport_id = tid, gtw_network_id_address = network_id, gtw_endpoint_parent = Some ep_parent,
         gtw_endpoint_self = Detach_new (GhostContextEndpointBuilder_build
           (GhostContextEndpointBuilder_request_id_prefix ''twss_to_parent'' (as_context_endpoint_builder ep_self))),
         gtw_streams = StreamManager_new tls, gtw_bound_url = None, gtw_pending = [], gtw_mdns = None\<rparr>)"

definition gtw_take_parent_endpoint :: "('k, 'l) GhostTransportWebsocket \<Rightarrow> TransportActorParentEndpoint option \<times> ('k, 'l) GhostTransportWebsocket" where
  "gtw_take_parent_endpoint t = (gtw_endpoint_parent t, t\<lparr>gtw_endpoint_parent := None\<rparr>)"

definition on_streams :: "(('k, 'l) StreamManager \<Rightarrow> (('k, 'l) StreamManager, 'e, 'a) outcome) \<Rightarrow> ('k, 'l) GhostTransportWebsocket \<Rightarrow> ('k, 'l, 'e, 'a) wst_result" where
  "on_streams f t = lift_state (\<lambda>m. t\<lparr>gtw_streams := m\<rparr>) (f (gtw_streams t))"

text \<open>\<open>drop\<close>: an error of \<open>close_all\<close> is only logged.\<close>

fun ignore_err :: "('s, 'e, unit) outcome \<Rightarrow> ('s, 'f, unit) outcome" where
  "ignore_err (Ok v s) = Ok () s"
| "ignore_err (Err e s) = Ok () s"
| "ignore_err (Panic m) = Panic m"

definition gtw_drop :: "('k, 'l) wst_env \<Rightarrow> ('k, 'l) GhostTransportWebsocket \<Rightarrow> ('k, 'l, 'e, unit) wst_result" where
  "gtw_drop env t = ignore_err (on_streams (close_all (wse_lib env) (wse_dbg_transports env)) t)"

section \<open>Discovery\<close>

text \<open>The multicast DNS node of the transport, made for its bound url.\<close>

definition make_mdns :: "('k, 'l) wst_env \<Rightarrow> Address \<Rightarrow> Url \<Rightarrow> (unit, DiscoveryError, MulticastDns) outcome" where
  "make_mdns env netid uri =
     (case build (wse_sockets env) (wse_instant env) (own_record (string_bytes netid) [string_bytes uri] MulticastDnsBuilder_new) of
        Inr mdns \<Rightarrow> Ok (insert_record (string_bytes netid) [string_bytes uri] mdns) ()
      | Inl e \<Rightarrow> to_discovery (wse_mdns env) (Err e ()))"

definition on_mdns :: "(MulticastDns \<Rightarrow> (MulticastDns, 'e, 'a) outcome) \<Rightarrow> MulticastDns \<Rightarrow> ('k, 'l) GhostTransportWebsocket \<Rightarrow> ('k, 'l, 'e, 'a) wst_result" where
  "on_mdns f d t = lift_state (\<lambda>d. t\<lparr>gtw_mdns := Some d\<rparr>) (f d)"

definition gtw_advertise :: "('k, 'l) wst_env \<Rightarrow> ('k, 'l) GhostTransportWebsocket \<Rightarrow> ('k, 'l, DiscoveryError, unit) wst_result" where
  "gtw_advertise env t =
     (case gtw_mdns t of
        Some mdns \<Rightarrow> on_mdns (advertise (wse_mdns env)) mdns t
      | None \<Rightarrow>
          (case gtw_bound_url t of
             None \<Rightarrow> Err (DiscoveryOther ''Must bind URL before advertising.'') t
           | Some uri \<Rightarrow>
               (case make_mdns env (gtw_network_id_address t) uri of
                  Ok mdns _ \<Rightarrow> on_mdns (advertise (wse_mdns env)) mdns t
                | Err e _ \<Rightarrow> Err e t
                | Panic m \<Rightarrow> Panic m)))"

definition gtw_discover :: "('k, 'l) wst_env \<Rightarrow> ('k, 'l) GhostTransportWebsocket \<Rightarrow> ('k, 'l, DiscoveryError, Lib3hUri list) wst_result" where
  "gtw_discover env t =
     bind_ok (case gtw_mdns t of Some _ \<Rightarrow> Ok () t | None \<Rightarrow> gtw_advertise env t) (\<lambda>_ t.
       case gtw_mdns t of
         Some mdns \<Rightarrow> on_mdns (discover (wse_mdns env) (wse_discover_clock env)) mdns t
       | None \<Rightarrow> Err (DiscoveryOther ''No mDNS instance found during Discovering step.'') t)"

definition gtw_release :: "('k, 'l) wst_env \<Rightarrow> ('k, 'l) GhostTransportWebsocket \<Rightarrow> ('k, 'l, DiscoveryError, unit) wst_result" where
  "gtw_release env t = (case gtw_mdns t of Some mdns \<Rightarrow> on_mdns (release (wse_mdns env)) mdns t | None \<Rightarrow> Ok () t)"

definition gtw_flush :: "('k, 'l) GhostTransportWebsocket \<Rightarrow> ('k, 'l, DiscoveryError, unit) wst_result" where
  "gtw_flush t = Ok () t"

text \<open>\<open>to_string\<close> of the error.\<close>

fun discovery_text :: "DiscoveryError \<Rightarrow> string" where
  "discovery_text (DiscoveryIo e) = e"
| "discovery_text (DiscoveryOther s) = ''Unknown error encountered: '' @ quoted s @ ''.''"

section \<open>The endpoint\<close>

definition gtw_on_endpoint :: "(unit TransportActorSelfEndpoint \<Rightarrow> (unit TransportActorSelfEndpoint, GhostError, 'a) outcome) \<Rightarrow> ('k, 'l) GhostTransportWebsocket \<Rightarrow>
    ('k, 'l, GhostError, 'a) wst_result" where
  "gtw_on_endpoint = detach_deref_mut gtw_endpoint_self (\<lambda>ep t. t\<lparr>gtw_endpoint_self := ep\<rparr>)"

text \<open>\<open>From<GhostError> for TransportError\<close> keeps the \<open>{:?}\<close> rendering.\<close>

definition gtw_publish :: "('k, 'l) wst_env \<Rightarrow> RequestToParent \<Rightarrow> ('k, 'l) GhostTransportWebsocket \<Rightarrow> ('k, 'l, TransportError, unit) wst_result" where
  "gtw_publish env p t = map_err (TransportError_from (wse_dbg_ghost env)) (gtw_on_endpoint (publish (wse_bt env) p) t)"

definition gtw_respond :: "('k, 'l) wst_env \<Rightarrow> ToChildMessage \<Rightarrow> TransportError + RequestToChildResponse \<Rightarrow> ('k, 'l) GhostTransportWebsocket \<Rightarrow>
    ('k, 'l, TransportError, unit) wst_result" where
  "gtw_respond env msg payload t = map_err (TransportError_from (wse_dbg_ghost env)) (gtw_on_endpoint
     (\<lambda>ep. lift_state (\<lambda>s. ep\<lparr>gce_sender := s\<rparr>) (GhostMessage_respond (wse_bt env) msg payload (gce_sender ep))) t)"

section \<open>Sending\<close>

text \<open>An error hands the message back, to be kept pending.\<close>

definition handle_send_message :: "('k, 'l) wst_env \<Rightarrow> ToChildMessage \<Rightarrow> ('k, 'l) GhostTransportWebsocket \<Rightarrow> ('k, 'l, ToChildMessage, unit) wst_result" where
  "handle_send_message env msg0 t =
     (case take_message msg0 of
        (None, _) \<Rightarrow> Panic ''GhostMessage must have inner RequestToChild''
      | (Some (Bind _), _) \<Rightarrow> Panic ''GhostTransportWebsocket::handle_send_message called with non-SendMessage message''
      | (Some (SendMessage uri payload), msg) \<Rightarrow>
          (case gtw_bound_url t of
             None \<Rightarrow> ignore_err (gtw_respond env msg (Inl (TransportError_new ''Transport must be bound before sending'')) t)
           | Some my_addr \<Rightarrow>
               (case on_streams (sm_send (wse_lib env) uri payload) t of
                  Err error t \<Rightarrow> Err (put_message (create_send_message uri payload) msg) t
                | Ok _ t \<Rightarrow> ignore_err (gtw_respond env msg (Inr SendMessageSuccess) t)
                | Panic m \<Rightarrow> Panic m)))"

definition keep_pending :: "ToChildMessage \<Rightarrow> ('k, 'l) GhostTransportWebsocket \<Rightarrow> ('k, 'l) GhostTransportWebsocket" where
  "keep_pending msg t = t\<lparr>gtw_pending := gtw_pending t @ [msg]\<rparr>"

definition gtw_bind :: "('k, 'l) wst_env \<Rightarrow> ToChildMessage \<Rightarrow> Lib3hUri \<Rightarrow> ('k, 'l) GhostTransportWebsocket \<Rightarrow> ('k, 'l, TransportError, unit) wst_result" where
  "gtw_bind env msg spec t =
     (case on_streams (sm_bind (wst_fns env) spec) t of
        Panic m \<Rightarrow> Panic m
      | Err e t \<Rightarrow> gtw_respond env msg (Inl e) t
      | Ok bound t \<Rightarrow>
          bind_ok (gtw_respond env msg (Inr (BindResponse \<lparr>bound_url = bound\<rparr>)) t) (\<lambda>_ t.
          map_err (\<lambda>e. TransportOther (discovery_text e)) (gtw_advertise env (t\<lparr>gtw_bound_url := Some bound\<rparr>))))"

definition gtw_send :: "('k, 'l) wst_env \<Rightarrow> ToChildMessage \<Rightarrow> Lib3hUri \<Rightarrow> Opaque \<Rightarrow> ('k, 'l) GhostTransportWebsocket \<Rightarrow> ('k, 'l, TransportError, unit) wst_result" where
  "gtw_send env msg uri payload t =
     (let again = put_message (create_send_message uri payload) msg in
      if gtw_bound_url t = None then gtw_respond env msg (Inl (TransportError_new ''Transport must be bound before sending'')) t
      else case connection_status uri (gtw_streams t) of
          CsNone \<Rightarrow>
            (case on_streams (sm_connect (wse_lib env) (wst_fns env) (wse_instant env) uri) t of
               Panic m \<Rightarrow> Panic m
             | Ok _ t \<Rightarrow> Ok () (keep_pending again t)
             | Err _ t \<Rightarrow> Ok () (keep_pending again t))
        | CsInitializing \<Rightarrow> Ok () (keep_pending again t)
        | CsReady \<Rightarrow>
            (case handle_send_message env again t of
               Ok _ t \<Rightarrow> Ok () t
             | Err msg t \<Rightarrow> Ok () (keep_pending msg t)
             | Panic m \<Rightarrow> Panic m))"

definition handle_inbox_message :: "('k, 'l) wst_env \<Rightarrow> ToChildMessage \<Rightarrow> ('k, 'l) GhostTransportWebsocket \<Rightarrow> ('k, 'l, TransportError, unit) wst_result" where
  "handle_inbox_message env msg0 t =
     (case take_message msg0 of
        (None, _) \<Rightarrow> Panic ''exist''
      | (Some (Bind spec), msg) \<Rightarrow> gtw_bind env msg spec t
      | (Some (SendMessage uri payload), msg) \<Rightarrow> gtw_send env msg uri payload t)"

definition process_actor_inbox :: "('k, 'l) wst_env \<Rightarrow> ('k, 'l) GhostTransportWebsocket \<Rightarrow> ('k, 'l, TransportError, unit) wst_result" where
  "process_actor_inbox env t =
     bind_ok (map_err (TransportError_from (wse_dbg_ghost env)) (gtw_on_endpoint (\<lambda>ep. case drain_messages ep of (ms, ep) \<Rightarrow> Ok ms ep) t))
       (for_each (handle_inbox_message env))"

section \<open>What the pool reports\<close>

definition handle_stream_event :: "('k, 'l) wst_env \<Rightarrow> StreamEvent \<Rightarrow> ('k, 'l) GhostTransportWebsocket \<Rightarrow> ('k, 'l, TransportError, unit) wst_result" where
  "handle_stream_event env event t =
     (case event of
        SeErrorOccured uri error \<Rightarrow> gtw_publish env (ErrorOccured uri error) t
      | ConnectResult uri _ \<Rightarrow> Ok () t
      | IncomingConnectionEstablished uri \<Rightarrow> gtw_publish env (IncomingConnection uri) t
      | SeReceivedData uri payload \<Rightarrow> gtw_publish env (ReceivedData uri payload) t
      | ConnectionClosed uri \<Rightarrow> Ok () t)"

definition process_stream_events :: "('k, 'l) wst_env \<Rightarrow> StreamEvent list \<Rightarrow> ('k, 'l) GhostTransportWebsocket \<Rightarrow> ('k, 'l, TransportError, unit) wst_result" where
  "process_stream_events env = for_each (handle_stream_event env)"

text \<open>The loop pops from the end of \<open>pending\<close>: it goes through the reversed list. \<open>temp\<close> is what is kept.\<close>

fun pending_loop :: "('k, 'l) wst_env \<Rightarrow> ToChildMessage list \<Rightarrow> ToChildMessage list \<Rightarrow> ('k, 'l) GhostTransportWebsocket \<Rightarrow>
    ('k, 'l, TransportError, ToChildMessage list) wst_result" where
  "pending_loop env [] temp t = Ok temp t"
| "pending_loop env (msg0 # msgs) temp t =
     (case take_message msg0 of
        (None, _) \<Rightarrow> Panic ''exists''
      | (Some (Bind _), _) \<Rightarrow> Panic ''Found a non-SendMessage message in GhostWebsocketTransport::pending!''
      | (Some (SendMessage uri payload), msg) \<Rightarrow>
          let again = put_message (create_send_message uri payload) msg in
          if connection_status uri (gtw_streams t) = CsReady
          then (case handle_send_message env again t of
                  Ok _ t \<Rightarrow> pending_loop env msgs temp t
                | Err msg t \<Rightarrow> pending_loop env msgs (temp @ [msg]) t
                | Panic m \<Rightarrow> Panic m)
          else pending_loop env msgs (temp @ [again]) t)"

definition process_pending_messages :: "('k, 'l) wst_env \<Rightarrow> ('k, 'l) GhostTransportWebsocket \<Rightarrow> ('k, 'l, TransportError, unit) wst_result" where
  "process_pending_messages env t =
     bind_ok (pending_loop env (rev (gtw_pending t)) [] (t\<lparr>gtw_pending := []\<rparr>)) (\<lambda>temp t. Ok () (t\<lparr>gtw_pending := temp\<rparr>))"

section \<open>Processing\<close>

text \<open>\<open>From<TransportError> for GhostError\<close>: the \<open>Display\<close> inside may panic.\<close>

fun transport_to_ghost :: "('s, TransportError, 'a) outcome \<Rightarrow> ('s, GhostError, 'a) outcome" where
  "transport_to_ghost (Ok v s) = Ok v s"
| "transport_to_ghost (Err e s) =
     (case TransportError_display e of Some d \<Rightarrow> Err (Other (''TransportError: '' @ d)) s | None \<Rightarrow> Panic ''unreachable'')"
| "transport_to_ghost (Panic m) = Panic m"

definition gtw_no_callback :: "(unit, ('k, 'l) GhostTransportWebsocket \<times> (RequestToParent, RequestToChildResponse, TransportError) GhostEndpointMessage Sender,
     RequestToParentResponse, TransportError) call" where
  "gtw_no_callback cb data st = Ok () st"

definition gtw_process_concrete :: "('k, 'l) wst_env \<Rightarrow> ('k, 'l) GhostTransportWebsocket \<Rightarrow> ('k, 'l, GhostError, WorkWasDone) wst_result" where
  "gtw_process_concrete env t =
     bind_ok (detach_run gtw_endpoint_self (\<lambda>ep t. t\<lparr>gtw_endpoint_self := ep\<rparr>) (endpoint_process (wse_rid_msg env) gtw_no_callback (wse_now env)) t) (\<lambda>_ t.
     bind_ok (transport_to_ghost (process_actor_inbox env t)) (\<lambda>_ t.
     case gtw_bound_url t of
       None \<Rightarrow> Ok False t
     | Some _ \<Rightarrow>
         bind_ok (transport_to_ghost (on_streams (sm_process (wse_lib env) (wst_fns env) (wse_instant env)) t)) (\<lambda>(did_work, stream_events) t.
         bind_ok (transport_to_ghost (process_stream_events env stream_events t)) (\<lambda>_ t.
         bind_ok (transport_to_ghost (process_pending_messages env t)) (\<lambda>_. Ok did_work)))))"

end
