(* ===== verification/Ws_Pool.thy ===== *)
theory Ws_Pool
  imports Ws_Streams
begin

text \<open>
  What the connection pool keeps: encryption, and an account of every connection.
\<close>

section \<open>Connections that fit the configuration\<close>

text \<open>With TLS no connection is ever a plain websocket, without it none is ever encrypted.\<close>

fun tls_respected :: "TlsConfig \<Rightarrow> 'k WebsocketStreamState \<Rightarrow> bool" where
  "tls_respected cfg (WsMidHandshake _) = (cfg = Unencrypted)"
| "tls_respected cfg (WsSrvMidHandshake _) = (cfg = Unencrypted)"
| "tls_respected cfg (ReadyWs _) = (cfg = Unencrypted)"
| "tls_respected cfg NoStream = True"
| "tls_respected cfg (Connecting _) = True"
| "tls_respected cfg (ConnectingSrv _) = True"
| "tls_respected cfg _ = (cfg \<noteq> Unencrypted)"

definition info_ok :: "TlsConfig \<Rightarrow> Lib3hUri \<times> 'k WssInfo \<Rightarrow> bool" where
  "info_ok cfg c = (case c of (u, i) \<Rightarrow> wi_url i = u \<and> wi_stateful_socket i \<noteq> NoStream \<and> tls_respected cfg (wi_stateful_socket i))"

definition pool_ok :: "('k, 'acc) StreamManager \<Rightarrow> bool" where
  "pool_ok m \<longleftrightarrow> wf_map (sm_stream_sockets m) \<and> list_all (info_ok (sm_tls_config m)) (sm_stream_sockets m)"

lemma list_all_update: "list_all P m \<Longrightarrow> P (k, v) \<Longrightarrow> list_all P (AList.update k v m)"
  by (induction m) auto

lemma list_all_delete: "list_all P m \<Longrightarrow> list_all P (AList.delete k m)"
  by (auto simp: list_all_iff delete_filter)

lemma put_socket_ok: "pool_ok m \<Longrightarrow> info_ok (sm_tls_config m) (u, i) \<Longrightarrow> pool_ok (put_socket u i m)"
  by (simp add: pool_ok_def put_socket_def list_all_update distinct_update)

lemma map_of_ok: "pool_ok m \<Longrightarrow> map_of (sm_stream_sockets m) u = Some i \<Longrightarrow> info_ok (sm_tls_config m) (u, i)"
  by (auto simp: pool_ok_def list_all_iff dest: map_of_SomeD)

lemma pool_frame [simp]:
  "sm_tls_config (put_socket u i m) = sm_tls_config m" "sm_tls_config (push_event ev m) = sm_tls_config m"
  "sm_event_queue (put_socket u i m) = sm_event_queue m" "sm_stream_sockets (push_event ev m) = sm_stream_sockets m"
  "pool_ok (push_event ev m) = pool_ok m" "pool_ok (m\<lparr>sm_event_queue := q\<rparr>) = pool_ok m" "pool_ok (m\<lparr>sm_acceptor := a\<rparr>) = pool_ok m"
  "pool_ok (m\<lparr>sm_connects := n\<rparr>) = pool_ok m"
  by (simp_all add: put_socket_def push_event_def pool_ok_def)

subsection \<open>The step of one connection\<close>

lemmas handshake_defs = priv_tls_handshake_def priv_tls_srv_handshake_def priv_ws_handshake_def priv_wss_handshake_def
  priv_ws_srv_handshake_def priv_wss_srv_handshake_def

lemma socket_step_keeps:
  assumes "tls_respected cfg (wi_stateful_socket info)" and "final_state (priv_process_socket lib cfg now (w, info, q)) = Some (w', info', q')"
  shows "wi_url info' = wi_url info \<and> tls_respected cfg (wi_stateful_socket info') \<and> set q \<subseteq> set q'"
proof (cases "wi_stateful_socket info")
  case (Connecting k)
  then show ?thesis using assms(2)
    by (auto simp: priv_process_socket_def Let_def step_connecting_def settle_def handshake_defs split: if_splits handshake.splits)
next
  case (ConnectingSrv k)
  then show ?thesis using assms(2)
    by (auto simp: priv_process_socket_def Let_def step_connecting_srv_def tls_identity_def settle_def handshake_defs
        split: if_splits handshake.splits option.splits TlsConfig.splits)
next
  case (ReadyWs k)
  then show ?thesis using assms
    by (auto simp: priv_process_socket_def Let_def step_ready_def split: prod.splits sum.splits ws_read_error.splits option.splits)
next
  case (ReadyWss k)
  then show ?thesis using assms
    by (auto simp: priv_process_socket_def Let_def step_ready_def split: prod.splits sum.splits ws_read_error.splits option.splits)
qed (use assms in \<open>auto simp: priv_process_socket_def Let_def settle_def handshake_defs split: handshake.splits\<close>)

lemma write_ready_keeps:
  "write_ready lib msg st = Some (r, st') \<Longrightarrow> st' \<noteq> NoStream \<and> tls_respected cfg st' = tls_respected cfg st"
  by (cases st) (auto simp: write_ready_def map_prod_def split: prod.splits)

lemma heartbeat_keeps:
  assumes "heartbeat lib now info m = Ok kept m'"
  shows "sm_tls_config m' = sm_tls_config m \<and> sm_stream_sockets m' = sm_stream_sockets m \<and> set (sm_event_queue m) \<subseteq> set (sm_event_queue m')
    \<and> (info_ok cfg (u, info) \<longrightarrow> (case kept of Some i \<Rightarrow> info_ok cfg (u, i) | None \<Rightarrow> ConnectionClosed u \<in> set (sm_event_queue m')))"
  using assms
  by (auto simp: heartbeat_def info_ok_def push_event_def split: if_splits option.splits dest: write_ready_keeps[where cfg = cfg])

subsection \<open>The loop over all connections\<close>

lemma step_then:
  assumes "(case priv_process_socket lib cfg now (w, info0, q) of Ok _ r \<Rightarrow> Inr r | Err e (w, info, q) \<Rightarrow> Inr (w, info, q @ [SeErrorOccured (wi_url info) e])
      | Panic p \<Rightarrow> Inl p) = Inr (w', info', q')" and "info_ok cfg (u, info0)"
  shows "wi_url info' = u" "tls_respected cfg (wi_stateful_socket info')" "set q \<subseteq> set q'"
proof -
  obtain q1 where "final_state (priv_process_socket lib cfg now (w, info0, q)) = Some (w', info', q1)" and "q' = q1 \<or> (\<exists>ev. q' = q1 @ [ev])"
    using assms(1) by (cases "priv_process_socket lib cfg now (w, info0, q)") auto
  with socket_step_keeps[OF _ this(1)] assms(2) show "wi_url info' = u" "tls_respected cfg (wi_stateful_socket info')" "set q \<subseteq> set q'"
    by (auto simp: info_ok_def)
qed

text \<open>The loop keeps the pool in order however it ends, and when it ends normally it accounts for every connection it was given.\<close>

definition accounted :: "Lib3hUri set \<Rightarrow> ('k, 'acc) StreamManager \<Rightarrow> ('k, 'acc) StreamManager \<Rightarrow> bool" where
  "accounted us m m' \<longleftrightarrow> set (sm_event_queue m) \<subseteq> set (sm_event_queue m') \<and> set (keys (sm_stream_sockets m)) \<subseteq> set (keys (sm_stream_sockets m'))
     \<and> (\<forall>u\<in>us. u \<in> set (keys (sm_stream_sockets m')) \<or> ConnectionClosed u \<in> set (sm_event_queue m'))"

lemma accounted_trans: "accounted A m m1 \<Longrightarrow> accounted B m1 m2 \<Longrightarrow> accounted (A \<union> B) m m2"
  unfolding accounted_def by blast

lemma process_each_ok:
  assumes "pool_ok m" and "list_all (info_ok (sm_tls_config m)) sockets" and "final_state (process_each lib now sockets w m) = Some m'"
  shows "pool_ok m' \<and> sm_tls_config m' = sm_tls_config m \<and> (\<forall>w'. process_each lib now sockets w m = Ok w' m' \<longrightarrow> accounted (set (keys sockets)) m m')"
  using assms
proof (induction sockets arbitrary: w m)
  case (Cons c sockets)
  obtain u info0 where c: "c = (u, info0)" by (cases c)
  let ?r = "case priv_process_socket lib (sm_tls_config m) now (w, info0, sm_event_queue m) of Ok _ r \<Rightarrow> Inr r
      | Err e (w, info, q) \<Rightarrow> Inr (w, info, q @ [SeErrorOccured (wi_url info) e]) | Panic p \<Rightarrow> Inl p"
  have ok0: "info_ok (sm_tls_config m) (u, info0)" and rest: "list_all (info_ok (sm_tls_config m)) sockets" using Cons.prems(2) by (auto simp: c)
  obtain w1 info q where r: "?r = Inr (w1, info, q)" using Cons.prems(3) by (cases ?r) (auto simp: c)
  note s = step_then[OF r ok0]
  let ?m = "m\<lparr>sm_event_queue := q\<rparr>"
  show ?case
  proof (cases "wi_stateful_socket info = NoStream")
    case True
    let ?m1 = "push_event (ConnectionClosed u) ?m"
    have e: "process_each lib now (c # sockets) w m = process_each lib now sockets w1 ?m1" using r True s(1) by (simp add: c)
    with Cons.IH[of ?m1 w1] Cons.prems(1,3) rest s(3) show ?thesis
      by (auto simp: c accounted_def push_event_def)
  next
    case False
    then have i: "info_ok (sm_tls_config m) (u, info)" using s by (simp add: info_ok_def)
    have e: "process_each lib now (c # sockets) w m = bind_ok (heartbeat lib now info ?m) (\<lambda>kept m.
        process_each lib now sockets w1 (case kept of Some info \<Rightarrow> put_socket u info m | None \<Rightarrow> m))" using r False by (simp add: c)
    show ?thesis
    proof (cases "heartbeat lib now info ?m")
      case (Ok kept m1)
      note h = heartbeat_keeps[OF Ok, of "sm_tls_config m" u]
      let ?m1 = "case kept of Some info \<Rightarrow> put_socket u info m1 | None \<Rightarrow> m1"
      have "pool_ok m1" using h Cons.prems(1) by (simp add: pool_ok_def)
      then have m1: "pool_ok ?m1" "sm_tls_config ?m1 = sm_tls_config m" using h i by (auto split: option.splits intro: put_socket_ok)
      have acc: "accounted {u} m ?m1" using h i s(3) by (auto simp: accounted_def put_socket_def keys_update_set[simplified] split: option.splits)
      have "accounted (set (keys (c # sockets))) m m'" if "accounted (set (keys sockets)) ?m1 m'"
        using accounted_trans[OF acc that] by (simp add: c)
      then show ?thesis using Cons.IH[OF m1(1), of w1] Cons.prems(3) rest m1(2) Ok unfolding e by auto
    next
      case (Err x m1)
      then have "m1 = ?m" by (auto simp: heartbeat_def split: if_splits option.splits)
      with Cons.prems(3) Err have "m' = ?m" unfolding e by simp
      then show ?thesis using Cons.prems(1) Err unfolding e by simp
    qed (use Cons.prems(3) in \<open>simp add: e\<close>)
  qed
qed (simp add: accounted_def)

lemma process_each_pool:
  assumes "pool_ok m" and "final_state (process_each lib now (sm_stream_sockets m) w (m\<lparr>sm_stream_sockets := []\<rparr>)) = Some m'"
  shows "pool_ok m' \<and> sm_tls_config m' = sm_tls_config m"
    and "process_each lib now (sm_stream_sockets m) w (m\<lparr>sm_stream_sockets := []\<rparr>) = Ok w' m' \<Longrightarrow>
      \<forall>u\<in>set (keys (sm_stream_sockets m)). u \<in> set (keys (sm_stream_sockets m')) \<or> ConnectionClosed u \<in> set (sm_event_queue m')"
  using process_each_ok[of "m\<lparr>sm_stream_sockets := []\<rparr>" "sm_stream_sockets m" lib now w m'] assms
  by (auto simp: pool_ok_def accounted_def)

section \<open>Every operation\<close>

text \<open>What one call of the pool reads from outside, and the operations of the pool over TCP.\<close>

record ('k, 'l) pool_env =
  pe_lib :: "'k ws_lib"
  pe_url :: url_lib
  pe_tcp :: "('k, 'l) tcp_api"
  pe_now :: time
  pe_dbg :: "TransportError list \<Rightarrow> string"

datatype pool_op = PoolConnect Url | PoolClose Url | PoolCloseAll | PoolSend Url bytes | PoolBind Url | PoolProcess

abbreviation pool_fns :: "('k, 'l) pool_env \<Rightarrow> ('k, 'l) stream_fns" where
  "pool_fns e \<equiv> with_std_tcp_stream (pe_lib e) (pe_url e) (pe_tcp e) (pe_now e)"

fun pool_step :: "('k, 'l) pool_env \<times> pool_op \<Rightarrow> ('k, 'l) StreamManager \<Rightarrow> ('k, 'l) StreamManager option" where
  "pool_step (e, PoolConnect u) m = final_state (sm_connect (pe_lib e) (pool_fns e) (pe_now e) u m)"
| "pool_step (e, PoolClose u) m = final_state (sm_close (pe_lib e) u m)"
| "pool_step (e, PoolCloseAll) m = final_state (close_all (pe_lib e) (pe_dbg e) m)"
| "pool_step (e, PoolSend u d) m = final_state (sm_send (pe_lib e) u d m)"
| "pool_step (e, PoolBind u) m = final_state (sm_bind (pool_fns e) u m)"
| "pool_step (e, PoolProcess) m = final_state (sm_process (pe_lib e) (pool_fns e) (pe_now e) m)"

lemma accept_keeps:
  assumes "priv_process_accept (pool_fns e) m = Ok w m'" and "pool_ok m"
  shows "pool_ok m' \<and> sm_tls_config m' = sm_tls_config m \<and> set (keys (sm_stream_sockets m)) \<subseteq> set (keys (sm_stream_sockets m'))"
proof (cases "sm_acceptor m")
  case (Inr listener)
  obtain r l where r: "tcp_accept (pe_url e) (pe_tcp e) (pe_now e) listener = (r, l)" by (cases "tcp_accept (pe_url e) (pe_tcp e) (pe_now e) listener")
  show ?thesis
  proof (cases r)
    case (Inr info)
    with r have "info_ok (sm_tls_config m) (wi_url info, info)"
      by (auto simp: tcp_accept_def WssInfo_server_def WssInfo_new_def info_ok_def split: prod.splits sum.splits option.splits accept_error.splits)
    moreover have "m' = put_socket (wi_url info) info (m\<lparr>sm_acceptor := Inr l\<rparr>)"
      using assms(1) \<open>sm_acceptor m = Inr listener\<close> r Inr by (simp add: priv_process_accept_def with_std_tcp_stream_def)
    ultimately show ?thesis using assms(2) put_socket_ok[of "m\<lparr>sm_acceptor := Inr l\<rparr>" "wi_url info" info]
      by (auto simp: put_socket_def keys_update_set[simplified])
  next
    case (Inl err)
    then have "m' = m\<lparr>sm_acceptor := Inr l\<rparr>"
      using assms(1) \<open>sm_acceptor m = Inr listener\<close> r by (auto simp: priv_process_accept_def with_std_tcp_stream_def split: if_splits)
    then show ?thesis using assms(2) by simp
  qed
qed (use assms in \<open>simp add: priv_process_accept_def\<close>)

lemma accept_no_Err: "priv_process_accept fns m \<noteq> Err x m'"
  by (auto simp: priv_process_accept_def split: sum.splits prod.splits if_splits)

lemma send_keeps:
  assumes "pool_ok m" and "final_state (sm_send lib u d m) = Some m'"
  shows "pool_ok m' \<and> sm_tls_config m' = sm_tls_config m"
proof (cases "map_of (sm_stream_sockets m) u")
  case (Some info)
  show ?thesis
  proof (cases "write_ready lib (WsBinary d) (wi_stateful_socket info)")
    case (Some x)
    obtain r st where x: "x = (r, st)" by (cases x)
    have "info_ok (sm_tls_config m) (u, info\<lparr>wi_stateful_socket := st\<rparr>)"
      using map_of_ok[OF assms(1) \<open>map_of (sm_stream_sockets m) u = Some info\<close>] write_ready_keeps[OF Some[unfolded x]] by (simp add: info_ok_def)
    then show ?thesis using assms \<open>map_of (sm_stream_sockets m) u = Some info\<close> Some x by (auto simp: sm_send_def Let_def put_socket_ok split: option.splits)
  qed (use assms Some in \<open>simp add: sm_send_def\<close>)
qed (use assms in \<open>simp add: sm_send_def\<close>)

lemma pool_step_keeps:
  assumes "pool_ok m" and "pool_step x m = Some m'"
  shows "pool_ok m' \<and> sm_tls_config m' = sm_tls_config m"
proof -
  obtain e opn where x: "x = (e, opn)" by (cases x)
  have drop: "pool_ok (m\<lparr>sm_stream_sockets := AList.delete u (sm_stream_sockets m)\<rparr>)" for u
    using assms(1) by (simp add: pool_ok_def list_all_delete)
  show ?thesis
  proof (cases opn)
    case (PoolConnect u)
    then show ?thesis using assms
      by (auto simp: x sm_connect_def Let_def WssInfo_client_def WssInfo_new_def info_ok_def split: option.splits sum.splits intro!: put_socket_ok)
  next
    case (PoolClose u)
    then show ?thesis using assms drop[of u] by (auto simp: x sm_close_def Let_def final_state_lift_state split: option.splits)
  next
    case (PoolSend u d)
    then show ?thesis using assms(2) send_keeps[OF assms(1), of "pe_lib e" u d m'] by (simp add: x)
  next
    case PoolProcess
    then obtain w m1 where a: "priv_process_accept (pool_fns e) m = Ok w m1"
      using assms(2) accept_no_Err[of "pool_fns e" m] by (cases "priv_process_accept (pool_fns e) m") (auto simp: x sm_process_def priv_process_stream_sockets_def)
    obtain m2 where "final_state (process_each (pe_lib e) (pe_now e) (sm_stream_sockets m1) w (m1\<lparr>sm_stream_sockets := []\<rparr>)) = Some m2"
        and "m' = m2 \<or> m' = m2\<lparr>sm_event_queue := []\<rparr>"
      using assms(2) PoolProcess a
      by (cases "process_each (pe_lib e) (pe_now e) (sm_stream_sockets m1) w (m1\<lparr>sm_stream_sockets := []\<rparr>)") (auto simp: x sm_process_def priv_process_stream_sockets_def)
    with process_each_pool(1)[of m1] accept_keeps[OF a assms(1)] show ?thesis by auto
  qed (use assms in \<open>auto simp: x pool_ok_def close_all_def Let_def sm_bind_def split: if_splits outcome.splits\<close>)
qed

interpretation pool: invariant_machine pool_step pool_ok "\<lambda>m m'. sm_tls_config m' = sm_tls_config m"
  by unfold_locales (auto dest: pool_step_keeps)

lemma pool_ok_new: "pool_ok (StreamManager_new cfg)"
  by (simp add: pool_ok_def StreamManager_new_def)

section \<open>Properties\<close>

text \<open>
  C9: Encryption is all or nothing. Whatever sequence of operations a pool goes through and whatever the other sides and the sockets do,
  with a TLS configuration no connection of the pool ever speaks, or is setting up, the plain websocket protocol, and without one none is
  encrypted; every connection is tracked under its own url and has a stream.
\<close>

theorem encryption_respected:
  assumes "run_steps pool_step ops (StreamManager_new cfg) = Some m" and "map_of (sm_stream_sockets m) u = Some i"
  shows "tls_respected cfg (wi_stateful_socket i) \<and> wi_url i = u \<and> wi_stateful_socket i \<noteq> NoStream"
proof -
  have "pool_ok m" by (rule pool.run_inv[OF pool_ok_new assms(1)])
  moreover have "sm_tls_config m = cfg" using pool.run_grows[OF pool_ok_new assms(1)] by (simp add: StreamManager_new_def)
  ultimately show ?thesis using map_of_ok[OF _ assms(2)] by (simp add: info_ok_def)
qed

text \<open>
  No connection disappears unnoticed from a process call that succeeds: every connection the pool had is still tracked
  afterwards or reported closed.
\<close>

theorem lost_connections_reported:
  assumes "run_steps pool_step ops (StreamManager_new cfg) = Some m" and "sm_process (pe_lib e) (pool_fns e) (pe_now e) m = Ok (w, evs) m'"
  shows "\<forall>u\<in>set (keys (sm_stream_sockets m)). u \<in> set (keys (sm_stream_sockets m')) \<or> ConnectionClosed u \<in> set evs"
proof -
  have ok: "pool_ok m" by (rule pool.run_inv[OF pool_ok_new assms(1)])
  obtain w1 m1 m2 where a: "priv_process_accept (pool_fns e) m = Ok w1 m1"
      and p: "process_each (pe_lib e) (pe_now e) (sm_stream_sockets m1) w1 (m1\<lparr>sm_stream_sockets := []\<rparr>) = Ok w m2"
      and m': "m' = m2\<lparr>sm_event_queue := []\<rparr>" "evs = sm_event_queue m2"
    using assms(2) by (auto simp: sm_process_def priv_process_stream_sockets_def outcome_simps)
  note acc = accept_keeps[OF a ok]
  from process_each_pool(2)[OF conjunct1[OF acc] _ p] p
  have "\<forall>u\<in>set (keys (sm_stream_sockets m1)). u \<in> set (keys (sm_stream_sockets m2)) \<or> ConnectionClosed u \<in> set (sm_event_queue m2)" by simp
  moreover have "set (keys (sm_stream_sockets m)) \<subseteq> set (keys (sm_stream_sockets m1))" "sm_stream_sockets m' = sm_stream_sockets m2" using acc m' by simp_all
  ultimately show ?thesis unfolding m'(2) by (metis subsetD)
qed

text \<open>A connection on which nothing arrives.\<close>

definition silent :: "'k ws_lib \<Rightarrow> 'k WssInfo \<Rightarrow> 'k \<Rightarrow> bool" where
  "silent lib i k \<longleftrightarrow> (\<exists>k0. wi_stateful_socket i \<in> {ReadyWs k0, ReadyWss k0} \<and> wl_read_message lib k0 = (Inl IoWouldBlock, k))"

lemma silent_step:
  assumes "silent lib i k"
  shows "\<exists>mk\<in>{ReadyWs, ReadyWss}. \<forall>cfg now w q. priv_process_socket lib cfg now (w, i, q) = Ok () (w, i\<lparr>wi_stateful_socket := mk k\<rparr>, q)"
  using assms by (auto simp: silent_def priv_process_socket_def Let_def step_ready_def)


text \<open>
  When the ping of one connection cannot be written, the process call fails and the pool loses every connection it had not yet put
  back, this one and all behind it, without reporting any of them closed.
\<close>

theorem failed_ping_drops_pool:
  assumes "sm_stream_sockets m = (u, i) # rest" and "sm_event_queue m = []" and "sm_acceptor m = Inl err" and "silent lib i k"
    and "wl_write_message lib (WsPing []) k = (Some (disp, dbg), k')" and "elapsed_ms now i > DEFAULT_HEARTBEAT_MS"
  shows "\<exists>m'. sm_process lib fns now m = Err (TransportOther dbg) m' \<and> sm_stream_sockets m' = [] \<and> sm_event_queue m' = []"
proof -
  from silent_step[OF assms(4)] obtain mk where mk: "mk \<in> {ReadyWs, ReadyWss}"
    "priv_process_socket lib (sm_tls_config m) now (False, i, []) = Ok () (False, i\<lparr>wi_stateful_socket := mk k\<rparr>, [])" by blast
  have "heartbeat lib now (i\<lparr>wi_stateful_socket := mk k\<rparr>) x = Err (TransportOther dbg) x" for x :: "('a, 'b) StreamManager"
    using mk(1) assms(5,6) by (auto simp: heartbeat_def write_ready_def elapsed_ms_def)
  then show ?thesis
    using mk assms(1-3) by (auto simp: sm_process_def priv_process_stream_sockets_def priv_process_accept_def)
qed

section \<open>Witnesses\<close>

text \<open>Handshakes that succeed at once, streams that are silent; the stream 1 cannot be written.\<close>

definition demo_ws_lib :: "nat ws_lib" where
  "demo_ws_lib = \<lparr>wl_host_str = Some, wl_port = (\<lambda>_. Some 80), wl_fake_pkcs12 = [], wl_connector_builds = True, wl_tls_connect = (\<lambda>_. HsDone),
     wl_from_pkcs12 = (\<lambda>_ _. None), wl_acceptor_builds = (\<lambda>_ _. True), wl_tls_accept = (\<lambda>_ _. HsDone), wl_tls_handshake = HsDone, wl_client = (\<lambda>_. HsDone),
     wl_accept = HsDone, wl_handshake = HsDone, wl_read_message = (\<lambda>k. (Inl IoWouldBlock, k)),
     wl_write_message = (\<lambda>_ k. (if k = 1 then Some (''broken'', ''broken'') else None, k)), wl_close = Pair None, wl_write_pending = Pair None\<rparr>"

definition demo_tcp :: "(nat, unit) tcp_api" where
  "demo_tcp = \<lparr>tc_connect = (\<lambda>n _. Inr n), tc_set_nonblocking = (\<lambda>_. None), tc_listen = (\<lambda>_. Inr ()), tc_listener_set_nonblocking = (\<lambda>_. None),
     tc_accept = (\<lambda>l. (Inl (AcceptWouldBlock []), l))\<rparr>"

definition demo_pool_env :: "time \<Rightarrow> (nat, unit) pool_env" where
  "demo_pool_env now = \<lparr>pe_lib = demo_ws_lib, pe_url = \<lparr>ul_parse = Inr, ul_scheme = id, ul_path = id, ul_query_pairs = (\<lambda>_. []), ul_clear_query = id,
     ul_one_pair = (\<lambda>_. id), ul_port = (\<lambda>_. None), ul_set_port = (\<lambda>_ u. Some u), ul_set_host = (\<lambda>_ u. Some u), ul_set_scheme = (\<lambda>_ u. Some u)\<rparr>,
     pe_tcp = demo_tcp, pe_now = now, pe_dbg = (\<lambda>_. [])\<rparr>"

definition demo_ops :: "((nat, unit) pool_env \<times> pool_op) list" where
  "demo_ops = [(demo_pool_env 1, PoolConnect ''h''), (demo_pool_env 2, PoolProcess)]"

definition demo_info :: "Url \<Rightarrow> nat WebsocketStreamState \<Rightarrow> nat WssInfo" where
  "demo_info u st = \<lparr>wi_request_id = [], wi_url = u, wi_last_msg = 2, wi_stateful_socket = st\<rparr>"

definition demo_pool :: "(Lib3hUri \<times> nat WssInfo) list \<Rightarrow> (nat, unit) StreamManager" where
  "demo_pool sockets = \<lparr>sm_tls_config = FakeServer, sm_stream_sockets = sockets, sm_event_queue = [],
     sm_acceptor = Inl (TransportError_new ''acceptor not initialized''), sm_connects = 1\<rparr>"

lemmas demo_pool_simps = demo_pool_def demo_ws_lib_def demo_tcp_def demo_pool_env_def demo_info_def

lemma demo_ops_run: "run_steps pool_step demo_ops (StreamManager_new FakeServer) = Some (demo_pool [(''h'', demo_info ''h'' (TlsReady 0))])"
  by (simp add: demo_ops_def StreamManager_new_def sm_connect_def demo_pool_simps with_std_tcp_stream_def tcp_stream_factory_def Let_def WssInfo_client_def WssInfo_new_def
      put_socket_def sm_process_def priv_process_stream_sockets_def priv_process_accept_def priv_process_socket_def step_connecting_def settle_def priv_tls_handshake_def
      heartbeat_def elapsed_ms_def DEFAULT_HEARTBEAT_MS_def DEFAULT_HEARTBEAT_WAIT_MS_def)

theorem encryption_respected_witness: "tls_respected FakeServer (wi_stateful_socket (demo_info ''h'' (TlsReady 0))) \<and> wi_url (demo_info ''h'' (TlsReady 0)) = ''h''"
  using encryption_respected[OF demo_ops_run, of "''h''" "demo_info ''h'' (TlsReady 0)"] by (simp add: demo_pool_def)

lemma demo_process: "sm_process demo_ws_lib (pool_fns (demo_pool_env 3)) 3 (demo_pool [(''h'', demo_info ''h'' (TlsReady 0))]) =
   Ok (True, [ConnectResult ''h'' []]) (demo_pool [(''h'', (demo_info ''h'' (ReadyWss 0))\<lparr>wi_last_msg := 3\<rparr>)])"
  by (simp add: demo_pool_simps sm_process_def priv_process_stream_sockets_def priv_process_accept_def priv_process_socket_def settle_def priv_wss_handshake_def
      heartbeat_def elapsed_ms_def DEFAULT_HEARTBEAT_MS_def DEFAULT_HEARTBEAT_WAIT_MS_def put_socket_def)

theorem lost_connections_reported_witness:
  "''h'' \<in> set (keys (sm_stream_sockets (demo_pool [(''h'', (demo_info ''h'' (ReadyWss 0))\<lparr>wi_last_msg := 3\<rparr>)]))) \<or> ConnectionClosed ''h'' \<in> set [ConnectResult ''h'' []]"
  using lost_connections_reported[OF demo_ops_run, of "demo_pool_env 3" True "[ConnectResult ''h'' []]"] demo_process
  by (simp add: demo_pool_def demo_pool_env_def)


theorem failed_ping_drops_pool_witness:
  "\<exists>m'. sm_process demo_ws_lib (pool_fns (demo_pool_env 0)) 3000 (demo_pool [(''h'', demo_info ''h'' (ReadyWss 1)), (''g'', demo_info ''g'' (ReadyWss 0))])
      = Err (TransportOther ''broken'') m' \<and> sm_stream_sockets m' = [] \<and> sm_event_queue m' = []"
  by (rule failed_ping_drops_pool[where k = 1 and k' = 1 and i = "demo_info ''h'' (ReadyWss 1)" and disp = "''broken''"])
    (auto simp: demo_pool_simps silent_def elapsed_ms_def DEFAULT_HEARTBEAT_MS_def)

end
