(* ===== verification/Ws_Paths.thy ===== *)
theory Ws_Paths
  imports Ws_Actor Ws_Pool "HOL-Library.Multiset"
begin

text \<open>
  What the websocket transport does with the requests of its parent: none is lost, and what becomes of their order.
\<close>

section \<open>An account of requests\<close>

text \<open>The ids of the requests a transport has answered, keeps pending, and has not looked at yet.\<close>

definition msg_ids :: "'m GhostMessage list \<Rightarrow> RequestId multiset" where
  "msg_ids ms = mset (List.map_filter gm_request_id ms)"

fun answered_id :: "('req, 'resp, 'err) GhostEndpointMessage \<Rightarrow> RequestId option" where
  "answered_id (Response _ rid _) = Some rid"
| "answered_id (Request _ _ _) = None"

fun request_id_of :: "('req, 'resp, 'err) GhostEndpointMessage \<Rightarrow> RequestId option" where
  "request_id_of (Request _ rid _) = rid"
| "request_id_of (Response _ _ _) = None"

definition gtw_open :: "('k, 'l) GhostTransportWebsocket \<Rightarrow> bool" where
  "gtw_open t = (case gtw_endpoint_self t of Detach (Some ep) \<Rightarrow> snd_error (gce_sender ep) = None | Detach None \<Rightarrow> False)"

definition gtw_sent :: "('k, 'l) GhostTransportWebsocket \<Rightarrow> (RequestToParent, RequestToChildResponse, TransportError) GhostEndpointMessage list" where
  "gtw_sent t = (case gtw_endpoint_self t of Detach (Some ep) \<Rightarrow> snd_sent (gce_sender ep) | Detach None \<Rightarrow> [])"

definition account :: "('k, 'l) GhostTransportWebsocket \<Rightarrow> RequestId multiset" where
  "account t = mset (List.map_filter answered_id (gtw_sent t)) + msg_ids (gtw_pending t)"

lemma msg_ids_simps [simp]:
  "msg_ids [] = {#}" "msg_ids (m # n # ms) = msg_ids [m] + msg_ids (n # ms)" "msg_ids (ms @ ns) = msg_ids ms + msg_ids ns" "msg_ids (rev ms) = msg_ids ms"
  "msg_ids [m\<lparr>gm_message := x\<rparr>] = msg_ids [m]" "msg_ids [put_message p m] = msg_ids [m]"
  by (simp_all add: msg_ids_def map_filter_def put_message_def)

definition appended :: "(RequestToParent, RequestToChildResponse, TransportError) GhostEndpointMessage list \<Rightarrow> ('k, 'l) GhostTransportWebsocket \<Rightarrow>
    ('k, 'l) GhostTransportWebsocket" where
  "appended ms t = t\<lparr>gtw_endpoint_self := (case gtw_endpoint_self t of Detach (Some ep) \<Rightarrow> Detach (Some (append_sent ms ep)) | d \<Rightarrow> d)\<rparr>"

lemma appended_simps [simp]:
  "gtw_open (appended ms t) = gtw_open t" "gtw_open t \<Longrightarrow> gtw_sent (appended ms t) = gtw_sent t @ ms" "gtw_pending (appended ms t) = gtw_pending t"
  "gtw_streams (appended ms t) = gtw_streams t" "gtw_bound_url (appended ms t) = gtw_bound_url t" "gtw_mdns (appended ms t) = gtw_mdns t"
  "appended ms (appended ns t) = appended (ns @ ms) t" "appended [] t = t"
  by (auto simp: appended_def gtw_open_def gtw_sent_def append_sent_def split: Detach.splits option.splits)

lemma open_frame [simp]:
  "gtw_open (t\<lparr>gtw_streams := m\<rparr>) = gtw_open t" "gtw_open (t\<lparr>gtw_pending := p\<rparr>) = gtw_open t" "gtw_open (t\<lparr>gtw_bound_url := u\<rparr>) = gtw_open t"
  "gtw_open (t\<lparr>gtw_mdns := d\<rparr>) = gtw_open t" "gtw_sent (t\<lparr>gtw_streams := m\<rparr>) = gtw_sent t" "gtw_sent (t\<lparr>gtw_pending := p\<rparr>) = gtw_sent t"
  "gtw_sent (t\<lparr>gtw_bound_url := u\<rparr>) = gtw_sent t" "gtw_sent (t\<lparr>gtw_mdns := d\<rparr>) = gtw_sent t"
  by (simp_all add: gtw_open_def gtw_sent_def)

lemma account_frame [simp]:
  "account (t\<lparr>gtw_streams := m\<rparr>) = account t" "account (t\<lparr>gtw_bound_url := u\<rparr>) = account t" "account (t\<lparr>gtw_mdns := d\<rparr>) = account t"
  "account (keep_pending msg t) = account t + msg_ids [msg]" "gtw_open (keep_pending msg t) = gtw_open t"
  by (simp_all add: account_def keep_pending_def)

lemma publish_on_open: "gtw_open t \<Longrightarrow> gtw_publish env p t = Ok () (appended [Request (wse_bt env) None p] t)"
  by (auto simp: gtw_publish_def gtw_on_endpoint_def gtw_open_def detach_deref_mut_def publish_open appended_def split: Detach.splits option.splits)

lemma respond_on_open: "gtw_open t \<Longrightarrow> gm_request_id msg = Some rid \<Longrightarrow> gtw_respond env msg p t = Ok () (appended [Response (wse_bt env) rid p] t)"
  by (auto simp: gtw_respond_def gtw_on_endpoint_def gtw_open_def detach_deref_mut_def GhostMessage_respond_def chan_send_def append_sent_def appended_def
      split: Detach.splits option.splits)

text \<open>
  Responding settles one request; to an event it does nothing, or panics.
\<close>

lemma respond_settles:
  assumes "gtw_open t" and "final_state (gtw_respond env msg p t) = Some t'"
  shows "gtw_open t' \<and> account t' = account t + msg_ids [msg]"
proof (cases "gm_request_id msg")
  case None
  then have "t' = t" using assms
    by (auto simp: gtw_respond_def gtw_on_endpoint_def gtw_open_def detach_deref_mut_def GhostMessage_respond_def split: Detach.splits option.splits sum.splits)
  then show ?thesis using assms(1) None by (simp add: msg_ids_def map_filter_def)
next
  case (Some rid)
  with assms respond_on_open[OF assms(1) Some, of env p] have "t' = appended [Response (wse_bt env) rid p] t" by simp
  then show ?thesis using assms(1) Some by (simp add: account_def msg_ids_def map_filter_def)
qed

lemma final_ignore_err [simp]: "final_state (ignore_err r) = final_state r"
  by (cases r) auto

lemma msg_ids_Cons: "msg_ids (m # ms) = msg_ids [m] + msg_ids ms"
  by (cases ms) simp_all

text \<open>\<open>settles ids t r\<close>: when \<open>r\<close>, a part of the transport run in state \<open>t\<close>, returns normally, the requests \<open>ids\<close> have been taken care of.\<close>

definition settles :: "RequestId multiset \<Rightarrow> ('k, 'l) GhostTransportWebsocket \<Rightarrow> ('k, 'l, 'e, 'a) wst_result \<Rightarrow> bool" where
  "settles ids t r \<longleftrightarrow> (\<forall>v t'. r = Ok v t' \<longrightarrow> gtw_open t' \<and> account t' = account t + ids)"

named_theorems settles_intros \<open>requests are settled\<close>

lemma settles_simps [settles_intros]: "settles ids t (Panic m)" "settles ids t (Err e u)"
  by (simp_all add: settles_def)

lemma settles_bind: "settles A t r \<Longrightarrow> (\<And>v s. gtw_open s \<Longrightarrow> r = Ok v s \<Longrightarrow> settles B s (f v s)) \<Longrightarrow> settles (A + B) t (bind_ok r f)"
  by (cases r) (auto simp: settles_def ac_simps)

lemma settles_map_err [settles_intros]: "settles ids t r \<Longrightarrow> settles ids t (map_err f r)"
  by (cases r) (simp_all add: settles_def)

lemma settles_to_ghost [settles_intros]: "settles ids t r \<Longrightarrow> settles ids t (transport_to_ghost r)"
  by (cases r) (simp_all add: settles_def split: option.splits)

lemma lift_state_eq_Err: "lift_state put r = Err e t \<longleftrightarrow> (\<exists>s. r = Err e s \<and> t = put s)"
  by (cases r) auto

lemma settles_respond [settles_intros]:
  assumes "gtw_open t"
  shows "settles (msg_ids [m]) t (gtw_respond env m p t)" "settles (msg_ids [m]) t (ignore_err (gtw_respond env m p t))"
proof -
  show "settles (msg_ids [m]) t (gtw_respond env m p t)" using respond_settles[OF assms, of env m p] by (auto simp: settles_def)
  show "settles (msg_ids [m]) t (ignore_err (gtw_respond env m p t))"
    using respond_settles[OF assms, of env m p] by (cases "gtw_respond env m p t") (auto simp: settles_def)
qed

text \<open>
  The pool can change as it likes.
\<close>

lemma settles_streams:
  assumes "gtw_open t" and "\<And>v q. f (gtw_streams t) = Ok v q \<Longrightarrow> settles ids (t\<lparr>gtw_streams := q\<rparr>) (g v (t\<lparr>gtw_streams := q\<rparr>))"
    and "\<And>e q. f (gtw_streams t) = Err e q \<Longrightarrow> settles ids (t\<lparr>gtw_streams := q\<rparr>) (h e (t\<lparr>gtw_streams := q\<rparr>))"
  shows "settles ids t (case on_streams f t of Ok v s \<Rightarrow> g v s | Err e s \<Rightarrow> h e s | Panic m \<Rightarrow> Panic m)"
  using assms by (cases "f (gtw_streams t)") (auto simp: on_streams_def settles_def)

text \<open>
  What \<open>handle_send_message\<close> does not settle it hands back.
\<close>

lemma handle_send_settles:
  assumes "gtw_open t"
  shows "settles (msg_ids [m]) t (handle_send_message env m t)"
    and "handle_send_message env m t = Err m' t' \<Longrightarrow> gtw_open t' \<and> account t' = account t \<and> msg_ids [m'] = msg_ids [m]"
proof -
  obtain x m1 where m1: "take_message m = (x, m1)" by (cases "take_message m")
  have ids: "msg_ids [m] = msg_ids [m1]" using m1 by (auto simp: take_message_def)
  show "settles (msg_ids [m]) t (handle_send_message env m t)"
    using assms unfolding handle_send_message_def m1 ids
    by (auto split: option.splits RequestToChild.splits intro!: settles_streams settles_intros)
  have ne: "ignore_err z \<noteq> Err m' u" for z :: "('a, 'b, TransportError, unit) wst_result" and u by (cases z) auto
  assume "handle_send_message env m t = Err m' t'"
  then show "gtw_open t' \<and> account t' = account t \<and> msg_ids [m'] = msg_ids [m]"
    using ne assms ids
    by (auto simp: handle_send_message_def m1 on_streams_def lift_state_eq_Err split: option.splits RequestToChild.splits outcome.splits)
qed

lemma settles_kept [settles_intros]: "gtw_open t \<Longrightarrow> settles (msg_ids [m]) t (Ok v (keep_pending m t))"
  by (simp add: settles_def)

lemma send_or_keep:
  assumes "gtw_open t"
  shows "settles (msg_ids [m]) t (case handle_send_message env m t of Ok _ t \<Rightarrow> Ok () t | Err msg t \<Rightarrow> Ok () (keep_pending msg t) | Panic m \<Rightarrow> Panic m)"
proof (cases "handle_send_message env m t")
  case (Ok v t1)
  then show ?thesis using handle_send_settles(1)[OF assms, of m env] by (simp add: settles_def)
next
  case (Err m1 t1)
  then show ?thesis using handle_send_settles(2)[OF assms Err] by (simp add: settles_def)
qed (simp add: settles_def)

lemma gtw_send_settles [settles_intros]:
  assumes "gtw_open t"
  shows "settles (msg_ids [m]) t (gtw_send env m uri payload t)"
proof -
  let ?again = "put_message (create_send_message uri payload) m"
  have ids: "msg_ids [m] = msg_ids [?again]" by simp
  have kept: "settles (msg_ids [?again]) t (case on_streams f t of Ok v t \<Rightarrow> Ok () (keep_pending ?again t) | Err e t \<Rightarrow> Ok () (keep_pending ?again t) | Panic m \<Rightarrow> Panic m)"
    for f :: "('a, 'b) StreamManager \<Rightarrow> ('a, 'b, unit) stream_result"
    using assms by (intro settles_streams settles_intros) simp_all
  have ready: "settles (msg_ids [?again]) t (case handle_send_message env ?again t of Ok _ t \<Rightarrow> Ok () t | Err msg t \<Rightarrow> Ok () (keep_pending msg t) | Panic m \<Rightarrow> Panic m)"
    by (rule send_or_keep[OF assms])
  have init: "settles (msg_ids [?again]) t (Ok () (keep_pending ?again t))" by (rule settles_kept[OF assms])
  show ?thesis
  proof (cases "gtw_bound_url t = None")
    case True
    then show ?thesis using settles_respond(1)[OF assms] by (simp add: gtw_send_def)
  next
    case False
    then obtain my where "gtw_bound_url t = Some my" by auto
    then show ?thesis unfolding gtw_send_def Let_def ids using kept[of "sm_connect (wse_lib env) (wst_fns env) (wse_instant env) uri"] ready init
      by (cases "connection_status uri (gtw_streams t)") (simp_all cong: outcome.case_cong)
  qed
qed

lemma settles_advertise [settles_intros]: "gtw_open t \<Longrightarrow> settles {#} t (gtw_advertise env t)"
  by (auto simp: settles_def gtw_advertise_def on_mdns_def outcome_simps split: option.splits outcome.splits)

lemma gtw_bind_settles [settles_intros]:
  assumes "gtw_open t"
  shows "settles (msg_ids [m]) t (gtw_bind env m spec t)"
proof -
  have "settles (msg_ids [m]) t (case on_streams (sm_bind (wst_fns env) spec) t of Ok bound t \<Rightarrow>
          bind_ok (gtw_respond env m (Inr (BindResponse \<lparr>bound_url = bound\<rparr>)) t) (\<lambda>_ t.
          map_err (\<lambda>e. TransportOther (discovery_text e)) (gtw_advertise env (t\<lparr>gtw_bound_url := Some bound\<rparr>)))
        | Err e t \<Rightarrow> gtw_respond env m (Inl e) t | Panic m \<Rightarrow> Panic m)"
  proof (rule settles_streams[OF assms])
    fix bound q
    let ?f = "\<lambda>_ t. map_err (\<lambda>e. TransportOther (discovery_text e)) (gtw_advertise env (t\<lparr>gtw_bound_url := Some bound\<rparr>))"
    have "settles {#} s (?f v s)" if "gtw_open s" for v s
      using settles_map_err[where f = "\<lambda>e. TransportOther (discovery_text e)", OF settles_advertise[of "s\<lparr>gtw_bound_url := Some bound\<rparr>" env]] that by (simp add: settles_def)
    then show "settles (msg_ids [m]) (t\<lparr>gtw_streams := q\<rparr>) (bind_ok (gtw_respond env m (Inr (BindResponse \<lparr>bound_url = bound\<rparr>)) (t\<lparr>gtw_streams := q\<rparr>)) ?f)"
      using settles_bind[where f = ?f and B = "{#}", OF settles_respond(1)[where t = "t\<lparr>gtw_streams := q\<rparr>"]] assms by simp
  qed (use assms in \<open>auto intro: settles_intros\<close>)
  then show ?thesis by (simp add: gtw_bind_def cong: outcome.case_cong)
qed

lemma inbox_message_settles:
  assumes "gtw_open t"
  shows "settles (msg_ids [m]) t (handle_inbox_message env m t)"
proof -
  obtain x m1 where m1: "take_message m = (x, m1)" by (cases "take_message m")
  have ids: "msg_ids [m] = msg_ids [m1]" using m1 by (auto simp: take_message_def)
  show ?thesis unfolding handle_inbox_message_def m1 ids
    using assms by (auto split: option.splits RequestToChild.splits intro: settles_intros)
qed

lemma settles_for_each:
  assumes "\<And>x s. gtw_open s \<Longrightarrow> settles (ids x) s (body x s)" and "gtw_open t"
  shows "settles (\<Sum>\<^sub># (image_mset ids (mset xs))) t (for_each body xs t)"
  using assms(2)
proof (induction xs arbitrary: t)
  case Nil
  then show ?case by (simp add: settles_def)
next
  case (Cons x xs)
  then show ?case using settles_bind[OF assms(1)[OF Cons.prems, of x], of _ "\<lambda>_. for_each body xs"] by simp
qed

lemma msg_ids_sum: "\<Sum>\<^sub># (image_mset (\<lambda>m. msg_ids [m]) (mset ms)) = msg_ids ms"
proof (induction ms)
  case (Cons m ms)
  then show ?case by (simp add: msg_ids_Cons[of m ms])
qed simp

lemma events_settle:
  assumes "gtw_open t"
  shows "settles {#} t (process_stream_events env evs t)"
proof -
  have one: "settles {#} s (handle_stream_event env ev s)" if "gtw_open s" for ev s
    using that by (cases ev) (simp_all add: handle_stream_event_def settles_def publish_on_open account_def map_filter_def)
  have "\<Sum>\<^sub># (image_mset (\<lambda>_. {#}) (mset evs)) = ({#} :: RequestId multiset)" by (induction evs) simp_all
  then show ?thesis
    using settles_for_each[where ids = "\<lambda>_. {#}" and body = "handle_stream_event env", OF one assms] by (simp add: process_stream_events_def)
qed

lemma pending_loop_settles:
  assumes "gtw_open t" and "pending_loop env msgs temp t = Ok temp' t'"
  shows "gtw_open t' \<and> account t' + msg_ids temp' = account t + msg_ids msgs + msg_ids temp"
  using assms
proof (induction msgs arbitrary: temp t)
  case (Cons m msgs)
  obtain uri payload m1 where m1: "take_message m = (Some (SendMessage uri payload), m1)"
    using Cons.prems(2) by (cases "take_message m") (auto split: option.splits RequestToChild.splits)
  let ?again = "put_message (create_send_message uri payload) m1"
  have ids: "msg_ids (m # msgs) = msg_ids [?again] + msg_ids msgs" using m1 by (auto simp: msg_ids_Cons[of m msgs] take_message_def)
  show ?case
  proof (cases "connection_status uri (gtw_streams t) = CsReady")
    case True
    then have loop: "(case handle_send_message env ?again t of Ok _ t \<Rightarrow> pending_loop env msgs temp t
        | Err msg t \<Rightarrow> pending_loop env msgs (temp @ [msg]) t | Panic m \<Rightarrow> Panic m) = Ok temp' t'"
      using Cons.prems(2) by (simp add: m1 Let_def)
    show ?thesis
    proof (cases "handle_send_message env ?again t")
      case (Ok v t1)
      then show ?thesis using Cons.IH[of t1 temp] loop handle_send_settles(1)[OF Cons.prems(1), of ?again env]
        by (auto simp: settles_def ids ac_simps)
    next
      case (Err m2 t1)
      then show ?thesis using Cons.IH[of t1 "temp @ [m2]"] loop handle_send_settles(2)[OF Cons.prems(1) Err]
        by (auto simp: ids ac_simps)
    qed (use loop in simp)
  next
    case False
    then have "pending_loop env msgs (temp @ [?again]) t = Ok temp' t'" using Cons.prems(2) by (simp add: m1 Let_def)
    from Cons.IH[OF Cons.prems(1) this] show ?thesis by (simp add: ids ac_simps)
  qed
qed simp

text \<open>
  Sending leaves \<open>pending\<close> to its caller.
\<close>

lemma respond_pending: "final_state (gtw_respond env m p t) = Some t' \<Longrightarrow> gtw_pending t' = gtw_pending t"
  by (auto simp: gtw_respond_def gtw_on_endpoint_def detach_deref_mut_def final_state_lift_state split: Detach.splits option.splits)

lemma handle_send_pending: "final_state (handle_send_message env m t) = Some t' \<Longrightarrow> gtw_pending t' = gtw_pending t"
  by (auto simp: handle_send_message_def on_streams_def lift_state_eq_Ok lift_state_eq_Err split: prod.splits option.splits RequestToChild.splits outcome.splits
      dest!: respond_pending)

lemma pending_loop_pending: "pending_loop env msgs temp t = Ok temp' t' \<Longrightarrow> gtw_pending t' = gtw_pending t"
proof (induction msgs arbitrary: temp t)
  case (Cons m msgs)
  have keep: "gtw_pending t1 = gtw_pending t" if "final_state (handle_send_message env m' t) = Some t1" for m' t1 by (rule handle_send_pending[OF that])
  show ?case using Cons
    by (auto simp: Let_def split: prod.splits option.splits RequestToChild.splits if_splits outcome.splits dest!: arg_cong[of "handle_send_message _ _ _" _ final_state] keep)
qed simp

lemma pending_settles:
  assumes "gtw_open t"
  shows "settles {#} t (process_pending_messages env t)"
proof -
  have split: "account u = account (u\<lparr>gtw_pending := []\<rparr>) + msg_ids (gtw_pending u)" for u :: "('a, 'b) GhostTransportWebsocket" by (simp add: account_def)
  show ?thesis unfolding settles_def process_pending_messages_def
  proof (intro allI impI)
    fix v t'
    assume "bind_ok (pending_loop env (rev (gtw_pending t)) [] (t\<lparr>gtw_pending := []\<rparr>)) (\<lambda>temp t. Ok () (t\<lparr>gtw_pending := temp\<rparr>)) = Ok v t'"
    then obtain temp t1 where l: "pending_loop env (rev (gtw_pending t)) [] (t\<lparr>gtw_pending := []\<rparr>) = Ok temp t1" and t': "t' = t1\<lparr>gtw_pending := temp\<rparr>"
      by (auto simp: outcome_simps)
    have "gtw_open t1 \<and> account t1 + msg_ids temp = account (t\<lparr>gtw_pending := []\<rparr>) + msg_ids (gtw_pending t)"
      using pending_loop_settles[OF _ l] assms by simp
    moreover have "account t1 = account (t1\<lparr>gtw_pending := []\<rparr>)" using pending_loop_pending[OF l] split[of t1] by simp
    ultimately show "gtw_open t' \<and> account t' = account t + {#}" unfolding t' using split[of t] split[of "t1\<lparr>gtw_pending := temp\<rparr>"] by simp
  qed
qed

section \<open>No request is lost\<close>

interpretation gtw_same: callback_contract gtw_no_callback "\<lambda>u. u = u0" for u0
  by unfold_locales (simp add: gtw_no_callback_def)

lemma requests_of_ids: "msg_ids (requests_of ms) = mset (List.map_filter request_id_of ms)"
proof (induction ms)
  case (Cons m ms)
  then show ?case
  proof (cases m)
    case (Request bt rid p)
    then show ?thesis using Cons by (cases rid) (simp_all add: msg_ids_Cons[of "GhostMessage_new bt rid p"] msg_ids_def map_filter_def GhostMessage_new_def)
  qed (simp add: map_filter_def)
qed (simp add: map_filter_def)

lemma endpoint_hands_over:
  assumes "endpoint_process rid_msg gtw_no_callback now (ep, ud) = Ok w (ep', ud')"
  shows "gce_outbox ep' = gce_outbox ep @ requests_of (rcv_incoming (gce_receiver ep)) \<and> gce_sender ep' = gce_sender ep \<and> ud' = ud"
proof -
  from assms obtain w1 ep1 ud1 where t: "with_tracker (GhostTracker_process gtw_no_callback now) (ep, ud) = Ok w1 (ep1, ud1)"
    and l: "process_loop rid_msg gtw_no_callback (rcv_incoming (gce_receiver ep1)) w1 (ep1, ud1) = Ok w (ep', ud')"
    by (auto simp: endpoint_process_def outcome_simps)
  have "(ud', gce_sender ep') = (ud, gce_sender ep)"
    using gtw_same.endpoint_process_keeps[OF refl, of rid_msg now ep ud ep' ud'] assms by simp
  with with_tracker_frame_Ok[OF t] process_loop_frame[OF l refl] show ?thesis by simp
qed

text \<open>
  C8: Every request the parent makes of a websocket transport is taken care of exactly once: after a process call that succeeds, the
  requests answered so far together with the sends still pending are those of before and the requests that have arrived, each as often as it was
  made, whatever the connections and the multicast DNS did meanwhile.
\<close>

theorem sends_never_lost:
  assumes ep: "gtw_endpoint_self t = Detach (Some ep)" "snd_error (gce_sender ep) = None" "gce_outbox ep = []"
    and run: "gtw_process_concrete env t = Ok w t'"
  shows "account t' = account t + mset (List.map_filter request_id_of (rcv_incoming (gce_receiver ep)))"
proof -
  let ?new = "mset (List.map_filter request_id_of (rcv_incoming (gce_receiver ep)))"
  obtain v t1 where p: "detach_run gtw_endpoint_self (\<lambda>ep t. t\<lparr>gtw_endpoint_self := ep\<rparr>) (endpoint_process (wse_rid_msg env) gtw_no_callback (wse_now env)) t = Ok v t1"
    using run by (auto simp: gtw_process_concrete_def outcome_simps)
  then obtain ep1 ud where e: "endpoint_process (wse_rid_msg env) gtw_no_callback (wse_now env) (ep, t\<lparr>gtw_endpoint_self := Detach None\<rparr>) = Ok v (ep1, ud)"
      and t1: "t1 = ud\<lparr>gtw_endpoint_self := Detach (Some ep1)\<rparr>"
    by (auto simp: detach_run_attached[of gtw_endpoint_self, OF ep(1)] outcome_simps)
  from endpoint_hands_over[OF e] have h: "gce_outbox ep1 = requests_of (rcv_incoming (gce_receiver ep))" "gce_sender ep1 = gce_sender ep"
      and t1: "t1 = t\<lparr>gtw_endpoint_self := Detach (Some ep1)\<rparr>" using ep(3) t1 by simp_all
  let ?t2 = "t1\<lparr>gtw_endpoint_self := Detach (Some (ep1\<lparr>gce_outbox := []\<rparr>))\<rparr>"
  have t2: "gtw_open ?t2" "account ?t2 = account t" using h(2) ep by (simp_all add: t1 gtw_open_def account_def gtw_sent_def)
  have inbox: "process_actor_inbox env t1 = for_each (handle_inbox_message env) (requests_of (rcv_incoming (gce_receiver ep))) ?t2"
    by (simp add: process_actor_inbox_def gtw_on_endpoint_def detach_deref_mut_def t1 drain_messages_def h(1))
  have "settles (msg_ids (requests_of (rcv_incoming (gce_receiver ep)))) ?t2 (process_actor_inbox env t1)"
    unfolding inbox using settles_for_each[where ids = "\<lambda>m. msg_ids [m]", OF inbox_message_settles t2(1)] by (simp add: msg_ids_sum)
  then have i: "settles ?new ?t2 (transport_to_ghost (process_actor_inbox env t1))" unfolding requests_of_ids by (rule settles_to_ghost)
  have rest: "settles {#} s (case gtw_bound_url s of None \<Rightarrow> Ok False s | Some _ \<Rightarrow>
         bind_ok (transport_to_ghost (on_streams (sm_process (wse_lib env) (wst_fns env) (wse_instant env)) s)) (\<lambda>(did_work, stream_events) t.
         bind_ok (transport_to_ghost (process_stream_events env stream_events t)) (\<lambda>_ t.
         bind_ok (transport_to_ghost (process_pending_messages env t)) (\<lambda>_. Ok did_work))))" if s: "gtw_open s" for s
  proof -
    have a: "settles {#} s (transport_to_ghost (on_streams (sm_process (wse_lib env) (wst_fns env) (wse_instant env)) s))"
      using s by (intro settles_to_ghost) (auto simp: settles_def on_streams_def outcome_simps)
    have c: "settles {#} u (bind_ok (transport_to_ghost (process_pending_messages env u)) (\<lambda>_. Ok dw))" if "gtw_open u" for u and dw :: bool
      using settles_bind[of "{#}" u _ "{#}" "\<lambda>_. Ok dw", OF settles_to_ghost[OF pending_settles[OF that]]] by (simp add: settles_def)
    have b: "settles {#} u (bind_ok (transport_to_ghost (process_stream_events env evs u)) (\<lambda>_ t. bind_ok (transport_to_ghost (process_pending_messages env t)) (\<lambda>_. Ok dw)))"
      if "gtw_open u" for u evs and dw :: bool
      using settles_bind[of "{#}" u _ "{#}", OF settles_to_ghost[OF events_settle[OF that]] c] by simp
    have d: "settles ({#} + {#}) s (bind_ok (transport_to_ghost (on_streams (sm_process (wse_lib env) (wst_fns env) (wse_instant env)) s)) (\<lambda>(did_work, stream_events) t.
         bind_ok (transport_to_ghost (process_stream_events env stream_events t)) (\<lambda>_ t.
         bind_ok (transport_to_ghost (process_pending_messages env t)) (\<lambda>_. Ok did_work))))"
      by (rule settles_bind[OF a]) (use b in \<open>simp split: prod.splits\<close>)
    have "settles {#} s (Ok False s)" using s by (simp add: settles_def)
    with d show ?thesis by (cases "gtw_bound_url s") simp_all
  qed
  have "settles (?new + {#}) ?t2 (gtw_process_concrete env t)" unfolding gtw_process_concrete_def p bind_ok.simps by (rule settles_bind[OF i rest])
  then show ?thesis using run t2(2) by (simp add: settles_def)
qed

section \<open>The order of sends\<close>

definition send_request :: "Backtwrap \<Rightarrow> Lib3hUri \<Rightarrow> RequestId \<times> Opaque \<Rightarrow> ToChildMessage" where
  "send_request bt u r = GhostMessage_new_request bt (fst r) (SendMessage u (snd r))"

definition written :: "'k ws_lib \<Rightarrow> (RequestId \<times> Opaque) list \<Rightarrow> 'k \<Rightarrow> 'k" where
  "written lib rs k = fold (\<lambda>r k. snd (wl_write_message lib (WsBinary (snd r)) k)) rs k"

lemma send_request_simps:
  "take_message (send_request bt u r) = (Some (SendMessage u (snd r)), (send_request bt u r)\<lparr>gm_message := None\<rparr>)"
  "put_message (SendMessage u (snd r)) ((send_request bt u r)\<lparr>gm_message := None\<rparr>) = send_request bt u r"
  "gm_request_id (send_request bt u r) = Some (fst r)"
  by (simp_all add: send_request_def GhostMessage_new_request_def GhostMessage_new_def take_message_def put_message_def)

lemma waiting_loop:
  "connection_status u (gtw_streams t) \<noteq> CsReady \<Longrightarrow> pending_loop env (map (send_request bt u) rs) temp t = Ok (temp @ map (send_request bt u) rs) t"
  by (induction rs arbitrary: temp) (simp_all add: send_request_simps create_send_message_def)

text \<open>One write on a ready connection.\<close>

definition ready_at :: "Lib3hUri \<Rightarrow> 'k WssInfo \<Rightarrow> 'k \<Rightarrow> ('k, 'l) StreamManager \<Rightarrow> bool" where
  "ready_at u i k m \<longleftrightarrow> map_of (sm_stream_sockets m) u = Some (i\<lparr>wi_stateful_socket := ReadyWs k\<rparr>)"

lemma ready_status: "ready_at u i k m \<Longrightarrow> connection_status u m = CsReady"
  by (simp add: ready_at_def connection_status_def)

lemma send_ready:
  assumes "ready_at u i k m" and "wl_write_message lib (WsBinary p) k = (None, k')"
  shows "\<exists>m'. sm_send lib u p m = Ok () m' \<and> ready_at u i k' m'"
  using assms by (simp add: sm_send_def ready_at_def write_ready_def Let_def put_socket_def update_conv')

lemma ready_loop:
  assumes "\<And>p k. fst (wl_write_message (wse_lib env) (WsBinary p) k) = None" and "gtw_bound_url t = Some b" and "gtw_open t"
    and "ready_at u i k (gtw_streams t)"
  shows "\<exists>m. pending_loop env (map (send_request bt u) rs) temp t =
      Ok temp (appended (map (\<lambda>r. Response (wse_bt env) (fst r) (Inr SendMessageSuccess)) rs) (t\<lparr>gtw_streams := m\<rparr>)) \<and> ready_at u i (written (wse_lib env) rs k) m"
  using assms(2-4)
proof (induction rs arbitrary: t k)
  case Nil
  then show ?case by (intro exI[of _ "gtw_streams t"]) (simp add: written_def)
next
  case (Cons r rs)
  obtain k' where w: "wl_write_message (wse_lib env) (WsBinary (snd r)) k = (None, k')"
    using assms(1)[of "snd r" k] by (cases "wl_write_message (wse_lib env) (WsBinary (snd r)) k") simp
  obtain m where m: "sm_send (wse_lib env) u (snd r) (gtw_streams t) = Ok () m" "ready_at u i k' m" using send_ready[OF Cons.prems(3) w] by blast
  let ?t = "appended [Response (wse_bt env) (fst r) (Inr SendMessageSuccess)] (t\<lparr>gtw_streams := m\<rparr>)"
  have "handle_send_message env (send_request bt u r) t = Ok () ?t"
    using Cons.prems(1,2) m(1) respond_on_open[of "t\<lparr>gtw_streams := m\<rparr>" "(send_request bt u r)\<lparr>gm_message := None\<rparr>" "fst r" env "Inr SendMessageSuccess"]
    by (simp add: handle_send_message_def send_request_simps on_streams_def)
  then have step: "pending_loop env (map (send_request bt u) (r # rs)) temp t = pending_loop env (map (send_request bt u) rs) temp ?t"
    using ready_status[OF Cons.prems(3)] by (simp add: send_request_simps create_send_message_def)
  obtain m' where "pending_loop env (map (send_request bt u) rs) temp ?t =
      Ok temp (appended (map (\<lambda>r. Response (wse_bt env) (fst r) (Inr SendMessageSuccess)) rs) (?t\<lparr>gtw_streams := m'\<rparr>))" "ready_at u i (written (wse_lib env) rs k') m'"
    using Cons.IH[of ?t k'] Cons.prems(1,2) m(2) by auto
  moreover have "appended ms (?t\<lparr>gtw_streams := m'\<rparr>) = appended (Response (wse_bt env) (fst r) (Inr SendMessageSuccess) # ms) (t\<lparr>gtw_streams := m'\<rparr>)" for ms
    by (simp add: appended_def append_sent_def split: Detach.splits option.splits)
  ultimately show ?case unfolding step using w by (intro exI[of _ m']) (simp add: written_def)
qed

text \<open>
  C33: Sends that have to wait for their connection change their order. Each process call in which the connection is still being set up
  reverses the waiting messages, and when it is ready the messages are written to it, and answered, last one first: whether two messages arrive in the
  order in which they were sent depends on how many process calls the handshake took.
\<close>

theorem pending_sends_reversed:
  assumes "gtw_pending t = map (send_request bt u) reqs" and "gtw_bound_url t = Some b" and "gtw_open t"
    and "\<And>p k. fst (wl_write_message (wse_lib env) (WsBinary p) k) = None"
  shows "(connection_status u (gtw_streams t) = CsInitializing \<longrightarrow> process_pending_messages env t = Ok () (t\<lparr>gtw_pending := rev (gtw_pending t)\<rparr>))
    \<and> (ready_at u i k (gtw_streams t) \<longrightarrow> (\<exists>t'. process_pending_messages env t = Ok () t' \<and> gtw_pending t' = [] \<and> ready_at u i (written (wse_lib env) (rev reqs) k) (gtw_streams t')
        \<and> gtw_sent t' = gtw_sent t @ map (\<lambda>r. Response (wse_bt env) (fst r) (Inr SendMessageSuccess)) (rev reqs)))"
proof (intro conjI impI)
  have rev: "rev (gtw_pending t) = map (send_request bt u) (rev reqs)" by (simp add: assms(1) rev_map)
  { assume "connection_status u (gtw_streams t) = CsInitializing"
    then show "process_pending_messages env t = Ok () (t\<lparr>gtw_pending := rev (gtw_pending t)\<rparr>)"
      unfolding process_pending_messages_def rev using waiting_loop[of u "t\<lparr>gtw_pending := []\<rparr>" env bt "rev reqs" "[]"] by simp
  }
  assume "ready_at u i k (gtw_streams t)"
  then show "\<exists>t'. process_pending_messages env t = Ok () t' \<and> gtw_pending t' = [] \<and> ready_at u i (written (wse_lib env) (rev reqs) k) (gtw_streams t')
      \<and> gtw_sent t' = gtw_sent t @ map (\<lambda>r. Response (wse_bt env) (fst r) (Inr SendMessageSuccess)) (rev reqs)"
    unfolding process_pending_messages_def rev using ready_loop[of env "t\<lparr>gtw_pending := []\<rparr>" b u i k bt "rev reqs" "[]"] assms(2-4) by fastforce
qed

section \<open>The first send to a node\<close>

text \<open>Nobody is connecting to the bound port.\<close>

definition nobody_calls :: "('k, 'l) wst_env \<Rightarrow> ('k, 'l) StreamManager \<Rightarrow> bool" where
  "nobody_calls env m \<longleftrightarrow> (\<exists>l d. sm_acceptor m = Inr l \<and> tc_accept (wse_tcp env) l = (Inl (AcceptWouldBlock d), l))"

text \<open>A node that can be reached: the socket connects, the websocket handshake ends with the stream \<open>k\<close>.\<close>

definition reachable_node :: "('k, 'l) wst_env \<Rightarrow> nat \<Rightarrow> Lib3hUri \<Rightarrow> 'k \<Rightarrow> bool" where
  "reachable_node env n u k \<longleftrightarrow> (\<exists>host port k0. wl_host_str (wse_lib env) u = Some host \<and> wl_port (wse_lib env) u = Some port
     \<and> tc_connect (wse_tcp env) n (host @ '':'' @ decimal (unat port)) = Inr k0 \<and> tc_set_nonblocking (wse_tcp env) k0 = None \<and> wl_client (wse_lib env) u k0 = HsDone k)"

lemma accept_nobody: "nobody_calls env m \<Longrightarrow> priv_process_accept (wst_fns env) m = Ok False m"
  by (auto simp: nobody_calls_def priv_process_accept_def with_std_tcp_stream_def tcp_accept_def is_ignorable_def)

lemma connect_reachable:
  assumes "reachable_node env (sm_connects m) u k" and "sm_stream_sockets m = []"
  shows "\<exists>k0. sm_connect (wse_lib env) (wst_fns env) (wse_instant env) u m =
      Ok () (m\<lparr>sm_connects := Suc (sm_connects m), sm_stream_sockets := [(u, WssInfo_client (wse_instant env) u k0)]\<rparr>) \<and> wl_client (wse_lib env) u k0 = HsDone k"
  using assms by (auto simp: reachable_node_def sm_connect_def with_std_tcp_stream_def tcp_stream_factory_def put_socket_def)

lemma handshake_at_once:
  assumes "sm_tls_config m = Unencrypted" and "sm_stream_sockets m = [(u, WssInfo_client now u k0)]" and "wl_client lib u k0 = HsDone k"
    and "sm_event_queue m = []" and "priv_process_accept fns m = Ok False m"
  shows "\<exists>i m'. sm_process lib fns now m = Ok (True, [ConnectResult u []]) m' \<and> ready_at u i k m'"
  using assms
  by (simp add: sm_process_def priv_process_stream_sockets_def WssInfo_client_def WssInfo_new_def priv_process_socket_def step_connecting_def settle_def priv_ws_handshake_def
      heartbeat_def elapsed_ms_def put_socket_def ready_at_def)
    (rule exI[of _ "\<lparr>wi_request_id = [], wi_url = u, wi_last_msg = now, wi_stateful_socket = NoStream\<rparr>"], simp)

lemma first_send_run:
  assumes ep: "gtw_endpoint_self t = Detach (Some ep)" "snd_error (gce_sender ep) = None" "gce_outbox ep = []" "gt_expired (wse_now env) (gce_tracker ep) = []"
      "\<not> rcv_disconnected (gce_receiver ep)" "rcv_incoming (gce_receiver ep) = [Request bt (Some rid) (SendMessage u payload)]"
    and t: "gtw_bound_url t = Some b" "gtw_pending t = []"
    and pool: "sm_tls_config (gtw_streams t) = Unencrypted" "sm_stream_sockets (gtw_streams t) = []" "sm_event_queue (gtw_streams t) = []" "nobody_calls env (gtw_streams t)"
    and node: "reachable_node env (sm_connects (gtw_streams t)) u k" "\<And>p k. fst (wl_write_message (wse_lib env) (WsBinary p) k) = None"
  shows "\<exists>i t'. gtw_process_concrete env t = Ok True t' \<and> gtw_sent t' = gtw_sent t @ [Response (wse_bt env) rid (Inr SendMessageSuccess)]
    \<and> gtw_pending t' = [] \<and> ready_at u i (written (wse_lib env) [(rid, payload)] k) (gtw_streams t')"
proof -
  let ?msg = "send_request bt u (rid, payload)" and ?ep = "ep\<lparr>gce_receiver := (gce_receiver ep)\<lparr>rcv_incoming := []\<rparr>\<rparr>"
  let ?t1 = "t\<lparr>gtw_endpoint_self := Detach (Some (?ep\<lparr>gce_outbox := [?msg]\<rparr>))\<rparr>" and ?t2 = "t\<lparr>gtw_endpoint_self := Detach (Some ?ep)\<rparr>"
  have "endpoint_process (wse_rid_msg env) gtw_no_callback (wse_now env) (ep, t\<lparr>gtw_endpoint_self := Detach None\<rparr>) =
      Ok True (?ep\<lparr>gce_outbox := [?msg]\<rparr>, t\<lparr>gtw_endpoint_self := Detach None\<rparr>)"
    using endpoint_process_requests[OF ep(4,5), of bt "[(Some rid, SendMessage u payload)]"] ep(3,6) by (simp add: send_request_def GhostMessage_new_request_def)
  then have p1: "detach_run gtw_endpoint_self (\<lambda>ep t. t\<lparr>gtw_endpoint_self := ep\<rparr>) (endpoint_process (wse_rid_msg env) gtw_no_callback (wse_now env)) t = Ok True ?t1"
    by (simp add: detach_run_attached[of gtw_endpoint_self, OF ep(1)])
  obtain k0 where c: "sm_connect (wse_lib env) (wst_fns env) (wse_instant env) u (gtw_streams t) = Ok () ((gtw_streams t)\<lparr>sm_connects := Suc (sm_connects (gtw_streams t)),
      sm_stream_sockets := [(u, WssInfo_client (wse_instant env) u k0)]\<rparr>)" "wl_client (wse_lib env) u k0 = HsDone k"
    using connect_reachable[OF node(1) pool(2)] by blast
  let ?m1 = "(gtw_streams t)\<lparr>sm_connects := Suc (sm_connects (gtw_streams t)), sm_stream_sockets := [(u, WssInfo_client (wse_instant env) u k0)]\<rparr>"
  let ?t3 = "?t2\<lparr>gtw_streams := ?m1, gtw_pending := [?msg]\<rparr>"
  have p2: "process_actor_inbox env ?t1 = Ok () ?t3"
    using t c(1) pool(2) send_request_simps[where bt = bt and u = u and r = "(rid, payload)"] ep(3)
    by (simp add: process_actor_inbox_def gtw_on_endpoint_def detach_deref_mut_def drain_messages_def handle_inbox_message_def gtw_send_def Let_def connection_status_def
        on_streams_def keep_pending_def create_send_message_def)
  have "priv_process_accept (wst_fns env) ?m1 = Ok False ?m1" by (rule accept_nobody) (use pool(4) in \<open>simp add: nobody_calls_def\<close>)
  then obtain i m2 where p3: "sm_process (wse_lib env) (wst_fns env) (wse_instant env) ?m1 = Ok (True, [ConnectResult u []]) m2" "ready_at u i k m2"
    using handshake_at_once[of ?m1 u "wse_instant env" k0 "wse_lib env" k "wst_fns env"] pool c(2) by auto
  have open2: "gtw_open ?t2" using ep(2) by (simp add: gtw_open_def)
  let ?s = "?t2\<lparr>gtw_streams := m2, gtw_pending := []\<rparr>" and ?answer = "[Response (wse_bt env) rid (Inr SendMessageSuccess)]"
  have s: "gtw_bound_url ?s = Some b" "gtw_open ?s" "ready_at u i k (gtw_streams ?s)" using open2 t(1) p3(2) by simp_all
  obtain m3 where l: "pending_loop env [?msg] [] ?s = Ok [] (appended ?answer (?s\<lparr>gtw_streams := m3\<rparr>))" and p4: "ready_at u i (written (wse_lib env) [(rid, payload)] k) m3"
    using ready_loop[where temp = "[]" and rs = "[(rid, payload)]" and bt = bt, OF node(2) s] by (auto simp del: pending_loop.simps)
  have eq: "(appended ?answer (?s\<lparr>gtw_streams := m3\<rparr>))\<lparr>gtw_pending := []\<rparr> = appended ?answer (?t2\<lparr>gtw_streams := m3, gtw_pending := []\<rparr>)" by (simp add: appended_def)
  have pend: "process_pending_messages env (?t3\<lparr>gtw_streams := m2\<rparr>) = Ok () (appended ?answer (?t2\<lparr>gtw_streams := m3, gtw_pending := []\<rparr>))"
    using l eq by (simp add: process_pending_messages_def del: pending_loop.simps)
  have "gtw_sent ?t2 = gtw_sent t" using ep(1) by (simp add: gtw_sent_def)
  moreover have "gtw_process_concrete env t = Ok True (appended [Response (wse_bt env) rid (Inr SendMessageSuccess)] (?t2\<lparr>gtw_streams := m3, gtw_pending := []\<rparr>))"
    using t(1) p3(1) pend by (simp add: gtw_process_concrete_def p1 p2 on_streams_def process_stream_events_def handle_stream_event_def)
  ultimately show ?thesis using p4 open2 by (intro exI[of _ i]) simp
qed

text \<open>
  C32: The first message to a node takes one process call when the node can be reached and the handshake does not have to wait: the
  transport connects, completes the handshake, writes the payload to the new connection and answers the request; nothing is left pending and the
  connection stays.
\<close>

theorem first_send_completes:
  assumes ep: "gtw_endpoint_self t = Detach (Some ep)" "snd_error (gce_sender ep) = None" "gce_outbox ep = []" "gt_expired (wse_now env) (gce_tracker ep) = []"
      "\<not> rcv_disconnected (gce_receiver ep)" "rcv_incoming (gce_receiver ep) = [Request bt (Some rid) (SendMessage u payload)]"
    and t: "gtw_bound_url t = Some b" "gtw_pending t = []"
    and pool: "sm_tls_config (gtw_streams t) = Unencrypted" "sm_stream_sockets (gtw_streams t) = []" "sm_event_queue (gtw_streams t) = []" "nobody_calls env (gtw_streams t)"
    and node: "reachable_node env (sm_connects (gtw_streams t)) u k" "\<And>p k. fst (wl_write_message (wse_lib env) (WsBinary p) k) = None"
  shows "\<exists>i t'. gtw_process_concrete env t = Ok True t' \<and> gtw_sent t' = gtw_sent t @ [Response (wse_bt env) rid (Inr SendMessageSuccess)]
    \<and> gtw_pending t' = [] \<and> ready_at u i (written (wse_lib env) [(rid, payload)] k) (gtw_streams t')"
  using assms by (rule first_send_run)

section \<open>Witnesses\<close>

text \<open>Streams count what is written to them.\<close>

definition demo_wst_env :: "(nat, unit) wst_env" where
  "demo_wst_env = \<lparr>wse_lib = demo_ws_lib\<lparr>wl_write_message := (\<lambda>_ k. (None, Suc k))\<rparr>, wse_url = pe_url (demo_pool_env 5), wse_tcp = demo_tcp, wse_instant = 5, wse_now = 5,
     wse_bt = Backtwrap None, wse_rid_msg = (\<lambda>_ _. []), wse_dbg_ghost = (\<lambda>_. []), wse_dbg_transports = (\<lambda>_. []), wse_sockets = demo_socket_api,
     wse_mdns = demo_mdns_env, wse_discover_clock = (5, 5)\<rparr>"

definition demo_wst_endpoint :: "unit TransportActorSelfEndpoint" where
  "demo_wst_endpoint = deliver [Request (Backtwrap None) (Some ''r'') (SendMessage ''u'' [7])] (GhostContextEndpointBuilder_build
     (GhostContextEndpointBuilder_request_id_prefix ''twss_to_parent'' (as_context_endpoint_builder (snd create_ghost_channel))))"

definition demo_wst :: "(Lib3hUri \<times> nat WssInfo) list \<Rightarrow> ToChildMessage list \<Rightarrow> (nat, unit) GhostTransportWebsocket" where
  "demo_wst sockets pend = (GhostTransportWebsocket_new ''t'' Unencrypted ''net'')\<lparr>gtw_endpoint_self := Detach (Some demo_wst_endpoint), gtw_bound_url := Some ''me'',
     gtw_pending := pend, gtw_streams := (StreamManager_new Unencrypted)\<lparr>sm_acceptor := Inr (), sm_stream_sockets := sockets\<rparr>\<rparr>"

lemma demo_wst_simps:
  "gtw_endpoint_self (demo_wst ss ps) = Detach (Some demo_wst_endpoint)" "gtw_bound_url (demo_wst ss ps) = Some ''me''" "gtw_pending (demo_wst ss ps) = ps"
  "gtw_streams (demo_wst ss ps) = (StreamManager_new Unencrypted)\<lparr>sm_acceptor := Inr (), sm_stream_sockets := ss\<rparr>"
  "snd_error (gce_sender demo_wst_endpoint) = None" "gce_outbox demo_wst_endpoint = []" "gt_expired now (gce_tracker demo_wst_endpoint) = []"
  "\<not> rcv_disconnected (gce_receiver demo_wst_endpoint)" "rcv_incoming (gce_receiver demo_wst_endpoint) = [Request (Backtwrap None) (Some ''r'') (SendMessage ''u'' [7])]"
  by (simp_all add: demo_wst_def demo_wst_endpoint_def deliver_def gt_expired_def GhostContextEndpointBuilder_build_def GhostTrackerBuilder_build_def
      GhostContextEndpointBuilder_request_id_prefix_def GhostTrackerBuilder_request_id_prefix_def as_context_endpoint_builder_def
      create_ghost_channel_def GhostEndpoint_new_def fresh_sender_def fresh_receiver_def)

lemma demo_wst_world:
  "nobody_calls demo_wst_env (gtw_streams (demo_wst ss ps))" "reachable_node demo_wst_env n ''u'' n" "wse_bt demo_wst_env = Backtwrap None"
  "fst (wl_write_message (wse_lib demo_wst_env) (WsBinary p) k) = None" "written (wse_lib demo_wst_env) [r] k = Suc k"
  by (simp_all add: nobody_calls_def demo_wst_simps reachable_node_def demo_wst_env_def demo_pool_simps written_def)

lemma demo_first_send:
  "\<exists>i t'. gtw_process_concrete demo_wst_env (demo_wst [] []) = Ok True t' \<and> gtw_sent t' = gtw_sent (demo_wst [] []) @ [Response (Backtwrap None) ''r'' (Inr SendMessageSuccess)]
     \<and> gtw_pending t' = [] \<and> ready_at ''u'' i (Suc 0) (gtw_streams t')"
  using first_send_run[where t = "demo_wst [] []" and env = demo_wst_env and ep = demo_wst_endpoint and u = "''u''" and k = 0, OF demo_wst_simps(1,5-9) demo_wst_simps(2,3)
    _ _ _ demo_wst_world(1) _ demo_wst_world(4)] demo_wst_world(2,3,5)
  by (simp add: demo_wst_simps StreamManager_new_def)

theorem first_send_completes_witness:
  "\<exists>i t'. gtw_process_concrete demo_wst_env (demo_wst [] []) = Ok True t' \<and> gtw_pending t' = [] \<and> ready_at ''u'' i (Suc 0) (gtw_streams t')"
  using first_send_completes[where t = "demo_wst [] []" and env = demo_wst_env and ep = demo_wst_endpoint and u = "''u''" and k = 0, OF demo_wst_simps(1,5-9) demo_wst_simps(2,3)
    _ _ _ demo_wst_world(1) _ demo_wst_world(4)] demo_wst_world(2,3,5)
  by (auto simp: demo_wst_simps StreamManager_new_def)

theorem sends_never_lost_witness: "\<exists>t'. gtw_process_concrete demo_wst_env (demo_wst [] []) = Ok True t' \<and> account t' = {#''r''#}"
proof -
  obtain t' where r: "gtw_process_concrete demo_wst_env (demo_wst [] []) = Ok True t'" using demo_first_send by blast
  have "account (demo_wst [] []) = {#}"
    by (simp add: account_def gtw_sent_def demo_wst_simps demo_wst_endpoint_def deliver_def GhostContextEndpointBuilder_build_def
        GhostContextEndpointBuilder_request_id_prefix_def as_context_endpoint_builder_def create_ghost_channel_def GhostEndpoint_new_def fresh_sender_def map_filter_def)
  then show ?thesis using sends_never_lost[OF demo_wst_simps(1,5,6) r] r by (simp add: demo_wst_simps map_filter_def)
qed

theorem pending_sends_reversed_witness:
  "\<exists>t'. process_pending_messages demo_wst_env (demo_wst [(''u'', demo_info ''u'' (ReadyWs 3))] (map (send_request (Backtwrap None) ''u'') [(''r1'', [1]), (''r2'', [2])])) = Ok () t'
     \<and> gtw_sent t' = gtw_sent (demo_wst [(''u'', demo_info ''u'' (ReadyWs 3))] (map (send_request (Backtwrap None) ''u'') [(''r1'', [1]), (''r2'', [2])]))
         @ [Response (Backtwrap None) ''r2'' (Inr SendMessageSuccess), Response (Backtwrap None) ''r1'' (Inr SendMessageSuccess)]"
proof -
  let ?ps = "map (send_request (Backtwrap None) ''u'') [(''r1'', [1]), (''r2'', [2])]" and ?ss = "[(''u'', demo_info ''u'' (ReadyWs 3))]"
  have "gtw_open (demo_wst ?ss ?ps)" by (simp add: gtw_open_def demo_wst_simps)
  moreover have "ready_at ''u'' (demo_info ''u'' (ReadyWs 3)) 3 (gtw_streams (demo_wst ?ss ?ps))" by (simp add: ready_at_def demo_wst_simps demo_info_def)
  ultimately show ?thesis
    using pending_sends_reversed[where env = demo_wst_env, OF demo_wst_simps(3)[of ?ss ?ps] demo_wst_simps(2) _ demo_wst_world(4), of "demo_info ''u'' (ReadyWs 3)" 3] demo_wst_world(3)
    by auto
qed

end
