(* ===== verification/Crypto_Memory.thy ===== *)
theory Crypto_Memory
  imports Prelude
begin

text \<open>
  Protected memory and calls into libsodium: what the two buffer types of the cryptography crates
  (\<open>crates/crypto_api/src/buffer\<close> with \<open>crates/sodium/src/crypto_system/secure_buffer.rs\<close>, and
  \<open>crates/sodium/src/secbuf.rs\<close>) have in common. A buffer is opened by a lock object for the time of a call and closed when
  the lock is dropped; the C code reads and writes through raw pointers. The interface \<open>lockable\<close> says what a
  buffer type has to do for such a call to be safe; both types implement it.
\<close>

section \<open>Errors\<close>

text \<open>\<open>CryptoError\<close> of \<open>crates/crypto_api/src/error/mod.rs\<close>.\<close>

datatype CryptoError =
    CryptoGeneric string
  | OutputLength string
  | OutOfMemory
  | WriteOverflow
  | BadHashSize
  | BadSaltSize
  | BadOutBufferSize
  | BadParentSize
  | BadContextSize
  | BadSeedSize
  | BadKeySize
  | BadPublicKeySize
  | BadSecretKeySize
  | BadSignatureSize
  | BadTxSessionKeySize
  | BadRxSessionKeySize
  | BadCipherSize
  | BadNonceSize
  | BadMessageSize
  | CouldNotDecrypt

definition CryptoError_new :: "string \<Rightarrow> CryptoError" where
  "CryptoError_new msg = CryptoGeneric msg"

section \<open>Raw memory\<close>

text \<open>\<open>ProtectState\<close>: what a buffer says of itself, and what the operating system enforces for a region.\<close>

datatype ProtectState = NoAccess | ReadOnly | ReadWrite

record region =
  rg_bytes :: bytes
  rg_prot :: ProtectState

definition mprotect :: "ProtectState \<Rightarrow> region \<Rightarrow> region" where
  "mprotect st r = r\<lparr>rg_prot := st\<rparr>"

text \<open>
  Access through a raw pointer: no check of the program is involved. A protection fault kills the process and an
  access outside of the region is undefined behaviour; both are the outcome \<open>Panic\<close> with a text that no panic of
  the program has.
\<close>

definition raw_read :: "nat \<Rightarrow> nat \<Rightarrow> region \<Rightarrow> string + bytes" where
  "raw_read off n r =
     (if n = 0 then Inr []
      else if rg_prot r = NoAccess then Inl ''segmentation fault''
      else if length (rg_bytes r) < off + n then Inl ''out of bounds read''
      else Inr (take n (drop off (rg_bytes r))))"

definition patch :: "nat \<Rightarrow> bytes \<Rightarrow> bytes \<Rightarrow> bytes" where
  "patch off bs mem = take off mem @ bs @ drop (off + length bs) mem"

definition raw_write :: "nat \<Rightarrow> bytes \<Rightarrow> region \<Rightarrow> string + region" where
  "raw_write off bs r =
     (if bs = [] then Inr r
      else if rg_prot r \<noteq> ReadWrite then Inl ''segmentation fault''
      else if length (rg_bytes r) < off + length bs then Inl ''out of bounds write''
      else Inr (r\<lparr>rg_bytes := patch off bs (rg_bytes r)\<rparr>))"

lemma length_patch: "off + length bs \<le> length mem \<Longrightarrow> length (patch off bs mem) = length mem"
  by (simp add: patch_def)

lemma take_patch:
  "off + length bs \<le> n \<Longrightarrow> n \<le> length mem \<Longrightarrow> take n (patch off bs mem) = patch off bs (take n mem)"
  by (cases "n = off") (auto simp: patch_def drop_take min_def)

lemma patch_Nil [simp]: "off \<le> length mem \<Longrightarrow> patch off [] mem = mem"
  by (simp add: patch_def)

lemma patch_all: "length bs = length mem \<Longrightarrow> patch 0 bs mem = bs"
  by (simp add: patch_def)

section \<open>Locks\<close>

text \<open>
  A lock object in a scope: opened where it is created, closed where it is dropped, on a normal end of the scope and
  on an early return alike.
\<close>

definition with_lock ::
  "('h \<Rightarrow> ('h, 'e, unit) outcome) \<Rightarrow> ('h \<Rightarrow> ('h, 'e, unit) outcome) \<Rightarrow> ('h \<Rightarrow> ('h, 'e, 'r) outcome) \<Rightarrow> 'h \<Rightarrow>
    ('h, 'e, 'r) outcome" where
  "with_lock opn cls body h =
     bind_ok (opn h) (\<lambda>_ h.
       case body h of
         Ok v h \<Rightarrow> bind_ok (cls h) (\<lambda>_. Ok v)
       | Err e h \<Rightarrow> bind_ok (cls h) (\<lambda>_. Err e)
       | Panic m \<Rightarrow> Panic m)"

datatype 'a lock = RdLock (target: 'a) | WrLock (target: 'a)

fun lock_mode :: "'a lock \<Rightarrow> ProtectState" where
  "lock_mode (RdLock a) = ReadOnly"
| "lock_mode (WrLock a) = ReadWrite"

text \<open>Several lock objects in the order of their declaration; they are dropped in the opposite order.\<close>

fun with_locks ::
  "('a lock \<Rightarrow> 'h \<Rightarrow> ('h, 'e, unit) outcome) \<Rightarrow> ('a \<Rightarrow> 'h \<Rightarrow> ('h, 'e, unit) outcome) \<Rightarrow> 'a lock list \<Rightarrow>
    ('h \<Rightarrow> ('h, 'e, 'r) outcome) \<Rightarrow> 'h \<Rightarrow> ('h, 'e, 'r) outcome" where
  "with_locks opn cls [] body = body"
| "with_locks opn cls (l # ls) body = with_lock (opn l) (cls (target l)) (with_locks opn cls ls body)"

section \<open>Calls into C\<close>

fun c_reads :: "('a \<Rightarrow> nat \<Rightarrow> 'h \<Rightarrow> ('h, 'e, bytes) outcome) \<Rightarrow> ('a \<times> nat) list \<Rightarrow> 'h \<Rightarrow> ('h, 'e, bytes list) outcome" where
  "c_reads rd [] h = Ok [] h"
| "c_reads rd ((a, n) # ins) h = bind_ok (rd a n h) (\<lambda>b h. bind_ok (c_reads rd ins h) (\<lambda>bs. Ok (b # bs)))"

text \<open>
  A foreign call: the program takes the pointers (\<open>as_mut_ptr\<close> of the outputs, \<open>as_ptr\<close> of the inputs, which check the
  state the buffer says it is in), then C reads so many bytes of each input and writes to the outputs. The result is its
  return code.
\<close>

definition c_call ::
  "('a \<Rightarrow> 'h \<Rightarrow> ('h, 'e, unit) outcome) \<Rightarrow> ('a \<Rightarrow> 'h \<Rightarrow> ('h, 'e, unit) outcome) \<Rightarrow>
    ('a \<Rightarrow> nat \<Rightarrow> 'h \<Rightarrow> ('h, 'e, bytes) outcome) \<Rightarrow> ('a \<Rightarrow> nat \<Rightarrow> bytes \<Rightarrow> 'h \<Rightarrow> ('h, 'e, unit) outcome) \<Rightarrow>
    'a list \<Rightarrow> ('a \<times> nat) list \<Rightarrow> (bytes list \<Rightarrow> int \<times> bytes list) \<Rightarrow> 'h \<Rightarrow> ('h, 'e, int) outcome" where
  "c_call as_ptr as_mut_ptr rd wr outs ins f h =
     bind_ok (for_each as_mut_ptr outs h) (\<lambda>_ h.
       bind_ok (for_each (\<lambda>(a, n). as_ptr a) ins h) (\<lambda>_ h.
         bind_ok (c_reads rd ins h) (\<lambda>bs h.
           case f bs of (rc, written) \<Rightarrow>
             bind_ok (for_each (\<lambda>(a, bs). wr a 0 bs) (zip outs written) h) (\<lambda>_. Ok rc))))"

text \<open>What the caller makes of the return code; it does not look at the buffers.\<close>

definition heap_independent :: "('h \<Rightarrow> ('h, 'e, 'r) outcome) \<Rightarrow> bool" where
  "heap_independent k \<longleftrightarrow> (\<exists>v. k = Ok v) \<or> (\<exists>e. k = Err e) \<or> (\<exists>m. k = (\<lambda>_. Panic m))"

text \<open>A heap with the locks taken, and a heap after writes at offset zero.\<close>

definition open_heap :: "(ProtectState \<Rightarrow> 'b \<Rightarrow> 'b) \<Rightarrow> 'a lock list \<Rightarrow> ('a \<Rightarrow> 'b) \<Rightarrow> 'a \<Rightarrow> 'b" where
  "open_heap opened ls h a =
     (case find (\<lambda>l. target l = a) ls of None \<Rightarrow> h a | Some l \<Rightarrow> opened (lock_mode l) (h a))"

definition filled :: "(nat \<Rightarrow> bytes \<Rightarrow> 'b \<Rightarrow> 'b) \<Rightarrow> ('a \<times> bytes) list \<Rightarrow> ('a \<Rightarrow> 'b) \<Rightarrow> 'a \<Rightarrow> 'b" where
  "filled overwrite ws h a = (case map_of ws a of None \<Rightarrow> h a | Some bs \<Rightarrow> overwrite 0 bs (h a))"

lemma lock_mode_open [simp]: "lock_mode l \<noteq> NoAccess"
  by (cases l) auto

lemma open_heap_Nil [simp]: "open_heap opened [] h = h"
  by (simp add: open_heap_def fun_eq_iff)

lemma find_target: "find (\<lambda>l. target l = a) ls = Some l \<Longrightarrow> l \<in> set ls \<and> target l = a"
  by (auto simp: find_Some_iff)

lemma open_heap_Cons:
  "target l \<notin> target ` set ls \<Longrightarrow>
   open_heap opened (l # ls) h = open_heap opened ls (h(target l := opened (lock_mode l) (h (target l))))"
  by (auto simp: open_heap_def fun_eq_iff find_None_iff split: option.splits dest!: find_target)

lemma find_lock:
  assumes "distinct (map target ls)" and "l \<in> set ls"
  shows "find (\<lambda>k. target k = target l) ls = Some l"
  using assms by (induction ls) (auto simp: image_iff)

lemma open_heap_at:
  assumes "distinct (map target ls)" and "l \<in> set ls"
  shows "open_heap opened ls h (target l) = opened (lock_mode l) (h (target l))"
  by (simp add: open_heap_def find_lock[OF assms])

lemma open_heap_upd:
  assumes "distinct (map target ls)" and "l \<in> set ls"
  shows "(open_heap opened ls h)(target l := opened (lock_mode l) b) = open_heap opened ls (h(target l := b))"
  by (auto simp: fun_eq_iff open_heap_def find_lock[OF assms] split: option.splits)

lemma filled_Nil [simp]: "filled overwrite [] h = h"
  by (simp add: filled_def fun_eq_iff)

lemma filled_Cons:
  assumes "a \<notin> fst ` set ws"
  shows "filled overwrite ((a, bs) # ws) h = filled overwrite ws (h(a := overwrite 0 bs (h a)))"
proof -
  have "map_of ws a = None" using assms by (simp add: map_of_eq_None_iff)
  then show ?thesis by (auto simp: filled_def fun_eq_iff split: option.splits)
qed

text \<open>A continuation that returns, with a result or an error.\<close>

definition returns :: "('h \<Rightarrow> ('h, 'e, 'r) outcome) \<Rightarrow> bool" where
  "returns k \<longleftrightarrow> (\<exists>v. k = Ok v) \<or> (\<exists>e. k = Err e)"

lemma returns_simps [simp]: "returns (Ok v)" "returns (Err e)"
  by (auto simp: returns_def)

text \<open>
  \<open>kept closed content outs h h'\<close>: every buffer is closed and as long as before, and only the buffers \<open>outs\<close> may have changed.
  \<open>safe closed content outs h r\<close>: the operation returned, with a result or an error, and left the buffers so.
\<close>

definition kept :: "('b \<Rightarrow> bool) \<Rightarrow> ('b \<Rightarrow> bytes) \<Rightarrow> 'a set \<Rightarrow> ('a \<Rightarrow> 'b) \<Rightarrow> ('a \<Rightarrow> 'b) \<Rightarrow> bool" where
  "kept closed content outs h h' \<longleftrightarrow>
     (\<forall>a. closed (h' a) \<and> length (content (h' a)) = length (content (h a)) \<and> (a \<notin> outs \<longrightarrow> h' a = h a))"

fun safe :: "('b \<Rightarrow> bool) \<Rightarrow> ('b \<Rightarrow> bytes) \<Rightarrow> 'a set \<Rightarrow> ('a \<Rightarrow> 'b) \<Rightarrow> ('a \<Rightarrow> 'b, 'e, 'r) outcome \<Rightarrow> bool" where
  "safe closed content outs h (Ok v h') = kept closed content outs h h'"
| "safe closed content outs h (Err e h') = kept closed content outs h h'"
| "safe closed content outs h (Panic m) = False"

lemma safe_err [intro]: "\<forall>a. closed (h a) \<Longrightarrow> safe closed content outs h (Err e h)"
  by (simp add: kept_def)

lemma safe_if:
  "(P \<Longrightarrow> safe closed content W h r) \<Longrightarrow> (\<not> P \<Longrightarrow> safe closed content W h r') \<Longrightarrow>
   safe closed content W h (if P then r else r')"
  by simp

section \<open>The interface of a buffer type\<close>

text \<open>
  A heap of buffers of type \<open>'b\<close>. \<open>opened st b\<close> is the closed buffer \<open>b\<close> after it was opened for \<open>st\<close>. The laws:
  opening a closed buffer succeeds, dropping the lock gives the closed buffer back, and in between the pointers may be taken
  and the bytes accessed within the length of the buffer. \<open>overwrite off bs b\<close> has the bytes \<open>bs\<close> from \<open>off\<close> on.
\<close>

locale lockable =
  fixes opn :: "'a lock \<Rightarrow> ('a \<Rightarrow> 'b) \<Rightarrow> ('a \<Rightarrow> 'b, 'e, unit) outcome"
    and cls :: "'a \<Rightarrow> ('a \<Rightarrow> 'b) \<Rightarrow> ('a \<Rightarrow> 'b, 'e, unit) outcome"
    and ptr :: "'a \<Rightarrow> ('a \<Rightarrow> 'b) \<Rightarrow> ('a \<Rightarrow> 'b, 'e, unit) outcome"
    and mut_ptr :: "'a \<Rightarrow> ('a \<Rightarrow> 'b) \<Rightarrow> ('a \<Rightarrow> 'b, 'e, unit) outcome"
    and rd :: "'a \<Rightarrow> nat \<Rightarrow> ('a \<Rightarrow> 'b) \<Rightarrow> ('a \<Rightarrow> 'b, 'e, bytes) outcome"
    and wr :: "'a \<Rightarrow> nat \<Rightarrow> bytes \<Rightarrow> ('a \<Rightarrow> 'b) \<Rightarrow> ('a \<Rightarrow> 'b, 'e, unit) outcome"
    and closed :: "'b \<Rightarrow> bool"
    and opened :: "ProtectState \<Rightarrow> 'b \<Rightarrow> 'b"
    and content :: "'b \<Rightarrow> bytes"
    and overwrite :: "nat \<Rightarrow> bytes \<Rightarrow> 'b \<Rightarrow> 'b"
  assumes opn: "closed (h (target l)) \<Longrightarrow>
      opn l h = Ok () (h(target l := opened (lock_mode l) (h (target l))))"
    and cls: "closed b \<Longrightarrow> st \<noteq> NoAccess \<Longrightarrow> h a = opened st b \<Longrightarrow> cls a h = Ok () (h(a := b))"
    and ptr: "closed b \<Longrightarrow> st \<noteq> NoAccess \<Longrightarrow> h a = opened st b \<Longrightarrow> ptr a h = Ok () h"
    and mut_ptr: "closed b \<Longrightarrow> h a = opened ReadWrite b \<Longrightarrow> mut_ptr a h = Ok () h"
    and rd: "closed b \<Longrightarrow> st \<noteq> NoAccess \<Longrightarrow> h a = opened st b \<Longrightarrow> n \<le> length (content b) \<Longrightarrow>
      rd a n h = Ok (take n (content b)) h"
    and wr: "closed b \<Longrightarrow> h a = opened ReadWrite b \<Longrightarrow> off + length bs \<le> length (content b) \<Longrightarrow>
      wr a off bs h = Ok () (h(a := opened ReadWrite (overwrite off bs b)))"
    and overwrite_closed: "closed b \<Longrightarrow> off + length bs \<le> length (content b) \<Longrightarrow> closed (overwrite off bs b)"
    and overwrite_content: "closed b \<Longrightarrow> off + length bs \<le> length (content b) \<Longrightarrow>
      content (overwrite off bs b) = patch off bs (content b)"
begin

text \<open>
  Whatever happens between taking and dropping the locks, dropping them closes the buffers again.
\<close>

lemma with_locks_closes:
  assumes "distinct (map target ls)" and "\<forall>l \<in> set ls. closed (h (target l)) \<and> closed (h' (target l))"
    and "body (open_heap opened ls h) = k (open_heap opened ls h')" and "heap_independent k"
  shows "with_locks opn cls ls body h = k h'"
  using assms
proof (induction ls arbitrary: h h')
  case Nil
  then show ?case by simp
next
  case (Cons l ls)
  let ?open = "\<lambda>g. g(target l := opened (lock_mode l) (g (target l)))"
  have new: "target l \<notin> target ` set ls" and "distinct (map target ls)" using Cons.prems(1) by auto
  then have other: "target k \<noteq> target l" if "k \<in> set ls" for k using that by (metis imageI)
  have "body (open_heap opened ls (?open h)) = k (open_heap opened ls (?open h'))"
    using Cons.prems(3) by (simp only: open_heap_Cons[OF new])
  moreover have "\<forall>k \<in> set ls. closed (?open h (target k)) \<and> closed (?open h' (target k))"
    using Cons.prems(2) other by simp
  ultimately have inner: "with_locks opn cls ls body (?open h) = k (?open h')"
    using \<open>distinct (map target ls)\<close> Cons.prems(4) by (intro Cons.IH)
  have "opn l h = Ok () (?open h)" using Cons.prems(2) by (intro opn) simp
  moreover have "cls (target l) (?open h') = Ok () h'"
    using Cons.prems(2) by (subst cls[of "h' (target l)" "lock_mode l"]) auto
  ultimately show ?case
    using Cons.prems(4) inner by (auto simp: with_lock_def heap_independent_def)
qed

text \<open>
  A buffer under a lock, seen through the open heap.
\<close>

lemma opened_at:
  assumes "distinct (map target ls)" and "l \<in> set ls"
  shows "open_heap opened ls h (target l) = opened (lock_mode l) (h (target l))"
  by (rule open_heap_at[OF assms])

lemma pointers:
  assumes "distinct (map target ls)" and "\<forall>l \<in> set ls. closed (h (target l))"
  shows "set outs \<subseteq> {w. WrLock w \<in> set ls} \<Longrightarrow> for_each mut_ptr outs (open_heap opened ls h) = Ok () (open_heap opened ls h)"
    and "fst ` set ins \<subseteq> target ` set ls \<Longrightarrow>
      for_each (\<lambda>(a, n). ptr a) ins (open_heap opened ls h) = Ok () (open_heap opened ls h)"
proof -
  have "mut_ptr w (open_heap opened ls h) = Ok () (open_heap opened ls h)" if "WrLock w \<in> set ls" for w
    using assms that opened_at[OF assms(1) that, of h] by (intro mut_ptr[of "h w"]) fastforce+
  then show "set outs \<subseteq> {w. WrLock w \<in> set ls} \<Longrightarrow>
      for_each mut_ptr outs (open_heap opened ls h) = Ok () (open_heap opened ls h)"
    by (induction outs) auto
  have "ptr (target l) (open_heap opened ls h) = Ok () (open_heap opened ls h)" if "l \<in> set ls" for l
    using assms that by (intro ptr[of "h (target l)" "lock_mode l"]) (auto simp: opened_at)
  then show "fst ` set ins \<subseteq> target ` set ls \<Longrightarrow>
      for_each (\<lambda>(a, n). ptr a) ins (open_heap opened ls h) = Ok () (open_heap opened ls h)"
    by (induction ins) auto
qed

lemma reads:
  assumes "distinct (map target ls)" and "\<forall>l \<in> set ls. closed (h (target l))"
    and "\<forall>(a, n) \<in> set ins. a \<in> target ` set ls \<and> n \<le> length (content (h a))"
  shows "c_reads rd ins (open_heap opened ls h) = Ok (map (\<lambda>(a, n). take n (content (h a))) ins) (open_heap opened ls h)"
proof -
  have "rd a n (open_heap opened ls h) = Ok (take n (content (h a))) (open_heap opened ls h)"
    if "a \<in> target ` set ls" and "n \<le> length (content (h a))" for a n
  proof -
    from that(1) obtain l where "l \<in> set ls" and "a = target l" by blast
    then show ?thesis
      using assms(1,2) that(2) by (intro rd[of "h a" "lock_mode l"]) (auto simp: opened_at)
  qed
  with assms(3) show ?thesis by (induction ins) auto
qed

lemma writes:
  assumes "distinct (map target ls)" and "\<forall>l \<in> set ls. closed (h (target l))"
    and "distinct (map fst ws)" and "\<forall>(a, bs) \<in> set ws. WrLock a \<in> set ls \<and> length bs \<le> length (content (h a))"
  shows "for_each (\<lambda>(a, bs). wr a 0 bs) ws (open_heap opened ls h) = Ok () (open_heap opened ls (filled overwrite ws h))"
  using assms
proof (induction ws arbitrary: h)
  case Nil
  then show ?case by simp
next
  case (Cons w ws)
  obtain a bs where w: "w = (a, bs)" by (cases w)
  have lk: "WrLock a \<in> set ls" and len: "length bs \<le> length (content (h a))"
    and cl: "closed (h a)" and new: "a \<notin> fst ` set ws"
    using Cons.prems w by (auto dest: bspec[of _ _ "WrLock a"])
  let ?h = "h(a := overwrite 0 bs (h a))"
  have "wr a 0 bs (open_heap opened ls h) = Ok () ((open_heap opened ls h)(a := opened ReadWrite (overwrite 0 bs (h a))))"
    using cl len opened_at[OF Cons.prems(1) lk, of h] by (intro wr) auto
  also have "(open_heap opened ls h)(a := opened ReadWrite (overwrite 0 bs (h a))) = open_heap opened ls ?h"
    using open_heap_upd[OF Cons.prems(1) lk, of opened h "overwrite 0 bs (h a)"] by simp
  finally have "for_each (\<lambda>(a, bs). wr a 0 bs) (w # ws) (open_heap opened ls h) =
      for_each (\<lambda>(a, bs). wr a 0 bs) ws (open_heap opened ls ?h)" by (simp add: w)
  also have "\<dots> = Ok () (open_heap opened ls (filled overwrite ws ?h))"
  proof (rule Cons.IH)
    show "\<forall>l \<in> set ls. closed (?h (target l))"
      using Cons.prems(2) overwrite_closed[OF cl, of 0 bs] len by simp
    show "\<forall>(b, cs) \<in> set ws. WrLock b \<in> set ls \<and> length cs \<le> length (content (?h b))"
      using Cons.prems(4) new by force
  qed (use Cons.prems in auto)
  finally show ?case by (simp add: w filled_Cons[OF new])
qed

lemma filled_closed:
  assumes "closed (h a)" and "\<forall>(b, bs) \<in> set ws. length bs \<le> length (content (h b))"
  shows "closed (filled overwrite ws h a)" and "length (content (filled overwrite ws h a)) = length (content (h a))"
  using assms overwrite_closed[of "h a" 0] overwrite_content[of "h a" 0]
  by (auto simp: filled_def length_patch split: option.splits dest!: map_of_SomeD)

text \<open>
  What C does after the pointers are taken and the inputs read.
\<close>

lemma call_under_locks:
  assumes "distinct (map target ls)" and "\<forall>l \<in> set ls. closed (h (target l))" and "set outs \<subseteq> {w. WrLock w \<in> set ls}"
    and "\<forall>(a, n) \<in> set ins. a \<in> target ` set ls \<and> n \<le> length (content (h a))"
    and "f (map (\<lambda>(a, n). take n (content (h a))) ins) = (rc, written)"
  shows "c_call ptr mut_ptr rd wr outs ins f (open_heap opened ls h) =
    bind_ok (for_each (\<lambda>(a, bs). wr a 0 bs) (zip outs written) (open_heap opened ls h)) (\<lambda>_. Ok rc)"
proof -
  have ins: "fst ` set ins \<subseteq> target ` set ls" using assms(4) by auto
  show ?thesis
    by (simp add: c_call_def pointers(1)[OF assms(1,2,3)] pointers(2)[OF assms(1,2) ins] reads[OF assms(1,2,4)] assms(5))
qed

text \<open>
  A call under locks: when the locks are on different closed buffers and C stays within their lengths, the call
  returns, its outputs hold what C wrote, and every buffer is closed again.
\<close>

lemma locked_call:
  assumes "distinct (map target ls)" and "\<forall>l \<in> set ls. closed (h (target l))"
    and "distinct outs" and "set outs \<subseteq> {w. WrLock w \<in> set ls}"
    and "\<forall>(a, n) \<in> set ins. a \<in> target ` set ls \<and> n \<le> length (content (h a))"
    and "f (map (\<lambda>(a, n). take n (content (h a))) ins) = (rc, written)"
    and "\<forall>(a, bs) \<in> set (zip outs written). length bs \<le> length (content (h a))"
    and "heap_independent (ret rc)"
  shows "with_locks opn cls ls (\<lambda>h. bind_ok (c_call ptr mut_ptr rd wr outs ins f h) ret) h =
    ret rc (filled overwrite (zip outs written) h)"
proof (rule with_locks_closes[where k = "ret rc"])
  have ws: "distinct (map fst (zip outs written))"
    "\<forall>(a, bs) \<in> set (zip outs written). WrLock a \<in> set ls \<and> length bs \<le> length (content (h a))"
    using assms(3,4,7) by (auto simp: map_fst_zip_take dest: set_zip_leftD)
  show "bind_ok (c_call ptr mut_ptr rd wr outs ins f (open_heap opened ls h)) ret =
      ret rc (open_heap opened ls (filled overwrite (zip outs written) h))"
    using call_under_locks[of ls h outs ins f rc written] assms(1,2,4,5,6) writes[OF assms(1,2) ws] by simp
  show "\<forall>l \<in> set ls. closed (h (target l)) \<and> closed (filled overwrite (zip outs written) h (target l))"
    using assms(2) filled_closed(1)[OF _ assms(7)] by blast
qed (use assms in auto)

lemma kept_filled:
  assumes "\<forall>a. closed (h a)" and "\<forall>(a, bs) \<in> set (zip outs written). length bs \<le> length (content (h a))"
  shows "kept closed content (set outs) h (filled overwrite (zip outs written) h)"
proof -
  have "filled overwrite (zip outs written) h a = h a" if "a \<notin> set outs" for a
    using that by (auto simp: filled_def split: option.splits dest: map_of_SomeD set_zip_leftD)
  then show ?thesis using filled_closed[OF _ assms(2)] assms(1) by (simp add: kept_def)
qed

lemma safe_call:
  assumes "\<forall>a. closed (h a)" and "distinct (map target ls)"
    and "distinct outs" and "set outs \<subseteq> {w. WrLock w \<in> set ls}"
    and "\<forall>(a, n) \<in> set ins. a \<in> target ` set ls \<and> n \<le> length (content (h a))"
    and "\<And>bs. map length bs = map snd ins \<Longrightarrow>
      (\<forall>(a, b) \<in> set (zip outs (snd (f bs))). length b \<le> length (content (h a))) \<and> returns (ret (fst (f bs)))"
    and "W = set outs"
  shows "safe closed content W h (with_locks opn cls ls (\<lambda>g. bind_ok (c_call ptr mut_ptr rd wr outs ins f g) ret) h)"
proof -
  let ?bs = "map (\<lambda>(a, n). take n (content (h a))) ins"
  have "map length ?bs = map snd ins" using assms(5) by auto
  note result = assms(6)[OF this, unfolded returns_def]
  have "with_locks opn cls ls (\<lambda>g. bind_ok (c_call ptr mut_ptr rd wr outs ins f g) ret) h =
      ret (fst (f ?bs)) (filled overwrite (zip outs (snd (f ?bs))) h)"
    using result assms(1-5) by (intro locked_call) (auto simp: heap_independent_def)
  moreover have "kept closed content (set outs) h (filled overwrite (zip outs (snd (f ?bs))) h)"
    using result by (intro kept_filled[OF assms(1)]) blast
  ultimately show ?thesis using result assms(7) by auto
qed

text \<open>
  A panic or a fault under locks is the end of the operation.
\<close>

lemma with_locks_panics:
  assumes "distinct (map target ls)" and "\<forall>l \<in> set ls. closed (h (target l))" and "body (open_heap opened ls h) = Panic m"
  shows "with_locks opn cls ls body h = Panic m"
  using assms
proof (induction ls arbitrary: h)
  case Nil
  then show ?case by simp
next
  case (Cons l ls)
  let ?h = "h(target l := opened (lock_mode l) (h (target l)))"
  have new: "target l \<notin> target ` set ls" using Cons.prems(1) by auto
  then have "\<forall>k \<in> set ls. closed (?h (target k))" using Cons.prems(2) by (metis fun_upd_other imageI list.set_intros(2))
  moreover have "body (open_heap opened ls ?h) = Panic m" using Cons.prems(3) by (simp only: open_heap_Cons[OF new])
  moreover have "distinct (map target ls)" using Cons.prems(1) by simp
  ultimately have "with_locks opn cls ls body ?h = Panic m" by (intro Cons.IH)
  moreover have "opn l h = Ok () ?h" using Cons.prems(2) by (intro opn) simp
  ultimately show ?case by (simp add: with_lock_def)
qed

end

end
