(* ===== verification/Crypto_Buffer.thy ===== *)
theory Crypto_Buffer
  imports Crypto_Memory
begin

text \<open>
  Buffers of the cryptography interface: the trait \<open>Buffer\<close> with its lock objects
  (\<open>crates/crypto_api/src/buffer\<close>), implemented by \<open>Vec<u8>\<close> and by \<open>SecureBuffer\<close>
  (\<open>crates/sodium/src/crypto_system/secure_buffer.rs\<close>). Shared references to a buffer may be aliases, and locking works
  through them, so the buffers live in a heap and the operations take addresses. \<open>malloc\<close> stands for
  \<open>sodium_malloc\<close> (\<open>None\<close>: no memory; otherwise the bytes the new region holds), \<open>checks\<close> says whether overflow panics; changing
  the protection of a region always succeeds, its result is not looked at. Addresses and sizes have 64 bits.
\<close>

section \<open>Model\<close>

record SecureBuffer =
  sb_z :: region
  sb_s :: nat
  sb_p :: ProtectState

datatype Buffer = VecU8 bytes | Secure SecureBuffer

type_synonym buffers = "nat \<Rightarrow> Buffer"

type_synonym 'r on_buffers = "buffers \<Rightarrow> (buffers, CryptoError, 'r) outcome"

fun Buffer_len :: "Buffer \<Rightarrow> nat" where
  "Buffer_len (VecU8 v) = length v"
| "Buffer_len (Secure b) = sb_s b"

fun Buffer_is_empty :: "Buffer \<Rightarrow> bool" where
  "Buffer_is_empty (VecU8 v) = (v = [])"
| "Buffer_is_empty (Secure b) = (sb_s b = 0)"

definition SecureBuffer_set_no_access :: "SecureBuffer \<Rightarrow> (SecureBuffer, CryptoError, unit) outcome" where
  "SecureBuffer_set_no_access b =
     (if sb_p b = NoAccess then Panic ''already no access... bad logic''
      else Ok () (b\<lparr>sb_z := mprotect NoAccess (sb_z b), sb_p := NoAccess\<rparr>))"

definition SecureBuffer_set_readable :: "SecureBuffer \<Rightarrow> (SecureBuffer, CryptoError, unit) outcome" where
  "SecureBuffer_set_readable b =
     (if sb_p b \<noteq> NoAccess then Panic ''not no access... bad logic''
      else Ok () (b\<lparr>sb_z := mprotect ReadOnly (sb_z b), sb_p := ReadOnly\<rparr>))"

definition SecureBuffer_set_writable :: "SecureBuffer \<Rightarrow> (SecureBuffer, CryptoError, unit) outcome" where
  "SecureBuffer_set_writable b =
     (if sb_p b \<noteq> NoAccess then Panic ''not no access... bad logic''
      else Ok () (b\<lparr>sb_z := mprotect ReadWrite (sb_z b), sb_p := ReadWrite\<rparr>))"

text \<open>Dispatch on the implementation; for \<open>Vec<u8>\<close> the three do nothing.\<close>

fun Vec_no_op :: "bytes \<Rightarrow> (bytes, CryptoError, unit) outcome" where
  "Vec_no_op v = Ok () v"

fun dyn_buffer ::
  "(SecureBuffer \<Rightarrow> (SecureBuffer, CryptoError, unit) outcome) \<Rightarrow> nat \<Rightarrow> buffers \<Rightarrow> (buffers, CryptoError, unit) outcome" where
  "dyn_buffer f a h =
     (case h a of
        VecU8 v \<Rightarrow> lift_state (\<lambda>v. h(a := VecU8 v)) (Vec_no_op v)
      | Secure b \<Rightarrow> lift_state (\<lambda>b. h(a := Secure b)) (f b))"

definition set_no_access :: "nat \<Rightarrow> buffers \<Rightarrow> (buffers, CryptoError, unit) outcome" where
  "set_no_access = dyn_buffer SecureBuffer_set_no_access"

definition set_readable :: "nat \<Rightarrow> buffers \<Rightarrow> (buffers, CryptoError, unit) outcome" where
  "set_readable = dyn_buffer SecureBuffer_set_readable"

definition set_writable :: "nat \<Rightarrow> buffers \<Rightarrow> (buffers, CryptoError, unit) outcome" where
  "set_writable = dyn_buffer SecureBuffer_set_writable"

text \<open>\<open>ReadLocker::new\<close>, \<open>WriteLocker::new\<close> and their \<open>drop\<close>.\<close>

fun locker_new :: "nat lock \<Rightarrow> buffers \<Rightarrow> (buffers, CryptoError, unit) outcome" where
  "locker_new (RdLock a) = set_readable a"
| "locker_new (WrLock a) = set_writable a"

definition locker_drop :: "nat \<Rightarrow> buffers \<Rightarrow> (buffers, CryptoError, unit) outcome" where
  "locker_drop = set_no_access"

abbreviation under_locks :: "nat lock list \<Rightarrow> 'r on_buffers \<Rightarrow> 'r on_buffers" where
  "under_locks \<equiv> with_locks locker_new locker_drop"

text \<open>\<open>deref\<close> and \<open>deref_mut\<close> check the state; what they return is used as a pointer or read as a slice.\<close>

fun deref_buffer :: "nat \<Rightarrow> buffers \<Rightarrow> (buffers, CryptoError, unit) outcome" where
  "deref_buffer a h =
     (case h a of
        VecU8 v \<Rightarrow> Ok () h
      | Secure b \<Rightarrow> if sb_p b = NoAccess then Panic ''Deref, but state is NoAccess'' else Ok () h)"

fun deref_mut_buffer :: "nat \<Rightarrow> buffers \<Rightarrow> (buffers, CryptoError, unit) outcome" where
  "deref_mut_buffer a h =
     (case h a of
        VecU8 v \<Rightarrow> Ok () h
      | Secure b \<Rightarrow> if sb_p b \<noteq> ReadWrite then Panic ''DerefMut, but state is not ReadWrite'' else Ok () h)"

text \<open>The memory behind a buffer.\<close>

fun memory :: "Buffer \<Rightarrow> region" where
  "memory (VecU8 v) = \<lparr>rg_bytes = v, rg_prot = ReadWrite\<rparr>"
| "memory (Secure b) = sb_z b"

fun put_memory :: "region \<Rightarrow> Buffer \<Rightarrow> Buffer" where
  "put_memory r (VecU8 v) = VecU8 (rg_bytes r)"
| "put_memory r (Secure b) = Secure (b\<lparr>sb_z := r\<rparr>)"

definition ptr_read :: "nat \<Rightarrow> nat \<Rightarrow> buffers \<Rightarrow> (buffers, CryptoError, bytes) outcome" where
  "ptr_read a n h = (case raw_read 0 n (memory (h a)) of Inl m \<Rightarrow> Panic m | Inr bs \<Rightarrow> Ok bs h)"

definition ptr_write :: "nat \<Rightarrow> nat \<Rightarrow> bytes \<Rightarrow> buffers \<Rightarrow> (buffers, CryptoError, unit) outcome" where
  "ptr_write a off bs h =
     (case raw_write off bs (memory (h a)) of Inl m \<Rightarrow> Panic m | Inr r \<Rightarrow> Ok () (h(a := put_memory r (h a))))"

text \<open>Provided methods of the trait. \<open>zero\<close> uses \<open>zeroize\<close> on the slice.\<close>

definition Buffer_zero :: "nat \<Rightarrow> unit on_buffers" where
  "Buffer_zero a =
     under_locks [WrLock a] (\<lambda>h.
       bind_ok (deref_mut_buffer a h) (\<lambda>_ h. ptr_write a 0 (replicate (Buffer_len (h a)) 0) h))"

definition Buffer_write :: "bool \<Rightarrow> nat \<Rightarrow> u64 \<Rightarrow> bytes \<Rightarrow> unit on_buffers" where
  "Buffer_write checks a offset data h =
     (case add_u64 checks offset (of_nat (length data)) of
        None \<Rightarrow> Panic ''attempt to add with overflow''
      | Some stop \<Rightarrow>
          if Buffer_len (h a) < unat stop then Err WriteOverflow h
          else under_locks [WrLock a] (\<lambda>h.
                 bind_ok (deref_mut_buffer a h) (\<lambda>_. ptr_write a (unat offset) data)) h)"

unbundle bit_operations_syntax

text \<open>\<open>(size + 7) & !7\<close>.\<close>

definition align_size :: "bool \<Rightarrow> u64 \<Rightarrow> u64 option" where
  "align_size checks sz = map_option (\<lambda>s. s AND NOT 7) (add_u64 checks sz 7)"

definition SecureBuffer_new :: "bool \<Rightarrow> (nat \<Rightarrow> bytes option) \<Rightarrow> u64 \<Rightarrow> (unit, CryptoError, SecureBuffer) outcome" where
  "SecureBuffer_new checks malloc sz =
     (case align_size checks sz of
        None \<Rightarrow> Panic ''attempt to add with overflow''
      | Some aligned \<Rightarrow>
          (case malloc (unat aligned) of
             None \<Rightarrow> Panic ''sodium_malloc could not allocate''
           | Some mem \<Rightarrow>
               (case raw_write 0 (replicate (unat aligned) 0) \<lparr>rg_bytes = mem, rg_prot = ReadWrite\<rparr> of
                  Inl m \<Rightarrow> Panic m
                | Inr r \<Rightarrow> Ok \<lparr>sb_z = mprotect NoAccess r, sb_s = unat sz, sb_p = NoAccess\<rparr> ())))"

text \<open>The buffer at \<open>a\<close> cloned to the free address \<open>new\<close>; the read lock lives to the end of the statement.\<close>

definition SecureBuffer_clone :: "bool \<Rightarrow> (nat \<Rightarrow> bytes option) \<Rightarrow> nat \<Rightarrow> nat \<Rightarrow> unit on_buffers" where
  "SecureBuffer_clone checks malloc a new h =
     (case SecureBuffer_new checks malloc (of_nat (Buffer_len (h a))) of
        Panic m \<Rightarrow> Panic m
      | Err e _ \<Rightarrow> Err e h
      | Ok out _ \<Rightarrow>
          under_locks [RdLock a] (\<lambda>h.
            bind_ok (deref_buffer a h) (\<lambda>_ h.
              bind_ok (ptr_read a (Buffer_len (h a)) h) (\<lambda>data h.
                expect ''could not write new'' (Buffer_write checks new 0 data h)))) (h(new := Secure out)))"

definition box_clone :: "bool \<Rightarrow> (nat \<Rightarrow> bytes option) \<Rightarrow> nat \<Rightarrow> nat \<Rightarrow> unit on_buffers" where
  "box_clone checks malloc a new h =
     (case h a of
        VecU8 v \<Rightarrow> Ok () (h(new := VecU8 v))
      | Secure b \<Rightarrow> SecureBuffer_clone checks malloc a new h)"

text \<open>\<open>Debug\<close>: in an accessible state it formats \<open>*self\<close>, which is this method again.\<close>

partial_function (option) SecureBuffer_fmt :: "SecureBuffer \<Rightarrow> string option" where
  "SecureBuffer_fmt b =
     (if sb_p b = NoAccess then Some (''SecureBuffer( '' @ [CHR 0x22] @ ''<NO_ACCESS>'' @ [CHR 0x22] @ '' )'')
      else Option.bind (SecureBuffer_fmt b) (\<lambda>inner. Some (''SecureBuffer( '' @ inner @ '' )'')))"

section \<open>Closed buffers\<close>

text \<open>
  A closed buffer: not accessible, in its own eyes and those of the operating system, and not longer than its region.
\<close>

fun closed :: "Buffer \<Rightarrow> bool" where
  "closed (VecU8 v) \<longleftrightarrow> True"
| "closed (Secure b) \<longleftrightarrow> sb_p b = NoAccess \<and> rg_prot (sb_z b) = NoAccess \<and> sb_s b \<le> length (rg_bytes (sb_z b))"

fun opened :: "ProtectState \<Rightarrow> Buffer \<Rightarrow> Buffer" where
  "opened st (VecU8 v) = VecU8 v"
| "opened st (Secure b) = Secure (b\<lparr>sb_z := mprotect st (sb_z b), sb_p := st\<rparr>)"

fun content :: "Buffer \<Rightarrow> bytes" where
  "content (VecU8 v) = v"
| "content (Secure b) = take (sb_s b) (rg_bytes (sb_z b))"

fun overwrite :: "nat \<Rightarrow> bytes \<Rightarrow> Buffer \<Rightarrow> Buffer" where
  "overwrite off bs (VecU8 v) = VecU8 (patch off bs v)"
| "overwrite off bs (Secure b) = Secure (b\<lparr>sb_z := (sb_z b)\<lparr>rg_bytes := patch off bs (rg_bytes (sb_z b))\<rparr>\<rparr>)"

lemma length_content [simp]: "closed b \<Longrightarrow> length (content b) = Buffer_len b"
  by (cases b) auto

lemma Buffer_len_overwrite [simp]:
  "off + length bs \<le> length (content b) \<Longrightarrow> Buffer_len (overwrite off bs b) = Buffer_len b"
  by (cases b) (auto simp: length_patch)

lemma Buffer_len_opened [simp]: "Buffer_len (opened st b) = Buffer_len b"
  by (cases b) auto

text \<open>
  Both implementations of \<open>Buffer\<close> keep the contract of a lockable buffer.
\<close>

lemma locker_new_ok:
  "closed (h (target l)) \<Longrightarrow> locker_new l h = Ok () (h(target l := opened (lock_mode l) (h (target l))))"
  by (cases l; cases "h (target l)")
     (auto simp: set_readable_def set_writable_def SecureBuffer_set_readable_def SecureBuffer_set_writable_def fun_upd_idem)

lemma locker_drop_ok:
  "closed b \<Longrightarrow> st \<noteq> NoAccess \<Longrightarrow> h a = opened st b \<Longrightarrow> locker_drop a h = Ok () (h(a := b))"
  by (cases b) (auto simp: locker_drop_def set_no_access_def SecureBuffer_set_no_access_def mprotect_def fun_upd_idem)

lemma ptr_read_ok:
  "closed b \<Longrightarrow> st \<noteq> NoAccess \<Longrightarrow> h a = opened st b \<Longrightarrow> n \<le> length (content b) \<Longrightarrow>
   ptr_read a n h = Ok (take n (content b)) h"
  by (cases b) (auto simp: ptr_read_def raw_read_def mprotect_def)

lemma ptr_write_ok:
  "closed b \<Longrightarrow> h a = opened ReadWrite b \<Longrightarrow> off + length bs \<le> length (content b) \<Longrightarrow>
   ptr_write a off bs h = Ok () (h(a := opened ReadWrite (overwrite off bs b)))"
  by (cases b) (auto simp: ptr_write_def raw_write_def mprotect_def)

lemma overwrite_ok:
  assumes "closed b" and "off + length bs \<le> length (content b)"
  shows "closed (overwrite off bs b)" and "content (overwrite off bs b) = patch off bs (content b)"
  using assms by (cases b; auto simp: length_patch take_patch)+

lemma deref_ok:
  assumes "h a = opened st b"
  shows "st \<noteq> NoAccess \<Longrightarrow> deref_buffer a h = Ok () h" and "st = ReadWrite \<Longrightarrow> deref_mut_buffer a h = Ok () h"
  using assms by (cases b; simp)+

interpretation buf: lockable locker_new locker_drop deref_buffer deref_mut_buffer ptr_read ptr_write
    closed opened content overwrite
  by unfold_locales (simp_all add: locker_new_ok locker_drop_ok deref_ok ptr_read_ok ptr_write_ok overwrite_ok
      del: deref_buffer.simps deref_mut_buffer.simps)

section \<open>Operations of a buffer\<close>

lemma and_not_minus: "s AND NOT m = s - (s AND m)" for s m :: u64
proof -
  have "s - (s AND m) = s AND NOT (s AND m)"
    by (rule disjunctive_diff_eq_and_not) (simp add: bit_eq_iff bit_simps)
  also have "\<dots> = s AND NOT m" by (auto simp: bit_eq_iff bit_simps)
  finally show ?thesis by simp
qed

lemma and_not_7: "unat (s AND NOT 7 :: u64) = unat s - unat s mod 8"
proof -
  have "s AND NOT 7 = s - take_bit 3 s"
    by (subst and_not_minus) (simp add: take_bit_eq_mask mask_eq_exp_minus_1)
  moreover have "unat (take_bit 3 s) = unat s mod 8"
    using unsigned_take_bit_eq[of 3 s] by (metis take_bit_eq_mod power3_eq_cube numeral_times_numeral
        semiring_norm(11,13) unsigned_take_bit_eq)
  moreover have "take_bit 3 s \<le> s" by (simp add: word_le_nat_alt calculation(2))
  ultimately show ?thesis by (simp add: unat_sub)
qed

lemma align_size_spec:
  assumes "unat sz + 7 < 2 ^ 64"
  obtains aligned where "align_size checks sz = Some aligned" and "8 dvd unat aligned"
    and "unat sz \<le> unat aligned" and "unat aligned < unat sz + 8"
proof -
  have no: "unat (sz + 7) = unat sz + 7" using assms by (simp add: unat_add_lem[THEN iffD1])
  then have "\<not> sz + 7 < sz" by (simp add: word_less_nat_alt)
  define aligned where "aligned = (sz + 7) AND NOT 7"
  have "unat aligned = (unat sz + 7) - (unat sz + 7) mod 8"
    unfolding aligned_def by (subst and_not_7) (simp add: no)
  moreover from this have "8 dvd unat aligned" by (simp add: dvd_minus_mod)
  moreover have "align_size checks sz = Some aligned"
    using \<open>\<not> sz + 7 < sz\<close> by (simp add: align_size_def add_u64_def aligned_def)
  ultimately show ?thesis by (intro that) (assumption, assumption, arith+)
qed

text \<open>
  A new buffer has the size asked for, is all zero and closed.
\<close>

lemma SecureBuffer_new_spec:
  assumes "unat sz + 7 < 2 ^ 64" and "\<And>n. \<exists>mem. malloc n = Some mem \<and> length mem = n"
  obtains b where "(SecureBuffer_new checks malloc sz :: (unit, CryptoError, SecureBuffer) outcome) = Ok b ()"
    and "closed (Secure b)" and "sb_s b = unat sz" and "content (Secure b) = replicate (unat sz) 0"
proof -
  from assms(1) obtain aligned where al: "align_size checks sz = Some aligned" "unat sz \<le> unat aligned"
    by (rule align_size_spec)
  from assms(2) obtain mem where mem: "malloc (unat aligned) = Some mem" "length mem = unat aligned" by blast
  let ?r = "\<lparr>rg_bytes = replicate (unat aligned) 0, rg_prot = ReadWrite\<rparr>"
  have "raw_write 0 (replicate (unat aligned) 0) \<lparr>rg_bytes = mem, rg_prot = ReadWrite\<rparr> = Inr ?r"
    using mem(2) by (cases "unat aligned = 0") (auto simp: raw_write_def patch_all)
  then have "(SecureBuffer_new checks malloc sz :: (unit, CryptoError, SecureBuffer) outcome) =
      Ok \<lparr>sb_z = mprotect NoAccess ?r, sb_s = unat sz, sb_p = NoAccess\<rparr> ()"
    by (simp add: SecureBuffer_new_def al(1) mem(1))
  then show ?thesis by (rule that) (use al(2) in \<open>auto simp: mprotect_def min_def\<close>)
qed

text \<open>
  Writing a closed buffer, at an offset that does not wrap around.
\<close>

lemma under_write_lock:
  assumes "closed (h a)" and "off + length bs \<le> Buffer_len (h a)" and "f (h(a := opened ReadWrite (h a))) = bs"
  shows "under_locks [WrLock a] (\<lambda>h. bind_ok (deref_mut_buffer a h) (\<lambda>_ h. ptr_write a off (f h) h)) h =
    Ok () (h(a := overwrite off bs (h a)))"
proof (rule buf.with_locks_closes[where k = "Ok ()"])
  have "open_heap opened [WrLock a] g = g(a := opened ReadWrite (g a))" for g
    by (auto simp: open_heap_def fun_eq_iff)
  then show "bind_ok (deref_mut_buffer a (open_heap opened [WrLock a] h)) (\<lambda>_ h. ptr_write a off (f h) h) =
      Ok () (open_heap opened [WrLock a] (h(a := overwrite off bs (h a))))"
    using assms by (simp add: deref_ok ptr_write_ok[of "h a"] del: deref_mut_buffer.simps)
qed (use assms overwrite_ok(1) in \<open>auto simp: heap_independent_def\<close>)

lemma add_u64_fits:
  "unat a + n < 2 ^ 64 \<Longrightarrow> \<exists>s. add_u64 checks a (of_nat n) = Some s \<and> unat s = unat a + n"
  by (auto simp: add_u64_def word_less_nat_alt unat_of_nat unat_word_ariths)

lemma Buffer_write_spec:
  assumes "closed (h a)" and "unat offset + length data < 2 ^ 64"
  shows "Buffer_write checks a offset data h =
    (if unat offset + length data \<le> Buffer_len (h a) then Ok () (h(a := overwrite (unat offset) data (h a)))
     else Err WriteOverflow h)"
proof -
  from add_u64_fits[OF assms(2)] obtain s where "add_u64 checks offset (of_nat (length data)) = Some s"
    and "unat s = unat offset + length data" by blast
  then show ?thesis using under_write_lock[of h a "unat offset" data "\<lambda>_. data"] assms(1)
    by (auto simp: Buffer_write_def)
qed

lemma Buffer_zero_spec:
  assumes "closed (h a)"
  shows "Buffer_zero a h = Ok () (h(a := overwrite 0 (replicate (Buffer_len (h a)) 0) (h a)))"
  unfolding Buffer_zero_def using assms by (intro under_write_lock) auto

text \<open>
  Where the sum wraps around, in a build without overflow checks, the check passes and memory outside of the buffer is written.
\<close>

lemma Buffer_write_wraps:
  assumes "closed (h a)" and "Buffer_len (h a) < 2 ^ 64 - 1" and "length (rg_bytes (memory (h a))) < 2 ^ 63"
  shows "Buffer_write False a (- 1) [x] h = Panic ''out of bounds write''"
proof -
  have "unat (- 1 :: u64) = 2 ^ 64 - 1" by (simp add: unsigned_minus_1_eq_mask mask_eq_exp_minus_1)
  moreover have "add_u64 False (- 1) (of_nat (length [x])) = Some 0" by (simp add: add_u64_def)
  ultimately show ?thesis using assms
    by (cases "h a") (auto simp: Buffer_write_def with_lock_def set_writable_def SecureBuffer_set_writable_def
        ptr_write_def raw_write_def mprotect_def fun_upd_idem)
qed

text \<open>
  Cloning gives a closed copy and leaves the original as it was.
\<close>

lemma SecureBuffer_clone_spec:
  assumes "closed (h a)" and "new \<noteq> a" and "Buffer_len (h a) + 7 < 2 ^ 64"
    and "\<And>n. \<exists>mem. malloc n = Some mem \<and> length mem = n"
  obtains b where "SecureBuffer_clone checks malloc a new h = Ok () (h(new := Secure b))"
    and "closed (Secure b)" and "content (Secure b) = content (h a)"
proof -
  let ?n = "Buffer_len (h a)"
  have n: "unat (of_nat ?n :: u64) = ?n" using assms(3) by (simp add: unat_of_nat)
  obtain b where b: "(SecureBuffer_new checks malloc (of_nat ?n) :: (unit, CryptoError, SecureBuffer) outcome) = Ok b ()"
    and cl: "closed (Secure b)" "sb_s b = ?n"
    using SecureBuffer_new_spec[of "of_nat ?n" malloc checks] assms(3,4) n by metis
  let ?h = "h(new := Secure b)" and ?data = "content (h a)"
  have oh: "open_heap opened [RdLock a] g = g(a := opened ReadOnly (g a))" for g
    by (auto simp: open_heap_def fun_eq_iff)
  let ?h' = "?h(new := overwrite 0 ?data (Secure b))"
  have "under_locks [RdLock a] (\<lambda>h.
      bind_ok (deref_buffer a h) (\<lambda>_ h. bind_ok (ptr_read a (Buffer_len (h a)) h) (\<lambda>data h.
        expect ''could not write new'' (Buffer_write checks new 0 data h)))) ?h = Ok () ?h'"
    (is "under_locks _ ?body _ = _")
  proof (rule buf.with_locks_closes[where k = "Ok ()"])
    let ?g = "?h(a := opened ReadOnly (h a))"
    have "ptr_read a ?n ?g = Ok ?data ?g" for e
      using assms(1) by (subst ptr_read_ok[of "h a" ReadOnly]) auto
    moreover have "Buffer_write checks new 0 ?data ?g = Ok () (?g(new := overwrite 0 ?data (Secure b)))"
      using assms cl by (subst Buffer_write_spec) (auto simp del: closed.simps)
    moreover have "deref_buffer a ?g = Ok () ?g" by (rule deref_ok(1)[of _ _ ReadOnly "h a"]) auto
    ultimately show "?body (open_heap opened [RdLock a] ?h) = Ok () (open_heap opened [RdLock a] ?h')"
      using assms(2) by (simp add: oh fun_upd_twist del: deref_buffer.simps)
  qed (use assms(1,2) in \<open>auto simp: heap_independent_def\<close>)
  moreover have "length ?data = length (content (Secure b))" using cl(2) length_content[OF cl(1)] length_content[OF assms(1)] by (simp del: length_content content.simps)
  then have "closed (overwrite 0 ?data (Secure b))" "content (overwrite 0 ?data (Secure b)) = ?data"
    using overwrite_ok[OF cl(1), of 0 ?data] by (simp_all add: patch_all del: closed.simps content.simps overwrite.simps)
  ultimately show ?thesis
    by (intro that[of "b\<lparr>sb_z := (sb_z b)\<lparr>rg_bytes := patch 0 ?data (rg_bytes (sb_z b))\<rparr>\<rparr>"])
       (simp_all add: SecureBuffer_clone_def b)
qed

text \<open>
  Formatting an accessible buffer does not end: the only solution of its equation is no result.
\<close>

lemma SecureBuffer_fmt_diverges: "sb_p b \<noteq> NoAccess \<Longrightarrow> SecureBuffer_fmt b = None"
proof (cases "SecureBuffer_fmt b")
  case (Some s)
  assume "sb_p b \<noteq> NoAccess"
  with Some have "s = ''SecureBuffer( '' @ s @ '' )''"
    using SecureBuffer_fmt.simps[of b] by simp
  then have "length s = length (''SecureBuffer( '' @ s @ '' )'')" by (rule arg_cong)
  then show ?thesis by simp
qed

end
