(* ===== verification/Sodium_System.thy ===== *)
theory Sodium_System
  imports Crypto_Buffer
begin

text \<open>
  The cryptography of the engine over libsodium (\<open>crates/sodium/src/crypto_system/mod.rs\<close>, the one implementation of
  the trait \<open>CryptoSystem\<close> of \<open>crates/crypto_api/src/crypto_system/mod.rs\<close>). libsodium is the record \<open>sodium\<close>: its constants, and for each C
  function the return code and the bytes it writes as a function of what it reads. Functions that draw random bytes have no
  arguments that would fix them; the record is an argument of each call. \<open>sodium_ok\<close> is the documented behaviour.
\<close>

section \<open>libsodium\<close>

record sodium =
  sha256_BYTES :: nat
  sha512_BYTES :: nat
  generichash_BYTES_MIN :: nat
  generichash_BYTES_MAX :: nat
  generichash_KEYBYTES_MIN :: nat
  generichash_KEYBYTES_MAX :: nat
  pwhash_SALTBYTES :: nat
  kdf_KEYBYTES :: nat
  kdf_CONTEXTBYTES :: nat
  kdf_BYTES_MIN :: nat
  kdf_BYTES_MAX :: nat
  sign_SEEDBYTES :: nat
  sign_PUBLICKEYBYTES :: nat
  sign_SECRETKEYBYTES :: nat
  sign_BYTES :: nat
  kx_SEEDBYTES :: nat
  kx_PUBLICKEYBYTES :: nat
  kx_SECRETKEYBYTES :: nat
  kx_SESSIONKEYBYTES :: nat
  aead_NPUBBYTES :: nat
  aead_ABYTES :: nat
  aead_KEYBYTES :: nat
  OPSLIMIT_INTERACTIVE :: u64
  OPSLIMIT_SENSITIVE :: u64
  MEMLIMIT_INTERACTIVE :: u64
  MEMLIMIT_SENSITIVE :: u64
  ALG_ARGON2ID13 :: int
  c_malloc :: "nat \<Rightarrow> bytes option"
  c_randombytes_buf :: "nat \<Rightarrow> bytes"
  c_sha256 :: "bytes \<Rightarrow> int \<times> bytes"
  c_sha512 :: "bytes \<Rightarrow> int \<times> bytes"
  c_generichash :: "nat \<Rightarrow> bytes \<Rightarrow> bytes option \<Rightarrow> int \<times> bytes"
  c_pwhash :: "nat \<Rightarrow> bytes \<Rightarrow> bytes \<Rightarrow> u64 \<Rightarrow> u64 \<Rightarrow> int \<Rightarrow> int \<times> bytes"
  c_kdf_derive_from_key :: "nat \<Rightarrow> u64 \<Rightarrow> bytes \<Rightarrow> bytes \<Rightarrow> int \<times> bytes"
  c_sign_seed_keypair :: "bytes \<Rightarrow> int \<times> bytes \<times> bytes"
  c_sign_keypair :: "int \<times> bytes \<times> bytes"
  c_sign_detached :: "bytes \<Rightarrow> bytes \<Rightarrow> int \<times> bytes"
  c_sign_verify_detached :: "bytes \<Rightarrow> bytes \<Rightarrow> bytes \<Rightarrow> int"
  c_kx_seed_keypair :: "bytes \<Rightarrow> int \<times> bytes \<times> bytes"
  c_kx_keypair :: "int \<times> bytes \<times> bytes"
  c_kx_client_session_keys :: "bytes \<Rightarrow> bytes \<Rightarrow> bytes \<Rightarrow> int \<times> bytes \<times> bytes"
  c_kx_server_session_keys :: "bytes \<Rightarrow> bytes \<Rightarrow> bytes \<Rightarrow> int \<times> bytes \<times> bytes"
  c_aead_encrypt :: "bytes \<Rightarrow> bytes option \<Rightarrow> bytes \<Rightarrow> bytes \<Rightarrow> int \<times> bytes"
  c_aead_decrypt :: "bytes \<Rightarrow> bytes option \<Rightarrow> bytes \<Rightarrow> bytes \<Rightarrow> int \<times> bytes"
  c_is_zero :: "bytes \<Rightarrow> int"
  c_increment :: "bytes \<Rightarrow> bytes"
  c_compare :: "bytes \<Rightarrow> bytes \<Rightarrow> int"

section \<open>Model\<close>

record SodiumCryptoSystem =
  pwhash_ops_limit :: u64
  pwhash_mem_limit :: u64
  pwhash_alg :: int

definition SodiumCryptoSystem_new :: "sodium \<Rightarrow> SodiumCryptoSystem" where
  "SodiumCryptoSystem_new so =
     \<lparr>pwhash_ops_limit = OPSLIMIT_SENSITIVE so, pwhash_mem_limit = MEMLIMIT_SENSITIVE so, pwhash_alg = ALG_ARGON2ID13 so\<rparr>"

definition set_pwhash_opslimit :: "u64 \<Rightarrow> SodiumCryptoSystem \<Rightarrow> SodiumCryptoSystem" where
  "set_pwhash_opslimit opslimit cs = cs\<lparr>pwhash_ops_limit := opslimit\<rparr>"

definition set_pwhash_memlimit :: "u64 \<Rightarrow> SodiumCryptoSystem \<Rightarrow> SodiumCryptoSystem" where
  "set_pwhash_memlimit memlimit cs = cs\<lparr>pwhash_mem_limit := memlimit\<rparr>"

definition set_pwhash_alg :: "int \<Rightarrow> SodiumCryptoSystem \<Rightarrow> SodiumCryptoSystem" where
  "set_pwhash_alg alg cs = cs\<lparr>pwhash_alg := alg\<rparr>"

definition set_pwhash_interactive :: "sodium \<Rightarrow> SodiumCryptoSystem \<Rightarrow> SodiumCryptoSystem" where
  "set_pwhash_interactive so cs =
     set_pwhash_memlimit (MEMLIMIT_INTERACTIVE so) (set_pwhash_opslimit (OPSLIMIT_INTERACTIVE so) cs)"

text \<open>A new buffer at the free address \<open>new\<close>.\<close>

definition buf_new_secure :: "bool \<Rightarrow> sodium \<Rightarrow> u64 \<Rightarrow> nat \<Rightarrow> unit on_buffers" where
  "buf_new_secure checks so sz new h =
     (case SecureBuffer_new checks (c_malloc so) sz of
        Ok b _ \<Rightarrow> Ok () (h(new := Secure b))
      | Err e _ \<Rightarrow> Err e h
      | Panic m \<Rightarrow> Panic m)"

definition buf_new_insecure :: "nat \<Rightarrow> nat \<Rightarrow> unit on_buffers" where
  "buf_new_insecure sz new h = Ok () (h(new := VecU8 (replicate sz 0)))"

text \<open>
  Calls into libsodium with the pointers the program takes, one or two outputs, and a pointer that may be null: an optional argument comes
  last.
\<close>

abbreviation sodium_call :: "nat list \<Rightarrow> (nat \<times> nat) list \<Rightarrow> (bytes list \<Rightarrow> int \<times> bytes list) \<Rightarrow> int on_buffers" where
  "sodium_call \<equiv> c_call deref_buffer deref_mut_buffer ptr_read ptr_write"

fun one_out :: "int \<times> bytes \<Rightarrow> int \<times> bytes list" where
  "one_out (rc, b) = (rc, [b])"

fun two_outs :: "int \<times> bytes \<times> bytes \<Rightarrow> int \<times> bytes list" where
  "two_outs (rc, b, c) = (rc, [b, c])"

definition nullable :: "nat \<Rightarrow> bytes list \<Rightarrow> bytes option" where
  "nullable i bs = (if i < length bs then Some (bs ! i) else None)"

definition with_len :: "buffers \<Rightarrow> nat \<Rightarrow> nat \<times> nat" where
  "with_len h a = (a, Buffer_len (h a))"

definition zero_or_fail :: "CryptoError \<Rightarrow> int \<Rightarrow> unit on_buffers" where
  "zero_or_fail e rc = (if rc \<noteq> 0 then Err e else Ok ())"

abbreviation libsodium_fail :: CryptoError where
  "libsodium_fail \<equiv> CryptoGeneric ''libsodium fail''"

definition randombytes_buf :: "sodium \<Rightarrow> nat \<Rightarrow> unit on_buffers" where
  "randombytes_buf so buffer h =
     under_locks [WrLock buffer] (\<lambda>g.
       bind_ok (sodium_call [buffer] [] (\<lambda>_. (0, [c_randombytes_buf so (Buffer_len (h buffer))])) g) (\<lambda>_. Ok ())) h"

definition hash_sha256 :: "sodium \<Rightarrow> nat \<Rightarrow> nat \<Rightarrow> unit on_buffers" where
  "hash_sha256 so hash data h =
     (if Buffer_len (h hash) \<noteq> sha256_BYTES so then Err BadHashSize h
      else under_locks [WrLock hash, RdLock data] (\<lambda>g.
        bind_ok (sodium_call [hash] [with_len h data] (\<lambda>bs. one_out (c_sha256 so (bs ! 0))) g)
          (zero_or_fail libsodium_fail)) h)"

definition hash_sha512 :: "sodium \<Rightarrow> nat \<Rightarrow> nat \<Rightarrow> unit on_buffers" where
  "hash_sha512 so hash data h =
     (if Buffer_len (h hash) \<noteq> sha512_BYTES so then Err BadHashSize h
      else under_locks [WrLock hash, RdLock data] (\<lambda>g.
        bind_ok (sodium_call [hash] [with_len h data] (\<lambda>bs. one_out (c_sha512 so (bs ! 0))) g) (\<lambda>_. Ok ())) h)"

definition generic_hash :: "sodium \<Rightarrow> nat \<Rightarrow> nat \<Rightarrow> nat option \<Rightarrow> unit on_buffers" where
  "generic_hash so hash data key h =
     (if Buffer_len (h hash) < generichash_BYTES_MIN so \<or> generichash_BYTES_MAX so < Buffer_len (h hash)
      then Err BadHashSize h
      else if (case key of None \<Rightarrow> False | Some k \<Rightarrow>
                 Buffer_len (h k) < generichash_KEYBYTES_MIN so \<or> generichash_KEYBYTES_MAX so < Buffer_len (h k))
      then Err BadKeySize h
      else under_locks (map RdLock (case key of None \<Rightarrow> [] | Some k \<Rightarrow> [k]) @ [WrLock hash, RdLock data]) (\<lambda>g.
        bind_ok (sodium_call [hash] (with_len h data # map (with_len h) (case key of None \<Rightarrow> [] | Some k \<Rightarrow> [k]))
            (\<lambda>bs. one_out (c_generichash so (Buffer_len (h hash)) (bs ! 0) (nullable 1 bs))) g) (\<lambda>_. Ok ())) h)"

definition pwhash_bytes :: nat where
  "pwhash_bytes = 32"

definition pwhash :: "sodium \<Rightarrow> SodiumCryptoSystem \<Rightarrow> nat \<Rightarrow> nat \<Rightarrow> nat \<Rightarrow> unit on_buffers" where
  "pwhash so cs hash password salt h =
     (if Buffer_len (h hash) \<noteq> pwhash_bytes then Err BadHashSize h
      else if Buffer_len (h salt) \<noteq> pwhash_SALTBYTES so then Err BadSaltSize h
      else under_locks [WrLock hash, RdLock password, RdLock salt] (\<lambda>g.
        bind_ok (sodium_call [hash] [with_len h password, (salt, pwhash_SALTBYTES so)]
            (\<lambda>bs. one_out (c_pwhash so (Buffer_len (h hash)) (bs ! 0) (bs ! 1)
               (pwhash_ops_limit cs) (pwhash_mem_limit cs) (pwhash_alg cs))) g)
          (\<lambda>res. if res = 0 then Ok () else if res = - 1 then Err OutOfMemory
                  else (\<lambda>_. Panic ''internal error: entered unreachable code''))) h)"

definition kdf :: "sodium \<Rightarrow> nat \<Rightarrow> u64 \<Rightarrow> nat \<Rightarrow> nat \<Rightarrow> unit on_buffers" where
  "kdf so out_buffer index context parent h =
     (if Buffer_len (h out_buffer) < kdf_BYTES_MIN so \<or> kdf_BYTES_MAX so < Buffer_len (h out_buffer)
      then Err BadOutBufferSize h
      else if Buffer_len (h parent) \<noteq> kdf_KEYBYTES so then Err BadParentSize h
      else if Buffer_len (h context) \<noteq> kdf_CONTEXTBYTES so then Err BadContextSize h
      else under_locks [WrLock out_buffer, RdLock context, RdLock parent] (\<lambda>g.
        bind_ok (sodium_call [out_buffer] [(context, kdf_CONTEXTBYTES so), (parent, kdf_KEYBYTES so)]
            (\<lambda>bs. one_out (c_kdf_derive_from_key so (Buffer_len (h out_buffer)) index (bs ! 0) (bs ! 1))) g)
          (zero_or_fail libsodium_fail)) h)"

definition sign_seed_keypair :: "sodium \<Rightarrow> nat \<Rightarrow> nat \<Rightarrow> nat \<Rightarrow> unit on_buffers" where
  "sign_seed_keypair so seed public_key secret_key h =
     (if Buffer_len (h seed) \<noteq> sign_SEEDBYTES so then Err BadSeedSize h
      else if Buffer_len (h public_key) \<noteq> sign_PUBLICKEYBYTES so then Err BadPublicKeySize h
      else if Buffer_len (h secret_key) \<noteq> sign_SECRETKEYBYTES so then Err BadSecretKeySize h
      else under_locks [WrLock public_key, WrLock secret_key, RdLock seed] (\<lambda>g.
        bind_ok (sodium_call [public_key, secret_key] [(seed, sign_SEEDBYTES so)]
            (\<lambda>bs. two_outs (c_sign_seed_keypair so (bs ! 0))) g) (zero_or_fail libsodium_fail)) h)"

definition sign_keypair :: "sodium \<Rightarrow> nat \<Rightarrow> nat \<Rightarrow> unit on_buffers" where
  "sign_keypair so public_key secret_key h =
     (if Buffer_len (h public_key) \<noteq> sign_PUBLICKEYBYTES so then Err BadPublicKeySize h
      else if Buffer_len (h secret_key) \<noteq> sign_SECRETKEYBYTES so then Err BadSecretKeySize h
      else under_locks [WrLock public_key, WrLock secret_key] (\<lambda>g.
        bind_ok (sodium_call [public_key, secret_key] [] (\<lambda>_. two_outs (c_sign_keypair so)) g)
          (zero_or_fail libsodium_fail)) h)"

definition sign :: "sodium \<Rightarrow> nat \<Rightarrow> nat \<Rightarrow> nat \<Rightarrow> unit on_buffers" where
  "sign so signature message secret_key h =
     (if Buffer_len (h signature) \<noteq> sign_BYTES so then Err BadSignatureSize h
      else if Buffer_len (h secret_key) \<noteq> sign_SECRETKEYBYTES so then Err BadSecretKeySize h
      else under_locks [RdLock message, RdLock secret_key, WrLock signature] (\<lambda>g.
        bind_ok (sodium_call [signature] [with_len h message, (secret_key, sign_SECRETKEYBYTES so)]
            (\<lambda>bs. one_out (c_sign_detached so (bs ! 0) (bs ! 1))) g) (zero_or_fail libsodium_fail)) h)"

text \<open>The one operation that takes its pointers without a lock.\<close>

definition sign_verify :: "sodium \<Rightarrow> nat \<Rightarrow> nat \<Rightarrow> nat \<Rightarrow> bool on_buffers" where
  "sign_verify so signature message public_key h =
     (if Buffer_len (h signature) \<noteq> sign_BYTES so then Err BadSignatureSize h
      else if Buffer_len (h public_key) \<noteq> sign_PUBLICKEYBYTES so then Err BadPublicKeySize h
      else bind_ok (sodium_call [] [(signature, sign_BYTES so), with_len h message, (public_key, sign_PUBLICKEYBYTES so)]
          (\<lambda>bs. (c_sign_verify_detached so (bs ! 0) (bs ! 1) (bs ! 2), [])) h) (\<lambda>rc. Ok (rc = 0)))"

definition kx_seed_keypair :: "sodium \<Rightarrow> nat \<Rightarrow> nat \<Rightarrow> nat \<Rightarrow> unit on_buffers" where
  "kx_seed_keypair so seed public_key secret_key h =
     (if Buffer_len (h seed) \<noteq> kx_SEEDBYTES so then Err BadSeedSize h
      else if Buffer_len (h public_key) \<noteq> kx_PUBLICKEYBYTES so then Err BadPublicKeySize h
      else if Buffer_len (h secret_key) \<noteq> kx_SECRETKEYBYTES so then Err BadSecretKeySize h
      else under_locks [WrLock public_key, WrLock secret_key, RdLock seed] (\<lambda>g.
        bind_ok (sodium_call [public_key, secret_key] [(seed, kx_SEEDBYTES so)]
            (\<lambda>bs. two_outs (c_kx_seed_keypair so (bs ! 0))) g) (zero_or_fail libsodium_fail)) h)"

definition kx_keypair :: "sodium \<Rightarrow> nat \<Rightarrow> nat \<Rightarrow> unit on_buffers" where
  "kx_keypair so public_key secret_key h =
     (if Buffer_len (h public_key) \<noteq> kx_PUBLICKEYBYTES so then Err BadPublicKeySize h
      else if Buffer_len (h secret_key) \<noteq> kx_SECRETKEYBYTES so then Err BadSecretKeySize h
      else under_locks [WrLock public_key, WrLock secret_key] (\<lambda>g.
        bind_ok (sodium_call [public_key, secret_key] [] (\<lambda>_. two_outs (c_kx_keypair so)) g)
          (zero_or_fail libsodium_fail)) h)"

definition kx_client_session_keys :: "sodium \<Rightarrow> nat \<Rightarrow> nat \<Rightarrow> nat \<Rightarrow> nat \<Rightarrow> nat \<Rightarrow> unit on_buffers" where
  "kx_client_session_keys so client_rx client_tx client_pk client_sk server_pk h =
     (if Buffer_len (h client_rx) \<noteq> kx_SESSIONKEYBYTES so then Err BadRxSessionKeySize h
      else if Buffer_len (h client_tx) \<noteq> kx_SESSIONKEYBYTES so then Err BadTxSessionKeySize h
      else if Buffer_len (h client_pk) \<noteq> kx_PUBLICKEYBYTES so then Err BadPublicKeySize h
      else if Buffer_len (h client_sk) \<noteq> kx_SECRETKEYBYTES so then Err BadSecretKeySize h
      else if Buffer_len (h server_pk) \<noteq> kx_PUBLICKEYBYTES so then Err BadPublicKeySize h
      else under_locks [WrLock client_rx, WrLock client_tx, RdLock client_pk, RdLock client_sk, RdLock server_pk] (\<lambda>g.
        bind_ok (sodium_call [client_rx, client_tx]
            [(client_pk, kx_PUBLICKEYBYTES so), (client_sk, kx_SECRETKEYBYTES so), (server_pk, kx_PUBLICKEYBYTES so)]
            (\<lambda>bs. two_outs (c_kx_client_session_keys so (bs ! 0) (bs ! 1) (bs ! 2))) g)
          (zero_or_fail libsodium_fail)) h)"

definition kx_server_session_keys :: "sodium \<Rightarrow> nat \<Rightarrow> nat \<Rightarrow> nat \<Rightarrow> nat \<Rightarrow> nat \<Rightarrow> unit on_buffers" where
  "kx_server_session_keys so server_rx server_tx server_pk server_sk client_pk h =
     (if Buffer_len (h server_rx) \<noteq> kx_SESSIONKEYBYTES so then Err BadRxSessionKeySize h
      else if Buffer_len (h server_tx) \<noteq> kx_SESSIONKEYBYTES so then Err BadTxSessionKeySize h
      else if Buffer_len (h server_pk) \<noteq> kx_PUBLICKEYBYTES so then Err BadPublicKeySize h
      else if Buffer_len (h server_sk) \<noteq> kx_SECRETKEYBYTES so then Err BadSecretKeySize h
      else if Buffer_len (h client_pk) \<noteq> kx_PUBLICKEYBYTES so then Err BadPublicKeySize h
      else under_locks [WrLock server_rx, WrLock server_tx, RdLock server_pk, RdLock server_sk, RdLock client_pk] (\<lambda>g.
        bind_ok (sodium_call [server_rx, server_tx]
            [(server_pk, kx_PUBLICKEYBYTES so), (server_sk, kx_SECRETKEYBYTES so), (client_pk, kx_PUBLICKEYBYTES so)]
            (\<lambda>bs. two_outs (c_kx_server_session_keys so (bs ! 0) (bs ! 1) (bs ! 2))) g)
          (zero_or_fail libsodium_fail)) h)"

text \<open>A length of memory that exists and the constant do not add up beyond 64 bits.\<close>

definition aead_encrypt :: "sodium \<Rightarrow> nat \<Rightarrow> nat \<Rightarrow> nat option \<Rightarrow> nat \<Rightarrow> nat \<Rightarrow> unit on_buffers" where
  "aead_encrypt so cipher message adata nonce secret h =
     (if Buffer_len (h cipher) \<noteq> Buffer_len (h message) + aead_ABYTES so then Err BadCipherSize h
      else if Buffer_len (h nonce) \<noteq> aead_NPUBBYTES so then Err BadNonceSize h
      else if Buffer_len (h secret) \<noteq> aead_KEYBYTES so then Err BadSecretKeySize h
      else under_locks (map RdLock (case adata of None \<Rightarrow> [] | Some a \<Rightarrow> [a]) @
          [WrLock cipher, RdLock message, RdLock nonce, RdLock secret]) (\<lambda>g.
        bind_ok (sodium_call [cipher] ([with_len h message, (nonce, aead_NPUBBYTES so), (secret, aead_KEYBYTES so)] @
              map (with_len h) (case adata of None \<Rightarrow> [] | Some a \<Rightarrow> [a]))
            (\<lambda>bs. one_out (c_aead_encrypt so (bs ! 0) (nullable 3 bs) (bs ! 1) (bs ! 2))) g)
          (zero_or_fail libsodium_fail)) h)"

definition aead_decrypt :: "bool \<Rightarrow> sodium \<Rightarrow> nat \<Rightarrow> nat \<Rightarrow> nat option \<Rightarrow> nat \<Rightarrow> nat \<Rightarrow> unit on_buffers" where
  "aead_decrypt checks so message cipher adata nonce secret h =
     (case sub_u64 checks (of_nat (Buffer_len (h cipher))) (of_nat (aead_ABYTES so)) of
        None \<Rightarrow> Panic ''attempt to subtract with overflow''
      | Some len \<Rightarrow>
          if Buffer_len (h message) \<noteq> unat len then Err BadMessageSize h
          else if Buffer_len (h nonce) \<noteq> aead_NPUBBYTES so then Err BadNonceSize h
          else if Buffer_len (h secret) \<noteq> aead_KEYBYTES so then Err BadSecretKeySize h
          else under_locks (map RdLock (case adata of None \<Rightarrow> [] | Some a \<Rightarrow> [a]) @
              [WrLock message, RdLock cipher, RdLock nonce, RdLock secret]) (\<lambda>g.
            bind_ok (sodium_call [message] ([with_len h cipher, (nonce, aead_NPUBBYTES so), (secret, aead_KEYBYTES so)] @
                  map (with_len h) (case adata of None \<Rightarrow> [] | Some a \<Rightarrow> [a]))
                (\<lambda>bs. one_out (c_aead_decrypt so (bs ! 0) (nullable 3 bs) (bs ! 1) (bs ! 2))) g)
              (zero_or_fail CouldNotDecrypt)) h)"

end
