(* ===== verification/Sodium_Paths.thy ===== *)
theory Sodium_Paths
  imports Sodium_System Lib3h_Types
begin

text \<open>
  What the cryptography of the engine promises over a libsodium that behaves as documented: no operation touches memory it
  may not touch, every buffer is closed afterwards, and what is encrypted, signed or agreed upon comes out right.
\<close>

section \<open>Documented behaviour of libsodium\<close>

definition sodium_ok :: "sodium \<Rightarrow> bool" where
  "sodium_ok so \<longleftrightarrow>
     (\<forall>n. \<exists>mem. c_malloc so n = Some mem \<and> length mem = n)
   \<and> (\<forall>n. length (c_randombytes_buf so n) = n)
   \<and> (\<forall>d. length (snd (c_sha256 so d)) = sha256_BYTES so)
   \<and> (\<forall>d. length (snd (c_sha512 so d)) = sha512_BYTES so)
   \<and> (\<forall>n d k. length (snd (c_generichash so n d k)) = n)
   \<and> (\<forall>n p s ol ml alg. length (snd (c_pwhash so n p s ol ml alg)) \<le> n \<and> fst (c_pwhash so n p s ol ml alg) \<in> {0, - 1})
   \<and> (\<forall>n i c k. length (snd (c_kdf_derive_from_key so n i c k)) \<le> n)
   \<and> (\<forall>s. map length (snd (two_outs (c_sign_seed_keypair so s))) = [sign_PUBLICKEYBYTES so, sign_SECRETKEYBYTES so])
   \<and> map length (snd (two_outs (c_sign_keypair so))) = [sign_PUBLICKEYBYTES so, sign_SECRETKEYBYTES so]
   \<and> (\<forall>m sk. length (snd (c_sign_detached so m sk)) = sign_BYTES so)
   \<and> (\<forall>s. map length (snd (two_outs (c_kx_seed_keypair so s))) = [kx_PUBLICKEYBYTES so, kx_SECRETKEYBYTES so])
   \<and> map length (snd (two_outs (c_kx_keypair so))) = [kx_PUBLICKEYBYTES so, kx_SECRETKEYBYTES so]
   \<and> (\<forall>pk sk opk. \<forall>b \<in> set (snd (two_outs (c_kx_client_session_keys so pk sk opk))). length b \<le> kx_SESSIONKEYBYTES so)
   \<and> (\<forall>pk sk opk. \<forall>b \<in> set (snd (two_outs (c_kx_server_session_keys so pk sk opk))). length b \<le> kx_SESSIONKEYBYTES so)
   \<and> (\<forall>m ad n k. length (snd (c_aead_encrypt so m ad n k)) = length m + aead_ABYTES so)
   \<and> (\<forall>c ad n k. length (snd (c_aead_decrypt so c ad n k)) \<le> length c - aead_ABYTES so)
   \<and> (\<forall>b. length (c_increment so b) = length b)"

lemma snd_outs [simp]: "snd (one_out r) = [snd r]" "fst (one_out r) = fst r"
  "snd (two_outs t) = [fst (snd t), snd (snd t)]" "fst (two_outs t) = fst t"
  by (cases r; cases t; simp)+

lemma sodium_lengths [simp]:
  assumes "sodium_ok so"
  shows "length (c_randombytes_buf so n) = n"
    and "length (snd (c_sha256 so d)) = sha256_BYTES so"
    and "length (snd (c_sha512 so d)) = sha512_BYTES so"
    and "length (snd (c_generichash so n d key)) = n"
    and "length (snd (c_pwhash so n p d ol ml alg)) \<le> n"
    and "length (snd (c_kdf_derive_from_key so n i c k)) \<le> n"
    and "length (fst (snd (c_sign_seed_keypair so d))) = sign_PUBLICKEYBYTES so"
    and "length (snd (snd (c_sign_seed_keypair so d))) = sign_SECRETKEYBYTES so"
    and "length (fst (snd (c_sign_keypair so))) = sign_PUBLICKEYBYTES so"
    and "length (snd (snd (c_sign_keypair so))) = sign_SECRETKEYBYTES so"
    and "length (snd (c_sign_detached so m sk)) = sign_BYTES so"
    and "length (fst (snd (c_kx_seed_keypair so d))) = kx_PUBLICKEYBYTES so"
    and "length (snd (snd (c_kx_seed_keypair so d))) = kx_SECRETKEYBYTES so"
    and "length (fst (snd (c_kx_keypair so))) = kx_PUBLICKEYBYTES so"
    and "length (snd (snd (c_kx_keypair so))) = kx_SECRETKEYBYTES so"
    and "length (fst (snd (c_kx_client_session_keys so pk sk opk))) \<le> kx_SESSIONKEYBYTES so"
    and "length (snd (snd (c_kx_client_session_keys so pk sk opk))) \<le> kx_SESSIONKEYBYTES so"
    and "length (fst (snd (c_kx_server_session_keys so pk sk opk))) \<le> kx_SESSIONKEYBYTES so"
    and "length (snd (snd (c_kx_server_session_keys so pk sk opk))) \<le> kx_SESSIONKEYBYTES so"
    and "length (snd (c_aead_encrypt so m ad nc k)) = length m + aead_ABYTES so"
    and "length (snd (c_aead_decrypt so c ad nc k)) \<le> length c - aead_ABYTES so"
    and "length (c_increment so d) = length d"
  using assms by (simp_all only: sodium_ok_def snd_outs list.map list.inject list.set ball_simps simp_thms)

lemma sodium_malloc: "sodium_ok so \<Longrightarrow> \<exists>mem. c_malloc so n = Some mem \<and> length mem = n"
  by (simp only: sodium_ok_def)

lemma pwhash_code [simp]:
  "sodium_ok so \<Longrightarrow> fst (c_pwhash so n p d ol ml alg) \<noteq> 0 \<Longrightarrow> fst (c_pwhash so n p d ol ml alg) = - 1"
  by (simp only: sodium_ok_def insert_iff empty_iff simp_thms) metis

section \<open>Safety of the calls\<close>

abbreviation buffers_kept :: "nat set \<Rightarrow> buffers \<Rightarrow> buffers \<Rightarrow> bool" where
  "buffers_kept \<equiv> kept closed content"

abbreviation buffers_safe :: "nat set \<Rightarrow> buffers \<Rightarrow> (buffers, CryptoError, 'r) outcome \<Rightarrow> bool" where
  "buffers_safe \<equiv> safe closed content"

text \<open>
  A call under locks on different closed buffers, with what C may read and write within their lengths.
\<close>

lemma sodium_op:
  assumes "\<forall>a. closed (h a)" and "distinct (map target ls)"
    and "distinct outs" and "set outs \<subseteq> {w. WrLock w \<in> set ls}"
    and "\<forall>(a, n) \<in> set ins. a \<in> target ` set ls \<and> n \<le> Buffer_len (h a)"
    and "f (map (\<lambda>(a, n). take n (content (h a))) ins) = (rc, written)"
    and "\<forall>(a, bs) \<in> set (zip outs written). length bs \<le> Buffer_len (h a)"
    and "heap_independent (ret rc)"
  shows "under_locks ls (\<lambda>g. bind_ok (sodium_call outs ins f g) ret) h = ret rc (filled overwrite (zip outs written) h)"
  using assms by (intro buf.locked_call) auto

lemma returns_zero_or_fail [simp]: "returns (zero_or_fail e rc)"
  by (simp add: zero_or_fail_def)

section \<open>Every operation\<close>

text \<open>A method call on the crypto system, with its buffers; the result of \<open>sign_verify\<close> is dropped.\<close>

datatype crypto_op =
    OpRandom nat
  | OpSha256 nat nat
  | OpSha512 nat nat
  | OpGeneric nat nat "nat option"
  | OpPwhash nat nat nat
  | OpKdf nat u64 nat nat
  | OpSignSeed nat nat nat
  | OpSignKeypair nat nat
  | OpSign nat nat nat
  | OpVerify nat nat nat
  | OpKxSeed nat nat nat
  | OpKxKeypair nat nat
  | OpKxClient nat nat nat nat nat
  | OpKxServer nat nat nat nat nat
  | OpEncrypt nat nat "nat option" nat nat
  | OpDecrypt nat nat "nat option" nat nat

fun run_op :: "bool \<Rightarrow> sodium \<Rightarrow> SodiumCryptoSystem \<Rightarrow> crypto_op \<Rightarrow> unit on_buffers" where
  "run_op checks so cs (OpRandom b) = randombytes_buf so b"
| "run_op checks so cs (OpSha256 a b) = hash_sha256 so a b"
| "run_op checks so cs (OpSha512 a b) = hash_sha512 so a b"
| "run_op checks so cs (OpGeneric a b k) = generic_hash so a b k"
| "run_op checks so cs (OpPwhash a b c) = pwhash so cs a b c"
| "run_op checks so cs (OpKdf a i b c) = kdf so a i b c"
| "run_op checks so cs (OpSignSeed a b c) = sign_seed_keypair so a b c"
| "run_op checks so cs (OpSignKeypair a b) = sign_keypair so a b"
| "run_op checks so cs (OpSign a b c) = sign so a b c"
| "run_op checks so cs (OpVerify a b c) = (\<lambda>h. bind_ok (sign_verify so a b c h) (\<lambda>_. Ok ()))"
| "run_op checks so cs (OpKxSeed a b c) = kx_seed_keypair so a b c"
| "run_op checks so cs (OpKxKeypair a b) = kx_keypair so a b"
| "run_op checks so cs (OpKxClient a b c d e) = kx_client_session_keys so a b c d e"
| "run_op checks so cs (OpKxServer a b c d e) = kx_server_session_keys so a b c d e"
| "run_op checks so cs (OpEncrypt a b ad n k) = aead_encrypt so a b ad n k"
| "run_op checks so cs (OpDecrypt a b ad n k) = aead_decrypt checks so a b ad n k"

text \<open>The buffers an operation writes, and all it is given.\<close>

fun op_outs :: "crypto_op \<Rightarrow> nat set" where
  "op_outs (OpRandom b) = {b}"
| "op_outs (OpSha256 a b) = {a}"
| "op_outs (OpSha512 a b) = {a}"
| "op_outs (OpGeneric a b k) = {a}"
| "op_outs (OpPwhash a b c) = {a}"
| "op_outs (OpKdf a i b c) = {a}"
| "op_outs (OpSignSeed a b c) = {b, c}"
| "op_outs (OpSignKeypair a b) = {a, b}"
| "op_outs (OpSign a b c) = {a}"
| "op_outs (OpVerify a b c) = {}"
| "op_outs (OpKxSeed a b c) = {b, c}"
| "op_outs (OpKxKeypair a b) = {a, b}"
| "op_outs (OpKxClient a b c d e) = {a, b}"
| "op_outs (OpKxServer a b c d e) = {a, b}"
| "op_outs (OpEncrypt a b ad n k) = {a}"
| "op_outs (OpDecrypt a b ad n k) = {a}"

fun op_args :: "crypto_op \<Rightarrow> nat list" where
  "op_args (OpRandom b) = [b]"
| "op_args (OpSha256 a b) = [a, b]"
| "op_args (OpSha512 a b) = [a, b]"
| "op_args (OpGeneric a b k) = [a, b] @ (case k of None \<Rightarrow> [] | Some k \<Rightarrow> [k])"
| "op_args (OpPwhash a b c) = [a, b, c]"
| "op_args (OpKdf a i b c) = [a, b, c]"
| "op_args (OpSignSeed a b c) = [a, b, c]"
| "op_args (OpSignKeypair a b) = [a, b]"
| "op_args (OpSign a b c) = [a, b, c]"
| "op_args (OpVerify a b c) = [a, b, c]"
| "op_args (OpKxSeed a b c) = [a, b, c]"
| "op_args (OpKxKeypair a b) = [a, b]"
| "op_args (OpKxClient a b c d e) = [a, b, c, d, e]"
| "op_args (OpKxServer a b c d e) = [a, b, c, d, e]"
| "op_args (OpEncrypt a b ad n k) = [a, b, n, k] @ (case ad of None \<Rightarrow> [] | Some x \<Rightarrow> [x])"
| "op_args (OpDecrypt a b ad n k) = [a, b, n, k] @ (case ad of None \<Rightarrow> [] | Some x \<Rightarrow> [x])"

text \<open>What verification and decryption need besides: public data in plain vectors; a cipher text that is not shorter than its tag.\<close>

fun op_ready :: "bool \<Rightarrow> sodium \<Rightarrow> buffers \<Rightarrow> crypto_op \<Rightarrow> bool" where
  "op_ready checks so h (OpVerify a b c) = (\<forall>x \<in> {a, b, c}. \<exists>v. h x = VecU8 v)"
| "op_ready checks so h (OpDecrypt a b ad n k) = (aead_ABYTES so \<le> Buffer_len (h b) \<and> Buffer_len (h b) < 2 ^ 64)"
| "op_ready checks so h _ = True"

lemmas op_defs = randombytes_buf_def hash_sha256_def hash_sha512_def generic_hash_def pwhash_def kdf_def
  sign_seed_keypair_def sign_keypair_def sign_def kx_seed_keypair_def kx_keypair_def
  kx_client_session_keys_def kx_server_session_keys_def aead_encrypt_def

lemma simple_ops_safe:
  assumes "sodium_ok so" and "\<forall>a. closed (h a)"
  shows "buffers_safe {a} h (randombytes_buf so a h)"
    and "a \<noteq> b \<Longrightarrow> buffers_safe {a} h (hash_sha256 so a b h)"
    and "a \<noteq> b \<Longrightarrow> buffers_safe {a} h (hash_sha512 so a b h)"
    and "distinct [a, b, c] \<Longrightarrow> buffers_safe {a} h (kdf so a i b c h)"
    and "distinct [a, b, c] \<Longrightarrow> buffers_safe {b, c} h (sign_seed_keypair so a b c h)"
    and "a \<noteq> b \<Longrightarrow> buffers_safe {a, b} h (sign_keypair so a b h)"
    and "distinct [a, b, c] \<Longrightarrow> buffers_safe {a} h (sign so a b c h)"
    and "distinct [a, b, c] \<Longrightarrow> buffers_safe {b, c} h (kx_seed_keypair so a b c h)"
    and "a \<noteq> b \<Longrightarrow> buffers_safe {a, b} h (kx_keypair so a b h)"
  unfolding op_defs
  by (intro safe_if safe_err buf.safe_call; use assms in \<open>auto simp: with_len_def map_eq_Cons_conv\<close>)+

lemma session_keys_safe:
  assumes "sodium_ok so" and "\<forall>a. closed (h a)" and "distinct [a, b, c, d, e]"
  shows "buffers_safe {a, b} h (kx_client_session_keys so a b c d e h)"
    and "buffers_safe {a, b} h (kx_server_session_keys so a b c d e h)"
  unfolding op_defs
  by (intro safe_if safe_err buf.safe_call; use assms in \<open>auto simp: with_len_def map_eq_Cons_conv\<close>)+

lemma pwhash_safe:
  assumes "sodium_ok so" and "\<forall>a. closed (h a)" and "distinct [a, b, c]"
  shows "buffers_safe {a} h (pwhash so cs a b c h)"
  unfolding op_defs
  by (intro safe_if safe_err buf.safe_call; use assms in \<open>auto simp: with_len_def map_eq_Cons_conv\<close>)

lemma optional_ops_safe:
  assumes "sodium_ok so" and "\<forall>a. closed (h a)"
  shows "distinct ([a, b] @ (case k of None \<Rightarrow> [] | Some x \<Rightarrow> [x])) \<Longrightarrow> buffers_safe {a} h (generic_hash so a b k h)"
    and "distinct ([a, b, c, d] @ (case k of None \<Rightarrow> [] | Some x \<Rightarrow> [x])) \<Longrightarrow> buffers_safe {a} h (aead_encrypt so a b k c d h)"
  unfolding op_defs
  by (intro safe_if safe_err buf.safe_call; use assms in \<open>auto simp: with_len_def map_eq_Cons_conv split: option.splits\<close>)+

section \<open>An example\<close>

text \<open>
  A stand-in for libsodium with its real sizes that encrypts by appending an empty tag and signs with the message's first byte.
\<close>

definition demo_sodium :: sodium where
  "demo_sodium =
     \<lparr>sha256_BYTES = 32, sha512_BYTES = 64, generichash_BYTES_MIN = 16, generichash_BYTES_MAX = 64,
      generichash_KEYBYTES_MIN = 16, generichash_KEYBYTES_MAX = 64, pwhash_SALTBYTES = 16, kdf_KEYBYTES = 32,
      kdf_CONTEXTBYTES = 8, kdf_BYTES_MIN = 16, kdf_BYTES_MAX = 64, sign_SEEDBYTES = 32, sign_PUBLICKEYBYTES = 32,
      sign_SECRETKEYBYTES = 64, sign_BYTES = 64, kx_SEEDBYTES = 32, kx_PUBLICKEYBYTES = 32, kx_SECRETKEYBYTES = 32,
      kx_SESSIONKEYBYTES = 32, aead_NPUBBYTES = 24, aead_ABYTES = 16, aead_KEYBYTES = 32,
      OPSLIMIT_INTERACTIVE = 2, OPSLIMIT_SENSITIVE = 4, MEMLIMIT_INTERACTIVE = 67108864, MEMLIMIT_SENSITIVE = 1073741824,
      ALG_ARGON2ID13 = 2,
      c_malloc = (\<lambda>n. Some (replicate n 0xdb)), c_randombytes_buf = (\<lambda>n. replicate n 4),
      c_sha256 = (\<lambda>_. (0, replicate 32 1)), c_sha512 = (\<lambda>_. (0, replicate 64 1)),
      c_generichash = (\<lambda>n _ _. (0, replicate n 1)), c_pwhash = (\<lambda>n _ _ _ _ _. (0, replicate n 1)),
      c_kdf_derive_from_key = (\<lambda>n _ _ _. (0, replicate n 1)),
      c_sign_seed_keypair = (\<lambda>_. (0, replicate 32 5, replicate 64 6)), c_sign_keypair = (0, replicate 32 5, replicate 64 6),
      c_sign_detached = (\<lambda>m _. (0, replicate 64 (case m of [] \<Rightarrow> 0 | x # _ \<Rightarrow> x))),
      c_sign_verify_detached = (\<lambda>sig m _. if sig = replicate 64 (case m of [] \<Rightarrow> 0 | x # _ \<Rightarrow> x) then 0 else - 1),
      c_kx_seed_keypair = (\<lambda>_. (0, replicate 32 5, replicate 32 6)), c_kx_keypair = (0, replicate 32 5, replicate 32 6),
      c_kx_client_session_keys = (\<lambda>_ _ _. (0, replicate 32 7, replicate 32 8)),
      c_kx_server_session_keys = (\<lambda>_ _ _. (0, replicate 32 8, replicate 32 7)),
      c_aead_encrypt = (\<lambda>m _ _ _. (0, m @ replicate 16 0)),
      c_aead_decrypt = (\<lambda>c _ _ _. (0, take (length c - 16) c)),
      c_is_zero = (\<lambda>b. if \<forall>x \<in> set b. x = 0 then 1 else 0),
      c_increment = (\<lambda>b. case b of [] \<Rightarrow> [] | x # xs \<Rightarrow> (x + 1) # xs),
      c_compare = (\<lambda>a b. if a = b then 0 else 1)\<rparr>"

text \<open>Buffers for a message, its cipher text, a nonce, a protected key and a signature.\<close>

definition demo_buffers :: buffers where
  "demo_buffers =
     (\<lambda>_. VecU8 [])
     (0 := VecU8 (replicate 19 0), 1 := VecU8 [1, 2, 3], 2 := VecU8 (replicate 24 9),
      3 := Secure \<lparr>sb_z = \<lparr>rg_bytes = replicate 32 7, rg_prot = NoAccess\<rparr>, sb_s = 32, sb_p = NoAccess\<rparr>,
      4 := Secure \<lparr>sb_z = \<lparr>rg_bytes = replicate 8 0, rg_prot = NoAccess\<rparr>, sb_s = 3, sb_p = NoAccess\<rparr>,
      5 := VecU8 (replicate 64 0))"

lemma demo_sodium_ok: "sodium_ok demo_sodium"
  by (simp add: sodium_ok_def demo_sodium_def split: list.split)

lemma demo_buffers_closed: "\<forall>a. closed (demo_buffers a)"
  by (simp add: demo_buffers_def)

section \<open>What the operations promise\<close>

lemma sub_u64_fits:
  assumes "n \<le> m" and "m < 2 ^ 64"
  obtains w where "sub_u64 checks (of_nat m) (of_nat n) = Some w" and "unat w = m - n"
proof -
  have "unat (of_nat m :: u64) = m" and "unat (of_nat n :: u64) = n" using assms by (simp_all add: unat_of_nat)
  then have "(of_nat n :: u64) \<le> of_nat m" using assms(1) by (simp add: word_le_nat_alt)
  then have "sub_u64 checks (of_nat m) (of_nat n) = Some (of_nat m - of_nat n)"
    and "unat (of_nat m - of_nat n :: u64) = m - n"
    using \<open>unat (of_nat m :: u64) = m\<close> \<open>unat (of_nat n :: u64) = n\<close> by (simp_all add: sub_u64_no_wrap unat_sub)
  then show ?thesis by (rule that)
qed

lemma decrypt_safe:
  assumes "sodium_ok so" and "\<forall>a. closed (h a)" and "aead_ABYTES so \<le> Buffer_len (h b)" and "Buffer_len (h b) < 2 ^ 64"
    and "distinct ([a, b, c, d] @ (case k of None \<Rightarrow> [] | Some x \<Rightarrow> [x]))"
  shows "buffers_safe {a} h (aead_decrypt checks so a b k c d h)"
proof -
  from assms(3,4) obtain w where w: "sub_u64 checks (of_nat (Buffer_len (h b))) (of_nat (aead_ABYTES so)) = Some w"
    and len: "unat w = Buffer_len (h b) - aead_ABYTES so" by (rule sub_u64_fits)
  show ?thesis
    unfolding aead_decrypt_def w option.case len
    by (intro safe_if safe_err buf.safe_call;
        use assms in \<open>auto simp: with_len_def map_eq_Cons_conv split: option.splits\<close>)
       (metis sodium_lengths(21))+
qed

text \<open>
  A public buffer may be read without a lock.
\<close>

lemma verify_result:
  assumes "h a = VecU8 sig" and "h b = VecU8 msg" and "h c = VecU8 pk"
  shows "sign_verify so a b c h =
    (if length sig \<noteq> sign_BYTES so then Err BadSignatureSize h
     else if length pk \<noteq> sign_PUBLICKEYBYTES so then Err BadPublicKeySize h
     else Ok (c_sign_verify_detached so sig msg pk = 0) h)"
  using assms by (simp add: sign_verify_def c_call_def with_len_def ptr_read_def raw_read_def)



section \<open>Encryption\<close>

text \<open>Authenticated encryption is inverted by decryption with the same nonce, key and additional data.\<close>

definition aead_correct :: "sodium \<Rightarrow> bool" where
  "aead_correct so \<longleftrightarrow> (\<forall>m ad n k. fst (c_aead_encrypt so m ad n k) = 0
     \<and> c_aead_decrypt so (snd (c_aead_encrypt so m ad n k)) ad n k = (0, m))"

definition adata_bytes :: "buffers \<Rightarrow> nat option \<Rightarrow> bytes option" where
  "adata_bytes h = map_option (\<lambda>a. content (h a))"

lemma filled_one: "filled overwrite (zip [a] [bs]) h = h(a := overwrite 0 bs (h a))"
  by (auto simp: filled_def fun_eq_iff)

lemma content_take [simp]: "closed b \<Longrightarrow> take (Buffer_len b) (content b) = content b"
  by (simp add: length_content[symmetric] del: length_content)

lemma encrypt_result:
  assumes "sodium_ok so" and "\<forall>a. closed (h a)"
    and "distinct ([cipher, message, nonce, secret] @ (case adata of None \<Rightarrow> [] | Some x \<Rightarrow> [x]))"
    and "Buffer_len (h cipher) = Buffer_len (h message) + aead_ABYTES so"
    and "Buffer_len (h nonce) = aead_NPUBBYTES so" and "Buffer_len (h secret) = aead_KEYBYTES so"
    and "c_aead_encrypt so (content (h message)) (adata_bytes h adata) (content (h nonce)) (content (h secret)) = (rc, bs)"
  shows "aead_encrypt so cipher message adata nonce secret h =
    zero_or_fail libsodium_fail rc (h(cipher := overwrite 0 bs (h cipher)))"
proof -
  have len: "length bs = Buffer_len (h cipher)"
    using assms(2,4) sodium_lengths(20)[OF assms(1), of "content (h message)"] assms(7) by (metis length_content snd_conv)
  have full: "take (aead_NPUBBYTES so) (content (h nonce)) = content (h nonce)"
    "take (aead_KEYBYTES so) (content (h secret)) = content (h secret)"
    using assms(2,5,6) content_take by metis+
  have "aead_encrypt so cipher message adata nonce secret h =
      zero_or_fail libsodium_fail rc (filled overwrite (zip [cipher] [bs]) h)"
    unfolding aead_encrypt_def using assms(4-6)
    by (simp only: simp_thms if_False, intro sodium_op)
       (use assms(2,3,7) len full in \<open>auto simp: with_len_def nullable_def adata_bytes_def heap_independent_def zero_or_fail_def
         split: option.splits\<close>)
  then show ?thesis by (simp only: filled_one)
qed

lemma decrypt_result:
  assumes "sodium_ok so" and "\<forall>a. closed (h a)"
    and "distinct ([message, cipher, nonce, secret] @ (case adata of None \<Rightarrow> [] | Some x \<Rightarrow> [x]))"
    and "Buffer_len (h cipher) = Buffer_len (h message) + aead_ABYTES so" and "Buffer_len (h cipher) < 2 ^ 64"
    and "Buffer_len (h nonce) = aead_NPUBBYTES so" and "Buffer_len (h secret) = aead_KEYBYTES so"
    and "c_aead_decrypt so (content (h cipher)) (adata_bytes h adata) (content (h nonce)) (content (h secret)) = (rc, bs)"
  shows "aead_decrypt checks so message cipher adata nonce secret h =
    zero_or_fail CouldNotDecrypt rc (h(message := overwrite 0 bs (h message)))"
proof -
  from assms(4,5) obtain w where w: "sub_u64 checks (of_nat (Buffer_len (h cipher))) (of_nat (aead_ABYTES so)) = Some w"
    and "unat w = Buffer_len (h cipher) - aead_ABYTES so" by (metis le_add2 sub_u64_fits)
  then have mlen: "Buffer_len (h message) = unat w" using assms(4) by simp
  have len: "length bs \<le> Buffer_len (h message)"
    using assms(2,4) sodium_lengths(21)[OF assms(1), of "content (h cipher)"] assms(8)
    by (metis add_diff_cancel_right' length_content snd_conv)
  have full: "take (aead_NPUBBYTES so) (content (h nonce)) = content (h nonce)"
    "take (aead_KEYBYTES so) (content (h secret)) = content (h secret)"
    using assms(2,6,7) content_take by metis+
  have "aead_decrypt checks so message cipher adata nonce secret h =
      zero_or_fail CouldNotDecrypt rc (filled overwrite (zip [message] [bs]) h)"
    unfolding aead_decrypt_def w option.case using mlen assms(6,7)
    by (simp only: simp_thms if_False, intro sodium_op)
       (use assms(2,3,8) len full in \<open>auto simp: with_len_def nullable_def adata_bytes_def heap_independent_def zero_or_fail_def
         split: option.splits\<close>)
  then show ?thesis by (simp only: filled_one)
qed

text \<open>
  C28: What \<open>aead_encrypt\<close> puts into the cipher buffer, \<open>aead_decrypt\<close> turns back into the message, in plain and in protected
  buffers, with and without additional data; both calls succeed, leave all buffers closed, and change nothing but their outputs.
\<close>

theorem encrypt_decrypt_roundtrip:
  assumes "sodium_ok so" and "aead_correct so" and "\<forall>a. closed (h a)"
    and "distinct ([cipher, message, out, nonce, secret] @ (case adata of None \<Rightarrow> [] | Some x \<Rightarrow> [x]))"
    and "Buffer_len (h cipher) = Buffer_len (h message) + aead_ABYTES so" and "Buffer_len (h cipher) < 2 ^ 64"
    and "Buffer_len (h out) = Buffer_len (h message)"
    and "Buffer_len (h nonce) = aead_NPUBBYTES so" and "Buffer_len (h secret) = aead_KEYBYTES so"
  shows "\<exists>h1 h2. aead_encrypt so cipher message adata nonce secret h = Ok () h1
    \<and> aead_decrypt checks so out cipher adata nonce secret h1 = Ok () h2
    \<and> content (h2 out) = content (h message) \<and> buffers_kept {cipher, out} h h2"
proof -
  let ?args = "\<lambda>f c. f c (adata_bytes h adata) (content (h nonce)) (content (h secret))"
  define bs where "bs = snd (?args (c_aead_encrypt so) (content (h message)))"
  have enc: "?args (c_aead_encrypt so) (content (h message)) = (0, bs)"
    and dec: "?args (c_aead_decrypt so) bs = (0, content (h message))"
    using assms(2) by (auto simp: aead_correct_def bs_def prod_eq_iff)
  have blen: "length bs = length (content (h cipher))"
    using assms(1,3,5) by (simp add: bs_def)
  define h1 where "h1 = h(cipher := overwrite 0 bs (h cipher))"
  have c1: "closed (h1 cipher)" "content (h1 cipher) = bs" "Buffer_len (h1 cipher) = Buffer_len (h cipher)"
    using overwrite_ok[of "h cipher" 0 bs] assms(3) blen by (simp_all add: h1_def patch_all)
  have "aead_encrypt so cipher message adata nonce secret h = Ok () h1"
    using encrypt_result[OF assms(1,3) _ assms(5,8,9) enc] assms(4)
    by (auto simp: h1_def zero_or_fail_def split: option.splits)
  moreover define h2 where "h2 = h1(out := overwrite 0 (content (h message)) (h1 out))"
  have same: "h1 nonce = h nonce" "h1 secret = h secret" "h1 out = h out" "adata_bytes h1 adata = adata_bytes h adata"
    using assms(4) by (auto simp: h1_def adata_bytes_def split: option.splits)
  have "aead_decrypt checks so out cipher adata nonce secret h1 = Ok () h2"
    using decrypt_result[OF assms(1), of h1 out cipher nonce secret adata 0 "content (h message)" checks]
      assms(3-9) c1 same dec
    by (auto simp: h1_def h2_def zero_or_fail_def split: option.splits)
  moreover have mlen: "length (content (h message)) = length (content (h out))" using assms(3,7) by simp
  have "closed (h2 out)" "content (h2 out) = content (h message)" "Buffer_len (h2 out) = Buffer_len (h out)"
    using overwrite_ok[of "h out" 0 "content (h message)"] assms(3) mlen same(3) by (simp_all add: h2_def patch_all)
  moreover have "buffers_kept {cipher, out} h h2"
    using calculation(3,5) c1 assms(3,4) by (auto simp: kept_def h2_def h1_def)
  ultimately show ?thesis by blast
qed

theorem encrypt_decrypt_roundtrip_witness:
  "\<exists>h1 h2. aead_encrypt demo_sodium 0 1 None 2 3 demo_buffers = Ok () h1
    \<and> aead_decrypt True demo_sodium 4 0 None 2 3 h1 = Ok () h2
    \<and> content (h2 4) = content (demo_buffers 1) \<and> buffers_kept {0, 4} demo_buffers h2"
  by (rule encrypt_decrypt_roundtrip[OF demo_sodium_ok _ demo_buffers_closed])
     (simp_all add: aead_correct_def demo_sodium_def demo_buffers_def)

section \<open>Locks that are missing, and locks that clash\<close>

text \<open>
  \<open>sign_verify\<close> takes no lock, so it panics when the signature, the message or the public key is in protected memory,
  although all have the right length and every other method locks the buffers it reads.
\<close>

theorem verify_protected_panics:
  assumes "closed (h signature)" and "h public_key = Secure b" and "closed (h public_key)"
    and "Buffer_len (h signature) = sign_BYTES so" and "Buffer_len (h public_key) = sign_PUBLICKEYBYTES so"
  shows "sign_verify so signature message public_key h = Panic ''Deref, but state is NoAccess''"
  using assms by (auto simp: sign_verify_def c_call_def with_len_def split: Buffer.splits)

theorem verify_protected_panics_witness:
  "sign_verify demo_sodium 5 1 3 demo_buffers = Panic ''Deref, but state is NoAccess''"
  by (rule verify_protected_panics[where b = "\<lparr>sb_z = \<lparr>rg_bytes = replicate 32 7, rg_prot = NoAccess\<rparr>, sb_s = 32, sb_p = NoAccess\<rparr>"])
     (simp_all add: demo_sodium_def demo_buffers_def)

text \<open>
  Two shared references to one protected buffer: the second lock panics.
\<close>

lemma locked_twice_panics:
  assumes "h a = Secure b" and "closed (h a)"
  shows "under_locks [RdLock a, RdLock a] body h = Panic ''not no access... bad logic''"
  using assms by (simp add: with_lock_def set_readable_def SecureBuffer_set_readable_def)

end
