(* ===== verification/Transport_Keys.thy ===== *)
theory Transport_Keys
  imports Sodium_Paths
begin

text \<open>
  The keys of an engine (\<open>TransportKeys\<close> in \<open>lib3h/src/engine/mod.rs\<close>), made by the crypto system, and what can be done
  with them. The \<open>hcid\<close> package, which renders the public key as the engine's id, is the pair \<open>with_kind\<close> (its error, if it has one)
  and \<open>encode\<close>; errors of the crypto system are kept in their rendering \<open>dbg\<close>.
\<close>

section \<open>Model\<close>

record TransportKeys =
  tk_transport_id :: Address
  tk_public_key :: nat
  tk_secret_key :: nat

definition TransportKeys_new ::
  "bool \<Rightarrow> sodium \<Rightarrow> string option \<Rightarrow> (bytes \<Rightarrow> string + string) \<Rightarrow> (CryptoError \<Rightarrow> string) \<Rightarrow> nat \<Rightarrow> nat \<Rightarrow> buffers \<Rightarrow>
    (buffers, Lib3hError, TransportKeys) outcome" where
  "TransportKeys_new checks so with_kind encode dbg public_key secret_key h =
     (case with_kind of
        Some e \<Rightarrow> Err (Lib3hHcId e) h
      | None \<Rightarrow>
          bind_ok
            (map_err (\<lambda>e. Lib3hCryptoApiError (dbg e))
              (bind_ok (buf_new_insecure (sign_PUBLICKEYBYTES so) public_key h) (\<lambda>_ h.
               bind_ok (buf_new_secure checks so (of_nat (sign_SECRETKEYBYTES so)) secret_key h) (\<lambda>_ h.
               bind_ok (sign_keypair so public_key secret_key h) (\<lambda>_ h.
               bind_ok (deref_buffer public_key h) (\<lambda>_ h. ptr_read public_key (Buffer_len (h public_key)) h))))))
            (\<lambda>bs h.
               case encode bs of
                 Inl e \<Rightarrow> Err (Lib3hHcId e) h
               | Inr i \<Rightarrow> Ok \<lparr>tk_transport_id = i, tk_public_key = public_key, tk_secret_key = secret_key\<rparr> h))"

section \<open>Making keys, signing and verifying\<close>

text \<open>Of a pair made by libsodium, the public key verifies what the secret key signs.\<close>

definition sign_correct :: "sodium \<Rightarrow> bool" where
  "sign_correct so \<longleftrightarrow> (case c_sign_keypair so of (rc, pk, sk) \<Rightarrow>
     rc = 0 \<and> (\<forall>m. fst (c_sign_detached so m sk) = 0 \<and> c_sign_verify_detached so (snd (c_sign_detached so m sk)) m pk = 0))"

lemma sign_keypair_result:
  assumes "\<forall>a. closed (h a)" and "sodium_ok so" and "public_key \<noteq> secret_key"
    and "Buffer_len (h public_key) = sign_PUBLICKEYBYTES so" and "Buffer_len (h secret_key) = sign_SECRETKEYBYTES so"
    and "c_sign_keypair so = (rc, pk, sk)"
  shows "sign_keypair so public_key secret_key h =
    zero_or_fail libsodium_fail rc (filled overwrite (zip [public_key, secret_key] [pk, sk]) h)"
proof -
  have "length pk = sign_PUBLICKEYBYTES so" and "length sk = sign_SECRETKEYBYTES so"
    using sodium_lengths(9,10)[OF assms(2)] assms(6) by simp_all
  then show ?thesis
    unfolding sign_keypair_def using assms(4,5)
    by (simp only: simp_thms if_False, intro sodium_op)
       (use assms(1,3,6) in \<open>auto simp: heap_independent_def zero_or_fail_def\<close>)
qed

lemma sign_result:
  assumes "\<forall>a. closed (h a)" and "sodium_ok so" and "distinct [signature, message, secret_key]"
    and "Buffer_len (h signature) = sign_BYTES so" and "Buffer_len (h secret_key) = sign_SECRETKEYBYTES so"
    and "c_sign_detached so (content (h message)) (content (h secret_key)) = (rc, bs)"
  shows "sign so signature message secret_key h =
    zero_or_fail libsodium_fail rc (h(signature := overwrite 0 bs (h signature)))"
proof -
  have "length bs = sign_BYTES so" using sodium_lengths(11)[OF assms(2)] assms(6) by (metis snd_conv)
  moreover have "take (sign_SECRETKEYBYTES so) (content (h secret_key)) = content (h secret_key)"
    using assms(1,5) content_take by metis
  ultimately have "sign so signature message secret_key h =
      zero_or_fail libsodium_fail rc (filled overwrite (zip [signature] [bs]) h)"
    unfolding sign_def using assms(4,5)
    by (simp only: simp_thms if_False, intro sodium_op)
       (use assms(1,3,6) in \<open>auto simp: with_len_def heap_independent_def zero_or_fail_def\<close>)
  then show ?thesis by (simp only: filled_one)
qed

text \<open>
  The new keys: the public one in a plain vector, the secret one closed in protected memory.
\<close>

lemma TransportKeys_new_result:
  assumes "sodium_ok so" and "\<forall>a. closed (h a)" and "public_key \<noteq> secret_key" and "sign_SECRETKEYBYTES so + 7 < 2 ^ 64"
    and "c_sign_keypair so = (0, pk, sk)" and "encode pk = Inr i"
  obtains b where "TransportKeys_new checks so None encode dbg public_key secret_key h =
      Ok \<lparr>tk_transport_id = i, tk_public_key = public_key, tk_secret_key = secret_key\<rparr>
        (h(public_key := VecU8 pk, secret_key := Secure b))"
    and "closed (Secure b)" and "content (Secure b) = sk"
proof -
  let ?n = "sign_SECRETKEYBYTES so"
  have "unat (of_nat ?n :: u64) = ?n" using assms(4) by (simp add: unat_of_nat)
  moreover have "\<And>n. \<exists>mem. c_malloc so n = Some mem \<and> length mem = n" using assms(1) by (rule sodium_malloc)
  ultimately obtain b where b: "SecureBuffer_new checks (c_malloc so) (of_nat ?n) = Ok b ()"
    and cl: "closed (Secure b)" "sb_s b = ?n"
    using SecureBuffer_new_spec[of "of_nat ?n" "c_malloc so" checks] assms(4) by metis
  let ?h = "h(public_key := VecU8 (replicate (sign_PUBLICKEYBYTES so) 0), secret_key := Secure b)"
  have lens: "length pk = sign_PUBLICKEYBYTES so" "length sk = ?n"
    using sodium_lengths(9,10)[OF assms(1)] assms(5) by simp_all
  have "sign_keypair so public_key secret_key ?h =
      zero_or_fail libsodium_fail 0 (filled overwrite (zip [public_key, secret_key] [pk, sk]) ?h)"
    using assms(1-3,5) cl by (intro sign_keypair_result) (auto simp del: closed.simps(2))
  moreover have "filled overwrite (zip [public_key, secret_key] [pk, sk]) ?h =
      h(public_key := VecU8 pk, secret_key := overwrite 0 sk (Secure b))"
    using assms(3) lens by (auto simp: filled_def fun_eq_iff patch_all)
  moreover have "length sk = length (content (Secure b))"
    using lens(2) cl(2) length_content[OF cl(1)] by (simp del: length_content content.simps)
  then have "closed (overwrite 0 sk (Secure b))" "content (overwrite 0 sk (Secure b)) = sk"
    using overwrite_ok[OF cl(1), of 0 sk] by (simp_all add: patch_all del: closed.simps content.simps overwrite.simps)
  ultimately show ?thesis
    using b assms(3,6)
    by (intro that[of "b\<lparr>sb_z := (sb_z b)\<lparr>rg_bytes := patch 0 sk (rg_bytes (sb_z b))\<rparr>\<rparr>"])
       (auto simp: TransportKeys_new_def buf_new_insecure_def buf_new_secure_def zero_or_fail_def ptr_read_def raw_read_def)
qed

text \<open>
  C12: An engine's new keys work together: making them succeeds, what is signed with the secret key is verified with the public
  one, and throughout the secret key stays in protected memory that is closed outside of the calls.
\<close>

theorem transport_keys_sign:
  assumes "sodium_ok so" and "sign_correct so" and "\<forall>a. closed (h a)"
    and "distinct [public_key, secret_key, message, signature]" and "sign_SECRETKEYBYTES so + 7 < 2 ^ 64"
    and "h message = VecU8 m" and "h signature = VecU8 old" and "length old = sign_BYTES so"
    and "encode (fst (snd (c_sign_keypair so))) = Inr i"
  shows "\<exists>keys h1 h2 b. TransportKeys_new checks so None encode dbg public_key secret_key h = Ok keys h1
    \<and> tk_transport_id keys = i
    \<and> sign so signature message (tk_secret_key keys) h1 = Ok () h2
    \<and> sign_verify so signature message (tk_public_key keys) h2 = Ok True h2
    \<and> h1 secret_key = Secure b \<and> h2 secret_key = Secure b \<and> closed (Secure b)"
proof -
  obtain pk sk where kp: "c_sign_keypair so = (0, pk, sk)"
    and ok: "fst (c_sign_detached so m sk) = 0" "c_sign_verify_detached so (snd (c_sign_detached so m sk)) m pk = 0"
    using assms(2) by (auto simp: sign_correct_def split: prod.splits)
  from TransportKeys_new_result[OF assms(1,3) _ assms(5) kp, of public_key secret_key encode i checks dbg] assms(4,9) kp
  obtain b where new: "TransportKeys_new checks so None encode dbg public_key secret_key h =
      Ok \<lparr>tk_transport_id = i, tk_public_key = public_key, tk_secret_key = secret_key\<rparr>
        (h(public_key := VecU8 pk, secret_key := Secure b))"
    and b: "closed (Secure b)" "content (Secure b) = sk" by auto
  let ?h1 = "h(public_key := VecU8 pk, secret_key := Secure b)"
  define sig where "sig = snd (c_sign_detached so m sk)"
  have siglen: "length sig = sign_BYTES so" using assms(1) by (simp add: sig_def)
  have "Buffer_len (Secure b) = sign_SECRETKEYBYTES so"
    using length_content[OF b(1)] b(2) sodium_lengths(10)[OF assms(1)] kp by (metis snd_conv)
  then have "sign so signature message secret_key ?h1 =
      zero_or_fail libsodium_fail 0 (?h1(signature := overwrite 0 sig (?h1 signature)))"
    using assms(1,3,4,6-8) b ok(1) by (intro sign_result) (auto simp: sig_def prod_eq_iff simp del: closed.simps(2) content.simps(2) Buffer_len.simps(2))
  then have "sign so signature message secret_key ?h1 = Ok () (?h1(signature := VecU8 sig))"
    using assms(4,7,8) siglen by (simp add: zero_or_fail_def patch_all)
  moreover have "length pk = sign_PUBLICKEYBYTES so" using sodium_lengths(9)[OF assms(1)] kp by simp
  then have "sign_verify so signature message public_key (?h1(signature := VecU8 sig)) = Ok True (?h1(signature := VecU8 sig))"
    using assms(4,6) siglen ok(2) by (subst verify_result[of _ _ sig _ m _ pk]) (auto simp: sig_def)
  moreover have "(?h1(signature := VecU8 sig)) secret_key = Secure b" using assms(4) by simp
  ultimately show ?thesis using new b(1)
    by (intro exI[of _ "\<lparr>tk_transport_id = i, tk_public_key = public_key, tk_secret_key = secret_key\<rparr>"]
        exI[of _ ?h1] exI[of _ "?h1(signature := VecU8 sig)"] exI[of _ b]) (simp del: closed.simps)
qed

theorem transport_keys_sign_witness:
  "\<exists>keys h1 h2 b. TransportKeys_new True demo_sodium None (\<lambda>_. Inr ''HcMabc'') (\<lambda>_. ''err'') 10 11 demo_buffers = Ok keys h1
    \<and> tk_transport_id keys = ''HcMabc''
    \<and> sign demo_sodium 5 1 (tk_secret_key keys) h1 = Ok () h2
    \<and> sign_verify demo_sodium 5 1 (tk_public_key keys) h2 = Ok True h2
    \<and> h1 11 = Secure b \<and> h2 11 = Secure b \<and> closed (Secure b)"
  by (rule transport_keys_sign[OF demo_sodium_ok _ demo_buffers_closed, where m = "[1, 2, 3]" and old = "replicate 64 0"])
     (simp_all add: sign_correct_def demo_sodium_def demo_buffers_def)

end
