(* ===== verification/Secbuf.thy ===== *)
theory Secbuf
  imports Sodium_System
begin

text \<open>
  The older buffers and functions of \<open>crates/sodium/src\<close>: \<open>SecBuf\<close> (\<open>secbuf.rs\<close>, \<open>secbuf_util.rs\<close>, \<open>secbuf_random.rs\<close>), backed by
  plain or by protected memory, and the functions over it (\<open>hash.rs\<close>, \<open>kdf.rs\<close>, \<open>pwhash.rs\<close>, \<open>sign.rs\<close>, \<open>kx.rs\<close>, \<open>aead.rs\<close>), which take
  their buffers by exclusive reference and, but for \<open>derive\<close>, do not look at their lengths. The buffers live in a heap; their
  addresses are the arguments. \<open>check_init\<close> initializes libsodium once and has no other effect.
\<close>

section \<open>Memory\<close>

datatype Bufferable = RustBuf bytes | SodiumBuf region nat

datatype SecurityType = SecInsecure | SecSecure

record SecBuf =
  sc_t :: SecurityType
  sc_b :: Bufferable
  sc_p :: ProtectState

type_synonym secbufs = "nat \<Rightarrow> SecBuf"

type_synonym 'r on_secbufs = "secbufs \<Rightarrow> (secbufs, CryptoError, 'r) outcome"

text \<open>A vector longer than \<open>isize::MAX\<close> cannot be allocated.\<close>

definition RustBuf_new :: "u64 \<Rightarrow> (unit, CryptoError, Bufferable) outcome" where
  "RustBuf_new s = (if 2 ^ 63 \<le> unat s then Panic ''capacity overflow'' else Ok (RustBuf (replicate (unat s) 0)) ())"

definition RustBuf_from_string :: "string \<Rightarrow> Bufferable" where
  "RustBuf_from_string s = RustBuf (string_bytes s)"

definition SodiumBuf_new :: "sodium \<Rightarrow> u64 \<Rightarrow> (unit, CryptoError, Bufferable) outcome" where
  "SodiumBuf_new so s =
     (if unat s mod 8 \<noteq> 0
      then Panic (''bad buffer size: '' @ string_of_nat (unat s) @ '', disallowing this for safety'')
      else case c_malloc so (unat s) of
             None \<Rightarrow> Panic ''cannot allocate''
           | Some mem \<Rightarrow> Ok (SodiumBuf (mprotect NoAccess \<lparr>rg_bytes = mem, rg_prot = ReadWrite\<rparr>) (unat s)) ())"

definition SodiumBuf_from_string :: "string \<Rightarrow> Bufferable" where
  "SodiumBuf_from_string s = RustBuf (string_bytes s)"

fun Bufferable_len :: "Bufferable \<Rightarrow> nat" where
  "Bufferable_len (RustBuf b) = length b"
| "Bufferable_len (SodiumBuf z s) = s"

text \<open>\<open>readable\<close>, \<open>writable\<close> and \<open>noaccess\<close> of the two kinds of memory.\<close>

fun Bufferable_protect :: "ProtectState \<Rightarrow> Bufferable \<Rightarrow> Bufferable" where
  "Bufferable_protect st (RustBuf b) = RustBuf b"
| "Bufferable_protect st (SodiumBuf z s) = SodiumBuf (mprotect st z) s"

text \<open>The memory behind \<open>ref_\<close> and \<open>ref_mut\<close>.\<close>

fun sec_memory :: "Bufferable \<Rightarrow> region" where
  "sec_memory (RustBuf b) = \<lparr>rg_bytes = b, rg_prot = ReadWrite\<rparr>"
| "sec_memory (SodiumBuf z s) = z"

fun put_sec_memory :: "region \<Rightarrow> Bufferable \<Rightarrow> Bufferable" where
  "put_sec_memory r (RustBuf b) = RustBuf (rg_bytes r)"
| "put_sec_memory r (SodiumBuf z s) = SodiumBuf r s"

definition sec_read :: "nat \<Rightarrow> nat \<Rightarrow> nat \<Rightarrow> bytes on_secbufs" where
  "sec_read a off n h = (case raw_read off n (sec_memory (sc_b (h a))) of Inl m \<Rightarrow> Panic m | Inr bs \<Rightarrow> Ok bs h)"

definition sec_write :: "nat \<Rightarrow> nat \<Rightarrow> bytes \<Rightarrow> unit on_secbufs" where
  "sec_write a off bs h =
     (case raw_write off bs (sec_memory (sc_b (h a))) of
        Inl m \<Rightarrow> Panic m
      | Inr r \<Rightarrow> Ok () (h(a := (h a)\<lparr>sc_b := put_sec_memory r (sc_b (h a))\<rparr>)))"

section \<open>SecBuf\<close>

definition with_insecure :: "u64 \<Rightarrow> (unit, CryptoError, SecBuf) outcome" where
  "with_insecure s = bind_ok (RustBuf_new s) (\<lambda>b. Ok \<lparr>sc_t = SecInsecure, sc_b = b, sc_p = NoAccess\<rparr>)"

definition with_secure :: "sodium \<Rightarrow> u64 \<Rightarrow> (unit, CryptoError, SecBuf) outcome" where
  "with_secure so s = bind_ok (SodiumBuf_new so s) (\<lambda>b. Ok \<lparr>sc_t = SecSecure, sc_b = b, sc_p = NoAccess\<rparr>)"

definition with_insecure_from_string :: "string \<Rightarrow> SecBuf" where
  "with_insecure_from_string s = \<lparr>sc_t = SecInsecure, sc_b = RustBuf_from_string s, sc_p = NoAccess\<rparr>"

definition is_secure :: "SecBuf \<Rightarrow> bool" where
  "is_secure b \<longleftrightarrow> sc_t b = SecSecure"

definition SecBuf_len :: "SecBuf \<Rightarrow> nat" where
  "SecBuf_len b = Bufferable_len (sc_b b)"

fun ProtectState_debug :: "ProtectState \<Rightarrow> string" where
  "ProtectState_debug NoAccess = ''NoAccess''"
| "ProtectState_debug ReadOnly = ''ReadOnly''"
| "ProtectState_debug ReadWrite = ''ReadWrite''"

text \<open>\<open>readable\<close> and \<open>writable\<close> differ in the state they set.\<close>

definition sec_open :: "ProtectState \<Rightarrow> nat \<Rightarrow> unit on_secbufs" where
  "sec_open st a h =
     (if sc_p (h a) = NoAccess
      then Ok () (h(a := (h a)\<lparr>sc_p := st, sc_b := Bufferable_protect st (sc_b (h a))\<rparr>))
      else Panic (''SecBuf trying to get Double Locked, Current state : '' @ ProtectState_debug (sc_p (h a))))"

definition sec_readable :: "nat \<Rightarrow> unit on_secbufs" where
  "sec_readable = sec_open ReadOnly"

definition sec_writable :: "nat \<Rightarrow> unit on_secbufs" where
  "sec_writable = sec_open ReadWrite"

definition sec_noaccess :: "nat \<Rightarrow> unit on_secbufs" where
  "sec_noaccess a h = Ok () (h(a := (h a)\<lparr>sc_p := NoAccess, sc_b := Bufferable_protect NoAccess (sc_b (h a))\<rparr>))"

text \<open>\<open>Locker::new\<close> and its \<open>drop\<close>.\<close>

fun Locker_new :: "nat lock \<Rightarrow> unit on_secbufs" where
  "Locker_new (RdLock a) = sec_readable a"
| "Locker_new (WrLock a) = sec_writable a"

definition Locker_drop :: "nat \<Rightarrow> unit on_secbufs" where
  "Locker_drop = sec_noaccess"

abbreviation lockers :: "nat lock list \<Rightarrow> 'r on_secbufs \<Rightarrow> 'r on_secbufs" where
  "lockers \<equiv> with_locks Locker_new Locker_drop"

definition sec_deref :: "nat \<Rightarrow> unit on_secbufs" where
  "sec_deref a h = (if sc_p (h a) = NoAccess then Panic ''SecBuf Deref, but state is NoAccess'' else Ok () h)"

definition sec_deref_mut :: "nat \<Rightarrow> unit on_secbufs" where
  "sec_deref_mut a h = (if sc_p (h a) \<noteq> ReadWrite then Panic ''SecBuf DerefMut, but state is not ReadWrite'' else Ok () h)"

text \<open>\<open>Debug\<close> reads the memory without a look at the state.\<close>

definition SecBuf_fmt :: "nat \<Rightarrow> bytes on_secbufs" where
  "SecBuf_fmt a h = sec_read a 0 (SecBuf_len (h a)) h"

definition sec_write_at :: "bool \<Rightarrow> nat \<Rightarrow> u64 \<Rightarrow> bytes \<Rightarrow> unit on_secbufs" where
  "sec_write_at checks a offset data h =
     (case add_u64 checks offset (of_nat (length data)) of
        None \<Rightarrow> Panic ''attempt to add with overflow''
      | Some stop \<Rightarrow>
          if SecBuf_len (h a) < unat stop then Err (CryptoError_new ''SecBuf write overflow'') h
          else lockers [WrLock a] (\<lambda>h. bind_ok (sec_deref_mut a h) (\<lambda>_. sec_write a (unat offset) data)) h)"

text \<open>
  The copy goes to the free address \<open>new\<close>. The source is opened and closed in the memory alone: the state it keeps of itself does not change.
\<close>

definition clone_partial :: "bool \<Rightarrow> sodium \<Rightarrow> nat \<Rightarrow> u64 \<Rightarrow> u64 \<Rightarrow> nat \<Rightarrow> unit on_secbufs" where
  "clone_partial checks so a off siz new h =
     (case add_u64 checks off siz of
        None \<Rightarrow> Panic ''attempt to add with overflow''
      | Some stop \<Rightarrow>
          if SecBuf_len (h a) < unat stop \<or> 2 ^ 63 \<le> unat off
          then Panic (''SecBuf attempting to clone '' @ string_of_nat (unat siz) @ ''-bytes segment from offset '' @
            string_of_nat (unat off) @ '', beyond '' @ string_of_nat (SecBuf_len (h a)) @ ''-byte extent of source SecBuf'')
          else
            (case (case sc_t (h a) of SecInsecure \<Rightarrow> with_insecure siz | SecSecure \<Rightarrow> with_secure so siz) of
               Panic m \<Rightarrow> Panic m
             | Err e _ \<Rightarrow> Err e h
             | Ok out _ \<Rightarrow>
                 bind_ok (lockers [WrLock new] (\<lambda>h.
                     bind_ok (sec_deref_mut new h) (\<lambda>_ h.
                       bind_ok (sec_read a (unat off) (unat siz) h) (sec_write new 0)))
                   ((h(new := out))(a := (h a)\<lparr>sc_b := Bufferable_protect ReadOnly (sc_b (h a))\<rparr>)))
                 (\<lambda>_ h. Ok () (h(a := (h a)\<lparr>sc_b := Bufferable_protect NoAccess (sc_b (h a))\<rparr>)))))"

definition SecBuf_clone :: "bool \<Rightarrow> sodium \<Rightarrow> nat \<Rightarrow> nat \<Rightarrow> unit on_secbufs" where
  "SecBuf_clone checks so a new h = clone_partial checks so a 0 (of_nat (SecBuf_len (h a))) new h"

section \<open>Functions of libsodium\<close>

abbreviation sec_call :: "nat list \<Rightarrow> (nat \<times> nat) list \<Rightarrow> (bytes list \<Rightarrow> int \<times> bytes list) \<Rightarrow> int on_secbufs" where
  "sec_call \<equiv> c_call sec_deref sec_deref_mut (\<lambda>a. sec_read a 0) sec_write"

definition sec_len :: "secbufs \<Rightarrow> nat \<Rightarrow> nat \<times> nat" where
  "sec_len h a = (a, SecBuf_len (h a))"

text \<open>The return code is not looked at.\<close>

definition ignore_code :: "int \<Rightarrow> unit on_secbufs" where
  "ignore_code rc = Ok ()"

text \<open>\<open>secbuf_util.rs\<close> and \<open>secbuf_random.rs\<close>: all of them take write locks. \<open>compare\<close> passes the length of its first argument for both.\<close>

definition check_buf_len :: "nat \<Rightarrow> bool" where
  "check_buf_len sb \<longleftrightarrow> sb \<noteq> 8 \<and> sb \<noteq> 16 \<and> sb \<noteq> 32 \<and> sb \<noteq> 64"

definition sec_is_zero :: "sodium \<Rightarrow> nat \<Rightarrow> bool on_secbufs" where
  "sec_is_zero so a h =
     lockers [WrLock a] (\<lambda>g. bind_ok (sec_call [] [sec_len h a] (\<lambda>bs. (c_is_zero so (bs ! 0), [])) g) (\<lambda>rc. Ok (rc = 1))) h"

definition sec_zero :: "nat \<Rightarrow> unit on_secbufs" where
  "sec_zero a h =
     lockers [WrLock a] (\<lambda>g. bind_ok (sec_call [a] [] (\<lambda>_. (0, [replicate (SecBuf_len (h a)) 0])) g) ignore_code) h"

definition sec_increment :: "sodium \<Rightarrow> nat \<Rightarrow> unit on_secbufs" where
  "sec_increment so a h =
     lockers [WrLock a] (\<lambda>g. bind_ok (sec_call [a] [sec_len h a] (\<lambda>bs. (0, [c_increment so (bs ! 0)])) g) ignore_code) h"

definition sec_compare :: "sodium \<Rightarrow> nat \<Rightarrow> nat \<Rightarrow> int on_secbufs" where
  "sec_compare so a b h =
     lockers [WrLock a, WrLock b] (\<lambda>g.
       bind_ok (sec_call [] [sec_len h a, (b, SecBuf_len (h a))] (\<lambda>bs. (c_compare so (bs ! 0) (bs ! 1), [])) g) Ok) h"

definition from_array :: "bool \<Rightarrow> nat \<Rightarrow> bytes \<Rightarrow> unit on_secbufs" where
  "from_array checks a data h =
     (if length data \<noteq> SecBuf_len (h a) then Err (CryptoGeneric ''Input does not have same size as SecBuf'') h
      else sec_write_at checks a 0 data h)"

definition randomize :: "sodium \<Rightarrow> nat \<Rightarrow> unit on_secbufs" where
  "randomize so a h =
     lockers [WrLock a] (\<lambda>g. bind_ok (sec_call [a] [] (\<lambda>_. (0, [c_randombytes_buf so (SecBuf_len (h a))])) g) ignore_code) h"

text \<open>\<open>hash.rs\<close>.\<close>

definition sec_sha256 :: "sodium \<Rightarrow> nat \<Rightarrow> nat \<Rightarrow> unit on_secbufs" where
  "sec_sha256 so input output h =
     lockers [RdLock input, WrLock output] (\<lambda>g.
       bind_ok (sec_call [output] [sec_len h input] (\<lambda>bs. one_out (c_sha256 so (bs ! 0))) g) ignore_code) h"

definition sec_sha512 :: "sodium \<Rightarrow> nat \<Rightarrow> nat \<Rightarrow> unit on_secbufs" where
  "sec_sha512 so input output h =
     lockers [RdLock input, WrLock output] (\<lambda>g.
       bind_ok (sec_call [output] [sec_len h input] (\<lambda>bs. one_out (c_sha512 so (bs ! 0))) g) ignore_code) h"

text \<open>\<open>kdf.rs\<close>: the first scope holds read locks while it compares the lengths.\<close>

definition derive_check :: "sodium \<Rightarrow> nat \<Rightarrow> nat \<Rightarrow> unit on_secbufs" where
  "derive_check so o_len c_len =
     (if o_len < kdf_BYTES_MIN so \<or> kdf_BYTES_MAX so < o_len
      then Err (OutputLength (''Invalid '' @ [CHR 0x27] @ ''out'' @ [CHR 0x27] @ '' Buffer length:'' @ string_of_nat o_len))
      else if c_len \<noteq> kdf_CONTEXTBYTES so
      then Err (OutputLength (''context must be a Buffer of length: '' @ string_of_nat (kdf_CONTEXTBYTES so) @ ''.''))
      else Ok ())"

definition sec_derive :: "sodium \<Rightarrow> nat \<Rightarrow> u64 \<Rightarrow> nat \<Rightarrow> nat \<Rightarrow> unit on_secbufs" where
  "sec_derive so out index context parent h =
     bind_ok (lockers [RdLock out, RdLock context] (\<lambda>h. derive_check so (SecBuf_len (h out)) (SecBuf_len (h context)) h) h) (\<lambda>_ h.
       lockers [WrLock out, RdLock parent, RdLock context] (\<lambda>g.
         bind_ok (sec_call [out] [(context, kdf_CONTEXTBYTES so), (parent, kdf_KEYBYTES so)]
           (\<lambda>bs. one_out (c_kdf_derive_from_key so (SecBuf_len (h out)) index (bs ! 0) (bs ! 1))) g) ignore_code) h)"

text \<open>\<open>pwhash.rs\<close>.\<close>

definition sec_pwhash :: "sodium \<Rightarrow> nat \<Rightarrow> u64 \<Rightarrow> u64 \<Rightarrow> int \<Rightarrow> nat \<Rightarrow> nat \<Rightarrow> unit on_secbufs" where
  "sec_pwhash so password ops_limit mem_limit alg salt hash h =
     lockers [RdLock salt, RdLock password, WrLock hash] (\<lambda>g.
       bind_ok (sec_call [hash] [sec_len h password, (salt, pwhash_SALTBYTES so)]
           (\<lambda>bs. one_out (c_pwhash so (SecBuf_len (h hash)) (bs ! 0) (bs ! 1) ops_limit mem_limit alg)) g)
         (\<lambda>res. if res = 0 then Ok () else if res = - 1 then Err OutOfMemory
                 else (\<lambda>_. Panic ''internal error: entered unreachable code''))) h"

text \<open>\<open>sign.rs\<close>.\<close>

definition sec_sign_seed_keypair :: "sodium \<Rightarrow> nat \<Rightarrow> nat \<Rightarrow> nat \<Rightarrow> unit on_secbufs" where
  "sec_sign_seed_keypair so public_key secret_key seed h =
     lockers [RdLock seed, WrLock secret_key, WrLock public_key] (\<lambda>g.
       bind_ok (sec_call [public_key, secret_key] [(seed, sign_SEEDBYTES so)]
         (\<lambda>bs. two_outs (c_sign_seed_keypair so (bs ! 0))) g) ignore_code) h"

definition sec_sign :: "sodium \<Rightarrow> nat \<Rightarrow> nat \<Rightarrow> nat \<Rightarrow> unit on_secbufs" where
  "sec_sign so message secret_key signature h =
     lockers [RdLock message, RdLock secret_key, WrLock signature] (\<lambda>g.
       bind_ok (sec_call [signature] [sec_len h message, (secret_key, sign_SECRETKEYBYTES so)]
         (\<lambda>bs. one_out (c_sign_detached so (bs ! 0) (bs ! 1))) g) ignore_code) h"

definition sec_verify :: "sodium \<Rightarrow> nat \<Rightarrow> nat \<Rightarrow> nat \<Rightarrow> bool on_secbufs" where
  "sec_verify so signature message public_key h =
     lockers [RdLock signature, RdLock message, RdLock public_key] (\<lambda>g.
       bind_ok (sec_call [] [(signature, sign_BYTES so), sec_len h message, (public_key, sign_PUBLICKEYBYTES so)]
         (\<lambda>bs. (c_sign_verify_detached so (bs ! 0) (bs ! 1) (bs ! 2), [])) g) (\<lambda>res. Ok (res = 0))) h"

text \<open>\<open>kx.rs\<close>.\<close>

definition sec_kx_keypair :: "sodium \<Rightarrow> nat \<Rightarrow> nat \<Rightarrow> unit on_secbufs" where
  "sec_kx_keypair so pk sk h =
     lockers [WrLock pk, WrLock sk] (\<lambda>g. bind_ok (sec_call [pk, sk] [] (\<lambda>_. two_outs (c_kx_keypair so)) g) ignore_code) h"

definition sec_kx_seed_keypair :: "sodium \<Rightarrow> nat \<Rightarrow> nat \<Rightarrow> nat \<Rightarrow> unit on_secbufs" where
  "sec_kx_seed_keypair so seed pk sk h =
     lockers [RdLock seed, WrLock pk, WrLock sk] (\<lambda>g.
       bind_ok (sec_call [pk, sk] [(seed, kx_SEEDBYTES so)] (\<lambda>bs. two_outs (c_kx_seed_keypair so (bs ! 0))) g) ignore_code) h"

definition sec_client_session :: "sodium \<Rightarrow> nat \<Rightarrow> nat \<Rightarrow> nat \<Rightarrow> nat \<Rightarrow> nat \<Rightarrow> unit on_secbufs" where
  "sec_client_session so client_pk client_sk server_pk rx tx h =
     lockers [WrLock rx, WrLock tx, RdLock client_sk, RdLock client_pk, RdLock server_pk] (\<lambda>g.
       bind_ok (sec_call [rx, tx]
           [(client_pk, kx_PUBLICKEYBYTES so), (client_sk, kx_SECRETKEYBYTES so), (server_pk, kx_PUBLICKEYBYTES so)]
         (\<lambda>bs. two_outs (c_kx_client_session_keys so (bs ! 0) (bs ! 1) (bs ! 2))) g) ignore_code) h"

definition sec_server_session :: "sodium \<Rightarrow> nat \<Rightarrow> nat \<Rightarrow> nat \<Rightarrow> nat \<Rightarrow> nat \<Rightarrow> unit on_secbufs" where
  "sec_server_session so server_pk server_sk client_pk rx tx h =
     lockers [WrLock rx, WrLock tx, RdLock client_pk, RdLock server_sk, RdLock server_pk] (\<lambda>g.
       bind_ok (sec_call [rx, tx]
           [(server_pk, kx_PUBLICKEYBYTES so), (server_sk, kx_SECRETKEYBYTES so), (client_pk, kx_PUBLICKEYBYTES so)]
         (\<lambda>bs. two_outs (c_kx_server_session_keys so (bs ! 0) (bs ! 1) (bs ! 2))) g) ignore_code) h"

text \<open>\<open>aead.rs\<close>.\<close>

definition sec_enc :: "sodium \<Rightarrow> nat \<Rightarrow> nat \<Rightarrow> nat option \<Rightarrow> nat \<Rightarrow> nat \<Rightarrow> unit on_secbufs" where
  "sec_enc so message secret adata nonce cipher h =
     lockers (map RdLock (case adata of None \<Rightarrow> [] | Some a \<Rightarrow> [a]) @
         [WrLock cipher, RdLock message, RdLock nonce, RdLock secret]) (\<lambda>g.
       bind_ok (sec_call [cipher] ([sec_len h message, (nonce, aead_NPUBBYTES so), (secret, aead_KEYBYTES so)] @
             map (sec_len h) (case adata of None \<Rightarrow> [] | Some a \<Rightarrow> [a]))
         (\<lambda>bs. one_out (c_aead_encrypt so (bs ! 0) (nullable 3 bs) (bs ! 1) (bs ! 2))) g) ignore_code) h"

definition sec_dec :: "sodium \<Rightarrow> nat \<Rightarrow> nat \<Rightarrow> nat option \<Rightarrow> nat \<Rightarrow> nat \<Rightarrow> unit on_secbufs" where
  "sec_dec so decrypted_message secret adata nonce cipher h =
     lockers (map RdLock (case adata of None \<Rightarrow> [] | Some a \<Rightarrow> [a]) @
         [WrLock decrypted_message, RdLock cipher, RdLock nonce, RdLock secret]) (\<lambda>g.
       bind_ok (sec_call [decrypted_message] ([sec_len h cipher, (nonce, aead_NPUBBYTES so), (secret, aead_KEYBYTES so)] @
             map (sec_len h) (case adata of None \<Rightarrow> [] | Some a \<Rightarrow> [a]))
         (\<lambda>bs. one_out (c_aead_decrypt so (bs ! 0) (nullable 3 bs) (bs ! 1) (bs ! 2))) g) ignore_code) h"

end
