(* ===== verification/Secbuf_Paths.thy ===== *)
theory Secbuf_Paths
  imports Secbuf Sodium_Paths
begin

text \<open>
  What the older buffers and functions promise. \<open>SecBuf\<close> keeps the contract of a lockable buffer, so the functions over it are
  safe for buffers of the right lengths; as they do not check the lengths, they leave the buffer when one is too short. Cloning a buffer that
  is open, and formatting one that is closed, break the agreement between a buffer's state and its memory.
\<close>

section \<open>Closed buffers\<close>

fun mem_closed :: "Bufferable \<Rightarrow> bool" where
  "mem_closed (RustBuf b) \<longleftrightarrow> True"
| "mem_closed (SodiumBuf z s) \<longleftrightarrow> rg_prot z = NoAccess \<and> length (rg_bytes z) = s"

definition sec_closed :: "SecBuf \<Rightarrow> bool" where
  "sec_closed b \<longleftrightarrow> sc_p b = NoAccess \<and> mem_closed (sc_b b)"

definition sec_opened :: "ProtectState \<Rightarrow> SecBuf \<Rightarrow> SecBuf" where
  "sec_opened st b = b\<lparr>sc_p := st, sc_b := Bufferable_protect st (sc_b b)\<rparr>"

definition sec_content :: "SecBuf \<Rightarrow> bytes" where
  "sec_content b = rg_bytes (sec_memory (sc_b b))"

definition sec_overwrite :: "nat \<Rightarrow> bytes \<Rightarrow> SecBuf \<Rightarrow> SecBuf" where
  "sec_overwrite off bs b =
     b\<lparr>sc_b := put_sec_memory ((sec_memory (sc_b b))\<lparr>rg_bytes := patch off bs (sec_content b)\<rparr>) (sc_b b)\<rparr>"

lemma length_sec_content [simp]: "sec_closed b \<Longrightarrow> length (sec_content b) = SecBuf_len b"
  by (cases "sc_b b") (auto simp: sec_closed_def sec_content_def SecBuf_len_def)

lemma sec_len_opened [simp]: "SecBuf_len (sec_opened st b) = SecBuf_len b"
  by (cases "sc_b b") (auto simp: sec_opened_def SecBuf_len_def)

lemma Locker_new_ok:
  "sec_closed (h (target l)) \<Longrightarrow> Locker_new l h = Ok () (h(target l := sec_opened (lock_mode l) (h (target l))))"
  by (cases l) (auto simp: sec_closed_def sec_readable_def sec_writable_def sec_open_def sec_opened_def)

lemma Locker_drop_ok:
  "sec_closed b \<Longrightarrow> h a = sec_opened st b \<Longrightarrow> Locker_drop a h = Ok () (h(a := b))"
  by (cases b; cases "sc_b b") (auto simp: sec_closed_def Locker_drop_def sec_noaccess_def sec_opened_def mprotect_def)

lemma sec_deref_ok:
  assumes "h a = sec_opened st b"
  shows "st \<noteq> NoAccess \<Longrightarrow> sec_deref a h = Ok () h" and "st = ReadWrite \<Longrightarrow> sec_deref_mut a h = Ok () h"
  using assms by (simp_all add: sec_deref_def sec_deref_mut_def sec_opened_def)

lemma sec_read_ok:
  "sec_closed b \<Longrightarrow> st \<noteq> NoAccess \<Longrightarrow> h a = sec_opened st b \<Longrightarrow> off + n \<le> length (sec_content b) \<Longrightarrow>
   sec_read a off n h = Ok (take n (drop off (sec_content b))) h"
  by (cases "sc_b b") (auto simp: sec_closed_def sec_read_def raw_read_def sec_content_def sec_opened_def mprotect_def)

lemma sec_write_ok:
  assumes "sec_closed b" and "h a = sec_opened ReadWrite b" and "off + length bs \<le> length (sec_content b)"
  shows "sec_write a off bs h = Ok () (h(a := sec_opened ReadWrite (sec_overwrite off bs b)))"
  using assms
  by (cases "sc_b b") (auto simp: sec_closed_def sec_write_def raw_write_def sec_content_def sec_opened_def
      sec_overwrite_def mprotect_def)

lemma sec_overwrite_ok:
  assumes "sec_closed b" and "off + length bs \<le> length (sec_content b)"
  shows "sec_closed (sec_overwrite off bs b)" and "sec_content (sec_overwrite off bs b) = patch off bs (sec_content b)"
  using assms by (cases "sc_b b"; auto simp: sec_closed_def sec_content_def sec_overwrite_def length_patch)+

interpretation sec: lockable Locker_new Locker_drop sec_deref sec_deref_mut "\<lambda>a. sec_read a 0" sec_write
    sec_closed sec_opened sec_content sec_overwrite
  by unfold_locales (simp_all add: Locker_new_ok Locker_drop_ok sec_deref_ok sec_read_ok sec_write_ok sec_overwrite_ok)

section \<open>The functions on buffers of the right lengths\<close>

text \<open>A call of one of the functions with its buffers; results other than an error are dropped.\<close>

datatype sec_op =
    SecIsZero nat
  | SecZero nat
  | SecIncrement nat
  | SecCompare nat nat
  | SecRandomize nat
  | SecSha256 nat nat
  | SecSha512 nat nat
  | SecDerive nat u64 nat nat
  | SecPwhash nat u64 u64 int nat nat
  | SecSignSeed nat nat nat
  | SecSign nat nat nat
  | SecVerify nat nat nat
  | SecKxKeypair nat nat
  | SecKxSeed nat nat nat
  | SecKxClient nat nat nat nat nat
  | SecKxServer nat nat nat nat nat
  | SecEnc nat nat "nat option" nat nat
  | SecDec nat nat "nat option" nat nat

fun drop_result :: "('h, 'e, 'r) outcome \<Rightarrow> ('h, 'e, unit) outcome" where
  "drop_result (Ok v h) = Ok () h"
| "drop_result (Err e h) = Err e h"
| "drop_result (Panic m) = Panic m"

fun run_sec :: "sodium \<Rightarrow> sec_op \<Rightarrow> unit on_secbufs" where
  "run_sec so (SecIsZero a) h = drop_result (sec_is_zero so a h)"
| "run_sec so (SecZero a) h = sec_zero a h"
| "run_sec so (SecIncrement a) h = sec_increment so a h"
| "run_sec so (SecCompare a b) h = drop_result (sec_compare so a b h)"
| "run_sec so (SecRandomize a) h = randomize so a h"
| "run_sec so (SecSha256 a b) h = sec_sha256 so a b h"
| "run_sec so (SecSha512 a b) h = sec_sha512 so a b h"
| "run_sec so (SecDerive a i b c) h = sec_derive so a i b c h"
| "run_sec so (SecPwhash a ol ml alg b c) h = sec_pwhash so a ol ml alg b c h"
| "run_sec so (SecSignSeed a b c) h = sec_sign_seed_keypair so a b c h"
| "run_sec so (SecSign a b c) h = sec_sign so a b c h"
| "run_sec so (SecVerify a b c) h = drop_result (sec_verify so a b c h)"
| "run_sec so (SecKxKeypair a b) h = sec_kx_keypair so a b h"
| "run_sec so (SecKxSeed a b c) h = sec_kx_seed_keypair so a b c h"
| "run_sec so (SecKxClient a b c d e) h = sec_client_session so a b c d e h"
| "run_sec so (SecKxServer a b c d e) h = sec_server_session so a b c d e h"
| "run_sec so (SecEnc a b ad n c) h = sec_enc so a b ad n c h"
| "run_sec so (SecDec a b ad n c) h = sec_dec so a b ad n c h"

fun sec_outs :: "sec_op \<Rightarrow> nat set" where
  "sec_outs (SecIsZero a) = {}"
| "sec_outs (SecZero a) = {a}"
| "sec_outs (SecIncrement a) = {a}"
| "sec_outs (SecCompare a b) = {}"
| "sec_outs (SecRandomize a) = {a}"
| "sec_outs (SecSha256 a b) = {b}"
| "sec_outs (SecSha512 a b) = {b}"
| "sec_outs (SecDerive a i b c) = {a}"
| "sec_outs (SecPwhash a ol ml alg b c) = {c}"
| "sec_outs (SecSignSeed a b c) = {a, b}"
| "sec_outs (SecSign a b c) = {c}"
| "sec_outs (SecVerify a b c) = {}"
| "sec_outs (SecKxKeypair a b) = {a, b}"
| "sec_outs (SecKxSeed a b c) = {b, c}"
| "sec_outs (SecKxClient a b c d e) = {d, e}"
| "sec_outs (SecKxServer a b c d e) = {d, e}"
| "sec_outs (SecEnc a b ad n c) = {c}"
| "sec_outs (SecDec a b ad n c) = {a}"

text \<open>The arguments are exclusive references.\<close>

fun sec_args :: "sec_op \<Rightarrow> nat list" where
  "sec_args (SecIsZero a) = [a]"
| "sec_args (SecZero a) = [a]"
| "sec_args (SecIncrement a) = [a]"
| "sec_args (SecCompare a b) = [a, b]"
| "sec_args (SecRandomize a) = [a]"
| "sec_args (SecSha256 a b) = [a, b]"
| "sec_args (SecSha512 a b) = [a, b]"
| "sec_args (SecDerive a i b c) = [a, b, c]"
| "sec_args (SecPwhash a ol ml alg b c) = [a, b, c]"
| "sec_args (SecSignSeed a b c) = [a, b, c]"
| "sec_args (SecSign a b c) = [a, b, c]"
| "sec_args (SecVerify a b c) = [a, b, c]"
| "sec_args (SecKxKeypair a b) = [a, b]"
| "sec_args (SecKxSeed a b c) = [a, b, c]"
| "sec_args (SecKxClient a b c d e) = [a, b, c, d, e]"
| "sec_args (SecKxServer a b c d e) = [a, b, c, d, e]"
| "sec_args (SecEnc a b ad n c) = [a, b, n, c] @ (case ad of None \<Rightarrow> [] | Some x \<Rightarrow> [x])"
| "sec_args (SecDec a b ad n c) = [a, b, n, c] @ (case ad of None \<Rightarrow> [] | Some x \<Rightarrow> [x])"

text \<open>The lengths C relies on; only \<open>derive\<close> checks two of its three.\<close>

fun sec_fits :: "sodium \<Rightarrow> (nat \<Rightarrow> nat) \<Rightarrow> sec_op \<Rightarrow> bool" where
  "sec_fits so len (SecCompare a b) \<longleftrightarrow> len a \<le> len b"
| "sec_fits so len (SecSha256 a b) \<longleftrightarrow> sha256_BYTES so \<le> len b"
| "sec_fits so len (SecSha512 a b) \<longleftrightarrow> sha512_BYTES so \<le> len b"
| "sec_fits so len (SecDerive a i b c) \<longleftrightarrow> kdf_KEYBYTES so \<le> len c"
| "sec_fits so len (SecPwhash a ol ml alg b c) \<longleftrightarrow> pwhash_SALTBYTES so \<le> len b"
| "sec_fits so len (SecSignSeed a b c) \<longleftrightarrow>
     sign_PUBLICKEYBYTES so \<le> len a \<and> sign_SECRETKEYBYTES so \<le> len b \<and> sign_SEEDBYTES so \<le> len c"
| "sec_fits so len (SecSign a b c) \<longleftrightarrow> sign_SECRETKEYBYTES so \<le> len b \<and> sign_BYTES so \<le> len c"
| "sec_fits so len (SecVerify a b c) \<longleftrightarrow> sign_BYTES so \<le> len a \<and> sign_PUBLICKEYBYTES so \<le> len c"
| "sec_fits so len (SecKxKeypair a b) \<longleftrightarrow> kx_PUBLICKEYBYTES so \<le> len a \<and> kx_SECRETKEYBYTES so \<le> len b"
| "sec_fits so len (SecKxSeed a b c) \<longleftrightarrow>
     kx_SEEDBYTES so \<le> len a \<and> kx_PUBLICKEYBYTES so \<le> len b \<and> kx_SECRETKEYBYTES so \<le> len c"
| "sec_fits so len (SecKxClient a b c d e) \<longleftrightarrow> kx_PUBLICKEYBYTES so \<le> len a \<and> kx_SECRETKEYBYTES so \<le> len b
     \<and> kx_PUBLICKEYBYTES so \<le> len c \<and> kx_SESSIONKEYBYTES so \<le> len d \<and> kx_SESSIONKEYBYTES so \<le> len e"
| "sec_fits so len (SecKxServer a b c d e) \<longleftrightarrow> kx_PUBLICKEYBYTES so \<le> len a \<and> kx_SECRETKEYBYTES so \<le> len b
     \<and> kx_PUBLICKEYBYTES so \<le> len c \<and> kx_SESSIONKEYBYTES so \<le> len d \<and> kx_SESSIONKEYBYTES so \<le> len e"
| "sec_fits so len (SecEnc a b ad n c) \<longleftrightarrow>
     aead_KEYBYTES so \<le> len b \<and> aead_NPUBBYTES so \<le> len n \<and> len a + aead_ABYTES so \<le> len c"
| "sec_fits so len (SecDec a b ad n c) \<longleftrightarrow>
     aead_KEYBYTES so \<le> len b \<and> aead_NPUBBYTES so \<le> len n \<and> len c - aead_ABYTES so \<le> len a"
| "sec_fits so len _ \<longleftrightarrow> True"

lemma safe_drop [simp]: "safe cl ct W h (drop_result r) = safe cl ct W h r"
  by (cases r) auto

lemma returns_ignore [simp]: "returns (ignore_code rc)"
  by (simp add: ignore_code_def)

lemmas sec_defs = sec_is_zero_def sec_zero_def sec_increment_def sec_compare_def randomize_def sec_sha256_def sec_sha512_def
  sec_pwhash_def sec_sign_seed_keypair_def sec_sign_def sec_verify_def sec_kx_keypair_def sec_kx_seed_keypair_def
  sec_client_session_def sec_server_session_def sec_enc_def sec_dec_def

lemmas within = order_trans[OF sodium_lengths(16)] order_trans[OF sodium_lengths(17)] order_trans[OF sodium_lengths(18)]
  order_trans[OF sodium_lengths(19)] order_trans[OF sodium_lengths(21)]

abbreviation secbufs_safe :: "nat set \<Rightarrow> secbufs \<Rightarrow> (secbufs, CryptoError, 'r) outcome \<Rightarrow> bool" where
  "secbufs_safe \<equiv> safe sec_closed sec_content"

lemma sec_util_safe:
  assumes "sodium_ok so" and "\<forall>a. sec_closed (h a)"
  shows "secbufs_safe {} h (sec_is_zero so a h)"
    and "secbufs_safe {a} h (sec_zero a h)"
    and "secbufs_safe {a} h (sec_increment so a h)"
    and "a \<noteq> b \<Longrightarrow> SecBuf_len (h a) \<le> SecBuf_len (h b) \<Longrightarrow> secbufs_safe {} h (sec_compare so a b h)"
    and "secbufs_safe {a} h (randomize so a h)"
    and "a \<noteq> b \<Longrightarrow> sha256_BYTES so \<le> SecBuf_len (h b) \<Longrightarrow> secbufs_safe {b} h (sec_sha256 so a b h)"
    and "a \<noteq> b \<Longrightarrow> sha512_BYTES so \<le> SecBuf_len (h b) \<Longrightarrow> secbufs_safe {b} h (sec_sha512 so a b h)"
    and "a \<noteq> b \<Longrightarrow> sec_fits so (\<lambda>a. SecBuf_len (h a)) (SecKxKeypair a b) \<Longrightarrow> secbufs_safe {a, b} h (sec_kx_keypair so a b h)"
    and "distinct [a, b, c] \<Longrightarrow> pwhash_SALTBYTES so \<le> SecBuf_len (h b) \<Longrightarrow>
      secbufs_safe {c} h (sec_pwhash so a ol ml alg b c h)"
  unfolding sec_defs
  by (intro sec.safe_call; use assms in \<open>auto simp: sec_len_def map_eq_Cons_conv\<close>)+

lemma sec_sign_safe:
  assumes "sodium_ok so" and "\<forall>a. sec_closed (h a)" and "distinct [a, b, c]"
  shows "sec_fits so (\<lambda>a. SecBuf_len (h a)) (SecSignSeed a b c) \<Longrightarrow> secbufs_safe {a, b} h (sec_sign_seed_keypair so a b c h)"
    and "sec_fits so (\<lambda>a. SecBuf_len (h a)) (SecSign a b c) \<Longrightarrow> secbufs_safe {c} h (sec_sign so a b c h)"
    and "sec_fits so (\<lambda>a. SecBuf_len (h a)) (SecVerify a b c) \<Longrightarrow> secbufs_safe {} h (sec_verify so a b c h)"
    and "sec_fits so (\<lambda>a. SecBuf_len (h a)) (SecKxSeed a b c) \<Longrightarrow> secbufs_safe {b, c} h (sec_kx_seed_keypair so a b c h)"
  unfolding sec_defs
  by (intro sec.safe_call; use assms in \<open>auto simp: sec_len_def map_eq_Cons_conv\<close>)+

lemma sec_kx_safe:
  assumes "sodium_ok so" and "\<forall>a. sec_closed (h a)" and "distinct [a, b, c, d, e]"
  shows "sec_fits so (\<lambda>a. SecBuf_len (h a)) (SecKxClient a b c d e) \<Longrightarrow> secbufs_safe {d, e} h (sec_client_session so a b c d e h)"
    and "sec_fits so (\<lambda>a. SecBuf_len (h a)) (SecKxServer a b c d e) \<Longrightarrow> secbufs_safe {d, e} h (sec_server_session so a b c d e h)"
  unfolding sec_defs
  by (intro sec.safe_call; use assms in \<open>auto simp: sec_len_def map_eq_Cons_conv intro: within\<close>)+

lemma sec_aead_safe:
  assumes "sodium_ok so" and "\<forall>a. sec_closed (h a)" and "distinct ([a, b, n, c] @ (case ad of None \<Rightarrow> [] | Some x \<Rightarrow> [x]))"
  shows "sec_fits so (\<lambda>a. SecBuf_len (h a)) (SecEnc a b ad n c) \<Longrightarrow> secbufs_safe {c} h (sec_enc so a b ad n c h)"
    and "sec_fits so (\<lambda>a. SecBuf_len (h a)) (SecDec a b ad n c) \<Longrightarrow> secbufs_safe {a} h (sec_dec so a b ad n c h)"
  unfolding sec_defs
  by (cases ad; intro sec.safe_call; use assms in \<open>auto simp: sec_len_def map_eq_Cons_conv intro: within(5)\<close>)+

text \<open>
  The scope of \<open>derive\<close> that only compares lengths leaves the buffers as they are.
\<close>

lemma length_scope:
  assumes "\<forall>a. sec_closed (h a)" and "a \<noteq> b" and "heap_independent k"
    and "body (open_heap sec_opened [RdLock a, RdLock b] h) = k (open_heap sec_opened [RdLock a, RdLock b] h)"
  shows "lockers [RdLock a, RdLock b] body h = k h"
  using assms by (intro sec.with_locks_closes) auto

lemma derive_check_cases: "derive_check so n m = Ok () \<or> (\<exists>e. derive_check so n m = Err e)"
  unfolding derive_check_def by (metis (full_types))

lemma derive_check_scope:
  assumes "\<forall>a. sec_closed (h a)" and "a \<noteq> b"
  shows "lockers [RdLock a, RdLock b] (\<lambda>h. derive_check so (SecBuf_len (h a)) (SecBuf_len (h b)) h) h =
    derive_check so (SecBuf_len (h a)) (SecBuf_len (h b)) h"
proof (rule length_scope[OF assms, where k = "derive_check so (SecBuf_len (h a)) (SecBuf_len (h b))"])
  show "heap_independent (derive_check so (SecBuf_len (h a)) (SecBuf_len (h b)))"
    using derive_check_cases by (auto simp: heap_independent_def)
qed (simp add: open_heap_def)

lemma sec_derive_safe:
  assumes "sodium_ok so" and "\<forall>a. sec_closed (h a)" and "distinct [a, b, c]" and "kdf_KEYBYTES so \<le> SecBuf_len (h c)"
  shows "secbufs_safe {a} h (sec_derive so a i b c h)"
proof (cases "derive_check so (SecBuf_len (h a)) (SecBuf_len (h b)) = Ok ()")
  case True
  then have "SecBuf_len (h b) = kdf_CONTEXTBYTES so" by (auto simp: derive_check_def fun_eq_iff split: if_splits)
  moreover have "a \<noteq> b" using assms(3) by simp
  ultimately show ?thesis
    unfolding sec_derive_def derive_check_scope[OF assms(2) \<open>a \<noteq> b\<close>] True bind_ok.simps
    by (intro sec.safe_call)
       (use assms in \<open>auto simp: sec_len_def map_eq_Cons_conv\<close>)
next
  case False
  then show ?thesis
    unfolding sec_derive_def using derive_check_cases[of so "SecBuf_len (h a)" "SecBuf_len (h b)"]
      derive_check_scope[OF assms(2), of a b so] assms(2,3) by (auto simp: kept_def)
qed

text \<open>
  C11: The functions over \<open>SecBuf\<close> are safe when their callers give them buffers of the lengths libsodium relies on: then
  each returns without a panic or a memory fault, leaves all buffers closed, and changes only its outputs.
\<close>

theorem secbuf_calls_safe:
  assumes "sodium_ok so" and "\<forall>a. sec_closed (h a)" and "distinct (sec_args op)" and "sec_fits so (\<lambda>a. SecBuf_len (h a)) op"
  shows "secbufs_safe (sec_outs op) h (run_sec so op h)"
  by (cases op) (use assms sec_util_safe[OF assms(1,2)] sec_sign_safe[OF assms(1,2)] sec_kx_safe[OF assms(1,2)]
      sec_aead_safe[OF assms(1,2)] sec_derive_safe[OF assms(1,2)] in auto)

text \<open>Buffers for an input, a hash, and one that is too short for a hash.\<close>

definition demo_secbufs :: secbufs where
  "demo_secbufs =
     (\<lambda>_. \<lparr>sc_t = SecInsecure, sc_b = RustBuf [], sc_p = NoAccess\<rparr>)
     (0 := \<lparr>sc_t = SecInsecure, sc_b = RustBuf [42, 222], sc_p = NoAccess\<rparr>,
      1 := \<lparr>sc_t = SecSecure, sc_b = SodiumBuf \<lparr>rg_bytes = replicate 32 0xdb, rg_prot = NoAccess\<rparr> 32, sc_p = NoAccess\<rparr>,
      2 := \<lparr>sc_t = SecInsecure, sc_b = RustBuf (replicate 16 0), sc_p = NoAccess\<rparr>)"

lemma demo_secbufs_closed: "\<forall>a. sec_closed (demo_secbufs a)"
  by (simp add: demo_secbufs_def sec_closed_def)

theorem secbuf_calls_safe_witness:
  "secbufs_safe {1} demo_secbufs (run_sec demo_sodium (SecSha256 0 1) demo_secbufs)"
proof -
  have "sec_fits demo_sodium (\<lambda>a. SecBuf_len (demo_secbufs a)) (SecSha256 0 1)"
    by (simp add: demo_sodium_def demo_secbufs_def SecBuf_len_def)
  then show ?thesis using secbuf_calls_safe[OF demo_sodium_ok demo_secbufs_closed, of "SecSha256 0 1"] by simp
qed

section \<open>Buffers that are too short\<close>

lemma overflow_call:
  assumes "\<forall>a. sec_closed (h a)" and "distinct (map target ls)" and "WrLock w \<in> set ls"
    and "\<forall>(a, n) \<in> set ins. a \<in> target ` set ls \<and> n \<le> SecBuf_len (h a)"
    and "f (map (\<lambda>(a, n). take n (sec_content (h a))) ins) = (rc, [bs])" and "SecBuf_len (h w) < length bs"
  shows "lockers ls (\<lambda>g. bind_ok (sec_call [w] ins f g) ret) h = Panic ''out of bounds write''"
proof (rule sec.with_locks_panics)
  let ?g = "open_heap sec_opened ls h"
  have "?g w = sec_opened ReadWrite (h w)" using open_heap_at[OF assms(2,3), of sec_opened h] by simp
  moreover have "sec_closed (h w)" using assms(1) by blast
  ultimately have "sec_write w 0 bs ?g = Panic ''out of bounds write''"
    using assms(6) length_sec_content[of "h w"]
    by (cases "sc_b (h w)") (auto simp: sec_write_def raw_write_def sec_opened_def mprotect_def sec_content_def sec_closed_def SecBuf_len_def)
  then show "bind_ok (sec_call [w] ins f ?g) ret = Panic ''out of bounds write''"
    using sec.call_under_locks[of ls h "[w]" ins f rc "[bs]"] assms(1-5) by simp
qed (use assms in auto)

text \<open>
  C30: The functions over \<open>SecBuf\<close> do not check the lengths of their outputs: with an output that is shorter than what libsodium
  writes, hashing, signing and encrypting write past its end, which the newer interface rejects with an error.
\<close>

theorem short_output_overflows:
  assumes "sodium_ok so" and "\<forall>a. sec_closed (h a)" and "distinct [a, b, n, out]"
  shows "(SecBuf_len (h out) < sha256_BYTES so \<longrightarrow> sec_sha256 so a out h = Panic ''out of bounds write'')
    \<and> (SecBuf_len (h out) < sha512_BYTES so \<longrightarrow> sec_sha512 so a out h = Panic ''out of bounds write'')
    \<and> (SecBuf_len (h b) = sign_SECRETKEYBYTES so \<and> SecBuf_len (h out) < sign_BYTES so \<longrightarrow>
         sec_sign so a b out h = Panic ''out of bounds write'')
    \<and> (SecBuf_len (h b) = aead_KEYBYTES so \<and> SecBuf_len (h n) = aead_NPUBBYTES so \<and>
         SecBuf_len (h out) < SecBuf_len (h a) + aead_ABYTES so \<longrightarrow>
         sec_enc so a b None n out h = Panic ''out of bounds write'')"
proof (intro conjI impI)
  show "sec_sha256 so a out h = Panic ''out of bounds write''" if "SecBuf_len (h out) < sha256_BYTES so"
    unfolding sec_defs using assms that
    by (intro overflow_call) (auto simp: sec_len_def prod_eq_iff)
  show "sec_sha512 so a out h = Panic ''out of bounds write''" if "SecBuf_len (h out) < sha512_BYTES so"
    unfolding sec_defs using assms that
    by (intro overflow_call) (auto simp: sec_len_def prod_eq_iff)
  show "sec_sign so a b out h = Panic ''out of bounds write''"
    if "SecBuf_len (h b) = sign_SECRETKEYBYTES so \<and> SecBuf_len (h out) < sign_BYTES so"
    unfolding sec_defs using assms that
    by (intro overflow_call) (auto simp: sec_len_def prod_eq_iff)
  show "sec_enc so a b None n out h = Panic ''out of bounds write''"
    if "SecBuf_len (h b) = aead_KEYBYTES so \<and> SecBuf_len (h n) = aead_NPUBBYTES so \<and>
         SecBuf_len (h out) < SecBuf_len (h a) + aead_ABYTES so"
    unfolding sec_defs using assms that
    by (intro overflow_call) (auto simp: sec_len_def prod_eq_iff)
qed

theorem short_output_overflows_witness:
  "sec_sha256 demo_sodium 0 2 demo_secbufs = Panic ''out of bounds write''"
proof -
  have "SecBuf_len (demo_secbufs 2) < sha256_BYTES demo_sodium"
    by (simp add: demo_sodium_def demo_secbufs_def SecBuf_len_def)
  then show ?thesis using short_output_overflows[OF demo_sodium_ok demo_secbufs_closed, of 0 1 3 2] by simp
qed

text \<open>
  \<open>compare\<close> passes the length of the first buffer for both: a shorter second one is read past its end.
\<close>

lemma compare_reads_past_end:
  assumes "\<forall>a. sec_closed (h a)" and "a \<noteq> b" and "SecBuf_len (h b) < SecBuf_len (h a)"
  shows "sec_compare so a b h = Panic ''out of bounds read''"
  unfolding sec_compare_def
proof (rule sec.with_locks_panics)
  let ?g = "open_heap sec_opened [WrLock a, WrLock b] h"
  have at: "?g a = sec_opened ReadWrite (h a)" "?g b = sec_opened ReadWrite (h b)"
    using assms(2) by (simp_all add: open_heap_def)
  have cl: "sec_closed (h a)" "sec_closed (h b)" using assms(1) by blast+
  have "sec_read b 0 (SecBuf_len (h a)) ?g = Panic ''out of bounds read''"
    using at(2) cl(2) assms(3) length_sec_content[of "h b"]
    by (cases "sc_b (h b)") (auto simp: sec_read_def raw_read_def sec_opened_def mprotect_def sec_content_def sec_closed_def SecBuf_len_def)
  moreover have "sec_read a 0 (SecBuf_len (h a)) ?g = Ok (sec_content (h a)) ?g"
    using cl(1) at(1) by (subst sec_read_ok[of "h a" ReadWrite]) simp_all
  ultimately show "bind_ok (sec_call [] [sec_len h a, (b, SecBuf_len (h a))] (\<lambda>bs. (c_compare so (bs ! 0) (bs ! 1), [])) ?g) Ok =
      Panic ''out of bounds read''"
    using sec_deref_ok(1)[of ?g a ReadWrite "h a"] sec_deref_ok(1)[of ?g b ReadWrite "h b"] at
    by (simp add: c_call_def sec_len_def)
qed (use assms in auto)

section \<open>Cloning and formatting\<close>

text \<open>A buffer that says of itself that it is secure has protected memory, in whole words of eight bytes.\<close>

definition well_typed :: "SecBuf \<Rightarrow> bool" where
  "well_typed b \<longleftrightarrow> (case sc_b b of RustBuf v \<Rightarrow> sc_t b = SecInsecure | SodiumBuf z s \<Rightarrow> sc_t b = SecSecure \<and> s mod 8 = 0)
     \<and> SecBuf_len b < 2 ^ 63"

lemma new_secbuf:
  assumes "sodium_ok so" and "n < 2 ^ 63" and "t = SecSecure \<Longrightarrow> n mod 8 = 0"
  obtains out where "(case t of SecInsecure \<Rightarrow> with_insecure (of_nat n) | SecSecure \<Rightarrow> with_secure so (of_nat n)) = Ok out ()"
    and "sec_closed out" and "SecBuf_len out = n"
proof (cases t)
  case SecInsecure
  have "unat (of_nat n :: u64) = n" using assms(2) by (simp add: unat_of_nat)
  then show ?thesis
    using SecInsecure assms(2)
    by (intro that[of "\<lparr>sc_t = SecInsecure, sc_b = RustBuf (replicate n 0), sc_p = NoAccess\<rparr>"])
       (auto simp: with_insecure_def RustBuf_new_def sec_closed_def SecBuf_len_def)
next
  case SecSecure
  have n: "unat (of_nat n :: u64) = n" using assms(2) by (simp add: unat_of_nat)
  from sodium_malloc[OF assms(1)] obtain mem where "c_malloc so n = Some mem" "length mem = n" by blast
  with SecSecure n assms(3) show ?thesis
    by (intro that[of "\<lparr>sc_t = SecSecure, sc_b = SodiumBuf \<lparr>rg_bytes = mem, rg_prot = NoAccess\<rparr> n, sc_p = NoAccess\<rparr>"])
       (auto simp: with_secure_def SodiumBuf_new_def sec_closed_def SecBuf_len_def mprotect_def)
qed

text \<open>
  Cloning, in any state of the source: the copy is closed and complete, and the memory of the source is closed in the end.
\<close>

lemma clone_result:
  assumes "sodium_ok so" and "sec_closed b" and "well_typed b" and "h a = sec_opened st b" and "new \<noteq> a"
  obtains out where "SecBuf_clone checks so a new h =
      Ok () (h(new := out, a := (h a)\<lparr>sc_b := Bufferable_protect NoAccess (sc_b (h a))\<rparr>))"
    and "sec_closed out" and "sec_content out = sec_content b"
proof -
  let ?n = "SecBuf_len b"
  have len: "SecBuf_len (h a) = ?n" and small: "?n < 2 ^ 63" using assms(3,4) by (simp_all add: well_typed_def)
  have n: "unat (of_nat ?n :: u64) = ?n" using small by (simp add: unat_of_nat)
  have ty: "sc_t (h a) = SecSecure \<Longrightarrow> ?n mod 8 = 0"
    using assms(3,4) by (cases "sc_b b") (auto simp: well_typed_def sec_opened_def SecBuf_len_def)
  from assms(1) small ty obtain raw where raw: "(case sc_t (h a) of SecInsecure \<Rightarrow> with_insecure (of_nat ?n)
      | SecSecure \<Rightarrow> with_secure so (of_nat ?n)) = Ok raw ()" and cl: "sec_closed raw" "SecBuf_len raw = ?n"
    by (rule new_secbuf)
  let ?src = "\<lambda>p. (h a)\<lparr>sc_b := Bufferable_protect p (sc_b (h a))\<rparr>"
  let ?h = "(h(new := raw))(a := ?src ReadOnly)" and ?out = "sec_overwrite 0 (sec_content b) raw"
  have fits: "length (sec_content b) = length (sec_content raw)" using assms(2) cl by simp
  have out: "sec_closed ?out" "sec_content ?out = sec_content b"
    using sec_overwrite_ok[OF cl(1), of 0 "sec_content b"] fits by (simp_all add: patch_all)
  have "lockers [WrLock new] (\<lambda>h. bind_ok (sec_deref_mut new h) (\<lambda>_ h.
      bind_ok (sec_read a 0 ?n h) (sec_write new 0))) ?h = Ok () (?h(new := ?out))"
  proof (rule sec.with_locks_closes[where k = "Ok ()"])
    have oh: "open_heap sec_opened [WrLock new] g = g(new := sec_opened ReadWrite (g new))" for g
      by (auto simp: open_heap_def fun_eq_iff)
    let ?g = "?h(new := sec_opened ReadWrite raw)"
    have "sec_read a 0 ?n ?g = Ok (sec_content b) ?g"
      using assms(2,4,5) by (cases "sc_b b")
        (auto simp: sec_read_def raw_read_def sec_opened_def mprotect_def sec_closed_def sec_content_def SecBuf_len_def)
    moreover have "sec_write new 0 (sec_content b) ?g = Ok () (?g(new := sec_opened ReadWrite ?out))"
      using fits by (intro sec_write_ok[OF cl(1)]) simp_all
    ultimately show "bind_ok (sec_deref_mut new (open_heap sec_opened [WrLock new] ?h)) (\<lambda>_ h.
        bind_ok (sec_read a 0 ?n h) (sec_write new 0)) = Ok () (open_heap sec_opened [WrLock new] (?h(new := ?out)))"
      using assms(5) sec_deref_ok(2)[of ?g new ReadWrite raw] by (simp add: oh)
  qed (use assms(5) cl out in \<open>auto simp: heap_independent_def\<close>)
  moreover have "Bufferable_protect NoAccess (Bufferable_protect ReadOnly m) = Bufferable_protect NoAccess m" for m
    by (cases m) (auto simp: mprotect_def)
  moreover have "add_u64 checks 0 (of_nat ?n) = Some (of_nat ?n)" by (simp add: add_u64_def)
  ultimately have "SecBuf_clone checks so a new h = Ok () (h(new := ?out, a := ?src NoAccess))"
    using assms(5) raw by (simp add: SecBuf_clone_def clone_partial_def len n fun_upd_twist)
  then show ?thesis using out by (rule that)
qed

text \<open>
  C31: A clone of a closed buffer is a closed copy, and the buffer stays as it is. But cloning a protected buffer that is open for
  reading takes its memory away while its state still says that it is open: a later read passes the check of the state and then is a memory
  fault.
\<close>

theorem clone_closes_open_source:
  assumes "sodium_ok so" and "sec_closed b" and "well_typed b" and "new \<noteq> a"
  shows "(h a = b \<longrightarrow> (\<exists>out. SecBuf_clone checks so a new h = Ok () (h(new := out))
        \<and> sec_closed out \<and> sec_content out = sec_content b))
    \<and> (h a = sec_opened ReadOnly b \<and> is_secure b \<and> 0 < SecBuf_len b \<longrightarrow>
        (\<exists>h'. SecBuf_clone checks so a new h = Ok () h' \<and> sec_deref a h' = Ok () h'
          \<and> sec_read a 0 1 h' = Panic ''segmentation fault''))"
proof (intro conjI impI)
  assume "h a = b"
  moreover have "sec_opened NoAccess b = b" "b\<lparr>sc_b := Bufferable_protect NoAccess (sc_b b)\<rparr> = b"
    using assms(2) by (cases b; cases "sc_b b"; auto simp: sec_opened_def sec_closed_def mprotect_def)+
  ultimately show "\<exists>out. SecBuf_clone checks so a new h = Ok () (h(new := out)) \<and> sec_closed out \<and> sec_content out = sec_content b"
    using assms(4) by (metis clone_result[OF assms(1-3) _ assms(4), of h NoAccess checks] fun_upd_triv fun_upd_twist)
next
  assume open_b: "h a = sec_opened ReadOnly b \<and> is_secure b \<and> 0 < SecBuf_len b"
  then obtain out where "SecBuf_clone checks so a new h =
      Ok () (h(new := out, a := (h a)\<lparr>sc_b := Bufferable_protect NoAccess (sc_b (h a))\<rparr>))" (is "_ = Ok () ?h'")
    using clone_result[OF assms(1-3) _ assms(4), of h ReadOnly checks] by blast
  moreover have "sec_deref a ?h' = Ok () ?h'" using open_b by (simp add: sec_deref_def sec_opened_def)
  moreover have "sec_read a 0 1 ?h' = Panic ''segmentation fault''"
    using open_b assms(3) by (cases "sc_b b")
      (auto simp: sec_read_def raw_read_def sec_opened_def mprotect_def is_secure_def well_typed_def)
  ultimately show "\<exists>h'. SecBuf_clone checks so a new h = Ok () h' \<and> sec_deref a h' = Ok () h'
      \<and> sec_read a 0 1 h' = Panic ''segmentation fault''" by blast
qed

theorem clone_closes_open_source_witness:
  "\<exists>h'. SecBuf_clone True demo_sodium 1 7 (demo_secbufs(1 := sec_opened ReadOnly (demo_secbufs 1))) = Ok () h'
    \<and> sec_deref 1 h' = Ok () h' \<and> sec_read 1 0 1 h' = Panic ''segmentation fault''"
proof -
  have "sec_closed (demo_secbufs 1)" "well_typed (demo_secbufs 1)" "is_secure (demo_secbufs 1)" "0 < SecBuf_len (demo_secbufs 1)"
    by (simp_all add: demo_secbufs_def sec_closed_def well_typed_def is_secure_def SecBuf_len_def)
  then show ?thesis
    using clone_closes_open_source[OF demo_sodium_ok, of "demo_secbufs 1" 7 1 "demo_secbufs(1 := sec_opened ReadOnly (demo_secbufs 1))" True]
    by simp
qed

text \<open>
  \<open>Debug\<close> of a closed protected buffer reads memory that may not be read.
\<close>

lemma fmt_of_closed_faults:
  assumes "sec_closed (h a)" and "is_secure (h a)" and "well_typed (h a)" and "0 < SecBuf_len (h a)"
  shows "SecBuf_fmt a h = Panic ''segmentation fault''"
  using assms by (cases "sc_b (h a)")
    (auto simp: SecBuf_fmt_def sec_read_def raw_read_def sec_closed_def well_typed_def is_secure_def SecBuf_len_def)

text \<open>
  A protected buffer cannot be made from a string: what is called so is plain memory.
\<close>

lemma protected_string_is_plain: "SodiumBuf_from_string s = RustBuf_from_string s"
  by (simp add: SodiumBuf_from_string_def RustBuf_from_string_def)

text \<open>
  Writing a closed buffer within its bounds.
\<close>

lemma sec_write_at_result:
  assumes "sec_closed (h a)" and "unat offset + length data < 2 ^ 64"
  shows "sec_write_at checks a offset data h =
    (if unat offset + length data \<le> SecBuf_len (h a) then Ok () (h(a := sec_overwrite (unat offset) data (h a)))
     else Err (CryptoError_new ''SecBuf write overflow'') h)"
proof -
  from add_u64_fits[OF assms(2)] obtain s where s: "add_u64 checks offset (of_nat (length data)) = Some s"
    "unat s = unat offset + length data" by blast
  have "lockers [WrLock a] (\<lambda>h. bind_ok (sec_deref_mut a h) (\<lambda>_. sec_write a (unat offset) data)) h =
      Ok () (h(a := sec_overwrite (unat offset) data (h a)))" if "unat offset + length data \<le> SecBuf_len (h a)"
  proof (rule sec.with_locks_closes[where k = "Ok ()"])
    have "open_heap sec_opened [WrLock a] g = g(a := sec_opened ReadWrite (g a))" for g
      by (auto simp: open_heap_def fun_eq_iff)
    then show "bind_ok (sec_deref_mut a (open_heap sec_opened [WrLock a] h)) (\<lambda>_. sec_write a (unat offset) data) =
        Ok () (open_heap sec_opened [WrLock a] (h(a := sec_overwrite (unat offset) data (h a))))"
      using assms(1) that by (simp add: sec_deref_ok sec_write_ok[of "h a"])
  qed (use assms(1) that sec_overwrite_ok(1) in \<open>auto simp: heap_independent_def\<close>)
  then show ?thesis using s by (auto simp: sec_write_at_def)
qed

end
