(* ===== verification/Keystore.thy ===== *)
theory Keystore
  imports Message_Encoding
begin

text \<open>
  The keystore stub (\<open>lib3h/src/keystore.rs\<close>): an actor that is asked to sign and answers with an empty signature. It makes no
  requests of its parent, so its endpoint never has callbacks pending.
\<close>

section \<open>Model\<close>

datatype KeystoreRequestToChild = Sign string bytes

datatype KeystoreRequestToChildResponse = SignResult bytes

text \<open>The requests to the parent and their responses are enums without variants; units stand for them.\<close>

type_synonym KeystoreParentEndpoint =
  "(KeystoreRequestToChild, KeystoreRequestToChildResponse, unit, unit, Lib3hError) GhostEndpoint"

type_synonym KeystoreSelfEndpoint =
  "(unit, unit, unit, KeystoreRequestToChild, KeystoreRequestToChildResponse, Lib3hError) GhostContextEndpoint"

record KeystoreStub =
  ks_endpoint_parent :: "KeystoreParentEndpoint option"
  ks_endpoint_self :: "KeystoreSelfEndpoint Detach"

definition KeystoreStub_new :: KeystoreStub where
  "KeystoreStub_new =
     (case create_ghost_channel of (endpoint_parent, endpoint_self) \<Rightarrow>
        \<lparr>ks_endpoint_parent = Some endpoint_parent,
         ks_endpoint_self = Detach_new (GhostContextEndpointBuilder_build
           (GhostContextEndpointBuilder_request_id_prefix ''keystore_to_parent_''
              (as_context_endpoint_builder endpoint_self)))\<rparr>)"

text \<open>\<open>respond\<close> sends on the actor's own endpoint; \<open>bt\<close> is the backtrace it takes.\<close>

definition handle_sign ::
  "Backtwrap \<Rightarrow> KeystoreRequestToChild GhostMessage \<Rightarrow> string \<Rightarrow> bytes \<Rightarrow> KeystoreStub \<Rightarrow> (KeystoreStub, Lib3hError, unit) outcome" where
  "handle_sign bt msg i payload ks =
     map_err Lib3hGhostError
       (detach_deref_mut ks_endpoint_self (\<lambda>ep ks. ks\<lparr>ks_endpoint_self := ep\<rparr>)
          (\<lambda>ep. lift_state (\<lambda>s. ep\<lparr>gce_sender := s\<rparr>) (GhostMessage_respond bt msg (Inr (SignResult [])) (gce_sender ep))) ks)"

definition ks_handle_msg_from_parent ::
  "Backtwrap \<Rightarrow> KeystoreRequestToChild GhostMessage \<Rightarrow> KeystoreStub \<Rightarrow> (KeystoreStub, Lib3hError, unit) outcome" where
  "ks_handle_msg_from_parent bt msg0 =
     (case take_message msg0 of
        (None, _) \<Rightarrow> (\<lambda>_. Panic ''exists'')
      | (Some (Sign i payload), msg) \<Rightarrow> handle_sign bt msg i payload)"

definition ks_take_parent_endpoint :: "KeystoreStub \<Rightarrow> KeystoreParentEndpoint option \<times> KeystoreStub" where
  "ks_take_parent_endpoint ks = (ks_endpoint_parent ks, ks\<lparr>ks_endpoint_parent := None\<rparr>)"

definition ks_no_callback ::
  "(unit, KeystoreStub \<times> (unit, KeystoreRequestToChildResponse, Lib3hError) GhostEndpointMessage Sender, unit, Lib3hError) call" where
  "ks_no_callback cb response st = Ok () st"

text \<open>The work of the endpoint and of the handlers is not reported.\<close>

definition ks_process_concrete ::
  "(RequestId \<Rightarrow> RequestId list \<Rightarrow> string) \<Rightarrow> time \<Rightarrow> Backtwrap \<Rightarrow> KeystoreStub \<Rightarrow> (KeystoreStub, GhostError, WorkWasDone) outcome" where
  "ks_process_concrete rid_msg now bt ks =
     bind_ok (detach_run ks_endpoint_self (\<lambda>ep ks. ks\<lparr>ks_endpoint_self := ep\<rparr>)
                (endpoint_process rid_msg ks_no_callback now) ks)
     (\<lambda>_ ks. bind_ok (detach_deref_mut ks_endpoint_self (\<lambda>ep ks. ks\<lparr>ks_endpoint_self := ep\<rparr>)
                (\<lambda>ep. case drain_messages ep of (ms, ep') \<Rightarrow> Ok ms ep') ks)
     (\<lambda>msgs ks. bind_ok
        (for_each (\<lambda>msg ks. expect ''no ghost errors'' (ks_handle_msg_from_parent bt msg ks)) msgs ks)
     (\<lambda>_. Ok False)))"

section \<open>Every request is answered\<close>

lemma ks_handle_all:
  assumes "ks_endpoint_self ks = Detach (Some ep)" and "snd_error (gce_sender ep) = None"
  shows "for_each (\<lambda>msg ks. expect ''no ghost errors'' (ks_handle_msg_from_parent bt msg ks))
      (map (\<lambda>(rid, m). GhostMessage_new bt' (Some rid) m) ms) ks =
    (Ok () (ks\<lparr>ks_endpoint_self := Detach (Some (append_sent (map (\<lambda>(rid, m). Response bt rid (Inr (SignResult []))) ms) ep))\<rparr>)
      :: (KeystoreStub, GhostError, unit) outcome)"
  using assms
proof (induction ms arbitrary: ks ep)
  case (Cons rm ms)
  obtain rid i p where rm: "rm = (rid, Sign i p)" by (metis KeystoreRequestToChild.exhaust surj_pair)
  let ?ep = "append_sent [Response bt rid (Inr (SignResult []))] ep"
  have "ks_handle_msg_from_parent bt (GhostMessage_new bt' (Some rid) (Sign i p)) ks = Ok () (ks\<lparr>ks_endpoint_self := Detach (Some ?ep)\<rparr>)"
    using Cons.prems
    by (simp add: ks_handle_msg_from_parent_def take_message_def handle_sign_def detach_deref_mut_def
        GhostMessage_respond_def GhostMessage_new_def chan_send_def append_sent_def)
  with Cons.IH[of "ks\<lparr>ks_endpoint_self := Detach (Some ?ep)\<rparr>" ?ep] Cons.prems show ?case
    by (simp add: rm append_sent_def)
qed (simp add: append_sent_def)

text \<open>
  With a queue of requests, \<open>process\<close> succeeds and sends for each its answer under its own id, in order; it reports that no
  work was done.
\<close>

theorem keystore_answers_in_order:
  assumes "ks_endpoint_self ks = Detach (Some ep)" and "snd_error (gce_sender ep) = None"
    and "gt_expired now (gce_tracker ep) = []" and "gce_outbox ep = []" and "\<not> rcv_disconnected (gce_receiver ep)"
    and "rcv_incoming (gce_receiver ep) = map (\<lambda>(rid, m). Request bt' (Some rid) m) ms"
  shows "\<exists>ks' ep'. ks_process_concrete rid_msg now bt ks = Ok False ks' \<and> ks_endpoint_self ks' = Detach (Some ep')
    \<and> snd_sent (gce_sender ep') = snd_sent (gce_sender ep) @ map (\<lambda>(rid, m). Response bt rid (Inr (SignResult []))) ms
    \<and> rcv_incoming (gce_receiver ep') = []"
proof -
  let ?ms = "map (\<lambda>(rid, m). (Some rid, m)) ms"
  have maps: "map (\<lambda>(rid, m). Request bt' (Some rid) m) ms = map (\<lambda>(rid, p). Request bt' rid p) ?ms"
    "map (\<lambda>(rid, p). GhostMessage_new bt' rid p) ?ms = map (\<lambda>(rid, m). GhostMessage_new bt' (Some rid) m) ms"
    by (auto simp: comp_def split_def)
  define ep1 where "ep1 = ep\<lparr>gce_receiver := (gce_receiver ep)\<lparr>rcv_incoming := []\<rparr>\<rparr>"
  have run: "endpoint_process rid_msg ks_no_callback now (ep, x) =
      Ok (gt_pending (gce_tracker ep) \<noteq> [] \<or> ms \<noteq> [])
        (ep1\<lparr>gce_outbox := map (\<lambda>(rid, m). GhostMessage_new bt' (Some rid) m) ms\<rparr>, x)" for x
    using endpoint_process_requests[OF assms(3,5), of bt' ?ms rid_msg ks_no_callback x] assms(4,6)
    by (simp only: maps ep1_def) simp
  have "ep1\<lparr>gce_outbox := []\<rparr> = ep1" using assms(4) by (simp add: ep1_def)
  moreover have "snd_error (gce_sender ep1) = None" using assms(2) by (simp add: ep1_def)
  ultimately show ?thesis
    using assms(1)
    by (simp add: ks_process_concrete_def detach_run_def detach_put_def detach_deref_mut_def run drain_messages_def ks_handle_all)
       (simp add: ep1_def append_sent_def)
qed

end
