(* ===== verification/Spec2Isabelle.thy ===== *)
theory Spec2Isabelle
  imports Ghost_Actor Track Wall_Clock Lib3h_Values Mirror_Dht Memory_Transport Message_Encoding Mdns Gateway_Obligations Gateway_Delivery P2p_Codec Engine_Paths
    Legacy_Paths Ws_Paths Transport_Keys Secbuf_Paths Keystore
begin

text \<open>
  A verification development of lib3h, the peer-to-peer networking library of Holochain: the Rust crates under
  \<open>src/crates\<close>, translated function by function into definitions that compute, with the theorems that make them correct.

  \<^bold>\<open>The program.\<close> A node is one engine. Its client asks it to join spaces, to send messages and to store entries; the engine
  asks its client for entries and tells it what arrived. Everything is built from actors: each owns one end of a pair of
  message queues, is advanced by calls of \<open>process\<close>, and keeps a tracker of the requests it still expects an answer to.
  The engine owns a multiplexer; the multiplexer owns the network gateway and hands out one route per space and agent; the engine
  puts a gateway of its own on each route. A gateway combines a transport (in memory, over websockets, or a route), a
  DHT (the full-sync one) and an actor that encodes payloads: it resolves a peer's name to an address with the DHT, encodes, and
  sends with retries until a deadline. Nodes find each other by bootstrapping or by multicast DNS. Keys and
  signatures come from a crypto system over libsodium.

  \<^bold>\<open>Theories.\<close> Paths are relative to \<open>src/crates\<close>; inside a theory definitions come in the order of the code and have its names.

  \<^item> \<open>Prelude\<close>: outcomes of Rust functions, machine integers, hash maps, and the locales \<open>keyed_table\<close> and \<open>invariant_machine\<close>.
  \<^item> \<open>Detach\<close>: \<open>detach/src/lib.rs\<close>, the cell an actor uses to lend a part of itself to a call on itself.
  \<^item> \<open>Ghost_Tracker\<close>, \<open>Ghost_Channel\<close>, \<open>Ghost_Actor\<close>: \<open>zombie_actor/src\<close> (\<open>ghost_tracker.rs\<close>, \<open>ghost_error.rs\<close>, \<open>backtwrap.rs\<close>;
    \<open>ghost_channel.rs\<close>; \<open>ghost_actor.rs\<close>): bookmarked callbacks, messages and endpoints, and the two wrappers through which a parent
    owns an actor. \<open>Ghost_Ledger\<close> holds the book-keeping used to show that no request is lost.
  \<^item> \<open>Track\<close>, \<open>Wall_Clock\<close>: \<open>lib3h/src/track.rs\<close>, a request tracker with timeouts; \<open>time.rs\<close>.
  \<^item> \<open>Lib3h_Types\<close>, \<open>Lib3h_Values\<close>: error types and their conversions, uris with their builder, the hash newtypes, \<open>Opaque\<close>, entries and
    their aspects (\<open>lib3h/src/error.rs\<close>, \<open>lib3h/src/transport/error.rs\<close>, \<open>lib3h_protocol/src/{error,uri,types,data_types}.rs\<close>).
  \<^item> \<open>Mirror_Dht\<close>: \<open>lib3h/src/dht/{mirror_dht,dht_protocol,dht_config}.rs\<close>.
  \<^item> \<open>Transport_Protocol\<close>, \<open>Memory_Server\<close>, \<open>Memory_Transport\<close>: \<open>lib3h/src/transport/protocol.rs\<close> and \<open>memory_mock/\<close>.
  \<^item> \<open>Message_Encoding\<close>, \<open>Keystore\<close>: \<open>lib3h/src/message_encoding.rs\<close>, \<open>keystore.rs\<close>.
  \<^item> \<open>Mdns_Dns\<close>, \<open>Mdns_Record\<close>, \<open>Mdns\<close>: the \<open>mdns\<close> crate: packet format, record cache, the node.
  \<^item> \<open>Gateway_Protocol\<close>, \<open>Gateway\<close>: \<open>lib3h/src/gateway/\<close> and the messages between nodes; \<open>Gateway_Paths\<close> and
    \<open>Gateway_Obligations\<close> its theorems. \<open>Gateway_Node\<close>: a gateway with the DHT, encoder and in-memory transport it owns, as one actor;
    \<open>Gateway_Network\<close> and \<open>Gateway_Delivery\<close>: two of them on one network.
    \<open>P2p_Codec\<close>: \<open>p2p_protocol/src/{p2p,error}.rs\<close> and what they use of the generated \<open>p2p_capnp.rs\<close>.
  \<^item> \<open>Multiplex\<close>, \<open>Multiplex_Paths\<close>: \<open>lib3h/src/transport/transport_multiplex/\<close>.
  \<^item> \<open>Engine_Protocol\<close>, \<open>Engine\<close>, \<open>Engine_Layers\<close>: \<open>lib3h/src/engine/\<close> and \<open>lib3h_protocol/src/protocol.rs\<close>; \<open>Engine_Spaces\<close> and
    \<open>Engine_Paths\<close> its theorems. \<open>Legacy\<close>, \<open>Legacy_Paths\<close>: \<open>ghost_engine_wrapper.rs\<close> and the protocol of older clients.
  \<^item> \<open>Ws_Streams\<close>, \<open>Ws_Actor\<close>: \<open>lib3h/src/transport/websocket/\<close>; \<open>Ws_Pool\<close> and \<open>Ws_Paths\<close> their theorems.
  \<^item> \<open>Crypto_Memory\<close>, \<open>Crypto_Buffer\<close>, \<open>Sodium_System\<close>: \<open>crypto_api/src\<close> and \<open>sodium/src/crypto_system/\<close>; \<open>Transport_Keys\<close>: the
    engine's keys (\<open>lib3h/src/engine/mod.rs\<close>); \<open>Secbuf\<close>: the older functions of \<open>sodium/src\<close>; \<open>Sodium_Paths\<close> and \<open>Secbuf_Paths\<close> their theorems.
\<close>

text \<open>
  \<^bold>\<open>State and operations.\<close> A struct is a record, an enum a datatype, an integer a word of its width, a \<open>HashMap\<close> an
  association list with distinct keys whose order stands for the iteration order (theorems hold for every order), a \<open>String\<close>
  the list of its bytes. A method on \<open>&mut self\<close> is a function from the state to an \<open>outcome\<close>: \<open>Ok\<close> with value and new state, \<open>Err\<close> with
  the error and the state at the early return, or \<open>Panic\<close>. \<open>unwrap\<close>, \<open>expect\<close>, indexing, and arithmetic that overflows are panics; where
  a build flag decides whether overflow panics or wraps, it is a field \<open>checks\<close> of the environment. Undefined behaviour (an
  access to protected memory, a write past the end of a buffer) is a \<open>Panic\<close> too, so a theorem that excludes panics excludes it.

  A closure kept for later is a constructor that names it and holds what it captures; one function per actor
  (\<open>gw_dht_callback\<close>, \<open>mx_inner_callback\<close>, \<open>eng_space_callback\<close>, ...) runs it. The two ends of a channel share only the
  messages in transit, so an endpoint holds its receiving queue, and what it sends is appended to the other one's list. An actor sees a child it owns only
  through that queue: one \<open>process\<close> call of the child is a \<open>child_run\<close>, any list of messages with any ending. Theorems about an
  actor therefore hold for all behaviours of its children; the theorems of \<open>Engine_Paths\<close> and \<open>Legacy_Paths\<close> join several actors,
  and in \<open>Gateway_Node\<close> the children of a gateway are the modelled actors themselves (\<open>node_process_is_gateway\<close>).

  \<^bold>\<open>Parameters.\<close> What is not in the repository is an argument: clocks, fresh ids and backtraces (fields of the records
  \<open>..._env\<close>), renderings (\<open>dbg\<close> fields), and the packages \<open>url\<close> (\<open>url_lib\<close>), \<open>rmp_serde\<close> and \<open>capnp\<close> (\<open>wire_lib\<close>,
  \<open>capnp_lib\<close>), \<open>byteorder\<close>, the sockets (\<open>socket_api\<close>, \<open>tcp_api\<close>), \<open>tungstenite\<close> and \<open>native_tls\<close> (\<open>ws_lib\<close>), and libsodium (\<open>sodium\<close>).
  Documented behaviour a theorem needs is a named predicate on the argument (\<open>byteorder_laws\<close>, \<open>sodium_ok\<close>, \<open>capnp_ok\<close>), and its witness has
  a concrete instance.

  \<^bold>\<open>Termination.\<close> No definition has fuel: loops over queues and lists are structural recursions, the responder of the
  multicast DNS node terminates by a measure on its socket, and the one function of the program that
  never returns (\<open>SecureBuffer_fmt\<close>, which calls itself) is a \<open>partial_function (option)\<close>.

  \<^bold>\<open>Interfaces.\<close> \<open>keyed_table\<close> (interpreted by both request trackers), \<open>invariant_machine\<close> (the DHT, the websocket pool),
  \<open>callback_contract\<close> (what an actor's callbacks keep, processing its endpoint keeps: DHT, gateway, multiplexer, engine, websocket
  transport), \<open>callback_ledger\<close> and \<open>child_slot\<close> (callbacks move obligations: the three children of a gateway), \<open>section_codec\<close>
  (a reader that inverts a writer: questions and answers of a packet), \<open>lockable\<close> (memory that is accessed under locks: both kinds of protected buffers).
\<close>

text \<open>
  \<^bold>\<open>What is shown.\<close>

  \<^item> Actors: a response runs the callback bookmarked under its id once; a request and its answer make a round trip
    between two endpoints; messages are handled in order; the two wrappers agree; a detached part is always re-attached.
  \<^item> DHT: over any run, nothing held is forgotten and the invariant holds; gossip makes two nodes agree and then falls silent; a silent peer is
    reported once; a timestamp from the future panics or wraps.
  \<^item> Transports: first contact over the in-memory network; the endpoint adapter relays requests and events; the websocket
    pool never mixes plain and encrypted connections and accounts for each of them; no request is lost, though sends that wait are reordered.
  \<^item> Multicast DNS: packets are read back as written; an announcement gives a neighbour one record per url; a release
    removes a record only when it has aged; the responder drains its socket.
  \<^item> Gateway: no request of the owner is lost or answered twice by any \<open>process\<close> call; a send goes through DHT, encoder and
    transport, and arrives at the owner of the peer's gateway after four \<open>process\<close> calls in all; an unresolved one is retried and
    times out; a ping is answered in the same call, and its messages survive the encoding.
  \<^item> Multiplexer: routes stay distinct, and a route's request is answered to that route alone.
  \<^item> Engine: joined spaces keep their routes; joining a space and sending a direct message and its result work from client to
    client; a failing space loses the spaces behind it. The wrapper for older clients carries answers both ways under the client's ids.
  \<^item> Cryptography: over a libsodium that behaves as documented every operation stays within its memory and leaves buffers
    closed; encryption, signatures and key exchange come out right; short or open buffers break the older functions.
  \<^item> Values: merging entries is a union; uris keep what is set in them.

  The manifest lists the properties of most weight; the theories hold further theorems of the same kind. Findings record where the code
  fails what it means to do.

  \<^bold>\<open>Not modelled.\<close> The generated readers and writers of messages no Rust code reads or writes (the other structs of
  \<open>p2p_capnp.rs\<close>, all of \<open>multiplex_capnp.rs\<close> and \<open>transit_encoding_capnp.rs\<close>): they call the \<open>capnp\<close> package field by field and have no
  logic. \<open>dht/rrdht.rs\<close> is a stub that is not compiled. The crate \<open>ghost_actor\<close> is the code generator of a superseded actor framework. \<open>lib3h/src/bin/demo.rs\<close>, the example of
  \<open>mdns\<close>, and \<open>tools\<close> (the schema compiler's driver, a dump of sample messages as JSON) are programs around the library. \<open>ghost_test_harness.rs\<close>,
  \<open>transport_test_harness.rs\<close>, \<open>dht/mod.rs\<close>, \<open>crypto_system_test.rs\<close> and the \<open>tests\<close> directories are tests. Trait declarations
  (\<open>network_engine.rs\<close>, \<open>discovery/mod.rs\<close>) have no bodies. Logging, the capability and
  tracing spans of messages, and \<open>Debug\<close> renderings do not affect the state and are left out; renderings that become part of an error are parameters.
\<close>

end
